(* ===== verification/Json.thy ===== *)
theory Json
  imports Prelude
begin

text \<open>
  JSON documents as the services build, print and read them: the value type, the printer
  \<open>JSON.stringify\<close> and the reader \<open>JSON.parse\<close> of the language, and the round trip between
  them. The printing of numbers is the language's own (\<open>Number::toString\<close> on the shortest
  decimal of the number); a number is that decimal, a mantissa and a power of ten.
  Bounds: numbers read from text are kept as exact decimals (no rounding to binary64), and an
  escape \<open>\u\<close> above \<open>00ff\<close> is refused by the reader, as the model has no such character.
\<close>

section \<open>Values\<close>

text \<open>\<open>Dec neg m e\<close> is \<open>m * 10 ^ e\<close>, negated when \<open>neg\<close> holds; there is one zero.\<close>

datatype dec = Dec bool nat int

datatype json =
    JUndef
  | JNull
  | JBool bool
  | JNum dec
  | JStr string
  | JArr "json list"
  | JObj "(string \<times> json) list"

text \<open>The decimal of an integer: trailing zeros go to the exponent.\<close>

fun strip_zeros :: "nat \<Rightarrow> int \<Rightarrow> nat \<times> int" where
  "strip_zeros m e = (if m = 0 then (0, 0)
     else if m mod 10 = 0 then strip_zeros (m div 10) (e + 1) else (m, e))"

declare strip_zeros.simps [simp del]

definition mk_dec :: "bool \<Rightarrow> nat \<Rightarrow> int \<Rightarrow> dec" where
  "mk_dec neg m e = (case strip_zeros m e of (m', e') \<Rightarrow> Dec (neg \<and> m' \<noteq> 0) m' e')"

definition dec_of_int :: "int \<Rightarrow> dec" where
  "dec_of_int n = mk_dec (n < 0) (nat \<bar>n\<bar>) 0"

abbreviation JInt :: "int \<Rightarrow> json" where
  "JInt n \<equiv> JNum (dec_of_int n)"

fun dec_norm :: "dec \<Rightarrow> bool" where
  "dec_norm (Dec neg m e) = (if m = 0 then \<not> neg \<and> e = 0 else m mod 10 \<noteq> 0)"

lemma strip_zeros_norm:
  "strip_zeros m e = (m', e') \<Longrightarrow> (if m' = 0 then e' = 0 else m' mod 10 \<noteq> 0)"
  by (induction m e rule: strip_zeros.induct)
    (subst (asm) (2) strip_zeros.simps, auto split: if_splits)

lemma strip_zeros_value:
  "strip_zeros m e = (m', e') \<Longrightarrow> m \<noteq> 0 \<Longrightarrow> e \<le> e' \<and> m = m' * 10 ^ nat (e' - e)"
proof (induction m e rule: strip_zeros.induct)
  case (1 m e)
  show ?case
  proof (cases "m mod 10 = 0")
    case True
    with 1 have "strip_zeros (m div 10) (e + 1) = (m', e')" and "m div 10 \<noteq> 0"
      by (auto simp: strip_zeros.simps [of m e])
    with 1 True have IH: "e + 1 \<le> e' \<and> m div 10 = m' * 10 ^ nat (e' - (e + 1))"
      by blast
    then have "nat (e' - e) = Suc (nat (e' - (e + 1)))" by arith
    moreover from True have "m = 10 * (m div 10)" by auto
    ultimately show ?thesis using IH by auto
  next
    case False
    with 1 show ?thesis by (auto simp: strip_zeros.simps [of m e])
  qed
qed

lemma strip_zeros_shift:
  "m mod 10 \<noteq> 0 \<Longrightarrow> strip_zeros (m * 10 ^ k) e = (m, e + int k)"
proof (induction k arbitrary: e)
  case 0
  then show ?case by (subst strip_zeros.simps) auto
next
  case (Suc k)
  have "m * 10 ^ Suc k mod 10 = 0" and "m * 10 ^ Suc k div 10 = m * 10 ^ k"
    by auto
  moreover from Suc.prems have "m * 10 ^ Suc k \<noteq> 0" by (intro notI) auto
  ultimately show ?case
    using Suc by (subst strip_zeros.simps) (simp add: algebra_simps)
qed

lemma dec_norm_mk_dec [simp]: "dec_norm (mk_dec neg m e)"
proof -
  obtain m' e' where "strip_zeros m e = (m', e')" by (cases "strip_zeros m e")
  with strip_zeros_norm [OF this] show ?thesis by (auto simp: mk_dec_def split: if_splits)
qed

lemma dec_norm_of_int [simp]: "dec_norm (dec_of_int n)"
  by (simp add: dec_of_int_def)

text \<open>The signed mantissa, and the order on decimals (both brought to the smaller exponent).\<close>

fun dec_mant :: "dec \<Rightarrow> int" where
  "dec_mant (Dec neg m e) = (if neg then - int m else int m)"

fun dec_exp :: "dec \<Rightarrow> int" where
  "dec_exp (Dec neg m e) = e"

definition dec_le :: "dec \<Rightarrow> dec \<Rightarrow> bool" where
  "dec_le a b = (let k = min (dec_exp a) (dec_exp b)
     in dec_mant a * 10 ^ nat (dec_exp a - k) \<le> dec_mant b * 10 ^ nat (dec_exp b - k))"

definition dec_less :: "dec \<Rightarrow> dec \<Rightarrow> bool" where
  "dec_less a b = (\<not> dec_le b a)"

text \<open>\<open>Number.isInteger\<close>, and the integer such a number is.\<close>

definition dec_is_int :: "dec \<Rightarrow> bool" where
  "dec_is_int d = (0 \<le> dec_exp d \<or> dec_mant d mod 10 ^ nat (- dec_exp d) = 0)"

definition int_of_dec :: "dec \<Rightarrow> int" where
  "int_of_dec d = (if 0 \<le> dec_exp d then dec_mant d * 10 ^ nat (dec_exp d)
     else dec_mant d div 10 ^ nat (- dec_exp d))"

lemma dec_of_int_cases:
  obtains (zero) "n = 0" "dec_of_int n = Dec False 0 0"
  | (pos) m k where "n \<noteq> 0" "dec_of_int n = Dec (n < 0) m (int k)" "nat \<bar>n\<bar> = m * 10 ^ k"
proof (cases "n = 0")
  case True
  then show ?thesis
    by (intro zero) (simp_all add: dec_of_int_def mk_dec_def strip_zeros.simps)
next
  case False
  obtain m e where me: "strip_zeros (nat \<bar>n\<bar>) 0 = (m, e)" by (cases "strip_zeros (nat \<bar>n\<bar>) 0")
  from False have "nat \<bar>n\<bar> \<noteq> 0" by simp
  with strip_zeros_value [OF me] have v: "0 \<le> e" "nat \<bar>n\<bar> = m * 10 ^ nat e" by auto
  with False have "m \<noteq> 0" by (intro notI) auto
  with False me v show ?thesis
    by (intro pos [of m "nat e"]) (auto simp: dec_of_int_def mk_dec_def)
qed

lemma dec_is_int_of_int [simp]: "dec_is_int (dec_of_int n)"
  by (cases n rule: dec_of_int_cases) (auto simp: dec_is_int_def)

lemma int_of_dec_of_int [simp]: "int_of_dec (dec_of_int n) = n"
proof (cases n rule: dec_of_int_cases)
  case zero
  then show ?thesis by (simp add: int_of_dec_def)
next
  case (pos m k)
  then have "\<bar>n\<bar> = int m * 10 ^ k"
    by (metis abs_ge_zero int_nat_eq of_nat_mult of_nat_numeral of_nat_power)
  with pos show ?thesis by (auto simp: int_of_dec_def)
qed

lemma dec_of_int_inject [simp]: "dec_of_int m = dec_of_int n \<longleftrightarrow> m = n"
  by (metis int_of_dec_of_int)

lemma dec_le_of_int [simp]: "dec_le (dec_of_int a) (dec_of_int b) \<longleftrightarrow> a \<le> b"
proof -
  have scale: "dec_mant (dec_of_int n) * 10 ^ nat (dec_exp (dec_of_int n) - k) * 10 ^ nat k = n"
    if "0 \<le> k" "k \<le> dec_exp (dec_of_int n)" for n k
  proof -
    have "nat (dec_exp (dec_of_int n)) = nat (dec_exp (dec_of_int n) - k) + nat k"
      using that by arith
    then have "dec_mant (dec_of_int n) * 10 ^ nat (dec_exp (dec_of_int n) - k) * 10 ^ nat k
        = int_of_dec (dec_of_int n)"
      using that by (simp add: int_of_dec_def power_add)
    then show ?thesis by simp
  qed
  have nonneg: "0 \<le> dec_exp (dec_of_int n)" for n
    by (cases n rule: dec_of_int_cases) auto
  define k where "k = min (dec_exp (dec_of_int a)) (dec_exp (dec_of_int b))"
  have k: "0 \<le> k" "k \<le> dec_exp (dec_of_int a)" "k \<le> dec_exp (dec_of_int b)"
    using nonneg [of a] nonneg [of b] by (auto simp: k_def)
  have "(0::int) < 10 ^ nat k" by simp
  then have "dec_le (dec_of_int a) (dec_of_int b) \<longleftrightarrow>
      dec_mant (dec_of_int a) * 10 ^ nat (dec_exp (dec_of_int a) - k) * 10 ^ nat k
      \<le> dec_mant (dec_of_int b) * 10 ^ nat (dec_exp (dec_of_int b) - k) * 10 ^ nat k"
    by (simp only: dec_le_def Let_def k_def [symmetric] mult_le_cancel_right_pos)
  with k show ?thesis by (simp only: scale)
qed

lemma dec_less_of_int [simp]: "dec_less (dec_of_int a) (dec_of_int b) \<longleftrightarrow> a < b"
  by (auto simp: dec_less_def)

section \<open>Decimal digits\<close>

definition digit_char :: "nat \<Rightarrow> char" where
  "digit_char d = char_of (48 + d)"

definition digit_val :: "char \<Rightarrow> nat" where
  "digit_val c = of_char c - 48"

definition is_digit :: "char \<Rightarrow> bool" where
  "is_digit c = (48 \<le> (of_char c :: nat) \<and> (of_char c :: nat) \<le> 57)"

lemma of_char_digit_char: "d < 10 \<Longrightarrow> (of_char (digit_char d) :: nat) = 48 + d"
  by (simp add: digit_char_def)

lemma digit_char_simps [simp]:
  "d < 10 \<Longrightarrow> digit_val (digit_char d) = d" "d < 10 \<Longrightarrow> is_digit (digit_char d)"
  by (simp_all add: digit_val_def is_digit_def of_char_digit_char)

lemma digit_char_neq:
  "d < 10 \<Longrightarrow> \<not> is_digit c \<Longrightarrow> digit_char d \<noteq> c" "d < 10 \<Longrightarrow> \<not> is_digit c \<Longrightarrow> c \<noteq> digit_char d"
  using digit_char_simps(2) by blast+

lemma not_is_digit [simp]:
  "\<not> is_digit CHR ''-''" "\<not> is_digit CHR ''.''" "\<not> is_digit CHR ''e''" "\<not> is_digit CHR ''E''"
  "\<not> is_digit CHR ''+''" "\<not> is_digit CHR '',''" "\<not> is_digit CHR '']''" "\<not> is_digit CHR ''}''"
  "\<not> is_digit CHR ''t''" "\<not> is_digit CHR ''f''" "\<not> is_digit CHR ''n''" "\<not> is_digit CHR ''[''"
  "\<not> is_digit CHR ''{''" "\<not> is_digit CHR 0x22"
  by (simp_all add: is_digit_def)

fun nat_digits :: "nat \<Rightarrow> string" where
  "nat_digits n = (if n < 10 then [digit_char n] else nat_digits (n div 10) @ [digit_char (n mod 10)])"

declare nat_digits.simps [simp del]

definition digits_val :: "string \<Rightarrow> nat" where
  "digits_val s = foldl (\<lambda>a c. 10 * a + digit_val c) 0 s"

lemma digits_val_append: "digits_val (s @ [c]) = 10 * digits_val s + digit_val c"
  by (simp add: digits_val_def)

lemma nat_digits_not_Nil [simp]: "nat_digits n \<noteq> []"
  by (subst nat_digits.simps) simp

lemma nat_digits_all: "\<forall>c \<in> set (nat_digits n). is_digit c"
proof (induction n rule: nat_digits.induct)
  case (1 n)
  then show ?case by (subst nat_digits.simps) auto
qed

lemma digits_val_nat_digits [simp]: "digits_val (nat_digits n) = n"
proof (induction n rule: nat_digits.induct)
  case (1 n)
  show ?case
  proof (cases "n < 10")
    case True
    then show ?thesis by (subst nat_digits.simps) (simp add: digits_val_def)
  next
    case False
    with 1 show ?thesis by (subst nat_digits.simps) (simp add: digits_val_append)
  qed
qed

lemma nat_digits_hd: "0 < n \<Longrightarrow> hd (nat_digits n) \<noteq> CHR ''0''"
proof (induction n rule: nat_digits.induct)
  case (1 n)
  show ?case
  proof (cases "n < 10")
    case True
    with 1 have "(of_char (digit_char n) :: nat) \<noteq> of_char CHR ''0''"
      by (simp add: of_char_digit_char)
    with True show ?thesis by (subst nat_digits.simps) auto
  next
    case False
    with 1 show ?thesis by (subst nat_digits.simps) simp
  qed
qed

lemma digits_val_zeros: "digits_val (s @ replicate k CHR ''0'') = digits_val s * 10 ^ k"
proof (induction k)
  case 0
  then show ?case by simp
next
  case (Suc k)
  then show ?case
    by (simp add: replicate_append_same [symmetric] digits_val_append append_assoc [symmetric]
        del: append_assoc) (simp add: digit_val_def)
qed

lemma digits_val_leading_zeros: "digits_val (replicate k CHR ''0'' @ s) = digits_val s"
proof -
  have "foldl (\<lambda>a c. 10 * a + digit_val c) 0 (replicate k CHR ''0'') = 0"
    by (induction k) (simp_all add: digit_val_def)
  then show ?thesis by (simp add: digits_val_def)
qed

section \<open>Printing: \<open>JSON.stringify\<close>\<close>

text \<open>\<open>Number::toString\<close> of the number with digits \<open>ds\<close>, whose decimal point stands after
  the first \<open>n\<close> of them.\<close>

definition exp_str :: "int \<Rightarrow> string" where
  "exp_str x = CHR ''e'' # (if x < 0 then CHR ''-'' else CHR ''+'') # nat_digits (nat \<bar>x\<bar>)"

definition digits_str :: "string \<Rightarrow> int \<Rightarrow> string" where
  "digits_str ds n =
    (let k = int (length ds) in
     if k \<le> n \<and> n \<le> 21 then ds @ replicate (nat (n - k)) CHR ''0''
     else if 0 < n \<and> n \<le> 21 then take (nat n) ds @ CHR ''.'' # drop (nat n) ds
     else if - 6 < n \<and> n \<le> 0 then ''0.'' @ replicate (nat (- n)) CHR ''0'' @ ds
     else if k = 1 then ds @ exp_str (n - 1)
     else hd ds # CHR ''.'' # tl ds @ exp_str (n - 1))"

fun dec_str :: "dec \<Rightarrow> string" where
  "dec_str (Dec neg m e) =
    (if m = 0 then ''0''
     else (if neg then ''-'' else []) @ digits_str (nat_digits m) (e + int (length (nat_digits m))))"

text \<open>\<open>JSON.stringify\<close> of a string: \<open>QuoteJSONString\<close>.\<close>

definition hex_char :: "nat \<Rightarrow> char" where
  "hex_char d = (if d < 10 then char_of (48 + d) else char_of (87 + d))"

definition quote_char :: "char \<Rightarrow> string" where
  "quote_char c =
    (if c = CHR 0x22 then [CHR 0x5C, CHR 0x22]
     else if c = CHR 0x5C then [CHR 0x5C, CHR 0x5C]
     else if c = CHR 0x08 then [CHR 0x5C, CHR ''b'']
     else if c = CHR 0x0C then [CHR 0x5C, CHR ''f'']
     else if c = CHR 0x0A then [CHR 0x5C, CHR ''n'']
     else if c = CHR 0x0D then [CHR 0x5C, CHR ''r'']
     else if c = CHR 0x09 then [CHR 0x5C, CHR ''t'']
     else if (of_char c :: nat) < 32
     then [CHR 0x5C, CHR ''u'', CHR ''0'', CHR ''0'', hex_char (of_char c div 16), hex_char (of_char c mod 16)]
     else [c])"

definition quote :: "string \<Rightarrow> string" where
  "quote s = CHR 0x22 # concat (map quote_char s) @ [CHR 0x22]"

text \<open>A field whose value is \<open>undefined\<close> is left out; inside an array \<open>undefined\<close> prints as
  \<open>null\<close>. (At the top, \<open>JSON.stringify(undefined)\<close> is \<open>undefined\<close>: no caller does that.)\<close>

fun stringify :: "json \<Rightarrow> string" where
  "stringify JUndef = ''null''"
| "stringify JNull = ''null''"
| "stringify (JBool b) = (if b then ''true'' else ''false'')"
| "stringify (JNum d) = dec_str d"
| "stringify (JStr s) = quote s"
| "stringify (JArr vs) = ''['' @ join '','' (map stringify vs) @ '']''"
| "stringify (JObj es) =
     ''{'' @ join '','' (map (\<lambda>e. quote (fst e) @ '':'' @ stringify (snd e))
       (filter (\<lambda>e. snd e \<noteq> JUndef) es)) @ ''}''"

section \<open>Reading numbers\<close>

definition is_ws :: "char \<Rightarrow> bool" where
  "is_ws c = (c = CHR '' '' \<or> c = CHR 0x0A \<or> c = CHR 0x0D \<or> c = CHR 0x09)"

definition skip_ws :: "string \<Rightarrow> string" where
  "skip_ws s = dropWhile is_ws s"

definition p_digits :: "string \<Rightarrow> (string \<times> string) option" where
  "p_digits s = (let ds = takeWhile is_digit s
     in if ds = [] then None else Some (ds, dropWhile is_digit s))"

definition p_int :: "string \<Rightarrow> (string \<times> string) option" where
  "p_int s = (if s \<noteq> [] \<and> hd s = CHR ''0'' then Some (''0'', tl s) else p_digits s)"

definition p_frac :: "string \<Rightarrow> (string \<times> string) option" where
  "p_frac s = (if s \<noteq> [] \<and> hd s = CHR ''.'' then p_digits (tl s) else Some ([], s))"

definition p_exp :: "string \<Rightarrow> (int \<times> string) option" where
  "p_exp s =
    (if s \<noteq> [] \<and> (hd s = CHR ''e'' \<or> hd s = CHR ''E'')
     then (let t = tl s; signed = (t \<noteq> [] \<and> (hd t = CHR ''-'' \<or> hd t = CHR ''+''))
       in (case p_digits (if signed then tl t else t) of
            None \<Rightarrow> None
          | Some (ds, r) \<Rightarrow>
              Some (if signed \<and> hd t = CHR ''-'' then - int (digits_val ds) else int (digits_val ds), r)))
     else Some (0, s))"

definition p_number :: "string \<Rightarrow> (dec \<times> string) option" where
  "p_number s =
    (let neg = (s \<noteq> [] \<and> hd s = CHR ''-'') in
     (case p_int (if neg then tl s else s) of None \<Rightarrow> None
      | Some (ip, s2) \<Rightarrow>
     (case p_frac s2 of None \<Rightarrow> None
      | Some (fp, s3) \<Rightarrow>
     (case p_exp s3 of None \<Rightarrow> None
      | Some (x, s4) \<Rightarrow> Some (mk_dec neg (digits_val (ip @ fp)) (x - int (length fp)), s4)))))"

text \<open>What may follow a number: nothing that would continue it.\<close>

definition num_stop :: "string \<Rightarrow> bool" where
  "num_stop r = (r = [] \<or>
     (\<not> is_digit (hd r) \<and> hd r \<noteq> CHR ''.'' \<and> hd r \<noteq> CHR ''e'' \<and> hd r \<noteq> CHR ''E''))"

lemma num_stop_simps [simp]:
  "num_stop []" "num_stop (CHR '','' # r)" "num_stop (CHR '']'' # r)" "num_stop (CHR ''}'' # r)"
  by (simp_all add: num_stop_def)

lemma num_stop_not_digit: "num_stop r \<Longrightarrow> r = [] \<or> \<not> is_digit (hd r)"
  by (auto simp: num_stop_def)

lemma p_digits_append:
  assumes "\<forall>c \<in> set ds. is_digit c" "ds \<noteq> []" "r = [] \<or> \<not> is_digit (hd r)"
  shows "p_digits (ds @ r) = Some (ds, r)"
proof -
  have "takeWhile is_digit (ds @ r) = ds" "dropWhile is_digit (ds @ r) = r"
    using assms by (cases r; auto simp: takeWhile_append dropWhile_append)+
  with assms(2) show ?thesis by (simp add: p_digits_def)
qed

lemma p_int_append:
  assumes "\<forall>c \<in> set ds. is_digit c" "ds \<noteq> []" "hd ds \<noteq> CHR ''0''" "r = [] \<or> \<not> is_digit (hd r)"
  shows "p_int (ds @ r) = Some (ds, r)"
  using assms p_digits_append [of ds r] by (cases ds) (auto simp: p_int_def)

lemma p_frac_none: "num_stop r \<Longrightarrow> p_frac r = Some ([], r)"
  by (auto simp: p_frac_def num_stop_def)

lemma p_exp_none: "num_stop r \<Longrightarrow> p_exp r = Some (0, r)"
  by (auto simp: p_exp_def num_stop_def)

lemma p_exp_str:
  assumes "num_stop r"
  shows "p_exp (exp_str x @ r) = Some (x, r)"
  using p_digits_append [OF nat_digits_all nat_digits_not_Nil num_stop_not_digit [OF assms], of "nat \<bar>x\<bar>"]
  by (auto simp: p_exp_def exp_str_def)

lemma p_frac_digits:
  assumes "\<forall>c \<in> set ds. is_digit c" "ds \<noteq> []" "r = [] \<or> \<not> is_digit (hd r)"
  shows "p_frac (CHR ''.'' # ds @ r) = Some (ds, r)"
  using p_digits_append [OF assms] by (simp add: p_frac_def)

lemma exp_str_stop: "exp_str x @ r = [] \<or> \<not> is_digit (hd (exp_str x @ r))"
  by (simp add: exp_str_def)

text \<open>The three parts of a printed number, read back.\<close>

definition num_parts :: "string \<Rightarrow> string \<Rightarrow> string \<Rightarrow> int \<Rightarrow> string \<Rightarrow> bool" where
  "num_parts s ip fp x r = (\<exists>s2 s3. p_int s = Some (ip, s2) \<and> p_frac s2 = Some (fp, s3) \<and> p_exp s3 = Some (x, r))"

lemma digits_str_parts:
  assumes ds: "\<forall>c \<in> set ds. is_digit c" "ds \<noteq> []" "hd ds \<noteq> CHR ''0''" and r: "num_stop r"
  shows "\<exists>ip fp x. num_parts (digits_str ds n @ r) ip fp x r \<and>
    (\<exists>j. digits_val (ip @ fp) = digits_val ds * 10 ^ j
       \<and> x - int (length fp) = n - int (length ds) - int j)"
proof -
  note stop = num_stop_not_digit [OF r]
  let ?k = "int (length ds)"
  consider (plain) "?k \<le> n" "n \<le> 21" | (point) "0 < n" "n \<le> 21" "n < ?k"
    | (small) "- 6 < n" "n \<le> 0" | (exp1) "n \<le> - 6 \<or> 21 < n" "?k = 1"
    | (exp) "n \<le> - 6 \<or> 21 < n" "?k \<noteq> 1" by linarith
  then show ?thesis
  proof cases
    case plain
    let ?z = "replicate (nat (n - ?k)) CHR ''0''"
    have "digits_str ds n = ds @ ?z" using plain by (simp add: digits_str_def)
    moreover have "p_int ((ds @ ?z) @ r) = Some (ds @ ?z, r)"
      by (rule p_int_append) (use ds stop in \<open>auto simp: is_digit_def\<close>)
    ultimately have "num_parts (digits_str ds n @ r) (ds @ ?z) [] 0 r"
      using p_frac_none [OF r] p_exp_none [OF r] by (simp add: num_parts_def)
    then show ?thesis using plain
      by (intro exI [of _ "ds @ ?z"] exI [of _ "[]"] exI [of _ 0] exI [of _ "nat (n - ?k)"] conjI)
        (auto simp: digits_val_zeros)
  next
    case point
    let ?a = "take (nat n) ds" and ?b = "drop (nat n) ds"
    have "digits_str ds n = ?a @ CHR ''.'' # ?b" using point by (simp add: digits_str_def)
    moreover have "p_int (?a @ CHR ''.'' # ?b @ r) = Some (?a, CHR ''.'' # ?b @ r)"
      by (rule p_int_append) (use ds point in \<open>auto dest: in_set_takeD simp: hd_conv_nth\<close>)
    moreover have "p_frac (CHR ''.'' # ?b @ r) = Some (?b, r)"
      by (rule p_frac_digits) (use ds point stop in \<open>auto dest: in_set_dropD\<close>)
    ultimately have "num_parts (digits_str ds n @ r) ?a ?b 0 r"
      using p_exp_none [OF r] by (simp add: num_parts_def)
    then show ?thesis using point
      by (intro exI [of _ ?a] exI [of _ ?b] exI [of _ 0] exI [of _ 0] conjI) auto
  next
    case small
    let ?b = "replicate (nat (- n)) CHR ''0'' @ ds"
    have k: "\<not> ?k \<le> n" using small ds by (cases ds) auto
    with small have "digits_str ds n = ''0.'' @ ?b" by (simp add: digits_str_def)
    moreover have "p_int (CHR ''0'' # CHR ''.'' # ?b @ r) = Some (''0'', CHR ''.'' # ?b @ r)"
      by (simp add: p_int_def)
    moreover have "p_frac (CHR ''.'' # ?b @ r) = Some (?b, r)"
      by (rule p_frac_digits) (use ds stop in \<open>auto simp: is_digit_def\<close>)
    ultimately have "num_parts (digits_str ds n @ r) ''0'' ?b 0 r"
      using p_exp_none [OF r] by (simp add: num_parts_def)
    moreover have "digits_val (''0'' @ ?b) = digits_val ds"
      using digits_val_leading_zeros [of "Suc (nat (- n))" ds] by simp
    ultimately show ?thesis using small
      by (intro exI [of _ "''0''"] exI [of _ ?b] exI [of _ 0] exI [of _ 0] conjI) auto
  next
    case exp1
    have "digits_str ds n = ds @ exp_str (n - 1)" using exp1 by (auto simp: digits_str_def)
    moreover have "p_int (ds @ exp_str (n - 1) @ r) = Some (ds, exp_str (n - 1) @ r)"
      by (rule p_int_append) (use ds exp_str_stop in auto)
    moreover have "p_frac (exp_str (n - 1) @ r) = Some ([], exp_str (n - 1) @ r)"
      by (simp add: p_frac_def exp_str_def)
    ultimately have "num_parts (digits_str ds n @ r) ds [] (n - 1) r"
      using p_exp_str [OF r] by (simp add: num_parts_def)
    then show ?thesis using exp1
      by (intro exI [of _ ds] exI [of _ "[]"] exI [of _ "n - 1"] exI [of _ 0] conjI) auto
  next
    case exp
    obtain d d' t where d: "ds = d # d' # t"
      using ds(2) exp by (cases ds; cases "tl ds") auto
    have "digits_str ds n = [d] @ CHR ''.'' # (d' # t) @ exp_str (n - 1)"
      using exp d by (auto simp: digits_str_def)
    moreover have "p_int ([d] @ CHR ''.'' # (d' # t) @ exp_str (n - 1) @ r)
        = Some ([d], CHR ''.'' # (d' # t) @ exp_str (n - 1) @ r)"
      by (rule p_int_append) (use ds d in auto)
    moreover have "p_frac (CHR ''.'' # (d' # t) @ exp_str (n - 1) @ r) = Some (d' # t, exp_str (n - 1) @ r)"
      by (rule p_frac_digits) (use ds d exp_str_stop in auto)
    ultimately have "num_parts (digits_str ds n @ r) [d] (d' # t) (n - 1) r"
      using p_exp_str [OF r] by (simp add: num_parts_def)
    then show ?thesis using d
      by (intro exI [of _ "[d]"] exI [of _ "d' # t"] exI [of _ "n - 1"] exI [of _ 0] conjI) auto
  qed
qed

lemma digits_str_hd:
  assumes "\<forall>c \<in> set ds. is_digit c" "ds \<noteq> []"
  shows "\<exists>c t. digits_str ds n = c # t \<and> is_digit c"
proof -
  obtain d t where "ds = d # t" using assms(2) by (cases ds) auto
  with assms(1) show ?thesis
    by (auto simp: digits_str_def Let_def is_digit_def take_Cons' )
qed

text \<open>A printed number is read back, whatever harmless text follows.\<close>

lemma p_number_dec_str:
  assumes d: "dec_norm d" and r: "num_stop r"
  shows "p_number (dec_str d @ r) = Some (d, r)"
proof -
  obtain neg m e where D: "d = Dec neg m e" by (cases d)
  show ?thesis
  proof (cases "m = 0")
    case True
    with d D have "d = Dec False 0 0" by simp
    with True D show ?thesis
      using p_frac_none [OF r] p_exp_none [OF r]
      by (simp add: p_number_def p_int_def digits_val_def digit_val_def mk_dec_def strip_zeros.simps)
  next
    case False
    let ?ds = "nat_digits m"
    let ?s = "digits_str ?ds (e + int (length ?ds))"
    from False D d have m10: "m mod 10 \<noteq> 0" by simp
    have ds: "\<forall>c \<in> set ?ds. is_digit c" "?ds \<noteq> []" "hd ?ds \<noteq> CHR ''0''"
      using nat_digits_all nat_digits_hd False by auto
    obtain ip fp x j where np: "num_parts (?s @ r) ip fp x r"
      and j: "digits_val (ip @ fp) = digits_val ?ds * 10 ^ j"
        "x - int (length fp) = (e + int (length ?ds)) - int (length ?ds) - int j"
      using digits_str_parts [OF ds r, of "e + int (length ?ds)"] by blast
    have "mk_dec neg (digits_val (ip @ fp)) (x - int (length fp)) = d"
      using D False m10 j by (simp add: mk_dec_def strip_zeros_shift)
    moreover obtain c t where ct: "?s = c # t" "is_digit c"
      using digits_str_hd [OF ds(1,2)] by blast
    moreover have "c \<noteq> CHR ''-''" using ct by auto
    ultimately show ?thesis
      using np D False by (auto simp: p_number_def num_parts_def)
  qed
qed

lemma dec_str_hd:
  assumes "dec_norm d"
  shows "\<exists>c t. dec_str d = c # t \<and> (is_digit c \<or> c = CHR ''-'')"
proof -
  obtain neg m e where D: "d = Dec neg m e" by (cases d)
  show ?thesis
    using D digits_str_hd [OF nat_digits_all nat_digits_not_Nil, of m "e + int (length (nat_digits m))"]
    by (auto simp: is_digit_def)
qed

section \<open>Reading strings\<close>

definition hex_val :: "char \<Rightarrow> nat option" where
  "hex_val c = (let n = of_char c in
     if 48 \<le> n \<and> n \<le> 57 then Some (n - 48)
     else if 97 \<le> n \<and> n \<le> 102 then Some (n - 87)
     else if 65 \<le> n \<and> n \<le> 70 then Some (n - 55) else None)"

definition hex2 :: "char \<Rightarrow> char \<Rightarrow> char option" where
  "hex2 a b = (case (hex_val a, hex_val b) of
     (Some x, Some y) \<Rightarrow> Some (char_of (16 * x + y)) | _ \<Rightarrow> None)"

definition unescape :: "char \<Rightarrow> char option" where
  "unescape c =
    (if c = CHR 0x22 \<or> c = CHR 0x5C \<or> c = CHR ''/'' then Some c
     else if c = CHR ''b'' then Some (CHR 0x08)
     else if c = CHR ''f'' then Some (CHR 0x0C)
     else if c = CHR ''n'' then Some (CHR 0x0A)
     else if c = CHR ''r'' then Some (CHR 0x0D)
     else if c = CHR ''t'' then Some (CHR 0x09)
     else None)"

text \<open>The characters after the opening quote, up to the closing one.\<close>

fun p_chars :: "string \<Rightarrow> (string \<times> string) option" where
  "p_chars [] = None"
| "p_chars (c # s) =
    (if c = CHR 0x22 then Some ([], s)
     else if c = CHR 0x5C then
       (case s of
          [] \<Rightarrow> None
        | x # s' \<Rightarrow>
            if x = CHR ''u'' then
              (case s' of
                 z1 # z2 # h1 # h2 # t \<Rightarrow>
                   if z1 = CHR ''0'' \<and> z2 = CHR ''0'' then
                     (case hex2 h1 h2 of None \<Rightarrow> None
                      | Some k \<Rightarrow> (case p_chars t of None \<Rightarrow> None | Some (ks, r) \<Rightarrow> Some (k # ks, r)))
                   else None
               | _ \<Rightarrow> None)
            else
              (case unescape x of None \<Rightarrow> None
               | Some k \<Rightarrow> (case p_chars s' of None \<Rightarrow> None | Some (ks, r) \<Rightarrow> Some (k # ks, r))))
     else if (of_char c :: nat) < 32 then None
     else (case p_chars s of None \<Rightarrow> None | Some (ks, r) \<Rightarrow> Some (c # ks, r)))"

lemma hex2_hex_char:
  assumes "n < 32"
  shows "hex2 (hex_char (n div 16)) (hex_char (n mod 16)) = Some (char_of n)"
proof -
  have v: "hex_val (hex_char k) = Some k" if "k < 16" for k
    using that by (auto simp: hex_val_def hex_char_def)
  from assms show ?thesis by (simp add: hex2_def v)
qed

lemma p_chars_quote_char:
  "p_chars (quote_char c @ s) = (case p_chars s of None \<Rightarrow> None | Some (ks, r) \<Rightarrow> Some (c # ks, r))"
  using hex2_hex_char [of "of_char c"]
  by (auto simp: quote_char_def unescape_def)

lemma p_chars_quote: "p_chars (concat (map quote_char s) @ CHR 0x22 # r) = Some (s, r)"
  by (induction s) (simp_all add: p_chars_quote_char)

section \<open>Reading values: \<open>JSON.parse\<close>\<close>

text \<open>The reader runs on fuel; \<open>json_parse\<close> gives it twice the length of the text, which is
  always enough (\<open>p_val_fuel\<close>). A repeated key of an object keeps its place and takes the
  last value.\<close>

definition strip_prefix :: "string \<Rightarrow> string \<Rightarrow> string option" where
  "strip_prefix p s = (if starts_with s p then Some (drop (length p) s) else None)"

definition p_atom :: "string \<Rightarrow> (json \<times> string) option" where
  "p_atom s =
    (case strip_prefix ''true'' s of Some r \<Rightarrow> Some (JBool True, r) | None \<Rightarrow>
    (case strip_prefix ''false'' s of Some r \<Rightarrow> Some (JBool False, r) | None \<Rightarrow>
    (case strip_prefix ''null'' s of Some r \<Rightarrow> Some (JNull, r) | None \<Rightarrow>
    (case p_number s of Some (d, r) \<Rightarrow> Some (JNum d, r) | None \<Rightarrow> None))))"

definition p_key :: "string \<Rightarrow> (string \<times> string) option" where
  "p_key s =
    (case skip_ws s of [] \<Rightarrow> None
     | q # t \<Rightarrow> if q = CHR 0x22 then
         (case p_chars t of None \<Rightarrow> None
          | Some (k, r) \<Rightarrow>
            (case skip_ws r of [] \<Rightarrow> None | c # r' \<Rightarrow> if c = CHR '':'' then Some (k, r') else None))
       else None)"

fun p_val :: "nat \<Rightarrow> string \<Rightarrow> (json \<times> string) option"
  and p_elems :: "nat \<Rightarrow> string \<Rightarrow> (json list \<times> string) option"
  and p_members :: "nat \<Rightarrow> string \<Rightarrow> ((string \<times> json) list \<times> string) option" where
  "p_val 0 s = None"
| "p_val (Suc n) s =
    (case skip_ws s of [] \<Rightarrow> None
     | c # t \<Rightarrow>
       if c = CHR 0x22 then map_option (map_prod JStr id) (p_chars t)
       else if c = CHR ''['' then
         (if starts_with (skip_ws t) '']'' then Some (JArr [], tl (skip_ws t))
          else map_option (map_prod JArr id) (p_elems n t))
       else if c = CHR ''{'' then
         (if starts_with (skip_ws t) ''}'' then Some (JObj [], tl (skip_ws t))
          else map_option (map_prod
              (\<lambda>ms. JObj (foldl (\<lambda>al p. AList.update (fst p) (snd p) al) [] ms)) id)
            (p_members n t))
       else p_atom (c # t))"
| "p_elems 0 s = None"
| "p_elems (Suc n) s =
    (case p_val n s of None \<Rightarrow> None
     | Some (v, r) \<Rightarrow>
       (case skip_ws r of [] \<Rightarrow> None
        | c # r' \<Rightarrow>
          if c = CHR '','' then map_option (map_prod (\<lambda>vs. v # vs) id) (p_elems n r')
          else if c = CHR '']'' then Some ([v], r') else None))"
| "p_members 0 s = None"
| "p_members (Suc n) s =
    (case p_key s of None \<Rightarrow> None
     | Some (k, r0) \<Rightarrow>
       (case p_val n r0 of None \<Rightarrow> None
        | Some (v, r) \<Rightarrow>
          (case skip_ws r of [] \<Rightarrow> None
           | c # r' \<Rightarrow>
             if c = CHR '','' then map_option (map_prod (\<lambda>ms. (k, v) # ms) id) (p_members n r')
             else if c = CHR ''}'' then Some ([(k, v)], r') else None)))"

definition json_parse :: "string \<Rightarrow> json option" where
  "json_parse s = (case p_val (2 * length s + 1) s of None \<Rightarrow> None
     | Some (v, r) \<Rightarrow> if skip_ws r = [] then Some v else None)"

section \<open>What survives printing\<close>

text \<open>\<open>JSON.parse(JSON.stringify(v))\<close>: undefined fields are gone, undefined elements are null.\<close>

fun clean :: "json \<Rightarrow> json" where
  "clean JUndef = JNull"
| "clean JNull = JNull"
| "clean (JBool b) = JBool b"
| "clean (JNum d) = JNum d"
| "clean (JStr s) = JStr s"
| "clean (JArr vs) = JArr (map clean vs)"
| "clean (JObj es) = JObj (map (\<lambda>e. (fst e, clean (snd e))) (filter (\<lambda>e. snd e \<noteq> JUndef) es))"

fun wf_json :: "json \<Rightarrow> bool" where
  "wf_json (JNum d) = dec_norm d"
| "wf_json (JArr vs) = (\<forall>v \<in> set vs. wf_json v)"
| "wf_json (JObj es) = (distinct (map fst es) \<and> (\<forall>e \<in> set es. wf_json (snd e)))"
| "wf_json _ = True"

lemma skip_ws_id: "s \<noteq> [] \<Longrightarrow> \<not> is_ws (hd s) \<Longrightarrow> skip_ws s = s"
  by (cases s) (simp_all add: skip_ws_def)

lemma skip_ws_Nil [simp]: "skip_ws [] = []"
  by (simp add: skip_ws_def)

lemma skip_ws_Cons [simp]: "\<not> is_ws c \<Longrightarrow> skip_ws (c # s) = c # s"
  by (simp add: skip_ws_def)

lemma not_is_ws [simp]:
  "\<not> is_ws CHR 0x22" "\<not> is_ws CHR ''[''" "\<not> is_ws CHR '']''" "\<not> is_ws CHR ''{''" "\<not> is_ws CHR ''}''"
  "\<not> is_ws CHR '',''" "\<not> is_ws CHR '':''" "\<not> is_ws CHR ''t''" "\<not> is_ws CHR ''f''" "\<not> is_ws CHR ''n''"
  "\<not> is_ws CHR ''-''"
  by (simp_all add: is_ws_def)

lemma is_digit_not_ws: "is_digit c \<Longrightarrow> \<not> is_ws c"
  by (auto simp: is_digit_def is_ws_def)

definition val_start :: "char \<Rightarrow> bool" where
  "val_start c = (\<not> is_ws c \<and> c \<noteq> CHR '']'' \<and> c \<noteq> CHR ''}'')"

lemma stringify_hd: "wf_json v \<Longrightarrow> \<exists>c t. stringify v = c # t \<and> val_start c"
proof (cases v)
  case (JNum d)
  assume "wf_json v"
  with JNum dec_str_hd [of d] obtain c t where "dec_str d = c # t" "is_digit c \<or> c = CHR ''-''"
    by auto
  with JNum show ?thesis by (auto simp: val_start_def is_digit_not_ws)
qed (auto simp: val_start_def quote_def)

lemma p_atom_number:
  assumes "dec_norm d" "num_stop r"
  shows "p_atom (dec_str d @ r) = Some (JNum d, r)"
proof -
  obtain c t where ct: "dec_str d = c # t" "is_digit c \<or> c = CHR ''-''"
    using dec_str_hd [OF assms(1)] by blast
  then have "c \<noteq> CHR ''t''" "c \<noteq> CHR ''f''" "c \<noteq> CHR ''n''" by auto
  with p_number_dec_str [OF assms] ct show ?thesis
    by (simp add: p_atom_def strip_prefix_def)
qed

text \<open>A value's text, read with enough fuel before a character that ends it.\<close>

definition reads :: "json \<Rightarrow> json \<Rightarrow> bool" where
  "reads v w = (\<forall>n r. 2 * length (stringify v) \<le> n \<longrightarrow> num_stop r \<longrightarrow>
     p_val n (stringify v @ r) = Some (w, r))"

lemma readsD:
  "reads v w \<Longrightarrow> 2 * length (stringify v) \<le> n \<Longrightarrow> num_stop r \<Longrightarrow> p_val n (stringify v @ r) = Some (w, r)"
  by (simp add: reads_def)

lemma readsI:
  assumes "\<And>n r. 2 * length (stringify v) \<le> Suc n \<Longrightarrow> num_stop r \<Longrightarrow>
      p_val (Suc n) (stringify v @ r) = Some (w, r)" and "stringify v \<noteq> []"
  shows "reads v w"
  unfolding reads_def
proof (intro allI impI)
  fix n r
  assume n: "2 * length (stringify v) \<le> n" and r: "num_stop r"
  from n assms(2) have "0 < n" by (cases "stringify v") auto
  then obtain m where "n = Suc m" using gr0_implies_Suc by blast
  with n r assms(1) show "p_val n (stringify v @ r) = Some (w, r)" by blast
qed

lemma p_elems_join:
  assumes "\<forall>v \<in> set vs. reads v (clean v)" "vs \<noteq> []" "2 * length (join '','' (map stringify vs)) + 1 \<le> n"
  shows "p_elems n (join '','' (map stringify vs) @ CHR '']'' # r) = Some (map clean vs, r)"
  using assms
proof (induction vs arbitrary: n)
  case Nil
  then show ?case by simp
next
  case (Cons v vs)
  then obtain m where n: "n = Suc m" by (cases n) auto
  show ?case
  proof (cases "vs = []")
    case True
    then show ?thesis
      using readsD [of v "clean v" m "CHR '']'' # r"] Cons.prems n by simp
  next
    case False
    let ?rest = "join '','' (map stringify vs) @ CHR '']'' # r"
    have "p_val m (stringify v @ CHR '','' # ?rest) = Some (clean v, CHR '','' # ?rest)"
      by (rule readsD) (use Cons.prems n False in \<open>auto simp: join_Cons\<close>)
    moreover have "p_elems m ?rest = Some (map clean vs, r)"
      by (rule Cons.IH) (use Cons.prems n False in \<open>auto simp: join_Cons\<close>)
    ultimately show ?thesis using n False by (simp add: join_Cons)
  qed
qed

abbreviation member_str :: "string \<times> json \<Rightarrow> string" where
  "member_str e \<equiv> quote (fst e) @ '':'' @ stringify (snd e)"

lemma p_key_quote: "p_key (quote k @ CHR '':'' # r) = Some (k, r)"
  by (simp add: p_key_def quote_def p_chars_quote)

lemma p_members_join:
  assumes "\<forall>e \<in> set es. reads (snd e) (clean (snd e))" "es \<noteq> []"
    "2 * length (join '','' (map member_str es)) + 1 \<le> n"
  shows "p_members n (join '','' (map member_str es) @ CHR ''}'' # r)
    = Some (map (\<lambda>e. (fst e, clean (snd e))) es, r)"
  using assms
proof (induction es arbitrary: n)
  case Nil
  then show ?case by simp
next
  case (Cons e es)
  then obtain m where n: "n = Suc m" by (cases n) auto
  show ?case
  proof (cases "es = []")
    case True
    then show ?thesis
      using readsD [of "snd e" "clean (snd e)" m "CHR ''}'' # r"] Cons.prems n
      by (simp add: p_key_quote)
  next
    case False
    let ?rest = "join '','' (map member_str es) @ CHR ''}'' # r"
    have "p_val m (stringify (snd e) @ CHR '','' # ?rest) = Some (clean (snd e), CHR '','' # ?rest)"
      by (rule readsD) (use Cons.prems n False in \<open>auto simp: join_Cons\<close>)
    moreover have "p_members m ?rest = Some (map (\<lambda>e. (fst e, clean (snd e))) es, r)"
      by (rule Cons.IH) (use Cons.prems n False in \<open>auto simp: join_Cons\<close>)
    ultimately show ?thesis using n False by (simp add: join_Cons p_key_quote)
  qed
qed

lemma join_hd: "xs \<noteq> [] \<Longrightarrow> hd xs = c # t \<Longrightarrow> \<exists>t'. join sep xs = c # t'"
  by (cases xs) (auto simp: join_Cons)

lemma reads_clean: "wf_json v \<Longrightarrow> reads v (clean v)"
proof (induction v)
  case (JNum d)
  then obtain c t where ct: "dec_str d = c # t" "is_digit c \<or> c = CHR ''-''"
    using dec_str_hd [of d] by auto
  with JNum p_atom_number [of d] show ?case
    by (intro readsI) (auto simp: is_digit_not_ws)
next
  case (JArr vs)
  show ?case
  proof (rule readsI)
    fix m r
    assume n: "2 * length (stringify (JArr vs)) \<le> Suc m" and r: "num_stop r"
    show "p_val (Suc m) (stringify (JArr vs) @ r) = Some (clean (JArr vs), r)"
    proof (cases "vs = []")
      case True
      then show ?thesis by simp
    next
      case False
      let ?t = "join '','' (map stringify vs)"
      from False JArr.prems obtain c t where "stringify (hd vs) = c # t" and c: "val_start c"
        using stringify_hd [of "hd vs"] by auto
      with False obtain t' where t': "?t = c # t'"
        using join_hd [of "map stringify vs" c] by (auto simp: hd_map)
      have "p_elems m (?t @ CHR '']'' # r) = Some (map clean vs, r)"
        by (rule p_elems_join) (use JArr False n in auto)
      with t' c show ?thesis by (auto simp: val_start_def)
    qed
  qed simp
next
  case (JObj es)
  show ?case
  proof (rule readsI)
    fix m r
    assume n: "2 * length (stringify (JObj es)) \<le> Suc m" and r: "num_stop r"
    let ?fs = "filter (\<lambda>e. snd e \<noteq> JUndef) es"
    show "p_val (Suc m) (stringify (JObj es) @ r) = Some (clean (JObj es), r)"
    proof (cases "?fs = []")
      case True
      then show ?thesis by simp
    next
      case False
      let ?t = "join '','' (map member_str ?fs)"
      from False obtain t' where t': "?t = CHR 0x22 # t'"
        using join_hd [of "map member_str ?fs" "CHR 0x22"] by (cases ?fs) (auto simp: quote_def)
      have IH: "\<forall>e \<in> set ?fs. reads (snd e) (clean (snd e))"
        using JObj by auto
      have "p_members m (?t @ CHR ''}'' # r) = Some (map (\<lambda>e. (fst e, clean (snd e))) ?fs, r)"
        by (rule p_members_join) (use IH False n in auto)
      moreover have "distinct (map fst (map (\<lambda>e. (fst e, clean (snd e))) ?fs))"
        using JObj.prems by (simp add: comp_def distinct_map_filter)
      ultimately show ?thesis
        using t' foldl_update_distinct [of "[]" "map (\<lambda>e. (fst e, clean (snd e))) ?fs"]
        by simp
    qed
  qed simp
qed (auto intro!: readsI simp: p_atom_def strip_prefix_def quote_def p_chars_quote split: if_splits)

theorem json_parse_stringify: "wf_json v \<Longrightarrow> json_parse (stringify v) = Some (clean v)"
  using readsD [OF reads_clean, of v "2 * length (stringify v) + 1" "[]"]
  by (simp add: json_parse_def)

section \<open>The fuel of the reader is enough\<close>

lemma skip_ws_length: "length (skip_ws s) \<le> length s"
  by (simp add: skip_ws_def length_dropWhile_le)

lemma skip_ws_ConsD: "skip_ws s = c # t \<Longrightarrow> length t < length s"
  using skip_ws_length [of s] by simp

lemma p_digits_length: "p_digits s = Some (ds, r) \<Longrightarrow> length r < length s"
proof -
  assume "p_digits s = Some (ds, r)"
  then have "takeWhile is_digit s \<noteq> []" and r: "r = dropWhile is_digit s"
    by (auto simp: p_digits_def Let_def split: if_splits)
  then have "0 < length (takeWhile is_digit s)" by simp
  moreover have "length s = length (takeWhile is_digit s) + length r"
    unfolding r by (metis length_append takeWhile_dropWhile_id)
  ultimately show ?thesis by linarith
qed

lemma p_number_length: "p_number s = Some (d, r) \<Longrightarrow> length r < length s"
proof -
  assume *: "p_number s = Some (d, r)"
  define s1 where "s1 = (if s \<noteq> [] \<and> hd s = CHR ''-'' then tl s else s)"
  from * obtain ip s2 fp s3 x where i: "p_int s1 = Some (ip, s2)"
    and f: "p_frac s2 = Some (fp, s3)" and e: "p_exp s3 = Some (x, r)"
    unfolding p_number_def Let_def s1_def [symmetric] by (auto split: option.splits)
  have "length s1 \<le> length s" by (simp add: s1_def)
  moreover have "length s2 < length s1"
    using i p_digits_length by (auto simp: p_int_def split: if_splits)
  moreover have "length s3 \<le> length s2"
    using f p_digits_length [of "tl s2" fp s3] by (auto simp: p_frac_def split: if_splits)
  moreover have "length r \<le> length s3"
    using e p_digits_length [of "tl s3"] p_digits_length [of "tl (tl s3)"]
    by (fastforce simp: p_exp_def Let_def split: if_splits option.splits)
  ultimately show ?thesis by linarith
qed

lemma strip_prefix_length: "strip_prefix p s = Some r \<Longrightarrow> p \<noteq> [] \<Longrightarrow> length r < length s"
  using starts_withE [of s p] by (auto simp: strip_prefix_def split: if_splits)

lemma p_atom_length: "p_atom s = Some (v, r) \<Longrightarrow> length r < length s"
  using p_number_length strip_prefix_length [of "''true''"] strip_prefix_length [of "''false''"]
    strip_prefix_length [of "''null''"]
  by (auto simp: p_atom_def split: option.splits)

lemma p_chars_length: "p_chars s = Some (k, r) \<Longrightarrow> length r < length s"
proof (induction s arbitrary: k rule: p_chars.induct)
  case 1
  then show ?case by simp
next
  case (2 c s)
  then show ?case
    by (fastforce split: if_splits option.splits list.splits)
qed

lemma p_key_length: "p_key s = Some (k, r) \<Longrightarrow> length r < length s"
  by (auto simp: p_key_def split: list.splits if_splits option.splits
      dest!: skip_ws_ConsD p_chars_length)

lemma p_val_length:
  "p_val n s = Some (v, r) \<Longrightarrow> length r < length s"
  "p_elems n s = Some (vs, r) \<Longrightarrow> length r < length s"
  "p_members n s = Some (ms, r) \<Longrightarrow> length r < length s"
proof (induction n s and n s and n s arbitrary: v r and vs r and ms r
    rule: p_val_p_elems_p_members.induct)
  case (2 n s)
  then obtain c t where ct: "skip_ws s = c # t" by (auto split: list.splits)
  have "length (tl (skip_ws t)) \<le> length t" using skip_ws_length [of t] by simp
  with 2 ct skip_ws_ConsD [OF ct] show ?case
    using p_chars_length [of t] p_atom_length [of "c # t"] skip_ws_length [of s]
    by (auto split: if_splits option.splits) (blast intro: less_trans)+
next
  case (4 n s)
  then show ?case
    by (fastforce split: list.splits if_splits option.splits dest: skip_ws_ConsD)
next
  case (6 n s)
  then show ?case
    by (fastforce split: list.splits if_splits option.splits dest: skip_ws_ConsD p_key_length)
qed simp_all

text \<open>From twice the length of the text on, more fuel changes nothing.\<close>

lemma p_val_fuel:
  "2 * length s + 1 \<le> n \<Longrightarrow> n \<le> m \<Longrightarrow> p_val n s = p_val m s"
  "2 * length s + 2 \<le> n \<Longrightarrow> n \<le> m \<Longrightarrow> p_elems n s = p_elems m s"
  "2 * length s + 2 \<le> n \<Longrightarrow> n \<le> m \<Longrightarrow> p_members n s = p_members m s"
proof (induction n s and n s and n s arbitrary: m and m and m rule: p_val_p_elems_p_members.induct)
  case (2 n s)
  from "2.prems" obtain k where m: "m = Suc k" "n \<le> k" by (cases m) auto
  show ?case
  proof (cases "skip_ws s")
    case (Cons c t)
    with 2 m skip_ws_ConsD [OF Cons] show ?thesis by simp
  qed (simp add: m)
next
  case (4 n s)
  from "4.prems" obtain k where m: "m = Suc k" "n \<le> k" by (cases m) auto
  with 4 have "p_val n s = p_val k s" by simp
  moreover have "p_elems n r' = p_elems k r'" if "p_val n s = Some (v, r)" "skip_ws r = CHR '','' # r'" for v r r'
    by (rule 4(2) [OF that(1) refl that(2) refl])
      (use "4.prems" m p_val_length(1) [OF that(1)] skip_ws_ConsD [OF that(2)] in auto)
  ultimately show ?case using m by (auto split: option.splits list.splits)
next
  case (6 n s)
  from "6.prems" obtain k where m: "m = Suc k" "n \<le> k" by (cases m) auto
  have "p_val n r0 = p_val k r0" if "p_key s = Some (key, r0)" for key r0
    by (rule 6(1) [OF that refl]) (use "6.prems" m p_key_length [OF that] in auto)
  moreover have "p_members n r' = p_members k r'"
    if "p_key s = Some (key, r0)" "p_val n r0 = Some (v, r)" "skip_ws r = CHR '','' # r'" for key r0 v r r'
    by (rule 6(2) [OF that(1) refl that(2) refl that(3) refl])
      (use "6.prems" m p_key_length [OF that(1)] p_val_length(1) [OF that(2)] skip_ws_ConsD [OF that(3)] in auto)
  ultimately show ?case using m by (auto split: option.splits list.splits)
qed simp_all

end
