(* ===== verification/Schema.thy ===== *)
theory Schema
  imports Json
begin

text \<open>
  Message schemas. The contract package declares its messages with the combinators of the
  \<open>zod\<close> package; the declarations are data here (type \<open>schema\<close>), and the library's
  \<open>safeParse\<close> is a parameter of the model. What the code relies on is the locale \<open>zod\<close>: one
  law per combinator, as its documentation states it (unknown keys of an object are stripped,
  an absent optional key is left out, and so on). \<open>zod_eval\<close> is one concrete function with these
  laws; it shows that they can hold and is what concrete examples run on.
\<close>

section \<open>Schema declarations\<close>

datatype str_check = Uuid | MinLength nat
datatype num_check = IsInt | Positive | NonNegative | Min int | Max int

datatype schema =
    ZString "str_check list"
  | ZNumber "num_check list"
  | ZBoolean
  | ZLiteral string
  | ZEnum "string list"
  | ZUnknown
  | ZOptional schema
  | ZArray schema "nat option" "nat option"
  | ZRecord schema
  | ZObject "(string \<times> schema) list"
  | ZUnion string "schema list"

text \<open>The schema declared for a key of an object (the member of a union is found by its
  literal).\<close>

fun shape :: "schema \<Rightarrow> (string \<times> schema) list" where
  "shape (ZObject fs) = fs"
| "shape _ = []"

definition literal_of :: "string \<Rightarrow> schema \<Rightarrow> string option" where
  "literal_of k s = (case map_of (shape s) k of Some (ZLiteral l) \<Rightarrow> Some l | _ \<Rightarrow> None)"

fun is_optional :: "schema \<Rightarrow> bool" where
  "is_optional (ZOptional s) = True"
| "is_optional ZUnknown = True"
| "is_optional _ = False"

section \<open>Reading documents\<close>

text \<open>\<open>v.k\<close>: absent keys and non-objects give \<open>undefined\<close>.\<close>

definition get_field :: "json \<Rightarrow> string \<Rightarrow> json" where
  "get_field v k = (case v of JObj es \<Rightarrow> (case map_of es k of Some x \<Rightarrow> x | None \<Rightarrow> JUndef) | _ \<Rightarrow> JUndef)"

lemma get_field_obj [simp]:
  "get_field (JObj ((k, x) # es)) k' = (if k' = k then x else get_field (JObj es) k')"
  "get_field (JObj []) k' = JUndef" "get_field JUndef k' = JUndef" "get_field JNull k' = JUndef"
  by (simp_all add: get_field_def)

fun as_str :: "json \<Rightarrow> string" where
  "as_str (JStr s) = s"
| "as_str _ = []"

fun as_int :: "json \<Rightarrow> int" where
  "as_int (JNum d) = int_of_dec d"
| "as_int _ = 0"

fun as_list :: "json \<Rightarrow> json list" where
  "as_list (JArr vs) = vs"
| "as_list _ = []"

fun is_str :: "json \<Rightarrow> bool" where
  "is_str (JStr s) = True"
| "is_str _ = False"

fun is_num :: "json \<Rightarrow> bool" where
  "is_num (JNum d) = True"
| "is_num _ = False"

text \<open>What an \<open>if\<close> takes as false.\<close>

fun falsy :: "json \<Rightarrow> bool" where
  "falsy JUndef = True"
| "falsy JNull = True"
| "falsy (JBool b) = (\<not> b)"
| "falsy (JNum d) = (dec_mant d = 0)"
| "falsy (JStr s) = (s = [])"
| "falsy _ = False"

abbreviation str_field :: "json \<Rightarrow> string \<Rightarrow> string" where
  "str_field v k \<equiv> as_str (get_field v k)"

abbreviation int_field :: "json \<Rightarrow> string \<Rightarrow> int" where
  "int_field v k \<equiv> as_int (get_field v k)"

text \<open>An optional text as a field value.\<close>

definition opt_str :: "string option \<Rightarrow> json" where
  "opt_str x = (case x of None \<Rightarrow> JUndef | Some s \<Rightarrow> JStr s)"

definition opt_num :: "dec option \<Rightarrow> json" where
  "opt_num x = (case x of None \<Rightarrow> JUndef | Some d \<Rightarrow> JNum d)"

lemma opt_str_simps [simp]: "opt_str None = JUndef" "opt_str (Some s) = JStr s"
  by (simp_all add: opt_str_def)

lemma opt_num_simps [simp]: "opt_num None = JUndef" "opt_num (Some d) = JNum d"
  by (simp_all add: opt_num_def)

section \<open>The checks of strings and numbers\<close>

definition is_hex :: "char \<Rightarrow> bool" where
  "is_hex c = (hex_val c \<noteq> None)"

text \<open>Five groups of 8, 4, 4, 4 and 12 hexadecimal digits.\<close>

definition uuid_format :: "string \<Rightarrow> bool" where
  "uuid_format s = (map length (split_on CHR ''-'' s) = [8, 4, 4, 4, 12]
     \<and> list_all (list_all is_hex) (split_on CHR ''-'' s))"

fun str_ok :: "string \<Rightarrow> str_check \<Rightarrow> bool" where
  "str_ok s Uuid = uuid_format s"
| "str_ok s (MinLength n) = (n \<le> length s)"

fun num_ok :: "dec \<Rightarrow> num_check \<Rightarrow> bool" where
  "num_ok d IsInt = dec_is_int d"
| "num_ok d Positive = dec_less (dec_of_int 0) d"
| "num_ok d NonNegative = dec_le (dec_of_int 0) d"
| "num_ok d (Min n) = dec_le (dec_of_int n) d"
| "num_ok d (Max n) = dec_le d (dec_of_int n)"

definition len_ok :: "nat option \<Rightarrow> nat option \<Rightarrow> nat \<Rightarrow> bool" where
  "len_ok lo hi n = ((case lo of None \<Rightarrow> True | Some l \<Rightarrow> l \<le> n) \<and> (case hi of None \<Rightarrow> True | Some h \<Rightarrow> n \<le> h))"

section \<open>The laws of \<open>safeParse\<close>\<close>

text \<open>All elements, or none.\<close>

fun parse_all :: "('a \<Rightarrow> 'b option) \<Rightarrow> 'a list \<Rightarrow> 'b list option" where
  "parse_all p [] = Some []"
| "parse_all p (x # xs) =
    (case p x of None \<Rightarrow> None | Some y \<Rightarrow> map_option (\<lambda>ys. y # ys) (parse_all p xs))"

lemma parse_all_cong [fundef_cong]:
  assumes "xs = ys" "\<And>x. x \<in> set ys \<Longrightarrow> p x = q x"
  shows "parse_all p xs = parse_all q ys"
proof -
  from assms have "\<forall>x \<in> set xs. p x = q x" by simp
  then have "parse_all p xs = parse_all q xs" by (induction xs) (simp_all split: option.splits)
  with assms(1) show ?thesis by simp
qed

text \<open>The declared fields of an object, in their declared order; absent optional fields stay
  absent.\<close>

fun parse_fields :: "(schema \<Rightarrow> json \<Rightarrow> json option) \<Rightarrow> (string \<times> schema) list \<Rightarrow> (string \<times> json) list
    \<Rightarrow> (string \<times> json) list option" where
  "parse_fields p [] es = Some []"
| "parse_fields p ((k, s) # fs) es =
    (case map_of es k of
       None \<Rightarrow> if is_optional s then parse_fields p fs es else None
     | Some v \<Rightarrow>
        (case p s v of None \<Rightarrow> None
         | Some w \<Rightarrow> map_option (\<lambda>ws. (k, w) # ws) (parse_fields p fs es)))"

lemma parse_fields_cong [fundef_cong]:
  assumes "fs = gs" "es = ds" "\<And>k s v. (k, s) \<in> set gs \<Longrightarrow> p s v = q s v"
  shows "parse_fields p fs es = parse_fields q gs ds"
proof -
  from assms have "\<forall>f \<in> set fs. p (snd f) = q (snd f)" by (auto intro: ext)
  then have "parse_fields p fs es = parse_fields q fs es"
  proof (induction fs)
    case (Cons f fs)
    then show ?case by (cases f) (auto split: option.splits)
  qed simp
  with assms show ?thesis by simp
qed

locale zod =
  fixes safeParse :: "schema \<Rightarrow> json \<Rightarrow> json option"
  assumes parse_string:
      "safeParse (ZString cs) v = (if is_str v \<and> list_all (str_ok (as_str v)) cs then Some v else None)"
    and parse_number:
      "safeParse (ZNumber ns) v = (case v of JNum d \<Rightarrow> if list_all (num_ok d) ns then Some v else None | _ \<Rightarrow> None)"
    and parse_boolean:
      "safeParse ZBoolean v = (case v of JBool b \<Rightarrow> Some v | _ \<Rightarrow> None)"
    and parse_literal:
      "safeParse (ZLiteral l) v = (if v = JStr l then Some v else None)"
    and parse_enum:
      "safeParse (ZEnum ls) v = (if is_str v \<and> as_str v \<in> set ls then Some v else None)"
    and parse_unknown:
      "safeParse ZUnknown v = Some v"
    and parse_optional:
      "safeParse (ZOptional s) v = (if v = JUndef then Some JUndef else safeParse s v)"
    and parse_array:
      "safeParse (ZArray s lo hi) v = (case v of
         JArr vs \<Rightarrow> if len_ok lo hi (length vs) then map_option JArr (parse_all (safeParse s) vs) else None
       | _ \<Rightarrow> None)"
    and parse_record:
      "safeParse (ZRecord s) v = (case v of
         JObj es \<Rightarrow> map_option JObj (parse_all (\<lambda>e. map_option (Pair (fst e)) (safeParse s (snd e))) es)
       | _ \<Rightarrow> None)"
    and parse_object:
      "safeParse (ZObject fs) v = (case v of
         JObj es \<Rightarrow> map_option JObj (parse_fields safeParse fs es)
       | _ \<Rightarrow> None)"
    and parse_union:
      "safeParse (ZUnion k ss) v = (case find (\<lambda>s. get_field v k \<noteq> JUndef \<and> is_str (get_field v k) \<and>
           literal_of k s = Some (str_field v k)) ss of
         None \<Rightarrow> None
       | Some s \<Rightarrow> safeParse s v)"
begin

lemma object_cases:
  assumes "safeParse (ZObject fs) v = Some w"
  obtains es ws where "v = JObj es" "w = JObj ws" "parse_fields safeParse fs es = Some ws"
  using assms by (auto simp: parse_object split: json.splits)

end

lemma parse_fields_lookup:
  assumes "parse_fields p fs es = Some ws" "distinct (map fst fs)"
  shows "map_of ws k = (case map_of fs k of
      None \<Rightarrow> None
    | Some s \<Rightarrow> (case map_of es k of None \<Rightarrow> None | Some v \<Rightarrow> p s v))"
  using assms
proof (induction fs arbitrary: ws)
  case Nil
  then show ?case by simp
next
  case (Cons f fs)
  obtain k' s where f: "f = (k', s)" by (cases f)
  show ?case
  proof (cases "map_of es k'")
    case None
    with Cons f have "parse_fields p fs es = Some ws" by (auto split: if_splits)
    moreover from None Cons f this have "k = k' \<Longrightarrow> map_of ws k = None"
      by (auto split: option.splits)
    ultimately show ?thesis using Cons f None by auto
  next
    case (Some v)
    with Cons f obtain w ws' where "p s v = Some w" "parse_fields p fs es = Some ws'" "ws = (k', w) # ws'"
      by (auto split: option.splits)
    with Cons f Some show ?thesis by auto
  qed
qed

lemma parse_fields_keys: "parse_fields p fs es = Some ws \<Longrightarrow> fst ` set ws \<subseteq> fst ` set fs"
proof (induction fs arbitrary: ws)
  case (Cons f fs)
  then have "\<exists>ws'. parse_fields p fs es = Some ws' \<and> fst ` set ws \<subseteq> insert (fst f) (fst ` set ws')"
    by (cases f) (auto split: option.splits if_splits)
  then obtain ws' where "parse_fields p fs es = Some ws'" "fst ` set ws \<subseteq> insert (fst f) (fst ` set ws')"
    by blast
  with Cons.IH [of ws'] have "fst ` set ws \<subseteq> insert (fst f) (fst ` set fs)" by blast
  then show ?case by simp
qed simp

section \<open>A concrete evaluator\<close>

lemma size_member: "s \<in> set ss \<Longrightarrow> size s < Suc (size_list size ss)"
  by (induction ss) auto

lemma size_field:
  "(k, s) \<in> set fs \<Longrightarrow> size s < Suc (size_list (size_prod (\<lambda>_. 0) size) fs)"
  by (induction fs) auto

function (sequential) zod_eval :: "schema \<Rightarrow> json \<Rightarrow> json option" where
  "zod_eval (ZString cs) v = (if is_str v \<and> list_all (str_ok (as_str v)) cs then Some v else None)"
| "zod_eval (ZNumber ns) v = (case v of JNum d \<Rightarrow> if list_all (num_ok d) ns then Some v else None | _ \<Rightarrow> None)"
| "zod_eval ZBoolean v = (case v of JBool b \<Rightarrow> Some v | _ \<Rightarrow> None)"
| "zod_eval (ZLiteral l) v = (if v = JStr l then Some v else None)"
| "zod_eval (ZEnum ls) v = (if is_str v \<and> as_str v \<in> set ls then Some v else None)"
| "zod_eval ZUnknown v = Some v"
| "zod_eval (ZOptional s) v = (if v = JUndef then Some JUndef else zod_eval s v)"
| "zod_eval (ZArray s lo hi) v = (case v of
     JArr vs \<Rightarrow> if len_ok lo hi (length vs) then map_option JArr (parse_all (zod_eval s) vs) else None
   | _ \<Rightarrow> None)"
| "zod_eval (ZRecord s) v = (case v of
     JObj es \<Rightarrow> map_option JObj (parse_all (\<lambda>e. map_option (Pair (fst e)) (zod_eval s (snd e))) es)
   | _ \<Rightarrow> None)"
| "zod_eval (ZObject fs) v = (case v of
     JObj es \<Rightarrow> map_option JObj (parse_fields zod_eval fs es)
   | _ \<Rightarrow> None)"
| "zod_eval (ZUnion k ss) v = (case find (\<lambda>s. get_field v k \<noteq> JUndef \<and> is_str (get_field v k) \<and>
       literal_of k s = Some (str_field v k)) ss of
     None \<Rightarrow> None
   | Some s \<Rightarrow> zod_eval s v)"
  by pat_completeness auto
termination
proof (relation "measure (\<lambda>(s, v). size s)", goal_cases)
  case (6 k ss v s)
  then show ?case
    using find_Some_mem [of _ ss s] size_member [of s ss] by auto
qed (use size_field in auto)

interpretation zod_eval: zod zod_eval
  by unfold_locales simp_all

end
