(* ===== verification/Async.thy ===== *)
theory Async
  imports Prelude
begin

text \<open>
  Asynchronous handlers. A handler is a process over a shared world: it returns, or it makes
  one atomic step on the world it finds (a store command, a database statement, a publish, a
  read of the clock) and goes on as another process. \<open>await\<close> and \<open>catch\<close> are the \<open>await\<close> and
  \<open>try/catch\<close> of the sources, a rejected promise being \<open>Inl\<close>. \<open>run\<close> is the undisturbed
  execution of one handler, \<open>sched\<close> the interleaved execution of a pool of them under a given
  schedule: between two steps of a handler any other may run, which includes every
  interleaving of the event loops of the services.
\<close>

section \<open>Processes\<close>

datatype ('w, 'a) proc =
    Ret 'a
  | Step "'w \<Rightarrow> ('w, 'a) proc \<times> 'w"

primrec bind :: "('w, 'a) proc \<Rightarrow> ('a \<Rightarrow> ('w, 'b) proc) \<Rightarrow> ('w, 'b) proc" where
  "bind (Ret a) k = k a"
| "bind (Step f) k = Step (\<lambda>w. map_prod (\<lambda>p. bind p k) id (f w))"

lemma proc_induct [case_names Ret Step]:
  assumes "\<And>a. P (Ret a)" "\<And>f. (\<And>w. P (fst (f w))) \<Longrightarrow> P (Step f)"
  shows "P p"
proof (induction p)
  case (Step f)
  have "P (fst (f w))" for w
    by (rule Step [of "f w"]) (auto simp: fsts.simps)
  then show ?case by (rule assms(2))
qed (rule assms(1))

type_synonym ('w, 'e, 'a) io = "('w, 'e + 'a) proc"

definition ret :: "'a \<Rightarrow> ('w, 'e, 'a) io" where
  "ret a = Ret (Inr a)"

definition throw :: "'e \<Rightarrow> ('w, 'e, 'a) io" where
  "throw e = Ret (Inl e)"

definition await :: "('w, 'e, 'a) io \<Rightarrow> ('a \<Rightarrow> ('w, 'e, 'b) io) \<Rightarrow> ('w, 'e, 'b) io" where
  "await p k = bind p (\<lambda>r. case r of Inl e \<Rightarrow> Ret (Inl e) | Inr a \<Rightarrow> k a)"

definition catch :: "('w, 'e, 'a) io \<Rightarrow> ('e \<Rightarrow> ('w, 'e, 'a) io) \<Rightarrow> ('w, 'e, 'a) io" where
  "catch p h = bind p (\<lambda>r. case r of Inl e \<Rightarrow> h e | Inr a \<Rightarrow> Ret (Inr a))"

text \<open>One atomic step: an effect that may fail, one that cannot, and a read.\<close>

definition effect :: "('w \<Rightarrow> ('e + 'a) \<times> 'w) \<Rightarrow> ('w, 'e, 'a) io" where
  "effect f = Step (\<lambda>w. map_prod Ret id (f w))"

definition modify :: "('w \<Rightarrow> 'w) \<Rightarrow> ('w, 'e, unit) io" where
  "modify f = effect (\<lambda>w. (Inr (), f w))"

definition look :: "('w \<Rightarrow> 'a) \<Rightarrow> ('w, 'e, 'a) io" where
  "look f = effect (\<lambda>w. (Inr (f w), w))"

text \<open>A loop over a list, each round awaited.\<close>

primrec for_each :: "'x list \<Rightarrow> ('x \<Rightarrow> ('w, 'e, unit) io) \<Rightarrow> ('w, 'e, unit) io" where
  "for_each [] body = ret ()"
| "for_each (x # xs) body = await (body x) (\<lambda>_. for_each xs body)"

section \<open>Undisturbed execution\<close>

primrec run :: "('w, 'a) proc \<Rightarrow> 'w \<Rightarrow> 'a \<times> 'w" where
  "run (Ret a) = (\<lambda>w. (a, w))"
| "run (Step f) = (\<lambda>w. case map_prod run id (f w) of (r, w') \<Rightarrow> r w')"

lemma run_bind: "run (bind p k) w = (case run p w of (a, w') \<Rightarrow> run (k a) w')"
  by (induction p arbitrary: w rule: proc_induct) (simp_all add: case_prod_beta)

lemma run_ret [simp]: "run (ret a) w = (Inr a, w)"
  by (simp add: ret_def)

lemma run_throw [simp]: "run (throw e) w = (Inl e, w)"
  by (simp add: throw_def)

lemma run_effect [simp]: "run (effect f) w = f w"
  by (simp add: effect_def map_prod_def split: prod.splits)

lemma run_modify [simp]: "run (modify f) w = (Inr (), f w)"
  by (simp add: modify_def)

lemma run_look [simp]: "run (look f) w = (Inr (f w), w)"
  by (simp add: look_def)

lemma run_await [simp]:
  "run (await p k) w = (case run p w of (Inl e, w') \<Rightarrow> (Inl e, w') | (Inr a, w') \<Rightarrow> run (k a) w')"
  by (simp add: await_def run_bind split: prod.splits sum.splits)

lemma run_catch [simp]:
  "run (catch p h) w = (case run p w of (Inl e, w') \<Rightarrow> run (h e) w' | (Inr a, w') \<Rightarrow> (Inr a, w'))"
  by (simp add: catch_def run_bind split: prod.splits sum.splits)

lemma run_if [simp]: "run (if b then p else q) w = (if b then run p w else run q w)"
  by simp

text \<open>The worlds an undisturbed execution passes through, one after each of its steps: what holds of all of them
  holds while the handler is still on its way, not only when it has returned.\<close>

primrec trail :: "('w, 'a) proc \<Rightarrow> 'w \<Rightarrow> 'w list" where
  "trail (Ret a) = (\<lambda>w. [])"
| "trail (Step f) = (\<lambda>w. case map_prod trail id (f w) of (t, w') \<Rightarrow> w' # t w')"

lemma trail_bind: "trail (bind p k) w = trail p w @ trail (k (fst (run p w))) (snd (run p w))"
  by (induction p arbitrary: w rule: proc_induct) (simp_all add: case_prod_beta)

lemma trail_ret [simp]: "trail (ret a) w = []"
  by (simp add: ret_def)

lemma trail_throw [simp]: "trail (throw e) w = []"
  by (simp add: throw_def)

lemma trail_effect [simp]: "trail (effect f) w = [snd (f w)]"
  by (simp add: effect_def case_prod_beta)

lemma trail_modify [simp]: "trail (modify f) w = [f w]"
  by (simp add: modify_def)

lemma trail_look [simp]: "trail (look f) w = [w]"
  by (simp add: look_def)

lemma trail_await [simp]:
  "trail (await p k) w = trail p w @ (case run p w of (Inl e, w') \<Rightarrow> [] | (Inr a, w') \<Rightarrow> trail (k a) w')"
  by (simp add: await_def trail_bind split: prod.splits sum.splits)

lemma trail_if [simp]: "trail (if b then p else q) w = (if b then trail p w else trail q w)"
  by simp

text \<open>The last of them is the world the execution ends in.\<close>

lemma trail_last: "last (w # trail p w) = snd (run p w)"
  by (induction p arbitrary: w rule: proc_induct) (simp_all add: case_prod_beta)

section \<open>Interleaved execution\<close>

text \<open>A schedule names the process that makes the next step; a process that has returned, or
  does not exist, leaves everything as it is.\<close>

fun sched :: "nat list \<Rightarrow> ('w, 'a) proc list \<Rightarrow> 'w \<Rightarrow> ('w, 'a) proc list \<times> 'w" where
  "sched [] ps w = (ps, w)"
| "sched (i # ns) ps w =
    (if i < length ps
     then (case ps ! i of
         Ret a \<Rightarrow> sched ns ps w
       | Step f \<Rightarrow> sched ns (ps[i := fst (f w)]) (snd (f w)))
     else sched ns ps w)"

text \<open>One process scheduled to its end is \<open>run\<close>.\<close>

primrec steps :: "('w, 'a) proc \<Rightarrow> 'w \<Rightarrow> nat" where
  "steps (Ret a) = (\<lambda>w. 0)"
| "steps (Step f) = (\<lambda>w. case map_prod steps id (f w) of (n, w') \<Rightarrow> Suc (n w'))"

lemma sched_run:
  "i < length ps \<Longrightarrow> ps ! i = p \<Longrightarrow>
   sched (replicate (steps p w) i) ps w = (ps[i := Ret (fst (run p w))], snd (run p w))"
proof (induction p arbitrary: ps w rule: proc_induct)
  case (Ret a)
  then show ?case by (metis fst_conv list_update_id replicate_0 run.simps(1) sched.simps(1) snd_conv steps.simps(1))
next
  case (Step f)
  then show ?case by (simp add: case_prod_beta)
qed

lemma sched_append: "sched (ms @ ns) ps w = (case sched ms ps w of (ps', w') \<Rightarrow> sched ns ps' w')"
  by (induction ms ps w rule: sched.induct) (auto split: proc.splits)

text \<open>Some schedule runs the processes one after the other.\<close>

lemma sched_sequence:
  "\<exists>ns. snd (sched ns (pre @ ps) w) = fold (\<lambda>p w. snd (run p w)) ps w"
proof (induction ps arbitrary: pre w)
  case Nil
  have "snd (sched [] (pre @ []) w) = fold (\<lambda>p w. snd (run p w)) [] w" by simp
  then show ?case by blast
next
  case (Cons p ps)
  let ?r = "Ret (fst (run p w))"
  obtain ns where ns: "snd (sched ns ((pre @ [?r]) @ ps) (snd (run p w))) = fold (\<lambda>p w. snd (run p w)) ps (snd (run p w))"
    using Cons by blast
  have "sched (replicate (steps p w) (length pre)) (pre @ p # ps) w = ((pre @ [?r]) @ ps, snd (run p w))"
    using sched_run [of "length pre" "pre @ p # ps" p w] by simp
  with ns have "snd (sched (replicate (steps p w) (length pre) @ ns) (pre @ p # ps) w)
      = fold (\<lambda>p w. snd (run p w)) (p # ps) w"
    by (simp add: sched_append)
  then show ?case by blast
qed

text \<open>Some schedule lets a process overtake another one in the middle.\<close>

lemma bind_assoc: "bind (bind p f) g = bind p (\<lambda>x. bind (f x) g)"
proof (induction p rule: proc_induct)
  case (Step h)
  have "map_prod (\<lambda>p. bind p g) id (map_prod (\<lambda>p. bind p f) id (h w))
      = map_prod (\<lambda>p. bind p (\<lambda>x. bind (f x) g)) id (h w)" for w
    using Step [of w] by (cases "h w") simp
  then show ?case by simp
qed simp

lemma await_assoc: "await (await p f) g = await p (\<lambda>x. await (f x) g)"
proof -
  have "(\<lambda>r. bind (case r of Inl e \<Rightarrow> Ret (Inl e) | Inr a \<Rightarrow> f a)
        (\<lambda>r. case r of Inl e \<Rightarrow> Ret (Inl e) | Inr a \<Rightarrow> g a))
    = (\<lambda>r. case r of Inl e \<Rightarrow> Ret (Inl e)
        | Inr a \<Rightarrow> bind (f a) (\<lambda>r. case r of Inl e \<Rightarrow> Ret (Inl e) | Inr a \<Rightarrow> g a))"
    by (auto simp: fun_eq_iff split: sum.split)
  then show ?thesis by (simp add: await_def bind_assoc)
qed

lemma await_ret: "await (ret a) k = k a"
  by (simp add: await_def ret_def)

lemma sched_prefix:
  "sched (replicate (steps p w) 0) [bind p k, q] w = ([k (fst (run p w)), q], snd (run p w))"
  by (induction p arbitrary: w rule: proc_induct) (auto simp: case_prod_beta)

lemma sched_overtake:
  assumes "run p w = (Inr a, w1)" "run q w1 = (b, w2)" "run (k a) w2 = (c, w3)"
  shows "\<exists>ns. sched ns [await p k, q] w = ([Ret c, Ret b], w3)"
proof -
  have "sched (replicate (steps p w) 0) [await p k, q] w = ([k a, q], w1)"
    using sched_prefix [of p w "\<lambda>r. case r of Inl e \<Rightarrow> Ret (Inl e) | Inr a \<Rightarrow> k a" q] assms(1)
    by (simp add: await_def)
  moreover have "sched (replicate (steps q w1) 1) [k a, q] w1 = ([k a, Ret b], w2)"
    using sched_run [of 1 "[k a, q]" q w1] assms(2) by simp
  moreover have "sched (replicate (steps (k a) w2) 0) [k a, Ret b] w2 = ([Ret c, Ret b], w3)"
    using sched_run [of 0 "[k a, Ret b]" "k a" w2] assms(3) by simp
  ultimately have "sched (replicate (steps p w) 0 @ replicate (steps q w1) 1 @ replicate (steps (k a) w2) 0)
      [await p k, q] w = ([Ret c, Ret b], w3)"
    by (simp add: sched_append)
  then show ?thesis by blast
qed

section \<open>Reasoning under interference\<close>

text \<open>\<open>wp I R p Q w\<close>: started in \<open>w\<close>, with others moving the world by \<open>R\<close> and keeping \<open>I\<close>
  between any two of its steps, \<open>p\<close> itself moves the world by \<open>R\<close> only, keeps \<open>I\<close>, and
  returns with \<open>Q\<close>. \<open>R\<close> is a growth relation such as "the log is only appended to"; what was
  true of the log at one step can then be used at a later one.\<close>

primrec wp :: "('w \<Rightarrow> bool) \<Rightarrow> ('w \<Rightarrow> 'w \<Rightarrow> bool) \<Rightarrow> ('w, 'a) proc \<Rightarrow> ('a \<Rightarrow> 'w \<Rightarrow> bool) \<Rightarrow> 'w \<Rightarrow> bool" where
  "wp I R (Ret a) = (\<lambda>Q w. Q a w)"
| "wp I R (Step f) = (\<lambda>Q w. \<forall>w'. R w w' \<longrightarrow> I w' \<longrightarrow>
     fst (map_prod (wp I R) id (f w')) Q (snd (f w')) \<and> I (snd (f w')) \<and> R w' (snd (f w')))"

declare wp.simps [simp del]

lemma wp_Ret [simp]: "wp I R (Ret a) Q w \<longleftrightarrow> Q a w"
  by (simp add: wp.simps)

lemma wp_Step: "wp I R (Step f) Q w \<longleftrightarrow> (\<forall>w'. R w w' \<longrightarrow> I w' \<longrightarrow>
    wp I R (fst (f w')) Q (snd (f w')) \<and> I (snd (f w')) \<and> R w' (snd (f w')))"
  by (simp add: wp.simps)

lemma wp_mono: "wp I R p Q w \<Longrightarrow> (\<And>a w. Q a w \<Longrightarrow> Q' a w) \<Longrightarrow> wp I R p Q' w"
  by (induction p arbitrary: w rule: proc_induct) (auto simp: wp_Step)

lemma wp_bind: "wp I R (bind p k) Q w \<longleftrightarrow> wp I R p (\<lambda>a w'. wp I R (k a) Q w') w"
  by (induction p arbitrary: w rule: proc_induct) (auto simp: wp_Step)

lemma wp_ret [simp]: "wp I R (ret a) Q w \<longleftrightarrow> Q (Inr a) w"
  by (simp add: ret_def)

lemma wp_throw [simp]: "wp I R (throw e) Q w \<longleftrightarrow> Q (Inl e) w"
  by (simp add: throw_def)

lemma wp_await: "wp I R (await p k) Q w \<longleftrightarrow>
    wp I R p (\<lambda>r w'. case r of Inl e \<Rightarrow> Q (Inl e) w' | Inr a \<Rightarrow> wp I R (k a) Q w') w"
proof -
  have "(\<lambda>r w'. wp I R (case r of Inl e \<Rightarrow> Ret (Inl e) | Inr a \<Rightarrow> k a) Q w') =
      (\<lambda>r w'. case r of Inl e \<Rightarrow> Q (Inl e) w' | Inr a \<Rightarrow> wp I R (k a) Q w')"
    by (intro ext) (simp split: sum.split)
  then show ?thesis by (simp add: await_def wp_bind)
qed

lemma wp_catch: "wp I R (catch p h) Q w \<longleftrightarrow>
    wp I R p (\<lambda>r w'. case r of Inl e \<Rightarrow> wp I R (h e) Q w' | Inr a \<Rightarrow> Q (Inr a) w') w"
proof -
  have "(\<lambda>r w'. wp I R (case r of Inl e \<Rightarrow> h e | Inr a \<Rightarrow> Ret (Inr a)) Q w') =
      (\<lambda>r w'. case r of Inl e \<Rightarrow> wp I R (h e) Q w' | Inr a \<Rightarrow> Q (Inr a) w')"
    by (intro ext) (simp split: sum.split)
  then show ?thesis by (simp add: catch_def wp_bind)
qed

lemma wp_effect: "wp I R (effect f) Q w \<longleftrightarrow> (\<forall>w'. R w w' \<longrightarrow> I w' \<longrightarrow>
    Q (fst (f w')) (snd (f w')) \<and> I (snd (f w')) \<and> R w' (snd (f w')))"
  by (simp add: effect_def wp_Step)

text \<open>The rule used step by step: the continuation is proved for every world the step may end in.\<close>

lemma wp_await_effect:
  assumes "\<And>w'. R w w' \<Longrightarrow> I w' \<Longrightarrow> I (snd (f w')) \<and> R w' (snd (f w')) \<and>
    (case fst (f w') of Inl e \<Rightarrow> Q (Inl e) (snd (f w')) | Inr a \<Rightarrow> wp I R (k a) Q (snd (f w')))"
  shows "wp I R (await (effect f) k) Q w"
  using assms by (simp add: wp_await wp_effect)

lemma wp_stable:
  assumes "transp R" "\<And>a w w'. Q a w \<Longrightarrow> R w w' \<Longrightarrow> Q a w'" "wp I R p Q w" "R w w'"
  shows "wp I R p Q w'"
  using assms(3,4) by (cases p) (auto simp: wp_Step dest: transpD [OF assms(1)] assms(2))

text \<open>A pool of processes, each with a postcondition that the moves \<open>R\<close> of the others do not
  spoil: under every schedule the invariant holds, the world has moved by \<open>R\<close>, and whoever
  has returned satisfies its postcondition.\<close>

lemma sched_wp:
  assumes R: "reflp R" "transp R" and Q: "\<And>i a w w'. Q i a w \<Longrightarrow> R w w' \<Longrightarrow> Q i a w'"
  shows "(\<And>i. i < length ps \<Longrightarrow> wp I R (ps ! i) (Q i) w) \<Longrightarrow> I w \<Longrightarrow>
    I (snd (sched ns ps w)) \<and> R w (snd (sched ns ps w)) \<and>
    length (fst (sched ns ps w)) = length ps \<and>
    (\<forall>i < length ps. wp I R (fst (sched ns ps w) ! i) (Q i) (snd (sched ns ps w)))"
proof (induction ns ps w rule: sched.induct)
  case (1 ps w)
  then show ?case using R by (simp add: reflpD)
next
  case (2 i ns ps w)
  show ?case
  proof (cases "i < length ps")
    case True
    show ?thesis
    proof (cases "ps ! i")
      case (Step f)
      have "wp I R (Step f) (Q i) w" using 2(4) True Step by metis
      with 2(5) R(1) have k: "wp I R (fst (f w)) (Q i) (snd (f w))" "I (snd (f w))" "R w (snd (f w))"
        by (auto simp: wp_Step dest: reflpD)
      have "wp I R (ps[i := fst (f w)] ! j) (Q j) (snd (f w))" if "j < length (ps[i := fst (f w)])" for j
        using that k 2(4) wp_stable [OF R(2), of "Q j" I "ps ! j", OF Q _ k(3)] by (cases "j = i") auto
      from 2(2) [OF True Step this k(2)] k(3) R(2) show ?thesis
        using True Step by (auto dest: transpD)
    qed (use 2 True in auto)
  qed (use 2 in auto)
qed

lemma sched_result:
  assumes "reflp R" "transp R" "\<And>i a w w'. Q i a w \<Longrightarrow> R w w' \<Longrightarrow> Q i a w'"
    "\<And>i. i < length ps \<Longrightarrow> wp I R (ps ! i) (Q i) w" "I w" "i < length ps"
    "fst (sched ns ps w) ! i = Ret a"
  shows "Q i a (snd (sched ns ps w))"
  using sched_wp [OF assms(1-3), where ps = ps and I = I and w = w and ns = ns] assms(4-7) by force

lemma sched_invariant:
  assumes "reflp R" "transp R" "\<And>p. p \<in> set ps \<Longrightarrow> wp I R p (\<lambda>_ _. True) w" "I w"
  shows "I (snd (sched ns ps w)) \<and> R w (snd (sched ns ps w))"
  using sched_wp [where Q = "\<lambda>_ _ _. True" and R = R and I = I and ps = ps and w = w and ns = ns] assms
  by simp

text \<open>For a handler whose steps keep \<open>I\<close> and move by \<open>R\<close> whatever the world.\<close>

primrec tame :: "('w \<Rightarrow> bool) \<Rightarrow> ('w \<Rightarrow> 'w \<Rightarrow> bool) \<Rightarrow> ('w, 'a) proc \<Rightarrow> bool" where
  "tame I R (Ret a) = True"
| "tame I R (Step f) = (\<forall>w. I w \<longrightarrow> fst (map_prod (tame I R) id (f w)) \<and> I (snd (f w)) \<and> R w (snd (f w)))"

lemma tame_wp: "tame I R p \<Longrightarrow> wp I R p (\<lambda>_ _. True) w"
  by (induction p arbitrary: w rule: proc_induct) (auto simp: wp_Step)

lemma tame_wp_post: "tame I R p \<Longrightarrow> (\<And>a w. Q a w) \<Longrightarrow> wp I R p Q w"
  by (rule wp_mono [OF tame_wp]) simp_all

lemma tame_bind: "tame I R p \<Longrightarrow> (\<And>a. tame I R (k a)) \<Longrightarrow> tame I R (bind p k)"
  by (induction p rule: proc_induct) simp_all

lemma tame_ret [simp]: "tame I R (ret a)"
  by (simp add: ret_def)

lemma tame_throw [simp]: "tame I R (throw e)"
  by (simp add: throw_def)

lemma tame_await: "tame I R p \<Longrightarrow> (\<And>a. tame I R (k a)) \<Longrightarrow> tame I R (await p k)"
  by (auto simp: await_def intro!: tame_bind split: sum.splits)

lemma tame_catch: "tame I R p \<Longrightarrow> (\<And>e. tame I R (h e)) \<Longrightarrow> tame I R (catch p h)"
  by (auto simp: catch_def intro!: tame_bind split: sum.splits)

lemma tame_effect: "(\<And>w. I w \<Longrightarrow> I (snd (f w)) \<and> R w (snd (f w))) \<Longrightarrow> tame I R (effect f)"
  by (simp add: effect_def)

lemma tame_for_each: "(\<And>x. x \<in> set xs \<Longrightarrow> tame I R (body x)) \<Longrightarrow> tame I R (for_each xs body)"
  by (induction xs) (auto intro!: tame_await)

lemmas tame_rules = tame_await tame_catch tame_for_each

lemma tame_if: "(b \<Longrightarrow> tame I R p) \<Longrightarrow> (\<not> b \<Longrightarrow> tame I R q) \<Longrightarrow> tame I R (if b then p else q)"
  by simp

end
