(* ===== verification/Contract.thy ===== *)
theory Contract
  imports Schema Async
begin

text \<open>
  The contract package (\<open>packages/contract/src/index.ts\<close>): the message schemas of the two
  channels (commands to the vehicle, telemetry, acknowledgements, proposals and logs from it)
  as declared, and the zone/mode policy both gates apply. Modes, zones and actions are the
  texts the messages carry.
\<close>

named_theorems schema_defs "the declared schemas"

section \<open>Basic declarations\<close>

definition FencingTokenSchema :: schema where [schema_defs]:
  "FencingTokenSchema = ZObject [(''tokenId'', ZString [Uuid]),
     (''issuedAt'', ZNumber [IsInt, Positive])]"

definition LocationSchema :: schema where [schema_defs]:
  "LocationSchema = ZObject [(''lat'', ZNumber [Min (-90), Max 90]),
     (''lng'', ZNumber [Min (-180), Max 180])]"

definition OperationModeSchema :: schema where [schema_defs]:
  "OperationModeSchema = ZEnum [''MODE1'', ''MODE2'', ''DIAG'']"

definition ZoneTypeSchema :: schema where [schema_defs]:
  "ZoneTypeSchema = ZEnum [''public_approved_route'', ''public_test_permit'', ''depot'', ''private'', ''permitted_test'', ''out_of_tod'']"

definition VehicleStateSchema :: schema where [schema_defs]:
  "VehicleStateSchema = ZEnum [''IDLE'', ''SUPERVISED_ASSIST'', ''REMOTE_DRIVE'', ''SAFE_STOPPED'', ''MISSION_PAUSED'']"

section \<open>The zone/mode policy\<close>

type_synonym ZoneType = string
type_synonym OperationMode = string

record ZonePermissions =
  mode1 :: bool
  mode2 :: bool
  diagRead :: bool
  diagActions :: bool

definition permissions :: "bool \<Rightarrow> bool \<Rightarrow> bool \<Rightarrow> bool \<Rightarrow> ZonePermissions" where
  "permissions a b c d = \<lparr>mode1 = a, mode2 = b, diagRead = c, diagActions = d\<rparr>"

definition ZONE_MODE_MATRIX :: "ZoneType \<Rightarrow> ZonePermissions option" where [enum_defs]:
  "ZONE_MODE_MATRIX = map_of
    [(''public_approved_route'', permissions True False True True),
     (''public_test_permit'', permissions True True True True),
     (''depot'', permissions True True True True),
     (''private'', permissions True True True True),
     (''permitted_test'', permissions True True True True),
     (''out_of_tod'', permissions False False True False)]"

definition MODE2_ACTIONS :: "string list" where [enum_defs]:
  "MODE2_ACTIONS = [''STEER'', ''DRIVE'', ''SELECT_DIRECTION'', ''CREEP'', ''TURN'', ''PARK'', ''LIGHTS'']"

definition DIAG_READ_ACTIONS :: "string list" where [enum_defs]:
  "DIAG_READ_ACTIONS = [''PULL_LOGS'']"

definition DIAG_DISRUPTIVE_ACTIONS :: "string list" where [enum_defs]:
  "DIAG_DISRUPTIVE_ACTIONS = [''RESTART_SERVICE'', ''RESTART_COMPUTER'', ''RESTART_SENSOR'', ''UPDATE_CONFIG'']"

definition DIAG_ACTIONS :: "string list" where [enum_defs]:
  "DIAG_ACTIONS = DIAG_READ_ACTIONS @ DIAG_DISRUPTIVE_ACTIONS"

definition inferMode :: "string \<Rightarrow> OperationMode" where
  "inferMode action =
    (if List.member MODE2_ACTIONS action then ''MODE2''
     else if List.member DIAG_ACTIONS action then ''DIAG''
     else ''MODE1'')"

definition DIAG_RESTRICTED_ZONES :: "ZoneType list" where [enum_defs]:
  "DIAG_RESTRICTED_ZONES = [''public_approved_route'']"

definition isDiagDisruptive :: "string \<Rightarrow> bool" where
  "isDiagDisruptive action = List.member DIAG_DISRUPTIVE_ACTIONS action"

definition isDiagDisruptiveAllowed :: "string \<Rightarrow> ZoneType \<Rightarrow> bool \<Rightarrow> bool" where
  "isDiagDisruptiveAllowed action zone isStationary =
    (if \<not> isDiagDisruptive action then True
     else (case ZONE_MODE_MATRIX zone of
         None \<Rightarrow> False
       | Some p \<Rightarrow>
           if \<not> diagActions p then False
           else if List.member DIAG_RESTRICTED_ZONES zone then isStationary
           else True))"

definition isModeAllowedInZone :: "ZoneType \<Rightarrow> OperationMode \<Rightarrow> bool" where
  "isModeAllowedInZone zone mode =
    (case ZONE_MODE_MATRIX zone of
       None \<Rightarrow> False
     | Some p \<Rightarrow>
         if mode = ''MODE1'' then mode1 p
         else if mode = ''MODE2'' then mode2 p
         else if mode = ''DIAG'' then diagRead p
         else False)"

section \<open>Commands\<close>

definition SafeStopCommandSchema :: schema where [schema_defs]:
  "SafeStopCommandSchema = ZObject [(''action'', ZLiteral ''SAFE_STOP''),
     (''reason'', ZOptional (ZString []))]"

definition EStopCommandSchema :: schema where [schema_defs]:
  "EStopCommandSchema = ZObject [(''action'', ZLiteral ''E_STOP''),
     (''reason'', ZOptional (ZString []))]"

definition ClearSafeStopCommandSchema :: schema where [schema_defs]:
  "ClearSafeStopCommandSchema = ZObject [(''action'', ZLiteral ''CLEAR_SAFE_STOP''),
     (''reason'', ZOptional (ZString []))]"

definition ConfirmManeuverCommandSchema :: schema where [schema_defs]:
  "ConfirmManeuverCommandSchema = ZObject [(''action'', ZLiteral ''CONFIRM_MANEUVER''),
     (''proposalId'', ZString []),
     (''optionId'', ZOptional (ZString []))]"

definition RejectManeuverCommandSchema :: schema where [schema_defs]:
  "RejectManeuverCommandSchema = ZObject [(''action'', ZLiteral ''REJECT_MANEUVER''),
     (''proposalId'', ZString [])]"

definition SelectAlternativeCommandSchema :: schema where [schema_defs]:
  "SelectAlternativeCommandSchema = ZObject [(''action'', ZLiteral ''SELECT_ALTERNATIVE''),
     (''proposalId'', ZString []),
     (''optionId'', ZString [])]"

definition StartMissionCommandSchema :: schema where [schema_defs]:
  "StartMissionCommandSchema = ZObject [(''action'', ZLiteral ''START_MISSION''),
     (''routeId'', ZOptional (ZString []))]"

definition PauseMissionCommandSchema :: schema where [schema_defs]:
  "PauseMissionCommandSchema = ZObject [(''action'', ZLiteral ''PAUSE_MISSION'')]"

definition AbortMissionCommandSchema :: schema where [schema_defs]:
  "AbortMissionCommandSchema = ZObject [(''action'', ZLiteral ''ABORT_MISSION'')]"

definition ActivateADSCommandSchema :: schema where [schema_defs]:
  "ActivateADSCommandSchema = ZObject [(''action'', ZLiteral ''ACTIVATE_ADS'')]"

definition DeactivateADSCommandSchema :: schema where [schema_defs]:
  "DeactivateADSCommandSchema = ZObject [(''action'', ZLiteral ''DEACTIVATE_ADS'')]"

definition ResumeAutonomyCommandSchema :: schema where [schema_defs]:
  "ResumeAutonomyCommandSchema = ZObject [(''action'', ZLiteral ''RESUME_AUTONOMY'')]"

definition ConfirmPreDepartureCheckCommandSchema :: schema where [schema_defs]:
  "ConfirmPreDepartureCheckCommandSchema = ZObject [(''action'', ZLiteral ''CONFIRM_PRE_DEPARTURE_CHECK''),
     (''checklistId'', ZString [])]"

definition IntercomCommandSchema :: schema where [schema_defs]:
  "IntercomCommandSchema = ZObject [(''action'', ZLiteral ''INTERCOM''),
     (''state'', ZEnum [''OPEN'', ''CLOSE''])]"

definition PersonSafetyCommandSchema :: schema where [schema_defs]:
  "PersonSafetyCommandSchema = ZObject [(''action'', ZLiteral ''PERSON_SAFETY''),
     (''actionType'', ZEnum [''WARN_AWAY'', ''LOCK_COMPARTMENT''])]"

definition MarkCompletedCommandSchema :: schema where [schema_defs]:
  "MarkCompletedCommandSchema = ZObject [(''action'', ZLiteral ''MARK_COMPLETED''),
     (''stopId'', ZString [])]"

definition HazardLightsCommandSchema :: schema where [schema_defs]:
  "HazardLightsCommandSchema = ZObject [(''action'', ZLiteral ''HAZARD_LIGHTS''),
     (''on'', ZBoolean)]"

definition SteerCommandSchema :: schema where [schema_defs]:
  "SteerCommandSchema = ZObject [(''action'', ZLiteral ''STEER''),
     (''angle'', ZNumber [Min (-45), Max 45])]"

definition DriveCommandSchema :: schema where [schema_defs]:
  "DriveCommandSchema = ZObject [(''action'', ZLiteral ''DRIVE''),
     (''throttle'', ZNumber [Min 0, Max 100]),
     (''brake'', ZNumber [Min 0, Max 100])]"

definition SelectDirectionCommandSchema :: schema where [schema_defs]:
  "SelectDirectionCommandSchema = ZObject [(''action'', ZLiteral ''SELECT_DIRECTION''),
     (''direction'', ZEnum [''FORWARD'', ''REVERSE'', ''NEUTRAL''])]"

definition CreepCommandSchema :: schema where [schema_defs]:
  "CreepCommandSchema = ZObject [(''action'', ZLiteral ''CREEP''),
     (''speedKmh'', ZNumber [Min 0, Max 5])]"

definition TurnCommandSchema :: schema where [schema_defs]:
  "TurnCommandSchema = ZObject [(''action'', ZLiteral ''TURN''),
     (''direction'', ZEnum [''LEFT'', ''RIGHT'', ''STRAIGHT''])]"

definition ParkCommandSchema :: schema where [schema_defs]:
  "ParkCommandSchema = ZObject [(''action'', ZLiteral ''PARK''),
     (''engage'', ZBoolean)]"

definition LightsCommandSchema :: schema where [schema_defs]:
  "LightsCommandSchema = ZObject [(''action'', ZLiteral ''LIGHTS''),
     (''state'', ZEnum [''OFF'', ''LOW'', ''HIGH'', ''BLINK_LEFT'', ''BLINK_RIGHT''])]"

definition HornCommandSchema :: schema where [schema_defs]:
  "HornCommandSchema = ZObject [(''action'', ZLiteral ''HORN''),
     (''durationMs'', ZNumber [IsInt, Min 0, Max 5000])]"

definition SpeakerCommandSchema :: schema where [schema_defs]:
  "SpeakerCommandSchema = ZObject [(''action'', ZLiteral ''SPEAKER''),
     (''message'', ZString [])]"

definition RestartServiceCommandSchema :: schema where [schema_defs]:
  "RestartServiceCommandSchema = ZObject [(''action'', ZLiteral ''RESTART_SERVICE''),
     (''serviceName'', ZString [])]"

definition RestartComputerCommandSchema :: schema where [schema_defs]:
  "RestartComputerCommandSchema = ZObject [(''action'', ZLiteral ''RESTART_COMPUTER''),
     (''target'', ZString [])]"

definition RestartSensorCommandSchema :: schema where [schema_defs]:
  "RestartSensorCommandSchema = ZObject [(''action'', ZLiteral ''RESTART_SENSOR''),
     (''sensorId'', ZString [])]"

definition UpdateConfigCommandSchema :: schema where [schema_defs]:
  "UpdateConfigCommandSchema = ZObject [(''action'', ZLiteral ''UPDATE_CONFIG''),
     (''configKey'', ZString []),
     (''configValue'', ZString [])]"

definition PullLogsCommandSchema :: schema where [schema_defs]:
  "PullLogsCommandSchema = ZObject [(''action'', ZLiteral ''PULL_LOGS''),
     (''timeRangeMs'', ZNumber [])]"

definition CommandPayloadSchema :: schema where [schema_defs]:
  "CommandPayloadSchema = ZUnion ''action''
    [SafeStopCommandSchema, EStopCommandSchema,
     ClearSafeStopCommandSchema, ConfirmManeuverCommandSchema,
     RejectManeuverCommandSchema, SelectAlternativeCommandSchema,
     StartMissionCommandSchema, PauseMissionCommandSchema,
     AbortMissionCommandSchema, ActivateADSCommandSchema,
     DeactivateADSCommandSchema, ResumeAutonomyCommandSchema,
     ConfirmPreDepartureCheckCommandSchema, IntercomCommandSchema,
     PersonSafetyCommandSchema, MarkCompletedCommandSchema,
     HazardLightsCommandSchema, SteerCommandSchema,
     DriveCommandSchema, SelectDirectionCommandSchema,
     CreepCommandSchema, TurnCommandSchema,
     ParkCommandSchema, LightsCommandSchema,
     HornCommandSchema, SpeakerCommandSchema,
     RestartServiceCommandSchema, RestartComputerCommandSchema,
     RestartSensorCommandSchema, UpdateConfigCommandSchema,
     PullLogsCommandSchema]"

definition CommandEnvelopeSchema :: schema where [schema_defs]:
  "CommandEnvelopeSchema = ZObject [(''commandId'', ZString [Uuid]),
     (''correlationId'', ZString [Uuid]),
     (''sessionId'', ZString [MinLength 1]),
     (''vehicleId'', ZString [MinLength 1]),
     (''issuer'', ZString [MinLength 1]),
     (''mode'', OperationModeSchema),
     (''token'', FencingTokenSchema),
     (''timestamp'', ZNumber [IsInt, Positive]),
     (''ttlMs'', ZNumber [IsInt, Positive]),
     (''payload'', CommandPayloadSchema),
     (''signature'', ZString [MinLength 1])]"

section \<open>Zone configuration and maneuver proposals\<close>

definition ZonePermitConfigSchema :: schema where [schema_defs]:
  "ZonePermitConfigSchema = ZObject [(''permitId'', ZString [MinLength 1]),
     (''validUntil'', ZNumber [IsInt, Positive]),
     (''validFrom'', ZOptional (ZNumber [IsInt, Positive])),
     (''speedLimitKmh'', ZOptional (ZNumber [Positive]))]"

definition ZoneConfigSchema :: schema where [schema_defs]:
  "ZoneConfigSchema = ZObject [(''vehicleId'', ZString [MinLength 1]),
     (''zone'', ZoneTypeSchema),
     (''permit'', ZOptional (ZonePermitConfigSchema)),
     (''issuedAt'', ZNumber [IsInt, Positive]),
     (''revision'', ZNumber [IsInt, Positive]),
     (''issuer'', ZString [MinLength 1]),
     (''signature'', ZString [MinLength 1])]"

definition ManeuverOptionSchema :: schema where [schema_defs]:
  "ManeuverOptionSchema = ZObject [(''optionId'', ZString []),
     (''description'', ZString []),
     (''expectedResult'', ZString [])]"

definition ManeuverProposalSchema :: schema where [schema_defs]:
  "ManeuverProposalSchema = ZObject [(''proposalId'', ZString [Uuid]),
     (''vehicleId'', ZString []),
     (''reasonCode'', ZString []),
     (''context'', ZObject [(''sceneSummary'', ZString []), (''sensorRefs'', ZArray (ZString []) None None)]),
     (''options'', ZArray ManeuverOptionSchema (Some 1) None),
     (''validityWindowMs'', ZNumber [IsInt, Positive]),
     (''defaultOnTimeout'', ZString []),
     (''timestamp'', ZNumber [IsInt, Positive])]"

definition ManeuverProposalStatusSchema :: schema where [schema_defs]:
  "ManeuverProposalStatusSchema = ZEnum [''PENDING'', ''DECIDED'', ''TIMED_OUT'', ''CANCELLED'']"

definition ManeuverProposalStatusUpdateSchema :: schema where [schema_defs]:
  "ManeuverProposalStatusUpdateSchema = ZObject [(''proposalId'', ZString [Uuid]),
     (''vehicleId'', ZString []),
     (''status'', ManeuverProposalStatusSchema),
     (''selectedOptionId'', ZOptional (ZString [])),
     (''timestamp'', ZNumber [IsInt, Positive])]"

section \<open>Telemetry, checks, missions, logs and acknowledgements\<close>

definition MotorTelemetrySchema :: schema where [schema_defs]:
  "MotorTelemetrySchema = ZObject [(''rpm'', ZNumber []),
     (''temperatureC'', ZNumber [])]"

definition BatteryTelemetrySchema :: schema where [schema_defs]:
  "BatteryTelemetrySchema = ZObject [(''voltageV'', ZNumber []),
     (''currentA'', ZNumber []),
     (''temperatureC'', ZNumber []),
     (''percent'', ZNumber [Min 0, Max 100])]"

definition SensorStatusSchema :: schema where [schema_defs]:
  "SensorStatusSchema = ZObject [(''id'', ZString []),
     (''type'', ZEnum [''CAMERA'', ''LIDAR'', ''ULTRASONIC'', ''RADAR'']),
     (''status'', ZEnum [''OK'', ''DEGRADED'', ''FAULT''])]"

definition ComputeHealthSchema :: schema where [schema_defs]:
  "ComputeHealthSchema = ZObject [(''cpuPercent'', ZNumber [Min 0, Max 100]),
     (''ramPercent'', ZNumber [Min 0, Max 100]),
     (''temperatureC'', ZNumber [])]"

definition ConnectionQualitySchema :: schema where [schema_defs]:
  "ConnectionQualitySchema = ZObject [(''rttMs'', ZNumber []),
     (''packetLossPercent'', ZNumber [Min 0, Max 100]),
     (''carrier'', ZString []),
     (''band'', ZString [])]"

definition VehicleStateVectorSchema :: schema where [schema_defs]:
  "VehicleStateVectorSchema = ZObject [(''accelerationX'', ZNumber []),
     (''accelerationY'', ZNumber []),
     (''accelerationZ'', ZNumber []),
     (''yawRate'', ZNumber [])]"

definition TelemetryPayloadSchema :: schema where [schema_defs]:
  "TelemetryPayloadSchema = ZObject [(''vehicleId'', ZString [MinLength 1]),
     (''timestamp'', ZNumber [IsInt, Positive]),
     (''location'', LocationSchema),
     (''speedKmh'', ZNumber [Min 0, Max 200]),
     (''vehicleState'', VehicleStateSchema),
     (''mode'', OperationModeSchema),
     (''battery'', BatteryTelemetrySchema),
     (''motor'', ZOptional (MotorTelemetrySchema)),
     (''sensors'', ZArray SensorStatusSchema None None),
     (''computeHealth'', ComputeHealthSchema),
     (''connection'', ConnectionQualitySchema),
     (''stateVector'', ZOptional (VehicleStateVectorSchema)),
     (''activeFencingToken'', ZOptional (FencingTokenSchema)),
     (''currentZone'', ZOptional (ZoneTypeSchema)),
     (''dtc'', ZOptional (ZArray (ZString []) None None))]"

definition CheckItemStatusSchema :: schema where [schema_defs]:
  "CheckItemStatusSchema = ZEnum [''PASS'', ''FAIL'', ''PENDING'', ''NOT_APPLICABLE'']"

definition CheckSourceSchema :: schema where [schema_defs]:
  "CheckSourceSchema = ZEnum [''SELF_DIAGNOSIS'', ''OPERATOR'']"

definition CheckItemSchema :: schema where [schema_defs]:
  "CheckItemSchema = ZObject [(''itemId'', ZString []),
     (''label'', ZString []),
     (''category'', ZEnum [''BRAKES'', ''STEERING'', ''TIRES'', ''LIGHTS'', ''PERCEPTION'', ''PROPULSION'', ''CONNECTIVITY'', ''OTHER'']),
     (''safetyCritical'', ZBoolean),
     (''source'', CheckSourceSchema),
     (''status'', CheckItemStatusSchema),
     (''detail'', ZOptional (ZString []))]"

definition PreDepartureCheckSchema :: schema where [schema_defs]:
  "PreDepartureCheckSchema = ZObject [(''checklistId'', ZString [Uuid]),
     (''vehicleId'', ZString []),
     (''items'', ZArray CheckItemSchema None None),
     (''status'', ZEnum [''IN_PROGRESS'', ''PASSED'', ''FAILED'', ''CONFIRMED'']),
     (''createdAt'', ZNumber [IsInt, Positive]),
     (''confirmedAt'', ZOptional (ZNumber [IsInt, Positive])),
     (''confirmedBy'', ZOptional (ZString []))]"

definition MissionStatusSchema :: schema where [schema_defs]:
  "MissionStatusSchema = ZEnum [''PENDING'', ''PRE_CHECK'', ''ACTIVE'', ''PAUSED'', ''COMPLETED'', ''ABORTED'']"

definition MissionSchema :: schema where [schema_defs]:
  "MissionSchema = ZObject [(''missionId'', ZString [Uuid]),
     (''vehicleId'', ZString []),
     (''routeId'', ZOptional (ZString [])),
     (''status'', MissionStatusSchema),
     (''createdAt'', ZNumber [IsInt, Positive]),
     (''startedAt'', ZOptional (ZNumber [IsInt, Positive])),
     (''completedAt'', ZOptional (ZNumber [IsInt, Positive])),
     (''checklistId'', ZOptional (ZString [Uuid]))]"

definition HeartbeatSchema :: schema where [schema_defs]:
  "HeartbeatSchema = ZObject [(''vehicleId'', ZString [MinLength 1]),
     (''timestamp'', ZNumber [IsInt, Positive]),
     (''seq'', ZNumber [IsInt, NonNegative]),
     (''healthy'', ZBoolean),
     (''vehicleState'', VehicleStateSchema),
     (''currentZone'', ZOptional (ZoneTypeSchema)),
     (''latched'', ZOptional (ZBoolean))]"

definition EdgeLogEventTypeSchema :: schema where [schema_defs]:
  "EdgeLogEventTypeSchema = ZEnum [''LATCH_ENGAGED'', ''LATCH_RELEASED'', ''ZONE_CONFIG_APPLIED'']"

definition EdgeLogEventSchema :: schema where [schema_defs]:
  "EdgeLogEventSchema = ZObject [(''vehicleId'', ZString [MinLength 1]),
     (''bootId'', ZString [MinLength 1]),
     (''seq'', ZNumber [IsInt, NonNegative]),
     (''timestamp'', ZNumber [IsInt, Positive]),
     (''type'', EdgeLogEventTypeSchema),
     (''details'', ZOptional (ZRecord ZUnknown))]"

definition EdgeLogBatchSchema :: schema where [schema_defs]:
  "EdgeLogBatchSchema = ZObject [(''vehicleId'', ZString [MinLength 1]),
     (''events'', ZArray EdgeLogEventSchema (Some 1) (Some 100))]"

definition EdgeLogSyncAckSchema :: schema where [schema_defs]:
  "EdgeLogSyncAckSchema = ZObject [(''vehicleId'', ZString [MinLength 1]),
     (''bootId'', ZString [MinLength 1]),
     (''upTo'', ZNumber [IsInt, NonNegative]),
     (''signature'', ZString [MinLength 1])]"

definition DeadmanPingSchema :: schema where [schema_defs]:
  "DeadmanPingSchema = ZObject [(''vehicleId'', ZString [MinLength 1]),
     (''timestamp'', ZNumber [IsInt, Positive]),
     (''signature'', ZString [MinLength 1])]"

definition AckStatusSchema :: schema where [schema_defs]:
  "AckStatusSchema = ZEnum [''ACK'', ''REJECTED'', ''ERROR'']"

definition RejectReasonSchema :: schema where [schema_defs]:
  "RejectReasonSchema = ZEnum [''UNAUTHORIZED'', ''INVALID_TOKEN'', ''GEOFENCE_VIOLATION'', ''SCHEMA_INVALID'', ''TTL_EXPIRED'', ''VEHICLE_HEALTH_ERROR'', ''MODE_MISMATCH'', ''DUPLICATE_COMMAND'', ''SAFE_STOP_LATCHED'', ''DIAG_DEFERRED'', ''PERMIT_SPEED_LIMIT'']"

definition CommandAckSchema :: schema where [schema_defs]:
  "CommandAckSchema = ZObject [(''commandId'', ZString [Uuid]),
     (''status'', AckStatusSchema),
     (''reason'', ZOptional (RejectReasonSchema)),
     (''details'', ZOptional (ZString []))]"

end
