(* ===== verification/Canonical.thy ===== *)
theory Canonical
  imports Json "HOL-Library.Multiset"
begin

text \<open>
  The signing base of the contract package: \<open>canonicalStringify\<close>
  (\<open>packages/contract/src/index.ts\<close>). Keys are compared by code units, as \<open><\<close> does on strings.
  The lemmas give its normal form \<open>canon\<close>, show that the canonical text is the JSON text of the
  normal form, that it does not depend on the order of the keys nor on undefined fields, and
  that it can be read back, so that equal canonical texts mean equal documents.
\<close>

section \<open>The function\<close>

text \<open>\<open>undefined\<close> joins as the empty text: an array with an undefined element has no JSON text.\<close>

fun canonicalStringify :: "json \<Rightarrow> string" where
  "canonicalStringify JUndef = []"
| "canonicalStringify (JArr vs) = ''['' @ join '','' (map canonicalStringify vs) @ '']''"
| "canonicalStringify (JObj es) =
     ''{'' @ join '','' (map (\<lambda>e. quote (fst e) @ '':'' @ canonicalStringify (snd e))
       (sort_key fst (filter (\<lambda>e. snd e \<noteq> JUndef) es))) @ ''}''"
| "canonicalStringify JNull = stringify JNull"
| "canonicalStringify (JBool b) = stringify (JBool b)"
| "canonicalStringify (JNum d) = stringify (JNum d)"
| "canonicalStringify (JStr s) = stringify (JStr s)"

section \<open>The normal form of a document\<close>

fun canon :: "json \<Rightarrow> json" where
  "canon (JArr vs) = JArr (map canon vs)"
| "canon (JObj es) = JObj (map (\<lambda>e. (fst e, canon (snd e)))
     (sort_key fst (filter (\<lambda>e. snd e \<noteq> JUndef) es)))"
| "canon v = v"

text \<open>Documents that have a JSON text: no undefined value outside the fields of an object.\<close>

fun sendable :: "json \<Rightarrow> bool" where
  "sendable JUndef = False"
| "sendable (JNum d) = dec_norm d"
| "sendable (JArr vs) = (\<forall>v \<in> set vs. sendable v)"
| "sendable (JObj es) = (distinct (map fst es) \<and> (\<forall>e \<in> set es. snd e \<noteq> JUndef \<longrightarrow> sendable (snd e)))"
| "sendable _ = True"

lemma sendable_not_undef: "sendable v \<Longrightarrow> v \<noteq> JUndef"
  by auto

lemma canon_undef [simp]: "canon v = JUndef \<longleftrightarrow> v = JUndef"
  by (cases v) auto

lemma clean_undef [simp]: "clean v \<noteq> JUndef"
  by (cases v) auto

lemma sort_key_sorted: "sorted (map f xs) \<Longrightarrow> sort_key f xs = xs"
  by (simp add: sorted_sort_id sort_key_id_if_sorted)

lemma insort_key_map: "insort_key f (g x) (map g xs) = map g (insort_key (f \<circ> g) x xs)"
  by (induction xs) auto

lemma sort_key_map: "sort_key f (map g xs) = map g (sort_key (f \<circ> g) xs)"
  by (induction xs) (simp_all add: insort_key_map comp_def)

lemma distinct_map_sort_key [simp]: "distinct (map f (sort_key g xs)) = distinct (map f xs)"
  by (simp add: distinct_map)

lemma canon_idem: "canon (canon v) = canon v"
proof (induction v)
  case (JObj es)
  let ?ss = "sort_key fst (filter (\<lambda>e. snd e \<noteq> JUndef) es)"
  let ?ms = "map (\<lambda>e. (fst e, canon (snd e))) ?ss"
  have "filter (\<lambda>e. snd e \<noteq> JUndef) ?ms = ?ms"
    by (auto simp: filter_id_conv)
  moreover have "sort_key fst ?ms = ?ms"
    by (rule sort_key_sorted) (simp add: comp_def)
  moreover have "map (\<lambda>e. (fst e, canon (snd e))) ?ms = ?ms"
    using JObj by auto
  ultimately show ?case by simp
qed simp_all

lemma wf_json_canon: "sendable v \<Longrightarrow> wf_json (canon v)"
proof (induction v)
  case (JObj es)
  let ?fs = "filter (\<lambda>e. snd e \<noteq> JUndef) es"
  have "distinct (map fst ?fs)" using JObj.prems by (simp add: distinct_map_filter)
  with JObj show ?case by (auto simp: comp_def)
qed auto

lemma canonicalStringify_canon: "sendable v \<Longrightarrow> canonicalStringify v = stringify (canon v)"
proof (induction v)
  case (JArr vs)
  then have "map canonicalStringify vs = map stringify (map canon vs)" by simp
  then show ?case by (simp only: canonicalStringify.simps canon.simps stringify.simps)
next
  case (JObj es)
  let ?fs = "sort_key fst (filter (\<lambda>e. snd e \<noteq> JUndef) es)"
  let ?ms = "map (\<lambda>e. (fst e, canon (snd e))) ?fs"
  have 1: "filter (\<lambda>e. snd e \<noteq> JUndef) ?ms = ?ms"
    by (auto simp: filter_id_conv)
  have 2: "map (\<lambda>e. quote (fst e) @ '':'' @ canonicalStringify (snd e)) ?fs = map member_str ?ms"
    using JObj by auto
  show ?case
    by (simp only: canonicalStringify.simps canon.simps stringify.simps 1 2)
qed simp_all

lemma clean_canon: "sendable v \<Longrightarrow> clean (canon v) = canon v"
proof (induction v)
  case (JObj es)
  let ?ms = "map (\<lambda>e. (fst e, canon (snd e))) (sort_key fst (filter (\<lambda>e. snd e \<noteq> JUndef) es))"
  have "filter (\<lambda>e. snd e \<noteq> JUndef) ?ms = ?ms"
    by (auto simp: filter_id_conv)
  moreover have "map (\<lambda>e. (fst e, clean (snd e))) ?ms = ?ms"
    using JObj by auto
  ultimately show ?case by simp
qed auto

section \<open>Reading the signing base back\<close>

lemma parse_canonicalStringify: "sendable v \<Longrightarrow> json_parse (canonicalStringify v) = Some (canon v)"
  using json_parse_stringify [of "canon v"]
  by (simp add: canonicalStringify_canon wf_json_canon clean_canon)

lemma canonicalStringify_inject:
  assumes "sendable v" "sendable w"
  shows "canonicalStringify v = canonicalStringify w \<longleftrightarrow> canon v = canon w"
  using parse_canonicalStringify [OF assms(1)] parse_canonicalStringify [OF assms(2)]
    canonicalStringify_canon [OF assms(1)] canonicalStringify_canon [OF assms(2)]
  by (metis option.inject)

text \<open>The order in which an object's fields were written does not matter.\<close>

lemma sort_key_mset_eq:
  fixes es :: "(string \<times> 'b) list"
  assumes "mset es = mset fs" "distinct (map fst es)"
  shows "sort_key fst es = sort_key fst fs"
proof (rule map_sorted_distinct_set_unique [where f = fst])
  have d: "distinct (map fst fs)"
    using assms mset_eq_imp_distinct_iff [of "map fst es" "map fst fs"] by (metis mset_map)
  show "inj_on fst (set (sort_key fst es) \<union> set (sort_key fst fs))"
    using assms(2) mset_eq_setD [OF assms(1)] by (simp add: distinct_map)
  show "sorted (map fst (sort_key fst es))" "sorted (map fst (sort_key fst fs))"
    by simp_all
  show "distinct (map fst (sort_key fst es))" "distinct (map fst (sort_key fst fs))"
    using assms(2) d by (simp_all only: distinct_map_sort_key)
  show "set (sort_key fst es) = set (sort_key fst fs)"
    using mset_eq_setD [OF assms(1)] by simp
qed

lemma canon_field_order:
  assumes "mset es = mset fs" "distinct (map fst es)"
  shows "canon (JObj es) = canon (JObj fs)"
proof -
  have "mset (filter (\<lambda>e. snd e \<noteq> JUndef) es) = mset (filter (\<lambda>e. snd e \<noteq> JUndef) fs)"
    using assms(1) by (simp add: mset_filter)
  moreover have "distinct (map fst (filter (\<lambda>e. snd e \<noteq> JUndef) es))"
    using assms(2) by (simp add: distinct_map_filter)
  ultimately show ?thesis
    using sort_key_mset_eq [of "filter (\<lambda>e. snd e \<noteq> JUndef) es" "filter (\<lambda>e. snd e \<noteq> JUndef) fs"]
    by simp
qed

lemma canon_clean:
  "sendable v \<Longrightarrow> canon (clean v) = canon v"
proof (induction v)
  case (JObj es)
  let ?fs = "filter (\<lambda>e. snd e \<noteq> JUndef) es"
  let ?g = "\<lambda>e. (fst e, clean (snd e))"
  have "sort_key fst (map ?g ?fs) = map ?g (sort_key fst ?fs)"
    by (simp add: sort_key_map comp_def)
  moreover have "filter (\<lambda>e. snd e \<noteq> JUndef) (map ?g ?fs) = map ?g ?fs"
    by (auto simp: filter_id_conv)
  ultimately show ?case using JObj by auto
qed auto

lemma sendable_clean: "sendable v \<Longrightarrow> sendable (clean v)"
  by (induction v) (auto simp: comp_def distinct_map_filter)

lemma sendable_wf: "sendable v \<Longrightarrow> wf_json v"
proof (induction v)
  case (JObj es)
  have "wf_json (snd e)" if "e \<in> set es" for e
    using JObj that by (cases "snd e = JUndef") (auto simp: snds.simps)
  with JObj.prems show ?case by simp
qed auto

text \<open>The receiver parses the wire text, takes the signature out and prints canonically: it
  gets the bytes the sender signed.\<close>

definition without :: "string \<Rightarrow> json \<Rightarrow> json" where
  "without k v = (case v of JObj es \<Rightarrow> JObj (filter (\<lambda>e. fst e \<noteq> k) es) | _ \<Rightarrow> v)"

lemma canonical_of_wire:
  assumes "sendable (JObj es)" "k \<notin> fst ` set es"
  shows "\<exists>v. json_parse (stringify (JObj (es @ [(k, JStr s)]))) = Some v \<and>
    canonicalStringify (without k v) = canonicalStringify (JObj es)"
proof -
  let ?fs = "filter (\<lambda>e. snd e \<noteq> JUndef) es"
  let ?v = "clean (JObj (es @ [(k, JStr s)]))"
  have wf: "wf_json (JObj (es @ [(k, JStr s)]))"
    using assms by (auto intro: sendable_wf)
  have "without k ?v = clean (JObj es)"
    using assms(2) by (force simp: without_def filter_id_conv)
  moreover have "sendable (clean (JObj es))"
    using assms(1) by (rule sendable_clean)
  ultimately have "canonicalStringify (without k ?v) = canonicalStringify (JObj es)"
    using assms(1) by (simp only: canonicalStringify_canon canon_clean)
  with json_parse_stringify [OF wf] show ?thesis by blast
qed

end
