(* ===== verification/Valkey.thy ===== *)
theory Valkey
  imports Prelude
begin

text \<open>
  The lock store. The services keep the fencing lock of a vehicle in Valkey and use five of its
  commands: \<open>GET\<close>, \<open>SET key value EX s\<close>, the same with \<open>NX\<close>, \<open>EXPIRE\<close> and \<open>DEL\<close>. The store is
  not part of the program: its commands are the record \<open>valkey_ops\<close>, over any type of store
  contents, each given the time at which the server executes it (ms); the locale \<open>valkey\<close> states
  what the documentation promises of them. \<open>ttl_ops\<close> is a store with these laws, the map
  from keys to values and deadlines.
\<close>

record 'kv valkey_ops =
  vk_get :: "'kv \<Rightarrow> msec \<Rightarrow> string \<Rightarrow> string option"
  vk_set :: "'kv \<Rightarrow> msec \<Rightarrow> string \<Rightarrow> string \<Rightarrow> int \<Rightarrow> 'kv"
  vk_set_nx :: "'kv \<Rightarrow> msec \<Rightarrow> string \<Rightarrow> string \<Rightarrow> int \<Rightarrow> bool \<times> 'kv"
  vk_expire :: "'kv \<Rightarrow> msec \<Rightarrow> string \<Rightarrow> int \<Rightarrow> 'kv"
  vk_del :: "'kv \<Rightarrow> msec \<Rightarrow> string \<Rightarrow> 'kv"

text \<open>An operation at time \<open>t\<close> is observed by reads at times \<open>t' \<ge> t\<close>. \<open>EX s\<close> keeps the key
  for \<open>s\<close> seconds.\<close>

locale valkey =
  fixes ops :: "'kv valkey_ops"
  assumes get_set:
      "t \<le> t' \<Longrightarrow> vk_get ops (vk_set ops s t k v x) t' k' =
        (if k' = k then (if t' < t + 1000 * x then Some v else None) else vk_get ops s t' k')"
    and set_nx:
      "vk_set_nx ops s t k v x =
        (if vk_get ops s t k = None then (True, vk_set ops s t k v x) else (False, s))"
    and get_expire:
      "t \<le> t' \<Longrightarrow> vk_get ops (vk_expire ops s t k x) t' k' =
        (if k' = k \<and> vk_get ops s t k \<noteq> None
         then (if t' < t + 1000 * x then vk_get ops s t k else None) else vk_get ops s t' k')"
    and get_del:
      "t \<le> t' \<Longrightarrow> vk_get ops (vk_del ops s t k) t' k' = (if k' = k then None else vk_get ops s t' k')"
    and get_lapse:
      "t \<le> t' \<Longrightarrow> vk_get ops s t' k = None \<or> vk_get ops s t' k = vk_get ops s t k"
begin

text \<open>A key that has lapsed stays away until it is set again.\<close>

lemma lapsed_stays: "vk_get ops s t k = None \<Longrightarrow> t \<le> t' \<Longrightarrow> vk_get ops s t' k = None"
  using get_lapse [of t t' s k] by auto

lemma live_before: "vk_get ops s t' k = Some v \<Longrightarrow> t \<le> t' \<Longrightarrow> vk_get ops s t k = Some v"
  using get_lapse [of t t' s k] by auto

text \<open>\<open>SET NX\<close> succeeds for one caller: after a success the key holds that caller's value and
  another \<open>SET NX\<close> within the lifetime fails.\<close>

lemma set_nx_success:
  assumes "vk_set_nx ops s t k v x = (True, s')" "t \<le> t'" "t' < t + 1000 * x"
  shows "vk_get ops s' t' k = Some v"
  using assms by (auto simp: set_nx get_set split: if_splits)

lemma set_nx_excludes:
  assumes "vk_set_nx ops s t k v x = (True, s')" "t \<le> t'" "t' < t + 1000 * x"
  shows "vk_set_nx ops s' t' k w y = (False, s')"
  using set_nx_success [OF assms] by (simp add: set_nx)

end

section \<open>A store with these laws\<close>

type_synonym ttl_store = "(string \<times> string \<times> msec) list"

definition ttl_get :: "ttl_store \<Rightarrow> msec \<Rightarrow> string \<Rightarrow> string option" where
  "ttl_get s t k = (case map_of s k of None \<Rightarrow> None
     | Some (v, dl) \<Rightarrow> if t < dl then Some v else None)"

definition ttl_set :: "ttl_store \<Rightarrow> msec \<Rightarrow> string \<Rightarrow> string \<Rightarrow> int \<Rightarrow> ttl_store" where
  "ttl_set s t k v x = AList.update k (v, t + 1000 * x) s"

definition ttl_set_nx :: "ttl_store \<Rightarrow> msec \<Rightarrow> string \<Rightarrow> string \<Rightarrow> int \<Rightarrow> bool \<times> ttl_store" where
  "ttl_set_nx s t k v x =
    (case ttl_get s t k of None \<Rightarrow> (True, ttl_set s t k v x) | Some _ \<Rightarrow> (False, s))"

definition ttl_expire :: "ttl_store \<Rightarrow> msec \<Rightarrow> string \<Rightarrow> int \<Rightarrow> ttl_store" where
  "ttl_expire s t k x = (case ttl_get s t k of None \<Rightarrow> s | Some v \<Rightarrow> ttl_set s t k v x)"

definition ttl_del :: "ttl_store \<Rightarrow> msec \<Rightarrow> string \<Rightarrow> ttl_store" where
  "ttl_del s t k = AList.delete k s"

definition ttl_ops :: "ttl_store valkey_ops" where
  "ttl_ops = \<lparr>vk_get = ttl_get, vk_set = ttl_set, vk_set_nx = ttl_set_nx,
     vk_expire = ttl_expire, vk_del = ttl_del\<rparr>"

lemma ttl_ops_simps [simp]:
  "vk_get ttl_ops = ttl_get" "vk_set ttl_ops = ttl_set" "vk_set_nx ttl_ops = ttl_set_nx"
  "vk_expire ttl_ops = ttl_expire" "vk_del ttl_ops = ttl_del"
  by (simp_all add: ttl_ops_def)

interpretation ttl: valkey ttl_ops
  by unfold_locales
    (auto simp: ttl_get_def ttl_set_def ttl_set_nx_def ttl_expire_def ttl_del_def update_conv'
      delete_conv' split: option.splits)

end
