(* ===== verification/World.thy ===== *)
theory World
  imports Contract Canonical Valkey
begin

text \<open>
  The world the cloud services act on, and the atomic effects they have on it: the clock, the
  supply of fresh identifiers, the lock store, the tables of the two databases
  (\<open>services/command/prisma/schema.prisma\<close>, \<open>services/fleet/prisma/schema.prisma\<close>), the broker
  connection with the messages handed to it, and the in-memory maps and timers of the command
  service. What is not under \<open>src/\<close> is a field of \<open>env\<close>: the store commands, the identifier
  generator, the Ed25519 signer, \<open>safeParse\<close>, the base64url decoder, and the settings read from
  the process environment.
\<close>

section \<open>Errors\<close>

text \<open>The exceptions of the handlers, with their \<open>reason\<close> code, or their message where they
  have no code.\<close>

datatype exn =
    UnauthorizedException string
  | BadRequestException string
  | ForbiddenException string
  | NotFoundException string
  | ServiceUnavailableException string
  | Error string

fun message_of :: "exn \<Rightarrow> string" where
  "message_of (UnauthorizedException m) = m"
| "message_of (BadRequestException m) = m"
| "message_of (ForbiddenException m) = m"
| "message_of (NotFoundException m) = m"
| "message_of (ServiceUnavailableException m) = m"
| "message_of (Error m) = m"

section \<open>Parameters\<close>

record 'kv env =
  vk :: "'kv valkey_ops"
  uuid_of :: "nat \<Rightarrow> uuid"
  sign_b64 :: "string \<Rightarrow> string"
  safeParse :: "schema \<Rightarrow> json \<Rightarrow> json option"
  b64url :: "string \<Rightarrow> string"
  fault :: string
  AUTH_TRUST_APIGW_JWT :: bool
  ASSIGNMENT_ENFORCEMENT :: bool
  AWS_IOT_ENDPOINT :: bool
  CHECKLIST_MAX_AGE_MS :: int

text \<open>What \<open>uuid.v4\<close> promises: identifiers in the standard format. Where freshness matters, the
  theorems compare the identifiers concerned.\<close>

definition uuid_supply :: "'kv env \<Rightarrow> bool" where
  "uuid_supply E = (\<forall>n. uuid_format (uuid_of E n))"

section \<open>State\<close>

record edr_row =
  edr_commandId :: string
  edr_correlationId :: string
  edr_vehicleId :: vehicle_id
  edr_issuer :: string
  edr_action :: string
  edr_status :: string
  edr_details :: json
  edr_createdAt :: msec

record assignment_row =
  asg_id :: uuid
  asg_vehicleId :: vehicle_id
  asg_operatorId :: operator_id
  asg_active :: bool
  asg_assignedBy :: string
  asg_createdAt :: msec
  asg_revokedAt :: "msec option"
  asg_revokedBy :: "string option"

record message =
  msg_topic :: string
  msg_doc :: json
  msg_retain :: bool

text \<open>Zone permits; a limit in km/h is a decimal number.\<close>

record ZonePermit =
  permitId :: string
  changedBy :: string
  permit_reason :: "string option"
  validUntil :: "int option"
  validFrom :: "int option"
  speedLimitKmh :: "dec option"

record ZoneRecord =
  zone :: ZoneType
  permit :: "ZonePermit option"

record ActiveProposal =
  proposal :: json
  receivedAt :: msec
  timer :: nat

record ack_watch =
  aw_due :: msec
  aw_commandId :: string
  aw_vehicleId :: vehicle_id
  aw_operatorId :: operator_id
  aw_action :: string
  aw_correlationId :: string
  aw_ttlMs :: int

record proposal_timer =
  pt_handle :: nat
  pt_due :: msec
  pt_proposalId :: string

record check_row =
  chk_id :: uuid
  chk_vehicleId :: vehicle_id
  chk_status :: string
  chk_items :: "json list"
  chk_confirmedBy :: "string option"
  chk_createdAt :: msec
  chk_confirmedAt :: "msec option"

record mission_row =
  mis_id :: uuid
  mis_vehicleId :: vehicle_id
  mis_routeId :: "string option"
  mis_status :: string
  mis_checklistId :: "uuid option"
  mis_createdAt :: msec
  mis_startedAt :: "msec option"
  mis_completedAt :: "msec option"

record fleet_row =
  flt_correlationId :: string
  flt_vehicleId :: vehicle_id
  flt_issuer :: string
  flt_action :: string
  flt_status :: string
  flt_details :: json
  flt_createdAt :: msec

record 'kv world =
  clock :: msec
  uuids :: nat
  store :: 'kv
  store_up :: bool
  db_up :: bool
  edr :: "edr_row list"
  assignments :: "assignment_row list"
  broker_up :: bool
  outbox :: "message list"
  deadmanTimers :: "vehicle_id \<Rightarrow> msec option"
  ackTimers :: "ack_watch list"
  vehicleZones :: "vehicle_id \<Rightarrow> ZoneRecord option"
  revisions :: "vehicle_id \<Rightarrow> int option"
  lastLatch :: "vehicle_id \<Rightarrow> bool option"
  activeProposals :: "(string \<times> ActiveProposal) list"
  proposalTimers :: "proposal_timer list"
  handles :: nat
  notified :: "(string \<times> json) list"
  fleet_db_up :: bool
  checklists :: "check_row list"
  missions :: "mission_row list"
  fleet_events :: "fleet_row list"

type_synonym ('kv, 'a) handler = "('kv world, exn, 'a) io"

section \<open>Effects\<close>

definition uuidv4 :: "'kv env \<Rightarrow> ('kv, uuid) handler" where
  "uuidv4 E = effect (\<lambda>w. (Inr (uuid_of E (uuids w)), w\<lparr>uuids := Suc (uuids w)\<rparr>))"

definition date_now :: "('kv, msec) handler" where
  "date_now = look clock"

definition redis_get :: "'kv env \<Rightarrow> string \<Rightarrow> ('kv, string option) handler" where
  "redis_get E k = effect (\<lambda>w.
     if store_up w then (Inr (vk_get (vk E) (store w) (clock w) k), w) else (Inl (Error (fault E)), w))"

definition redis_set_ex :: "'kv env \<Rightarrow> string \<Rightarrow> string \<Rightarrow> int \<Rightarrow> ('kv, unit) handler" where
  "redis_set_ex E k v x = effect (\<lambda>w.
     if store_up w then (Inr (), w\<lparr>store := vk_set (vk E) (store w) (clock w) k v x\<rparr>)
     else (Inl (Error (fault E)), w))"

definition redis_set_ex_nx :: "'kv env \<Rightarrow> string \<Rightarrow> string \<Rightarrow> int \<Rightarrow> ('kv, bool) handler" where
  "redis_set_ex_nx E k v x = effect (\<lambda>w.
     if store_up w then
       (Inr (fst (vk_set_nx (vk E) (store w) (clock w) k v x)),
        w\<lparr>store := snd (vk_set_nx (vk E) (store w) (clock w) k v x)\<rparr>)
     else (Inl (Error (fault E)), w))"

definition redis_expire :: "'kv env \<Rightarrow> string \<Rightarrow> int \<Rightarrow> ('kv, unit) handler" where
  "redis_expire E k x = effect (\<lambda>w.
     if store_up w then (Inr (), w\<lparr>store := vk_expire (vk E) (store w) (clock w) k x\<rparr>)
     else (Inl (Error (fault E)), w))"

definition redis_del :: "'kv env \<Rightarrow> string \<Rightarrow> ('kv, unit) handler" where
  "redis_del E k = effect (\<lambda>w.
     if store_up w then (Inr (), w\<lparr>store := vk_del (vk E) (store w) (clock w) k\<rparr>)
     else (Inl (Error (fault E)), w))"

text \<open>A statement on the tables of the command service; with the database down it is rejected
  and changes nothing.\<close>

definition db_query :: "'kv env \<Rightarrow> ('kv world \<Rightarrow> 'a) \<Rightarrow> ('kv, 'a) handler" where
  "db_query E q = effect (\<lambda>w. if db_up w then (Inr (q w), w) else (Inl (Error (fault E)), w))"

definition db_update :: "'kv env \<Rightarrow> ('kv world \<Rightarrow> 'a \<times> 'kv world) \<Rightarrow> ('kv, 'a) handler" where
  "db_update E u = effect (\<lambda>w. if db_up w then map_prod Inr id (u w) else (Inl (Error (fault E)), w))"

text \<open>\<open>prisma.eventDataRecord.create\<close>: the row gets the time of the insert.\<close>

definition edr_create :: "'kv env \<Rightarrow> edr_row \<Rightarrow> ('kv, unit) handler" where
  "edr_create E r = db_update E (\<lambda>w. ((), w\<lparr>edr := edr w @ [r\<lparr>edr_createdAt := clock w\<rparr>]\<rparr>))"

text \<open>A new row, before the database stamps it.\<close>

definition edr_data :: "string \<Rightarrow> string \<Rightarrow> vehicle_id \<Rightarrow> string \<Rightarrow> string \<Rightarrow> string \<Rightarrow> json \<Rightarrow> edr_row" where
  "edr_data c k v i a s d = \<lparr>edr_commandId = c, edr_correlationId = k, edr_vehicleId = v, edr_issuer = i,
     edr_action = a, edr_status = s, edr_details = d, edr_createdAt = 0\<rparr>"

text \<open>\<open>MqttService.publish\<close> (\<open>mqtt.service.ts\<close>): the document is handed to the client when it is
  connected, and the caller learns whether it was. The text on the wire is its \<open>stringify\<close>.\<close>

definition publish_now :: "string \<Rightarrow> json \<Rightarrow> bool \<Rightarrow> 'kv world \<Rightarrow> bool \<times> 'kv world" where
  "publish_now topic payload retain w =
    (if broker_up w
     then (True, w\<lparr>outbox := outbox w @ [\<lparr>msg_topic = topic, msg_doc = payload, msg_retain = retain\<rparr>]\<rparr>)
     else (False, w))"

definition publish :: "string \<Rightarrow> json \<Rightarrow> bool \<Rightarrow> ('kv, bool) handler" where
  "publish topic payload retain = effect (\<lambda>w. map_prod Inr id (publish_now topic payload retain w))"

definition vehicle_topic :: "vehicle_id \<Rightarrow> string \<Rightarrow> string" where
  "vehicle_topic v channel = ''joppilot/v1/vehicles/'' @ v @ ''/'' @ channel"

section \<open>Reading and writing the world, undisturbed\<close>

lemma run_uuidv4 [simp]: "run (uuidv4 E) w = (Inr (uuid_of E (uuids w)), w\<lparr>uuids := Suc (uuids w)\<rparr>)"
  by (simp add: uuidv4_def)

lemma run_date_now [simp]: "run date_now w = (Inr (clock w), w)"
  by (simp add: date_now_def)

lemma run_redis [simp]:
  "run (redis_get E k) w =
    (if store_up w then (Inr (vk_get (vk E) (store w) (clock w) k), w) else (Inl (Error (fault E)), w))"
  "run (redis_set_ex E k v x) w =
    (if store_up w then (Inr (), w\<lparr>store := vk_set (vk E) (store w) (clock w) k v x\<rparr>)
     else (Inl (Error (fault E)), w))"
  "run (redis_set_ex_nx E k v x) w =
    (if store_up w then
       (Inr (fst (vk_set_nx (vk E) (store w) (clock w) k v x)),
        w\<lparr>store := snd (vk_set_nx (vk E) (store w) (clock w) k v x)\<rparr>)
     else (Inl (Error (fault E)), w))"
  "run (redis_expire E k x) w =
    (if store_up w then (Inr (), w\<lparr>store := vk_expire (vk E) (store w) (clock w) k x\<rparr>)
     else (Inl (Error (fault E)), w))"
  "run (redis_del E k) w =
    (if store_up w then (Inr (), w\<lparr>store := vk_del (vk E) (store w) (clock w) k\<rparr>)
     else (Inl (Error (fault E)), w))"
  by (simp_all add: redis_get_def redis_set_ex_def redis_set_ex_nx_def redis_expire_def redis_del_def)

lemma run_db [simp]:
  "run (db_query E q) w = (if db_up w then (Inr (q w), w) else (Inl (Error (fault E)), w))"
  "run (db_update E u) w = (if db_up w then (Inr (fst (u w)), snd (u w)) else (Inl (Error (fault E)), w))"
  by (simp_all add: db_query_def db_update_def map_prod_def case_prod_beta)

lemma run_edr_create [simp]:
  "run (edr_create E r) w =
    (if db_up w then (Inr (), w\<lparr>edr := edr w @ [r\<lparr>edr_createdAt := clock w\<rparr>]\<rparr>)
     else (Inl (Error (fault E)), w))"
  by (simp add: edr_create_def)

lemma run_publish [simp]:
  "run (publish topic doc retain) w =
    (if broker_up w
     then (Inr True, w\<lparr>outbox := outbox w @ [\<lparr>msg_topic = topic, msg_doc = doc, msg_retain = retain\<rparr>]\<rparr>)
     else (Inr False, w))"
  by (simp add: publish_def publish_now_def)

text \<open>Each effect is one step.\<close>

lemma trail_effects [simp]:
  "trail (uuidv4 E) w = [snd (run (uuidv4 E) w)]" "trail date_now w = [w]"
  "trail (redis_get E k) w = [w]" "trail (edr_create E row) w = [snd (run (edr_create E row) w)]"
  "trail (publish topic doc retain) w = [snd (run (publish topic doc retain) w)]"
  by (simp_all add: uuidv4_def date_now_def redis_get_def edr_create_def db_update_def publish_def)

section \<open>Steps of the surroundings\<close>

text \<open>Time passes; a server or the broker goes away or comes back.\<close>

definition tick :: "nat \<Rightarrow> ('kv, unit) handler" where
  "tick d = modify (\<lambda>w. w\<lparr>clock := clock w + int d\<rparr>)"

definition set_links :: "bool \<Rightarrow> bool \<Rightarrow> bool \<Rightarrow> bool \<Rightarrow> ('kv, unit) handler" where
  "set_links s d b f = modify (\<lambda>w. w\<lparr>store_up := s, db_up := d, broker_up := b, fleet_db_up := f\<rparr>)"

end
