(* ===== verification/Identity.thy ===== *)
theory Identity
  imports World
begin

text \<open>
  Who is calling: the identity carried by a request (\<open>identity.ts\<close> of the command service, of
  which the fleet service has a copy) and the role guard of the admin routes
  (\<open>roles.guard.ts\<close>). The gateway in front of the services has verified the token; here it is
  only decoded. The lemmas state the binding: in the cloud configuration a handler that passes
  \<open>requireOperatorIdentity\<close> acts for the caller named in the token, and an admin route is
  entered with the admin group only.
\<close>

section \<open>Requests\<close>

text \<open>A header is absent, one text, or a list of texts.\<close>

datatype header = One string | Many "string list"

record req =
  authorization :: "header option"
  x_operator_role :: "header option"

text \<open>\<open>Array.isArray(h) ? h[0] : h\<close>.\<close>

fun first_header :: "header option \<Rightarrow> string option" where
  "first_header None = None"
| "first_header (Some (One s)) = Some s"
| "first_header (Some (Many [])) = None"
| "first_header (Some (Many (s # ss))) = Some s"

text \<open>\<open>auth.replace(/^Bearer\s+/i, '')\<close>.\<close>

definition is_js_space :: "char \<Rightarrow> bool" where
  "is_js_space c = (let n = (of_char c :: nat) in (9 \<le> n \<and> n \<le> 13) \<or> n = 32 \<or> n = 160)"

text \<open>\<open>trim\<close> removes white space at both ends.\<close>

definition trim :: "string \<Rightarrow> string" where
  "trim s = rev (dropWhile is_js_space (rev (dropWhile is_js_space s)))"

lemma trim_id: "list_all (\<lambda>c. \<not> is_js_space c) s \<Longrightarrow> trim s = s"
proof -
  assume a: "list_all (\<lambda>c. \<not> is_js_space c) s"
  have "dropWhile is_js_space xs = xs" if "list_all (\<lambda>c. \<not> is_js_space c) xs" for xs
    using that by (cases xs) simp_all
  with a show "trim s = s" by (simp add: trim_def list_all_rev)
qed

definition lower :: "char \<Rightarrow> char" where
  "lower c = (let n = (of_char c :: nat) in if 65 \<le> n \<and> n \<le> 90 then char_of (n + 32) else c)"

definition strip_bearer :: "string \<Rightarrow> string" where
  "strip_bearer s =
    (let rest = drop 6 s in
     if map lower (take 6 s) = ''bearer'' \<and> rest \<noteq> [] \<and> is_js_space (hd rest)
     then dropWhile is_js_space rest else s)"

section \<open>The identity of the caller\<close>

text \<open>The decoded payload, \<open>None\<close> when there is no readable token.\<close>

definition jwtPayload :: "'kv env \<Rightarrow> req \<Rightarrow> json option" where
  "jwtPayload E r =
    (let auth = first_header (authorization r) in
     if \<not> truthy_str auth then None
     else (let parts = split_on CHR ''.'' (strip_bearer (the auth)) in
       if length parts \<noteq> 3 then None else json_parse (b64url E (parts ! 1))))"

text \<open>\<open>a ?? b\<close> on JSON values.\<close>

definition or_null :: "json \<Rightarrow> json \<Rightarrow> json" where
  "or_null a b = (if a = JUndef \<or> a = JNull then b else a)"

definition identityFrom :: "'kv env \<Rightarrow> req \<Rightarrow> string option" where
  "identityFrom E r =
    (case jwtPayload E r of
       None \<Rightarrow> None
     | Some p \<Rightarrow>
         if falsy p then None
         else (case or_null (or_null (get_field p ''cognito:username'') (get_field p ''username''))
                      (get_field p ''sub'') of
                 JStr name \<Rightarrow> Some name
               | _ \<Rightarrow> None))"

definition identityBindingEnabled :: "'kv env \<Rightarrow> bool" where
  "identityBindingEnabled E = AUTH_TRUST_APIGW_JWT E"

definition requireOperatorIdentity :: "'kv env \<Rightarrow> req \<Rightarrow> operator_id \<Rightarrow> exn option" where
  "requireOperatorIdentity E r operatorId =
    (if \<not> identityBindingEnabled E then None
     else (let identity = identityFrom E r in
       if \<not> truthy_str identity \<or> identity \<noteq> Some operatorId
       then Some (ForbiddenException ''IDENTITY_MISMATCH'') else None))"

definition actorFrom :: "'kv env \<Rightarrow> req \<Rightarrow> string option \<Rightarrow> string" where
  "actorFrom E r bodyValue =
    (if identityBindingEnabled E \<and> truthy_str (identityFrom E r) then the (identityFrom E r)
     else or_str bodyValue ''ADMIN'')"

text \<open>A guard that throws, in front of a handler.\<close>

definition guarded :: "exn option \<Rightarrow> ('kv, 'a) handler \<Rightarrow> ('kv, 'a) handler" where
  "guarded g p = (case g of None \<Rightarrow> p | Some e \<Rightarrow> throw e)"

lemma run_guarded [simp]:
  "run (guarded g p) w = (case g of None \<Rightarrow> run p w | Some e \<Rightarrow> (Inl e, w))"
  by (simp add: guarded_def split: option.splits)

lemma tame_guarded: "tame I R p \<Longrightarrow> tame I R (guarded g p)"
  by (simp add: guarded_def split: option.splits)

lemma wp_guarded: "wp I R (guarded g p) Q w \<longleftrightarrow>
    (case g of None \<Rightarrow> wp I R p Q w | Some e \<Rightarrow> Q (Inl e) w)"
  by (simp add: guarded_def split: option.splits)

text \<open>A request without any of these headers.\<close>

definition no_req :: req where
  "no_req = \<lparr>authorization = None, x_operator_role = None\<rparr>"

section \<open>The role guard\<close>

definition KNOWN_ROLES :: "string list" where [enum_defs]:
  "KNOWN_ROLES = [''admin'', ''operator'']"

definition groupsFromBearerJwt :: "'kv env \<Rightarrow> string option \<Rightarrow> string list" where
  "groupsFromBearerJwt E auth =
    (if \<not> truthy_str auth then []
     else (let parts = split_on CHR ''.'' (strip_bearer (the auth)) in
       if length parts \<noteq> 3 then []
       else (case json_parse (b64url E (parts ! 1)) of
           None \<Rightarrow> []
         | Some payload \<Rightarrow>
             (case get_field payload ''cognito:groups'' of
                JArr gs \<Rightarrow> map as_str (filter is_str gs)
              | _ \<Rightarrow> []))))"

definition resolveRole :: "'kv env \<Rightarrow> req \<Rightarrow> string option" where
  "resolveRole E r =
    (if AUTH_TRUST_APIGW_JWT E
     then find (List.member (groupsFromBearerJwt E (first_header (authorization r)))) KNOWN_ROLES
     else Some (nullish (first_header (x_operator_role r)) ''operator''))"

text \<open>\<open>canActivate\<close> for a route annotated with the roles \<open>required\<close>.\<close>

definition canActivate :: "'kv env \<Rightarrow> string list \<Rightarrow> req \<Rightarrow> exn option" where
  "canActivate E required r =
    (if required = [] then None
     else (case resolveRole E r of
         Some role \<Rightarrow>
           if role \<noteq> [] \<and> List.member required role then None
           else Some (ForbiddenException ''UNAUTHORIZED'')
       | None \<Rightarrow> Some (ForbiddenException ''UNAUTHORIZED'')))"

section \<open>What the guards establish\<close>

text \<open>\<open>caller E r u\<close>: the request carries a token whose identity is \<open>u\<close>.\<close>

definition caller :: "'kv env \<Rightarrow> req \<Rightarrow> string \<Rightarrow> bool" where
  "caller E r u = (identityFrom E r = Some u \<and> u \<noteq> [])"

lemma requireOperatorIdentity_cloud:
  "AUTH_TRUST_APIGW_JWT E \<Longrightarrow>
   requireOperatorIdentity E r u = None \<longleftrightarrow> caller E r u"
  by (cases "identityFrom E r")
    (auto simp: requireOperatorIdentity_def identityBindingEnabled_def caller_def Let_def)

lemma requireOperatorIdentity_local: "\<not> AUTH_TRUST_APIGW_JWT E \<Longrightarrow> requireOperatorIdentity E r u = None"
  by (simp add: requireOperatorIdentity_def identityBindingEnabled_def)

lemma requireOperatorIdentity_error:
  "requireOperatorIdentity E r u = Some e \<Longrightarrow> e = ForbiddenException ''IDENTITY_MISMATCH''"
  by (auto simp: requireOperatorIdentity_def Let_def split: if_splits)

lemma actorFrom_cloud: "AUTH_TRUST_APIGW_JWT E \<Longrightarrow> caller E r u \<Longrightarrow> actorFrom E r b = u"
  by (cases u) (auto simp: actorFrom_def identityBindingEnabled_def caller_def)

lemma actorFrom_not_empty: "actorFrom E r b \<noteq> []"
proof -
  have "or_str b ''ADMIN'' \<noteq> []" by (simp add: or_str_def truthy_str_def split: option.splits)
  then show ?thesis by (auto simp: actorFrom_def truthy_str_def split: option.splits)
qed

lemma canActivate_admin_cloud:
  assumes "AUTH_TRUST_APIGW_JWT E"
  shows "canActivate E [''admin''] r = None \<longleftrightarrow>
    ''admin'' \<in> set (groupsFromBearerJwt E (first_header (authorization r)))"
  using assms
  by (auto simp: canActivate_def resolveRole_def KNOWN_ROLES_def)

lemma groups_need_token:
  "groupsFromBearerJwt E auth \<noteq> [] \<Longrightarrow> truthy_str auth"
  by (auto simp: groupsFromBearerJwt_def split: if_splits)

end
