(* ===== verification/Session.thy ===== *)
theory Session
  imports Signing
begin

text \<open>
  Control sessions (\<open>session.service.ts\<close>): the fencing lock of a vehicle, kept in the lock
  store for six seconds per heartbeat, its hand-over by an administrator, and the deadman timer
  of the instance, which sends a signed SAFE_STOP when it fires and finds no lock.
\<close>

section \<open>The lock\<close>

record VehicleLock =
  op :: operator_id
  token :: uuid
  issuedAt :: dec

definition lock_key :: "vehicle_id \<Rightarrow> string" where
  "lock_key vehicleId = ''lock:vehicle:'' @ vehicleId"

text \<open>\<open>JSON.stringify(lock)\<close>.\<close>

definition lock_text :: "operator_id \<Rightarrow> uuid \<Rightarrow> msec \<Rightarrow> string" where
  "lock_text p t i = stringify (JObj [(''op'', JStr p), (''token'', JStr t), (''issuedAt'', JInt i)])"

definition parseLock :: "string option \<Rightarrow> VehicleLock option" where
  "parseLock raw =
    (if \<not> truthy_str raw then None
     else (case json_parse (the raw) of
         None \<Rightarrow> None
       | Some v \<Rightarrow>
           (case (get_field v ''op'', get_field v ''token'', get_field v ''issuedAt'') of
              (JStr p, JStr t, JNum i) \<Rightarrow> Some \<lparr>op = p, token = t, issuedAt = i\<rparr>
            | _ \<Rightarrow> None)))"

section \<open>Operations\<close>

definition resetDeadmanTimer :: "vehicle_id \<Rightarrow> ('kv, unit) handler" where
  "resetDeadmanTimer vehicleId =
    modify (\<lambda>w. w\<lparr>deadmanTimers := (deadmanTimers w)(vehicleId \<mapsto> clock w + 7000)\<rparr>)"

definition takeControl :: "'kv env \<Rightarrow> vehicle_id \<Rightarrow> operator_id \<Rightarrow> ('kv, (uuid \<times> msec) option) handler" where
  "takeControl E vehicleId operatorId =
    await (uuidv4 E) (\<lambda>tok.
    await date_now (\<lambda>issued.
    await (redis_set_ex_nx E (lock_key vehicleId) (lock_text operatorId tok issued) 6) (\<lambda>acquired.
    if acquired then
      await (resetDeadmanTimer vehicleId) (\<lambda>_. ret (Some (tok, issued)))
    else ret None)))"

definition heartbeat :: "'kv env \<Rightarrow> vehicle_id \<Rightarrow> operator_id \<Rightarrow> uuid \<Rightarrow> ('kv, bool) handler" where
  "heartbeat E vehicleId operatorId tok =
    await (redis_get E (lock_key vehicleId)) (\<lambda>raw.
    case parseLock raw of
      None \<Rightarrow> ret False
    | Some lock \<Rightarrow>
        if op lock = operatorId \<and> token lock = tok then
          await (redis_expire E (lock_key vehicleId) 6) (\<lambda>_.
          await (resetDeadmanTimer vehicleId) (\<lambda>_. ret True))
        else ret False)"

definition handover_session :: "'kv env \<Rightarrow> vehicle_id \<Rightarrow> operator_id \<Rightarrow> ('kv, (uuid \<times> msec) option) handler" where
  "handover_session E vehicleId newOperatorId =
    await (redis_get E (lock_key vehicleId)) (\<lambda>_.
    await (uuidv4 E) (\<lambda>tok.
    await date_now (\<lambda>issued.
    await (redis_set_ex E (lock_key vehicleId) (lock_text newOperatorId tok issued) 6) (\<lambda>_.
    await (resetDeadmanTimer vehicleId) (\<lambda>_. ret (Some (tok, issued)))))))"

definition validateToken :: "'kv env \<Rightarrow> vehicle_id \<Rightarrow> operator_id \<Rightarrow> uuid \<Rightarrow> ('kv, bool) handler" where
  "validateToken E vehicleId operatorId tok =
    await (redis_get E (lock_key vehicleId)) (\<lambda>raw.
    ret (case parseLock raw of None \<Rightarrow> False | Some lock \<Rightarrow> op lock = operatorId \<and> token lock = tok))"

definition getTokenIssuedAt :: "'kv env \<Rightarrow> vehicle_id \<Rightarrow> ('kv, dec) handler" where
  "getTokenIssuedAt E vehicleId =
    await (redis_get E (lock_key vehicleId)) (\<lambda>raw.
    case parseLock raw of
      Some lock \<Rightarrow> ret (issuedAt lock)
    | None \<Rightarrow> await date_now (\<lambda>t. ret (dec_of_int t)))"

text \<open>The envelope of a command, before it is signed.\<close>

definition envelope_doc ::
  "uuid \<Rightarrow> uuid \<Rightarrow> string \<Rightarrow> vehicle_id \<Rightarrow> string \<Rightarrow> OperationMode \<Rightarrow> uuid \<Rightarrow> dec \<Rightarrow> msec \<Rightarrow> int \<Rightarrow> json \<Rightarrow> json" where
  "envelope_doc commandId correlationId sessionId vehicleId issuer mode tokenId issued timestamp ttlMs payload =
    JObj [(''commandId'', JStr commandId), (''correlationId'', JStr correlationId),
      (''sessionId'', JStr sessionId), (''vehicleId'', JStr vehicleId), (''issuer'', JStr issuer),
      (''mode'', JStr mode), (''token'', JObj [(''tokenId'', JStr tokenId), (''issuedAt'', JNum issued)]),
      (''timestamp'', JInt timestamp), (''ttlMs'', JInt ttlMs), (''payload'', payload)]"

definition deadman_note :: string where
  "deadman_note = ''Deadman SAFE_STOP could not be published (MQTT down); vehicle watchdog covers the failsafe.''"

definition triggerSafeStop :: "'kv env \<Rightarrow> vehicle_id \<Rightarrow> ('kv, unit) handler" where
  "triggerSafeStop E vehicleId =
    await (uuidv4 E) (\<lambda>commandId.
    await (uuidv4 E) (\<lambda>correlationId.
    await (uuidv4 E) (\<lambda>tokenId.
    await date_now (\<lambda>issued.
    await date_now (\<lambda>timestamp.
    let envelope = signDocument E
      (envelope_doc commandId correlationId ''DEADMAN-SYSTEM'' vehicleId ''SYSTEM'' ''MODE1'' tokenId
        (dec_of_int issued) timestamp 5000
        (JObj [(''action'', JStr ''SAFE_STOP''), (''reason'', JStr ''DEADMAN_TIMEOUT'')])) in
    await (edr_create E (edr_data commandId correlationId vehicleId ''SYSTEM'' ''SAFE_STOP'' ''PENDING''
      (clean envelope))) (\<lambda>_.
    await (publish (vehicle_topic vehicleId ''estop'') envelope False) (\<lambda>sent.
    if sent then ret ()
    else edr_create E (edr_data commandId correlationId vehicleId ''SYSTEM'' ''SAFE_STOP'' ''PUBLISH_FAILED''
      (JObj [(''note'', JStr deadman_note)])))))))))"

text \<open>The callback of the deadman timer; it runs when the timer is due, once.\<close>

definition deadman_fires :: "'kv env \<Rightarrow> vehicle_id \<Rightarrow> ('kv, unit) handler" where
  "deadman_fires E vehicleId =
    await (effect (\<lambda>w.
      case deadmanTimers w vehicleId of
        Some due \<Rightarrow>
          if due \<le> clock w then (Inr True, w\<lparr>deadmanTimers := (deadmanTimers w)(vehicleId := None)\<rparr>)
          else (Inr False, w)
      | None \<Rightarrow> (Inr False, w))) (\<lambda>fires.
    if \<not> fires then ret ()
    else await (redis_get E (lock_key vehicleId)) (\<lambda>currentLock.
      if truthy_str currentLock then ret () else triggerSafeStop E vehicleId))"

section \<open>What a lock says\<close>

lemma parseLock_lock_text [simp]:
  "parseLock (Some (lock_text p t i)) = Some \<lparr>op = p, token = t, issuedAt = dec_of_int i\<rparr>"
proof -
  let ?v = "JObj [(''op'', JStr p), (''token'', JStr t), (''issuedAt'', JInt i)]"
  have "json_parse (lock_text p t i) = Some ?v"
    unfolding lock_text_def using json_parse_stringify [of ?v] by simp
  moreover have "lock_text p t i \<noteq> []" by (simp add: lock_text_def)
  ultimately show ?thesis by (simp add: parseLock_def)
qed

lemma parseLock_None [simp]: "parseLock None = None"
  by (simp add: parseLock_def)

text \<open>Who holds the lock of a vehicle at a time, as the services read it.\<close>

definition holder :: "'kv env \<Rightarrow> 'kv \<Rightarrow> msec \<Rightarrow> vehicle_id \<Rightarrow> VehicleLock option" where
  "holder E s t v = parseLock (vk_get (vk E) s t (lock_key v))"

lemma lock_key_inject [simp]: "lock_key v = lock_key u \<longleftrightarrow> v = u"
  by (simp add: lock_key_def)

lemma run_resetDeadmanTimer [simp]:
  "run (resetDeadmanTimer v) w = (Inr (), w\<lparr>deadmanTimers := (deadmanTimers w)(v \<mapsto> clock w + 7000)\<rparr>)"
  by (simp add: resetDeadmanTimer_def)

lemma run_validateToken [simp]:
  "run (validateToken E v p t) w =
    (if store_up w
     then (Inr (case holder E (store w) (clock w) v of None \<Rightarrow> False | Some l \<Rightarrow> op l = p \<and> token l = t), w)
     else (Inl (Error (fault E)), w))"
  by (simp add: validateToken_def holder_def)

lemma run_getTokenIssuedAt [simp]:
  "run (getTokenIssuedAt E v) w =
    (if store_up w
     then (Inr (case holder E (store w) (clock w) v of Some l \<Rightarrow> issuedAt l | None \<Rightarrow> dec_of_int (clock w)), w)
     else (Inl (Error (fault E)), w))"
  by (simp add: getTokenIssuedAt_def holder_def split: option.splits)

section \<open>Each operation, undisturbed\<close>

text \<open>The state after a grant. It abbreviates what the operations do: \<open>run_takeControl\<close> and \<open>run_handover_session\<close>
  derive it from their definitions, timer and lifetime included.\<close>

definition grant :: "'kv env \<Rightarrow> vehicle_id \<Rightarrow> operator_id \<Rightarrow> 'kv world \<Rightarrow> 'kv world" where
  "grant E v p w = w\<lparr>uuids := Suc (uuids w),
     store := vk_set (vk E) (store w) (clock w) (lock_key v) (lock_text p (uuid_of E (uuids w)) (clock w)) 6,
     deadmanTimers := (deadmanTimers w)(v \<mapsto> clock w + 7000)\<rparr>"

lemma grant_simps [simp]:
  "clock (grant E v p w) = clock w" "edr (grant E v p w) = edr w" "outbox (grant E v p w) = outbox w"
  "store_up (grant E v p w) = store_up w" "db_up (grant E v p w) = db_up w"
  "uuids (grant E v p w) = Suc (uuids w)" "assignments (grant E v p w) = assignments w"
  "broker_up (grant E v p w) = broker_up w"
  "deadmanTimers (grant E v p w) = (deadmanTimers w)(v \<mapsto> clock w + 7000)"
  by (simp_all add: grant_def)

lemma run_takeControl:
  assumes "valkey (vk E)"
  shows "run (takeControl E v p) w =
    (if \<not> store_up w then (Inl (Error (fault E)), w\<lparr>uuids := Suc (uuids w)\<rparr>)
     else if vk_get (vk E) (store w) (clock w) (lock_key v) = None
     then (Inr (Some (uuid_of E (uuids w), clock w)), grant E v p w)
     else (Inr None, w\<lparr>uuids := Suc (uuids w)\<rparr>))"
  by (simp add: takeControl_def valkey.set_nx [OF assms] grant_def)

lemma run_handover_session:
  "run (handover_session E v p) w =
    (if \<not> store_up w then (Inl (Error (fault E)), w)
     else (Inr (Some (uuid_of E (uuids w), clock w)), grant E v p w))"
  by (simp add: handover_session_def grant_def)

lemma run_heartbeat:
  "run (heartbeat E v p t) w =
    (if \<not> store_up w then (Inl (Error (fault E)), w)
     else if \<exists>i. holder E (store w) (clock w) v = Some \<lparr>op = p, token = t, issuedAt = i\<rparr>
     then (Inr True, w\<lparr>store := vk_expire (vk E) (store w) (clock w) (lock_key v) 6,
             deadmanTimers := (deadmanTimers w)(v \<mapsto> clock w + 7000)\<rparr>)
     else (Inr False, w))"
proof (cases "holder E (store w) (clock w) v")
  case None
  then show ?thesis by (simp add: heartbeat_def holder_def)
next
  case (Some l)
  then show ?thesis by (cases l) (auto simp: heartbeat_def holder_def)
qed

text \<open>What a granted lock looks like later on, if nobody touches it.\<close>

lemma holder_grant:
  assumes "valkey (vk E)" "clock w \<le> t"
  shows "holder E (store (grant E v p w)) t u =
    (if u = v
     then (if t < clock w + 6000
       then Some \<lparr>op = p, token = uuid_of E (uuids w), issuedAt = dec_of_int (clock w)\<rparr> else None)
     else holder E (store w) t u)"
  using assms(2) by (simp add: holder_def grant_def valkey.get_set [OF assms(1)])

lemma raw_lock_grant:
  assumes "valkey (vk E)" "clock w \<le> t"
  shows "vk_get (vk E) (store (grant E v p w)) t (lock_key v) =
    (if t < clock w + 6000 then Some (lock_text p (uuid_of E (uuids w)) (clock w)) else None)"
  using assms(2) by (simp add: grant_def valkey.get_set [OF assms(1)])

lemma holder_raw: "holder E s t v = Some l \<Longrightarrow> vk_get (vk E) s t (lock_key v) \<noteq> None"
  by (rule notI) (simp add: holder_def)

lemma holder_expire:
  assumes "valkey (vk E)" "t \<le> t'"
  shows "holder E (vk_expire (vk E) s t (lock_key v) 6) t' u =
    (if u = v \<and> vk_get (vk E) s t (lock_key v) \<noteq> None
     then (if t' < t + 6000 then holder E s t v else None) else holder E s t' u)"
  using assms(2)
  by (cases "vk_get (vk E) s t (lock_key v)") (simp_all add: holder_def valkey.get_expire [OF assms(1)])

lemma holder_lapse:
  assumes "valkey (vk E)" "t \<le> t'"
  shows "holder E s t' v = None \<or> holder E s t' v = holder E s t v"
  using valkey.get_lapse [OF assms, of s "lock_key v"] by (auto simp: holder_def)

section \<open>The deadman\<close>

definition safe_stop_envelope :: "'kv env \<Rightarrow> vehicle_id \<Rightarrow> nat \<Rightarrow> msec \<Rightarrow> json" where
  "safe_stop_envelope E v n t = signDocument E
    (envelope_doc (uuid_of E n) (uuid_of E (Suc n)) ''DEADMAN-SYSTEM'' v ''SYSTEM'' ''MODE1''
      (uuid_of E (Suc (Suc n))) (dec_of_int t) t 5000
      (JObj [(''action'', JStr ''SAFE_STOP''), (''reason'', JStr ''DEADMAN_TIMEOUT'')]))"

definition safe_stop_row :: "'kv env \<Rightarrow> vehicle_id \<Rightarrow> nat \<Rightarrow> msec \<Rightarrow> string \<Rightarrow> json \<Rightarrow> edr_row" where
  "safe_stop_row E v n t st d =
    (edr_data (uuid_of E n) (uuid_of E (Suc n)) v ''SYSTEM'' ''SAFE_STOP'' st d)\<lparr>edr_createdAt := t\<rparr>"

lemma run_triggerSafeStop:
  "run (triggerSafeStop E v) w =
    (let n = uuids w; env = safe_stop_envelope E v n (clock w);
         row = safe_stop_row E v n (clock w) ''PENDING'' (clean env);
         w1 = w\<lparr>uuids := Suc (Suc (Suc n))\<rparr>
     in if \<not> db_up w then (Inl (Error (fault E)), w1)
        else if broker_up w then
          (Inr (), w1\<lparr>edr := edr w @ [row],
             outbox := outbox w @ [\<lparr>msg_topic = vehicle_topic v ''estop'', msg_doc = env, msg_retain = False\<rparr>]\<rparr>)
        else (Inr (), w1\<lparr>edr := edr w @ [row, safe_stop_row E v n (clock w) ''PUBLISH_FAILED''
                (JObj [(''note'', JStr deadman_note)])]\<rparr>))"
  by (simp add: triggerSafeStop_def safe_stop_envelope_def safe_stop_row_def Let_def)

lemma run_deadman_fires:
  "run (deadman_fires E v) w =
    (case deadmanTimers w v of
       None \<Rightarrow> (Inr (), w)
     | Some due \<Rightarrow>
         if clock w < due then (Inr (), w)
         else (let w1 = w\<lparr>deadmanTimers := (deadmanTimers w)(v := None)\<rparr> in
           if \<not> store_up w then (Inl (Error (fault E)), w1)
           else if truthy_str (vk_get (vk E) (store w) (clock w) (lock_key v)) then (Inr (), w1)
           else run (triggerSafeStop E v) w1))"
  by (auto simp: deadman_fires_def Let_def split: option.splits)

section \<open>The life of a session\<close>

text \<open>Taking control of a free vehicle grants its lock: the result is a fresh token and the
  current time, for the next six seconds exactly this operator and token hold the vehicle, from
  then on nobody does unless something else writes the lock, the locks of other vehicles are
  untouched, and the deadman of the vehicle is set to go off after seven seconds.\<close>

theorem take_control_grants:
  assumes "valkey (vk E)" "store_up w" "vk_get (vk E) (store w) (clock w) (lock_key v) = None"
  shows "\<exists>w'. run (takeControl E v p) w = (Inr (Some (uuid_of E (uuids w), clock w)), w') \<and>
    (\<forall>t u. clock w \<le> t \<longrightarrow> holder E (store w') t u =
      (if u = v
       then (if t < clock w + 6000
             then Some \<lparr>op = p, token = uuid_of E (uuids w), issuedAt = dec_of_int (clock w)\<rparr> else None)
       else holder E (store w) t u)) \<and>
    deadmanTimers w' = (deadmanTimers w)(v \<mapsto> clock w + 7000)"
proof (intro exI conjI allI impI)
  show "run (takeControl E v p) w = (Inr (Some (uuid_of E (uuids w), clock w)), grant E v p w)"
    using assms by (simp add: run_takeControl)
  show "deadmanTimers (grant E v p w) = (deadmanTimers w)(v \<mapsto> clock w + 7000)"
    by simp
qed (rule holder_grant [OF assms(1)])

text \<open>A world to try things in, and parameters that satisfy every law.\<close>

definition demo_uuid :: "nat \<Rightarrow> uuid" where
  "demo_uuid n = map (\<lambda>d. digit_char (n div d mod 10)) [10000000, 1000000, 100000, 10000, 1000, 100, 10, 1]
     @ ''-0000-4000-8000-000000000000''"

lemma digit_char_01: "digit_char 0 = CHR ''0''" "digit_char (Suc 0) = CHR ''1''" "digit_char 2 = CHR ''2''" 
  by code_simp+
lemma demo_uuid_text:
  "demo_uuid 0 = ''00000000-0000-4000-8000-000000000000''"
  "demo_uuid (Suc 0) = ''00000001-0000-4000-8000-000000000000''"
  "demo_uuid (Suc (Suc 0)) = ''00000002-0000-4000-8000-000000000000''"
  by (simp_all add: demo_uuid_def digit_char_01 numeral_2_eq_2 [symmetric])

definition demo_env :: "bool \<Rightarrow> ttl_store env" where
  "demo_env cloud = \<lparr>vk = ttl_ops, uuid_of = demo_uuid, sign_b64 = (\<lambda>s. ''sig''), safeParse = zod_eval,
     b64url = (\<lambda>s. s), fault = ''down'', AUTH_TRUST_APIGW_JWT = cloud, ASSIGNMENT_ENFORCEMENT = cloud,
     AWS_IOT_ENDPOINT = False, CHECKLIST_MAX_AGE_MS = 1800000\<rparr>"

definition demo_world :: "ttl_store world" where
  "demo_world = \<lparr>clock = 1000000, uuids = 0, store = [], store_up = True, db_up = True, edr = [],
     assignments = [], broker_up = True, outbox = [], deadmanTimers = (\<lambda>_. None), ackTimers = [],
     vehicleZones = (\<lambda>_. None), revisions = (\<lambda>_. None), lastLatch = (\<lambda>_. None), activeProposals = [],
     proposalTimers = [], handles = 0, notified = [], fleet_db_up = True, checklists = [], missions = [],
     fleet_events = []\<rparr>"

lemma demo_env_simps [simp]:
  "vk (demo_env c) = ttl_ops" "safeParse (demo_env c) = zod_eval" "uuid_of (demo_env c) = demo_uuid"
  "sign_b64 (demo_env c) s = ''sig''" "b64url (demo_env c) s = s" "fault (demo_env c) = ''down''"
  "AUTH_TRUST_APIGW_JWT (demo_env c) = c" "ASSIGNMENT_ENFORCEMENT (demo_env c) = c"
  "\<not> AWS_IOT_ENDPOINT (demo_env c)" "CHECKLIST_MAX_AGE_MS (demo_env c) = 1800000"
  by (simp_all add: demo_env_def)

lemma demo_world_simps [simp]:
  "clock demo_world = 1000000" "uuids demo_world = 0" "store demo_world = []" "store_up demo_world"
  "db_up demo_world" "edr demo_world = []" "assignments demo_world = []" "broker_up demo_world"
  "outbox demo_world = []" "deadmanTimers demo_world v = None" "vehicleZones demo_world v = None"
  "revisions demo_world v = None" "lastLatch demo_world v = None" "activeProposals demo_world = []"
  "fleet_db_up demo_world" "checklists demo_world = []" "missions demo_world = []"
  "fleet_events demo_world = []" "ackTimers demo_world = []" "proposalTimers demo_world = []"
  "handles demo_world = 0"
  by (simp_all add: demo_world_def)

lemmas valkey_ttl [simp] = ttl.valkey_axioms

theorem take_control_grants_witness:
  "\<exists>w'. run (takeControl (demo_env True) ''v1'' ''alice'') demo_world = (Inr (Some (demo_uuid 0, 1000000)), w') \<and>
     holder (demo_env True) (store w') 1005999 ''v1''
       = Some \<lparr>op = ''alice'', token = demo_uuid 0, issuedAt = dec_of_int 1000000\<rparr> \<and>
     holder (demo_env True) (store w') 1006000 ''v1'' = None"
  using take_control_grants [of "demo_env True" demo_world "''v1''" "''alice''"]
  by (auto simp: ttl_get_def)

text \<open>A vehicle whose lock is taken is not given to anyone else: the request is refused, and
  the lock, the timers, the recorder and the outbox stay as they were.\<close>

theorem take_control_refused:
  assumes "valkey (vk E)" "store_up w" "holder E (store w) (clock w) v = Some l"
  shows "run (takeControl E v p) w = (Inr None, w\<lparr>uuids := Suc (uuids w)\<rparr>)"
  using assms holder_raw [OF assms(3)] by (simp add: run_takeControl)

definition held_world :: "ttl_store world" where
  "held_world = grant (demo_env True) ''v1'' ''alice'' demo_world"

lemma held_world_holder:
  "1000000 \<le> t \<Longrightarrow> holder (demo_env True) (store held_world) t ''v1'' =
    (if t < 1006000 then Some \<lparr>op = ''alice'', token = demo_uuid 0, issuedAt = dec_of_int 1000000\<rparr> else None)"
  using holder_grant [of "demo_env True" demo_world t "''v1''" "''alice''" "''v1''"]
  by (simp add: held_world_def)

theorem take_control_refused_witness:
  "run (takeControl (demo_env True) ''v1'' ''bob'') held_world = (Inr None, held_world\<lparr>uuids := 2\<rparr>)"
  using take_control_refused [of "demo_env True" held_world "''v1''" _ "''bob''"]
    held_world_holder [of 1000000]
  by (simp add: held_world_def numeral_2_eq_2)

text \<open>A heartbeat keeps the session alive exactly for its holder: with the operator and token
  of the lock it answers yes, extends the lock to six seconds from now and the deadman to seven;
  with any other operator or token, or without a lock, it answers no and changes nothing.\<close>

theorem heartbeat_keeps_holder:
  assumes "valkey (vk E)" "store_up w"
  shows "if \<exists>i. holder E (store w) (clock w) v = Some \<lparr>op = p, token = t, issuedAt = i\<rparr>
    then (\<exists>w'. run (heartbeat E v p t) w = (Inr True, w') \<and>
      (\<forall>x\<ge>clock w. holder E (store w') x v =
        (if x < clock w + 6000 then holder E (store w) (clock w) v else None)) \<and>
      deadmanTimers w' v = Some (clock w + 7000) \<and> edr w' = edr w \<and> outbox w' = outbox w)
    else run (heartbeat E v p t) w = (Inr False, w)"
proof (cases "\<exists>i. holder E (store w) (clock w) v = Some \<lparr>op = p, token = t, issuedAt = i\<rparr>")
  case True
  then have raw: "vk_get (vk E) (store w) (clock w) (lock_key v) \<noteq> None"
    using holder_raw [of E "store w" "clock w" v] by metis
  let ?w = "w\<lparr>store := vk_expire (vk E) (store w) (clock w) (lock_key v) 6,
     deadmanTimers := (deadmanTimers w)(v \<mapsto> clock w + 7000)\<rparr>"
  have "run (heartbeat E v p t) w = (Inr True, ?w)"
    using True assms(2) by (simp add: run_heartbeat)
  moreover have "\<forall>x\<ge>clock w. holder E (store ?w) x v =
      (if x < clock w + 6000 then holder E (store w) (clock w) v else None)"
    using raw holder_expire [OF assms(1)] by simp
  ultimately show ?thesis unfolding if_P [OF True] by (intro exI [of _ ?w] conjI) simp_all
next
  case False
  then show ?thesis using assms(2) by (simp add: run_heartbeat)
qed

theorem heartbeat_keeps_holder_witness:
  "\<exists>w'. run (heartbeat (demo_env True) ''v1'' ''alice'' (demo_uuid 0)) (held_world\<lparr>clock := 1004000\<rparr>) = (Inr True, w') \<and>
     holder (demo_env True) (store w') 1009999 ''v1'' \<noteq> None \<and> deadmanTimers w' ''v1'' = Some 1011000"
  using heartbeat_keeps_holder [of "demo_env True" "held_world\<lparr>clock := 1004000\<rparr>" "''v1''" "''alice''" "demo_uuid 0"]
    held_world_holder [of 1004000]
  by (auto simp: held_world_def)

text \<open>Handing a vehicle over replaces its session at once: from that moment the new operator
  with the new token holds it, for six seconds, and no earlier token passes the token check,
  unless it is the new one.\<close>

theorem handover_replaces_session:
  assumes "valkey (vk E)" "store_up w"
  shows "\<exists>w'. run (handover_session E v p) w = (Inr (Some (uuid_of E (uuids w), clock w)), w') \<and>
    (\<forall>x\<ge>clock w. holder E (store w') x v = (if x < clock w + 6000
       then Some \<lparr>op = p, token = uuid_of E (uuids w), issuedAt = dec_of_int (clock w)\<rparr> else None)) \<and>
    (\<forall>q t. q \<noteq> p \<or> t \<noteq> uuid_of E (uuids w) \<longrightarrow> fst (run (validateToken E v q t) w') = Inr False)"
proof (intro exI conjI allI impI)
  show "run (handover_session E v p) w = (Inr (Some (uuid_of E (uuids w), clock w)), grant E v p w)"
    using assms(2) by (simp add: run_handover_session)
  fix q t
  assume "q \<noteq> p \<or> t \<noteq> uuid_of E (uuids w)"
  then show "fst (run (validateToken E v q t) (grant E v p w)) = Inr False"
    using assms by (auto simp: holder_grant [OF assms(1)])
qed (simp add: holder_grant [OF assms(1)])

theorem handover_replaces_session_witness:
  "\<exists>w'. run (handover_session (demo_env True) ''v1'' ''bob'') held_world = (Inr (Some (demo_uuid 1, 1000000)), w') \<and>
     fst (run (validateToken (demo_env True) ''v1'' ''alice'' (demo_uuid 0)) w') = Inr False"
proof -
  have "store_up held_world" "uuids held_world = 1" "clock held_world = 1000000"
    by (simp_all add: held_world_def)
  with handover_replaces_session [of "demo_env True" held_world "''v1''" "''bob''"] show ?thesis
    by (fastforce simp: demo_uuid_text)
qed

section \<open>Racing requests\<close>

text \<open>Locks that are live stay live with their value.\<close>

definition keeps_locks :: "'kv env \<Rightarrow> 'kv world \<Rightarrow> 'kv world \<Rightarrow> bool" where
  "keeps_locks E w w' = (\<forall>k x. vk_get (vk E) (store w) (clock w) k = Some x \<longrightarrow>
     vk_get (vk E) (store w') (clock w') k = Some x)"

lemma keeps_locks_preorder: "reflp (keeps_locks E)" "transp (keeps_locks E)"
  by (auto simp: keeps_locks_def intro!: reflpI transpI)

lemma keeps_locks_same:
  "store w' = store w \<Longrightarrow> clock w' = clock w \<Longrightarrow> keeps_locks E w w'"
  by (simp add: keeps_locks_def)

definition granted :: "'kv env \<Rightarrow> vehicle_id \<Rightarrow> operator_id \<Rightarrow> exn + (uuid \<times> msec) option \<Rightarrow> 'kv world \<Rightarrow> bool" where
  "granted E v p r w = (case r of
     Inr (Some (t, d)) \<Rightarrow> vk_get (vk E) (store w) (clock w) (lock_key v) = Some (lock_text p t d)
   | _ \<Rightarrow> True)"

lemma granted_stable: "granted E v p r w \<Longrightarrow> keeps_locks E w w' \<Longrightarrow> granted E v p r w'"
  by (auto simp: granted_def keeps_locks_def split: sum.splits option.splits)

lemma wp_takeControl:
  assumes "valkey (vk E)"
  shows "wp (\<lambda>_. True) (keeps_locks E) (takeControl E v p) (granted E v p) w"
proof -
  have set: "keeps_locks E w (w\<lparr>store := snd (vk_set_nx (vk E) (store w) (clock w) k x 6)\<rparr>)" for w k x
    using valkey.get_set [OF assms, of "clock w" "clock w" "store w" k x 6]
    by (auto simp: keeps_locks_def valkey.set_nx [OF assms])
  have got: "vk_get (vk E) (store w') (clock w') k = Some x"
    if "fst (vk_set_nx (vk E) (store w) (clock w) k x 6)"
      "keeps_locks E (w\<lparr>store := snd (vk_set_nx (vk E) (store w) (clock w) k x 6)\<rparr>) w'" for w w' k x
    using that valkey.get_set [OF assms, of "clock w" "clock w" "store w" k x 6]
    by (auto simp: valkey.set_nx [OF assms] keeps_locks_def split: if_splits)
  show ?thesis
    unfolding takeControl_def uuidv4_def date_now_def look_def redis_set_ex_nx_def resetDeadmanTimer_def
      modify_def
    by (auto intro!: wp_await_effect set
        simp: wp_await wp_effect keeps_locks_same granted_def keeps_locks_def [of E _ "_\<lparr>deadmanTimers := _\<rparr>"]
          got split: if_splits)
qed

text \<open>C8: However the requests for one vehicle interleave, all the grants that were given are one
  and the same: any two requests that returned a lock returned the same token and time, for
  the same operator.\<close>

theorem take_control_race:
  assumes "valkey (vk E)"
    and "fst (sched ns (map (takeControl E v) ops) w) ! i = Ret (Inr (Some g))" "i < length ops"
    and "fst (sched ns (map (takeControl E v) ops) w) ! j = Ret (Inr (Some h))" "j < length ops"
  shows "g = h \<and> ops ! i = ops ! j"
proof -
  let ?ps = "map (takeControl E v) ops" and ?w' = "snd (sched ns (map (takeControl E v) ops) w)"
  have "granted E v (ops ! k) r ?w'" if "fst (sched ns ?ps w) ! k = Ret r" "k < length ops" for k r
    using sched_result [where R = "keeps_locks E" and Q = "\<lambda>k. granted E v (ops ! k)" and I = "\<lambda>_. True"
        and ps = ?ps and i = k and ns = ns and w = w and a = r] that
    by (simp add: keeps_locks_preorder granted_stable wp_takeControl [OF assms(1)])
  from this [OF assms(2,3)] this [OF assms(4,5)]
  have "Some (lock_text (ops ! i) (fst g) (snd g)) = Some (lock_text (ops ! j) (fst h) (snd h))"
    by (cases g; cases h) (simp add: granted_def)
  then have "parseLock (Some (lock_text (ops ! i) (fst g) (snd g)))
      = parseLock (Some (lock_text (ops ! j) (fst h) (snd h)))" by simp
  then show ?thesis by (cases g; cases h) simp
qed

text \<open>Two operators at once: whichever the order, one of them is refused.\<close>

theorem take_control_race_witness:
  "fst (sched [0, 1, 1, 0, 1, 0, 0, 1] (map (takeControl (demo_env True) ''v1'') [''alice'', ''bob'']) demo_world)
     = [Ret (Inr None), Ret (Inr (Some (demo_uuid 1, 1000000)))] \<and>
   (demo_uuid 1, 1000000 :: msec) = (demo_uuid 1, 1000000) \<and> [''alice'', ''bob''] ! 1 = [''alice'', ''bob''] ! 1"
proof -
  let ?s = "sched [0, 1, 1, 0, 1, 0, 0, 1] (map (takeControl (demo_env True) ''v1'') [''alice'', ''bob'']) demo_world"
  have r: "fst ?s = [Ret (Inr None), Ret (Inr (Some (demo_uuid 1, 1000000)))]"
    by (simp add: takeControl_def await_def uuidv4_def date_now_def look_def effect_def redis_set_ex_nx_def
        resetDeadmanTimer_def modify_def ret_def ttl_set_nx_def ttl_get_def ttl_set_def)
  have "fst ?s ! 1 = Ret (Inr (Some (demo_uuid 1, 1000000)))" unfolding r by simp
  note g = take_control_race [OF _ this _ this]
  show ?thesis by (rule conjI [OF r], rule g) simp_all
qed

end
