(* ===== verification/Assignment.thy ===== *)
theory Assignment
  imports Session
begin

text \<open>
  Operator assignments (\<open>assignment.service.ts\<close>): who may take control of which vehicle, and
  the revocation that severs an active session. The table is the list of its rows, in the
  order they were created. A database transaction is one step; the store commands of a
  revocation are steps of their own.
\<close>

definition active_for :: "vehicle_id \<Rightarrow> operator_id \<Rightarrow> assignment_row \<Rightarrow> bool" where
  "active_for v p r = (asg_vehicleId r = v \<and> asg_operatorId r = p \<and> asg_active r)"

definition canControl :: "'kv env \<Rightarrow> vehicle_id \<Rightarrow> operator_id \<Rightarrow> ('kv, bool) handler" where
  "canControl E vehicleId operatorId =
    (if \<not> ASSIGNMENT_ENFORCEMENT E then ret True
     else await (db_query E (\<lambda>w. find (active_for vehicleId operatorId) (assignments w))) (\<lambda>assignment.
       ret (assignment \<noteq> None)))"

text \<open>\<open>prisma.$transaction\<close> around find and create, serialised by the advisory lock. The row
  takes its id from the database (\<open>@default(uuid())\<close>).\<close>

definition assign_tx :: "'kv env \<Rightarrow> vehicle_id \<Rightarrow> operator_id \<Rightarrow> string \<Rightarrow> 'kv world \<Rightarrow> (uuid \<times> bool) \<times> 'kv world" where
  "assign_tx E vehicleId operatorId assignedBy w =
    (case find (active_for vehicleId operatorId) (assignments w) of
       Some existing \<Rightarrow> ((asg_id existing, True), w)
     | None \<Rightarrow>
         (let row = \<lparr>asg_id = uuid_of E (uuids w), asg_vehicleId = vehicleId, asg_operatorId = operatorId,
            asg_active = True, asg_assignedBy = assignedBy, asg_createdAt = clock w,
            asg_revokedAt = None, asg_revokedBy = None\<rparr>
          in ((asg_id row, False), w\<lparr>uuids := Suc (uuids w), assignments := assignments w @ [row]\<rparr>)))"

definition assign :: "'kv env \<Rightarrow> vehicle_id \<Rightarrow> operator_id \<Rightarrow> string \<Rightarrow> ('kv, uuid \<times> bool) handler" where
  "assign E vehicleId operatorId assignedBy = db_update E (assign_tx E vehicleId operatorId assignedBy)"

definition revoke_rows :: "vehicle_id \<Rightarrow> operator_id \<Rightarrow> string \<Rightarrow> msec \<Rightarrow> assignment_row list \<Rightarrow> assignment_row list" where
  "revoke_rows vehicleId operatorId revokedBy now rows =
    map (\<lambda>r. if active_for vehicleId operatorId r
             then r\<lparr>asg_active := False, asg_revokedAt := Some now, asg_revokedBy := Some revokedBy\<rparr> else r) rows"

definition revoke_update :: "vehicle_id \<Rightarrow> operator_id \<Rightarrow> string \<Rightarrow> 'kv world \<Rightarrow> nat \<times> 'kv world" where
  "revoke_update vehicleId operatorId revokedBy w =
    (length (filter (active_for vehicleId operatorId) (assignments w)),
     w\<lparr>assignments := revoke_rows vehicleId operatorId revokedBy (clock w) (assignments w)\<rparr>)"

text \<open>\<open>JSON.parse(raw)?.op === operatorId\<close>; an unreadable lock is left alone.\<close>

definition lock_is_of :: "string \<Rightarrow> operator_id \<Rightarrow> bool" where
  "lock_is_of raw operatorId =
    (case json_parse raw of None \<Rightarrow> False | Some v \<Rightarrow> get_field v ''op'' = JStr operatorId)"

definition revoke :: "'kv env \<Rightarrow> vehicle_id \<Rightarrow> operator_id \<Rightarrow> string \<Rightarrow> ('kv, nat \<times> bool) handler" where
  "revoke E vehicleId operatorId revokedBy =
    await (db_update E (revoke_update vehicleId operatorId revokedBy)) (\<lambda>count.
    await (redis_get E (lock_key vehicleId)) (\<lambda>raw.
    if truthy_str raw \<and> lock_is_of (the raw) operatorId then
      catch (await (redis_del E (lock_key vehicleId)) (\<lambda>_. ret (count, True))) (\<lambda>_. ret (count, False))
    else ret (count, False)))"

definition listForVehicle :: "'kv env \<Rightarrow> vehicle_id \<Rightarrow> ('kv, assignment_row list) handler" where
  "listForVehicle E vehicleId =
    db_query E (\<lambda>w. filter (\<lambda>r. asg_vehicleId r = vehicleId \<and> asg_active r) (assignments w))"

section \<open>The assignment table\<close>

definition assigned :: "assignment_row list \<Rightarrow> vehicle_id \<Rightarrow> operator_id \<Rightarrow> bool" where
  "assigned rows v p = (\<exists>r \<in> set rows. active_for v p r)"

text \<open>At most one active row per vehicle and operator.\<close>

definition one_active :: "assignment_row list \<Rightarrow> bool" where
  "one_active rows = (\<forall>v p. length (filter (active_for v p) rows) \<le> 1)"

lemma assigned_find: "assigned rows v p \<longleftrightarrow> find (active_for v p) rows \<noteq> None"
  by (auto simp: assigned_def find_None_iff)

lemma assigned_append [simp]: "assigned (rows @ [r]) v p \<longleftrightarrow> assigned rows v p \<or> active_for v p r"
  by (auto simp: assigned_def)

lemma assigned_revoke:
  "assigned (revoke_rows v p b t rows) u q \<longleftrightarrow> assigned rows u q \<and> (u \<noteq> v \<or> q \<noteq> p)"
proof -
  have "active_for u q (if active_for v p r
      then r\<lparr>asg_active := False, asg_revokedAt := Some t, asg_revokedBy := Some b\<rparr> else r)
    \<longleftrightarrow> active_for u q r \<and> (u \<noteq> v \<or> q \<noteq> p)" for r
    by (auto simp: active_for_def)
  then show ?thesis unfolding assigned_def revoke_rows_def by (simp only: set_map bex_simps)
qed

lemma assigned_filter: "assigned rows v p \<longleftrightarrow> filter (active_for v p) rows \<noteq> []"
  by (auto simp: assigned_def filter_empty_conv)

lemma one_active_assign:
  assumes "one_active (assignments w)"
  shows "one_active (assignments (snd (assign_tx E v p b w)))"
proof (cases "find (active_for v p) (assignments w)")
  case None
  then have "filter (active_for v p) (assignments w) = []"
    by (simp add: find_None_iff filter_empty_conv)
  with None assms show ?thesis
    by (auto simp: assign_tx_def one_active_def active_for_def Let_def)
qed (use assms in \<open>simp add: assign_tx_def\<close>)

lemma length_filter_revoke:
  "length (filter (active_for u q) (revoke_rows v p b t rows)) \<le> length (filter (active_for u q) rows)"
  by (induction rows) (auto simp: revoke_rows_def active_for_def)

lemma one_active_revoke: "one_active rows \<Longrightarrow> one_active (revoke_rows v p b t rows)"
  unfolding one_active_def using length_filter_revoke order_trans by blast

lemma run_canControl:
  "run (canControl E v p) w =
    (if \<not> ASSIGNMENT_ENFORCEMENT E then (Inr True, w)
     else if \<not> db_up w then (Inl (Error (fault E)), w)
     else (Inr (assigned (assignments w) v p), w))"
  by (simp add: canControl_def assigned_find)

lemma run_assign:
  "run (assign E v p b) w =
    (if db_up w then (Inr (fst (assign_tx E v p b w)), snd (assign_tx E v p b w)) else (Inl (Error (fault E)), w))"
  by (simp add: assign_def)

lemma assign_tx_assigned: "assigned (assignments (snd (assign_tx E v p b w))) v p"
  by (auto simp: assign_tx_def Let_def active_for_def assigned_find find_append split: option.splits)

text \<open>What a revocation does, undisturbed.\<close>

lemma run_revoke:
  "run (revoke E v p b) w =
    (if \<not> db_up w then (Inl (Error (fault E)), w)
     else (let n = length (filter (active_for v p) (assignments w));
             w1 = w\<lparr>assignments := revoke_rows v p b (clock w) (assignments w)\<rparr>;
             raw = vk_get (vk E) (store w) (clock w) (lock_key v)
       in if \<not> store_up w then (Inl (Error (fault E)), w1)
          else if truthy_str raw \<and> lock_is_of (the raw) p
          then (Inr (n, True), w1\<lparr>store := vk_del (vk E) (store w) (clock w) (lock_key v)\<rparr>)
          else (Inr (n, False), w1)))"
  by (simp add: revoke_def revoke_update_def Let_def)

lemma holder_lock_is_of:
  "holder E s t v = Some l \<Longrightarrow>
    \<exists>raw. vk_get (vk E) s t (lock_key v) = Some raw \<and> raw \<noteq> [] \<and> (lock_is_of raw p \<longleftrightarrow> op l = p)"
  by (auto simp: holder_def parseLock_def lock_is_of_def split: option.splits json.splits if_splits)
    (auto simp: truthy_str_def split: option.splits)

end
