(* ===== verification/Zone.thy ===== *)
theory Zone
  imports Session
begin

text \<open>
  The zone service of the cloud gate (\<open>zone.service.ts\<close>): the configured zone of each vehicle
  with its permit, the effective zone at a time, and the delivery of a configuration as a
  signed document with a revision that only grows.
\<close>

section \<open>The effective zone\<close>

definition getZone :: "'kv world \<Rightarrow> vehicle_id \<Rightarrow> ZoneType" where
  "getZone w vehicleId =
    (case vehicleZones w vehicleId of
       None \<Rightarrow> ''public_approved_route''
     | Some rec \<Rightarrow>
         (let until = Option.bind (permit rec) validUntil; from = Option.bind (permit rec) validFrom in
          if truthy_int until \<and> the until < clock w then ''public_approved_route''
          else if truthy_int from \<and> clock w < the from then ''public_approved_route''
          else zone rec))"

definition getZoneInfo :: "'kv world \<Rightarrow> vehicle_id \<Rightarrow> ZoneRecord" where
  "getZoneInfo w vehicleId =
    nullish (vehicleZones w vehicleId) \<lparr>zone = ''public_approved_route'', permit = None\<rparr>"

definition isModeAllowed :: "'kv world \<Rightarrow> vehicle_id \<Rightarrow> OperationMode \<Rightarrow> bool" where
  "isModeAllowed w vehicleId mode = isModeAllowedInZone (getZone w vehicleId) mode"

section \<open>Delivery\<close>

definition dec_is_zero :: "dec \<Rightarrow> bool" where
  "dec_is_zero d = (dec_mant d = 0)"

text \<open>The permit of the document: only with an end of validity; a limit of 0 is left out.\<close>

definition permit_doc :: "ZonePermit \<Rightarrow> json" where
  "permit_doc p =
    (if truthy_int (validUntil p) then
       JObj ([(''permitId'', JStr (permitId p)), (''validUntil'', JInt (the (validUntil p)))]
         @ (if truthy_int (validFrom p) then [(''validFrom'', JInt (the (validFrom p)))] else [])
         @ (case speedLimitKmh p of
              Some d \<Rightarrow> if dec_is_zero d then [] else [(''speedLimitKmh'', JNum d)]
            | None \<Rightarrow> []))
     else JUndef)"

definition zone_doc :: "vehicle_id \<Rightarrow> ZoneRecord \<Rightarrow> msec \<Rightarrow> int \<Rightarrow> string \<Rightarrow> json" where
  "zone_doc vehicleId rec now rvn issuer =
    JObj [(''vehicleId'', JStr vehicleId), (''zone'', JStr (zone rec)),
      (''permit'', (case permit rec of None \<Rightarrow> JUndef | Some p \<Rightarrow> permit_doc p)),
      (''issuedAt'', JInt now), (''revision'', JInt rvn), (''issuer'', JStr issuer)]"

text \<open>Storing the zone, taking the revision and publishing happen in one turn of the event loop:
  they are one step.\<close>

definition next_revision :: "'kv world \<Rightarrow> vehicle_id \<Rightarrow> int" where
  "next_revision w vehicleId = max (clock w) (nullish (revisions w vehicleId) 0 + 1)"

definition zone_message :: "'kv env \<Rightarrow> vehicle_id \<Rightarrow> json \<Rightarrow> message" where
  "zone_message E vehicleId config =
    (if AWS_IOT_ENDPOINT E
     then \<lparr>msg_topic = ''$aws/things/'' @ vehicleId @ ''/shadow/name/zone-config/update'',
       msg_doc = JObj [(''state'', JObj [(''desired'', JObj [(''config'', config)])])], msg_retain = False\<rparr>
     else \<lparr>msg_topic = vehicle_topic vehicleId ''zone-config'', msg_doc = config, msg_retain = True\<rparr>)"

definition deliverConfig :: "'kv env \<Rightarrow> vehicle_id \<Rightarrow> string \<Rightarrow> 'kv world \<Rightarrow> (bool \<times> int) \<times> 'kv world" where
  "deliverConfig E vehicleId issuer w =
    (let rvn = next_revision w vehicleId;
         w1 = w\<lparr>revisions := (revisions w)(vehicleId \<mapsto> rvn)\<rparr>;
         config = signDocument E (zone_doc vehicleId (getZoneInfo w vehicleId) (clock w) rvn issuer);
         m = zone_message E vehicleId config
     in case publish_now (msg_topic m) (msg_doc m) (msg_retain m) w1 of
          (delivered, w2) \<Rightarrow> ((delivered, rvn), w2))"

definition setZone_service :: "'kv env \<Rightarrow> vehicle_id \<Rightarrow> ZoneType \<Rightarrow> ZonePermit option \<Rightarrow> 'kv world
    \<Rightarrow> (bool \<times> int) \<times> 'kv world" where
  "setZone_service E vehicleId z p w =
    deliverConfig E vehicleId (case p of None \<Rightarrow> ''ADMIN'' | Some q \<Rightarrow> changedBy q)
      (w\<lparr>vehicleZones := (vehicleZones w)(vehicleId \<mapsto> \<lparr>zone = z, permit = p\<rparr>)\<rparr>)"

section \<open>What the gate allows\<close>

text \<open>The zones in which the matrix grants remote driving.\<close>

definition mode2_zones :: "ZoneType list" where [enum_defs]:
  "mode2_zones = [''public_test_permit'', ''depot'', ''private'', ''permitted_test'']"

lemma mode2_allowed_iff: "isModeAllowedInZone z ''MODE2'' \<longleftrightarrow> z \<in> set mode2_zones"
  by (auto simp: isModeAllowedInZone_def ZONE_MODE_MATRIX_def permissions_def mode2_zones_def
      split: option.splits if_splits)

lemma mode1_allowed_iff:
  "isModeAllowedInZone z ''MODE1'' \<longleftrightarrow> z = ''public_approved_route'' \<or> z \<in> set mode2_zones"
  by (auto simp: isModeAllowedInZone_def ZONE_MODE_MATRIX_def permissions_def mode2_zones_def
      split: option.splits if_splits)

text \<open>Whether the permit of a record is current at a time.\<close>

definition permit_current :: "ZoneRecord \<Rightarrow> msec \<Rightarrow> bool" where
  "permit_current rec now =
    ((case Option.bind (permit rec) validUntil of Some u \<Rightarrow> u \<noteq> 0 \<longrightarrow> now \<le> u | None \<Rightarrow> True) \<and>
     (case Option.bind (permit rec) validFrom of Some f \<Rightarrow> f \<noteq> 0 \<longrightarrow> f \<le> now | None \<Rightarrow> True))"

lemma getZone_eq:
  "getZone w v = (case vehicleZones w v of
     None \<Rightarrow> ''public_approved_route''
   | Some rec \<Rightarrow> if permit_current rec (clock w) then zone rec else ''public_approved_route'')"
  by (auto simp: getZone_def permit_current_def Let_def truthy_int_def split: option.splits)

lemma setZone_service_eq:
  "setZone_service E v z p w =
    (let rvn = next_revision w v;
         config = signDocument E (zone_doc v \<lparr>zone = z, permit = p\<rparr> (clock w) rvn
           (case p of None \<Rightarrow> ''ADMIN'' | Some q \<Rightarrow> changedBy q));
         w1 = w\<lparr>vehicleZones := (vehicleZones w)(v \<mapsto> \<lparr>zone = z, permit = p\<rparr>),
                revisions := (revisions w)(v \<mapsto> rvn)\<rparr>
     in if broker_up w then ((True, rvn), w1\<lparr>outbox := outbox w @ [zone_message E v config]\<rparr>)
        else ((False, rvn), w1))"
  by (simp add: setZone_service_def deliverConfig_def getZoneInfo_def next_revision_def publish_now_def Let_def)

end
