(* ===== verification/Command_Controller.thy ===== *)
theory Command_Controller
  imports Assignment Zone
begin

text \<open>
  The HTTP handlers of the command service (\<open>command.controller.ts\<close>): the first gate. A
  command passes the identity binding, the fencing token, the payload schema and the zone/mode
  filter, is put in a signed envelope, validated against the contract, written to the event
  data recorder, and only then published; a timer then waits for the vehicle's answer.
  Handlers return the response document; the texts meant for people and the log lines are left
  out, the \<open>reason\<close> codes of the errors are kept.
\<close>

section \<open>The recorder\<close>

definition logEdr :: "'kv env \<Rightarrow> string \<Rightarrow> vehicle_id \<Rightarrow> string \<Rightarrow> string \<Rightarrow> string \<Rightarrow> json \<Rightarrow> string option
    \<Rightarrow> ('kv, unit) handler" where
  "logEdr E commandId vehicleId issuer action status details correlationId =
    (case correlationId of
       Some k \<Rightarrow> edr_create E (edr_data commandId k vehicleId issuer action status (clean details))
     | None \<Rightarrow> await (uuidv4 E) (\<lambda>k.
         edr_create E (edr_data commandId k vehicleId issuer action status (clean details))))"

text \<open>A row of its own: fresh command id and correlation id.\<close>

definition logEdr_fresh :: "'kv env \<Rightarrow> vehicle_id \<Rightarrow> string \<Rightarrow> string \<Rightarrow> string \<Rightarrow> json \<Rightarrow> ('kv, unit) handler" where
  "logEdr_fresh E vehicleId issuer action status details =
    await (uuidv4 E) (\<lambda>c. logEdr E c vehicleId issuer action status details None)"

section \<open>Taking control, assignments, heartbeats\<close>

definition take_control :: "'kv env \<Rightarrow> vehicle_id \<Rightarrow> operator_id \<Rightarrow> req \<Rightarrow> ('kv, json) handler" where
  "take_control E vehicleId operatorId r =
    guarded (requireOperatorIdentity E r operatorId) (
    await (canControl E vehicleId operatorId) (\<lambda>ok.
    if \<not> ok then
      await (logEdr_fresh E vehicleId operatorId ''TAKE_CONTROL'' ''REJECTED''
        (JObj [(''reason'', JStr ''NO_ASSIGNMENT'')])) (\<lambda>_.
      throw (ForbiddenException ''NO_ASSIGNMENT''))
    else
      await (takeControl E vehicleId operatorId) (\<lambda>result.
      case result of
        None \<Rightarrow> throw (UnauthorizedException ''Vehicle is currently locked by another operator.'')
      | Some (tok, issued) \<Rightarrow>
          await (logEdr_fresh E vehicleId operatorId ''TAKE_CONTROL'' ''ACK''
            (JObj [(''tokenId'', JStr tok), (''issuedAt'', JInt issued)])) (\<lambda>_.
          ret (JObj [(''status'', JStr ''success''), (''token'', JStr tok), (''issuedAt'', JInt issued)])))))"

definition assign_operator :: "'kv env \<Rightarrow> vehicle_id \<Rightarrow> operator_id \<Rightarrow> string option \<Rightarrow> req \<Rightarrow> ('kv, json) handler" where
  "assign_operator E vehicleId operatorId assignedByBody r =
    guarded (canActivate E [''admin''] r) (
    if operatorId = [] then throw (BadRequestException ''operatorId is required'')
    else (let assignedBy = actorFrom E r assignedByBody in
      await (assign E vehicleId operatorId assignedBy) (\<lambda>(i, already).
      let info = [(''operatorId'', JStr operatorId), (''assignmentId'', JStr i), (''alreadyAssigned'', JBool already)] in
      await (logEdr_fresh E vehicleId assignedBy ''ASSIGN_OPERATOR'' ''ACK'' (JObj info)) (\<lambda>_.
      ret (JObj ([(''status'', JStr ''success''), (''vehicleId'', JStr vehicleId)] @ info))))))"

definition unassign_operator :: "'kv env \<Rightarrow> vehicle_id \<Rightarrow> operator_id \<Rightarrow> string option \<Rightarrow> req \<Rightarrow> ('kv, json) handler" where
  "unassign_operator E vehicleId operatorId revokedByBody r =
    guarded (canActivate E [''admin''] r) (
    if operatorId = [] then throw (BadRequestException ''operatorId is required'')
    else (let revokedBy = actorFrom E r revokedByBody in
      await (revoke E vehicleId operatorId revokedBy) (\<lambda>(n, severed).
      let info = [(''operatorId'', JStr operatorId), (''revokedCount'', JInt (int n)), (''sessionSevered'', JBool severed)] in
      await (logEdr_fresh E vehicleId revokedBy ''REVOKE_OPERATOR'' ''ACK'' (JObj info)) (\<lambda>_.
      ret (JObj ([(''status'', JStr ''success''), (''vehicleId'', JStr vehicleId)] @ info))))))"

definition list_assignments :: "'kv env \<Rightarrow> vehicle_id \<Rightarrow> req \<Rightarrow> ('kv, assignment_row list) handler" where
  "list_assignments E vehicleId r = guarded (canActivate E [''admin''] r) (listForVehicle E vehicleId)"

definition operator_heartbeat :: "'kv env \<Rightarrow> vehicle_id \<Rightarrow> operator_id \<Rightarrow> uuid \<Rightarrow> req \<Rightarrow> ('kv, json) handler" where
  "operator_heartbeat E vehicleId operatorId tok r =
    guarded (requireOperatorIdentity E r operatorId) (
    await (heartbeat E vehicleId operatorId tok) (\<lambda>isAlive.
    if isAlive then
      await date_now (\<lambda>now.
      await (publish (vehicle_topic vehicleId ''deadman'')
        (signDocument E (JObj [(''vehicleId'', JStr vehicleId), (''timestamp'', JInt now)])) False) (\<lambda>_.
      ret (JObj [(''status'', JStr ''alive'')])))
    else ret (JObj [(''status'', JStr ''deadman_triggered'')])))"

section \<open>Dispatch\<close>

definition watchForAck :: "string \<Rightarrow> vehicle_id \<Rightarrow> operator_id \<Rightarrow> string \<Rightarrow> string \<Rightarrow> int \<Rightarrow> ('kv, unit) handler" where
  "watchForAck commandId vehicleId operatorId action correlationId ttlMs =
    modify (\<lambda>w. w\<lparr>ackTimers := ackTimers w @ [\<lparr>aw_due = clock w + ttlMs + 3000, aw_commandId = commandId,
      aw_vehicleId = vehicleId, aw_operatorId = operatorId, aw_action = action,
      aw_correlationId = correlationId, aw_ttlMs = ttlMs\<rparr>]\<rparr>)"

definition ttl_of :: "string \<Rightarrow> int" where
  "ttl_of action = (if action = ''E_STOP'' then 5000 else 2000)"

definition pending_doc :: "string \<Rightarrow> string \<Rightarrow> OperationMode \<Rightarrow> (string \<times> json) list \<Rightarrow> string \<Rightarrow> json" where
  "pending_doc commandId action mode extra msg =
    JObj ([(''status'', JStr ''pending''), (''commandId'', JStr commandId), (''action'', JStr action),
      (''mode'', JStr mode)] @ extra @ [(''message'', JStr (action @ msg))])"

text \<open>An E-STOP goes out on two topics; one delivered copy is a sent E-STOP.\<close>

definition publish_estop ::
  "'kv env \<Rightarrow> vehicle_id \<Rightarrow> operator_id \<Rightarrow> OperationMode \<Rightarrow> string \<Rightarrow> string \<Rightarrow> string \<Rightarrow> json \<Rightarrow> ('kv, json) handler" where
  "publish_estop E vehicleId operatorId mode action commandId correlationId envelope =
    await (publish (vehicle_topic vehicleId ''estop'') envelope False) (\<lambda>viaEstop.
    await (publish (vehicle_topic vehicleId ''command'') envelope False) (\<lambda>viaCommand.
    if \<not> viaEstop \<and> \<not> viaCommand then
      await (logEdr E commandId vehicleId operatorId action ''PUBLISH_FAILED''
        (JObj [(''topic'', JStr (vehicle_topic vehicleId ''estop'')), (''dual'', JBool True)]) (Some correlationId)) (\<lambda>_.
      throw (ServiceUnavailableException ''PUBLISH_FAILED''))
    else
      await (if \<not> viaEstop \<or> \<not> viaCommand then
          logEdr E commandId vehicleId operatorId action ''PUBLISH_DEGRADED''
            (JObj [(''delivered'', JObj [(''estop'', JBool viaEstop), (''command'', JBool viaCommand)])])
            (Some correlationId)
        else ret ()) (\<lambda>_.
      await (watchForAck commandId vehicleId operatorId action correlationId (ttl_of action)) (\<lambda>_.
      ret (pending_doc commandId action mode
        [(''channels'', JObj [(''estop'', JBool viaEstop), (''command'', JBool viaCommand)])]
        ('' published (dual message, ICD '' @ [CHR 0xA7] @ ''3)''))))))"

definition publish_command ::
  "'kv env \<Rightarrow> vehicle_id \<Rightarrow> operator_id \<Rightarrow> OperationMode \<Rightarrow> string \<Rightarrow> string \<Rightarrow> string \<Rightarrow> json \<Rightarrow> ('kv, json) handler" where
  "publish_command E vehicleId operatorId mode action commandId correlationId envelope =
    await (publish (vehicle_topic vehicleId ''command'') envelope False) (\<lambda>sent.
    if \<not> sent then
      await (logEdr E commandId vehicleId operatorId action ''PUBLISH_FAILED''
        (JObj [(''topic'', JStr (vehicle_topic vehicleId ''command''))]) (Some correlationId)) (\<lambda>_.
      throw (ServiceUnavailableException ''PUBLISH_FAILED''))
    else
      await (watchForAck commandId vehicleId operatorId action correlationId (ttl_of action)) (\<lambda>_.
      ret (pending_doc commandId action mode [] '' published'')))"

definition dispatch ::
  "'kv env \<Rightarrow> vehicle_id \<Rightarrow> operator_id \<Rightarrow> uuid \<Rightarrow> OperationMode \<Rightarrow> json \<Rightarrow> bool \<Rightarrow> ('kv, json) handler" where
  "dispatch E vehicleId operatorId tok mode payload estop =
    await (uuidv4 E) (\<lambda>commandId.
    await (getTokenIssuedAt E vehicleId) (\<lambda>issued.
    await (uuidv4 E) (\<lambda>correlationId.
    await date_now (\<lambda>timestamp.
    let action = str_field payload ''action'';
        envelope = signDocument E (envelope_doc commandId correlationId tok vehicleId operatorId mode tok
          issued timestamp (ttl_of action) payload) in
    if safeParse E CommandEnvelopeSchema envelope = None
    then throw (BadRequestException ''SCHEMA_INVALID'')
    else
      await (logEdr E commandId vehicleId operatorId action ''PENDING'' envelope (Some correlationId)) (\<lambda>_.
      if estop then publish_estop E vehicleId operatorId mode action commandId correlationId envelope
      else publish_command E vehicleId operatorId mode action commandId correlationId envelope)))))"

text \<open>The callback of an acknowledgement timer: the first due timer of the list.\<close>

definition ack_timer_fires :: "'kv env \<Rightarrow> ('kv, unit) handler" where
  "ack_timer_fires E =
    await (effect (\<lambda>w.
      case find (\<lambda>a. aw_due a \<le> clock w) (ackTimers w) of
        None \<Rightarrow> (Inr None, w)
      | Some a \<Rightarrow> (Inr (Some a), w\<lparr>ackTimers := remove1 a (ackTimers w)\<rparr>))) (\<lambda>due.
    case due of
      None \<Rightarrow> ret ()
    | Some a \<Rightarrow>
        catch (
          await (db_query E (\<lambda>w. find (\<lambda>r. edr_commandId r = aw_commandId a \<and> edr_issuer r = ''VEHICLE'') (edr w))) (\<lambda>ack.
          if ack \<noteq> None then ret ()
          else logEdr E (aw_commandId a) (aw_vehicleId a) (aw_operatorId a) (aw_action a) ''NO_ACK''
            (JObj [(''note'', JStr (''No ACK/NACK from the vehicle within ttl '' @ dec_str (dec_of_int (aw_ttlMs a))
              @ ''ms + grace (ICD '' @ [CHR 0xA7] @ ''3).''))]) (Some (aw_correlationId a))))
        (\<lambda>_. ret ()))"

section \<open>Commands\<close>

definition alwaysAllowed :: "string \<Rightarrow> bool" where
  "alwaysAllowed action = List.member [''E_STOP'', ''SAFE_STOP'', ''CLEAR_SAFE_STOP''] action"

definition bad_token :: exn where
  "bad_token = UnauthorizedException ''Invalid fencing token. You do not have control.''"

text \<open>A command of a caller whose token is valid: schema, zone and mode, dispatch.\<close>

definition command_after_token ::
  "'kv env \<Rightarrow> vehicle_id \<Rightarrow> operator_id \<Rightarrow> uuid \<Rightarrow> json \<Rightarrow> ('kv, json) handler" where
  "command_after_token E vehicleId operatorId tok payload =
    (case safeParse E CommandPayloadSchema payload of
       None \<Rightarrow> throw (BadRequestException ''SCHEMA_INVALID'')
     | Some cmd \<Rightarrow>
         (let action = str_field cmd ''action''; mode = inferMode action; always = alwaysAllowed action in
          await (look (\<lambda>w. (isModeAllowed w vehicleId mode, getZone w vehicleId))) (\<lambda>(allowed, z).
          if \<not> always \<and> \<not> allowed then
            await (logEdr_fresh E vehicleId operatorId action ''REJECTED''
              (JObj [(''reason'', JStr ''MODE_MISMATCH''), (''zone'', JStr z), (''mode'', JStr mode)])) (\<lambda>_.
            throw (ForbiddenException ''MODE_MISMATCH''))
          else if \<not> always \<and> \<not> isDiagDisruptiveAllowed action z True then
            await (logEdr_fresh E vehicleId operatorId action ''REJECTED''
              (JObj [(''reason'', JStr ''DIAG_DEFERRED''), (''zone'', JStr z)])) (\<lambda>_.
            throw (ForbiddenException ''DIAG_DEFERRED''))
          else dispatch E vehicleId operatorId tok mode cmd False)))"

definition sendCommand ::
  "'kv env \<Rightarrow> vehicle_id \<Rightarrow> operator_id \<Rightarrow> uuid \<Rightarrow> json \<Rightarrow> req \<Rightarrow> ('kv, json) handler" where
  "sendCommand E vehicleId operatorId tok payload r =
    guarded (requireOperatorIdentity E r operatorId) (
    await (validateToken E vehicleId operatorId tok) (\<lambda>isValid.
    if \<not> isValid then throw bad_token
    else command_after_token E vehicleId operatorId tok payload))"

definition triggerEStop :: "'kv env \<Rightarrow> vehicle_id \<Rightarrow> operator_id \<Rightarrow> uuid \<Rightarrow> req \<Rightarrow> ('kv, json) handler" where
  "triggerEStop E vehicleId operatorId tok r =
    guarded (requireOperatorIdentity E r operatorId) (
    await (validateToken E vehicleId operatorId tok) (\<lambda>isValid.
    if \<not> isValid then throw bad_token
    else dispatch E vehicleId operatorId tok ''MODE1'' (JObj [(''action'', JStr ''E_STOP'')]) True))"

definition clearSafeStop :: "'kv env \<Rightarrow> vehicle_id \<Rightarrow> operator_id \<Rightarrow> uuid \<Rightarrow> req \<Rightarrow> ('kv, json) handler" where
  "clearSafeStop E vehicleId operatorId tok r =
    guarded (requireOperatorIdentity E r operatorId) (
    await (validateToken E vehicleId operatorId tok) (\<lambda>isValid.
    if \<not> isValid then throw bad_token
    else dispatch E vehicleId operatorId tok ''MODE1'' (JObj [(''action'', JStr ''CLEAR_SAFE_STOP'')]) False))"

section \<open>Administration\<close>

definition handover :: "'kv env \<Rightarrow> vehicle_id \<Rightarrow> operator_id \<Rightarrow> req \<Rightarrow> ('kv, json) handler" where
  "handover E vehicleId operatorId r =
    guarded (canActivate E [''admin''] r) (
    if operatorId = [] then throw (BadRequestException ''operatorId is required'')
    else (let admin = actorFrom E r None in
      await (canControl E vehicleId operatorId) (\<lambda>ok.
      if \<not> ok then
        await (logEdr_fresh E vehicleId admin ''HANDOVER'' ''REJECTED''
          (JObj [(''reason'', JStr ''NO_ASSIGNMENT''), (''newOperator'', JStr operatorId)])) (\<lambda>_.
        throw (ForbiddenException ''NO_ASSIGNMENT''))
      else
        await (handover_session E vehicleId operatorId) (\<lambda>result.
        case result of
          None \<Rightarrow> throw (BadRequestException ''Handover failed'')
        | Some (tok, issued) \<Rightarrow>
            await (logEdr_fresh E vehicleId admin ''HANDOVER'' ''ACK''
              (JObj [(''newOperator'', JStr operatorId), (''issuedAt'', JInt issued)])) (\<lambda>_.
            ret (JObj [(''status'', JStr ''success''), (''token'', JStr tok), (''issuedAt'', JInt issued)]))))))"

definition MODE2_CAPABLE :: "ZoneType list" where [enum_defs]:
  "MODE2_CAPABLE = [''public_test_permit'', ''depot'', ''private'', ''permitted_test'']"

abbreviation opt_int :: "int option \<Rightarrow> json" where
  "opt_int x \<equiv> opt_num (map_option dec_of_int x)"

text \<open>The checks on the authorisation of a zone that permits remote driving: the reason of the
  refusal, if any, and the fields its record carries besides the change itself.\<close>

definition permit_refusal :: "ZoneType \<Rightarrow> string option \<Rightarrow> int option \<Rightarrow> int option \<Rightarrow> msec
    \<Rightarrow> (string \<times> (string \<times> json) list) option" where
  "permit_refusal z pid until from now =
    (if \<not> List.member MODE2_CAPABLE z then None
     else (case until of
         None \<Rightarrow> Some (''PERMIT_REQUIRED'', [(''permitId'', opt_str pid), (''validUntil'', JUndef)])
       | Some u \<Rightarrow>
           if \<not> truthy_str pid
           then Some (''PERMIT_REQUIRED'', [(''permitId'', opt_str pid), (''validUntil'', JInt u)])
           else if u \<le> now
           then Some (''PERMIT_EXPIRED'', [(''permitId'', opt_str pid), (''validUntil'', JInt u)])
           else (case from of
               Some f \<Rightarrow>
                 if u \<le> f then Some (''PERMIT_WINDOW_INVALID'',
                   [(''permitId'', opt_str pid), (''validFrom'', JInt f), (''validUntil'', JInt u)])
                 else None
             | None \<Rightarrow> None)))"

definition setZone ::
  "'kv env \<Rightarrow> vehicle_id \<Rightarrow> ZoneType \<Rightarrow> req \<Rightarrow> string option \<Rightarrow> string option \<Rightarrow> string option \<Rightarrow> int option
    \<Rightarrow> int option \<Rightarrow> dec option \<Rightarrow> ('kv, json) handler" where
  "setZone E vehicleId z r issuerBody pid reason until from limit =
    guarded (canActivate E [''admin''] r) (
    let issuer = actorFrom E r issuerBody in
    if safeParse E ZoneTypeSchema (JStr z) = None then throw (BadRequestException ''INVALID_ZONE'')
    else
      await (look (\<lambda>w. (getZone w vehicleId, clock w))) (\<lambda>(prior, now).
      case permit_refusal z pid until from now of
        Some (why, info) \<Rightarrow>
          await (logEdr_fresh E vehicleId issuer ''ZONE_CHANGE'' ''REJECTED''
            (JObj ([(''reason'', JStr why), (''from'', JStr prior), (''to'', JStr z)] @ info))) (\<lambda>_.
          throw (ForbiddenException why))
      | None \<Rightarrow>
          (let p = (if truthy_str pid
             then Some \<lparr>permitId = the pid, changedBy = issuer, permit_reason = reason, validUntil = until,
               validFrom = from, speedLimitKmh = limit\<rparr>
             else None) in
           await (effect (\<lambda>w. map_prod Inr id (setZone_service E vehicleId z p w))) (\<lambda>(delivered, rvn).
           await (logEdr_fresh E vehicleId issuer ''ZONE_CHANGE'' ''ACK''
             (JObj [(''from'', JStr prior), (''to'', JStr z), (''permitId'', opt_str pid), (''reason'', opt_str reason),
               (''validUntil'', opt_int until), (''validFrom'', opt_int from), (''speedLimitKmh'', opt_num limit),
               (''delivered'', JBool delivered), (''revision'', JInt rvn)])) (\<lambda>_.
           ret (JObj [(''status'', JStr ''success''), (''vehicleId'', JStr vehicleId), (''zone'', JStr z),
             (''from'', JStr prior), (''permitId'', opt_str pid), (''delivered'', JBool delivered),
             (''revision'', JInt rvn)]))))))"

end
