(* ===== verification/Maneuver.thy ===== *)
theory Maneuver
  imports Command_Controller
begin

text \<open>
  Maneuver proposals (\<open>maneuver.service.ts\<close>, \<open>maneuver.controller.ts\<close>): a vehicle proposes,
  the service keeps the open proposals with a timer each, an operator in control decides, and
  the decision leaves as a signed command. Proposals are kept as the documents the schema
  accepted; the in-memory map is the association list in insertion order.
\<close>

section \<open>Topics\<close>

text \<open>\<open>vehicleFromTopic\<close>: the vehicle a topic belongs to.\<close>

definition vehicleFromTopic :: "string \<Rightarrow> vehicle_id option" where
  "vehicleFromTopic topic =
    (let parts = split_on CHR ''/'' topic in
     if 2 < length parts \<and> parts ! 2 = ''vehicles'' \<and> 3 < length parts then Some (parts ! 3) else None)"

section \<open>The open proposals\<close>

definition getActiveProposal :: "'kv world \<Rightarrow> vehicle_id \<Rightarrow> json option" where
  "getActiveProposal w vehicleId =
    map_option (proposal \<circ> snd)
      (find (\<lambda>e. get_field (proposal (snd e)) ''vehicleId'' = JStr vehicleId) (activeProposals w))"

definition getActiveProposalById :: "'kv world \<Rightarrow> string \<Rightarrow> json option" where
  "getActiveProposalById w proposalId = map_option proposal (map_of (activeProposals w) proposalId)"

definition resolveProposal :: "string \<Rightarrow> 'kv world \<Rightarrow> 'kv world" where
  "resolveProposal proposalId w =
    (case map_of (activeProposals w) proposalId of
       None \<Rightarrow> w
     | Some ap \<Rightarrow> w\<lparr>proposalTimers := filter (\<lambda>t. pt_handle t \<noteq> timer ap) (proposalTimers w),
         activeProposals := AList.delete proposalId (activeProposals w)\<rparr>)"

text \<open>Open a proposal: a new timer, and the entry under its id (an entry already there is
  replaced in place).\<close>

definition openProposal :: "json \<Rightarrow> 'kv world \<Rightarrow> 'kv world" where
  "openProposal p w =
    (let pid = str_field p ''proposalId''; h = handles w in
     w\<lparr>handles := Suc h,
       proposalTimers := proposalTimers w @ [\<lparr>pt_handle = h,
         pt_due = clock w + int_field p ''validityWindowMs'' + 2000, pt_proposalId = pid\<rparr>],
       activeProposals := AList.update pid \<lparr>proposal = p, receivedAt = clock w, timer = h\<rparr> (activeProposals w)\<rparr>)"

text \<open>The callback of a proposal timer: the first due one.\<close>

definition proposal_timer_fires :: "('kv, unit) handler" where
  "proposal_timer_fires = modify (\<lambda>w.
     case find (\<lambda>t. pt_due t \<le> clock w) (proposalTimers w) of
       None \<Rightarrow> w
     | Some t \<Rightarrow> w\<lparr>proposalTimers := remove1 t (proposalTimers w),
         activeProposals := AList.delete (pt_proposalId t) (activeProposals w)\<rparr>)"

definition notify :: "string \<Rightarrow> json \<Rightarrow> ('kv, unit) handler" where
  "notify listener doc = modify (\<lambda>w. w\<lparr>notified := notified w @ [(listener, doc)]\<rparr>)"

section \<open>Messages of the vehicle\<close>

definition handleProposal :: "'kv env \<Rightarrow> vehicle_id \<Rightarrow> json \<Rightarrow> ('kv, unit) handler" where
  "handleProposal E topicVehicle msg =
    (case safeParse E ManeuverProposalSchema msg of
       None \<Rightarrow> ret ()
     | Some p \<Rightarrow>
         if get_field p ''vehicleId'' \<noteq> JStr topicVehicle then ret ()
         else
           await (modify (openProposal p)) (\<lambda>_.
           await (edr_create E (edr_data (''proposal-'' @ str_field p ''proposalId'') (str_field p ''proposalId'')
             (str_field p ''vehicleId'') ''ADS'' ''MANEUVER_PROPOSAL'' ''PENDING'' (clean p))) (\<lambda>_.
           notify ''proposal'' p)))"

definition handleStatusUpdate :: "'kv env \<Rightarrow> vehicle_id \<Rightarrow> json \<Rightarrow> ('kv, unit) handler" where
  "handleStatusUpdate E topicVehicle msg =
    (case safeParse E ManeuverProposalStatusUpdateSchema msg of
       None \<Rightarrow> ret ()
     | Some u \<Rightarrow>
         if get_field u ''vehicleId'' \<noteq> JStr topicVehicle then ret ()
         else
           await (if List.member [''DECIDED'', ''TIMED_OUT'', ''CANCELLED''] (str_field u ''status'')
                  then modify (resolveProposal (str_field u ''proposalId'')) else ret ()) (\<lambda>_.
           await (catch (edr_create E (edr_data (''proposal-'' @ str_field u ''proposalId'')
               (str_field u ''proposalId'') (str_field u ''vehicleId'') ''ADS'' ''MANEUVER_STATUS''
               (str_field u ''status'') (clean u))) (\<lambda>_. ret ())) (\<lambda>_.
           notify ''status'' u)))"

definition handleIncoming :: "'kv env \<Rightarrow> string \<Rightarrow> string \<Rightarrow> ('kv, unit) handler" where
  "handleIncoming E topic raw =
    (case json_parse raw of
       None \<Rightarrow> ret ()
     | Some msg \<Rightarrow>
         (let topicVehicle = vehicleFromTopic topic in
          if \<not> truthy_str topicVehicle then ret ()
          else if str_includes topic ''/maneuver/proposal'' then handleProposal E (the topicVehicle) msg
          else if str_includes topic ''/maneuver/status'' then handleStatusUpdate E (the topicVehicle) msg
          else ret ()))"

section \<open>Decisions\<close>

definition option_ids :: "json \<Rightarrow> string list" where
  "option_ids p = map (\<lambda>v. str_field v ''optionId'') (as_list (get_field p ''options''))"

definition decision_payload :: "string \<Rightarrow> string \<Rightarrow> string option \<Rightarrow> exn + json" where
  "decision_payload decision proposalId optionId =
    (if decision = ''CONFIRM'' then
       Inr (JObj ([(''action'', JStr ''CONFIRM_MANEUVER''), (''proposalId'', JStr proposalId)]
         @ (if truthy_str optionId then [(''optionId'', JStr (the optionId))] else [])))
     else if decision = ''REJECT'' then
       Inr (JObj [(''action'', JStr ''REJECT_MANEUVER''), (''proposalId'', JStr proposalId)])
     else if decision = ''SELECT_ALTERNATIVE'' then
       (if \<not> truthy_str optionId
        then Inl (BadRequestException ''optionId is required for SELECT_ALTERNATIVE'')
        else Inr (JObj [(''action'', JStr ''SELECT_ALTERNATIVE''), (''proposalId'', JStr proposalId),
          (''optionId'', JStr (the optionId))]))
     else Inl (BadRequestException (''Invalid decision: '' @ decision)))"

text \<open>The second half of \<open>decide\<close>: envelope, contract check, record, publish.\<close>

definition dispatch_decision ::
  "'kv env \<Rightarrow> string \<Rightarrow> vehicle_id \<Rightarrow> operator_id \<Rightarrow> uuid \<Rightarrow> string \<Rightarrow> json \<Rightarrow> ('kv, json) handler" where
  "dispatch_decision E proposalId vehicleId operatorId tok decision payload =
    (let action = str_field payload ''action''; mode = inferMode action in
     await (uuidv4 E) (\<lambda>commandId.
     await (getTokenIssuedAt E vehicleId) (\<lambda>issued.
     await date_now (\<lambda>timestamp.
     let envelope = signDocument E (envelope_doc commandId proposalId tok vehicleId operatorId mode tok
           issued timestamp 5000 payload) in
     if safeParse E CommandEnvelopeSchema envelope = None
     then throw (BadRequestException ''SCHEMA_INVALID'')
     else
       await (edr_create E (edr_data commandId proposalId vehicleId operatorId action ''PENDING'' (clean envelope))) (\<lambda>_.
       await (publish (vehicle_topic vehicleId ''command'') envelope False) (\<lambda>sent.
       if \<not> sent then
         await (edr_create E (edr_data commandId proposalId vehicleId operatorId action ''PUBLISH_FAILED''
           (JObj [(''topic'', JStr (vehicle_topic vehicleId ''command''))]))) (\<lambda>_.
         throw (ServiceUnavailableException ''PUBLISH_FAILED''))
       else
         await (modify (resolveProposal proposalId)) (\<lambda>_.
         ret (JObj [(''status'', JStr ''pending''), (''commandId'', JStr commandId), (''proposalId'', JStr proposalId),
           (''decision'', JStr decision), (''action'', JStr action)]))))))))"

definition decide ::
  "'kv env \<Rightarrow> string \<Rightarrow> operator_id \<Rightarrow> uuid \<Rightarrow> string \<Rightarrow> req \<Rightarrow> string option \<Rightarrow> ('kv, json) handler" where
  "decide E proposalId operatorId tok decision r optionId =
    guarded (requireOperatorIdentity E r operatorId) (
    await (look (\<lambda>w. getActiveProposalById w proposalId)) (\<lambda>found.
    case found of
      None \<Rightarrow> throw (NotFoundException (''No active proposal found with id '' @ [CHR 0x27] @ proposalId
        @ [CHR 0x27] @ '' (may have timed out).''))
    | Some p \<Rightarrow>
        (let vehicleId = str_field p ''vehicleId'' in
         await (validateToken E vehicleId operatorId tok) (\<lambda>isValid.
         if \<not> isValid then throw bad_token
         else if truthy_str optionId \<and> \<not> List.member (option_ids p) (the optionId)
         then throw (BadRequestException ''INVALID_OPTION'')
         else (case decision_payload decision proposalId optionId of
             Inl e \<Rightarrow> throw e
           | Inr payload \<Rightarrow> dispatch_decision E proposalId vehicleId operatorId tok decision payload)))))"

end
