(* ===== verification/Mqtt_Ingest.thy ===== *)
theory Mqtt_Ingest
  imports Maneuver
begin

text \<open>
  What the command service does with the messages of the vehicles (\<open>mqtt.service.ts\<close>): the
  acknowledgements of commands, the safe-stop latch reported by the heartbeat, and the event
  log a vehicle uploads after it was offline. Every message is bound to the vehicle of its
  topic. A message is the text that arrived.
\<close>

section \<open>Acknowledgements\<close>

definition handleAck :: "'kv env \<Rightarrow> vehicle_id \<Rightarrow> string \<Rightarrow> ('kv, unit) handler" where
  "handleAck E topicVehicle text =
    (case json_parse text of
       None \<Rightarrow> throw (Error ''JSON.parse'')
     | Some v \<Rightarrow>
       (case safeParse E CommandAckSchema v of
          None \<Rightarrow> ret ()
        | Some payload \<Rightarrow>
            (let commandId = str_field payload ''commandId'' in
             await (db_query E (\<lambda>w. find (\<lambda>r. edr_commandId r = commandId) (edr w))) (\<lambda>original.
             case original of
               Some o' \<Rightarrow>
                 if edr_vehicleId o' \<noteq> topicVehicle then ret ()
                 else edr_create E (edr_data commandId (edr_correlationId o') (edr_vehicleId o') ''VEHICLE''
                   (edr_action o') (str_field payload ''status'') (clean payload))
             | None \<Rightarrow>
                 await (uuidv4 E) (\<lambda>k.
                 edr_create E (edr_data commandId k topicVehicle ''VEHICLE'' ''UNKNOWN''
                   (str_field payload ''status'') (clean payload)))))))"

section \<open>The safe-stop latch\<close>

definition recordLatchTransition :: "'kv env \<Rightarrow> vehicle_id \<Rightarrow> string \<Rightarrow> ('kv, unit) handler" where
  "recordLatchTransition E topicVehicle text =
    (case json_parse text of
       None \<Rightarrow> ret ()
     | Some raw \<Rightarrow>
       (case safeParse E HeartbeatSchema raw of
          None \<Rightarrow> ret ()
        | Some hb \<Rightarrow>
            if get_field hb ''vehicleId'' \<noteq> JStr topicVehicle then ret ()
            else
              (let v = str_field hb ''vehicleId''; latched = (get_field hb ''latched'' = JBool True) in
               await (effect (\<lambda>w. (Inr (lastLatch w v), w\<lparr>lastLatch := (lastLatch w)(v \<mapsto> latched)\<rparr>))) (\<lambda>prev.
               if prev = Some latched \<or> (prev = None \<and> \<not> latched) then ret ()
               else
                 await (uuidv4 E) (\<lambda>c.
                 await (uuidv4 E) (\<lambda>k.
                 edr_create E (edr_data c k v ''VEHICLE'' ''SAFE_STOP_LATCH''
                   (if latched then ''ENGAGED'' else ''RELEASED'') (JObj [(''heartbeat'', clean hb)]))))))))"

section \<open>The uploaded event log\<close>

definition vlog_id :: "json \<Rightarrow> string" where
  "vlog_id ev = ''vlog-'' @ str_field ev ''vehicleId'' @ ''-'' @ str_field ev ''bootId'' @ ''-''
     @ (case get_field ev ''seq'' of JNum d \<Rightarrow> dec_str d | _ \<Rightarrow> [])"

text \<open>\<open>{ vehicleTimestamp, syncedAt, ...(ev.details ?? {}) }\<close>: later keys win.\<close>

definition vlog_details :: "json \<Rightarrow> msec \<Rightarrow> json" where
  "vlog_details ev now =
    JObj (foldl (\<lambda>al p. AList.update (fst p) (snd p) al)
      [(''vehicleTimestamp'', get_field ev ''timestamp''), (''syncedAt'', JInt now)]
      (case get_field ev ''details'' of JObj ds \<Rightarrow> ds | _ \<Rightarrow> []))"

definition append_event :: "'kv env \<Rightarrow> json \<Rightarrow> ('kv, unit) handler" where
  "append_event E ev =
    await (db_query E (\<lambda>w. find (\<lambda>r. edr_commandId r = vlog_id ev) (edr w))) (\<lambda>existing.
    if existing \<noteq> None then ret ()
    else
      await (uuidv4 E) (\<lambda>k.
      await date_now (\<lambda>now.
      edr_create E (edr_data (vlog_id ev) k (str_field ev ''vehicleId'') ''VEHICLE-LOG'' (str_field ev ''type'')
        ''SYNCED'' (clean (vlog_details ev now))))))"

fun dec_max :: "dec \<Rightarrow> dec list \<Rightarrow> dec" where
  "dec_max d [] = d"
| "dec_max d (x # xs) = dec_max (if dec_less d x then x else d) xs"

definition seq_of :: "json \<Rightarrow> dec" where
  "seq_of ev = (case get_field ev ''seq'' of JNum d \<Rightarrow> d | _ \<Rightarrow> dec_of_int 0)"

definition log_ack :: "'kv env \<Rightarrow> vehicle_id \<Rightarrow> string \<Rightarrow> dec \<Rightarrow> json" where
  "log_ack E v bootId upTo =
    signDocument E (JObj [(''vehicleId'', JStr v), (''bootId'', JStr bootId), (''upTo'', JNum upTo)])"

definition recordEdgeLogBatch :: "'kv env \<Rightarrow> vehicle_id \<Rightarrow> string \<Rightarrow> ('kv, unit) handler" where
  "recordEdgeLogBatch E topicVehicle text =
    (case json_parse text of
       None \<Rightarrow> ret ()
     | Some raw \<Rightarrow>
       (case safeParse E EdgeLogBatchSchema raw of
          None \<Rightarrow> ret ()
        | Some batch \<Rightarrow>
            (let events = as_list (get_field batch ''events''); bootId = str_field (hd events) ''bootId'';
                 v = str_field batch ''vehicleId'' in
             if get_field batch ''vehicleId'' \<noteq> JStr topicVehicle \<or>
                list_ex (\<lambda>e. str_field e ''vehicleId'' \<noteq> topicVehicle \<or> str_field e ''bootId'' \<noteq> bootId) events
             then ret ()
             else
               await (for_each events (append_event E)) (\<lambda>_.
               await (publish (vehicle_topic v ''logsync/ack'')
                 (log_ack E v bootId (dec_max (seq_of (hd events)) (map seq_of (tl events)))) False) (\<lambda>_.
               ret ())))))"

section \<open>The message handler\<close>

text \<open>Errors are caught (and logged), except in the maneuver handler: it is called without being
  awaited, so that its rejection is nobody's; the process that ends in \<open>Inl\<close> stands for it.\<close>

definition on_message :: "'kv env \<Rightarrow> string \<Rightarrow> string \<Rightarrow> ('kv, unit) handler" where
  "on_message E topic text =
    (let topicVehicle = vehicleFromTopic topic in
     if \<not> truthy_str topicVehicle then ret ()
     else if ends_with topic ''/ack'' then catch (handleAck E (the topicVehicle) text) (\<lambda>_. ret ())
     else if ends_with topic ''/heartbeat'' then catch (recordLatchTransition E (the topicVehicle) text) (\<lambda>_. ret ())
     else if ends_with topic ''/logsync'' then catch (recordEdgeLogBatch E (the topicVehicle) text) (\<lambda>_. ret ())
     else if str_includes topic ''/maneuver/'' then handleIncoming E topic text
     else ret ())"

end
