(* ===== verification/System.thy ===== *)
theory System
  imports Mqtt_Ingest
begin

text \<open>
  The command service as a whole: every request, message and timer of it as one type, and the
  invariants that hold of any number of them interleaved in any way. What a handler may do to
  the world is stated once, in the locale \<open>service_invariant\<close>; each invariant is an
  interpretation of it.
\<close>

section \<open>Everything the service does\<close>

datatype service_op =
    TakeControlOp vehicle_id operator_id req
  | AssignOp vehicle_id operator_id "string option" req
  | UnassignOp vehicle_id operator_id "string option" req
  | ListOp vehicle_id req
  | HeartbeatOp vehicle_id operator_id uuid req
  | CommandOp vehicle_id operator_id uuid json req
  | EStopOp vehicle_id operator_id uuid req
  | ClearOp vehicle_id operator_id uuid req
  | HandoverOp vehicle_id operator_id req
  | ZoneOp vehicle_id ZoneType req "string option" "string option" "string option" "int option" "int option" "dec option"
  | DecideOp string operator_id uuid string req "string option"
  | DeadmanTimer vehicle_id
  | AckTimer
  | ProposalTimer
  | MqttMessage string string
  | Tick nat
  | Links bool bool bool bool

definition finish :: "('kv, 'a) handler \<Rightarrow> ('kv, unit) handler" where
  "finish p = await p (\<lambda>_. ret ())"

fun service :: "'kv env \<Rightarrow> service_op \<Rightarrow> ('kv, unit) handler" where
  "service E (TakeControlOp v p r) = finish (take_control E v p r)"
| "service E (AssignOp v p b r) = finish (assign_operator E v p b r)"
| "service E (UnassignOp v p b r) = finish (unassign_operator E v p b r)"
| "service E (ListOp v r) = finish (list_assignments E v r)"
| "service E (HeartbeatOp v p t r) = finish (operator_heartbeat E v p t r)"
| "service E (CommandOp v p t c r) = finish (sendCommand E v p t c r)"
| "service E (EStopOp v p t r) = finish (triggerEStop E v p t r)"
| "service E (ClearOp v p t r) = finish (clearSafeStop E v p t r)"
| "service E (HandoverOp v p r) = finish (handover E v p r)"
| "service E (ZoneOp v z r b i y u f l) = finish (setZone E v z r b i y u f l)"
| "service E (DecideOp i p t d r x) = finish (decide E i p t d r x)"
| "service E (DeadmanTimer v) = deadman_fires E v"
| "service E AckTimer = ack_timer_fires E"
| "service E ProposalTimer = proposal_timer_fires"
| "service E (MqttMessage topic text) = on_message E topic text"
| "service E (Tick d) = tick d"
| "service E (Links s d b f) = set_links s d b f"

text \<open>The world after the operations \<open>ops\<close> ran under the schedule \<open>ns\<close>.\<close>

definition after :: "'kv env \<Rightarrow> nat list \<Rightarrow> service_op list \<Rightarrow> 'kv world \<Rightarrow> 'kv world" where
  "after E ns ops w = snd (sched ns (map (service E) ops) w)"

lemma after_sequence: "\<exists>ns. after E ns ops w = fold (\<lambda>x w. snd (run (service E x) w)) ops w"
  using sched_sequence [of "[]" "map (service E) ops" w] by (simp add: after_def fold_map comp_def)

lemma run_finish [simp]: "snd (run (finish p) w) = snd (run p w)"
  by (simp add: finish_def split: prod.splits sum.splits)

section \<open>What an invariant has to allow\<close>

text \<open>The recorder is only appended to.\<close>

definition edr_grows :: "'kv world \<Rightarrow> 'kv world \<Rightarrow> bool" where
  "edr_grows w w' = (\<exists>new. edr w' = edr w @ new)"

lemma edr_grows_preorder: "reflp edr_grows" "transp edr_grows"
  by (auto simp: edr_grows_def intro!: reflpI transpI)

lemma edr_grows_same [simp]: "edr w' = edr w \<Longrightarrow> edr_grows w w'"
  by (simp add: edr_grows_def)

lemma edr_grows_append [simp]: "edr w' = edr w @ rows \<Longrightarrow> edr_grows w w'"
  by (simp add: edr_grows_def)

text \<open>A command is recorded: a row of its vehicle, written when it was still pending, carries its
  command id and the whole document.\<close>

definition recorded :: "vehicle_id \<Rightarrow> json \<Rightarrow> 'kv world \<Rightarrow> bool" where
  "recorded v doc w = (\<exists>r \<in> set (edr w). edr_vehicleId r = v \<and> edr_status r = ''PENDING'' \<and>
     edr_commandId r = str_field doc ''commandId'' \<and> edr_details r = clean doc)"

lemma recorded_grows: "recorded v doc w \<Longrightarrow> edr_grows w w' \<Longrightarrow> recorded v doc w'"
  by (auto simp: recorded_def edr_grows_def)

definition command_topic :: "vehicle_id \<Rightarrow> string \<Rightarrow> bool" where
  "command_topic v topic = (topic = vehicle_topic v ''command'' \<or> topic = vehicle_topic v ''estop'')"

definition plain_topic :: "string \<Rightarrow> bool" where
  "plain_topic topic = (\<exists>v. topic = vehicle_topic v ''deadman'' \<or> topic = vehicle_topic v ''logsync/ack'')"

locale service_invariant =
  fixes E :: "'kv env" and I :: "'kv world \<Rightarrow> bool"
  assumes frame: "I w \<Longrightarrow> outbox w' = outbox w \<Longrightarrow> assignments w' = assignments w \<Longrightarrow>
      revisions w' = revisions w \<Longrightarrow> edr_grows w w' \<Longrightarrow> I w'"
    and assigns: "I w \<Longrightarrow> I (snd (assign_tx E v p b w))"
    and revokes: "I w \<Longrightarrow> I (snd (revoke_update v p b w))"
    and delivers: "I w \<Longrightarrow> I (snd (setZone_service E v z q w))"
    and sends_plain: "I w \<Longrightarrow> plain_topic topic \<Longrightarrow> signature_valid E doc \<Longrightarrow> get_field doc ''state'' = JUndef \<Longrightarrow>
      I (w\<lparr>outbox := outbox w @ [\<lparr>msg_topic = topic, msg_doc = doc, msg_retain = False\<rparr>]\<rparr>)"
    and sends_command: "I w \<Longrightarrow> command_topic v topic \<Longrightarrow> signature_valid E doc \<Longrightarrow> get_field doc ''state'' = JUndef \<Longrightarrow>
      recorded v doc w \<Longrightarrow>
      I (w\<lparr>outbox := outbox w @ [\<lparr>msg_topic = topic, msg_doc = doc, msg_retain = False\<rparr>]\<rparr>)"
begin

abbreviation tm :: "('kv, 'a) handler \<Rightarrow> bool" where
  "tm p \<equiv> tame I edr_grows p"

abbreviation ok :: "('kv, 'a) handler \<Rightarrow> 'kv world \<Rightarrow> bool" where
  "ok p w \<equiv> wp I edr_grows p (\<lambda>_ _. True) w"

lemma tm_modify:
  "(\<And>w. outbox (f w) = outbox w \<and> assignments (f w) = assignments w \<and> revisions (f w) = revisions w \<and> edr (f w) = edr w)
    \<Longrightarrow> tm (modify f)"
  unfolding modify_def by (rule tame_effect) (auto intro: frame)

lemma tm_look: "tm (look f)"
  by (simp add: look_def tame_effect edr_grows_def)

lemma tm_effect_frame:
  "(\<And>w. outbox (snd (f w)) = outbox w \<and> assignments (snd (f w)) = assignments w \<and>
     revisions (snd (f w)) = revisions w \<and> edr (snd (f w)) = edr w) \<Longrightarrow> tm (effect f)"
  by (rule tame_effect) (auto intro: frame)

lemma tm_db_query: "tm (db_query E q)"
  unfolding db_query_def by (rule tm_effect_frame) simp

lemma tm_edr_create: "tm (edr_create E r)"
  unfolding edr_create_def db_update_def
  by (rule tame_effect) (auto intro: frame)

lemma tm_assign: "tm (assign E v p b)"
proof -
  have "edr (snd (assign_tx E v p b w)) = edr w" for w :: "'kv world"
    by (simp add: assign_tx_def Let_def split: option.splits)
  then show ?thesis
    unfolding assign_def db_update_def by (intro tame_effect) (auto simp: assigns)
qed

lemma tm_revoke_update: "tm (db_update E (revoke_update v p b))"
  unfolding db_update_def
  by (intro tame_effect) (auto simp: revokes, auto simp: revoke_update_def)

lemma tm_publish_plain:
  assumes "plain_topic topic" "signature_valid E doc" "get_field doc ''state'' = JUndef"
  shows "tm (publish topic doc False)"
  unfolding publish_def publish_now_def
  by (rule tame_effect) (auto intro: sends_plain assms)

lemma tm_zone: "tm (effect (\<lambda>w. map_prod Inr id (setZone_service E v z q w)))"
proof -
  have "edr (snd (setZone_service E v z q w)) = edr w" for w :: "'kv world"
    by (simp add: setZone_service_eq Let_def)
  then show ?thesis by (intro tame_effect) (simp add: delivers)
qed

lemma tm_redis:
  "tm (redis_get E k)" "tm (redis_set_ex E k x n)" "tm (redis_set_ex_nx E k x n)"
  "tm (redis_expire E k n)" "tm (redis_del E k)" "tm (uuidv4 E)" "tm date_now" "tm (resetDeadmanTimer v)"
  unfolding redis_get_def redis_set_ex_def redis_set_ex_nx_def redis_expire_def redis_del_def
    uuidv4_def date_now_def resetDeadmanTimer_def
  by (auto intro!: tm_effect_frame tm_look tm_modify)

lemmas tm_basic = tm_look tm_db_query tm_edr_create tm_assign tm_revoke_update tm_zone tm_redis

lemma tm_logEdr: "tm (logEdr E c v i a s d k)" "tm (logEdr_fresh E v i a s d)"
  by (auto simp: logEdr_def logEdr_fresh_def intro!: tame_await tm_basic split: option.splits)

text \<open>Handlers that send no command.\<close>

lemma tm_session:
  "tm (takeControl E v p)" "tm (heartbeat E v p t)" "tm (handover_session E v p)"
  "tm (validateToken E v p t)" "tm (getTokenIssuedAt E v)" "tm (canControl E v p)" "tm (revoke E v p b)"
  unfolding takeControl_def heartbeat_def handover_session_def validateToken_def getTokenIssuedAt_def
    canControl_def revoke_def
  by (auto intro!: tame_await tame_catch tm_basic split: option.splits)

lemma plain_topics [simp]: "plain_topic (vehicle_topic v ''deadman'')" "plain_topic (vehicle_topic v ''logsync/ack'')"
  by (auto simp: plain_topic_def)

lemma signed_state [simp]:
  "get_field (JObj es) ''state'' = JUndef \<Longrightarrow> get_field (signDocument E (JObj es)) ''state'' = JUndef"
  by (simp add: get_signDocument)

lemmas tm_rules = tame_await tame_catch tame_guarded tame_for_each tm_basic tm_session tm_logEdr
  tm_publish_plain signDocument_valid

lemma tm_admin:
  "tm (take_control E v p r)" "tm (assign_operator E v p x r)" "tm (unassign_operator E v p x r)"
  "tm (list_assignments E v r)" "tm (operator_heartbeat E v p t r)" "tm (handover E v p r)"
  "tm (setZone E v z r x pid why until from limit)"
  unfolding take_control_def assign_operator_def unassign_operator_def list_assignments_def listForVehicle_def
    operator_heartbeat_def handover_def setZone_def Let_def
  by (auto intro!: tm_rules split: option.splits prod.splits)

lemma tm_timers: "tm (ack_timer_fires E)" "tm proposal_timer_fires" "tm (tick d)" "tm (set_links su du bu fu)"
  unfolding ack_timer_fires_def proposal_timer_fires_def tick_def set_links_def
  by (auto intro!: tm_rules tm_effect_frame tm_modify split: option.splits)

lemma resolve_open_frame:
  "outbox (resolveProposal i w) = outbox w \<and> assignments (resolveProposal i w) = assignments w \<and>
   revisions (resolveProposal i w) = revisions w \<and> edr (resolveProposal i w) = edr w"
  "outbox (openProposal p w) = outbox w \<and> assignments (openProposal p w) = assignments w \<and>
   revisions (openProposal p w) = revisions w \<and> edr (openProposal p w) = edr w"
  by (simp_all add: resolveProposal_def openProposal_def Let_def split: option.splits)

lemma tm_maneuver: "tm (handleProposal E v m)" "tm (handleStatusUpdate E v m)"
  unfolding handleProposal_def handleStatusUpdate_def notify_def Let_def
  by (auto intro!: tm_rules tm_modify simp: resolve_open_frame split: option.splits)

lemma tm_message: "tm (on_message E topic text)"
proof -
  have "tm (handleAck E v t)" for v t
    unfolding handleAck_def Let_def by (auto intro!: tm_rules split: option.splits)
  moreover have "tm (recordLatchTransition E v t)" for v t
    unfolding recordLatchTransition_def Let_def
    by (auto intro!: tm_rules tm_effect_frame split: option.splits)
  moreover have "tm (recordEdgeLogBatch E v t)" for v t
    unfolding recordEdgeLogBatch_def append_event_def log_ack_def Let_def
    by (auto intro!: tm_rules split: option.splits)
  moreover have "tm (handleIncoming E topic t)" for t
    unfolding handleIncoming_def Let_def by (auto intro!: tm_maneuver split: option.splits)
  ultimately show ?thesis
    unfolding on_message_def Let_def by (auto intro!: tame_catch)
qed

text \<open>Handlers that send a command: recorded first, then published.\<close>

lemma ok_tame: "tm p \<Longrightarrow> ok p w"
  by (rule tame_wp)

lemmas ok_log = ok_tame [OF tm_edr_create] ok_tame [OF tm_logEdr(1)] ok_tame [OF tm_logEdr(2)]

lemma ok_await: "tm p \<Longrightarrow> (\<And>a w'. ok (k a) w') \<Longrightarrow> ok (await p k) w"
  unfolding wp_await by (rule tame_wp_post) (auto split: sum.splits)

lemma tm_watch: "tm (watchForAck c v p a k t)"
  unfolding watchForAck_def by (rule tm_modify) simp

lemma ok_log_throw: "ok (await (edr_create E r) (\<lambda>_. throw e)) w"
  by (rule ok_await [OF tm_edr_create]) simp

lemmas ok_steps = ok_await [OF tm_redis(1)] ok_await [OF tm_redis(6)] ok_await [OF tm_redis(7)]
  ok_await [OF tm_session(4)] ok_await [OF tm_session(5)] ok_await [OF tm_look]
  ok_await [OF tm_logEdr(1)] ok_await [OF tm_logEdr(2)] ok_await [OF tm_watch] ok_await [OF tame_ret] ok_log_throw

lemma ok_guarded: "(\<And>w. ok p w) \<Longrightarrow> ok (guarded g p) w"
  by (auto simp: wp_guarded split: option.splits)

lemma ok_record:
  assumes "c = str_field doc ''commandId''" "\<And>w'. recorded v doc w' \<Longrightarrow> ok (k ()) w'"
  shows "ok (await (edr_create E (edr_data c x v i a ''PENDING'' (clean doc))) k) w"
  unfolding edr_create_def db_update_def
proof (rule wp_await_effect, goal_cases)
  case (1 w')
  let ?r = "(edr_data c x v i a ''PENDING'' (clean doc))\<lparr>edr_createdAt := clock w'\<rparr>"
  have "recorded v doc (w'\<lparr>edr := edr w' @ [?r]\<rparr>)"
    using assms(1) by (simp add: recorded_def edr_data_def)
  then show ?case using 1 assms(2) by (auto intro: frame)
qed

lemma ok_publish:
  assumes "recorded v doc w" "command_topic v topic" "signature_valid E doc" "get_field doc ''state'' = JUndef"
    "\<And>b w'. recorded v doc w' \<Longrightarrow> ok (k b) w'"
  shows "ok (await (publish topic doc False) k) w"
  unfolding publish_def publish_now_def
proof (rule wp_await_effect, goal_cases)
  case (1 w')
  then have "recorded v doc w'" using assms(1) recorded_grows by blast
  moreover from this have "recorded v doc (w'\<lparr>outbox := outbox w' @ [m]\<rparr>)" for m
    by (simp add: recorded_def)
  ultimately show ?case using 1 assms by (auto intro: sends_command)
qed

lemma command_topics [simp]:
  "command_topic v (vehicle_topic v ''command'')" "command_topic v (vehicle_topic v ''estop'')"
  by (simp_all add: command_topic_def)

lemma envelope_fields [simp]:
  "str_field (signDocument E (envelope_doc c k s v i m t n x l p)) ''commandId'' = c"
  "get_field (signDocument E (envelope_doc c k s v i m t n x l p)) ''state'' = JUndef"
  "signature_valid E (signDocument E (envelope_doc c k s v i m t n x l p))"
  by (simp_all add: envelope_doc_def get_signDocument signDocument_valid)

lemma ok_safe_stop: "ok (triggerSafeStop E v) w"
  unfolding triggerSafeStop_def Let_def
  by (auto intro!: ok_steps ok_record ok_publish [where v = v] ok_log)

lemma ok_deadman: "ok (deadman_fires E v) w"
  unfolding deadman_fires_def
  by (rule ok_await) (auto intro!: tm_effect_frame ok_steps ok_safe_stop split: option.splits)

lemma ok_publish_estop:
  assumes "recorded v doc w" "signature_valid E doc" "get_field doc ''state'' = JUndef"
  shows "ok (publish_estop E v p m a c k doc) w"
  unfolding publish_estop_def
  by (auto intro!: ok_publish [where v = v] ok_steps ok_log simp: assms)

lemma ok_publish_command:
  assumes "recorded v doc w" "signature_valid E doc" "get_field doc ''state'' = JUndef"
  shows "ok (publish_command E v p m a c k doc) w"
  unfolding publish_command_def
  by (auto intro!: ok_publish [where v = v] ok_steps ok_log simp: assms)

lemma ok_dispatch: "ok (dispatch E v p t m payload e) w"
  unfolding dispatch_def Let_def logEdr_def
  by (auto intro!: ok_steps ok_record ok_publish_estop ok_publish_command)

lemma ok_commands:
  "ok (sendCommand E v p t c r) w" "ok (triggerEStop E v p t r) w" "ok (clearSafeStop E v p t r) w"
  unfolding sendCommand_def command_after_token_def triggerEStop_def clearSafeStop_def Let_def
  by (auto intro!: ok_guarded ok_steps ok_dispatch split: option.splits prod.splits)

lemma ok_decide: "ok (decide E i p t d r x) w"
proof -
  have "ok (dispatch_decision E i v p t d payload) w" for v payload w
    unfolding dispatch_decision_def Let_def
    by (auto intro!: ok_steps ok_record ok_publish [where v = v] ok_await [OF tm_modify]
        simp: resolve_open_frame)
  then show ?thesis
    unfolding decide_def Let_def
    by (auto intro!: ok_guarded ok_steps split: option.splits sum.splits)
qed

lemma ok_service: "ok (service E x) w"
proof -
  have fin: "ok p w \<Longrightarrow> ok (finish p) w" for p :: "('kv, 'b) handler" and w
    unfolding finish_def wp_await by (erule wp_mono) (simp split: sum.splits)
  show ?thesis
    by (cases x) (auto intro!: fin ok_commands ok_decide ok_deadman ok_tame [OF tm_message]
        ok_tame [OF tm_admin(1)] ok_tame [OF tm_admin(2)] ok_tame [OF tm_admin(3)] ok_tame [OF tm_admin(4)]
        ok_tame [OF tm_admin(5)] ok_tame [OF tm_admin(6)] ok_tame [OF tm_admin(7)]
        ok_tame [OF tm_timers(1)] ok_tame [OF tm_timers(2)] ok_tame [OF tm_timers(3)] ok_tame [OF tm_timers(4)])
qed

text \<open>The invariant holds after any operations, however they interleave, and the recorder has grown.\<close>

lemma invariant_after: "I w \<Longrightarrow> I (after E ns ops w) \<and> edr_grows w (after E ns ops w)"
  unfolding after_def
  using sched_invariant [OF edr_grows_preorder, where ps = "map (service E) ops" and I = I and w = w] ok_service
  by auto

end

section \<open>The invariants\<close>

text \<open>The topics of the four kinds of messages differ in their last character.\<close>

lemma topic_last:
  "last (vehicle_topic v ''command'') = CHR ''d''" "last (vehicle_topic v ''estop'') = CHR ''p''"
  "last (vehicle_topic v ''deadman'') = CHR ''n''" "last (vehicle_topic v ''logsync/ack'') = CHR ''k''"
  "last (vehicle_topic v ''zone-config'') = CHR ''g''"
  "last (''$aws/things/'' @ v @ ''/shadow/name/zone-config/update'') = CHR ''e''"
  by (simp_all add: vehicle_topic_def)

lemma command_topic_last: "command_topic v t \<Longrightarrow> last t = CHR ''d'' \<or> last t = CHR ''p''"
  by (auto simp: command_topic_def topic_last)

lemma plain_topic_last: "plain_topic t \<Longrightarrow> last t = CHR ''n'' \<or> last t = CHR ''k''"
  by (auto simp: plain_topic_def topic_last)

lemma zone_topic_last: "last (msg_topic (zone_message E v c)) = CHR ''g'' \<or> last (msg_topic (zone_message E v c)) = CHR ''e''"
  by (simp add: zone_message_def topic_last)

lemma command_topic_inject: "command_topic v t \<Longrightarrow> command_topic u t \<Longrightarrow> v = u"
  by (auto simp: command_topic_def dest: arg_cong [where f = last] simp: topic_last)
    (auto simp: vehicle_topic_def)

text \<open>Audit before publication.\<close>

definition audited :: "'kv world \<Rightarrow> bool" where
  "audited w = (\<forall>m \<in> set (outbox w). \<forall>v. command_topic v (msg_topic m) \<longrightarrow> recorded v (msg_doc m) w)"

lemma audited_grows: "audited w \<Longrightarrow> outbox w' = outbox w \<Longrightarrow> edr_grows w w' \<Longrightarrow> audited w'"
  using recorded_grows by (fastforce simp: audited_def)

lemma setZone_service_effect:
  "\<exists>c. outbox (snd (setZone_service E v z q w)) = outbox w \<or>
     outbox (snd (setZone_service E v z q w)) = outbox w @ [zone_message E v (signDocument E c)]"
  by (auto simp: setZone_service_eq Let_def)

interpretation audit: service_invariant E audited for E
proof
  fix w w' :: "'a world"
  show "audited w \<Longrightarrow> outbox w' = outbox w \<Longrightarrow> assignments w' = assignments w \<Longrightarrow>
      revisions w' = revisions w \<Longrightarrow> edr_grows w w' \<Longrightarrow> audited w'"
    by (rule audited_grows)
next
  fix w :: "'a world" and v p b
  show "audited w \<Longrightarrow> audited (snd (assign_tx E v p b w))"
    by (auto simp: assign_tx_def Let_def elim: audited_grows split: option.splits)
next
  fix w :: "'a world" and v p b
  show "audited w \<Longrightarrow> audited (snd (revoke_update v p b w))"
    by (auto simp: revoke_update_def elim: audited_grows)
next
  fix w :: "'a world" and v z q
  assume w: "audited w"
  let ?w = "snd (setZone_service E v z q w)"
  have e: "edr ?w = edr w" by (simp add: setZone_service_eq Let_def)
  then have r: "recorded u d ?w \<longleftrightarrow> recorded u d w" for u d by (simp add: recorded_def)
  have "\<not> command_topic u (msg_topic (zone_message E v c))" for u c
    using command_topic_last [of u "msg_topic (zone_message E v c)"] zone_topic_last [of E v c] by auto
  with w setZone_service_effect [of E v z q w] show "audited ?w"
    by (auto simp: audited_def r)
next
  fix w :: "'a world" and topic doc
  assume "audited w" "plain_topic topic"
  moreover have "\<not> command_topic u topic" for u
    using calculation(2) command_topic_last [of u topic] plain_topic_last [of topic] by auto
  ultimately show "audited (w\<lparr>outbox := outbox w @ [\<lparr>msg_topic = topic, msg_doc = doc, msg_retain = False\<rparr>]\<rparr>)"
    by (auto simp: audited_def recorded_def)
next
  fix w :: "'a world" and v topic doc
  assume "audited w" "command_topic v topic" "recorded v doc w"
  then show "audited (w\<lparr>outbox := outbox w @ [\<lparr>msg_topic = topic, msg_doc = doc, msg_retain = False\<rparr>]\<rparr>)"
    by (auto simp: audited_def recorded_def dest: command_topic_inject)
qed

text \<open>Everything sent is signed (the shadow document of AWS IoT carries the signed configuration).\<close>

definition payload_of :: "json \<Rightarrow> json" where
  "payload_of doc = (if get_field doc ''state'' = JUndef then doc
     else get_field (get_field (get_field doc ''state'') ''desired'') ''config'')"

definition all_signed :: "'kv env \<Rightarrow> 'kv world \<Rightarrow> bool" where
  "all_signed E w = (\<forall>m \<in> set (outbox w). signature_valid E (payload_of (msg_doc m)))"

lemma zone_doc_signed:
  "signature_valid E (signDocument E (zone_doc v r n x i))" "get_field (signDocument E (zone_doc v r n x i)) ''state'' = JUndef"
  by (simp_all add: zone_doc_def signDocument_valid get_signDocument)

interpretation signed: service_invariant E "all_signed E" for E
proof
  fix w :: "'a world" and v z q
  show "all_signed E w \<Longrightarrow> all_signed E (snd (setZone_service E v z q w))"
    by (auto simp: all_signed_def setZone_service_eq Let_def zone_message_def payload_of_def zone_doc_signed)
qed (auto simp: all_signed_def payload_of_def assign_tx_def revoke_update_def Let_def split: option.splits)

text \<open>One active assignment per vehicle and operator.\<close>

interpretation assigns: service_invariant E "\<lambda>w. one_active (assignments w)" for E
proof
  fix w :: "'a world" and v z q
  show "one_active (assignments w) \<Longrightarrow> one_active (assignments (snd (setZone_service E v z q w)))"
    by (simp add: setZone_service_eq Let_def)
qed (simp_all add: one_active_assign revoke_update_def one_active_revoke)

text \<open>The revisions of the configurations sent to a vehicle, in the order they were sent.\<close>

definition zone_topic :: "'kv env \<Rightarrow> vehicle_id \<Rightarrow> string" where
  "zone_topic E v = msg_topic (zone_message E v JUndef)"

definition revs :: "'kv env \<Rightarrow> vehicle_id \<Rightarrow> message list \<Rightarrow> int list" where
  "revs E v ms = map (\<lambda>m. int_field (payload_of (msg_doc m)) ''revision'')
     (filter (\<lambda>m. msg_topic m = zone_topic E v) ms)"

definition revisions_ok :: "'kv env \<Rightarrow> 'kv world \<Rightarrow> bool" where
  "revisions_ok E w = (\<forall>v. sorted_wrt (<) (revs E v (outbox w)) \<and>
     (\<forall>r \<in> set (revs E v (outbox w)). r \<le> nullish (revisions w v) 0))"

lemma zone_topic_inject: "zone_topic E v = zone_topic E u \<longleftrightarrow> v = u"
  by (simp add: zone_topic_def zone_message_def vehicle_topic_def)

lemma zone_topic_message: "msg_topic (zone_message E v c) = zone_topic E v"
  by (simp add: zone_topic_def zone_message_def)

lemma revs_append:
  "revs E v (ms @ [m]) = revs E v ms @
     (if msg_topic m = zone_topic E v then [int_field (payload_of (msg_doc m)) ''revision''] else [])"
  by (simp add: revs_def)

lemma zone_topic_other [simp]: "\<not> plain_topic (zone_topic E v)" "\<not> command_topic u (zone_topic E v)"
  using plain_topic_last [of "zone_topic E v"] command_topic_last [of u "zone_topic E v"] zone_topic_last [of E v JUndef]
  by (auto simp: zone_topic_def)

lemma zone_message_revision:
  "int_field (payload_of (msg_doc (zone_message E v (signDocument E (zone_doc u r n x i))))) ''revision'' = x"
  by (simp add: zone_message_def payload_of_def zone_doc_signed)
    (simp add: zone_doc_def get_signDocument)

interpretation revisions: service_invariant E "revisions_ok E" for E
proof
  fix w :: "'a world" and v z q
  assume w: "revisions_ok E w"
  let ?w = "snd (setZone_service E v z q w)"
  show "revisions_ok E ?w"
    unfolding revisions_ok_def
  proof (intro allI)
    fix u
    have new: "nullish (revisions w v) 0 < next_revision w v" by (simp add: next_revision_def)
    have rev: "nullish (revisions ?w u) 0 = (if u = v then next_revision w v else nullish (revisions w u) 0)"
      by (simp add: setZone_service_eq Let_def)
    have out: "revs E u (outbox ?w) = revs E u (outbox w) @
        (if broker_up w \<and> u = v then [next_revision w v] else [])"
      by (auto simp: setZone_service_eq Let_def revs_append zone_topic_message zone_topic_inject
          zone_message_revision)
    show "sorted_wrt (<) (revs E u (outbox ?w)) \<and>
        (\<forall>r \<in> set (revs E u (outbox ?w)). r \<le> nullish (revisions ?w u) 0)"
      unfolding rev out using w new by (fastforce simp: revisions_ok_def sorted_wrt_append)
  qed
qed (auto simp: revisions_ok_def assign_tx_def revoke_update_def Let_def revs_append
    split: option.splits)

text \<open>Nothing at all.\<close>

interpretation anything: service_invariant E "\<lambda>_. True" for E
  by unfold_locales auto

section \<open>What holds of every history of the service\<close>

text \<open>C2: No command without its record: whatever requests, vehicle messages, timers and outages
  come in, and however their steps interleave, every command or stop message the service has
  published is preceded by a recorder row of the same vehicle and command id, written while the
  command was pending, whose details are the published document.\<close>

theorem audit_before_publish:
  assumes "outbox w = []" and "m \<in> set (outbox (after E ns ops w))"
    and "msg_topic m = vehicle_topic v ''command'' \<or> msg_topic m = vehicle_topic v ''estop''"
  shows "\<exists>r \<in> set (edr (after E ns ops w)). edr_vehicleId r = v \<and> edr_status r = ''PENDING'' \<and>
    edr_commandId r = str_field (msg_doc m) ''commandId'' \<and> edr_details r = clean (msg_doc m)"
proof -
  have "audited w" using assms(1) by (simp add: audited_def)
  then have "audited (after E ns ops w)" using audit.invariant_after by blast
  with assms(2,3) show ?thesis by (auto simp: audited_def recorded_def command_topic_def)
qed

text \<open>The recorder is append-only: no operation, and no interleaving of any operations, ever
  changes or removes a row.\<close>

theorem recorder_append_only:
  "\<exists>new. edr (after E ns ops w) = edr w @ new"
  using anything.invariant_after [of w E ns ops] by (simp add: edr_grows_def)

text \<open>C10: Everything the service publishes is signed: commands, stops, operator-liveness pings, zone
  configurations (also inside a device shadow) and log acknowledgements all carry the signature
  over the canonical text of their content.\<close>

theorem everything_published_is_signed:
  assumes "outbox w = []" "m \<in> set (outbox (after E ns ops w))"
  shows "signature_valid E (payload_of (msg_doc m))"
proof -
  have "all_signed E w" using assms(1) by (simp add: all_signed_def)
  then have "all_signed E (after E ns ops w)" using signed.invariant_after by blast
  with assms(2) show ?thesis by (simp add: all_signed_def)
qed

text \<open>C11: Zone configurations reach a vehicle with strictly increasing revisions, whatever the
  clock does and however configuration changes interleave: a receiver that keeps the highest
  revision never accepts a replayed older configuration.\<close>

theorem zone_revisions_increase:
  assumes "outbox w = []"
  shows "sorted_wrt (<) (map (\<lambda>m. int_field (payload_of (msg_doc m)) ''revision'')
    (filter (\<lambda>m. msg_topic m = zone_topic E v) (outbox (after E ns ops w))))"
proof -
  have "revisions_ok E w" using assms by (simp add: revisions_ok_def revs_def)
  then have "revisions_ok E (after E ns ops w)" using revisions.invariant_after by blast
  then show ?thesis by (simp add: revisions_ok_def revs_def)
qed

text \<open>Assignments stay unique: if there is at most one active assignment per vehicle and
  operator, there is at most one after any operations in any interleaving.\<close>

theorem assignments_stay_unique:
  assumes "one_active (assignments w)"
  shows "length (filter (\<lambda>r. asg_vehicleId r = v \<and> asg_operatorId r = p \<and> asg_active r)
    (assignments (after E ns ops w))) \<le> 1"
proof -
  have "one_active (assignments (after E ns ops w))"
    using assigns.invariant_after [OF assms] by blast
  moreover have "active_for v p = (\<lambda>r. asg_vehicleId r = v \<and> asg_operatorId r = p \<and> asg_active r)"
    by (simp add: active_for_def fun_eq_iff)
  ultimately show ?thesis unfolding one_active_def by metis
qed

section \<open>A history\<close>

text \<open>An operator of \<open>v1\<close> fell silent: seven seconds after the grant the deadman goes off.\<close>

definition silent_world :: "ttl_store world" where
  "silent_world = held_world\<lparr>clock := 1007000\<rparr>"

lemma silent_history:
  "\<exists>ns m. outbox (after (demo_env True) ns [DeadmanTimer ''v1''] silent_world) = [m] \<and>
     msg_topic m = vehicle_topic ''v1'' ''estop''"
proof -
  obtain ns where ns: "after (demo_env True) ns [DeadmanTimer ''v1''] silent_world =
      snd (run (deadman_fires (demo_env True) ''v1'') silent_world)"
    using after_sequence [of "demo_env True" "[DeadmanTimer ''v1'']" silent_world] by auto
  have "outbox (snd (run (deadman_fires (demo_env True) ''v1'') silent_world)) =
    [\<lparr>msg_topic = vehicle_topic ''v1'' ''estop'',
      msg_doc = safe_stop_envelope (demo_env True) ''v1'' 1 1007000, msg_retain = False\<rparr>]"
    using raw_lock_grant [of "demo_env True" demo_world 1007000 "''v1''" "''alice''"]
    by (simp add: run_deadman_fires run_triggerSafeStop silent_world_def held_world_def Let_def)
  with ns have "outbox (after (demo_env True) ns [DeadmanTimer ''v1''] silent_world) =
    [\<lparr>msg_topic = vehicle_topic ''v1'' ''estop'',
      msg_doc = safe_stop_envelope (demo_env True) ''v1'' 1 1007000, msg_retain = False\<rparr>]" by metis
  then show ?thesis by (metis message.select_convs(1))
qed

lemma silent_outbox: "outbox silent_world = []"
  by (simp add: silent_world_def held_world_def)

theorem audit_before_publish_witness:
  "\<exists>ns m. m \<in> set (outbox (after (demo_env True) ns [DeadmanTimer ''v1''] silent_world)) \<and>
     (\<exists>r \<in> set (edr (after (demo_env True) ns [DeadmanTimer ''v1''] silent_world)).
        edr_vehicleId r = ''v1'' \<and> edr_status r = ''PENDING'' \<and> edr_details r = clean (msg_doc m))"
proof -
  obtain ns m where h: "outbox (after (demo_env True) ns [DeadmanTimer ''v1''] silent_world) = [m]"
      "msg_topic m = vehicle_topic ''v1'' ''estop''"
    using silent_history by blast
  then have "m \<in> set (outbox (after (demo_env True) ns [DeadmanTimer ''v1''] silent_world))" by simp
  from audit_before_publish [OF silent_outbox this, of "''v1''"] h this show ?thesis by blast
qed

theorem everything_published_is_signed_witness:
  "\<exists>ns m. m \<in> set (outbox (after (demo_env True) ns [DeadmanTimer ''v1''] silent_world)) \<and>
     signature_valid (demo_env True) (payload_of (msg_doc m))"
proof -
  obtain ns m where "outbox (after (demo_env True) ns [DeadmanTimer ''v1''] silent_world) = [m]"
    using silent_history by blast
  then have "m \<in> set (outbox (after (demo_env True) ns [DeadmanTimer ''v1''] silent_world))" by simp
  from everything_published_is_signed [OF silent_outbox this] this show ?thesis by blast
qed

definition local_admin :: req where
  "local_admin = \<lparr>authorization = None, x_operator_role = Some (One ''admin'')\<rparr>"

lemma admin_passes [simp]: "canActivate (demo_env False) [''admin''] local_admin = None"
  by (simp add: canActivate_def resolveRole_def local_admin_def)

lemma local_actor [simp]: "actorFrom (demo_env False) local_admin b = or_str b ''ADMIN''"
  by (simp add: actorFrom_def identityBindingEnabled_def)

definition depot_op :: service_op where
  "depot_op = ZoneOp ''v1'' ''depot'' local_admin None (Some ''site-1'') None (Some 2000000) None None"

lemma depot_twice:
  "\<exists>ns. map msg_topic (outbox (after (demo_env False) ns [depot_op, depot_op] demo_world))
     = [zone_topic (demo_env False) ''v1'', zone_topic (demo_env False) ''v1'']"
proof -
  obtain ns where ns: "after (demo_env False) ns [depot_op, depot_op] demo_world =
      fold (\<lambda>x w. snd (run (service (demo_env False) x) w)) [depot_op, depot_op] demo_world"
    using after_sequence by blast
  have "map msg_topic (outbox (fold (\<lambda>x w. snd (run (service (demo_env False) x) w)) [depot_op, depot_op] demo_world))
     = [zone_topic (demo_env False) ''v1'', zone_topic (demo_env False) ''v1'']"
    by (simp add: depot_op_def setZone_def Let_def ZoneTypeSchema_def permit_refusal_def MODE2_CAPABLE_def
        setZone_service_eq zone_topic_message logEdr_fresh_def logEdr_def split_beta)
  with ns show ?thesis by metis
qed

theorem zone_revisions_increase_witness:
  "\<exists>ns. length (filter (\<lambda>m. msg_topic m = zone_topic (demo_env False) ''v1'')
       (outbox (after (demo_env False) ns [depot_op, depot_op] demo_world))) = 2 \<and>
     sorted_wrt (<) (map (\<lambda>m. int_field (payload_of (msg_doc m)) ''revision'')
       (filter (\<lambda>m. msg_topic m = zone_topic (demo_env False) ''v1'')
         (outbox (after (demo_env False) ns [depot_op, depot_op] demo_world))))"
proof -
  obtain ns where "map msg_topic (outbox (after (demo_env False) ns [depot_op, depot_op] demo_world))
     = [zone_topic (demo_env False) ''v1'', zone_topic (demo_env False) ''v1'']"
    using depot_twice by (elim exE)
  then have "length (filter (\<lambda>m. msg_topic m = zone_topic (demo_env False) ''v1'')
       (outbox (after (demo_env False) ns [depot_op, depot_op] demo_world))) = 2"
    by (auto simp: map_eq_Cons_conv)
  with zone_revisions_increase [where w = demo_world and E = "demo_env False" and v = "''v1''"
      and ns = ns and ops = "[depot_op, depot_op]"]
  show ?thesis by auto
qed

theorem assignments_stay_unique_witness:
  "length (filter (\<lambda>r. asg_vehicleId r = ''v1'' \<and> asg_operatorId r = ''alice'' \<and> asg_active r)
     (assignments (after (demo_env False) [0, 1, 0, 1, 1, 0]
       [AssignOp ''v1'' ''alice'' None local_admin, AssignOp ''v1'' ''alice'' None local_admin] demo_world))) \<le> 1"
  by (rule assignments_stay_unique) (simp add: one_active_def)

end
