(* ===== verification/Gate.thy ===== *)
theory Gate
  imports System
begin

text \<open>
  What the handlers of the first gate do, request by request: the exact effect of a dispatch,
  the conditions under which a command leaves the cloud, the two copies of an E-STOP, and what
  assignments and revocations mean for control.
\<close>

section \<open>Dispatch\<close>

text \<open>The envelope a dispatch builds, from the lock it finds.\<close>

definition current_issue :: "'kv env \<Rightarrow> 'kv world \<Rightarrow> vehicle_id \<Rightarrow> dec" where
  "current_issue E w v = (case holder E (store w) (clock w) v of Some l \<Rightarrow> issuedAt l | None \<Rightarrow> dec_of_int (clock w))"

definition gate_envelope :: "'kv env \<Rightarrow> 'kv world \<Rightarrow> vehicle_id \<Rightarrow> operator_id \<Rightarrow> uuid \<Rightarrow> OperationMode \<Rightarrow> json \<Rightarrow> json" where
  "gate_envelope E w v p t m payload = signDocument E
    (envelope_doc (uuid_of E (uuids w)) (uuid_of E (Suc (uuids w))) t v p m t (current_issue E w v) (clock w)
      (ttl_of (str_field payload ''action'')) payload)"

definition gate_row :: "'kv env \<Rightarrow> 'kv world \<Rightarrow> vehicle_id \<Rightarrow> operator_id \<Rightarrow> string \<Rightarrow> string \<Rightarrow> json \<Rightarrow> edr_row" where
  "gate_row E w v p a st d =
    (edr_data (uuid_of E (uuids w)) (uuid_of E (Suc (uuids w))) v p a st (clean d))\<lparr>edr_createdAt := clock w\<rparr>"

definition gate_watch :: "'kv env \<Rightarrow> 'kv world \<Rightarrow> vehicle_id \<Rightarrow> operator_id \<Rightarrow> string \<Rightarrow> ack_watch" where
  "gate_watch E w v p a = \<lparr>aw_due = clock w + ttl_of a + 3000, aw_commandId = uuid_of E (uuids w),
     aw_vehicleId = v, aw_operatorId = p, aw_action = a, aw_correlationId = uuid_of E (Suc (uuids w)),
     aw_ttlMs = ttl_of a\<rparr>"

definition gate_message :: "vehicle_id \<Rightarrow> string \<Rightarrow> json \<Rightarrow> message" where
  "gate_message v channel doc = \<lparr>msg_topic = vehicle_topic v channel, msg_doc = doc, msg_retain = False\<rparr>"

lemma run_dispatch_command:
  "run (dispatch E v p t m payload False) w =
    (let a = str_field payload ''action''; env = gate_envelope E w v p t m payload;
         w1 = w\<lparr>uuids := Suc (Suc (uuids w))\<rparr>;
         pending = gate_row E w v p a ''PENDING'' env
     in if \<not> store_up w then (Inl (Error (fault E)), w\<lparr>uuids := Suc (uuids w)\<rparr>)
        else if safeParse E CommandEnvelopeSchema env = None then (Inl (BadRequestException ''SCHEMA_INVALID''), w1)
        else if \<not> db_up w then (Inl (Error (fault E)), w1)
        else if broker_up w then
          (Inr (pending_doc (uuid_of E (uuids w)) a m [] '' published''),
           w1\<lparr>edr := edr w @ [pending], outbox := outbox w @ [gate_message v ''command'' env],
              ackTimers := ackTimers w @ [gate_watch E w v p a]\<rparr>)
        else (Inl (ServiceUnavailableException ''PUBLISH_FAILED''),
          w1\<lparr>edr := edr w @ [pending, gate_row E w v p a ''PUBLISH_FAILED''
            (JObj [(''topic'', JStr (vehicle_topic v ''command''))])]\<rparr>))"
  by (simp add: dispatch_def publish_command_def watchForAck_def logEdr_def gate_envelope_def gate_row_def
      gate_message_def gate_watch_def current_issue_def Let_def cong: option.case_cong)

lemma run_dispatch_estop:
  "run (dispatch E v p t m payload True) w =
    (let a = str_field payload ''action''; env = gate_envelope E w v p t m payload;
         w1 = w\<lparr>uuids := Suc (Suc (uuids w))\<rparr>;
         pending = gate_row E w v p a ''PENDING'' env
     in if \<not> store_up w then (Inl (Error (fault E)), w\<lparr>uuids := Suc (uuids w)\<rparr>)
        else if safeParse E CommandEnvelopeSchema env = None then (Inl (BadRequestException ''SCHEMA_INVALID''), w1)
        else if \<not> db_up w then (Inl (Error (fault E)), w1)
        else if broker_up w then
          (Inr (pending_doc (uuid_of E (uuids w)) a m
             [(''channels'', JObj [(''estop'', JBool True), (''command'', JBool True)])]
             ('' published (dual message, ICD '' @ [CHR 0xA7] @ ''3)'')),
           w1\<lparr>edr := edr w @ [pending],
              outbox := outbox w @ [gate_message v ''estop'' env, gate_message v ''command'' env],
              ackTimers := ackTimers w @ [gate_watch E w v p a]\<rparr>)
        else (Inl (ServiceUnavailableException ''PUBLISH_FAILED''),
          w1\<lparr>edr := edr w @ [pending, gate_row E w v p a ''PUBLISH_FAILED''
            (JObj [(''topic'', JStr (vehicle_topic v ''estop'')), (''dual'', JBool True)])]\<rparr>))"
  by (simp add: dispatch_def publish_estop_def watchForAck_def logEdr_def gate_envelope_def gate_row_def
      gate_message_def gate_watch_def current_issue_def Let_def cong: option.case_cong)

definition controls :: "'kv env \<Rightarrow> 'kv world \<Rightarrow> vehicle_id \<Rightarrow> operator_id \<Rightarrow> uuid \<Rightarrow> bool" where
  "controls E w v p t = (\<exists>i. holder E (store w) (clock w) v = Some \<lparr>op = p, token = t, issuedAt = i\<rparr>)"

lemma controls_validate:
  "(case holder E (store w) (clock w) v of None \<Rightarrow> False | Some l \<Rightarrow> op l = p \<and> token l = t) \<longleftrightarrow> controls E w v p t"
proof (cases "holder E (store w) (clock w) v")
  case (Some l)
  then show ?thesis by (cases l) (auto simp: controls_def)
qed (simp add: controls_def)

lemma controls_unique: "controls E w v p t \<Longrightarrow> controls E w v q u \<Longrightarrow> p = q \<and> t = u"
  by (auto simp: controls_def)

text \<open>When the gate lets a command pass, given what the schema made of the payload.\<close>

definition gate_allows :: "'kv world \<Rightarrow> vehicle_id \<Rightarrow> json \<Rightarrow> bool" where
  "gate_allows w v cmd = (let a = str_field cmd ''action'' in
     alwaysAllowed a \<or> (isModeAllowedInZone (getZone w v) (inferMode a) \<and> isDiagDisruptiveAllowed a (getZone w v) True))"

lemma run_logEdr_fresh:
  "run (logEdr_fresh E v i a st d) w =
    (if db_up w then (Inr (), w\<lparr>uuids := Suc (Suc (uuids w)), edr := edr w @
       [(edr_data (uuid_of E (uuids w)) (uuid_of E (Suc (uuids w))) v i a st (clean d))\<lparr>edr_createdAt := clock w\<rparr>]\<rparr>)
     else (Inl (Error (fault E)), w\<lparr>uuids := Suc (Suc (uuids w))\<rparr>))"
  by (simp add: logEdr_fresh_def logEdr_def)

lemma run_command_after_token:
  "run (command_after_token E v p t payload) w =
    (case safeParse E CommandPayloadSchema payload of
       None \<Rightarrow> (Inl (BadRequestException ''SCHEMA_INVALID''), w)
     | Some cmd \<Rightarrow>
         (let a = str_field cmd ''action''; m = inferMode a in
          if gate_allows w v cmd then run (dispatch E v p t m cmd False) w
          else if \<not> isModeAllowedInZone (getZone w v) m then
            (case run (logEdr_fresh E v p a ''REJECTED'' (JObj [(''reason'', JStr ''MODE_MISMATCH''),
               (''zone'', JStr (getZone w v)), (''mode'', JStr m)])) w of
               (Inl e, w') \<Rightarrow> (Inl e, w') | (Inr _, w') \<Rightarrow> (Inl (ForbiddenException ''MODE_MISMATCH''), w'))
          else
            (case run (logEdr_fresh E v p a ''REJECTED'' (JObj [(''reason'', JStr ''DIAG_DEFERRED''),
               (''zone'', JStr (getZone w v))])) w of
               (Inl e, w') \<Rightarrow> (Inl e, w') | (Inr _, w') \<Rightarrow> (Inl (ForbiddenException ''DIAG_DEFERRED''), w'))))"
  unfolding command_after_token_def
  by (auto simp: gate_allows_def isModeAllowed_def Let_def run_logEdr_fresh split: option.splits)

lemma run_sendCommand:
  "run (sendCommand E v p t payload r) w =
    (case requireOperatorIdentity E r p of Some e \<Rightarrow> (Inl e, w) | None \<Rightarrow>
      if \<not> store_up w then (Inl (Error (fault E)), w)
      else if \<not> controls E w v p t then (Inl bad_token, w)
      else run (command_after_token E v p t payload) w)"
  by (simp add: sendCommand_def controls_validate split: option.splits)

section \<open>The envelope and the contract\<close>

definition positive_int :: "dec \<Rightarrow> bool" where
  "positive_int d = (dec_is_int d \<and> dec_less (dec_of_int 0) d)"

text \<open>When the envelope of a dispatch satisfies the contract schema.\<close>

lemma gate_envelope_valid:
  assumes z: "zod (safeParse E)" and u: "uuid_supply E" and s: "\<And>x. sign_b64 E x \<noteq> []"
  shows "safeParse E CommandEnvelopeSchema (gate_envelope E w v p t m payload) = None \<longleftrightarrow>
    \<not> (v \<noteq> [] \<and> p \<noteq> [] \<and> uuid_format t \<and> t \<noteq> [] \<and> positive_int (current_issue E w v) \<and>
       positive_int (dec_of_int (clock w)) \<and> m \<in> {''MODE1'', ''MODE2'', ''DIAG''} \<and>
       safeParse E CommandPayloadSchema payload \<noteq> None)"
proof -
  note zod_laws = zod.parse_string [OF z] zod.parse_number [OF z] zod.parse_object [OF z]
    zod.parse_enum [OF z]
  have ttl: "positive_int (dec_of_int (ttl_of a))" for a
    by (simp add: positive_int_def ttl_of_def)
  have f: "uuid_format (uuid_of E n)" for n using u by (simp add: uuid_supply_def)
  have ne: "Suc 0 \<le> length x \<longleftrightarrow> x \<noteq> []" for x :: string by (cases x) auto
  show ?thesis
    using ttl [of "str_field payload ''action''"]
    by (auto simp: gate_envelope_def envelope_doc_def signDocument_def set_field_def CommandEnvelopeSchema_def
        FencingTokenSchema_def OperationModeSchema_def Let_def zod_laws f s ne positive_int_def
        split: option.splits if_splits)
qed

section \<open>Commands\<close>

text \<open>A request that succeeded: what it passed, and what its dispatch did.\<close>

definition passes_filter :: "'kv world \<Rightarrow> vehicle_id \<Rightarrow> json \<Rightarrow> bool" where
  "passes_filter w v cmd = (let a = str_field cmd ''action'' in
     a \<in> {''E_STOP'', ''SAFE_STOP'', ''CLEAR_SAFE_STOP''} \<or>
     isModeAllowedInZone (getZone w v) (inferMode a) \<and> isDiagDisruptiveAllowed a (getZone w v) True)"

lemma sent_command:
  assumes "run (sendCommand E v p t payload r) w = (Inr res, w')"
  shows "\<exists>cmd. requireOperatorIdentity E r p = None \<and> controls E w v p t \<and>
    safeParse E CommandPayloadSchema payload = Some cmd \<and> passes_filter w v cmd \<and>
    run (dispatch E v p t (inferMode (str_field cmd ''action'')) cmd False) w = (Inr res, w')"
  using assms
  by (auto simp: run_sendCommand run_command_after_token Let_def run_logEdr_fresh gate_allows_def passes_filter_def
      alwaysAllowed_def split: option.splits if_splits)

lemma dispatched_command:
  assumes "run (dispatch E v p t m cmd False) w = (Inr res, w')"
  shows "safeParse E CommandEnvelopeSchema (gate_envelope E w v p t m cmd) \<noteq> None \<and>
    outbox w' = outbox w @ [gate_message v ''command'' (gate_envelope E w v p t m cmd)] \<and>
    edr w' = edr w @ [gate_row E w v p (str_field cmd ''action'') ''PENDING'' (gate_envelope E w v p t m cmd)]"
  using assms by (auto simp: run_dispatch_command Let_def split: if_splits)

text \<open>C1: A command leaves the cloud only through the whole gate. If a command request succeeds, the
  caller passed the identity binding, held the vehicle with exactly this operator and token, and
  sent a payload the contract accepts, whose action is allowed in the vehicle's effective zone
  (stop and latch-release actions in any zone); then exactly one message was published, the
  signed and contract-valid envelope of the parsed payload with the mode derived from its
  action, and exactly one recorder row was written, with the envelope as its details.\<close>

theorem command_passes_whole_gate:
  assumes "run (sendCommand E v p t payload r) w = (Inr res, w')"
  shows "\<exists>cmd. let a = str_field cmd ''action''; env = gate_envelope E w v p t (inferMode a) cmd in
    requireOperatorIdentity E r p = None \<and> controls E w v p t \<and>
    safeParse E CommandPayloadSchema payload = Some cmd \<and>
    (a \<in> {''E_STOP'', ''SAFE_STOP'', ''CLEAR_SAFE_STOP''} \<or>
     isModeAllowedInZone (getZone w v) (inferMode a) \<and> isDiagDisruptiveAllowed a (getZone w v) True) \<and>
    safeParse E CommandEnvelopeSchema env \<noteq> None \<and>
    outbox w' = outbox w @ [gate_message v ''command'' env] \<and>
    edr w' = edr w @ [gate_row E w v p a ''PENDING'' env]"
proof -
  from sent_command [OF assms] obtain cmd where c: "requireOperatorIdentity E r p = None" "controls E w v p t"
      "safeParse E CommandPayloadSchema payload = Some cmd" "passes_filter w v cmd"
      "run (dispatch E v p t (inferMode (str_field cmd ''action'')) cmd False) w = (Inr res, w')"
    by blast
  from dispatched_command [OF c(5)] c(1-4) show ?thesis
    by (intro exI [of _ cmd]) (simp add: passes_filter_def Let_def)
qed

definition pause_cmd :: json where
  "pause_cmd = JObj [(''action'', JStr ''PAUSE_MISSION'')]"

lemma local_identity [simp]: "requireOperatorIdentity (demo_env False) r p = None"
  by (simp add: requireOperatorIdentity_local)

text \<open>\<open>alice\<close> holds \<open>v1\<close>; the identifier supply has reached the numeral one.\<close>

definition drive_world :: "ttl_store world" where
  "drive_world = grant (demo_env False) ''v1'' ''alice'' demo_world"

lemma drive_world_simps [simp]:
  "clock drive_world = 1000000" "uuids drive_world = 1" "store_up drive_world" "db_up drive_world"
  "broker_up drive_world" "outbox drive_world = []" "edr drive_world = []" "vehicleZones drive_world v = None"
  by (simp_all add: drive_world_def) (simp add: grant_def)

lemma drive_world_holder:
  "holder (demo_env False) (store drive_world) 1000000 ''v1''
    = Some \<lparr>op = ''alice'', token = demo_uuid 0, issuedAt = dec_of_int 1000000\<rparr>"
  using holder_grant [of "demo_env False" demo_world 1000000 "''v1''" "''alice''" "''v1''"]
  by (simp add: drive_world_def)

lemma drive_world_controls: "controls (demo_env False) drive_world ''v1'' ''alice'' (demo_uuid 0)"
  by (simp add: controls_def drive_world_holder)

lemma is_hex_digit_char: "d < 10 \<Longrightarrow> is_hex (digit_char d)"
  by (simp add: is_hex_def hex_val_def of_char_digit_char Let_def)

lemma demo_supply: "uuid_supply (demo_env c)"
proof -
  have "uuid_format (demo_uuid n)" for n
  proof -
    have "split_on CHR ''-'' (demo_uuid n) =
      [map (\<lambda>d. digit_char (n div d mod 10)) [10000000, 1000000, 100000, 10000, 1000, 100, 10, 1],
       ''0000'', ''4000'', ''8000'', ''000000000000'']"
      by (simp add: demo_uuid_def digit_char_neq)
    moreover have "list_all is_hex ''000000000000''" "list_all is_hex ''0000''" "list_all is_hex ''4000''"
      "list_all is_hex ''8000''" by code_simp+
    ultimately show ?thesis by (simp add: uuid_format_def is_hex_digit_char)
  qed
  then show ?thesis by (simp add: uuid_supply_def demo_env_def)
qed

lemma demo_uuid_format: "uuid_format (demo_uuid n)" "demo_uuid n \<noteq> []"
  using demo_supply [of True] by (simp_all add: uuid_supply_def) (simp add: demo_uuid_def)

lemma pause_parses: "zod_eval CommandPayloadSchema pause_cmd = Some pause_cmd"
  by (simp add: pause_cmd_def schema_defs literal_of_def)

text \<open>The parameters of the examples satisfy the laws.\<close>

lemma demo_laws: "zod (safeParse (demo_env c))" "valkey (vk (demo_env c))" "sign_b64 (demo_env c) x \<noteq> []"
  using zod_eval.zod_axioms ttl.valkey_axioms by (simp_all add: demo_env_def)

lemma envelope_frame [simp]:
  "gate_envelope E (w\<lparr>vehicleZones := z\<rparr>) = gate_envelope E w" "controls E (w\<lparr>vehicleZones := z\<rparr>) = controls E w"
  by (simp_all add: gate_envelope_def current_issue_def controls_def fun_eq_iff cong: option.case_cong)

lemma drive_envelope_parses:
  assumes "zod_eval CommandPayloadSchema c \<noteq> None" "m \<in> {''MODE1'', ''MODE2'', ''DIAG''}"
  shows "zod_eval CommandEnvelopeSchema
    (gate_envelope (demo_env False) drive_world ''v1'' ''alice'' (demo_uuid 0) m c) \<noteq> None"
  using gate_envelope_valid [OF demo_laws(1) demo_supply demo_laws(3), of False drive_world "''v1''" "''alice''"
      "demo_uuid 0" m c] assms
  by (simp add: current_issue_def drive_world_holder demo_uuid_format positive_int_def)

lemma pause_mode [simp]: "inferMode ''PAUSE_MISSION'' = ''MODE1''"
  by (simp add: inferMode_def enum_defs)

lemma pause_allowed: "gate_allows drive_world ''v1'' pause_cmd"
  by (simp add: gate_allows_def pause_cmd_def getZone_eq mode1_allowed_iff isDiagDisruptiveAllowed_def
      isDiagDisruptive_def DIAG_DISRUPTIVE_ACTIONS_def)

lemma pause_runs:
  "\<exists>res w'. run (sendCommand (demo_env False) ''v1'' ''alice'' (demo_uuid 0) pause_cmd no_req) drive_world = (Inr res, w')"
proof -
  have "str_field pause_cmd ''action'' = ''PAUSE_MISSION''" by (simp add: pause_cmd_def)
  then show ?thesis
    using drive_world_controls drive_envelope_parses [of pause_cmd "''MODE1''"]
    by (simp add: run_sendCommand run_command_after_token pause_parses pause_allowed run_dispatch_command Let_def)
qed

theorem command_passes_whole_gate_witness:
  "\<exists>res w'. run (sendCommand (demo_env False) ''v1'' ''alice'' (demo_uuid 0) pause_cmd no_req) drive_world = (Inr res, w') \<and>
     length (outbox w') = 1 \<and> length (edr w') = 1"
proof -
  obtain res w' where r: "run (sendCommand (demo_env False) ''v1'' ''alice'' (demo_uuid 0) pause_cmd no_req) drive_world
      = (Inr res, w')"
    using pause_runs by blast
  from command_passes_whole_gate [OF r] r show ?thesis by (auto simp: Let_def)
qed

text \<open>A command request that fails sends nothing: whatever the reason (identity, token, schema,
  zone, an envelope that breaks the contract, a store, database or broker that is down),
  the outbox and the acknowledgement timers are unchanged.\<close>

theorem failed_command_sends_nothing:
  assumes "run (sendCommand E v p t payload r) w = (Inl e, w')"
  shows "outbox w' = outbox w \<and> ackTimers w' = ackTimers w"
  using assms
  by (auto simp: run_sendCommand run_command_after_token Let_def run_logEdr_fresh run_dispatch_command split: option.splits if_splits)

theorem failed_command_sends_nothing_witness:
  "\<exists>w'. run (sendCommand (demo_env False) ''v1'' ''bob'' (demo_uuid 0) pause_cmd no_req) drive_world = (Inl bad_token, w') \<and>
     outbox w' = []"
proof -
  have "\<not> controls (demo_env False) drive_world ''v1'' ''bob'' (demo_uuid 0)"
    by (simp add: controls_def drive_world_holder)
  then have r: "run (sendCommand (demo_env False) ''v1'' ''bob'' (demo_uuid 0) pause_cmd no_req) drive_world
      = (Inl bad_token, drive_world)"
    by (simp add: run_sendCommand)
  from failed_command_sends_nothing [OF r] r show ?thesis by simp
qed

text \<open>C7: Remote driving needs a zone that was opened for it and is open now: a Mode 2 command that
  passes the gate finds a zone record of its vehicle, of one of the four Mode 2 zone types,
  whose permit window contains the present moment.\<close>

theorem remote_driving_needs_open_zone:
  assumes "run (sendCommand E v p t payload r) w = (Inr res, w')"
    and "safeParse E CommandPayloadSchema payload = Some cmd" "str_field cmd ''action'' \<in> set MODE2_ACTIONS"
  shows "\<exists>rec. vehicleZones w v = Some rec \<and> zone rec \<in> set mode2_zones \<and> permit_current rec (clock w)"
proof -
  from sent_command [OF assms(1)] assms(2)
  have "str_field cmd ''action'' \<in> {''E_STOP'', ''SAFE_STOP'', ''CLEAR_SAFE_STOP''} \<or>
      isModeAllowedInZone (getZone w v) (inferMode (str_field cmd ''action''))"
    by (auto simp: passes_filter_def Let_def)
  moreover have "str_field cmd ''action'' \<notin> {''E_STOP'', ''SAFE_STOP'', ''CLEAR_SAFE_STOP''}"
    using assms(3) by (auto simp: MODE2_ACTIONS_def)
  moreover have "inferMode (str_field cmd ''action'') = ''MODE2''"
    using assms(3) by (simp add: inferMode_def)
  ultimately have "getZone w v \<in> set mode2_zones" by (simp add: mode2_allowed_iff)
  moreover have "''public_approved_route'' \<notin> set mode2_zones" by (simp add: mode2_zones_def)
  ultimately show ?thesis
    by (cases "vehicleZones w v") (auto simp: getZone_eq split: if_splits)
qed

text \<open>The depot of the vehicle was opened for remote driving until the time 2000000.\<close>

definition depot_permit :: ZonePermit where
  "depot_permit = \<lparr>permitId = ''site-1'', changedBy = ''ADMIN'', permit_reason = None,
     validUntil = Some 2000000, validFrom = None, speedLimitKmh = None\<rparr>"

definition depot_world :: "ttl_store world" where
  "depot_world = drive_world\<lparr>vehicleZones := [''v1'' \<mapsto> \<lparr>zone = ''depot'', permit = Some depot_permit\<rparr>]\<rparr>"

definition park_cmd :: json where
  "park_cmd = JObj [(''action'', JStr ''PARK''), (''engage'', JBool True)]"

lemma park_parses: "zod_eval CommandPayloadSchema park_cmd = Some park_cmd"
  by (simp add: park_cmd_def schema_defs literal_of_def)

lemma depot_zone: "getZone depot_world ''v1'' = ''depot''"
  by (simp add: getZone_eq depot_world_def permit_current_def depot_permit_def)

lemma park_runs:
  "\<exists>res w'. run (sendCommand (demo_env False) ''v1'' ''alice'' (demo_uuid 0) park_cmd no_req) depot_world = (Inr res, w')"
proof -
  have a: "str_field park_cmd ''action'' = ''PARK''" by (simp add: park_cmd_def)
  have m: "inferMode ''PARK'' = ''MODE2''" by (simp add: inferMode_def enum_defs)
  have "gate_allows depot_world ''v1'' park_cmd"
    by (simp add: gate_allows_def a m depot_zone mode2_allowed_iff mode2_zones_def isDiagDisruptiveAllowed_def
        isDiagDisruptive_def DIAG_DISRUPTIVE_ACTIONS_def)
  moreover have "zod_eval CommandEnvelopeSchema
      (gate_envelope (demo_env False) depot_world ''v1'' ''alice'' (demo_uuid 0) ''MODE2'' park_cmd) \<noteq> None"
    using drive_envelope_parses [of park_cmd "''MODE2''"] by (simp add: depot_world_def park_parses)
  ultimately show ?thesis
    using drive_world_controls
    by (simp add: run_sendCommand run_command_after_token park_parses a m run_dispatch_command Let_def) (simp add: depot_world_def)
qed

theorem remote_driving_needs_open_zone_witness:
  "\<exists>res w'. run (sendCommand (demo_env False) ''v1'' ''alice'' (demo_uuid 0) park_cmd no_req) depot_world = (Inr res, w') \<and>
     (\<exists>rec. vehicleZones depot_world ''v1'' = Some rec \<and> permit_current rec 1000000)"
proof -
  obtain res w' where r: "run (sendCommand (demo_env False) ''v1'' ''alice'' (demo_uuid 0) park_cmd no_req) depot_world
      = (Inr res, w')"
    using park_runs by blast
  have "safeParse (demo_env False) CommandPayloadSchema park_cmd = Some park_cmd" by (simp add: park_parses)
  from remote_driving_needs_open_zone [OF r this] r show ?thesis
    by (auto simp: park_cmd_def MODE2_ACTIONS_def depot_world_def)
qed

section \<open>Emergency stops\<close>

lemma run_triggerEStop:
  "run (triggerEStop E v p t r) w =
    (case requireOperatorIdentity E r p of Some e \<Rightarrow> (Inl e, w) | None \<Rightarrow>
      if \<not> store_up w then (Inl (Error (fault E)), w)
      else if \<not> controls E w v p t then (Inl bad_token, w)
      else run (dispatch E v p t ''MODE1'' (JObj [(''action'', JStr ''E_STOP'')]) True) w)"
  by (simp add: triggerEStop_def controls_validate split: option.splits)

abbreviation estop_cmd :: json where
  "estop_cmd \<equiv> JObj [(''action'', JStr ''E_STOP'')]"

text \<open>A readable lock carries a positive time of issue and a well-formed token.\<close>

definition lock_ok :: "VehicleLock \<Rightarrow> bool" where
  "lock_ok l = (op l \<noteq> [] \<and> uuid_format (token l) \<and> positive_int (issuedAt l))"

lemma estop_parses:
  assumes "zod (safeParse E)"
  shows "safeParse E CommandPayloadSchema estop_cmd = Some estop_cmd"
  by (simp add: schema_defs literal_of_def zod.parse_union [OF assms] zod.parse_object [OF assms]
      zod.parse_literal [OF assms] zod.parse_optional [OF assms] zod.parse_string [OF assms])

text \<open>C6: An E-STOP of the operator in control is never refused: in every zone and whatever the permit
  says, if the lock is well formed and store, database and broker work, the same signed document goes
  out on the estop topic and, right after it, on the command topic, one recorder row precedes
  both, and a timer waits for the vehicle's answer. With the broker down the caller is told
  so, and the recorder holds the attempt and its failure.\<close>

theorem estop_goes_out_twice:
  assumes "zod (safeParse E)" "uuid_supply E" "\<And>x. sign_b64 E x \<noteq> []"
    and "requireOperatorIdentity E r p = None" "store_up w" "db_up w" "v \<noteq> []" "t \<noteq> []" "0 < clock w"
    and "holder E (store w) (clock w) v = Some l" "op l = p" "token l = t" "lock_ok l"
  shows "let env = gate_envelope E w v p t ''MODE1'' estop_cmd;
             pending = gate_row E w v p ''E_STOP'' ''PENDING'' env
    in \<exists>res w'. run (triggerEStop E v p t r) w = (res, w') \<and>
      (if broker_up w
       then (\<exists>doc. res = Inr doc) \<and>
            outbox w' = outbox w @ [gate_message v ''estop'' env, gate_message v ''command'' env] \<and>
            edr w' = edr w @ [pending] \<and> ackTimers w' = ackTimers w @ [gate_watch E w v p ''E_STOP'']
       else res = Inl (ServiceUnavailableException ''PUBLISH_FAILED'') \<and> outbox w' = outbox w \<and>
            (\<exists>failed. edr w' = edr w @ [pending, failed] \<and> edr_status failed = ''PUBLISH_FAILED'' \<and>
              edr_commandId failed = edr_commandId pending))"
proof -
  have c: "controls E w v p t" using assms(10-12) by (cases l) (auto simp: controls_def)
  have pos: "positive_int (dec_of_int (clock w))" using assms(9) by (simp add: positive_int_def)
  have "safeParse E CommandEnvelopeSchema (gate_envelope E w v p t ''MODE1'' estop_cmd) \<noteq> None"
    using gate_envelope_valid [OF assms(1-3), of w v p t "''MODE1''" estop_cmd] assms(7-13) pos
    by (simp add: estop_parses [OF assms(1)] current_issue_def lock_ok_def)
  with c assms(4-6) show ?thesis
    by (simp add: run_triggerEStop run_dispatch_estop Let_def) (simp add: gate_row_def edr_data_def)
qed

text \<open>Mode 2 is out of the question here: the vehicle is on a public road.\<close>

theorem estop_goes_out_twice_witness:
  "\<exists>doc w'. run (triggerEStop (demo_env False) ''v1'' ''alice'' (demo_uuid 0) no_req) drive_world = (Inr doc, w') \<and>
     map msg_topic (outbox w') = [vehicle_topic ''v1'' ''estop'', vehicle_topic ''v1'' ''command''] \<and> length (edr w') = 1"
proof -
  let ?l = "\<lparr>op = ''alice'', token = demo_uuid 0, issuedAt = dec_of_int 1000000\<rparr>"
  have "lock_ok ?l" by (simp add: lock_ok_def demo_uuid_format positive_int_def)
  then show ?thesis
    using estop_goes_out_twice [OF demo_laws(1) demo_supply demo_laws(3), of False no_req "''alice''" drive_world "''v1''"
        "demo_uuid 0" ?l]
    by (auto simp: Let_def drive_world_holder demo_uuid_format gate_message_def)
qed

end
