(* ===== verification/Access.thy ===== *)
theory Access
  imports Gate
begin

text \<open>
  Who may do what: the identity binding of the operator requests, the admin role of the
  administrative ones, the assignment that taking control needs, and the revocation that takes
  it away together with the session.
\<close>

section \<open>Identity and role\<close>

text \<open>The operator a request claims to act for, and the role a request needs.\<close>

fun claimed :: "service_op \<Rightarrow> (operator_id \<times> req) option" where
  "claimed (TakeControlOp v p r) = Some (p, r)"
| "claimed (HeartbeatOp v p t r) = Some (p, r)"
| "claimed (CommandOp v p t c r) = Some (p, r)"
| "claimed (EStopOp v p t r) = Some (p, r)"
| "claimed (ClearOp v p t r) = Some (p, r)"
| "claimed (DecideOp i p t d r x) = Some (p, r)"
| "claimed _ = None"

fun administrative :: "service_op \<Rightarrow> req option" where
  "administrative (AssignOp v p b r) = Some r"
| "administrative (UnassignOp v p b r) = Some r"
| "administrative (ListOp v r) = Some r"
| "administrative (HandoverOp v p r) = Some r"
| "administrative (ZoneOp v z r b i y u f l) = Some r"
| "administrative _ = None"

lemma finish_guarded_throw: "g = Some e \<Longrightarrow> finish (guarded g p) = Ret (Inl e)"
  by (simp add: finish_def guarded_def throw_def await_def)

text \<open>C13: Nobody acts in another operator's name: in the cloud configuration an operator request
  (taking control, heartbeat, command, E-STOP, latch release, maneuver decision) whose token
  does not name exactly the operator it claims is answered with IDENTITY_MISMATCH before
  anything else happens, whatever the state and whatever runs beside it.\<close>

theorem impersonation_is_refused:
  assumes "AUTH_TRUST_APIGW_JWT E" "claimed x = Some (p, r)"
    and "\<not> (identityFrom E r = Some p \<and> p \<noteq> [])"
  shows "service E x = Ret (Inl (ForbiddenException ''IDENTITY_MISMATCH''))"
proof -
  have "requireOperatorIdentity E r p \<noteq> None"
    using requireOperatorIdentity_cloud [OF assms(1)] assms(3) by (simp add: caller_def)
  then have "requireOperatorIdentity E r p = Some (ForbiddenException ''IDENTITY_MISMATCH'')"
    using requireOperatorIdentity_error by blast
  then show ?thesis
    using assms(2)
    by (cases x) (auto simp: take_control_def operator_heartbeat_def sendCommand_def triggerEStop_def
        clearSafeStop_def decide_def finish_guarded_throw)
qed

text \<open>A token of \<open>alice\<close>, and \<open>bob\<close>'s request made with it.\<close>

definition alice_req :: req where
  "alice_req = \<lparr>authorization = Some (One ''Bearer h.{\"username\":\"alice\"}.s''), x_operator_role = Some (One ''admin'')\<rparr>"

lemma alice_payload: "json_parse ''{\"username\":\"alice\"}'' = Some (JObj [(''username'', JStr ''alice'')])"
proof -
  have "stringify (JObj [(''username'', JStr ''alice'')]) = ''{\"username\":\"alice\"}''" by code_simp
  then show ?thesis using json_parse_stringify [of "JObj [(''username'', JStr ''alice'')]"] by simp
qed

lemma alice_jwt: "jwtPayload (demo_env True) alice_req = Some (JObj [(''username'', JStr ''alice'')])"
proof -
  have "strip_bearer ''Bearer h.{\"username\":\"alice\"}.s'' = ''h.{\"username\":\"alice\"}.s''" by code_simp
  moreover have "split_on CHR ''.'' ''h.{\"username\":\"alice\"}.s'' = [''h'', ''{\"username\":\"alice\"}'', ''s'']"
    by code_simp
  ultimately show ?thesis by (simp add: jwtPayload_def alice_req_def Let_def alice_payload)
qed

lemma alice_identity: "identityFrom (demo_env True) alice_req = Some ''alice''"
  by (simp add: identityFrom_def alice_jwt or_null_def get_field_def)

theorem impersonation_is_refused_witness:
  "service (demo_env True) (EStopOp ''v1'' ''bob'' (demo_uuid 0) alice_req)
     = Ret (Inl (ForbiddenException ''IDENTITY_MISMATCH''))"
  by (rule impersonation_is_refused [of _ _ "''bob''" alice_req]) (simp_all add: alice_identity)

text \<open>Administration needs the admin group: in the cloud configuration a request to assign, revoke
  or list operators, to hand over a vehicle or to set a zone, whose token does not carry the
  group, is answered with UNAUTHORIZED and does nothing; the role header counts for nothing.\<close>

theorem administration_needs_admin_group:
  assumes "AUTH_TRUST_APIGW_JWT E" "administrative x = Some r"
    and "''admin'' \<notin> set (groupsFromBearerJwt E (first_header (authorization r)))"
  shows "service E x = Ret (Inl (ForbiddenException ''UNAUTHORIZED''))"
proof -
  have "canActivate E [''admin''] r = Some (ForbiddenException ''UNAUTHORIZED'')"
    using canActivate_admin_cloud [OF assms(1), of r] assms(3)
    by (auto simp: canActivate_def split: option.splits if_splits)
  then show ?thesis
    using assms(2)
    by (cases x) (auto simp: assign_operator_def unassign_operator_def list_assignments_def handover_def
        setZone_def finish_guarded_throw)
qed

text \<open>\<open>alice\<close> has no group; that she sends the admin header of the local set-up does not help.\<close>

theorem administration_needs_admin_group_witness:
  "service (demo_env True) (HandoverOp ''v1'' ''alice'' alice_req)
     = Ret (Inl (ForbiddenException ''UNAUTHORIZED''))"
proof (rule administration_needs_admin_group [of _ _ alice_req])
  have "strip_bearer ''Bearer h.{\"username\":\"alice\"}.s'' = ''h.{\"username\":\"alice\"}.s''" by code_simp
  moreover have "split_on CHR ''.'' ''h.{\"username\":\"alice\"}.s'' = [''h'', ''{\"username\":\"alice\"}'', ''s'']"
    by code_simp
  ultimately have "groupsFromBearerJwt (demo_env True) (first_header (authorization alice_req)) = []"
    by (simp add: groupsFromBearerJwt_def alice_req_def Let_def alice_payload get_field_def)
  then show "''admin'' \<notin> set (groupsFromBearerJwt (demo_env True) (first_header (authorization alice_req)))"
    by simp
qed simp_all

section \<open>Assignments and control\<close>

lemma run_take_control:
  assumes "valkey (vk E)"
  shows "run (take_control E v p r) w =
    (case requireOperatorIdentity E r p of Some e \<Rightarrow> (Inl e, w) | None \<Rightarrow>
      if ASSIGNMENT_ENFORCEMENT E \<and> \<not> db_up w then (Inl (Error (fault E)), w)
      else if ASSIGNMENT_ENFORCEMENT E \<and> \<not> assigned (assignments w) v p then
        (case run (logEdr_fresh E v p ''TAKE_CONTROL'' ''REJECTED'' (JObj [(''reason'', JStr ''NO_ASSIGNMENT'')])) w of
           (Inl e, w') \<Rightarrow> (Inl e, w') | (Inr _, w') \<Rightarrow> (Inl (ForbiddenException ''NO_ASSIGNMENT''), w'))
      else if \<not> store_up w then (Inl (Error (fault E)), w\<lparr>uuids := Suc (uuids w)\<rparr>)
      else if vk_get (vk E) (store w) (clock w) (lock_key v) \<noteq> None
      then (Inl (UnauthorizedException ''Vehicle is currently locked by another operator.''), w\<lparr>uuids := Suc (uuids w)\<rparr>)
      else
        (case run (logEdr_fresh E v p ''TAKE_CONTROL'' ''ACK'' (JObj [(''tokenId'', JStr (uuid_of E (uuids w))),
             (''issuedAt'', JInt (clock w))])) (grant E v p w) of
           (Inl e, w') \<Rightarrow> (Inl e, w')
         | (Inr _, w') \<Rightarrow> (Inr (JObj [(''status'', JStr ''success''), (''token'', JStr (uuid_of E (uuids w))),
             (''issuedAt'', JInt (clock w))]), w')))"
  by (simp add: take_control_def run_canControl run_takeControl [OF assms] run_logEdr_fresh split: option.splits)

text \<open>C9: Whom an undisturbed request gives control to. In the cloud configuration a request to take control that no
  other operation interleaves with succeeds exactly when database and store answer, the caller's
  token names the operator, the operator has an active assignment for this vehicle and no lock is
  stored for it. If it succeeds, the caller holds the vehicle with the token of the answer, every
  other vehicle is held as before, and the recorder has the grant; if it is refused, the store and
  the dead-man timers are untouched, and it is refused for the reason the order of the checks
  names. (A revocation that falls between the check and the lock is another matter, and is the
  subject of \<open>revoked_operator_takes_control\<close>.)\<close>

theorem control_needs_assignment:
  assumes "valkey (vk E)" "AUTH_TRUST_APIGW_JWT E" "ASSIGNMENT_ENFORCEMENT E"
    and "run (take_control E v p r) w = (answer, w')"
    and "lawful = (db_up w \<and> store_up w \<and> caller E r p \<and> assigned (assignments w) v p \<and>
      vk_get (vk E) (store w) (clock w) (lock_key v) = None)"
  shows "case answer of
      Inr doc \<Rightarrow> lawful \<and> holder E (store w) (clock w) v = None \<and>
        holder E (store w') (clock w') v
          = Some \<lparr>op = p, token = str_field doc ''token'', issuedAt = dec_of_int (clock w)\<rparr> \<and>
        (\<forall>u. u \<noteq> v \<longrightarrow> holder E (store w') (clock w') u = holder E (store w) (clock w) u) \<and>
        (\<exists>row. edr w' = edr w @ [row] \<and> edr_vehicleId row = v \<and> edr_issuer row = p \<and>
           edr_action row = ''TAKE_CONTROL'' \<and> edr_status row = ''ACK'')
    | Inl e \<Rightarrow> \<not> lawful \<and> store w' = store w \<and> deadmanTimers w' = deadmanTimers w \<and> outbox w' = outbox w \<and>
        e = (if \<not> caller E r p then ForbiddenException ''IDENTITY_MISMATCH''
             else if \<not> db_up w then Error (fault E)
             else if \<not> assigned (assignments w) v p then ForbiddenException ''NO_ASSIGNMENT''
             else if \<not> store_up w then Error (fault E)
             else UnauthorizedException ''Vehicle is currently locked by another operator.'')"
proof -
  have id: "requireOperatorIdentity E r p = (if caller E r p then None else Some (ForbiddenException ''IDENTITY_MISMATCH''))"
    using requireOperatorIdentity_cloud [OF assms(2), of r p] requireOperatorIdentity_error [of E r p]
    by (cases "requireOperatorIdentity E r p") auto
  show ?thesis
  proof (cases answer)
    case (Inr doc)
    with assms(3,4) have r: "lawful"
        "doc = JObj [(''status'', JStr ''success''), (''token'', JStr (uuid_of E (uuids w))), (''issuedAt'', JInt (clock w))]"
        "store w' = store (grant E v p w)" "clock w' = clock w"
        "\<exists>row. edr w' = edr w @ [row] \<and> edr_vehicleId row = v \<and> edr_issuer row = p \<and>
          edr_action row = ''TAKE_CONTROL'' \<and> edr_status row = ''ACK''"
      by (auto simp: assms(5) run_take_control [OF assms(1)] run_logEdr_fresh edr_data_def id split: if_splits)
    moreover have "holder E (store w) (clock w) v = None" using r(1) by (simp add: assms(5) holder_def)
    ultimately show ?thesis by (simp add: Inr holder_grant [OF assms(1)] get_field_def)
  next
    case (Inl e)
    with assms(3,4) show ?thesis
      by (auto simp: assms(5) run_take_control [OF assms(1)] run_logEdr_fresh id split: if_splits)
  qed
qed

definition assigned_world :: "ttl_store world" where
  "assigned_world = snd (assign_tx (demo_env True) ''v1'' ''alice'' ''root'' demo_world)"

lemma assigned_world_simps [simp]:
  "clock assigned_world = 1000000" "store assigned_world = []" "store_up assigned_world" "db_up assigned_world"
  "assigned (assignments assigned_world) ''v1'' ''alice''"
  unfolding assigned_world_def by (rule assign_tx_assigned | simp add: assign_tx_def Let_def)+

theorem control_needs_assignment_witness:
  "\<exists>doc w'. run (take_control (demo_env True) ''v1'' ''alice'' alice_req) assigned_world = (Inr doc, w') \<and>
     holder (demo_env True) (store w') (clock w') ''v1''
       = Some \<lparr>op = ''alice'', token = str_field doc ''token'', issuedAt = dec_of_int 1000000\<rparr>"
proof -
  have "requireOperatorIdentity (demo_env True) alice_req ''alice'' = None"
    by (simp add: requireOperatorIdentity_cloud caller_def alice_identity)
  moreover have "vk_get (vk (demo_env True)) (store assigned_world) (clock assigned_world) (lock_key ''v1'') = None"
    by (simp add: ttl_get_def)
  ultimately obtain doc w' where
      r: "run (take_control (demo_env True) ''v1'' ''alice'' alice_req) assigned_world = (Inr doc, w')"
    by (simp add: run_take_control [OF demo_laws(2)] run_logEdr_fresh)
  from control_needs_assignment [OF demo_laws(2) _ _ r refl] r show ?thesis by auto
qed

text \<open>A revocation that succeeds severs: afterwards the operator has no active assignment for the
  vehicle and does not hold it, and if it did hold it nobody does; a session of another operator,
  the other vehicles and the other assignments are as before.\<close>

theorem revocation_severs_control:
  assumes "valkey (vk E)" "run (unassign_operator E v p b r) w = (Inr doc, w')"
  shows "\<not> assigned (assignments w') v p \<and>
    (\<forall>u q. u \<noteq> v \<or> q \<noteq> p \<longrightarrow> assigned (assignments w') u q = assigned (assignments w) u q) \<and>
    (\<forall>u. holder E (store w') (clock w') u =
      (if u = v \<and> (\<exists>l. holder E (store w) (clock w) v = Some l \<and> op l = p) then None
       else holder E (store w) (clock w) u))"
proof -
  let ?raw = "vk_get (vk E) (store w) (clock w) (lock_key v)"
  from assms(2) have a: "assignments w' = revoke_rows v p (actorFrom E r b) (clock w) (assignments w)" "clock w' = clock w"
      "store w' = (if truthy_str ?raw \<and> lock_is_of (the ?raw) p then vk_del (vk E) (store w) (clock w) (lock_key v)
        else store w)"
    by (auto simp: unassign_operator_def run_revoke run_logEdr_fresh Let_def split: option.splits if_splits)
  have k: "holder E (store w) (clock w) v = Some l \<Longrightarrow> truthy_str ?raw \<and> (lock_is_of (the ?raw) p \<longleftrightarrow> op l = p)" for l
    using holder_lock_is_of [of E "store w" "clock w" v l p] by (auto simp: truthy_str_def)
  have del: "holder E (vk_del (vk E) (store w) (clock w) (lock_key v)) (clock w) u
      = (if u = v then None else holder E (store w) (clock w) u)" for u
    by (simp add: holder_def valkey.get_del [OF assms(1)])
  have "holder E (store w') (clock w) u =
      (if u = v \<and> (\<exists>l. holder E (store w) (clock w) v = Some l \<and> op l = p) then None
       else holder E (store w) (clock w) u)" for u
    using k by (cases "holder E (store w) (clock w) v") (auto simp: a(3) del)
  with a(1,2) show ?thesis by (simp add: assigned_revoke)
qed

definition sever_world :: "ttl_store world" where
  "sever_world = grant (demo_env False) ''v1'' ''alice'' assigned_world"

lemma sever_holder:
  "holder (demo_env False) (store sever_world) 1000000 ''v1''
    = Some \<lparr>op = ''alice'', token = demo_uuid (uuids assigned_world), issuedAt = dec_of_int 1000000\<rparr>"
  using holder_grant [of "demo_env False" assigned_world 1000000 "''v1''" "''alice''" "''v1''"]
  by (simp add: sever_world_def)

theorem revocation_severs_control_witness:
  "\<exists>doc w'. run (unassign_operator (demo_env False) ''v1'' ''alice'' None local_admin) sever_world = (Inr doc, w') \<and>
     holder (demo_env False) (store sever_world) (clock sever_world) ''v1'' \<noteq> None \<and>
     holder (demo_env False) (store w') (clock w') ''v1'' = None \<and> \<not> assigned (assignments w') ''v1'' ''alice''"
proof -
  have w: "store_up sever_world" "db_up sever_world" "clock sever_world = 1000000"
    by (simp_all add: sever_world_def)
  have "\<exists>doc w'. run (unassign_operator (demo_env False) ''v1'' ''alice'' None local_admin) sever_world = (Inr doc, w')"
    by (auto simp: unassign_operator_def run_revoke run_logEdr_fresh Let_def w)
  then obtain doc w' where r: "run (unassign_operator (demo_env False) ''v1'' ''alice'' None local_admin) sever_world
      = (Inr doc, w')" by blast
  from revocation_severs_control [OF demo_laws(2) r] r sever_holder w show ?thesis by auto
qed

end
