(* ===== verification/Races.thy ===== *)
theory Races
  imports Access
begin

text \<open>
  Interleavings the command service does not exclude. Each theorem names two requests and shows
  that some schedule of their steps ends in a state that no order of the two, one after the
  other, leads to: the check and the use of a lock, or of an assignment, are separate awaits.
\<close>

lemma after_overtake:
  assumes "service E x = await p k" "run p w = (Inr a, w1)" "snd (run (service E y) w1) = w2"
  shows "\<exists>ns. after E ns [x, y] w = snd (run (k a) w2)"
proof -
  obtain b c w3 where "run (service E y) w1 = (b, w2)" "run (k a) w2 = (c, w3)"
    using assms(3) by (metis prod.collapse)
  note r = this
  obtain ns where "sched ns [await p k, service E y] w = ([Ret c, Ret b], w3)"
    using sched_overtake [where k = k, OF assms(2) r] by (elim exE)
  then have "after E ns [x, y] w = snd (run (k a) w2)" by (simp add: after_def assms(1) r(2))
  then show ?thesis by (rule exI)
qed

lemma gate_envelope_fields:
  "get_field (gate_envelope E w v p t m c) ''issuer'' = JStr p"
  "get_field (gate_envelope E w v p t m c) ''token''
    = JObj [(''tokenId'', JStr t), (''issuedAt'', JNum (current_issue E w v))]"
  by (simp_all add: gate_envelope_def envelope_doc_def get_signDocument)

section \<open>A command and a handover\<close>

text \<open>Four seconds after \<open>alice\<close> took control of \<open>v1\<close>.\<close>

definition later_world :: "ttl_store world" where
  "later_world = drive_world\<lparr>clock := 1004000\<rparr>"

definition handed_world :: "ttl_store world" where
  "handed_world = snd (run (handover (demo_env False) ''v1'' ''bob'' local_admin) later_world)"

lemma later_world_simps [simp]:
  "clock later_world = 1004000" "uuids later_world = 1" "store_up later_world" "db_up later_world"
  "broker_up later_world" "outbox later_world = []" "edr later_world = []" "vehicleZones later_world v = None"
  by (simp_all add: later_world_def)

lemma later_controls: "controls (demo_env False) later_world ''v1'' ''alice'' (demo_uuid 0)"
  using holder_grant [of "demo_env False" demo_world 1004000 "''v1''" "''alice''" "''v1''"]
  by (simp add: controls_def later_world_def drive_world_def)

lemma handed_world_simps [simp]:
  "clock handed_world = 1004000" "uuids handed_world = 4" "store_up handed_world" "db_up handed_world"
  "broker_up handed_world" "outbox handed_world = []" "vehicleZones handed_world v = None"
  by (simp_all add: handed_world_def handover_def Let_def run_canControl run_handover_session run_logEdr_fresh)
    (simp add: grant_def)

lemma handed_holder:
  "holder (demo_env False) (store handed_world) 1004000 ''v1''
    = Some \<lparr>op = ''bob'', token = demo_uuid (Suc 0), issuedAt = dec_of_int 1004000\<rparr>"
  using holder_grant [of "demo_env False" later_world 1004000 "''v1''" "''bob''" "''v1''"]
  by (simp add: handed_world_def handover_def Let_def run_canControl run_handover_session run_logEdr_fresh)

lemma run_handed: "snd (run (service (demo_env False) (HandoverOp ''v1'' ''bob'' local_admin)) later_world) = handed_world"
  by (simp add: handed_world_def)

abbreviation late_envelope :: json where
  "late_envelope \<equiv> gate_envelope (demo_env False) handed_world ''v1'' ''alice'' (demo_uuid 0) ''MODE1'' pause_cmd"

lemma late_command:
  "outbox (snd (run (command_after_token (demo_env False) ''v1'' ''alice'' (demo_uuid 0) pause_cmd) handed_world))
      = [gate_message ''v1'' ''command'' late_envelope]"
  "store (snd (run (command_after_token (demo_env False) ''v1'' ''alice'' (demo_uuid 0) pause_cmd) handed_world))
      = store handed_world"
  "clock (snd (run (command_after_token (demo_env False) ''v1'' ''alice'' (demo_uuid 0) pause_cmd) handed_world))
      = 1004000"
proof -
  have a: "str_field pause_cmd ''action'' = ''PAUSE_MISSION''" by (simp add: pause_cmd_def)
  have "gate_allows handed_world ''v1'' pause_cmd"
    by (simp add: gate_allows_def a getZone_eq mode1_allowed_iff isDiagDisruptiveAllowed_def
      isDiagDisruptive_def DIAG_DISRUPTIVE_ACTIONS_def)
  moreover have "zod_eval CommandEnvelopeSchema late_envelope \<noteq> None"
    using gate_envelope_valid [OF demo_laws(1) demo_supply demo_laws(3), of False handed_world "''v1''" "''alice''"
        "demo_uuid 0" "''MODE1''" pause_cmd]
    by (simp add: current_issue_def handed_holder demo_uuid_format positive_int_def pause_parses)
  ultimately have "run (command_after_token (demo_env False) ''v1'' ''alice'' (demo_uuid 0) pause_cmd) handed_world
      = run (dispatch (demo_env False) ''v1'' ''alice'' (demo_uuid 0) ''MODE1'' pause_cmd False) handed_world"
    "zod_eval CommandEnvelopeSchema late_envelope \<noteq> None"
    by (simp_all add: run_command_after_token pause_parses a)
  then show
    "outbox (snd (run (command_after_token (demo_env False) ''v1'' ''alice'' (demo_uuid 0) pause_cmd) handed_world))
      = [gate_message ''v1'' ''command'' late_envelope]"
    "store (snd (run (command_after_token (demo_env False) ''v1'' ''alice'' (demo_uuid 0) pause_cmd) handed_world))
      = store handed_world"
    "clock (snd (run (command_after_token (demo_env False) ''v1'' ''alice'' (demo_uuid 0) pause_cmd) handed_world))
      = 1004000"
    by (simp_all add: run_dispatch_command a Let_def)
qed

text \<open>A handover does not stop a command that has passed the token check: \<open>dispatch\<close> reads the
  lock again for the time of issue, so that the old operator's command goes out, after \<open>bob\<close>
  took over, with \<open>alice\<close>'s token and the time of issue of \<open>bob\<close>'s lock. A vehicle that ranks
  tokens by their time of issue cannot tell it from a command of the new holder.\<close>

theorem old_token_with_new_issue:
  "\<exists>ns m. let w' = after (demo_env False) ns
       [CommandOp ''v1'' ''alice'' (demo_uuid 0) pause_cmd no_req, HandoverOp ''v1'' ''bob'' local_admin] later_world
     in m \<in> set (outbox w') \<and> msg_topic m = vehicle_topic ''v1'' ''command'' \<and>
        get_field (msg_doc m) ''issuer'' = JStr ''alice'' \<and>
        get_field (msg_doc m) ''token''
          = JObj [(''tokenId'', JStr (demo_uuid 0)), (''issuedAt'', JInt 1004000)] \<and>
        holder (demo_env False) (store w') (clock w') ''v1''
          = Some \<lparr>op = ''bob'', token = demo_uuid 1, issuedAt = dec_of_int 1004000\<rparr> \<and>
        holder (demo_env False) (store later_world) (clock later_world) ''v1''
          = Some \<lparr>op = ''alice'', token = demo_uuid 0, issuedAt = dec_of_int 1000000\<rparr>"
proof -
  let ?x = "CommandOp ''v1'' ''alice'' (demo_uuid 0) pause_cmd no_req"
  let ?k = "\<lambda>isValid. finish (if \<not> isValid then throw bad_token
      else command_after_token (demo_env False) ''v1'' ''alice'' (demo_uuid 0) pause_cmd)"
  have s: "service (demo_env False) ?x = await (validateToken (demo_env False) ''v1'' ''alice'' (demo_uuid 0)) ?k"
    by (simp add: sendCommand_def guarded_def finish_def await_assoc)
  have "run (validateToken (demo_env False) ''v1'' ''alice'' (demo_uuid 0)) later_world = (Inr True, later_world)"
    using later_controls controls_validate [where E = "demo_env False" and w = later_world and v = "''v1''" and p = "''alice''" and t = "demo_uuid 0"] by simp
  from after_overtake [OF s this run_handed] obtain ns where ns:
      "after (demo_env False) ns [?x, HandoverOp ''v1'' ''bob'' local_admin] later_world
        = snd (run (command_after_token (demo_env False) ''v1'' ''alice'' (demo_uuid 0) pause_cmd) handed_world)"
    by auto
  have f: "get_field late_envelope ''issuer'' = JStr ''alice''"
    "get_field late_envelope ''token'' = JObj [(''tokenId'', JStr (demo_uuid 0)), (''issuedAt'', JInt 1004000)]"
    by (simp_all add: gate_envelope_fields current_issue_def handed_holder)
  have h: "holder (demo_env False) (store later_world) 1004000 ''v1''
      = Some \<lparr>op = ''alice'', token = demo_uuid 0, issuedAt = dec_of_int 1000000\<rparr>"
    using holder_grant [of "demo_env False" demo_world 1004000 "''v1''" "''alice''" "''v1''"]
    by (simp add: later_world_def drive_world_def)
  show ?thesis
    unfolding Let_def
    by (rule exI [of _ ns], rule exI [of _ "gate_message ''v1'' ''command'' late_envelope"], unfold ns)
      (simp add: late_command handed_holder f h, simp add: gate_message_def f)
qed

section \<open>An assignment revoked on the way to the lock\<close>

definition race_env :: "ttl_store env" where
  "race_env = (demo_env False)\<lparr>ASSIGNMENT_ENFORCEMENT := True\<rparr>"

lemma race_env_simps [simp]:
  "vk race_env = ttl_ops" "uuid_of race_env = demo_uuid" "ASSIGNMENT_ENFORCEMENT race_env"
  "requireOperatorIdentity race_env r p = None" "canActivate race_env [''admin''] local_admin = None"
  by (simp_all add: race_env_def requireOperatorIdentity_def identityBindingEnabled_def canActivate_def
      resolveRole_def local_admin_def)

definition revoked_world :: "ttl_store world" where
  "revoked_world = snd (run (unassign_operator race_env ''v1'' ''alice'' None local_admin) assigned_world)"

lemma revoked_world_simps [simp]:
  "clock revoked_world = 1000000" "store revoked_world = []" "store_up revoked_world" "db_up revoked_world"
  "\<not> assigned (assignments revoked_world) ''v1'' ''alice''"
  by (simp_all add: revoked_world_def unassign_operator_def Let_def run_revoke run_logEdr_fresh ttl_get_def
      assigned_revoke)

text \<open>A revocation does not stop an operator who is just taking control: \<open>take_control\<close> checks the
  assignment before it sets the lock, so that an operator whose assignment is revoked in between
  ends up holding the vehicle without any assignment, although the revocation has succeeded
  and found no session to sever.\<close>

theorem revoked_operator_takes_control:
  "\<exists>ns. let w' = after race_env ns
       [TakeControlOp ''v1'' ''alice'' no_req, UnassignOp ''v1'' ''alice'' None local_admin] assigned_world
     in \<not> assigned (assignments w') ''v1'' ''alice'' \<and>
        (\<exists>l. holder race_env (store w') (clock w') ''v1'' = Some l \<and> op l = ''alice'')"
proof -
  let ?k = "\<lambda>ok. finish (if \<not> ok then
      await (logEdr_fresh race_env ''v1'' ''alice'' ''TAKE_CONTROL'' ''REJECTED''
        (JObj [(''reason'', JStr ''NO_ASSIGNMENT'')])) (\<lambda>_.
      throw (ForbiddenException ''NO_ASSIGNMENT''))
    else
      await (takeControl race_env ''v1'' ''alice'') (\<lambda>result.
      case result of
        None \<Rightarrow> throw (UnauthorizedException ''Vehicle is currently locked by another operator.'')
      | Some (tok, issued) \<Rightarrow>
          await (logEdr_fresh race_env ''v1'' ''alice'' ''TAKE_CONTROL'' ''ACK''
            (JObj [(''tokenId'', JStr tok), (''issuedAt'', JInt issued)])) (\<lambda>_.
          ret (JObj [(''status'', JStr ''success''), (''token'', JStr tok), (''issuedAt'', JInt issued)]))))"
  have s: "service race_env (TakeControlOp ''v1'' ''alice'' no_req) = await (canControl race_env ''v1'' ''alice'') ?k"
    by (simp add: take_control_def guarded_def finish_def await_assoc)
  have c: "run (canControl race_env ''v1'' ''alice'') assigned_world = (Inr True, assigned_world)"
    by (simp add: run_canControl)
  have u: "snd (run (service race_env (UnassignOp ''v1'' ''alice'' None local_admin)) assigned_world) = revoked_world"
    by (simp add: revoked_world_def)
  have v: "valkey (vk race_env)" using demo_laws(2) [of True] by simp
  have e: "assignments (snd (run (?k True) revoked_world)) = assignments revoked_world \<and>
    store (snd (run (?k True) revoked_world)) = store (grant race_env ''v1'' ''alice'' revoked_world) \<and>
    clock (snd (run (?k True) revoked_world)) = 1000000"
    by (simp add: run_takeControl [OF v] run_logEdr_fresh ttl_get_def)
  from after_overtake [OF s c u] obtain ns where ns:
      "after race_env ns [TakeControlOp ''v1'' ''alice'' no_req, UnassignOp ''v1'' ''alice'' None local_admin] assigned_world
        = snd (run (?k True) revoked_world)"
    by (elim exE)
  have "holder race_env (store (grant race_env ''v1'' ''alice'' revoked_world)) 1000000 ''v1''
      = Some \<lparr>op = ''alice'', token = demo_uuid (uuids revoked_world), issuedAt = dec_of_int 1000000\<rparr>"
    using holder_grant [OF v, of revoked_world 1000000 "''v1''" "''alice''" "''v1''"] by simp
  with e show ?thesis unfolding Let_def by (intro exI [of _ ns], unfold ns) simp
qed

section \<open>A revocation and a handover\<close>

text \<open>What a revocation does before it deletes the lock.\<close>

definition revoke_look :: "'kv env \<Rightarrow> vehicle_id \<Rightarrow> operator_id \<Rightarrow> string \<Rightarrow> ('kv, nat \<times> string option) handler" where
  "revoke_look E v p b = await (db_update E (revoke_update v p b)) (\<lambda>found.
    await (redis_get E (lock_key v)) (\<lambda>raw. ret (found, raw)))"

definition revoke_sever :: "'kv env \<Rightarrow> vehicle_id \<Rightarrow> operator_id \<Rightarrow> nat \<Rightarrow> string option \<Rightarrow> ('kv, nat \<times> bool) handler" where
  "revoke_sever E v p found raw =
    (if truthy_str raw \<and> lock_is_of (the raw) p then
      catch (await (redis_del E (lock_key v)) (\<lambda>_. ret (found, True))) (\<lambda>_. ret (found, False))
    else ret (found, False))"

lemma revoke_split: "revoke E v p b = await (revoke_look E v p b) (\<lambda>(found, raw). revoke_sever E v p found raw)"
  by (simp add: revoke_def revoke_look_def revoke_sever_def await_assoc await_ret)

definition looked_world :: "ttl_store world" where
  "looked_world = sever_world\<lparr>assignments := revoke_rows ''v1'' ''alice'' ''ADMIN'' 1000000 (assignments sever_world)\<rparr>"

definition taken_world :: "ttl_store world" where
  "taken_world = snd (run (handover (demo_env False) ''v1'' ''bob'' local_admin) looked_world)"

text \<open>A revocation can take the vehicle from the wrong operator: it reads the lock, finds the
  revoked operator in it, and deletes whatever lock is there then. If the vehicle is handed over to
  \<open>bob\<close> between the two commands, \<open>bob\<close>'s session is gone the moment it began, although the
  recorder shows the handover as acknowledged.\<close>

theorem revocation_deletes_successor:
  "\<exists>ns. let w' = after (demo_env False) ns
       [UnassignOp ''v1'' ''alice'' None local_admin, HandoverOp ''v1'' ''bob'' local_admin] sever_world
     in holder (demo_env False) (store w') (clock w') ''v1'' = None \<and>
        (\<exists>r \<in> set (edr w'). edr_vehicleId r = ''v1'' \<and> edr_action r = ''HANDOVER'' \<and> edr_status r = ''ACK'')"
proof -
  let ?E = "demo_env False"
  let ?k = "\<lambda>(found, raw). finish (await (revoke_sever ?E ''v1'' ''alice'' found raw) (\<lambda>(n, severed).
      await (logEdr_fresh ?E ''v1'' ''ADMIN'' ''REVOKE_OPERATOR'' ''ACK'' (JObj [(''operatorId'', JStr ''alice''),
        (''revokedCount'', JInt (int n)), (''sessionSevered'', JBool severed)])) (\<lambda>_.
      ret (JObj ([(''status'', JStr ''success''), (''vehicleId'', JStr ''v1'')] @ [(''operatorId'', JStr ''alice''),
        (''revokedCount'', JInt (int n)), (''sessionSevered'', JBool severed)])))))"
  have s: "service ?E (UnassignOp ''v1'' ''alice'' None local_admin) = await (revoke_look ?E ''v1'' ''alice'' ''ADMIN'') ?k"
    by (simp add: unassign_operator_def guarded_def finish_def await_assoc revoke_split or_str_def Let_def split_def)
  let ?raw = "vk_get (vk ?E) (store sever_world) 1000000 (lock_key ''v1'')"
  have w: "store_up sever_world" "db_up sever_world" "clock sever_world = 1000000"
    by (simp_all add: sever_world_def)
  have l: "run (revoke_look ?E ''v1'' ''alice'' ''ADMIN'') sever_world
      = (Inr (length (filter (active_for ''v1'' ''alice'') (assignments sever_world)), ?raw), looked_world)"
    by (simp add: revoke_look_def revoke_update_def w looked_world_def)
  have raw: "truthy_str ?raw" "lock_is_of (the ?raw) ''alice''"
    using holder_lock_is_of [OF sever_holder, of "''alice''"] by (auto simp: truthy_str_def)
  have h: "snd (run (service ?E (HandoverOp ''v1'' ''bob'' local_admin)) looked_world) = taken_world"
    by (simp add: taken_world_def)
  have t: "store_up taken_world" "db_up taken_world" "clock taken_world = 1000000"
    "\<exists>r \<in> set (edr taken_world). edr_vehicleId r = ''v1'' \<and> edr_action r = ''HANDOVER'' \<and> edr_status r = ''ACK''"
    by (simp_all add: taken_world_def handover_def Let_def run_canControl run_handover_session run_logEdr_fresh
        looked_world_def w edr_data_def)
  have e: "store (snd (run (?k (n, ?raw)) taken_world)) = vk_del (vk ?E) (store taken_world) 1000000 (lock_key ''v1'') \<and>
      clock (snd (run (?k (n, ?raw)) taken_world)) = 1000000 \<and>
      set (edr taken_world) \<subseteq> set (edr (snd (run (?k (n, ?raw)) taken_world)))" for n
    using raw t by (simp add: revoke_sever_def run_logEdr_fresh, auto)
  from after_overtake [OF s l h] obtain ns n where ns:
      "after ?E ns [UnassignOp ''v1'' ''alice'' None local_admin, HandoverOp ''v1'' ''bob'' local_admin] sever_world
        = snd (run (?k (n, ?raw)) taken_world)"
    by (elim exE)
  have "holder ?E (vk_del (vk ?E) (store taken_world) 1000000 (lock_key ''v1'')) 1000000 ''v1'' = None"
    using valkey.get_del [OF demo_laws(2) [of False], of 1000000 1000000] by (simp add: holder_def)
  with e [of n] t(4) show ?thesis unfolding Let_def by (intro exI [of _ ns], unfold ns) auto
qed

end
