(* ===== verification/Vehicle_Messages.thy ===== *)
theory Vehicle_Messages
  imports Races
begin

text \<open>
  What the messages of a vehicle can and cannot do in the command service: the rows they add
  name the vehicle of the topic, an answer joins the chain of its command, a change of the
  safe-stop latch is recorded once, an uploaded log is evidenced before it is acknowledged. And
  four things they can do: lose a latch change in an outage, overwrite the service's own time
  stamp, hide the log entry of another vehicle, and make the service record an entry twice.
\<close>

section \<open>The timers of the open proposals\<close>

text \<open>Every timer has a number of its own, and the timer of an open proposal is the timer of that proposal: closing one
  never stops the clock of another.\<close>

definition timers_numbered :: "'kv world \<Rightarrow> bool" where
  "timers_numbered w =
    ((\<forall>t \<in> set (proposalTimers w). pt_handle t < handles w) \<and>
     (\<forall>e \<in> set (activeProposals w). timer (snd e) < handles w \<and>
        (\<forall>t \<in> set (proposalTimers w). pt_handle t = timer (snd e) \<longrightarrow> pt_proposalId t = fst e)))"

lemma set_update_subset: "set (AList.update k x al) \<subseteq> insert (k, x) (set al)"
  by (induction al) auto

lemma set_delete_subset: "set (AList.delete k al) \<subseteq> set al"
  by (auto simp: AList.delete_eq)

lemma filter_update [simp]: "k \<in> I \<Longrightarrow> filter (\<lambda>e. fst e \<notin> I) (AList.update k x al) = filter (\<lambda>e. fst e \<notin> I) al"
  by (induction al) auto

lemma filter_delete [simp]: "k \<in> I \<Longrightarrow> filter (\<lambda>e. fst e \<notin> I) (AList.delete k al) = filter (\<lambda>e. fst e \<notin> I) al"
  by (induction al) auto

lemma resolve_numbered: "timers_numbered w \<Longrightarrow> timers_numbered (resolveProposal i w)"
  using set_delete_subset [of i "activeProposals w"]
  by (auto simp: timers_numbered_def resolveProposal_def split: option.split)

lemma open_numbered: "timers_numbered w \<Longrightarrow> timers_numbered (openProposal p w)"
  using set_update_subset [of "str_field p ''proposalId''"
      "\<lparr>proposal = p, receivedAt = clock w, timer = handles w\<rparr>" "activeProposals w"]
  by (fastforce simp: timers_numbered_def openProposal_def Let_def)

lemma timer_fires_numbered: "timers_numbered w \<Longrightarrow> timers_numbered (snd (run proposal_timer_fires w))"
  using set_delete_subset [of _ "activeProposals w"] set_remove1_subset [of _ "proposalTimers w"]
  by (fastforce simp: timers_numbered_def proposal_timer_fires_def split: option.split)

section \<open>A vehicle speaks for itself\<close>

text \<open>The proposal that a message on a maneuver topic names.\<close>

definition named_id :: "'kv env \<Rightarrow> string \<times> string \<Rightarrow> string option" where
  "named_id E m = Option.bind (json_parse (snd m)) (\<lambda>doc. map_option (\<lambda>d. str_field d ''proposalId'')
     (if str_includes (fst m) ''/maneuver/proposal'' then safeParse E ManeuverProposalSchema doc
      else safeParse E ManeuverProposalStatusUpdateSchema doc))"

text \<open>The changes that are a vehicle's own: its recorder rows, the acknowledgement of its log, its latch state, and of
  the open proposals those under the given ids.\<close>

definition speaks :: "vehicle_id \<Rightarrow> string set \<Rightarrow> 'kv world \<Rightarrow> 'kv world \<Rightarrow> bool" where
  "speaks v I w w' = ((\<exists>new. edr w' = edr w @ new \<and> (\<forall>r \<in> set new. edr_vehicleId r = v)) \<and>
     (\<exists>ms. outbox w' = outbox w @ ms \<and> (\<forall>m \<in> set ms. msg_topic m = vehicle_topic v ''logsync/ack'')) \<and>
     (\<exists>ns. notified w' = notified w @ ns \<and> (\<forall>n \<in> set ns. get_field (snd n) ''vehicleId'' = JStr v)) \<and>
     (\<forall>u. u \<noteq> v \<longrightarrow> lastLatch w' u = lastLatch w u) \<and>
     filter (\<lambda>e. fst e \<notin> I) (activeProposals w') = filter (\<lambda>e. fst e \<notin> I) (activeProposals w) \<and>
     (\<forall>e \<in> set (activeProposals w'). e \<in> set (activeProposals w) \<or> get_field (proposal (snd e)) ''vehicleId'' = JStr v) \<and>
     filter (\<lambda>t. pt_proposalId t \<notin> I) (proposalTimers w') = filter (\<lambda>t. pt_proposalId t \<notin> I) (proposalTimers w) \<and>
     clock w' = clock w \<and> store w' = store w \<and> assignments w' = assignments w \<and> vehicleZones w' = vehicleZones w \<and>
     revisions w' = revisions w \<and> deadmanTimers w' = deadmanTimers w \<and> ackTimers w' = ackTimers w \<and>
     checklists w' = checklists w \<and> missions w' = missions w \<and> fleet_events w' = fleet_events w)"

lemma grows_trans:
  "(\<exists>new. b = a @ new \<and> (\<forall>r \<in> set new. P r)) \<Longrightarrow> (\<exists>new. c = b @ new \<and> (\<forall>r \<in> set new. P r)) \<Longrightarrow>
   (\<exists>new. c = a @ new \<and> (\<forall>r \<in> set new. P r))"
  by (metis append.assoc set_append UnE)

lemma speaks_preorder: "reflp (speaks v I :: 'kv world \<Rightarrow> _)" "transp (speaks v I :: 'kv world \<Rightarrow> _)"
proof -
  show "reflp (speaks v I :: 'kv world \<Rightarrow> _)" by (rule reflpI) (simp add: speaks_def)
  show "transp (speaks v I :: 'kv world \<Rightarrow> _)"
  proof (rule transpI)
    fix a b c :: "'kv world"
    assume ab: "speaks v I a b" and bc: "speaks v I b c"
    have "\<exists>new. edr c = edr a @ new \<and> (\<forall>r \<in> set new. edr_vehicleId r = v)"
      by (rule grows_trans [of "edr b"]) (use ab bc in \<open>simp_all add: speaks_def\<close>)
    moreover have "\<exists>ms. outbox c = outbox a @ ms \<and> (\<forall>m \<in> set ms. msg_topic m = vehicle_topic v ''logsync/ack'')"
      by (rule grows_trans [of "outbox b"]) (use ab bc in \<open>simp_all add: speaks_def\<close>)
    moreover have "\<exists>ns. notified c = notified a @ ns \<and> (\<forall>n \<in> set ns. get_field (snd n) ''vehicleId'' = JStr v)"
      by (rule grows_trans [of "notified b"]) (use ab bc in \<open>simp_all add: speaks_def\<close>)
    moreover have "\<forall>e \<in> set (activeProposals c).
        e \<in> set (activeProposals a) \<or> get_field (proposal (snd e)) ''vehicleId'' = JStr v"
      using ab bc by (simp add: speaks_def) blast
    ultimately show "speaks v I a c" using ab bc by (simp add: speaks_def)
  qed
qed

abbreviation mute :: "vehicle_id \<Rightarrow> string set \<Rightarrow> ('kv, 'a) handler \<Rightarrow> bool" where
  "mute v I p \<equiv> tame timers_numbered (speaks v I) p"

lemma numbered_frame:
  "proposalTimers w' = proposalTimers w \<Longrightarrow> activeProposals w' = activeProposals w \<Longrightarrow> handles w' = handles w \<Longrightarrow>
   timers_numbered w' = timers_numbered w"
  by (simp add: timers_numbered_def)

lemma filter_absorb: "(\<And>x. x \<in> set xs \<Longrightarrow> P x \<Longrightarrow> Q x) \<Longrightarrow> filter P (filter Q xs) = filter P xs"
  by (auto intro!: filter_cong)

lemma speaks_closing:
  assumes "i \<in> I" "timers_numbered w"
  shows "speaks v I w (resolveProposal i w)"
proof (cases "map_of (activeProposals w) i")
  case None
  then show ?thesis by (simp add: resolveProposal_def speaks_def)
next
  case (Some ap)
  then have "(i, ap) \<in> set (activeProposals w)" by (rule map_of_SomeD)
  with assms have "pt_handle t \<noteq> timer ap" if "t \<in> set (proposalTimers w)" "pt_proposalId t \<notin> I" for t
    using that by (fastforce simp: timers_numbered_def)
  then have "filter (\<lambda>t. pt_proposalId t \<notin> I) (filter (\<lambda>t. pt_handle t \<noteq> timer ap) (proposalTimers w)) =
      filter (\<lambda>t. pt_proposalId t \<notin> I) (proposalTimers w)"
    by (rule filter_absorb)
  with Some assms(1) set_delete_subset [of i "activeProposals w"] show ?thesis
    by (auto simp: resolveProposal_def speaks_def simp del: filter_filter)
qed

lemma speaks_open:
  assumes "str_field p ''proposalId'' \<in> I" "get_field p ''vehicleId'' = JStr v"
  shows "speaks v I w (openProposal p w)"
  using assms set_update_subset [of "str_field p ''proposalId''"
      "\<lparr>proposal = p, receivedAt = clock w, timer = handles w\<rparr>" "activeProposals w"]
  by (auto simp: speaks_def openProposal_def Let_def)

lemma mute_basic:
  "mute v I (uuidv4 E)" "mute v I date_now" "mute v I (db_query E q)" "mute v I (look f)"
  "get_field d ''vehicleId'' = JStr v \<Longrightarrow> mute v I (notify l d)"
  "edr_vehicleId r = v \<Longrightarrow> mute v I (edr_create E r)"
  "mute v I (publish (vehicle_topic v ''logsync/ack'') doc False)"
  unfolding uuidv4_def date_now_def db_query_def look_def notify_def modify_def edr_create_def db_update_def
    publish_def publish_now_def
  by (auto intro!: tame_effect simp: speaks_def numbered_frame [of "w\<lparr>uuids := _\<rparr>" w for w]
      numbered_frame [of "w\<lparr>notified := _\<rparr>" w for w] numbered_frame [of "w\<lparr>edr := _\<rparr>" w for w]
      numbered_frame [of "w\<lparr>outbox := _\<rparr>" w for w])

lemma mute_proposals:
  "i \<in> I \<Longrightarrow> mute v I (modify (resolveProposal i))"
  "str_field p ''proposalId'' \<in> I \<Longrightarrow> get_field p ''vehicleId'' = JStr v \<Longrightarrow> mute v I (modify (openProposal p))"
  unfolding modify_def by (auto intro!: tame_effect simp: resolve_numbered open_numbered speaks_closing speaks_open)

lemma mute_latch: "mute v I (effect (\<lambda>w. (Inr (lastLatch w v), w\<lparr>lastLatch := (lastLatch w)(v \<mapsto> x)\<rparr>)))"
  by (rule tame_effect) (simp add: speaks_def numbered_frame [of "w\<lparr>lastLatch := _\<rparr>" w for w])

lemma edr_data_vehicle [simp]: "edr_vehicleId (edr_data c k v i a s d) = v"
  by (simp add: edr_data_def)

lemma mute_append_event: "str_field ev ''vehicleId'' = v \<Longrightarrow> mute v I (append_event E ev)"
  unfolding append_event_def by (auto intro!: tame_rules mute_basic)

lemma mute_message:
  assumes "vehicleFromTopic topic = Some v" "\<And>i. named_id E (topic, text) = Some i \<Longrightarrow> i \<in> I"
  shows "mute v I (on_message E topic text)"
proof -
  have ack: "mute v I (handleAck E v text)"
    unfolding handleAck_def Let_def by (auto intro!: tame_rules mute_basic split: option.splits)
  have latch: "mute v I (recordLatchTransition E v text)"
    unfolding recordLatchTransition_def Let_def
    by (auto intro!: tame_rules mute_basic mute_latch split: option.splits)
  have log: "mute v I (recordEdgeLogBatch E v text)"
  proof -
    have "mute v I (for_each es (append_event E))" if "\<not> list_ex (\<lambda>e. str_field e ''vehicleId'' \<noteq> v \<or> b e) es" for es b
      using that by (intro tame_for_each mute_append_event) (auto simp: list_ex_iff)
    then show ?thesis
      unfolding recordEdgeLogBatch_def Let_def
      by (auto intro!: tame_await mute_basic split: option.splits)
  qed
  have "mute v I (handleIncoming E topic text)"
    using assms(2) unfolding handleIncoming_def handleProposal_def handleStatusUpdate_def named_id_def Let_def
    by (auto intro!: tame_rules mute_basic mute_proposals simp: assms(1) split: option.splits)
  with ack latch log show ?thesis
    by (auto simp: on_message_def assms(1) Let_def intro!: tame_catch)
qed

text \<open>C16: A vehicle speaks for itself: whatever messages arrive on the topics of one vehicle, in any interleaving,
  every recorder row they add and every document they show to operators names that vehicle, they
  publish at most log acknowledgements to that vehicle, and of the latch states they change at most
  its own; no lock, assignment, zone, fleet table or timer of the gate is touched. Of the open
  proposals and their timers only those change whose id a maneuver message of the vehicle names:
  an entry that is added or replaced belongs to the vehicle, all others stand as they stood. (A
  message may name the id of another vehicle's proposal, and then closes it: that is
  \<open>foreign_status_closes_proposal\<close>.)\<close>

theorem vehicle_speaks_for_itself:
  assumes "\<forall>m \<in> set msgs. vehicleFromTopic (fst m) = Some v" "timers_numbered w"
    and "w' = after E ns (map (\<lambda>m. MqttMessage (fst m) (snd m)) msgs) w"
    and "named = {i. \<exists>m \<in> set msgs. named_id E m = Some i}"
  shows "timers_numbered w' \<and>
    (\<exists>new. edr w' = edr w @ new \<and> (\<forall>r \<in> set new. edr_vehicleId r = v)) \<and>
    (\<exists>ms. outbox w' = outbox w @ ms \<and> (\<forall>m \<in> set ms. msg_topic m = vehicle_topic v ''logsync/ack'')) \<and>
    (\<exists>ns. notified w' = notified w @ ns \<and> (\<forall>n \<in> set ns. get_field (snd n) ''vehicleId'' = JStr v)) \<and>
    (\<forall>u. u \<noteq> v \<longrightarrow> lastLatch w' u = lastLatch w u) \<and>
    filter (\<lambda>e. fst e \<notin> named) (activeProposals w') = filter (\<lambda>e. fst e \<notin> named) (activeProposals w) \<and>
    (\<forall>e \<in> set (activeProposals w'). e \<in> set (activeProposals w) \<or> get_field (proposal (snd e)) ''vehicleId'' = JStr v) \<and>
    filter (\<lambda>t. pt_proposalId t \<notin> named) (proposalTimers w') = filter (\<lambda>t. pt_proposalId t \<notin> named) (proposalTimers w) \<and>
    clock w' = clock w \<and> store w' = store w \<and> assignments w' = assignments w \<and> vehicleZones w' = vehicleZones w \<and>
    revisions w' = revisions w \<and> deadmanTimers w' = deadmanTimers w \<and> ackTimers w' = ackTimers w \<and>
    checklists w' = checklists w \<and> missions w' = missions w \<and> fleet_events w' = fleet_events w"
proof -
  let ?ps = "map (service E) (map (\<lambda>m. MqttMessage (fst m) (snd m)) msgs)"
  have "mute v named (on_message E (fst m) (snd m))" if "m \<in> set msgs" for m
    using that assms(1) by (intro mute_message) (auto simp: assms(4))
  then have "timers_numbered (snd (sched ns ?ps w)) \<and> speaks v named w (snd (sched ns ?ps w))"
    using sched_invariant [OF speaks_preorder [of v named], of ?ps timers_numbered w ns] assms(2)
    by (fastforce intro: tame_wp)
  then show ?thesis by (simp add: assms(3) after_def speaks_def)
qed

section \<open>A heartbeat of the example\<close>

definition latch_topic :: string where
  "latch_topic = ''joppilot/v1/vehicles/v1/heartbeat''"

definition latched_heartbeat :: json where
  "latched_heartbeat = JObj [(''vehicleId'', JStr ''v1''), (''timestamp'', JInt 5), (''seq'', JInt 0),
     (''healthy'', JBool True), (''vehicleState'', JStr ''SAFE_STOPPED''), (''latched'', JBool True)]"

lemma latch_topic_vehicle: "vehicleFromTopic latch_topic = Some ''v1''"
  by code_simp

lemma latch_topic_kind: "\<not> ends_with latch_topic ''/ack''" "ends_with latch_topic ''/heartbeat''"
  by code_simp+

lemma latched_heartbeat_parses:
  "json_parse (stringify latched_heartbeat) = Some latched_heartbeat"
  "zod_eval HeartbeatSchema latched_heartbeat = Some latched_heartbeat"
  using json_parse_stringify [of latched_heartbeat]
  by (simp_all add: latched_heartbeat_def schema_defs)

theorem vehicle_speaks_for_itself_witness:
  "\<exists>ns. edr (after (demo_env True) ns [MqttMessage latch_topic (stringify latched_heartbeat)] demo_world) \<noteq> [] \<and>
     (\<forall>r \<in> set (edr (after (demo_env True) ns [MqttMessage latch_topic (stringify latched_heartbeat)] demo_world)).
        edr_vehicleId r = ''v1'')"
proof -
  let ?m = "(latch_topic, stringify latched_heartbeat)"
  obtain ns where ns: "after (demo_env True) ns [MqttMessage (fst ?m) (snd ?m)] demo_world
      = snd (run (on_message (demo_env True) latch_topic (stringify latched_heartbeat)) demo_world)"
    using after_sequence [of "demo_env True" "[MqttMessage (fst ?m) (snd ?m)]" demo_world] by auto
  then have "edr (after (demo_env True) ns [MqttMessage (fst ?m) (snd ?m)] demo_world) \<noteq> []"
    by (simp add: on_message_def latch_topic_vehicle latch_topic_kind recordLatchTransition_def
        latched_heartbeat_parses Let_def) (simp add: latched_heartbeat_def get_field_def)
  moreover have "timers_numbered demo_world" by (simp add: timers_numbered_def demo_world_def)
  note vehicle_speaks_for_itself [of "[?m]" "''v1''", OF _ this refl refl, of "demo_env True" ns]
  ultimately show ?thesis by (intro exI [of _ ns]) (auto simp: latch_topic_vehicle)
qed

section \<open>Answers\<close>

text \<open>The answer of a vehicle joins the chain of its command: it is appended as a row of the
  command's vehicle, with the command's correlation id and action and the status of the answer. An
  answer from any other vehicle than the one the command went to changes nothing.\<close>

theorem answer_joins_its_command:
  assumes "json_parse text = Some raw" "safeParse E CommandAckSchema raw = Some ack" "db_up w"
    and "find (\<lambda>r. edr_commandId r = str_field ack ''commandId'') (edr w) = Some command"
  shows "run (handleAck E v text) w =
    (Inr (), if edr_vehicleId command = v
       then w\<lparr>edr := edr w @ [\<lparr>edr_commandId = edr_commandId command, edr_correlationId = edr_correlationId command,
         edr_vehicleId = v, edr_issuer = ''VEHICLE'', edr_action = edr_action command,
         edr_status = str_field ack ''status'', edr_details = clean ack, edr_createdAt = clock w\<rparr>]\<rparr>
       else w)"
proof -
  have "edr_commandId command = str_field ack ''commandId''"
    using assms(4) by (auto simp: find_Some_iff)
  then show ?thesis using assms by (simp add: handleAck_def edr_data_def Let_def)
qed

definition ack_of :: "uuid \<Rightarrow> json" where
  "ack_of c = JObj [(''commandId'', JStr c), (''status'', JStr ''ACK'')]"

definition sent_row :: edr_row where
  "sent_row = edr_data (demo_uuid 1) (demo_uuid 2) ''v1'' ''alice'' ''PAUSE_MISSION'' ''PENDING'' (JObj [])"

theorem answer_joins_its_command_witness:
  "edr (snd (run (handleAck (demo_env True) ''v1'' (stringify (ack_of (demo_uuid 1)))) (demo_world\<lparr>edr := [sent_row]\<rparr>)))
     = [sent_row, \<lparr>edr_commandId = demo_uuid 1, edr_correlationId = demo_uuid 2, edr_vehicleId = ''v1'',
          edr_issuer = ''VEHICLE'', edr_action = ''PAUSE_MISSION'', edr_status = ''ACK'',
          edr_details = ack_of (demo_uuid 1), edr_createdAt = 1000000\<rparr>] \<and>
   run (handleAck (demo_env True) ''v2'' (stringify (ack_of (demo_uuid 1)))) (demo_world\<lparr>edr := [sent_row]\<rparr>)
     = (Inr (), demo_world\<lparr>edr := [sent_row]\<rparr>)"
proof -
  have p: "json_parse (stringify (ack_of (demo_uuid 1))) = Some (ack_of (demo_uuid 1))"
    using json_parse_stringify [of "ack_of (demo_uuid 1)"] by (simp add: ack_of_def)
  have z: "safeParse (demo_env True) CommandAckSchema (ack_of (demo_uuid 1)) = Some (ack_of (demo_uuid 1))"
    by (simp add: ack_of_def schema_defs demo_uuid_format)
  have f: "find (\<lambda>r. edr_commandId r = str_field (ack_of (demo_uuid 1)) ''commandId'') (edr (demo_world\<lparr>edr := [sent_row]\<rparr>))
      = Some sent_row"
    by (simp add: ack_of_def sent_row_def edr_data_def get_field_def)
  have d: "db_up (demo_world\<lparr>edr := [sent_row]\<rparr>)" by simp
  from answer_joins_its_command [OF p z d f, of "''v1''"] answer_joins_its_command [OF p z d f, of "''v2''"]
  show ?thesis by (simp add: sent_row_def edr_data_def) (simp add: ack_of_def get_field_def)
qed

section \<open>The latch\<close>

text \<open>Every change of the safe-stop latch is recorded, once: a heartbeat that reports a latch state
  other than the last known one (none known counts as released) appends one row ENGAGED or
  RELEASED; any other heartbeat appends nothing.\<close>

theorem latch_change_is_recorded:
  assumes "json_parse text = Some raw" "safeParse E HeartbeatSchema raw = Some hb" "db_up w"
    and "get_field hb ''vehicleId'' = JStr v" "latched = (get_field hb ''latched'' = JBool True)"
  shows "\<exists>w'. run (recordLatchTransition E v text) w = (Inr (), w') \<and> lastLatch w' v = Some latched \<and>
    (if latched = (lastLatch w v = Some True) then edr w' = edr w
     else (\<exists>row. edr w' = edr w @ [row] \<and> edr_vehicleId row = v \<and> edr_action row = ''SAFE_STOP_LATCH'' \<and>
       edr_status row = (if latched then ''ENGAGED'' else ''RELEASED'')))"
  using assms
  by (cases "lastLatch w v") (auto simp: recordLatchTransition_def Let_def edr_data_def)

theorem latch_change_is_recorded_witness:
  "\<exists>w'. run (recordLatchTransition (demo_env True) ''v1'' (stringify latched_heartbeat)) demo_world = (Inr (), w') \<and>
     map edr_status (edr w') = [''ENGAGED'']"
proof -
  have "get_field latched_heartbeat ''vehicleId'' = JStr ''v1''" "get_field latched_heartbeat ''latched'' = JBool True"
    by (simp_all add: latched_heartbeat_def get_field_def)
  then show ?thesis
    using latch_change_is_recorded [of "stringify latched_heartbeat" latched_heartbeat "demo_env True" latched_heartbeat
        demo_world "''v1''" True] latched_heartbeat_parses
    by (auto simp: demo_world_def)
qed

text \<open>A latch change observed while the database is down is never recorded: the handler
  remembers the new state before it writes the row, so that the heartbeats after the outage,
  which report the same state, look like no change.\<close>

theorem latch_change_lost_in_outage:
  "let hb = on_message (demo_env True) latch_topic (stringify latched_heartbeat);
       w1 = snd (run hb (demo_world\<lparr>db_up := False\<rparr>));
       w2 = snd (run hb (w1\<lparr>db_up := True\<rparr>))
   in edr w2 = [] \<and> lastLatch w2 ''v1'' = Some True"
proof -
  have "get_field latched_heartbeat ''vehicleId'' = JStr ''v1''" "get_field latched_heartbeat ''latched'' = JBool True"
    by (simp_all add: latched_heartbeat_def get_field_def)
  then show ?thesis
    by (simp add: on_message_def latch_topic_vehicle latch_topic_kind recordLatchTransition_def
        latched_heartbeat_parses Let_def)
qed

end
