(* ===== verification/Edge_Log.thy ===== *)
theory Edge_Log
  imports Vehicle_Messages
begin

text \<open>
  The event log a vehicle uploads after it was offline (\<open>recordEdgeLogBatch\<close>): every event of an
  accepted batch whose key is new has exactly one row, with its own content, before the acknowledgement
  goes out, and a redelivered batch adds nothing. Two deliveries that overlap do record an event twice, and the
  log key of one vehicle can be taken by another.
\<close>

section \<open>A batch, undisturbed\<close>

definition has_command :: "'kv world \<Rightarrow> string \<Rightarrow> bool" where
  "has_command w c = (c \<in> edr_commandId ` set (edr w))"

definition event_row :: "'kv env \<Rightarrow> json \<Rightarrow> 'kv world \<Rightarrow> edr_row" where
  "event_row E ev w = (edr_data (vlog_id ev) (uuid_of E (uuids w)) (str_field ev ''vehicleId'') ''VEHICLE-LOG''
     (str_field ev ''type'') ''SYNCED'' (clean (vlog_details ev (clock w))))\<lparr>edr_createdAt := clock w\<rparr>"

lemma run_append_event:
  "run (append_event E ev) w =
    (if \<not> db_up w then (Inl (Error (fault E)), w)
     else if has_command w (vlog_id ev) then (Inr (), w)
     else (Inr (), w\<lparr>uuids := Suc (uuids w), edr := edr w @ [event_row E ev w]\<rparr>))"
proof -
  have "find (\<lambda>r. edr_commandId r = vlog_id ev) (edr w) = None \<longleftrightarrow> \<not> has_command w (vlog_id ev)"
    unfolding find_None_iff has_command_def by (metis (mono_tags) image_iff)
  then show ?thesis
    by (cases "has_command w (vlog_id ev)") (simp_all add: append_event_def event_row_def)
qed

lemma event_row_simps [simp]:
  "edr_commandId (event_row E ev w) = vlog_id ev" "edr_vehicleId (event_row E ev w) = str_field ev ''vehicleId''"
  by (simp_all add: event_row_def edr_data_def)

text \<open>What a row says when it is the row of an event, recorded at a time.\<close>

definition row_of_event :: "msec \<Rightarrow> json \<Rightarrow> edr_row \<Rightarrow> bool" where
  "row_of_event t ev r = (edr_commandId r = vlog_id ev \<and> edr_vehicleId r = str_field ev ''vehicleId'' \<and>
     edr_issuer r = ''VEHICLE-LOG'' \<and> edr_action r = str_field ev ''type'' \<and> edr_status r = ''SYNCED'' \<and>
     edr_details r = clean (vlog_details ev t) \<and> edr_createdAt r = t)"

lemma row_of_event_row: "row_of_event (clock w) ev (event_row E ev w)"
  by (simp add: row_of_event_def event_row_def edr_data_def)

text \<open>The events whose key is not taken: of several with one key the first.\<close>

primrec fresh_events :: "string set \<Rightarrow> json list \<Rightarrow> json list" where
  "fresh_events taken [] = []"
| "fresh_events taken (ev # evs) =
    (if vlog_id ev \<in> taken then fresh_events taken evs else ev # fresh_events (insert (vlog_id ev) taken) evs)"

lemma fresh_keys:
  "distinct (map vlog_id (fresh_events taken evs)) \<and> vlog_id ` set (fresh_events taken evs) = vlog_id ` set evs - taken"
  by (induction evs arbitrary: taken) auto

text \<open>Events with keys of their own are all fresh.\<close>

lemma all_fresh:
  "distinct (map vlog_id evs) \<Longrightarrow> vlog_id ` set evs \<inter> taken = {} \<Longrightarrow> fresh_events taken evs = evs"
  by (induction evs arbitrary: taken) auto

lemma none_fresh: "vlog_id ` set evs \<subseteq> taken \<Longrightarrow> fresh_events taken evs = []"
  by (induction evs) auto

text \<open>The loop over the events: what it leaves alone, and the rows it adds.\<close>

lemma run_append_events:
  assumes "db_up w"
  shows "\<exists>w' new. run (for_each evs (append_event E)) w = (Inr (), w') \<and> edr w' = edr w @ new \<and>
    list_all2 (row_of_event (clock w)) (fresh_events (edr_commandId ` set (edr w)) evs) new \<and>
    db_up w' \<and> broker_up w' = broker_up w \<and> outbox w' = outbox w \<and> clock w' = clock w"
  using assms
proof (induction evs arbitrary: w)
  case Nil
  then show ?case by simp
next
  case (Cons ev evs)
  show ?case
  proof (cases "has_command w (vlog_id ev)")
    case True
    then have "vlog_id ev \<in> edr_commandId ` set (edr w)" by (simp add: has_command_def)
    with Cons.IH [OF Cons.prems] Cons.prems True show ?thesis by (simp add: run_append_event)
  next
    case False
    let ?w = "w\<lparr>uuids := Suc (uuids w), edr := edr w @ [event_row E ev w]\<rparr>"
    have new: "vlog_id ev \<notin> edr_commandId ` set (edr w)" using False by (simp add: has_command_def)
    obtain w' rows where w': "run (for_each evs (append_event E)) ?w = (Inr (), w')" "edr w' = edr ?w @ rows"
        "list_all2 (row_of_event (clock ?w)) (fresh_events (edr_commandId ` set (edr ?w)) evs) rows"
        "db_up w' \<and> broker_up w' = broker_up ?w \<and> outbox w' = outbox ?w \<and> clock w' = clock ?w"
      using Cons.IH [of ?w] Cons.prems by auto
    have "run (for_each (ev # evs) (append_event E)) w = (Inr (), w')"
      using w'(1) Cons.prems False by (simp add: run_append_event)
    moreover have "edr w' = edr w @ (event_row E ev w # rows)" using w'(2) by simp
    moreover have "list_all2 (row_of_event (clock w)) (fresh_events (edr_commandId ` set (edr w)) (ev # evs))
        (event_row E ev w # rows)"
      using w'(3) new row_of_event_row [of w ev E] by simp
    moreover have "db_up w'" "broker_up w' = broker_up w" "outbox w' = outbox w" "clock w' = clock w"
      using w'(4) by simp_all
    ultimately show ?thesis
      by (intro exI [of _ w'] exI [of _ "event_row E ev w # rows"] conjI)
  qed
qed

lemma rows_keys: "list_all2 (row_of_event t) evs rows \<Longrightarrow> map edr_commandId rows = map vlog_id evs"
  by (induction rule: list_all2_induct) (simp_all add: row_of_event_def)

text \<open>An accepted batch of a vehicle.\<close>

definition uniform :: "vehicle_id \<Rightarrow> json \<Rightarrow> bool" where
  "uniform v batch = (get_field batch ''vehicleId'' = JStr v \<and>
     (\<forall>ev \<in> set (as_list (get_field batch ''events'')). str_field ev ''vehicleId'' = v \<and>
        str_field ev ''bootId'' = str_field (hd (as_list (get_field batch ''events''))) ''bootId''))"

definition batch_ack :: "'kv env \<Rightarrow> vehicle_id \<Rightarrow> json \<Rightarrow> message" where
  "batch_ack E v batch = (let events = as_list (get_field batch ''events'') in
     \<lparr>msg_topic = vehicle_topic v ''logsync/ack'',
      msg_doc = log_ack E v (str_field (hd events) ''bootId'') (dec_max (seq_of (hd events)) (map seq_of (tl events))),
      msg_retain = False\<rparr>)"

lemma run_batch:
  assumes "json_parse text = Some raw" "safeParse E EdgeLogBatchSchema raw = Some batch"
  shows "run (recordEdgeLogBatch E v text) w =
    (if \<not> uniform v batch then (Inr (), w)
     else (case run (for_each (as_list (get_field batch ''events'')) (append_event E)) w of
         (Inl e, w') \<Rightarrow> (Inl e, w')
       | (Inr _, w') \<Rightarrow> (Inr (), if broker_up w' then w'\<lparr>outbox := outbox w' @ [batch_ack E v batch]\<rparr> else w')))"
  using assms
  by (auto simp: recordEdgeLogBatch_def Let_def uniform_def batch_ack_def list_ex_iff split: prod.splits sum.splits)

text \<open>No event of the batch publishes anything on its way, so that whatever is published comes after the last row.\<close>

lemma append_event_quiet: "m \<in> set (trail (append_event E ev) w) \<Longrightarrow> outbox m = outbox w"
  by (auto simp: append_event_def db_query_def split: if_splits)

lemma append_events_quiet:
  "m \<in> set (trail (for_each evs (append_event E)) w) \<Longrightarrow> outbox m = outbox w"
proof (induction evs arbitrary: w)
  case (Cons ev evs)
  have "outbox (snd (run (append_event E ev) w)) = outbox w" by (simp add: run_append_event)
  with Cons append_event_quiet [of m E ev w] show ?case
    by (cases "run (append_event E ev) w") (auto split: sum.splits)
qed simp

lemma batch_trail:
  assumes "json_parse text = Some raw" "safeParse E EdgeLogBatchSchema raw = Some batch"
    and "run (for_each (as_list (get_field batch ''events'')) (append_event E)) w = (Inr (), w1)"
    and "m \<in> set (trail (recordEdgeLogBatch E v text) w)"
  shows "outbox m = outbox w \<or> edr m = edr w1"
  using assms(4) append_events_quiet [of m _ E w]
  by (auto simp: recordEdgeLogBatch_def assms(1-3) Let_def split: if_splits)

text \<open>C17: An uploaded log is evidenced, and acknowledged only then: with the database up, an accepted batch adds, in the
  order of the batch, exactly one row for every key that is not in the recorder yet, and each row
  carries the vehicle, the type and the details of the first event of the batch with that key; when
  the keys of the batch are new and distinct, that is one row for every event. The signed
  acknowledgement goes out when all of them are written, not at any step before, and the same batch delivered again adds no row. (An
  event whose key is already there is taken for a redelivery, whoever wrote that row: see
  \<open>log_key_of_another_vehicle\<close>.)\<close>

theorem log_evidenced_exactly_once:
  assumes "json_parse text = Some raw" "safeParse E EdgeLogBatchSchema raw = Some batch"
    and "uniform v batch" "db_up w"
    and "events = as_list (get_field batch ''events'')" "taken = edr_commandId ` set (edr w)"
  shows "\<exists>w' new. run (recordEdgeLogBatch E v text) w = (Inr (), w') \<and> edr w' = edr w @ new \<and>
    list_all2 (row_of_event (clock w)) (fresh_events taken events) new \<and>
    distinct (map edr_commandId new) \<and> set (map edr_commandId new) = vlog_id ` set events - taken \<and>
    (distinct (map vlog_id events) \<longrightarrow> vlog_id ` set events \<inter> taken = {} \<longrightarrow> list_all2 (row_of_event (clock w)) events new) \<and>
    outbox w' = outbox w @ (if broker_up w then [batch_ack E v batch] else []) \<and>
    (\<forall>m \<in> set (trail (recordEdgeLogBatch E v text) w). outbox m = outbox w \<or> edr m = edr w') \<and>
    edr (snd (run (recordEdgeLogBatch E v text) w')) = edr w'"
proof -
  obtain w1 new where w1: "run (for_each events (append_event E)) w = (Inr (), w1)" "edr w1 = edr w @ new"
      "list_all2 (row_of_event (clock w)) (fresh_events taken events) new"
      "db_up w1" "broker_up w1 = broker_up w" "outbox w1 = outbox w"
    using run_append_events [OF assms(4)] assms(6) by blast
  let ?w' = "if broker_up w1 then w1\<lparr>outbox := outbox w1 @ [batch_ack E v batch]\<rparr> else w1"
  have k: "map edr_commandId new = map vlog_id (fresh_events taken events)" using w1(3) by (rule rows_keys)
  have r: "run (recordEdgeLogBatch E v text) w = (Inr (), ?w')"
    using w1(1) by (simp add: run_batch [OF assms(1,2)] assms(3,5))
  have e: "edr ?w' = edr w @ new" "db_up ?w'" using w1 by simp_all
  have o: "\<forall>m \<in> set (trail (recordEdgeLogBatch E v text) w). outbox m = outbox w \<or> edr m = edr ?w'"
    using batch_trail [OF assms(1,2) w1(1) [unfolded assms(5)]] w1(2) by (auto simp: e(1))
  obtain w2 more where w2: "run (for_each events (append_event E)) ?w' = (Inr (), w2)" "edr w2 = edr ?w' @ more"
      "list_all2 (row_of_event (clock ?w')) (fresh_events (edr_commandId ` set (edr ?w')) events) more"
    using run_append_events [OF e(2)] by blast
  have "edr_commandId ` set new = vlog_id ` set events - taken"
    using arg_cong [OF k, of set] fresh_keys [of taken events] by simp
  then have "vlog_id ` set events \<subseteq> edr_commandId ` set (edr ?w')" unfolding e(1) by (auto simp: assms(6))
  then have "fresh_events (edr_commandId ` set (edr ?w')) events = []" by (rule none_fresh)
  with w2(3) have "more = []" by simp
  then have "edr (snd (run (recordEdgeLogBatch E v text) ?w')) = edr ?w'"
    using w2(1,2) by (simp add: run_batch [OF assms(1,2)] assms(3,5))
  with r e o w1 k fresh_keys [of taken events] all_fresh [of events taken] show ?thesis
    by (intro exI [of _ ?w'] exI [of _ new]) (auto simp flip: set_map)
qed

section \<open>Examples\<close>

definition log_event :: "vehicle_id \<Rightarrow> string \<Rightarrow> json" where
  "log_event v boot = JObj [(''vehicleId'', JStr v), (''bootId'', JStr boot), (''seq'', JInt 1),
     (''timestamp'', JInt 7), (''type'', JStr ''LATCH_ENGAGED'')]"

definition log_batch :: "vehicle_id \<Rightarrow> string \<Rightarrow> json" where
  "log_batch v boot = JObj [(''vehicleId'', JStr v), (''events'', JArr [log_event v boot])]"

lemma log_batch_parses: "json_parse (stringify (log_batch v boot)) = Some (log_batch v boot)"
  using json_parse_stringify [of "log_batch v boot"] by (simp add: log_batch_def log_event_def)

lemma log_batch_valid:
  "v \<noteq> [] \<Longrightarrow> boot \<noteq> [] \<Longrightarrow> zod_eval EdgeLogBatchSchema (log_batch v boot) = Some (log_batch v boot)"
  by (cases v; cases boot) (simp_all add: log_batch_def log_event_def schema_defs len_ok_def)

lemma log_batch_fields [simp]:
  "as_list (get_field (log_batch v boot) ''events'') = [log_event v boot]" "uniform v (log_batch v boot)"
  by (simp_all add: log_batch_def uniform_def get_field_def) (simp add: log_event_def get_field_def)

lemma one_is_digit: "dec_str (dec_of_int 1) = ''1''"
  by code_simp

lemma log_event_id: "vlog_id (log_event v boot) = ''vlog-'' @ v @ ''-'' @ boot @ ''-1''"
  by (simp add: vlog_id_def log_event_def get_field_def one_is_digit)

theorem log_evidenced_exactly_once_witness:
  "\<exists>w'. run (recordEdgeLogBatch (demo_env True) ''v1'' (stringify (log_batch ''v1'' ''b''))) demo_world = (Inr (), w') \<and>
     set (map edr_commandId (edr w')) = {''vlog-v1-b-1''} \<and> length (outbox w') = 1"
proof -
  have z: "safeParse (demo_env True) EdgeLogBatchSchema (log_batch ''v1'' ''b'') = Some (log_batch ''v1'' ''b'')"
    by (simp add: log_batch_valid)
  have d: "db_up demo_world" "broker_up demo_world" "edr demo_world = []" "outbox demo_world = []"
    by (simp_all add: demo_world_def)
  from log_evidenced_exactly_once [OF log_batch_parses z log_batch_fields(2) d(1) refl refl]
  obtain w' new where "run (recordEdgeLogBatch (demo_env True) ''v1'' (stringify (log_batch ''v1'' ''b''))) demo_world
      = (Inr (), w')" "edr w' = new" "set (map edr_commandId new) = {vlog_id (log_event ''v1'' ''b'')}"
      "length (outbox w') = 1"
    unfolding d log_batch_fields by auto
  moreover have "vlog_id (log_event ''v1'' ''b'') = ''vlog-v1-b-1''" by (simp add: log_event_id)
  ultimately show ?thesis by metis
qed

text \<open>The key of a log entry joins the vehicle, the boot and the number with dashes, and the
  names may contain dashes: what vehicle \<open>EV\<close> uploads for its boot \<open>1-b\<close> takes the key of vehicle
  \<open>EV-1\<close> and boot \<open>b\<close>. The entry of \<open>EV-1\<close> is then dropped as a redelivery, and acknowledged.\<close>

theorem log_key_of_another_vehicle:
  "let w1 = snd (run (recordEdgeLogBatch (demo_env True) ''EV'' (stringify (log_batch ''EV'' ''1-b''))) demo_world);
       (r, w2) = run (recordEdgeLogBatch (demo_env True) ''EV-1'' (stringify (log_batch ''EV-1'' ''b''))) w1
   in r = Inr () \<and> map edr_vehicleId (edr w2) = [''EV''] \<and>
      map msg_topic (outbox w2) = [vehicle_topic ''EV'' ''logsync/ack'', vehicle_topic ''EV-1'' ''logsync/ack'']"
proof -
  have z: "safeParse (demo_env True) EdgeLogBatchSchema (log_batch ''EV'' ''1-b'') = Some (log_batch ''EV'' ''1-b'')"
    "safeParse (demo_env True) EdgeLogBatchSchema (log_batch ''EV-1'' ''b'') = Some (log_batch ''EV-1'' ''b'')"
    by (simp_all add: log_batch_valid)
  have v: "str_field (log_event ''EV'' ''1-b'') ''vehicleId'' = ''EV''" by (simp add: log_event_def get_field_def)
  show ?thesis
    by (simp add: run_batch [OF log_batch_parses z(1)] run_batch [OF log_batch_parses z(2)] run_append_event
        has_command_def log_event_id batch_ack_def demo_world_def v split_beta Let_def)
qed

text \<open>The rest of a delivery, once the key has been looked up.\<close>

definition log_rest :: "'kv env \<Rightarrow> vehicle_id \<Rightarrow> string \<Rightarrow> edr_row option \<Rightarrow> ('kv, unit) handler" where
  "log_rest E v boot existing = (let ev = log_event v boot in
    await (if existing \<noteq> None then ret ()
      else await (uuidv4 E) (\<lambda>k. await date_now (\<lambda>t. edr_create E (edr_data (vlog_id ev) k (str_field ev ''vehicleId'')
        ''VEHICLE-LOG'' (str_field ev ''type'') ''SYNCED'' (clean (vlog_details ev t)))))) (\<lambda>_.
    await (publish (vehicle_topic v ''logsync/ack'') (msg_doc (batch_ack E v (log_batch v boot))) False) (\<lambda>_.
    ret ())))"

lemma delivery_split:
  assumes "safeParse E EdgeLogBatchSchema (log_batch v boot) = Some (log_batch v boot)"
  shows "recordEdgeLogBatch E v (stringify (log_batch v boot)) =
    await (db_query E (\<lambda>w. find (\<lambda>r. edr_commandId r = vlog_id (log_event v boot)) (edr w))) (log_rest E v boot)"
proof -
  have u: "get_field (log_batch v boot) ''vehicleId'' = JStr v"
    "str_field (log_event v boot) ''vehicleId'' = v" "str_field (log_batch v boot) ''vehicleId'' = v"
    by (simp_all add: log_batch_def log_event_def get_field_def)
  show ?thesis
    unfolding recordEdgeLogBatch_def append_event_def log_rest_def [abs_def]
    by (simp add: log_batch_parses assms Let_def u await_assoc await_ret batch_ack_def)
qed

lemma run_log_rest_fresh:
  assumes "db_up w"
  shows "\<exists>r w'. run (log_rest E v boot None) w = (Inr (), w') \<and> edr w' = edr w @ [r] \<and>
    edr_commandId r = vlog_id (log_event v boot)"
  using assms by (auto simp: log_rest_def Let_def edr_data_def)

text \<open>Two overlapping deliveries of one batch record its event twice: looking for the key and
  inserting the row are separate statements, and the recorder has no constraint on the key.\<close>

theorem overlapping_deliveries_record_twice:
  "\<exists>ns. let delivery = recordEdgeLogBatch (demo_env True) ''v1'' (stringify (log_batch ''v1'' ''b''))
     in map edr_commandId (edr (snd (sched ns [delivery, delivery] demo_world))) = [''vlog-v1-b-1'', ''vlog-v1-b-1'']"
proof -
  let ?E = "demo_env True" and ?ev = "log_event ''v1'' ''b''"
  let ?d = "recordEdgeLogBatch ?E ''v1'' (stringify (log_batch ''v1'' ''b''))"
  let ?find = "db_query ?E (\<lambda>w. find (\<lambda>r. edr_commandId r = vlog_id ?ev) (edr w))"
  have s: "?d = await ?find (log_rest ?E ''v1'' ''b'')" by (simp add: delivery_split log_batch_valid)
  have f: "run ?find demo_world = (Inr None, demo_world)" by (simp add: demo_world_def)
  have d: "db_up demo_world" "edr demo_world = []" by (simp_all add: demo_world_def)
  obtain r1 w1 where r1: "run ?d demo_world = (Inr (), w1)" "edr w1 = [r1]" "edr_commandId r1 = vlog_id ?ev" "db_up w1"
    using run_log_rest_fresh [of demo_world ?E "''v1''" "''b''"] d
    by (auto simp: s f log_rest_def Let_def edr_data_def)
  obtain r2 w2 where r2: "run (log_rest ?E ''v1'' ''b'' None) w1 = (Inr (), w2)" "edr w2 = [r1, r2]"
      "edr_commandId r2 = vlog_id ?ev"
    using run_log_rest_fresh [OF r1(4), of ?E "''v1''" "''b''"] r1(2) by auto
  obtain ns where "sched ns [await ?find (log_rest ?E ''v1'' ''b''), ?d] demo_world = ([Ret (Inr ()), Ret (Inr ())], w2)"
    using sched_overtake [where k = "log_rest ?E ''v1'' ''b''", OF f r1(1) r2(1)] by (elim exE)
  then have "map edr_commandId (edr (snd (sched ns [?d, ?d] demo_world))) = [vlog_id ?ev, vlog_id ?ev]"
    using r1(3) r2(2,3) by (simp flip: s)
  then have "map edr_commandId (edr (snd (sched ns [?d, ?d] demo_world))) = [''vlog-v1-b-1'', ''vlog-v1-b-1'']"
    unfolding log_event_id append.simps .
  then show ?thesis unfolding Let_def by (rule exI [of _ ns])
qed

end
