(* ===== verification/Decisions.thy ===== *)
theory Decisions
  imports Edge_Log
begin

text \<open>
  Maneuver proposals and their decisions: a decision leaves the cloud only for an open
  proposal, from the operator in control of its vehicle, and for an option that was offered.
  Three things go wrong at the edges: another vehicle can close a proposal, a proposal sent
  twice expires with the timer of the first copy, and a proposal that arrives while the
  database is down ends in a rejection that nobody handles.
\<close>

section \<open>The decision\<close>

definition decision_envelope :: "'kv env \<Rightarrow> 'kv world \<Rightarrow> string \<Rightarrow> vehicle_id \<Rightarrow> operator_id \<Rightarrow> uuid \<Rightarrow> json \<Rightarrow> json" where
  "decision_envelope E w i v p t payload = signDocument E
    (envelope_doc (uuid_of E (uuids w)) i t v p (inferMode (str_field payload ''action'')) t (current_issue E w v)
      (clock w) 5000 payload)"

definition decision_row :: "'kv env \<Rightarrow> 'kv world \<Rightarrow> string \<Rightarrow> vehicle_id \<Rightarrow> operator_id \<Rightarrow> string \<Rightarrow> string \<Rightarrow> json \<Rightarrow> edr_row" where
  "decision_row E w i v p a st d = (edr_data (uuid_of E (uuids w)) i v p a st d)\<lparr>edr_createdAt := clock w\<rparr>"

lemma run_dispatch_decision:
  "run (dispatch_decision E i v p t d payload) w =
    (let a = str_field payload ''action''; env = decision_envelope E w i v p t payload;
         w1 = w\<lparr>uuids := Suc (uuids w)\<rparr>; pending = decision_row E w i v p a ''PENDING'' (clean env)
     in if \<not> store_up w then (Inl (Error (fault E)), w1)
        else if safeParse E CommandEnvelopeSchema env = None then (Inl (BadRequestException ''SCHEMA_INVALID''), w1)
        else if \<not> db_up w then (Inl (Error (fault E)), w1)
        else if broker_up w then
          (Inr (JObj [(''status'', JStr ''pending''), (''commandId'', JStr (uuid_of E (uuids w))),
             (''proposalId'', JStr i), (''decision'', JStr d), (''action'', JStr a)]),
           resolveProposal i (w1\<lparr>edr := edr w @ [pending], outbox := outbox w @ [gate_message v ''command'' env]\<rparr>))
        else (Inl (ServiceUnavailableException ''PUBLISH_FAILED''),
          w1\<lparr>edr := edr w @ [pending, decision_row E w i v p a ''PUBLISH_FAILED''
            (JObj [(''topic'', JStr (vehicle_topic v ''command''))])]\<rparr>))"
  by (simp add: dispatch_decision_def decision_envelope_def decision_row_def gate_message_def current_issue_def
      Let_def cong: option.case_cong)

lemma run_decide:
  "run (decide E i p t d r x) w =
    (case requireOperatorIdentity E r p of Some e \<Rightarrow> (Inl e, w) | None \<Rightarrow>
      (case getActiveProposalById w i of
        None \<Rightarrow> (Inl (NotFoundException (''No active proposal found with id '' @ [CHR 0x27] @ i
          @ [CHR 0x27] @ '' (may have timed out).'')), w)
      | Some q \<Rightarrow>
          let v = str_field q ''vehicleId'' in
          if \<not> store_up w then (Inl (Error (fault E)), w)
          else if \<not> controls E w v p t then (Inl bad_token, w)
          else if truthy_str x \<and> the x \<notin> set (option_ids q) then (Inl (BadRequestException ''INVALID_OPTION''), w)
          else (case decision_payload d i x of
              Inl e \<Rightarrow> (Inl e, w)
            | Inr payload \<Rightarrow> run (dispatch_decision E i v p t d payload) w)))"
  by (simp add: decide_def controls_validate Let_def split: option.splits sum.splits)

lemma resolveProposal_simps [simp]:
  "outbox (resolveProposal i w) = outbox w" "edr (resolveProposal i w) = edr w"
  "map_of (activeProposals (resolveProposal i w)) i = None"
  by (simp_all add: resolveProposal_def delete_conv' split: option.splits)

text \<open>What has to hold before a decision may leave: an open proposal, the identity binding, control of the proposal's
  vehicle, an offered option where one is named, a payload, and an envelope of the contract.\<close>

definition decision_allowed ::
  "'kv env \<Rightarrow> 'kv world \<Rightarrow> string \<Rightarrow> operator_id \<Rightarrow> uuid \<Rightarrow> string \<Rightarrow> req \<Rightarrow> string option \<Rightarrow> json \<Rightarrow> json \<Rightarrow> bool" where
  "decision_allowed E w i p t d r x q payload =
    (requireOperatorIdentity E r p = None \<and> getActiveProposalById w i = Some q \<and>
     controls E w (str_field q ''vehicleId'') p t \<and> (x \<in> {None, Some []} \<or> the x \<in> set (option_ids q)) \<and>
     decision_payload d i x = Inr payload \<and>
     safeParse E CommandEnvelopeSchema (decision_envelope E w i (str_field q ''vehicleId'') p t payload) \<noteq> None)"

text \<open>The row and the message of a decision.\<close>

definition decision_recorded ::
  "'kv env \<Rightarrow> 'kv world \<Rightarrow> string \<Rightarrow> operator_id \<Rightarrow> uuid \<Rightarrow> json \<Rightarrow> json \<Rightarrow> edr_row list" where
  "decision_recorded E w i p t q payload = edr w @ [decision_row E w i (str_field q ''vehicleId'') p
     (str_field payload ''action'') ''PENDING'' (clean (decision_envelope E w i (str_field q ''vehicleId'') p t payload))]"

definition decision_sent ::
  "'kv env \<Rightarrow> 'kv world \<Rightarrow> string \<Rightarrow> operator_id \<Rightarrow> uuid \<Rightarrow> json \<Rightarrow> json \<Rightarrow> message list" where
  "decision_sent E w i p t q payload = outbox w @ [gate_message (str_field q ''vehicleId'') ''command''
     (decision_envelope E w i (str_field q ''vehicleId'') p t payload)]"

lemma trail_validateToken [simp]: "trail (validateToken E v p t) w = [w]"
  by (simp add: validateToken_def)

lemma trail_getTokenIssuedAt: "set (trail (getTokenIssuedAt E v) w) \<subseteq> {w}"
  by (simp add: getTokenIssuedAt_def split: option.split)

lemma trail_dispatch_decision:
  assumes "m \<in> set (trail (dispatch_decision E i v p t d payload) w)"
  shows "outbox m = outbox w \<or>
    (let env = decision_envelope E w i v p t payload in
      safeParse E CommandEnvelopeSchema env \<noteq> None \<and>
      edr m = edr w @ [decision_row E w i v p (str_field payload ''action'') ''PENDING'' (clean env)] \<and>
      outbox m = outbox w @ [gate_message v ''command'' env])"
  using assms trail_getTokenIssuedAt [of E v "w\<lparr>uuids := Suc (uuids w)\<rparr>"]
  by (auto simp: dispatch_decision_def decision_envelope_def decision_row_def gate_message_def current_issue_def
      Let_def split: if_splits option.splits)

lemma run_decide_outcome:
  assumes "run (decide E i p t d r x) w = (res, w')"
  shows "case res of
      Inr _ \<Rightarrow> \<exists>q payload. decision_allowed E w i p t d r x q payload \<and> outbox w' = decision_sent E w i p t q payload \<and>
        edr w' = decision_recorded E w i p t q payload \<and> getActiveProposalById w' i = None
    | Inl _ \<Rightarrow> outbox w' = outbox w"
proof (cases res)
  case (Inl e)
  with assms show ?thesis
    by (auto simp: run_decide run_dispatch_decision Let_def split: option.splits sum.splits if_splits)
next
  case (Inr doc)
  with assms obtain q payload where h: "requireOperatorIdentity E r p = None" "getActiveProposalById w i = Some q"
      "controls E w (str_field q ''vehicleId'') p t" "\<not> (truthy_str x \<and> the x \<notin> set (option_ids q))"
      "decision_payload d i x = Inr payload"
      "run (dispatch_decision E i (str_field q ''vehicleId'') p t d payload) w = (Inr doc, w')"
    by (auto simp: run_decide Let_def split: option.splits sum.splits if_splits)
  then have "decision_allowed E w i p t d r x q payload \<and> outbox w' = decision_sent E w i p t q payload \<and>
      edr w' = decision_recorded E w i p t q payload \<and> getActiveProposalById w' i = None"
    by (cases x) (auto simp: run_dispatch_decision decision_allowed_def decision_sent_def decision_recorded_def Let_def
        getActiveProposalById_def truthy_str_def split: if_splits)
  then show ?thesis by (auto simp: Inr)
qed

lemma controls_lock: "controls E w v p t \<longleftrightarrow> (\<exists>l. holder E (store w) (clock w) v = Some l \<and> op l = p \<and> token l = t)"
  by (simp add: controls_validate [symmetric] split: option.split)

lemma trail_decide:
  assumes "m \<in> set (trail (decide E i p t d r x) w)"
  shows "outbox m = outbox w \<or> (\<exists>q payload. decision_allowed E w i p t d r x q payload \<and>
    edr m = decision_recorded E w i p t q payload \<and> outbox m = decision_sent E w i p t q payload)"
proof -
  consider "outbox m = outbox w"
    | (sent) q payload where "requireOperatorIdentity E r p = None" "getActiveProposalById w i = Some q"
      "controls E w (str_field q ''vehicleId'') p t" "\<not> (truthy_str x \<and> the x \<notin> set (option_ids q))"
      "decision_payload d i x = Inr payload"
      "m \<in> set (trail (dispatch_decision E i (str_field q ''vehicleId'') p t d payload) w)"
    using assms
    by (auto simp: decide_def guarded_def controls_lock Let_def split: option.splits sum.splits if_splits)
  then show ?thesis
  proof cases
    case sent
    have x: "x \<in> {None, Some []} \<or> the x \<in> set (option_ids q)" using sent(4) by (cases x) (auto simp: truthy_str_def)
    from trail_dispatch_decision [OF sent(6)] show ?thesis
      by (rule disjE, blast)
        (use sent(1-3,5) x in \<open>auto simp: decision_allowed_def decision_sent_def decision_recorded_def Let_def\<close>)
  qed blast
qed

text \<open>C15: A maneuver decision is gated and recorded before it is sent. Followed step by step, and with nothing else running
  beside it, a decision request hands at most one message to the broker; and at every moment at
  which that message is out, the proposal had been found open, the operator had passed the identity
  binding and controls the proposal's vehicle, the option named (if one is) was offered by the
  vehicle, the envelope is of the contract and signed, it goes to the proposal's vehicle under the
  proposal's id, and its \<open>PENDING\<close> row is already in the recorder. The request is answered with
  success exactly when the message was sent, and then the proposal is closed; on every error
  nothing was sent.\<close>

theorem decision_is_gated:
  assumes "run (decide E i p t d r x) w = (res, w')"
  shows "(\<forall>m \<in> set (trail (decide E i p t d r x) w). outbox m = outbox w \<or>
      (\<exists>q payload. decision_allowed E w i p t d r x q payload \<and>
        edr m = decision_recorded E w i p t q payload \<and> outbox m = decision_sent E w i p t q payload)) \<and>
    (case res of
      Inr _ \<Rightarrow> \<exists>q payload. decision_allowed E w i p t d r x q payload \<and> outbox w' = decision_sent E w i p t q payload \<and>
        edr w' = decision_recorded E w i p t q payload \<and> getActiveProposalById w' i = None
    | Inl _ \<Rightarrow> outbox w' = outbox w)"
  using trail_decide run_decide_outcome [OF assms] by blast

section \<open>An open proposal\<close>

definition demo_proposal :: json where
  "demo_proposal = JObj [(''proposalId'', JStr (demo_uuid 0)), (''vehicleId'', JStr ''v1''),
     (''reasonCode'', JStr ''OBSTACLE''),
     (''context'', JObj [(''sceneSummary'', JStr ''blocked''), (''sensorRefs'', JArr [])]),
     (''options'', JArr [JObj [(''optionId'', JStr ''pass''), (''description'', JStr ''pass left''),
        (''expectedResult'', JStr ''continues'')]]),
     (''validityWindowMs'', JInt 30000), (''defaultOnTimeout'', JStr ''STOP''), (''timestamp'', JInt 5)]"

lemma demo_proposal_fields [simp]:
  "str_field demo_proposal ''proposalId'' = demo_uuid 0" "get_field demo_proposal ''vehicleId'' = JStr ''v1''"
  "option_ids demo_proposal = [''pass'']" "int_field demo_proposal ''validityWindowMs'' = 30000"
  by (simp_all add: demo_proposal_def get_field_def option_ids_def)

lemma demo_proposal_parses:
  "json_parse (stringify demo_proposal) = Some demo_proposal"
  "zod_eval ManeuverProposalSchema demo_proposal = Some demo_proposal"
  using json_parse_stringify [of demo_proposal]
  by (simp_all add: demo_proposal_def schema_defs demo_uuid_format len_ok_def)

definition proposal_world :: "ttl_store world" where
  "proposal_world = openProposal demo_proposal drive_world"

lemma proposal_world_simps [simp]:
  "clock proposal_world = 1000000" "uuids proposal_world = 1" "store proposal_world = store drive_world"
  "store_up proposal_world" "db_up proposal_world" "broker_up proposal_world" "outbox proposal_world = []"
  "edr proposal_world = []"
  by (simp_all add: proposal_world_def openProposal_def Let_def)

lemma proposal_world_open: "getActiveProposalById proposal_world (demo_uuid 0) = Some demo_proposal"
  by (simp add: proposal_world_def openProposal_def Let_def getActiveProposalById_def drive_world_def grant_def demo_world_def)

definition confirm_payload :: json where
  "confirm_payload = JObj [(''action'', JStr ''CONFIRM_MANEUVER''), (''proposalId'', JStr (demo_uuid 0)),
     (''optionId'', JStr ''pass'')]"

lemma confirm_payload_parses: "zod_eval CommandPayloadSchema confirm_payload = Some confirm_payload"
  by (simp add: confirm_payload_def schema_defs literal_of_def demo_uuid_format)

lemma decision_parses:
  "zod_eval CommandEnvelopeSchema (decision_envelope (demo_env False) proposal_world (demo_uuid 0) ''v1'' ''alice''
     (demo_uuid 0) confirm_payload) \<noteq> None"
proof -
  have "current_issue (demo_env False) proposal_world ''v1'' = dec_of_int 1000000"
    by (simp add: current_issue_def drive_world_holder)
  moreover have "inferMode ''CONFIRM_MANEUVER'' = ''MODE1''" by (simp add: inferMode_def enum_defs)
  moreover have "str_field confirm_payload ''action'' = ''CONFIRM_MANEUVER''"
    by (simp add: confirm_payload_def get_field_def)
  moreover have "Suc 0 \<le> length (demo_uuid 0)" by (simp add: demo_uuid_def)
  ultimately show ?thesis
    by (simp add: decision_envelope_def envelope_doc_def signDocument_def set_field_def CommandEnvelopeSchema_def
        FencingTokenSchema_def OperationModeSchema_def Let_def confirm_payload_parses demo_uuid_format)
qed

theorem decision_is_gated_witness:
  "\<exists>res w'. run (decide (demo_env False) (demo_uuid 0) ''alice'' (demo_uuid 0) ''CONFIRM'' no_req (Some ''pass''))
       proposal_world = (Inr res, w') \<and>
     map msg_topic (outbox w') = [vehicle_topic ''v1'' ''command''] \<and> getActiveProposalById w' (demo_uuid 0) = None"
proof -
  have c: "controls (demo_env False) proposal_world ''v1'' ''alice'' (demo_uuid 0)"
    using drive_world_controls by (simp add: controls_def)
  have d: "decision_payload ''CONFIRM'' (demo_uuid 0) (Some ''pass'') = Inr confirm_payload"
    by (simp add: decision_payload_def confirm_payload_def truthy_str_def)
  have "\<exists>res w'. run (decide (demo_env False) (demo_uuid 0) ''alice'' (demo_uuid 0) ''CONFIRM'' no_req (Some ''pass''))
       proposal_world = (Inr res, w')"
    using c d decision_parses
    by (simp add: run_decide proposal_world_open run_dispatch_decision Let_def truthy_str_def)
  then obtain res w' where r: "run (decide (demo_env False) (demo_uuid 0) ''alice'' (demo_uuid 0) ''CONFIRM'' no_req
      (Some ''pass'')) proposal_world = (Inr res, w')" by blast
  from decision_is_gated [OF r] r show ?thesis
    by (auto simp: proposal_world_open decision_allowed_def decision_sent_def gate_message_def)
qed

section \<open>Three ways to lose a proposal\<close>

definition foreign_status :: json where
  "foreign_status = JObj [(''proposalId'', JStr (demo_uuid 0)), (''vehicleId'', JStr ''v2''),
     (''status'', JStr ''CANCELLED''), (''timestamp'', JInt 6)]"

text \<open>Another vehicle can close a proposal: a status message is bound to the vehicle that sent it,
  the open proposal is looked up by its id only. A CANCELLED of \<open>v2\<close> that names the proposal of \<open>v1\<close>
  removes it, and the operator's decision on it is answered with "not found".\<close>

theorem foreign_status_closes_proposal:
  "let w' = snd (run (handleStatusUpdate (demo_env False) ''v2'' foreign_status) proposal_world)
   in getActiveProposal proposal_world ''v1'' = Some demo_proposal \<and> getActiveProposal w' ''v1'' = None \<and>
      map edr_vehicleId (edr w') = [''v2'']"
proof -
  have z: "zod_eval ManeuverProposalStatusUpdateSchema foreign_status = Some foreign_status"
    by (simp add: foreign_status_def schema_defs demo_uuid_format)
  have f: "get_field foreign_status ''vehicleId'' = JStr ''v2''" "str_field foreign_status ''proposalId'' = demo_uuid 0"
    "str_field foreign_status ''status'' = ''CANCELLED''"
    by (simp_all add: foreign_status_def get_field_def)
  have a: "activeProposals proposal_world = [(demo_uuid 0, \<lparr>proposal = demo_proposal, receivedAt = 1000000, timer = 0\<rparr>)]"
    by (simp add: proposal_world_def openProposal_def Let_def drive_world_def grant_def demo_world_def)
  show ?thesis
    by (simp add: handleStatusUpdate_def z f Let_def notify_def getActiveProposal_def resolveProposal_def a edr_data_def)
qed

text \<open>A proposal that a vehicle sends twice expires with the first copy: the second one replaces
  the entry and starts a timer of its own, but the timer of the first keeps running, and
  removes the proposal by its id while its window is still open.\<close>

theorem resent_proposal_expires_early:
  "let w1 = openProposal demo_proposal demo_world;
       w2 = openProposal demo_proposal (w1\<lparr>clock := 1020000\<rparr>);
       w3 = snd (run proposal_timer_fires (w2\<lparr>clock := 1032000\<rparr>))
   in getActiveProposalById w2 (demo_uuid 0) = Some demo_proposal \<and>
      getActiveProposalById w3 (demo_uuid 0) = None \<and> map pt_due (proposalTimers w3) = [1052000]"
  by (simp add: Let_def openProposal_def proposal_timer_fires_def getActiveProposalById_def demo_world_def)

text \<open>A proposal that arrives while the database is down ends in a rejection that nobody
  handles (the message handler neither awaits nor catches it), after it was opened and
  before any operator was told.\<close>

theorem proposal_in_outage_is_unhandled:
  "let (r, w') = run (on_message (demo_env False) ''joppilot/v1/vehicles/v1/maneuver/proposal'' (stringify demo_proposal))
         (drive_world\<lparr>db_up := False\<rparr>)
   in r = Inl (Error ''down'') \<and> getActiveProposalById w' (demo_uuid 0) = Some demo_proposal \<and>
      notified w' = notified drive_world"
proof -
  have t: "vehicleFromTopic ''joppilot/v1/vehicles/v1/maneuver/proposal'' = Some ''v1''"
    "\<not> ends_with ''joppilot/v1/vehicles/v1/maneuver/proposal'' ''/ack''"
    "\<not> ends_with ''joppilot/v1/vehicles/v1/maneuver/proposal'' ''/heartbeat''"
    "\<not> ends_with ''joppilot/v1/vehicles/v1/maneuver/proposal'' ''/logsync''"
    "str_includes ''joppilot/v1/vehicles/v1/maneuver/proposal'' ''/maneuver/''"
    "str_includes ''joppilot/v1/vehicles/v1/maneuver/proposal'' ''/maneuver/proposal''" by code_simp+
  have f: "fault (demo_env False) = ''down''" by (simp add: demo_env_def)
  have o: "notified (openProposal demo_proposal w) = notified w" "\<not> db_up w \<Longrightarrow> \<not> db_up (openProposal demo_proposal w)"
    "getActiveProposalById (openProposal demo_proposal w) (demo_uuid 0) = Some demo_proposal" for w :: "ttl_store world"
    by (simp_all add: openProposal_def Let_def getActiveProposalById_def update_conv')
  show ?thesis
    by (simp add: on_message_def t Let_def handleIncoming_def demo_proposal_parses handleProposal_def o f)
qed

end
