(* ===== verification/Policy_Artifact.thy ===== *)
theory Policy_Artifact
  imports Contract
begin

text \<open>
  The policy the two gates share. The contract's build writes the zone/mode matrix and the classes of actions
  into \<open>schemas/ZoneModePolicy.json\<close> (\<open>scripts/build-schemas.ts\<close>); the vehicle's kernel
  (\<open>edge/sim/src/main.rs\<close>) reads that file when it starts, refuses to start without it, and decides by what
  it read. The comment of the file is an argument, and its line breaks and indentation are left out.
\<close>

section \<open>The file the contract writes\<close>

definition ZONES :: "ZoneType list" where
  "ZONES = [''public_approved_route'', ''public_test_permit'', ''depot'', ''private'', ''permitted_test'', ''out_of_tod'']"

definition permissions_json :: "ZonePermissions \<Rightarrow> json" where
  "permissions_json p = JObj [(''mode1'', JBool (mode1 p)), (''mode2'', JBool (mode2 p)),
     (''diagRead'', JBool (diagRead p)), (''diagActions'', JBool (diagActions p))]"

definition zone_mode_policy :: "string \<Rightarrow> json" where
  "zone_mode_policy comment = JObj
    [(''$comment'', JStr comment),
     (''zoneModeMatrix'', JObj (map (\<lambda>z. (z, permissions_json (the (ZONE_MODE_MATRIX z)))) ZONES)),
     (''mode2Actions'', JArr (map JStr MODE2_ACTIONS)),
     (''diagReadActions'', JArr (map JStr DIAG_READ_ACTIONS)),
     (''diagDisruptiveActions'', JArr (map JStr DIAG_DISRUPTIVE_ACTIONS)),
     (''diagRestrictedZones'', JArr (map JStr DIAG_RESTRICTED_ZONES))]"

section \<open>The file the kernel reads\<close>

text \<open>\<open>enum OperationMode\<close>, with the texts its variants are written as.\<close>

datatype EdgeMode = MODE1 | MODE2 | DIAG

fun edge_mode_text :: "EdgeMode \<Rightarrow> OperationMode" where
  "edge_mode_text MODE1 = ''MODE1''"
| "edge_mode_text MODE2 = ''MODE2''"
| "edge_mode_text DIAG = ''DIAG''"

record ZoneModePolicy =
  zone_mode_matrix :: "string \<Rightarrow> ZonePermissions option"
  mode2_actions :: "string list"
  diag_read_actions :: "string list"
  diag_disruptive_actions :: "string list"
  diag_restricted_zones :: "string list"

text \<open>A field that is missing or has another type fails the whole reading; an unknown field is skipped.\<close>

fun read_bool :: "json \<Rightarrow> bool option" where
  "read_bool (JBool b) = Some b"
| "read_bool _ = None"

fun read_string :: "json \<Rightarrow> string option" where
  "read_string (JStr s) = Some s"
| "read_string _ = None"

fun read_all :: "(json \<Rightarrow> 'a option) \<Rightarrow> json list \<Rightarrow> 'a list option" where
  "read_all f [] = Some []"
| "read_all f (v # vs) =
    (case f v of None \<Rightarrow> None | Some x \<Rightarrow> map_option (Cons x) (read_all f vs))"

fun read_strings :: "json \<Rightarrow> string list option" where
  "read_strings (JArr vs) = read_all read_string vs"
| "read_strings _ = None"

definition read_permissions :: "json \<Rightarrow> ZonePermissions option" where
  "read_permissions v =
    (case (read_bool (get_field v ''mode1''), read_bool (get_field v ''mode2''),
           read_bool (get_field v ''diagRead''), read_bool (get_field v ''diagActions'')) of
       (Some a, Some b, Some c, Some d) \<Rightarrow> Some (permissions a b c d)
     | _ \<Rightarrow> None)"

text \<open>A \<open>HashMap\<close> filled in the order of the text: a later row of the same zone replaces an earlier one.\<close>

fun read_matrix :: "json \<Rightarrow> (string \<times> ZonePermissions) list option" where
  "read_matrix (JObj es) =
    map_option (\<lambda>ps. zip (map fst es) ps) (read_all read_permissions (map snd es))"
| "read_matrix _ = None"

definition read_policy :: "json \<Rightarrow> ZoneModePolicy option" where
  "read_policy v =
    (case (read_matrix (get_field v ''zoneModeMatrix''), read_strings (get_field v ''mode2Actions''),
           read_strings (get_field v ''diagReadActions''), read_strings (get_field v ''diagDisruptiveActions''),
           read_strings (get_field v ''diagRestrictedZones'')) of
       (Some rows, Some m2, Some dr, Some dd, Some rz) \<Rightarrow>
         if rows = [] then None
         else Some \<lparr>zone_mode_matrix = map_of (rev rows), mode2_actions = m2, diag_read_actions = dr,
           diag_disruptive_actions = dd, diag_restricted_zones = rz\<rparr>
     | _ \<Rightarrow> None)"

text \<open>\<open>None\<close>: the process exits before it listens to anything.\<close>

definition load_policy :: "string option \<Rightarrow> ZoneModePolicy option" where
  "load_policy file = Option.bind (Option.bind file json_parse) read_policy"

section \<open>What the kernel decides by it\<close>

definition mode_allowed_in_zone :: "ZoneModePolicy \<Rightarrow> string \<Rightarrow> EdgeMode \<Rightarrow> bool" where
  "mode_allowed_in_zone policy zone mode =
    (case zone_mode_matrix policy zone of
       None \<Rightarrow> False
     | Some p \<Rightarrow> (case mode of MODE1 \<Rightarrow> mode1 p | MODE2 \<Rightarrow> mode2 p | DIAG \<Rightarrow> diagRead p))"

definition infer_mode :: "ZoneModePolicy \<Rightarrow> string \<Rightarrow> EdgeMode" where
  "infer_mode policy action =
    (if list_ex (\<lambda>a. a = action) (mode2_actions policy) then MODE2
     else if list_ex (\<lambda>a. a = action) (diag_read_actions policy)
       \<or> list_ex (\<lambda>a. a = action) (diag_disruptive_actions policy) then DIAG
     else MODE1)"

definition diag_disruptive_allowed :: "ZoneModePolicy \<Rightarrow> string \<Rightarrow> string \<Rightarrow> bool \<Rightarrow> bool" where
  "diag_disruptive_allowed policy action zone is_stationary =
    (if \<not> list_ex (\<lambda>a. a = action) (diag_disruptive_actions policy) then True
     else (case zone_mode_matrix policy zone of
         None \<Rightarrow> False
       | Some p \<Rightarrow>
           if \<not> diagActions p then False
           else if list_ex (\<lambda>z. z = zone) (diag_restricted_zones policy) then is_stationary
           else True))"

section \<open>The two gates agree\<close>

text \<open>What the kernel has in memory after reading the file of this contract.\<close>

definition shared_policy :: ZoneModePolicy where
  "shared_policy = \<lparr>zone_mode_matrix = ZONE_MODE_MATRIX, mode2_actions = MODE2_ACTIONS,
     diag_read_actions = DIAG_READ_ACTIONS, diag_disruptive_actions = DIAG_DISRUPTIVE_ACTIONS,
     diag_restricted_zones = DIAG_RESTRICTED_ZONES\<rparr>"

lemma read_all_map: "(\<And>x. x \<in> set xs \<Longrightarrow> f (g x) = Some (h x)) \<Longrightarrow> read_all f (map g xs) = Some (map h xs)"
  by (induction xs) auto

lemma read_all_strings [simp]: "read_all read_string (map JStr xs) = Some xs"
  using read_all_map [of xs read_string JStr "\<lambda>x. x"] by simp

lemma read_permissions_json [simp]: "read_permissions (permissions_json p) = Some p"
  by (cases p) (simp add: read_permissions_def permissions_json_def get_field_def permissions_def)

lemma zip_with_map: "zip zs (map g zs) = map (\<lambda>z. (z, g z)) zs"
  by (induction zs) simp_all

lemma read_matrix_map:
  "read_matrix (JObj (map (\<lambda>z. (z, permissions_json (g z))) zs)) = Some (map (\<lambda>z. (z, g z)) zs)"
  using read_all_map [of zs read_permissions "\<lambda>z. permissions_json (g z)" g]
  by (simp add: comp_def zip_with_map)

lemma policy_fields [simp]:
  "get_field (zone_mode_policy c) ''zoneModeMatrix'' =
    JObj (map (\<lambda>z. (z, permissions_json (the (ZONE_MODE_MATRIX z)))) ZONES)"
  "get_field (zone_mode_policy c) ''mode2Actions'' = JArr (map JStr MODE2_ACTIONS)"
  "get_field (zone_mode_policy c) ''diagReadActions'' = JArr (map JStr DIAG_READ_ACTIONS)"
  "get_field (zone_mode_policy c) ''diagDisruptiveActions'' = JArr (map JStr DIAG_DISRUPTIVE_ACTIONS)"
  "get_field (zone_mode_policy c) ''diagRestrictedZones'' = JArr (map JStr DIAG_RESTRICTED_ZONES)"
  by (simp_all add: zone_mode_policy_def get_field_def)

lemma dom_matrix: "ZONE_MODE_MATRIX z \<noteq> None \<longleftrightarrow> z \<in> set ZONES"
  by (simp add: ZONE_MODE_MATRIX_def ZONES_def)

lemma map_of_rows: "map_of (rev (map (\<lambda>z. (z, the (f z))) zs)) z = (if z \<in> set zs then Some (the (f z)) else None)"
  by (induction zs) (auto simp: map_add_def split: option.splits)

lemma matrix_read_back: "map_of (rev (map (\<lambda>z. (z, the (ZONE_MODE_MATRIX z))) ZONES)) = ZONE_MODE_MATRIX"
  unfolding map_of_rows fun_eq_iff using dom_matrix by (metis option.collapse)

lemma wf_policy: "wf_json (zone_mode_policy c)" "clean (zone_mode_policy c) = zone_mode_policy c"
  by (simp_all add: zone_mode_policy_def permissions_json_def ZONES_def MODE2_ACTIONS_def DIAG_READ_ACTIONS_def
      DIAG_DISRUPTIVE_ACTIONS_def DIAG_RESTRICTED_ZONES_def)

lemma read_zone_mode_policy: "read_policy (zone_mode_policy c) = Some shared_policy"
  by (simp only: read_policy_def policy_fields read_matrix_map read_strings.simps read_all_strings prod.case
      option.case matrix_read_back shared_policy_def) (simp add: ZONES_def)

lemma load_shared_policy: "load_policy (Some (stringify (zone_mode_policy c))) = Some shared_policy"
  using json_parse_stringify [of "zone_mode_policy c"] by (simp add: load_policy_def wf_policy read_zone_mode_policy)

lemma list_ex_member [simp]: "list_ex (\<lambda>a. a = x) xs \<longleftrightarrow> List.member xs x"
  by (auto simp: list_ex_iff)

lemma shared_mode_allowed: "mode_allowed_in_zone shared_policy z m = isModeAllowedInZone z (edge_mode_text m)"
  by (cases m) (auto simp: mode_allowed_in_zone_def isModeAllowedInZone_def shared_policy_def split: option.splits)

lemma shared_infer_mode: "edge_mode_text (infer_mode shared_policy a) = inferMode a"
  by (simp add: infer_mode_def inferMode_def shared_policy_def DIAG_ACTIONS_def)

lemma shared_diag_allowed: "diag_disruptive_allowed shared_policy a z s = isDiagDisruptiveAllowed a z s"
  by (simp add: diag_disruptive_allowed_def isDiagDisruptiveAllowed_def isDiagDisruptive_def shared_policy_def)

text \<open>C31: The cloud and the vehicle decide by the same rules: the file that the contract writes is one the kernel
  starts with, and by what it read there the kernel allows a mode in a zone, classifies an action and lets
  a disruptive diagnosis through exactly as the contract's functions do, for every zone, mode and action
  (unknown ones included).\<close>

theorem gates_agree:
  "\<exists>policy. load_policy (Some (stringify (zone_mode_policy comment))) = Some policy \<and>
    (\<forall>zone mode. mode_allowed_in_zone policy zone mode = isModeAllowedInZone zone (edge_mode_text mode)) \<and>
    (\<forall>action. edge_mode_text (infer_mode policy action) = inferMode action) \<and>
    (\<forall>action zone still. diag_disruptive_allowed policy action zone still = isDiagDisruptiveAllowed action zone still)"
  using load_shared_policy [of comment] shared_mode_allowed shared_infer_mode shared_diag_allowed by blast

text \<open>The kernel does not start on less: no file, no JSON, a missing table, an empty matrix.\<close>

lemma policy_fails_closed:
  "load_policy None = None" "load_policy (Some ''[]'') = None"
  "read_matrix (get_field v ''zoneModeMatrix'') \<in> {None, Some []} \<Longrightarrow> read_policy v = None"
proof -
  show "load_policy None = None" by (simp add: load_policy_def)
  have "json_parse (stringify (JArr [])) = Some (JArr [])" by (subst json_parse_stringify) simp_all
  then show "load_policy (Some ''[]'') = None"
    by (simp add: load_policy_def read_policy_def get_field_def)
qed (auto simp: read_policy_def split: option.splits)

end
