(* ===== verification/Js_Number.thy ===== *)
theory Js_Number
  imports Identity Json Complex_Main
begin

text \<open>
  \<open>Number(s)\<close> of a text, as the settings of the services use it for ports: white space around it is
  ignored, the empty text is zero, and everything else is a number literal or not a number at all.
  Values are exact decimals where the language rounds to binary64. And \<open>toFixed\<close>, as the console uses it
  for the figures it shows.
\<close>

datatype js_num = NaN | Infinite bool | Fin dec

definition dec_zero :: "dec \<Rightarrow> bool" where
  "dec_zero d = (case d of Dec _ m _ \<Rightarrow> m = 0)"

text \<open>A value in base 2, 8 or 16.\<close>

definition based_value :: "nat \<Rightarrow> string \<Rightarrow> js_num" where
  "based_value b s =
    (let ds = map hex_val (map lower s) in
     if s \<noteq> [] \<and> list_all (\<lambda>d. d \<noteq> None \<and> the d < b) ds
     then Fin (mk_dec False (foldl (\<lambda>a d. b * a + the d) 0 ds) 0) else NaN)"

text \<open>What follows the digits: nothing, or an exponent.\<close>

definition exponent_of :: "string \<Rightarrow> int option" where
  "exponent_of s = (case p_exp s of Some (x, []) \<Rightarrow> Some x | _ \<Rightarrow> None)"

definition decimal_literal :: "bool \<Rightarrow> string \<Rightarrow> js_num" where
  "decimal_literal neg s =
    (let ip = takeWhile is_digit s; r = dropWhile is_digit s;
         dot = (r \<noteq> [] \<and> hd r = CHR ''.'');
         fp = (if dot then takeWhile is_digit (tl r) else []);
         rest = (if dot then dropWhile is_digit (tl r) else r) in
     if s = ''Infinity'' then Infinite neg
     else if ip = [] \<and> fp = [] then NaN
     else (case exponent_of rest of
         None \<Rightarrow> NaN
       | Some x \<Rightarrow> Fin (mk_dec neg (digits_val (ip @ fp)) (x - int (length fp)))))"

definition Number :: "string \<Rightarrow> js_num" where
  "Number text =
    (let s = trim text in
     if s = [] then Fin (mk_dec False 0 0)
     else if take 2 (map lower s) = ''0x'' then based_value 16 (drop 2 s)
     else if take 2 (map lower s) = ''0o'' then based_value 8 (drop 2 s)
     else if take 2 (map lower s) = ''0b'' then based_value 2 (drop 2 s)
     else if hd s = CHR ''-'' then decimal_literal True (tl s)
     else if hd s = CHR ''+'' then decimal_literal False (tl s)
     else decimal_literal False s)"

text \<open>\<open>Number(v) || d\<close>: what is missing, no number, or zero gives the default.\<close>

definition number_or :: "string option \<Rightarrow> nat \<Rightarrow> js_num" where
  "number_or v d =
    (case v of
       None \<Rightarrow> Fin (dec_of_int (int d))
     | Some s \<Rightarrow> (case Number s of
           NaN \<Rightarrow> Fin (dec_of_int (int d))
         | Infinite neg \<Rightarrow> Infinite neg
         | Fin x \<Rightarrow> if dec_zero x then Fin (dec_of_int (int d)) else Fin x))"

section \<open>Figures\<close>

text \<open>\<open>toFixed\<close>: the closest multiple, the larger of two.\<close>

definition to_fixed :: "nat \<Rightarrow> rat \<Rightarrow> string" where
  "to_fixed f x =
    (let m = nat_digits (nat \<lfloor>\<bar>x\<bar> * 10 ^ f + 1 / 2\<rfloor>);
         z = replicate (Suc f - length m) CHR ''0'' @ m;
         k = length z - f
     in (if x < 0 then ''-'' else []) @ take k z @ (if f = 0 then [] else CHR ''.'' # drop k z))"

text \<open>The value of a decimal.\<close>

definition dec_rat :: "dec \<Rightarrow> rat" where
  "dec_rat d = (case d of Dec neg m e \<Rightarrow>
     (if neg then - 1 else 1) * of_nat m * (if 0 \<le> e then 10 ^ nat e else 1 / 10 ^ nat (- e)))"

section \<open>A number in digits\<close>

lemma digit_not_space: "is_digit c \<Longrightarrow> \<not> is_js_space c"
  by (auto simp: is_digit_def is_js_space_def Let_def)

lemma digit_hd_not_sign: "is_digit c \<Longrightarrow> c \<noteq> CHR ''-'' \<and> c \<noteq> CHR ''+'' \<and> c \<noteq> CHR ''.'' \<and> c \<noteq> CHR ''I''"
  by (auto simp: is_digit_def)

lemma digit_lower: "is_digit c \<Longrightarrow> lower c \<noteq> CHR ''x'' \<and> lower c \<noteq> CHR ''o'' \<and> lower c \<noteq> CHR ''b''"
  by (auto simp: is_digit_def lower_def Let_def)

lemma Number_digits: "Number (nat_digits n) = Fin (dec_of_int (int n))"
proof -
  have d: "list_all is_digit (nat_digits n)" "nat_digits n \<noteq> []" using nat_digits_all by (simp_all add: list_all_iff)
  then have "list_all (\<lambda>c. \<not> is_js_space c) (nat_digits n)" by (auto simp: list_all_iff digit_not_space)
  then have t: "trim (nat_digits n) = nat_digits n" by (rule trim_id)
  have e: "takeWhile is_digit (nat_digits n) = nat_digits n" "dropWhile is_digit (nat_digits n) = []"
    using d(1) by (simp_all add: list_all_iff)
  obtain c cs where c: "nat_digits n = c # cs" using d(2) by (cases "nat_digits n") auto
  then have "is_digit c" "cs = [] \<or> is_digit (hd cs)" using d(1) by (cases cs; simp)+
  then have "take 2 (map lower (nat_digits n)) \<notin> {''0x'', ''0o'', ''0b''}" "hd (nat_digits n) \<noteq> CHR ''-''"
      "hd (nat_digits n) \<noteq> CHR ''+''" "nat_digits n \<noteq> ''Infinity''"
    using digit_hd_not_sign [of c] digit_lower [of "hd cs"] c by (cases cs; auto)+
  then show ?thesis
    using d(2) by (simp add: Number_def t e decimal_literal_def exponent_of_def p_exp_def Let_def dec_of_int_def)
qed

end
