(* ===== verification/Vehicle_Kernel.thy ===== *)
theory Vehicle_Kernel
  imports Policy_Artifact Js_Number Signing "HOL-Library.Word"
begin

text \<open>
  The safety kernel on the vehicle (\<open>edge/sim/src/main.rs\<close>): the second gate. Its state is what the tasks of
  the process share; a message of the broker, a tick of a timer and a pose from the bridge are functions
  from state to state, each given the reading \<open>now\<close> of the clock. Times and counters are \<open>u64\<close>, so they are
  words, and a sum wraps (a debug build would stop instead). What is handed to the actuation is kept in
  order, and what is published, but for the telemetry samples (their numbers are printed as \<open>f32\<close>). Parameters are
  the validators of the two JSON schemas, the check of an Ed25519 signature, the printing of a parsed
  document and of a number, and the rounding to \<open>f32\<close>; positions and speeds are exact, and a number is read by its
  value (\<open>serde\<close> does not take \<open>5.0\<close> for an integer; the cloud never writes it so). A step is not interrupted.
\<close>

type_synonym u64 = "64 word"

section \<open>Settings and state\<close>

record edge_env =
  edge_id :: vehicle_id
  edge_policy :: ZoneModePolicy
  command_schema :: "json \<Rightarrow> bool"
  zoneconfig_schema :: "json \<Rightarrow> bool"
  verify_b64 :: "string \<Rightarrow> string \<Rightarrow> bool"
  reserialise :: "json \<Rightarrow> string"
  f32 :: "rat \<Rightarrow> rat"
  f64_dec :: "rat \<Rightarrow> dec"
  four_places :: "rat \<Rightarrow> string"
  edge_is_aws :: bool

record ZoneState =
  zs_zone :: string
  zs_valid_until :: "u64 option"
  zs_valid_from :: "u64 option"
  zs_speed_limit :: "rat option"
  zs_revision :: u64

record edge_proposal =
  ep_proposal_id :: string
  ep_default :: string
  ep_deadline_ms :: u64
  ep_option_ids :: "string list"

record EventLog =
  boot_id :: string
  log_seq :: u64
  unsynced :: "json list"
  dropped :: u64

datatype actuation =
    ActState bool u64
  | ActCommand string string json u64

record kernel =
  kn_location :: "rat \<times> rat"
  kn_zone :: ZoneState
  kn_latched :: bool
  newest_token :: u64
  seen_acks :: "string \<Rightarrow> string option"
  seen_order :: "string list"
  last_contact :: u64
  watchdog_armed :: bool
  kn_proposal :: "edge_proposal option"
  kn_speed :: rat
  external_pose :: bool
  last_pose :: u64
  event_log :: EventLog
  broker_connected :: bool
  sync_outstanding :: "(u64 \<times> u64) option"
  last_deadman_ts :: u64
  kn_beats :: u64
  scenario_idx :: nat
  last_proposal_at :: u64
  actuated :: "actuation list"
  kn_outbox :: "(string \<times> string) list"

definition kernel_start :: "string \<Rightarrow> string \<Rightarrow> u64 \<Rightarrow> kernel" where
  "kernel_start seed boot now = \<lparr>kn_location = (473769 / 10000, 85417 / 10000),
     kn_zone = \<lparr>zs_zone = seed, zs_valid_until = None, zs_valid_from = None, zs_speed_limit = None, zs_revision = 0\<rparr>,
     kn_latched = False, newest_token = 0, seen_acks = Map.empty, seen_order = [], last_contact = now,
     watchdog_armed = False, kn_proposal = None, kn_speed = 0, external_pose = False, last_pose = 0,
     event_log = \<lparr>boot_id = boot, log_seq = 0, unsynced = [], dropped = 0\<rparr>, broker_connected = False,
     sync_outstanding = None, last_deadman_ts = 0, kn_beats = 0, scenario_idx = 0,
     last_proposal_at = 0, actuated = [], kn_outbox = []\<rparr>"

section \<open>Reading documents\<close>

definition text_of :: "json \<Rightarrow> string option" where
  "text_of v = read_string v"

definition as_u64 :: "json \<Rightarrow> u64 option" where
  "as_u64 v = (case v of
     JNum d \<Rightarrow> if dec_is_int d \<and> 0 \<le> int_of_dec d \<and> int_of_dec d < 2 ^ 64 then Some (word_of_int (int_of_dec d)) else None
   | _ \<Rightarrow> None)"

definition as_f64 :: "json \<Rightarrow> rat option" where
  "as_f64 v = (case v of JNum d \<Rightarrow> Some (dec_rat d) | _ \<Rightarrow> None)"

definition read_mode :: "json \<Rightarrow> EdgeMode option" where
  "read_mode v = (if v = JStr ''MODE1'' then Some MODE1 else if v = JStr ''MODE2'' then Some MODE2
     else if v = JStr ''DIAG'' then Some DIAG else None)"

definition u64_json :: "u64 \<Rightarrow> json" where
  "u64_json n = JInt (uint n)"

record edge_envelope =
  en_command_id :: string
  en_vehicle_id :: string
  en_mode :: EdgeMode
  en_issued_at :: u64
  en_timestamp :: u64
  en_ttl_ms :: u64
  en_payload :: json

definition read_envelope :: "json \<Rightarrow> edge_envelope option" where
  "read_envelope v =
    (case (text_of (get_field v ''commandId''), text_of (get_field v ''sessionId''), text_of (get_field v ''vehicleId''),
           text_of (get_field v ''issuer''), read_mode (get_field v ''mode''),
           text_of (get_field (get_field v ''token'') ''tokenId''), as_u64 (get_field (get_field v ''token'') ''issuedAt''),
           as_u64 (get_field v ''timestamp''), as_u64 (get_field v ''ttlMs'')) of
       (Some c, Some _, Some i, Some _, Some m, Some _, Some n, Some t, Some ttl) \<Rightarrow>
         if get_field v ''payload'' = JUndef then None
         else Some \<lparr>en_command_id = c, en_vehicle_id = i, en_mode = m, en_issued_at = n, en_timestamp = t,
           en_ttl_ms = ttl, en_payload = get_field v ''payload''\<rparr>
     | _ \<Rightarrow> None)"

text \<open>A text of the payload, \<open>unwrap_or("")\<close>.\<close>

definition text_or_empty :: "json \<Rightarrow> string" where
  "text_or_empty v = nullish (text_of v) []"

definition en_action :: "edge_envelope \<Rightarrow> string" where
  "en_action e = text_or_empty (get_field (en_payload e) ''action'')"

definition verify_signature :: "edge_env \<Rightarrow> json \<Rightarrow> bool" where
  "verify_signature K doc =
    (case doc of
       JObj _ \<Rightarrow> (case text_of (get_field doc ''signature'') of
           None \<Rightarrow> False
         | Some sig \<Rightarrow> verify_b64 K (reserialise K (without ''signature'' doc)) sig)
     | _ \<Rightarrow> False)"

section \<open>The zone\<close>

definition is_in_approved_territory :: "rat \<times> rat \<Rightarrow> bool" where
  "is_in_approved_territory p =
    (473700 / 10000 \<le> fst p \<and> fst p \<le> 473800 / 10000 \<and> 85300 / 10000 \<le> snd p \<and> snd p \<le> 85500 / 10000)"

definition current_zone_type :: "u64 \<Rightarrow> ZoneState \<Rightarrow> string" where
  "current_zone_type now zs =
    (if (case zs_valid_until zs of None \<Rightarrow> False | Some t \<Rightarrow> t < now) then ''public_approved_route''
     else if (case zs_valid_from zs of None \<Rightarrow> False | Some t \<Rightarrow> now < t) then ''public_approved_route''
     else zs_zone zs)"

definition active_permit_speed_limit :: "u64 \<Rightarrow> ZoneState \<Rightarrow> rat option" where
  "active_permit_speed_limit now zs = (if current_zone_type now zs = zs_zone zs then zs_speed_limit zs else None)"

definition effective_zone :: "u64 \<Rightarrow> rat \<times> rat \<Rightarrow> ZoneState \<Rightarrow> string" where
  "effective_zone now p zs = (if is_in_approved_territory p then current_zone_type now zs else ''out_of_tod'')"

section \<open>Acknowledgements and the event log\<close>

definition DEDUP_CAP :: nat where
  "DEDUP_CAP = 4096"

definition EVENT_LOG_CAP :: nat where
  "EVENT_LOG_CAP = 10000"

definition edge_topic :: "edge_env \<Rightarrow> string \<Rightarrow> string" where
  "edge_topic K channel = ''joppilot/v1/vehicles/'' @ edge_id K @ ''/'' @ channel"

definition shadow_prefix :: "edge_env \<Rightarrow> string" where
  "shadow_prefix K = ''$aws/things/'' @ edge_id K @ ''/shadow/name/zone-config''"

definition ack_json :: "string \<Rightarrow> string \<Rightarrow> string option \<Rightarrow> string" where
  "ack_json cid status reason =
    ''{\"commandId\":\"'' @ cid @ ''\",\"status\":\"'' @ status @ ''\"'' @
    (case reason of None \<Rightarrow> ''}'' | Some r \<Rightarrow> '',\"reason\":\"'' @ r @ ''\"}'')"

definition remember_ack :: "string \<Rightarrow> string \<Rightarrow> kernel \<Rightarrow> kernel" where
  "remember_ack cid ack s =
    (let s' = s\<lparr>seen_acks := (seen_acks s)(cid \<mapsto> ack)\<rparr> in
     if seen_acks s cid \<noteq> None then s'
     else let order = seen_order s @ [cid] in
       if DEDUP_CAP < length order
       then s'\<lparr>seen_order := tl order, seen_acks := (seen_acks s')(hd order := None)\<rparr>
       else s'\<lparr>seen_order := order\<rparr>)"

definition tell :: "string \<Rightarrow> string \<Rightarrow> kernel \<Rightarrow> kernel" where
  "tell topic text s = s\<lparr>kn_outbox := kn_outbox s @ [(topic, text)]\<rparr>"

text \<open>The answer to a command is stored under its id and sent.\<close>

definition answer_command :: "edge_env \<Rightarrow> string \<Rightarrow> string \<Rightarrow> kernel \<Rightarrow> kernel" where
  "answer_command K cid ack s = tell (edge_topic K ''command/ack'') ack (remember_ack cid ack s)"

definition accept :: "edge_env \<Rightarrow> string \<Rightarrow> kernel \<Rightarrow> kernel" where
  "accept K cid = answer_command K cid (ack_json cid ''ACK'' None)"

definition refuse :: "edge_env \<Rightarrow> string \<Rightarrow> string \<Rightarrow> kernel \<Rightarrow> kernel" where
  "refuse K reason cid = answer_command K cid (ack_json cid ''REJECTED'' (Some reason))"

definition record_event :: "edge_env \<Rightarrow> u64 \<Rightarrow> string \<Rightarrow> json \<Rightarrow> kernel \<Rightarrow> kernel" where
  "record_event K now kind details s =
    (let l = event_log s;
         n = log_seq l + 1;
         ev = JObj [(''vehicleId'', JStr (edge_id K)), (''bootId'', JStr (boot_id l)), (''seq'', u64_json n),
           (''timestamp'', u64_json now), (''type'', JStr kind), (''details'', details)];
         full = (EVENT_LOG_CAP \<le> length (unsynced l))
     in s\<lparr>event_log := l\<lparr>log_seq := n, unsynced := (if full then tl (unsynced l) else unsynced l) @ [ev],
          dropped := (if full then dropped l + 1 else dropped l)\<rparr>\<rparr>)"

definition actuate :: "actuation \<Rightarrow> kernel \<Rightarrow> kernel" where
  "actuate a s = s\<lparr>actuated := actuated s @ [a]\<rparr>"

definition place_json :: "edge_env \<Rightarrow> rat \<times> rat \<Rightarrow> (string \<times> json) list" where
  "place_json K p = [(''lat'', JNum (f64_dec K (fst p))), (''lng'', JNum (f64_dec K (snd p)))]"

text \<open>The latch and its record.\<close>

definition engage :: "edge_env \<Rightarrow> u64 \<Rightarrow> (string \<times> json) list \<Rightarrow> kernel \<Rightarrow> kernel" where
  "engage K now details s =
    record_event K now ''LATCH_ENGAGED'' (JObj details) (actuate (ActState True now) (s\<lparr>kn_latched := True\<rparr>))"

definition mark_cloud_contact :: "u64 \<Rightarrow> kernel \<Rightarrow> kernel" where
  "mark_cloud_contact now s = s\<lparr>last_contact := now, watchdog_armed := True\<rparr>"

section \<open>Commands\<close>

text \<open>A decision on a maneuver: the option it may name, and the one it stands for.\<close>

definition is_maneuver_decision :: "string \<Rightarrow> bool" where
  "is_maneuver_decision action = List.member [''CONFIRM_MANEUVER'', ''REJECT_MANEUVER'', ''SELECT_ALTERNATIVE''] action"

definition offered_option :: "string \<Rightarrow> string list \<Rightarrow> string option \<Rightarrow> bool" where
  "offered_option action option_ids selected =
    (if action = ''SELECT_ALTERNATIVE'' then (case selected of None \<Rightarrow> False | Some i \<Rightarrow> List.member option_ids i)
     else if action = ''CONFIRM_MANEUVER'' then (case selected of None \<Rightarrow> True | Some i \<Rightarrow> List.member option_ids i)
     else True)"

definition resolved_option :: "string \<Rightarrow> string list \<Rightarrow> string option \<Rightarrow> string" where
  "resolved_option action option_ids selected =
    (if action = ''CONFIRM_MANEUVER'' then (case selected of Some i \<Rightarrow> i | None \<Rightarrow> (case option_ids of [] \<Rightarrow> [] | i # _ \<Rightarrow> i))
     else if action = ''SELECT_ALTERNATIVE'' then nullish selected []
     else [])"

definition edge_status_json :: "edge_env \<Rightarrow> string \<Rightarrow> string \<Rightarrow> string option \<Rightarrow> u64 \<Rightarrow> json" where
  "edge_status_json K pid status opt now =
    JObj ([(''proposalId'', JStr pid), (''vehicleId'', JStr (edge_id K)), (''status'', JStr status)]
      @ (case opt of None \<Rightarrow> [] | Some i \<Rightarrow> [(''selectedOptionId'', JStr i)]) @ [(''timestamp'', u64_json now)])"

definition edge_decision :: "edge_env \<Rightarrow> u64 \<Rightarrow> edge_envelope \<Rightarrow> kernel \<Rightarrow> kernel" where
  "edge_decision K now e s =
    (let cid = en_command_id e; action = en_action e;
         wanted = text_or_empty (get_field (en_payload e) ''proposalId'');
         selected = text_of (get_field (en_payload e) ''optionId'') in
     case kn_proposal s of
       None \<Rightarrow> refuse K ''SCHEMA_INVALID'' cid s
     | Some p \<Rightarrow>
         if \<not> (ep_proposal_id p = wanted \<and> now < ep_deadline_ms p) then refuse K ''SCHEMA_INVALID'' cid s
         else if \<not> offered_option action (ep_option_ids p) selected then refuse K ''SCHEMA_INVALID'' cid s
         else
           (let r = resolved_option action (ep_option_ids p) selected in
            tell (edge_topic K ''maneuver/status'')
              (stringify (edge_status_json K wanted ''DECIDED'' (if r = [] then None else Some r) now))
              (accept K cid (actuate (ActCommand cid action (en_payload e) now) (s\<lparr>kn_proposal := None\<rparr>)))))"

text \<open>Zone and mode, the permit's speed limit, disruptive diagnostics; then the command is carried out.\<close>

definition zone_gate :: "edge_env \<Rightarrow> u64 \<Rightarrow> edge_envelope \<Rightarrow> kernel \<Rightarrow> kernel" where
  "zone_gate K now e s =
    (let cid = en_command_id e; action = en_action e;
         z = effective_zone now (kn_location s) (kn_zone s) in
     if z = ''out_of_tod'' \<and> en_mode e \<in> {MODE1, MODE2} then
       refuse K ''GEOFENCE_VIOLATION'' cid
         (engage K now ((''trigger'', JStr ''GEOFENCE'') # place_json K (kn_location s) @ [(''commandId'', JStr cid)]) s)
     else if \<not> mode_allowed_in_zone (edge_policy K) z (en_mode e) then refuse K ''MODE_MISMATCH'' cid s
     else if action = ''CREEP'' \<and> (case active_permit_speed_limit now (kn_zone s) of
         None \<Rightarrow> False
       | Some limit \<Rightarrow> limit < f32 K (nullish (as_f64 (get_field (en_payload e) ''speedKmh'')) 0))
     then refuse K ''PERMIT_SPEED_LIMIT'' cid s
     else if \<not> diag_disruptive_allowed (edge_policy K) action z (kn_speed s < 1 / 2)
     then refuse K ''DIAG_DEFERRED'' cid s
     else if is_maneuver_decision action then edge_decision K now e s
     else accept K cid (actuate (ActCommand cid action (en_payload e) now) s))"

text \<open>A stop: from the stop's own topic, or by its action.\<close>

definition is_estop :: "edge_env \<Rightarrow> string \<Rightarrow> edge_envelope \<Rightarrow> bool" where
  "is_estop K topic e = (topic = edge_topic K ''estop'' \<or> en_action e = ''E_STOP'')"

definition is_stop :: "edge_env \<Rightarrow> string \<Rightarrow> edge_envelope \<Rightarrow> bool" where
  "is_stop K topic e = (is_estop K topic e \<or> en_action e = ''SAFE_STOP'')"

definition carry_out_stop :: "edge_env \<Rightarrow> string \<Rightarrow> u64 \<Rightarrow> edge_envelope \<Rightarrow> kernel \<Rightarrow> kernel" where
  "carry_out_stop K topic now e s =
    (let kind = (if is_estop K topic e then ''E_STOP'' else ''SAFE_STOP'') in
     accept K (en_command_id e)
       (actuate (ActCommand (en_command_id e) kind (en_payload e) now)
         (engage K now [(''trigger'', JStr kind), (''commandId'', JStr (en_command_id e))] s)))"

text \<open>Target, time to live, fencing token, mode and latch.\<close>

definition admit :: "edge_env \<Rightarrow> string \<Rightarrow> u64 \<Rightarrow> edge_envelope \<Rightarrow> kernel \<Rightarrow> kernel" where
  "admit K topic now e s =
    (let cid = en_command_id e; action = en_action e in
     if en_vehicle_id e \<noteq> edge_id K then refuse K ''UNAUTHORIZED'' cid s
     else if \<not> is_stop K topic e \<and> en_timestamp e + en_ttl_ms e < now then refuse K ''TTL_EXPIRED'' cid s
     else if en_issued_at e < newest_token s then refuse K ''INVALID_TOKEN'' cid s
     else
       (let s1 = s\<lparr>newest_token := en_issued_at e\<rparr> in
        if is_stop K topic e then carry_out_stop K topic now e s1
        else if en_mode e \<noteq> infer_mode (edge_policy K) action then refuse K ''MODE_MISMATCH'' cid s1
        else if kn_latched s1 then
          (if action = ''CLEAR_SAFE_STOP''
           then accept K cid
             (record_event K now ''LATCH_RELEASED'' (JObj [(''commandId'', JStr cid)])
               (actuate (ActCommand cid action (en_payload e) now) (actuate (ActState False now) (s1\<lparr>kn_latched := False\<rparr>))))
           else refuse K ''SAFE_STOP_LATCHED'' cid s1)
        else if action = ''CLEAR_SAFE_STOP'' then accept K cid s1
        else zone_gate K now e s1))"

text \<open>Schema, signature and duplicates. A refusal before the signature is not stored.\<close>

definition handle_command :: "edge_env \<Rightarrow> string \<Rightarrow> u64 \<Rightarrow> string \<Rightarrow> kernel \<Rightarrow> kernel" where
  "handle_command K topic now text s =
    (case json_parse text of
       None \<Rightarrow> s
     | Some raw \<Rightarrow>
         (let cid = nullish (text_of (get_field raw ''commandId'')) ''unknown'';
              invalid = tell (edge_topic K ''command/ack'') (ack_json cid ''REJECTED'' (Some ''SCHEMA_INVALID'')) s in
          if \<not> command_schema K raw then invalid
          else if \<not> verify_signature K raw then invalid
          else (case read_envelope raw of
              None \<Rightarrow> mark_cloud_contact now s
            | Some e \<Rightarrow>
                (let s1 = mark_cloud_contact now s in
                 case seen_acks s1 (en_command_id e) of
                   Some prev \<Rightarrow> tell (edge_topic K ''command/ack'') prev s1
                 | None \<Rightarrow> admit K topic now e s1))))"

section \<open>Deadman pings, log acknowledgements and zone configurations\<close>

definition DEADMAN_FRESH_MS :: u64 where
  "DEADMAN_FRESH_MS = 10000"

definition handle_deadman :: "edge_env \<Rightarrow> u64 \<Rightarrow> string \<Rightarrow> kernel \<Rightarrow> kernel" where
  "handle_deadman K now text s =
    (case json_parse text of
       None \<Rightarrow> s
     | Some v \<Rightarrow>
         if \<not> verify_signature K v then s
         else if text_of (get_field v ''vehicleId'') \<noteq> Some (edge_id K) then s
         else (case as_u64 (get_field v ''timestamp'') of
             None \<Rightarrow> s
           | Some ts \<Rightarrow>
               if ts + DEADMAN_FRESH_MS < now \<or> now + DEADMAN_FRESH_MS < ts then s
               else if ts \<le> last_deadman_ts s then s
               else mark_cloud_contact now (s\<lparr>last_deadman_ts := ts\<rparr>)))"

definition seq_at_most :: "u64 \<Rightarrow> json \<Rightarrow> bool" where
  "seq_at_most up_to e = (case as_u64 (get_field e ''seq'') of None \<Rightarrow> False | Some n \<Rightarrow> n \<le> up_to)"

definition handle_logsync_ack :: "edge_env \<Rightarrow> u64 \<Rightarrow> string \<Rightarrow> kernel \<Rightarrow> kernel" where
  "handle_logsync_ack K now text s =
    (case json_parse text of
       None \<Rightarrow> s
     | Some v \<Rightarrow>
         if \<not> verify_signature K v then s
         else if text_of (get_field v ''vehicleId'') \<noteq> Some (edge_id K) then s
         else if text_of (get_field v ''bootId'') \<noteq> Some (boot_id (event_log s)) then s
         else (case as_u64 (get_field v ''upTo'') of
             None \<Rightarrow> s
           | Some up_to \<Rightarrow>
               (mark_cloud_contact now s)\<lparr>event_log := (event_log s)\<lparr>unsynced := dropWhile (seq_at_most up_to) (unsynced (event_log s))\<rparr>,
                 sync_outstanding := (case sync_outstanding s of
                     None \<Rightarrow> None
                   | Some (sent, at_ms) \<Rightarrow> if sent \<le> up_to then None else Some (sent, at_ms))\<rparr>))"

text \<open>The document of a zone message: bare on the local topic, inside the shadow's envelope in the cloud.\<close>

definition zone_config_of :: "edge_env \<Rightarrow> string \<Rightarrow> json \<Rightarrow> json option" where
  "zone_config_of K topic raw =
    (if starts_with topic (shadow_prefix K) then
       (let desired = get_field (get_field (get_field raw ''state'') ''desired'') ''config'';
            bare = get_field (get_field raw ''state'') ''config'' in
        if desired \<noteq> JUndef then Some desired else if bare \<noteq> JUndef then Some bare else None)
     else Some raw)"

definition zone_state_of :: "edge_env \<Rightarrow> json \<Rightarrow> ZoneState" where
  "zone_state_of K doc =
    \<lparr>zs_zone = text_or_empty (get_field doc ''zone''),
     zs_valid_until = as_u64 (get_field (get_field doc ''permit'') ''validUntil''),
     zs_valid_from = as_u64 (get_field (get_field doc ''permit'') ''validFrom''),
     zs_speed_limit = map_option (f32 K) (as_f64 (get_field (get_field doc ''permit'') ''speedLimitKmh'')),
     zs_revision = nullish (as_u64 (get_field doc ''revision'')) 0\<rparr>"

definition handle_zone_config :: "edge_env \<Rightarrow> string \<Rightarrow> u64 \<Rightarrow> string \<Rightarrow> kernel \<Rightarrow> kernel" where
  "handle_zone_config K topic now text s =
    (case Option.bind (json_parse text) (zone_config_of K topic) of
       None \<Rightarrow> s
     | Some doc \<Rightarrow>
         if \<not> zoneconfig_schema K doc then s
         else if \<not> verify_signature K doc then s
         else if text_of (get_field doc ''vehicleId'') \<noteq> Some (edge_id K) then s
         else
           (let zs = zone_state_of K doc; s1 = mark_cloud_contact now s in
            if zs_revision zs \<le> zs_revision (kn_zone s) then s1
            else
              (let s2 = record_event K now ''ZONE_CONFIG_APPLIED''
                     (JObj [(''zone'', JStr (zs_zone zs)), (''revision'', u64_json (zs_revision zs))]) (s1\<lparr>kn_zone := zs\<rparr>) in
               if edge_is_aws K
               then tell (shadow_prefix K @ ''/update'')
                 (reserialise K (JObj [(''state'', JObj [(''reported'', JObj [(''config'', doc)])])])) s2
               else s2)))"

text \<open>A message of the broker, by its topic.\<close>

definition on_edge_message :: "edge_env \<Rightarrow> string \<Rightarrow> u64 \<Rightarrow> string \<Rightarrow> kernel \<Rightarrow> kernel" where
  "on_edge_message K topic now text s =
    (if topic = edge_topic K ''deadman'' then handle_deadman K now text s
     else if topic = edge_topic K ''logsync/ack'' then handle_logsync_ack K now text s
     else if topic = edge_topic K ''zone-config'' \<or> starts_with topic (shadow_prefix K)
     then handle_zone_config K topic now text s
     else handle_command K topic now text s)"

section \<open>The tasks beside the message loop\<close>

definition watchdog_tick :: "edge_env \<Rightarrow> u64 \<Rightarrow> kernel \<Rightarrow> kernel" where
  "watchdog_tick K now s =
    (if \<not> watchdog_armed s then s
     else if last_contact s + 3000 < now \<and> \<not> kn_latched s
     then engage K now [(''trigger'', JStr ''WATCHDOG''), (''silentMs'', u64_json (now - last_contact s))] s
     else s)"

definition pose_tick :: "edge_env \<Rightarrow> u64 \<Rightarrow> kernel \<Rightarrow> kernel" where
  "pose_tick K now s =
    (if \<not> external_pose s then s
     else if last_pose s + 3000 < now \<and> \<not> kn_latched s then engage K now [(''trigger'', JStr ''POSE_SILENCE'')] s
     else s)"

text \<open>A line of the bridge: a pose with both coordinates, and a speed when it names one.\<close>

definition on_pose :: "edge_env \<Rightarrow> u64 \<Rightarrow> string \<Rightarrow> kernel \<Rightarrow> kernel" where
  "on_pose K now line s =
    (case json_parse line of
       None \<Rightarrow> s
     | Some v \<Rightarrow>
         if text_of (get_field v ''type'') \<noteq> Some ''pose'' then s
         else (case (as_f64 (get_field v ''lat''), as_f64 (get_field v ''lng'')) of
             (Some lat, Some lng) \<Rightarrow>
               s\<lparr>kn_location := (lat, lng),
                 kn_speed := (case as_f64 (get_field v ''speedKmh'') of None \<Rightarrow> kn_speed s | Some x \<Rightarrow> f32 K x),
                 last_pose := now, external_pose := True\<rparr>
           | _ \<Rightarrow> s))"

text \<open>The telemetry loop: the motion the process simulates for itself, and the geofence. Where the simulated
  vehicle goes and how fast is an argument; it holds still while latched, is capped by the permit, and
  gives way to the bridge.\<close>

definition motion_step :: "edge_env \<Rightarrow> u64 \<Rightarrow> rat \<times> rat \<Rightarrow> rat \<Rightarrow> kernel \<Rightarrow> kernel" where
  "motion_step K now p speed s =
    (if external_pose s then s
     else
       (let v = (if kn_latched s then 0 else speed);
            capped = (case active_permit_speed_limit now (kn_zone s) of None \<Rightarrow> v | Some limit \<Rightarrow> min v limit) in
        s\<lparr>kn_speed := capped, kn_location := (if kn_latched s then kn_location s else p)\<rparr>))"

definition geofence_step :: "edge_env \<Rightarrow> u64 \<Rightarrow> kernel \<Rightarrow> kernel" where
  "geofence_step K now s =
    (if effective_zone now (kn_location s) (kn_zone s) = ''out_of_tod'' \<and> \<not> kn_latched s
     then engage K now ((''trigger'', JStr ''GEOFENCE'') # place_json K (kn_location s))
       (if external_pose s then s else s\<lparr>kn_speed := 0\<rparr>)
     else s)"

text \<open>The heartbeat, and with it the state of the latch for the bridge.\<close>

definition heartbeat_json :: "edge_env \<Rightarrow> u64 \<Rightarrow> kernel \<Rightarrow> json" where
  "heartbeat_json K now s =
    JObj [(''vehicleId'', JStr (edge_id K)), (''timestamp'', u64_json now), (''seq'', u64_json (kn_beats s)),
      (''healthy'', JBool (\<not> kn_latched s)), (''vehicleState'', JStr (if kn_latched s then ''SAFE_STOPPED'' else ''IDLE'')),
      (''currentZone'', JStr (effective_zone now (kn_location s) (kn_zone s))), (''latched'', JBool (kn_latched s))]"

definition kernel_heartbeat :: "edge_env \<Rightarrow> u64 \<Rightarrow> kernel \<Rightarrow> kernel" where
  "kernel_heartbeat K now s =
    (let s1 = actuate (ActState (kn_latched s) now) (s\<lparr>kn_beats := kn_beats s + 1\<rparr>) in
     tell (edge_topic K ''heartbeat'') (stringify (heartbeat_json K now s1)) s1)"

text \<open>The event log goes out in batches of a hundred, and again every five seconds until it is confirmed.\<close>

definition drain_tick :: "edge_env \<Rightarrow> u64 \<Rightarrow> bool \<Rightarrow> kernel \<Rightarrow> kernel" where
  "drain_tick K now sent_ok s =
    (let batch = take 100 (unsynced (event_log s)) in
     if \<not> broker_connected s then s
     else if (case sync_outstanding s of None \<Rightarrow> False | Some (sent, at_ms) \<Rightarrow> now < at_ms + 5000) then s
     else if batch = [] then s\<lparr>sync_outstanding := None\<rparr>
     else if \<not> sent_ok then s
     else (tell (edge_topic K ''logsync'') (reserialise K (JObj [(''vehicleId'', JStr (edge_id K)), (''events'', JArr batch)])) s)
       \<lparr>sync_outstanding := Some (nullish (as_u64 (get_field (last batch) ''seq'')) 0, now)\<rparr>)"

text \<open>Maneuver proposals: one at a time and at most one in two minutes, never while latched. An expired one
  is closed with its safe default. The id of a new one is an argument.\<close>

definition scenarios :: "(string \<times> string \<times> string) list" where
  "scenarios =
    [(''OBSTACLE'', ''Stationary obstacle detected on planned path'', ''CAM_FRONT''),
     (''PEDESTRIAN_CONFLICT'', ''Pedestrian group near collection point'', ''LIDAR_FRONT''),
     (''ROAD_BLOCKED'', ''Parked vehicle blocking the route'', ''CAM_FRONT'')]"

definition PROPOSAL_MIN_GAP_MS :: u64 where
  "PROPOSAL_MIN_GAP_MS = 120000"

definition edge_options :: "string \<Rightarrow> string list" where
  "edge_options pid = [''opt-'' @ take 8 pid @ ''-a'', ''opt-'' @ take 8 pid @ ''-b'']"

definition edge_proposal_json :: "edge_env \<Rightarrow> u64 \<Rightarrow> string \<Rightarrow> kernel \<Rightarrow> json" where
  "edge_proposal_json K now pid s =
    (let (reason, summary, sensor) = scenarios ! (scenario_idx s mod length scenarios);
         offer = (\<lambda>oid description result. JObj [(''optionId'', JStr oid), (''description'', JStr description), (''expectedResult'', JStr result)]) in
     JObj [(''proposalId'', JStr pid), (''vehicleId'', JStr (edge_id K)), (''reasonCode'', JStr reason),
       (''context'', JObj [(''sceneSummary'', JStr (summary @ '' at ('' @ four_places K (fst (kn_location s)) @ '', '' @
           four_places K (snd (kn_location s)) @ '')'')), (''sensorRefs'', JArr [JStr sensor])]),
       (''options'', JArr [offer (edge_options pid ! 0) ''Reroute around obstacle'' ''Continue mission with +2min delay'',
           offer (edge_options pid ! 1) ''Wait and retry after 60s'' ''Pause at current position, retry approach'']),
       (''validityWindowMs'', JInt 30000), (''defaultOnTimeout'', JStr (edge_options pid ! 1)), (''timestamp'', u64_json now)])"

definition expire_proposal :: "edge_env \<Rightarrow> u64 \<Rightarrow> edge_proposal \<Rightarrow> kernel \<Rightarrow> kernel" where
  "expire_proposal K now p s =
    tell (edge_topic K ''maneuver/status'')
      (stringify (edge_status_json K (ep_proposal_id p) ''TIMED_OUT'' (Some (ep_default p)) now)) (s\<lparr>kn_proposal := None\<rparr>)"

definition offer_proposal :: "edge_env \<Rightarrow> u64 \<Rightarrow> string \<Rightarrow> kernel \<Rightarrow> kernel" where
  "offer_proposal K now pid s =
    tell (edge_topic K ''maneuver/status'') (stringify (edge_status_json K pid ''PENDING'' None now))
      (tell (edge_topic K ''maneuver/proposal'') (stringify (edge_proposal_json K now pid s))
        (s\<lparr>kn_proposal := Some \<lparr>ep_proposal_id = pid, ep_default = edge_options pid ! 1, ep_deadline_ms = now + 30000,
             ep_option_ids = edge_options pid\<rparr>,
           scenario_idx := scenario_idx s + 1, last_proposal_at := now\<rparr>))"

definition generator_tick :: "edge_env \<Rightarrow> u64 \<Rightarrow> string \<Rightarrow> kernel \<Rightarrow> kernel" where
  "generator_tick K now pid s =
    (if kn_latched s then s
     else (case kn_proposal s of
         Some p \<Rightarrow> if ep_deadline_ms p \<le> now then expire_proposal K now p s else s
       | None \<Rightarrow>
           if now < last_proposal_at s + PROPOSAL_MIN_GAP_MS then s else offer_proposal K now pid s))"

section \<open>Runs\<close>

datatype kernel_event =
    Arrives string string
  | WatchdogTick
  | PoseTick
  | PoseLine string
  | TelemetryTick "rat \<times> rat" rat
  | HeartbeatTick
  | DrainTick bool
  | ProposalTick string
  | LinkUp
  | LinkDown

fun kernel_step :: "edge_env \<Rightarrow> u64 \<times> kernel_event \<Rightarrow> kernel \<Rightarrow> kernel" where
  "kernel_step K (now, Arrives topic text) s = on_edge_message K topic now text s"
| "kernel_step K (now, WatchdogTick) s = watchdog_tick K now s"
| "kernel_step K (now, PoseTick) s = pose_tick K now s"
| "kernel_step K (now, PoseLine line) s = on_pose K now line s"
| "kernel_step K (now, TelemetryTick p v) s = geofence_step K now (motion_step K now p v s)"
| "kernel_step K (now, HeartbeatTick) s = kernel_heartbeat K now s"
| "kernel_step K (now, DrainTick ok) s = drain_tick K now ok s"
| "kernel_step K (now, ProposalTick pid) s = generator_tick K now pid s"
| "kernel_step K (now, LinkUp) s = s\<lparr>broker_connected := True\<rparr>"
| "kernel_step K (now, LinkDown) s = s\<lparr>broker_connected := False\<rparr>"

definition kernel_run :: "edge_env \<Rightarrow> (u64 \<times> kernel_event) list \<Rightarrow> kernel \<Rightarrow> kernel" where
  "kernel_run K evs s = fold (kernel_step K) evs s"

end
