(* ===== verification/Vehicle_Safety.thy ===== *)
theory Vehicle_Safety
  imports Vehicle_Kernel
begin

text \<open>
  What the kernel guarantees by itself, whatever arrives: which commands reach the actuation, what the latch
  holds against, and that a command is carried out once.
\<close>

section \<open>What each step touches\<close>

lemma kernel_frame [simp]:
  "kn_latched (tell t x s) = kn_latched s" "actuated (tell t x s) = actuated s"
  "kn_latched (remember_ack c a s) = kn_latched s" "actuated (remember_ack c a s) = actuated s"
  "kn_latched (answer_command K c a s) = kn_latched s" "actuated (answer_command K c a s) = actuated s"
  "kn_latched (record_event K now k d s) = kn_latched s" "actuated (record_event K now k d s) = actuated s"
  "kn_latched (mark_cloud_contact now s) = kn_latched s" "actuated (mark_cloud_contact now s) = actuated s"
  "kn_latched (actuate b s) = kn_latched s" "actuated (actuate b s) = actuated s @ [b]"
  "kn_latched (engage K now ds s)" "actuated (engage K now ds s) = actuated s @ [ActState True now]"
  "kn_latched (accept K c s) = kn_latched s" "actuated (accept K c s) = actuated s"
  "kn_latched (refuse K r c s) = kn_latched s" "actuated (refuse K r c s) = actuated s"
  by (simp_all add: tell_def remember_ack_def answer_command_def record_event_def mark_cloud_contact_def actuate_def engage_def
      accept_def refuse_def Let_def)

lemma contact_frame [simp]:
  "seen_acks (mark_cloud_contact now s) = seen_acks s" "newest_token (mark_cloud_contact now s) = newest_token s"
  "kn_zone (mark_cloud_contact now s) = kn_zone s" "kn_location (mark_cloud_contact now s) = kn_location s"
  "kn_speed (mark_cloud_contact now s) = kn_speed s" "kn_proposal (mark_cloud_contact now s) = kn_proposal s"
  by (simp_all add: mark_cloud_contact_def)

section \<open>Commands that are carried out\<close>

text \<open>The conditions under which a message is a command that may be carried out in a state: all of the second gate.\<close>

definition signed_command :: "edge_env \<Rightarrow> string \<Rightarrow> edge_envelope \<Rightarrow> bool" where
  "signed_command K body e =
    (\<exists>raw. json_parse body = Some raw \<and> command_schema K raw \<and> verify_signature K raw \<and> read_envelope raw = Some e \<and>
       en_vehicle_id e = edge_id K)"

definition zone_now :: "u64 \<Rightarrow> kernel \<Rightarrow> string" where
  "zone_now now s = effective_zone now (kn_location s) (kn_zone s)"

definition passes_zone :: "edge_env \<Rightarrow> u64 \<Rightarrow> edge_envelope \<Rightarrow> kernel \<Rightarrow> bool" where
  "passes_zone K now e s =
    (mode_allowed_in_zone (edge_policy K) (zone_now now s) (en_mode e) \<and>
     (en_mode e = DIAG \<or> zone_now now s \<noteq> ''out_of_tod'') \<and>
     diag_disruptive_allowed (edge_policy K) (en_action e) (zone_now now s) (kn_speed s < 1 / 2))"

definition may_carry_out :: "edge_env \<Rightarrow> string \<Rightarrow> u64 \<Rightarrow> edge_envelope \<Rightarrow> kernel \<Rightarrow> bool" where
  "may_carry_out K topic now e s =
    (newest_token s \<le> en_issued_at e \<and> seen_acks s (en_command_id e) = None \<and>
     (is_stop K topic e \<or>
      now \<le> en_timestamp e + en_ttl_ms e \<and> en_mode e = infer_mode (edge_policy K) (en_action e) \<and>
      (if kn_latched s then en_action e = ''CLEAR_SAFE_STOP'' else passes_zone K now e s)))"

lemma decision_acts:
  "actuated (edge_decision K now e s) = actuated s \<or>
   actuated (edge_decision K now e s) = actuated s @ [ActCommand (en_command_id e) (en_action e) (en_payload e) now]"
  by (simp add: edge_decision_def Let_def split: option.split)

lemma EdgeMode_cases2: "m \<notin> {MODE1, MODE2} \<longleftrightarrow> m = DIAG"
  by (cases m) simp_all

lemma zone_gate_acts:
  "actuated (zone_gate K now e s) \<in> {actuated s, actuated s @ [ActState True now]} \<or>
   passes_zone K now e s \<and>
   actuated (zone_gate K now e s) = actuated s @ [ActCommand (en_command_id e) (en_action e) (en_payload e) now]"
  using decision_acts [of K now e s] EdgeMode_cases2 [of "en_mode e"]
  by (auto simp: zone_gate_def passes_zone_def zone_now_def Let_def)

definition carried :: "edge_env \<Rightarrow> string \<Rightarrow> edge_envelope \<Rightarrow> string" where
  "carried K topic e = (if is_estop K topic e then ''E_STOP'' else if is_stop K topic e then ''SAFE_STOP'' else en_action e)"

lemma admit_acts:
  assumes "seen_acks s (en_command_id e) = None"
  shows "\<exists>new. actuated (admit K topic now e s) = actuated s @ new \<and>
    (\<forall>c a p t. ActCommand c a p t \<in> set new \<longrightarrow>
      en_vehicle_id e = edge_id K \<and> may_carry_out K topic now e s \<and>
      c = en_command_id e \<and> a = carried K topic e \<and> p = en_payload e \<and> t = now)"
  using zone_gate_acts [of K now e "s\<lparr>newest_token := en_issued_at e\<rparr>"] assms
  by (auto simp: admit_def carry_out_stop_def may_carry_out_def carried_def passes_zone_def zone_now_def is_stop_def Let_def
      not_less)

lemma zone_config_acts [simp]:
  "actuated (handle_zone_config K topic now body s) = actuated s"
  "kn_latched (handle_zone_config K topic now body s) = kn_latched s"
  by (simp_all add: handle_zone_config_def Let_def split: option.split)

lemma deadman_acts [simp]:
  "actuated (handle_deadman K now body s) = actuated s" "kn_latched (handle_deadman K now body s) = kn_latched s"
  by (simp_all add: handle_deadman_def split: option.split)

lemma logsync_acts [simp]:
  "actuated (handle_logsync_ack K now body s) = actuated s" "kn_latched (handle_logsync_ack K now body s) = kn_latched s"
  by (simp_all add: handle_logsync_ack_def split: option.split)

lemma task_acts [simp]:
  "actuated (on_pose K now line s) = actuated s" "kn_latched (on_pose K now line s) = kn_latched s"
  "actuated (motion_step K now p v s) = actuated s" "kn_latched (motion_step K now p v s) = kn_latched s"
  "actuated (drain_tick K now ok s) = actuated s" "kn_latched (drain_tick K now ok s) = kn_latched s"
  "actuated (generator_tick K now pid s) = actuated s" "kn_latched (generator_tick K now pid s) = kn_latched s"
  "actuated (kernel_heartbeat K now s) = actuated s @ [ActState (kn_latched s) now]"
  "kn_latched (kernel_heartbeat K now s) = kn_latched s"
  by (simp_all add: on_pose_def motion_step_def drain_tick_def generator_tick_def offer_proposal_def expire_proposal_def
      kernel_heartbeat_def Let_def
      split: option.split)

lemma latching_acts:
  "actuated (watchdog_tick K now s) \<in> {actuated s, actuated s @ [ActState True now]}"
  "actuated (pose_tick K now s) \<in> {actuated s, actuated s @ [ActState True now]}"
  "actuated (geofence_step K now s) \<in> {actuated s, actuated s @ [ActState True now]}"
  by (simp_all add: watchdog_tick_def pose_tick_def geofence_step_def)

lemma latching_latches [intro]:
  "kn_latched s \<Longrightarrow> kn_latched (watchdog_tick K now s)" "kn_latched s \<Longrightarrow> kn_latched (pose_tick K now s)"
  "kn_latched s \<Longrightarrow> kn_latched (geofence_step K now s)"
  by (simp_all add: watchdog_tick_def pose_tick_def geofence_step_def)

text \<open>A message that is a new command goes to \<open>admit\<close>; every other message leaves actuation and latch alone.\<close>

definition command_arrives :: "edge_env \<Rightarrow> string \<Rightarrow> string \<Rightarrow> edge_envelope \<Rightarrow> kernel \<Rightarrow> bool" where
  "command_arrives K topic body e s =
    (topic \<noteq> edge_topic K ''deadman'' \<and> topic \<noteq> edge_topic K ''logsync/ack'' \<and> topic \<noteq> edge_topic K ''zone-config'' \<and>
     \<not> starts_with topic (shadow_prefix K) \<and> seen_acks s (en_command_id e) = None \<and>
     (\<exists>raw. json_parse body = Some raw \<and> command_schema K raw \<and> verify_signature K raw \<and> read_envelope raw = Some e))"

lemma kernel_message_cases:
  obtains (quiet) "actuated (on_edge_message K topic now body s) = actuated s"
      "kn_latched (on_edge_message K topic now body s) = kn_latched s"
      "\<And>e. \<not> command_arrives K topic body e s"
  | (command) e where "command_arrives K topic body e s"
      "on_edge_message K topic now body s = admit K topic now e (mark_cloud_contact now s)"
proof (cases "\<exists>e. command_arrives K topic body e s")
  case True
  then obtain e where e: "command_arrives K topic body e s" ..
  then have "on_edge_message K topic now body s = admit K topic now e (mark_cloud_contact now s)"
    by (auto simp: command_arrives_def on_edge_message_def handle_command_def)
  with e show ?thesis by (rule command)
next
  case False
  have n: "\<exists>ack. seen_acks s (en_command_id e) = Some ack" if "json_parse body = Some raw" "command_schema K raw"
      "verify_signature K raw" "read_envelope raw = Some e" "topic \<noteq> edge_topic K ''deadman''"
      "topic \<noteq> edge_topic K ''logsync/ack''" "topic \<noteq> edge_topic K ''zone-config''" "\<not> starts_with topic (shadow_prefix K)"
    for raw e
    using False that by (auto simp: command_arrives_def)
  show ?thesis
  proof (rule quiet)
    show "actuated (on_edge_message K topic now body s) = actuated s"
      using n by (force simp: on_edge_message_def handle_command_def Let_def split: option.split)
    show "kn_latched (on_edge_message K topic now body s) = kn_latched s"
      using n by (force simp: on_edge_message_def handle_command_def Let_def split: option.split)
    show "\<And>e. \<not> command_arrives K topic body e s" using False by blast
  qed
qed

lemma may_carry_out_contact [simp]:
  "may_carry_out K topic now e (mark_cloud_contact now' s) = may_carry_out K topic now e s"
  by (simp add: may_carry_out_def passes_zone_def zone_now_def)

lemma step_acts:
  "\<exists>new. actuated (kernel_step K (now, ev) s) = actuated s @ new \<and>
    (\<forall>c a p t. ActCommand c a p t \<in> set new \<longrightarrow> t = now \<and>
      (\<exists>topic body e. ev = Arrives topic body \<and> signed_command K body e \<and> may_carry_out K topic now e s \<and>
        c = en_command_id e \<and> a = carried K topic e \<and> p = en_payload e))"
proof (cases ev)
  case (Arrives topic body)
  show ?thesis
  proof (cases rule: kernel_message_cases [of K topic now body s])
    case quiet
    then show ?thesis by (intro exI [of _ "[]"]) (simp add: Arrives)
  next
    case (command e)
    then have "seen_acks (mark_cloud_contact now s) (en_command_id e) = None" by (simp add: command_arrives_def)
    from admit_acts [OF this, of K topic now] obtain new where
      new: "actuated (admit K topic now e (mark_cloud_contact now s)) = actuated s @ new"
        "\<And>c a p t. ActCommand c a p t \<in> set new \<Longrightarrow> en_vehicle_id e = edge_id K \<and> may_carry_out K topic now e s \<and>
          c = en_command_id e \<and> a = carried K topic e \<and> p = en_payload e \<and> t = now" by auto
    from command(1) have "en_vehicle_id e = edge_id K \<Longrightarrow> signed_command K body e"
      by (auto simp: command_arrives_def signed_command_def)
    with new(2) have "\<forall>c a p t. ActCommand c a p t \<in> set new \<longrightarrow> t = now \<and>
        (\<exists>tp tx d. ev = Arrives tp tx \<and> signed_command K tx d \<and> may_carry_out K tp now d s \<and>
          c = en_command_id d \<and> a = carried K tp d \<and> p = en_payload d)"
      using Arrives by blast
    moreover have "actuated (kernel_step K (now, ev) s) = actuated s @ new" using new(1) command(2) by (simp add: Arrives)
    ultimately show ?thesis by blast
  qed
next
  case (TelemetryTick p v)
  show ?thesis
    using latching_acts(3) [of K now "motion_step K now p v s"] by (auto simp: TelemetryTick)
qed (use latching_acts [of K now s] in auto)

lemma run_append_step: "kernel_run K (evs @ [x]) s = kernel_step K x (kernel_run K evs s)"
  by (simp add: kernel_run_def)

text \<open>C4: Nothing is carried out on the vehicle that did not pass the second gate: in every run of the kernel,
  whatever arrives, a command in the hands of the actuation came from a message with a valid document,
  a valid signature and this vehicle as its target, which was new and whose fencing token was not
  stale at that moment; and unless it is a stop it was in time, in the mode of its action, and either
  releases the latch or found it open in a zone whose rules allow the mode and the action.\<close>

theorem actuation_is_gated:
  assumes "ActCommand cid action payload now \<in> set (actuated (kernel_run K evs (kernel_start seed boot t0)))"
  shows "\<exists>before topic body after e. evs = before @ (now, Arrives topic body) # after \<and>
    signed_command K body e \<and> may_carry_out K topic now e (kernel_run K before (kernel_start seed boot t0)) \<and>
    cid = en_command_id e \<and> action = carried K topic e \<and> payload = en_payload e"
  using assms
proof (induction evs rule: rev_induct)
  case Nil
  then show ?case by (simp add: kernel_run_def kernel_start_def)
next
  case (snoc x evs)
  obtain t ev where x: "x = (t, ev)" by (cases x)
  let ?s = "kernel_run K evs (kernel_start seed boot t0)"
  obtain new where new: "actuated (kernel_step K (t, ev) ?s) = actuated ?s @ new"
      "\<And>c a p n. ActCommand c a p n \<in> set new \<Longrightarrow> n = t \<and>
        (\<exists>topic body e. ev = Arrives topic body \<and> signed_command K body e \<and> may_carry_out K topic t e ?s \<and>
          c = en_command_id e \<and> a = carried K topic e \<and> p = en_payload e)"
    using step_acts [of K t ev ?s] by auto
  show ?case
  proof (cases "ActCommand cid action payload now \<in> set new")
    case True
    from new(2) [OF this] show ?thesis unfolding x by blast
  next
    case False
    with snoc.prems new(1) have "ActCommand cid action payload now \<in> set (actuated ?s)"
      by (simp add: run_append_step x)
    from snoc.IH [OF this] show ?thesis by (metis append.assoc append_Cons)
  qed
qed

section \<open>The latch\<close>

lemma admit_latch:
  assumes "kn_latched s"
  shows "kn_latched (admit K topic now e s) \<or>
    en_vehicle_id e = edge_id K \<and> newest_token s \<le> en_issued_at e \<and> now \<le> en_timestamp e + en_ttl_ms e \<and>
    en_action e = ''CLEAR_SAFE_STOP''"
  using assms by (auto simp: admit_def carry_out_stop_def Let_def not_less)

text \<open>The release of the latch: a signed \<open>CLEAR_SAFE_STOP\<close> for this vehicle, in time, of the newest token.\<close>

definition clears :: "edge_env \<Rightarrow> string \<Rightarrow> u64 \<Rightarrow> kernel \<Rightarrow> bool" where
  "clears K body now s =
    (\<exists>e. signed_command K body e \<and> en_action e = ''CLEAR_SAFE_STOP'' \<and> newest_token s \<le> en_issued_at e \<and>
       now \<le> en_timestamp e + en_ttl_ms e)"

lemma step_latch:
  assumes "kn_latched s" "\<not> kn_latched (kernel_step K (now, ev) s)"
  shows "\<exists>topic body. ev = Arrives topic body \<and> clears K body now s"
proof (cases ev)
  case (Arrives topic body)
  show ?thesis
  proof (cases rule: kernel_message_cases [of K topic now body s])
    case quiet
    with assms show ?thesis by (simp add: Arrives)
  next
    case (command e)
    have "kn_latched (mark_cloud_contact now s)" using assms(1) by simp
    from admit_latch [OF this, of K topic now e] command assms(2) show ?thesis
      by (auto simp: Arrives clears_def signed_command_def command_arrives_def)
  qed
qed (use assms in \<open>auto intro: latching_latches\<close>)

lemma run_latch:
  assumes "kn_latched s" "\<not> kn_latched (kernel_run K evs s)"
  shows "\<exists>before now topic body after. evs = before @ (now, Arrives topic body) # after \<and>
    clears K body now (kernel_run K before s)"
  using assms(2)
proof (induction evs rule: rev_induct)
  case Nil
  with assms(1) show ?case by (simp add: kernel_run_def)
next
  case (snoc x evs)
  obtain t ev where x: "x = (t, ev)" by (cases x)
  show ?case
  proof (cases "kn_latched (kernel_run K evs s)")
    case True
    with snoc.prems step_latch [OF True, of K t ev] obtain topic body where
      "ev = Arrives topic body" "clears K body t (kernel_run K evs s)" by (auto simp: run_append_step x)
    then have "evs @ [x] = evs @ (t, Arrives topic body) # [] \<and> clears K body t (kernel_run K evs s)" by (simp add: x)
    then show ?thesis by blast
  next
    case False
    from snoc.IH [OF this] show ?thesis by (metis append.assoc append_Cons)
  qed
qed

lemma admit_stop:
  assumes "en_vehicle_id e = edge_id K" "is_stop K topic e" "newest_token s \<le> en_issued_at e"
  shows "admit K topic now e s = carry_out_stop K topic now e (s\<lparr>newest_token := en_issued_at e\<rparr>)"
  using assms by (simp add: admit_def Let_def not_less)

text \<open>The one refusal a stop for this vehicle meets: unlike its lifetime, its fencing token is checked as that of
  any other command.\<close>

lemma stale_stop_is_refused:
  assumes "command_arrives K topic body e s" "en_vehicle_id e = edge_id K" "is_stop K topic e"
    and "en_issued_at e < newest_token s"
  shows "kernel_step K (now, Arrives topic body) s =
    refuse K ''INVALID_TOKEN'' (en_command_id e) (mark_cloud_contact now s)"
proof -
  have "kernel_step K (now, Arrives topic body) s = admit K topic now e (mark_cloud_contact now s)"
    using assms(1) by (auto simp: command_arrives_def on_edge_message_def handle_command_def)
  then show ?thesis using assms(2-4) by (simp add: admit_def Let_def)
qed

lemma fresh_stop_is_obeyed:
  assumes "command_arrives K topic body e s" "en_vehicle_id e = edge_id K" "is_stop K topic e"
    and "newest_token s \<le> en_issued_at e"
  shows "kernel_step K (now, Arrives topic body) s =
    carry_out_stop K topic now e ((mark_cloud_contact now s)\<lparr>newest_token := en_issued_at e\<rparr>)"
proof -
  have "kernel_step K (now, Arrives topic body) s = admit K topic now e (mark_cloud_contact now s)"
    using assms(1) by (auto simp: command_arrives_def on_edge_message_def handle_command_def)
  then show ?thesis using assms(2-4) by (simp add: admit_stop)
qed

text \<open>C5: What becomes of a stop, and what holds after it. Let a new signed stop for this vehicle arrive, however old it
  is and in whatever zone and latch state. If its fencing token is not older than the newest the
  kernel has seen, the kernel latches, tells the actuation the latch and the stop in this order, and
  acknowledges it; and whatever happens from then on, either the latch still holds or a signed
  \<open>CLEAR_SAFE_STOP\<close> for this vehicle has arrived in time and not stale. If its token is older, the stop
  is not carried out: it is answered with \<open>INVALID_TOKEN\<close>, and neither latch nor actuation changes.\<close>

theorem stop_holds_until_cleared:
  assumes "command_arrives K topic body e s" "en_vehicle_id e = edge_id K" "is_stop K topic e"
    and "s' = kernel_step K (now, Arrives topic body) s"
  shows "if newest_token s \<le> en_issued_at e
    then kn_latched s' \<and>
      actuated s' = actuated s @ [ActState True now, ActCommand (en_command_id e) (carried K topic e) (en_payload e) now] \<and>
      last (kn_outbox s') = (edge_topic K ''command/ack'', ack_json (en_command_id e) ''ACK'' None) \<and>
      (kn_latched (kernel_run K evs s') \<or>
       (\<exists>before t tp tx after. evs = before @ (t, Arrives tp tx) # after \<and> clears K tx t (kernel_run K before s')))
    else kn_latched s' = kn_latched s \<and> actuated s' = actuated s \<and>
      last (kn_outbox s') = (edge_topic K ''command/ack'', ack_json (en_command_id e) ''REJECTED'' (Some ''INVALID_TOKEN''))"
proof (cases "newest_token s \<le> en_issued_at e")
  case True
  have s': "s' = carry_out_stop K topic now e ((mark_cloud_contact now s)\<lparr>newest_token := en_issued_at e\<rparr>)"
    using fresh_stop_is_obeyed [OF assms(1-3) True] assms(4) by simp
  then have "kn_latched s'" by (simp add: carry_out_stop_def Let_def)
  moreover have "actuated s' = actuated s @ [ActState True now, ActCommand (en_command_id e) (carried K topic e) (en_payload e) now]"
    using assms(3) by (auto simp: s' carry_out_stop_def carried_def Let_def)
  moreover have "last (kn_outbox s') = (edge_topic K ''command/ack'', ack_json (en_command_id e) ''ACK'' None)"
    by (simp add: s' carry_out_stop_def accept_def answer_command_def tell_def Let_def)
  ultimately show ?thesis using run_latch [of s' K evs] True by auto
next
  case False
  then have "s' = refuse K ''INVALID_TOKEN'' (en_command_id e) (mark_cloud_contact now s)"
    using stale_stop_is_refused [OF assms(1-3)] assms(4) by simp
  with False show ?thesis by (simp add: refuse_def answer_command_def tell_def)
qed

end
