(* ===== verification/Two_Gates.thy ===== *)
theory Two_Gates
  imports Vehicle_Safety Gate
begin

text \<open>
  From gate to gate: what the command service publishes is what the kernel on the vehicle carries out. The locale
  \<open>vehicle_link\<close> holds what the two share: the policy file, the contract's schema as the build
  generates it, the key pair, and the printing of a parsed document, which is the canonical text as long as
  numbers are written alike on both sides.
\<close>

section \<open>Documents that both sides print alike\<close>

text \<open>Numbers of at most fifteen digits, at most four of them behind the point.\<close>

fun plain_num :: "dec \<Rightarrow> bool" where
  "plain_num (Dec neg m e) = (- 4 \<le> e \<and> m * 10 ^ nat e < 10 ^ 15)"

fun plain :: "json \<Rightarrow> bool" where
  "plain (JNum d) = (dec_norm d \<and> plain_num d)"
| "plain (JArr vs) = (\<forall>v \<in> set vs. plain v)"
| "plain (JObj es) = (distinct (map fst es) \<and> (\<forall>e \<in> set es. plain (snd e)))"
| "plain JUndef = False"
| "plain _ = True"

lemma plain_sendable: "plain v \<Longrightarrow> sendable v"
  by (induction v) auto

lemma plain_clean: "plain v \<Longrightarrow> clean v = v"
proof (induction v)
  case (JArr vs)
  then show ?case by (simp add: map_idI)
next
  case (JObj es)
  have "filter (\<lambda>e. snd e \<noteq> JUndef) es = es" using JObj.prems by (intro filter_True) auto
  with JObj show ?case by (auto intro!: map_idI simp: prod_eq_iff)
qed simp_all

lemma plain_without: "plain v \<Longrightarrow> plain (without k v)"
  by (cases v) (auto simp: without_def distinct_map_filter)

lemma plain_wire: "plain v \<Longrightarrow> json_parse (stringify v) = Some v"
  using json_parse_stringify [of v] plain_sendable [of v] plain_clean [of v] sendable_wf [of v] by simp

locale vehicle_link =
  fixes E :: "'kv env" and K :: edge_env
  assumes policy_read: "\<exists>comment. load_policy (Some (stringify (zone_mode_policy comment))) = Some (edge_policy K)"
    and schema_read: "safeParse E CommandEnvelopeSchema d = Some d \<Longrightarrow> command_schema K d"
    and key_pair: "verify_b64 K t (sign_b64 E t)"
    and printed: "plain d \<Longrightarrow> reserialise K d = canonicalStringify d"
begin

lemma policy: "edge_policy K = shared_policy"
  using policy_read load_shared_policy by force

lemma signed_verifies:
  assumes "signDocument E (JObj es) = JObj fs" "plain (JObj fs)"
  shows "verify_signature K (JObj fs)"
proof -
  have "signature_valid E (JObj fs)" using signDocument_valid [of E es] by (simp only: assms(1))
  moreover have "reserialise K (without ''signature'' (JObj fs)) = canonicalStringify (without ''signature'' (JObj fs))"
    by (intro printed plain_without assms)
  ultimately show ?thesis
    using key_pair by (simp only: verify_signature_def signature_valid_def json.case text_of_def read_string.simps option.case)
qed

end

section \<open>Payloads\<close>

text \<open>The schemas of the commands are flat: literals, texts, numbers, choices, and optional ones of these. What they
  accept of a JSON document they accept again, unchanged.\<close>

fun flat :: "schema \<Rightarrow> bool" where
  "flat (ZOptional s) = flat s"
| "flat (ZString cs) = True"
| "flat (ZNumber ns) = True"
| "flat ZBoolean = True"
| "flat (ZLiteral l) = True"
| "flat (ZEnum ls) = True"
| "flat _ = False"

lemma flat_parse:
  assumes "zod P"
  shows "flat s \<Longrightarrow> v \<noteq> JUndef \<Longrightarrow> P s v = Some w \<Longrightarrow> w = v"
  by (induction s rule: flat.induct)
    (auto simp: zod.parse_optional [OF assms] zod.parse_string [OF assms] zod.parse_number [OF assms]
      zod.parse_boolean [OF assms] zod.parse_literal [OF assms] zod.parse_enum [OF assms]
      split: if_splits json.splits)

lemma flat_fields_again:
  assumes "zod P" "\<forall>f \<in> set fs. flat (snd f)" "\<forall>e \<in> set es. snd e \<noteq> JUndef" "distinct (map fst fs)"
    and "parse_fields P fs es = Some ws" "\<forall>k \<in> fst ` set fs. map_of ds k = map_of ws k"
  shows "parse_fields P fs ds = Some ws"
  using assms(2-)
proof (induction fs arbitrary: ws)
  case (Cons f fs)
  obtain k s where f: "f = (k, s)" by (cases f)
  have later: "parse_fields P fs es = Some ws' \<Longrightarrow> \<forall>k' \<in> fst ` set fs. map_of ds k' = map_of ws' k' \<Longrightarrow>
      parse_fields P fs ds = Some ws'" for ws'
    using Cons by simp
  have fresh: "parse_fields P fs es = Some ws' \<Longrightarrow> map_of ws' k = None" for ws'
    using parse_fields_keys [of P fs es ws'] Cons.prems(3) by (force simp: f map_of_eq_None_iff)
  show ?case
  proof (cases "map_of es k")
    case None
    with Cons.prems(4) f have p: "is_optional s" "parse_fields P fs es = Some ws" by (auto split: if_splits)
    with Cons.prems(5) f fresh have "map_of ds k = None" "parse_fields P fs ds = Some ws" using later by auto
    with p f show ?thesis by simp
  next
    case (Some v)
    with Cons.prems(4) f obtain w ws' where p: "P s v = Some w" "parse_fields P fs es = Some ws'" "ws = (k, w) # ws'"
      by (auto split: option.splits)
    have "v \<noteq> JUndef" using Some Cons.prems(2) by (auto dest!: map_of_SomeD)
    then have "w = v" using flat_parse [OF assms(1)] p(1) Cons.prems(1) f by auto
    moreover have "map_of ds k = Some w" using Cons.prems(5) f p(3) by simp
    moreover have "map_of ds k' = map_of ws' k'" if "k' \<in> fst ` set fs" for k'
    proof -
      have "k' \<noteq> k" using that Cons.prems(3) f by auto
      moreover from bspec [OF Cons.prems(5), of k'] that have "map_of ds k' = map_of ws k'" by simp
      ultimately show ?thesis by (simp add: p(3))
    qed
    then have "parse_fields P fs ds = Some ws'" using later [OF p(2)] by blast
    ultimately show ?thesis using p f by simp
  qed
qed simp

lemma parse_fields_members:
  assumes "zod P" "\<forall>f \<in> set fs. flat (snd f)" "\<forall>e \<in> set es. snd e \<noteq> JUndef" "parse_fields P fs es = Some ws"
  shows "set ws \<subseteq> set es"
  using assms(2-)
proof (induction fs arbitrary: ws)
  case (Cons f fs)
  obtain k s where f: "f = (k, s)" by (cases f)
  show ?case
  proof (cases "map_of es k")
    case None
    with Cons f show ?thesis by (auto split: if_splits)
  next
    case (Some v)
    with Cons.prems f obtain w ws' where p: "P s v = Some w" "parse_fields P fs es = Some ws'" "ws = (k, w) # ws'"
      by (auto split: option.splits)
    have m: "(k, v) \<in> set es" using Some by (rule map_of_SomeD)
    with flat_parse [OF assms(1) _ _ p(1)] Cons.prems f have "w = v" by auto
    moreover have "set ws' \<subseteq> set es" using Cons p(2) by simp
    ultimately show ?thesis using p(3) m by simp
  qed
qed simp

lemma parse_fields_distinct:
  "distinct (map fst fs) \<Longrightarrow> parse_fields P fs es = Some ws \<Longrightarrow> distinct (map fst ws)"
proof (induction fs arbitrary: ws)
  case (Cons f fs)
  obtain k s where f: "f = (k, s)" by (cases f)
  have "parse_fields P fs es = Some ws' \<Longrightarrow> k \<notin> fst ` set ws' \<and> distinct (map fst ws')" for ws'
    using parse_fields_keys [of P fs es ws'] Cons by (auto simp: f)
  with Cons.prems f show ?case by (auto split: option.splits if_splits)
qed simp

definition flat_object :: "schema \<Rightarrow> bool" where
  "flat_object s = (case s of ZObject fs \<Rightarrow> distinct (map fst fs) \<and> (\<forall>f \<in> set fs. flat (snd f)) | _ \<Rightarrow> False)"

lemma flat_object_again:
  assumes "zod P" "flat_object s" "plain v" "P s v = Some w"
  shows "P s w = Some w \<and> plain w \<and> (\<forall>k l. literal_of k s = Some l \<longrightarrow> get_field v k = JStr l \<longrightarrow> get_field w k = JStr l)"
proof -
  obtain fs where s: "s = ZObject fs" "distinct (map fst fs)" "\<forall>f \<in> set fs. flat (snd f)"
    using assms(2) by (auto simp: flat_object_def split: schema.splits)
  with assms(1,4) obtain es ws where o: "v = JObj es" "w = JObj ws" "parse_fields P fs es = Some ws"
    using zod.object_cases [OF assms(1)] by metis
  have u: "\<forall>e \<in> set es. snd e \<noteq> JUndef" using assms(3) by (auto simp: o)
  have "P s w = Some w"
    using flat_fields_again [OF assms(1) s(3) u s(2) o(3), of ws] by (simp add: s o zod.parse_object [OF assms(1)])
  moreover have "plain w"
    using parse_fields_members [OF assms(1) s(3) u o(3)] parse_fields_distinct [OF s(2) o(3)] assms(3) by (auto simp: o)
  moreover have "get_field w k = JStr l" if k: "literal_of k s = Some l" "get_field v k = JStr l" for k l
  proof -
    have "map_of fs k = Some (ZLiteral l)" using k(1) by (simp add: s literal_of_def split: option.splits schema.splits)
    moreover have "map_of es k = Some (JStr l)" using k(2) by (simp add: o get_field_def split: option.splits)
    ultimately show ?thesis
      using parse_fields_lookup [OF o(3) s(2), of k] by (simp add: o get_field_def zod.parse_literal [OF assms(1)])
  qed
  ultimately show ?thesis by (simp add: s)
qed

lemma payload_again:
  assumes "zod P" "plain v" "P CommandPayloadSchema v = Some w"
  shows "P CommandPayloadSchema w = Some w \<and> plain w"
proof -
  let ?f = "\<lambda>v s. get_field v ''action'' \<noteq> JUndef \<and> is_str (get_field v ''action'') \<and>
    literal_of ''action'' s = Some (str_field v ''action'')"
  obtain ss where ss: "CommandPayloadSchema = ZUnion ''action'' ss" "\<forall>s \<in> set ss. flat_object s"
    by (simp add: CommandPayloadSchema_def) (simp add: schema_defs flat_object_def)
  then have "P (ZUnion ''action'' ss) v = Some w" using assms(3) by simp
  then obtain s where f: "find (?f v) ss = Some s" "P s v = Some w"
    unfolding zod.parse_union [OF assms(1)] by (cases "find (?f v) ss") simp_all
  then have m: "s \<in> set ss" "?f v s" using find_Some_mem [OF f(1)] by blast+
  then obtain l where l: "get_field v ''action'' = JStr l" "literal_of ''action'' s = Some l"
    by (cases "get_field v ''action''") auto
  note again = flat_object_again [OF assms(1) _ assms(2) f(2)]
  have w: "P s w = Some w" "plain w" "get_field w ''action'' = JStr l" using again ss(2) m(1) l by blast+
  then have "?f w = ?f v" using l by (simp add: fun_eq_iff)
  with f(1) w show ?thesis by (simp add: ss(1) zod.parse_union [OF assms(1)])
qed

section \<open>The envelope on the wire\<close>

lemma plain_int: "\<bar>n\<bar> < 10 ^ 15 \<Longrightarrow> plain (JInt n)"
proof (cases n rule: dec_of_int_cases)
  case (pos m k)
  assume "\<bar>n\<bar> < 10 ^ 15"
  then have "nat \<bar>n\<bar> < 10 ^ 15" by simp
  with pos show ?thesis using dec_norm_of_int [of n] by simp
qed simp

lemma gate_envelope_fields_list:
  "gate_envelope E w v p t m c = JObj
    [(''commandId'', JStr (uuid_of E (uuids w))), (''correlationId'', JStr (uuid_of E (Suc (uuids w)))),
     (''sessionId'', JStr t), (''vehicleId'', JStr v), (''issuer'', JStr p), (''mode'', JStr m),
     (''token'', JObj [(''tokenId'', JStr t), (''issuedAt'', JNum (current_issue E w v))]),
     (''timestamp'', JInt (clock w)), (''ttlMs'', JInt (ttl_of (str_field c ''action''))), (''payload'', c),
     (''signature'', JStr (sign_b64 E (canonicalStringify (envelope_doc (uuid_of E (uuids w)) (uuid_of E (Suc (uuids w)))
        t v p m t (current_issue E w v) (clock w) (ttl_of (str_field c ''action'')) c))))]"
  by (simp add: gate_envelope_def signDocument_def envelope_doc_def set_field_def Let_def)

lemma envelope_again:
  assumes "zod (safeParse E)" "safeParse E CommandPayloadSchema c = Some c"
    and "safeParse E CommandEnvelopeSchema (gate_envelope E w v p t m c) \<noteq> None"
  shows "safeParse E CommandEnvelopeSchema (gate_envelope E w v p t m c) = Some (gate_envelope E w v p t m c) \<and>
    m \<in> {''MODE1'', ''MODE2'', ''DIAG''} \<and> 0 < clock w"
proof -
  note z = zod.parse_string [OF assms(1)] zod.parse_number [OF assms(1)] zod.parse_object [OF assms(1)]
    zod.parse_enum [OF assms(1)]
  show ?thesis
    using assms(2,3) unfolding gate_envelope_fields_list CommandEnvelopeSchema_def FencingTokenSchema_def OperationModeSchema_def
    by (auto simp: z split: if_splits option.splits)
qed

lemma envelope_plain:
  assumes "plain c" "current_issue E w v = dec_of_int n" "\<bar>n\<bar> < 10 ^ 15" "\<bar>clock w\<bar> < 10 ^ 15"
  shows "plain (gate_envelope E w v p t m c)"
  using assms(1) plain_int [OF assms(3)] plain_int [OF assms(4)] plain_int [of "ttl_of (str_field c ''action'')"]
  by (simp add: gate_envelope_fields_list assms(2) ttl_of_def)

lemma as_u64_int: "0 \<le> n \<Longrightarrow> n < 2 ^ 64 \<Longrightarrow> as_u64 (JInt n) = Some (word_of_int n)"
  by (simp add: as_u64_def)

lemma text_or_empty_eq: "text_or_empty v = as_str v"
  by (cases v) (simp_all add: text_or_empty_def text_of_def)

lemma read_mode_text: "read_mode (JStr (edge_mode_text m)) = Some m"
  by (cases m) (simp_all add: read_mode_def)

lemma read_gate_envelope:
  assumes "current_issue E w v = dec_of_int n" "0 \<le> n" "n < 2 ^ 64" "0 \<le> clock w" "clock w < 2 ^ 64" "c \<noteq> JUndef"
  shows "read_envelope (gate_envelope E w v p t (edge_mode_text m) c) = Some \<lparr>en_command_id = uuid_of E (uuids w),
    en_vehicle_id = v, en_mode = m, en_issued_at = word_of_int n, en_timestamp = word_of_int (clock w),
    en_ttl_ms = word_of_int (ttl_of (str_field c ''action'')), en_payload = c\<rparr>"
proof -
  have "as_u64 (JInt (ttl_of a)) = Some (word_of_int (ttl_of a))" for a by (rule as_u64_int) (simp_all add: ttl_of_def)
  then show ?thesis
    unfolding gate_envelope_fields_list assms(1)
    by (simp add: read_envelope_def text_of_def read_mode_text as_u64_int [OF assms(2,3)] as_u64_int [OF assms(4,5)] assms(6))
qed

lemma edge_topics:
  "edge_topic K a = edge_topic K b \<longleftrightarrow> a = b" "\<not> starts_with (edge_topic K a) (shadow_prefix K)"
  "vehicle_topic (edge_id K) a = edge_topic K a"
  by (simp_all add: edge_topic_def shadow_prefix_def vehicle_topic_def)

section \<open>From the request to the actuation\<close>

text \<open>A kernel that is ready for a command: open latch, the zone the cloud has for it, standing, no newer token and no
  command of this id seen.\<close>

definition ready_for :: "edge_env \<Rightarrow> u64 \<Rightarrow> string \<Rightarrow> int \<Rightarrow> ZoneType \<Rightarrow> kernel \<Rightarrow> bool" where
  "ready_for K now cid n z k =
    (seen_acks k cid = None \<and> newest_token k \<le> word_of_int n \<and> \<not> kn_latched k \<and> zone_now now k = z \<and> kn_speed k < 1 / 2)"

text \<open>The permit's limit, which only creeping names a speed against.\<close>

definition within_permit :: "edge_env \<Rightarrow> u64 \<Rightarrow> json \<Rightarrow> kernel \<Rightarrow> bool" where
  "within_permit K now c k =
    (str_field c ''action'' = ''CREEP'' \<longrightarrow> (case active_permit_speed_limit now (kn_zone k) of
       None \<Rightarrow> True | Some limit \<Rightarrow> f32 K (nullish (as_f64 (get_field c ''speedKmh'')) 0) \<le> limit))"

definition supervisory :: "string list" where
  "supervisory = [''E_STOP'', ''SAFE_STOP'', ''CLEAR_SAFE_STOP'', ''CONFIRM_MANEUVER'', ''REJECT_MANEUVER'', ''SELECT_ALTERNATIVE'']"

lemma zone_gate_accepts:
  assumes "edge_policy K = shared_policy" "ready_for K now (en_command_id e) n z k" "within_permit K now (en_payload e) k"
    and "isModeAllowedInZone z (edge_mode_text (en_mode e))" "isDiagDisruptiveAllowed (en_action e) z True"
    and "\<not> List.member supervisory (en_action e)"
  shows "zone_gate K now e (k\<lparr>newest_token := i\<rparr>) = accept K (en_command_id e)
    (actuate (ActCommand (en_command_id e) (en_action e) (en_payload e) now) (k\<lparr>newest_token := i\<rparr>))"
proof -
  have z: "effective_zone now (kn_location k) (kn_zone k) = z" using assms(2) by (simp add: ready_for_def zone_now_def)
  have "z \<noteq> ''out_of_tod'' \<or> en_mode e \<notin> {MODE1, MODE2}"
    using assms(4) by (cases "en_mode e") (auto simp: isModeAllowedInZone_def ZONE_MODE_MATRIX_def permissions_def)
  moreover have "mode_allowed_in_zone shared_policy z (en_mode e)" using assms(4) by (simp add: shared_mode_allowed)
  moreover have "diag_disruptive_allowed shared_policy (en_action e) z (kn_speed k < 1 / 2)"
    using assms(2,5) by (simp add: shared_diag_allowed ready_for_def)
  moreover have "\<not> (en_action e = ''CREEP'' \<and> (case active_permit_speed_limit now (kn_zone k) of
      None \<Rightarrow> False | Some limit \<Rightarrow> limit < f32 K (nullish (as_f64 (get_field (en_payload e) ''speedKmh'')) 0)))"
    using assms(3) by (auto simp: within_permit_def en_action_def text_or_empty_eq split: option.splits)
  moreover have "\<not> is_maneuver_decision (en_action e)" using assms(6) by (simp add: is_maneuver_decision_def supervisory_def)
  ultimately show ?thesis by (auto simp: zone_gate_def Let_def z assms(1))
qed

lemma sum_in_time:
  assumes "0 \<le> a" "0 \<le> b" "a + b < 2 ^ 64"
  shows "\<not> (word_of_int a + word_of_int b :: u64) < now \<longleftrightarrow> uint now \<le> a + b"
proof -
  have "uint (word_of_int a + word_of_int b :: u64) = a + b"
    using assms by (simp add: uint_word_ariths uint_word_of_int)
  then show ?thesis by (simp add: word_less_def not_less)
qed

text \<open>What the kernel makes of a published envelope.\<close>

lemma envelope_arrives:
  assumes "vehicle_link E K" "zod (safeParse E)" "edge_id K = v" "safeParse E CommandPayloadSchema c = Some c" "plain c"
    and "safeParse E CommandEnvelopeSchema (gate_envelope E w v p t m c) \<noteq> None"
    and "current_issue E w v = dec_of_int n" "0 \<le> n" "n < 10 ^ 15" "clock w < 10 ^ 15"
    and "seen_acks k (uuid_of E (uuids w)) = None"
  obtains mode where "m = edge_mode_text mode"
    "command_arrives K (edge_topic K ''command'') (stringify (gate_envelope E w v p t m c))
      \<lparr>en_command_id = uuid_of E (uuids w), en_vehicle_id = v, en_mode = mode, en_issued_at = word_of_int n,
        en_timestamp = word_of_int (clock w), en_ttl_ms = word_of_int (ttl_of (str_field c ''action'')), en_payload = c\<rparr> k"
    "0 < clock w"
proof -
  let ?e = "gate_envelope E w v p t m c"
  note again = envelope_again [OF assms(2,4,6)]
  then obtain mode where m: "m = edge_mode_text mode" using edge_mode_text.simps by (metis insert_iff singletonD)
  have "\<bar>n\<bar> < 10 ^ 15" "\<bar>clock w\<bar> < 10 ^ 15" using assms(8-10) again by simp_all
  then have pl: "plain ?e" by (rule envelope_plain [OF assms(5,7)])
  obtain es where es: "?e = JObj es" by (simp add: gate_envelope_fields_list)
  have "verify_signature K ?e"
    using vehicle_link.signed_verifies [OF assms(1)] pl unfolding es by (metis es envelope_doc_def gate_envelope_def)
  moreover have "command_schema K ?e" using vehicle_link.schema_read [OF assms(1)] again by blast
  moreover have "n < 2 ^ 64" "0 \<le> clock w" "clock w < 2 ^ 64" using assms(8-10) again by simp_all
  moreover have "c \<noteq> JUndef" using assms(5) by auto
  ultimately show ?thesis
    using that [of mode] m again assms(11) plain_wire [OF pl] read_gate_envelope [OF assms(7,8), of c p t mode]
    by (simp add: command_arrives_def edge_topics)
qed

lemma envelope_carried_out:
  assumes "vehicle_link E K" "zod (safeParse E)" "edge_id K = v" "safeParse E CommandPayloadSchema c = Some c" "plain c"
    and "safeParse E CommandEnvelopeSchema (gate_envelope E w v p t (inferMode a) c) \<noteq> None"
    and "current_issue E w v = dec_of_int n" "0 \<le> n" "n < 10 ^ 15" "clock w < 10 ^ 15"
    and "a = str_field c ''action''" "\<not> List.member supervisory a" "passes_filter w v c"
    and "ready_for K now (uuid_of E (uuids w)) n (getZone w v) k" "within_permit K now c k" "uint now \<le> clock w + ttl_of a"
  shows "kernel_step K (now, Arrives (edge_topic K ''command'') (stringify (gate_envelope E w v p t (inferMode a) c))) k =
    accept K (uuid_of E (uuids w)) (actuate (ActCommand (uuid_of E (uuids w)) a c now)
      ((mark_cloud_contact now k)\<lparr>newest_token := word_of_int n\<rparr>))"
proof -
  have sf: "str_field c ''action'' = a" by (simp add: assms(11))
  have ns: "a \<notin> {''E_STOP'', ''SAFE_STOP'', ''CLEAR_SAFE_STOP''}" using assms(12) by (auto simp: supervisory_def)
  have new: "seen_acks k (uuid_of E (uuids w)) = None" "\<not> word_of_int n < newest_token k"
    using assms(14) by (simp_all add: ready_for_def not_less)
  obtain mode where mode: "inferMode a = edge_mode_text mode"
      "command_arrives K (edge_topic K ''command'') (stringify (gate_envelope E w v p t (inferMode a) c))
        \<lparr>en_command_id = uuid_of E (uuids w), en_vehicle_id = v, en_mode = mode, en_issued_at = word_of_int n,
          en_timestamp = word_of_int (clock w), en_ttl_ms = word_of_int (ttl_of a), en_payload = c\<rparr> k" (is "command_arrives _ _ _ ?e _")
      "0 < clock w"
    using envelope_arrives [OF assms(1-10) new(1)] unfolding sf by blast
  have pol: "edge_policy K = shared_policy" using vehicle_link.policy [OF assms(1)] .
  have a: "en_action ?e = a" by (simp add: en_action_def text_or_empty_eq sf)
  have "infer_mode shared_policy a = mode"
    using shared_infer_mode [of a] mode(1) by (cases "infer_mode shared_policy a"; cases mode) simp_all
  moreover have "\<not> is_stop K (edge_topic K ''command'') ?e" using ns by (simp add: is_stop_def is_estop_def edge_topics a)
  moreover have "\<not> en_timestamp ?e + en_ttl_ms ?e < now"
    using sum_in_time [of "clock w" "ttl_of a" now] mode(3) assms(10,16) by (simp add: ttl_of_def split: if_splits)
  moreover have "zone_gate K now ?e ((mark_cloud_contact now k)\<lparr>newest_token := word_of_int n\<rparr>) = accept K (uuid_of E (uuids w))
      (actuate (ActCommand (uuid_of E (uuids w)) a c now) ((mark_cloud_contact now k)\<lparr>newest_token := word_of_int n\<rparr>))"
    using zone_gate_accepts [OF pol, of now ?e n "getZone w v" "mark_cloud_contact now k" "word_of_int n"] assms(12-15) ns mode(1)
    by (simp add: a sf passes_filter_def ready_for_def within_permit_def zone_now_def Let_def)
  ultimately have "admit K (edge_topic K ''command'') now ?e (mark_cloud_contact now k) = accept K (uuid_of E (uuids w))
      (actuate (ActCommand (uuid_of E (uuids w)) a c now) ((mark_cloud_contact now k)\<lparr>newest_token := word_of_int n\<rparr>))"
    using assms(3,14) ns by (simp add: admit_def a pol ready_for_def new Let_def)
  then show ?thesis
    using mode(2) by (auto simp: command_arrives_def on_edge_message_def handle_command_def)
qed

text \<open>C3: What the first gate publishes the second gate carries out: if a command request succeeds, and the kernel on the
  vehicle has the policy and the key of the contract, is ready for the command in the zone the cloud has
  for the vehicle, and reads the message within its time to live, then the published message makes the
  kernel hand exactly this command, with the payload the cloud accepted, to the actuation, and
  acknowledge it under its id.\<close>

theorem published_command_is_carried_out:
  assumes "vehicle_link E K" "zod (safeParse E)" "edge_id K = v"
    and "run (sendCommand E v p t payload r) w = (Inr res, w')" "plain payload"
    and "current_issue E w v = dec_of_int n" "0 \<le> n" "n < 10 ^ 15" "clock w < 10 ^ 15"
    and "safeParse E CommandPayloadSchema payload = Some cmd" "\<not> List.member supervisory (str_field cmd ''action'')"
    and "ready_for K now (uuid_of E (uuids w)) n (getZone w v) k" "within_permit K now cmd k"
    and "uint now \<le> clock w + ttl_of (str_field cmd ''action'')"
  shows "\<exists>m. outbox w' = outbox w @ [m] \<and>
    (let k' = kernel_step K (now, Arrives (msg_topic m) (stringify (msg_doc m))) k; cid = uuid_of E (uuids w) in
      actuated k' = actuated k @ [ActCommand cid (str_field cmd ''action'') cmd now] \<and>
      kn_outbox k' = kn_outbox k @ [(edge_topic K ''command/ack'', ack_json cid ''ACK'' None)])"
proof -
  let ?a = "str_field cmd ''action''"
  obtain c where s: "safeParse E CommandPayloadSchema payload = Some c" "passes_filter w v c"
      "run (dispatch E v p t (inferMode (str_field c ''action'')) c False) w = (Inr res, w')"
    using sent_command [OF assms(4)] by blast
  then have "c = cmd" using assms(10) by simp
  note s = s [unfolded this]
  note d = dispatched_command [OF s(3)]
  note again = payload_again [OF assms(2,5,10)]
  have "kernel_step K (now, Arrives (edge_topic K ''command'') (stringify (gate_envelope E w v p t (inferMode ?a) cmd))) k =
    accept K (uuid_of E (uuids w)) (actuate (ActCommand (uuid_of E (uuids w)) ?a cmd now)
      ((mark_cloud_contact now k)\<lparr>newest_token := word_of_int n\<rparr>))"
    using again d by (intro envelope_carried_out assms s) simp_all
  then show ?thesis
    using d edge_topics(3) [of K "''command''"] unfolding assms(3)
    by (simp add: gate_message_def Let_def)
      (simp add: accept_def answer_command_def tell_def remember_ack_def actuate_def mark_cloud_contact_def Let_def)
qed

section \<open>A kernel of the examples\<close>

definition demo_edge :: edge_env where
  "demo_edge = \<lparr>edge_id = ''v1'', edge_policy = shared_policy, command_schema = (\<lambda>d. zod_eval CommandEnvelopeSchema d \<noteq> None),
     zoneconfig_schema = (\<lambda>d. zod_eval ZoneConfigSchema d \<noteq> None),
     verify_b64 = (\<lambda>t s. s = sign_b64 (demo_env False) t), reserialise = canonicalStringify, f32 = (\<lambda>x. x),
     f64_dec = (\<lambda>x. dec_of_int \<lfloor>x\<rfloor>),
     four_places = (\<lambda>x. dec_str (dec_of_int \<lfloor>x\<rfloor>)), edge_is_aws = False\<rparr>"

interpretation demo_link: vehicle_link "demo_env False" demo_edge
proof unfold_locales
  show "\<exists>comment. load_policy (Some (stringify (zone_mode_policy comment))) = Some (edge_policy demo_edge)"
    using load_shared_policy [of "[]"] by (auto simp: demo_edge_def)
qed (simp_all add: demo_edge_def demo_env_def)

definition demo_kernel :: kernel where
  "demo_kernel = kernel_start ''public_approved_route'' ''boot'' 0"

lemma demo_kernel_simps [simp]: "edge_id demo_edge = ''v1''" "actuated demo_kernel = []"
  by (simp_all add: demo_edge_def demo_kernel_def kernel_start_def)

lemma demo_ready: "ready_for demo_edge 1001000 cid 1000000 (getZone drive_world ''v1'') demo_kernel"
  by (simp add: ready_for_def demo_kernel_def kernel_start_def zone_now_def effective_zone_def is_in_approved_territory_def
      current_zone_type_def getZone_eq)

lemma pause_facts:
  "str_field pause_cmd ''action'' = ''PAUSE_MISSION''" "plain pause_cmd"
  "\<not> List.member supervisory (str_field pause_cmd ''action'')" "within_permit demo_edge now pause_cmd k"
  "current_issue (demo_env False) drive_world ''v1'' = dec_of_int 1000000"
  by (simp_all add: pause_cmd_def supervisory_def within_permit_def current_issue_def drive_world_holder)

theorem published_command_is_carried_out_witness:
  "\<exists>res w' m. run (sendCommand (demo_env False) ''v1'' ''alice'' (demo_uuid 0) pause_cmd no_req) drive_world = (Inr res, w') \<and>
    outbox w' = [m] \<and>
    actuated (kernel_step demo_edge (1001000, Arrives (msg_topic m) (stringify (msg_doc m))) demo_kernel) =
      [ActCommand (demo_uuid 1) ''PAUSE_MISSION'' pause_cmd 1001000]"
proof -
  obtain res w' where r: "run (sendCommand (demo_env False) ''v1'' ''alice'' (demo_uuid 0) pause_cmd no_req) drive_world
      = (Inr res, w')"
    using pause_runs by blast
  have "uint (1001000 :: u64) \<le> clock drive_world + ttl_of (str_field pause_cmd ''action'')" by (simp add: ttl_of_def)
  then show ?thesis
    using published_command_is_carried_out [OF demo_link.vehicle_link_axioms demo_laws(1) _ r pause_facts(2,5), of pause_cmd 1001000 demo_kernel]
      pause_parses pause_facts(1,3,4) demo_ready r
    by (auto simp: Let_def ttl_of_def)
qed

end
