(* ===== verification/Log_Sync.thy ===== *)
theory Log_Sync
  imports Two_Gates Edge_Log
begin

text \<open>
  The event log from end to end: the kernel on the vehicle keeps its events until the command service has them
  in the recorder. An event is known by its number within the boot of the kernel, on both sides.
\<close>

section \<open>The numbers of the buffered events\<close>

definition is_event :: "edge_env \<Rightarrow> string \<Rightarrow> nat \<Rightarrow> json \<Rightarrow> bool" where
  "is_event K boot n ev = (get_field ev ''vehicleId'' = JStr (edge_id K) \<and> get_field ev ''bootId'' = JStr boot \<and>
     get_field ev ''seq'' = JInt (int n))"

text \<open>How many events have left the buffer, or the number before the first one in it.\<close>

definition first_base :: "EventLog \<Rightarrow> nat" where
  "first_base l = unat (log_seq l) - length (unsynced l)"

definition numbered :: "(nat \<Rightarrow> 'a \<Rightarrow> bool) \<Rightarrow> nat \<Rightarrow> 'a list \<Rightarrow> bool" where
  "numbered P b xs = (\<forall>i < length xs. P (Suc (b + i)) (xs ! i))"

lemma numbered_Nil [simp]: "numbered P b []"
  by (simp add: numbered_def)

lemma numbered_snoc: "numbered P b xs \<Longrightarrow> P (Suc (b + length xs)) x \<Longrightarrow> numbered P b (xs @ [x])"
  by (auto simp: numbered_def nth_append less_Suc_eq)

lemma numbered_drop: "numbered P b xs \<Longrightarrow> numbered P (b + a) (drop a xs)"
  by (simp add: numbered_def add.assoc)

lemma numbered_take: "numbered P b xs \<Longrightarrow> numbered P b (take a xs)"
  by (simp add: numbered_def)

definition wf_log :: "edge_env \<Rightarrow> EventLog \<Rightarrow> bool" where
  "wf_log K l = (length (unsynced l) \<le> unat (log_seq l) \<and>
     numbered (is_event K (boot_id l)) (first_base l) (unsynced l))"

definition log_base :: "kernel \<Rightarrow> nat" where
  "log_base s = first_base (event_log s)"

definition log_ok :: "edge_env \<Rightarrow> kernel \<Rightarrow> bool" where
  "log_ok K s = wf_log K (event_log s)"

text \<open>What a step may do to the log: nothing, add the next event (making room for it), or take confirmed events away.\<close>

definition log_moves :: "kernel \<Rightarrow> kernel \<Rightarrow> bool" where
  "log_moves s s' = (boot_id (event_log s') = boot_id (event_log s) \<and> log_base s \<le> log_base s' \<and>
     unat (log_seq (event_log s')) \<le> Suc (unat (log_seq (event_log s))))"

lemma log_frame [simp]:
  "event_log (tell t x s) = event_log s" "event_log (remember_ack c a s) = event_log s"
  "event_log (answer_command K c a s) = event_log s" "event_log (accept K c s) = event_log s"
  "event_log (refuse K r c s) = event_log s" "event_log (actuate b s) = event_log s"
  "event_log (mark_cloud_contact now s) = event_log s" "event_log (generator_tick K now pid s) = event_log s"
  "event_log (kernel_heartbeat K now s) = event_log s" "event_log (on_pose K now line s) = event_log s"
  "event_log (motion_step K now q v s) = event_log s" "event_log (drain_tick K now ok s) = event_log s"
  "event_log (handle_deadman K now body s) = event_log s"
  by (simp_all add: tell_def remember_ack_def answer_command_def accept_def refuse_def actuate_def mark_cloud_contact_def
      generator_tick_def offer_proposal_def expire_proposal_def kernel_heartbeat_def on_pose_def motion_step_def drain_tick_def handle_deadman_def Let_def
      split: option.split)

definition log_step :: "edge_env \<Rightarrow> kernel \<Rightarrow> kernel \<Rightarrow> bool" where
  "log_step K s s' = (event_log s' = event_log s \<or> (\<exists>now kind d s0. event_log s0 = event_log s \<and> event_log s' = event_log (record_event K now kind d s0)))"

lemma log_same [simp, intro]: "event_log s' = event_log s \<Longrightarrow> log_step K s s'"
  by (simp add: log_step_def)

lemma log_recorded [intro]: "event_log s0 = event_log s \<Longrightarrow> log_step K s (record_event K now kind d s0)"
  by (auto simp: log_step_def)

lemma log_engaged [intro]: "event_log s0 = event_log s \<Longrightarrow> log_step K s (engage K now ds s0)"
  unfolding engage_def by (rule log_recorded) simp

lemma log_step_frame: "event_log s'' = event_log s' \<Longrightarrow> log_step K s s' \<Longrightarrow> log_step K s s''"
  by (simp add: log_step_def)

lemma decision_log [simp]: "event_log (edge_decision K now e s) = event_log s"
  by (simp add: edge_decision_def Let_def split: option.split)

lemma zone_gate_log: "log_step K s (zone_gate K now e s)"
proof -
  have "log_step K s (refuse K r c (engage K now ds s))" for r c ds
    by (rule log_step_frame [of _ "engage K now ds s"]) auto
  then show ?thesis by (simp add: zone_gate_def Let_def)
qed

lemma admit_log: "log_step K s (admit K topic now e s)"
proof -
  let ?s = "s\<lparr>newest_token := en_issued_at e\<rparr>"
  have "log_step K s (carry_out_stop K topic now e ?s)"
    by (rule log_step_frame [of _ "engage K now ds ?s" for ds]) (auto simp: carry_out_stop_def Let_def)
  moreover have "log_step K s (accept K c (record_event K now kind d (actuate x (actuate y (?s\<lparr>kn_latched := False\<rparr>)))))" for c kind d x y
    by (rule log_step_frame [of _ "record_event K now kind d (actuate x (actuate y (?s\<lparr>kn_latched := False\<rparr>)))"]) auto
  moreover have "log_step K s (zone_gate K now e ?s)" using zone_gate_log [of K ?s] by (simp add: log_step_def)
  ultimately show ?thesis by (simp add: admit_def Let_def)
qed

text \<open>A confirmation takes the confirmed events off the front.\<close>

definition log_trimmed :: "kernel \<Rightarrow> kernel \<Rightarrow> bool" where
  "log_trimmed s s' = (\<exists>up_to. event_log s' =
     (event_log s)\<lparr>unsynced := dropWhile (seq_at_most up_to) (unsynced (event_log s))\<rparr>)"

lemma zone_config_log: "log_step K s (handle_zone_config K topic now body s)"
proof -
  have "log_step K s (record_event K now kind d (mark_cloud_contact now s\<lparr>kn_zone := z\<rparr>))" for kind d z by auto
  then show ?thesis by (auto simp: handle_zone_config_def Let_def log_step_def split: option.split)
qed

lemma command_log: "log_step K s (handle_command K topic now body s)"
proof -
  have "log_step K s (admit K topic now e (mark_cloud_contact now s))" for e
    using admit_log [of K "mark_cloud_contact now s" topic now e] by (simp add: log_step_def)
  then show ?thesis by (auto simp: handle_command_def Let_def split: option.split)
qed

lemma ack_log: "log_step K s (handle_logsync_ack K now body s) \<or> log_trimmed s (handle_logsync_ack K now body s)"
  by (auto simp: handle_logsync_ack_def log_trimmed_def split: option.split)

lemma step_log: "log_step K s (kernel_step K (now, ev) s) \<or> log_trimmed s (kernel_step K (now, ev) s)"
proof (cases ev)
  case (Arrives topic body)
  then show ?thesis using zone_config_log command_log ack_log by (simp add: on_edge_message_def)
next
  case (TelemetryTick p v)
  have "log_step K s (engage K now ds (if b then motion_step K now p v s else motion_step K now p v s\<lparr>kn_speed := 0\<rparr>))" for ds b
    by (rule log_engaged) simp
  then show ?thesis by (simp add: TelemetryTick geofence_step_def)
qed (auto simp: watchdog_tick_def pose_tick_def)

lemma u64_json_nat: "u64_json n = JInt (int (unat n))"
  by (simp add: u64_json_def)

lemma record_log_ok:
  assumes "log_ok K s" "unat (log_seq (event_log s)) < 10 ^ 15" "event_log s0 = event_log s"
  shows "log_ok K (record_event K now kind d s0) \<and> log_moves s (record_event K now kind d s0)"
proof -
  let ?l = "event_log s" and ?s = "record_event K now kind d s0"
  let ?b = "first_base ?l" and ?k = "length (unsynced ?l)"
  define a where "a = (if EVENT_LOG_CAP \<le> ?k then 1 else 0 :: nat)"
  have n: "unat (log_seq ?l + 1) = Suc (unat (log_seq ?l))"
    using assms(2) unat_add_lem [of "log_seq ?l" 1] by simp
  have k: "unat (log_seq ?l) = ?b + ?k" and old: "numbered (is_event K (boot_id ?l)) ?b (unsynced ?l)"
    using assms(1) by (simp_all add: log_ok_def wf_log_def first_base_def)
  have a: "a \<le> ?k" by (simp add: a_def EVENT_LOG_CAP_def)
  obtain ev where l: "event_log ?s = ?l\<lparr>log_seq := log_seq ?l + 1, unsynced := drop a (unsynced ?l) @ [ev],
        dropped := dropped ?l + word_of_nat a\<rparr>"
      and ev: "is_event K (boot_id ?l) (Suc (unat (log_seq ?l))) ev"
  proof
    let ?e = "JObj [(''vehicleId'', JStr (edge_id K)), (''bootId'', JStr (boot_id ?l)), (''seq'', u64_json (log_seq ?l + 1)),
       (''timestamp'', u64_json now), (''type'', JStr kind), (''details'', d)]"
    show "event_log ?s = ?l\<lparr>log_seq := log_seq ?l + 1, unsynced := drop a (unsynced ?l) @ [?e],
        dropped := dropped ?l + word_of_nat a\<rparr>"
      using assms(3) by (simp add: record_event_def a_def Let_def drop_Suc)
    show "is_event K (boot_id ?l) (Suc (unat (log_seq ?l))) ?e" by (simp add: is_event_def u64_json_nat n)
  qed
  have "Suc (?b + a + length (drop a (unsynced ?l))) = Suc (unat (log_seq ?l))" using k a by simp
  with ev numbered_drop [OF old, of a]
  have "numbered (is_event K (boot_id ?l)) (?b + a) (drop a (unsynced ?l) @ [ev])" by (intro numbered_snoc) simp_all
  moreover have "first_base (event_log ?s) = ?b + a"
    unfolding first_base_def [of "event_log ?s"] using n k a by (simp add: l)
  ultimately show ?thesis using n k a by (simp add: log_ok_def wf_log_def log_moves_def log_base_def l)
qed

lemma trimmed_log_ok:
  assumes "log_ok K s" "log_trimmed s s'"
  shows "log_ok K s' \<and> log_moves s s'"
proof -
  let ?l = "event_log s"
  obtain up_to where u: "event_log s' = ?l\<lparr>unsynced := dropWhile (seq_at_most up_to) (unsynced ?l)\<rparr>"
    using assms(2) by (auto simp: log_trimmed_def)
  define a where "a = length (takeWhile (seq_at_most up_to) (unsynced ?l))"
  have d: "dropWhile (seq_at_most up_to) (unsynced ?l) = drop a (unsynced ?l)" by (simp add: a_def dropWhile_eq_drop)
  have a: "a \<le> length (unsynced ?l)" by (simp add: a_def length_takeWhile_le)
  have k: "unat (log_seq ?l) = first_base ?l + length (unsynced ?l)"
    and old: "numbered (is_event K (boot_id ?l)) (first_base ?l) (unsynced ?l)"
    using assms(1) by (simp_all add: log_ok_def wf_log_def first_base_def)
  have "first_base (event_log s') = first_base ?l + a"
    unfolding first_base_def [of "event_log s'"] using a k by (simp add: u d)
  then show ?thesis using numbered_drop [OF old, of a] a k by (simp add: log_ok_def wf_log_def log_moves_def log_base_def u d)
qed

lemma log_ok_same: "event_log s' = event_log s \<Longrightarrow> log_ok K s \<Longrightarrow> log_ok K s' \<and> log_moves s s'"
  by (simp add: log_ok_def log_moves_def log_base_def)

lemma log_ok_step:
  assumes "log_ok K s" "unat (log_seq (event_log s)) < 10 ^ 15"
  shows "log_ok K (kernel_step K x s) \<and> log_moves s (kernel_step K x s)"
proof -
  obtain now ev where x: "x = (now, ev)" by (cases x)
  consider (step) "log_step K s (kernel_step K x s)" | (trim) "log_trimmed s (kernel_step K x s)"
    using step_log unfolding x by blast
  then show ?thesis
  proof cases
    case step
    show ?thesis
    proof (cases "event_log (kernel_step K x s) = event_log s")
      case False
      with step obtain n kind d s0 where r: "event_log s0 = event_log s"
          "event_log (kernel_step K x s) = event_log (record_event K n kind d s0)" by (auto simp: log_step_def)
      from record_log_ok [OF assms r(1), of n kind d] r(2) show ?thesis
        by (simp add: log_ok_def log_moves_def log_base_def)
    qed (use assms(1) log_ok_same in blast)
  qed (use assms(1) trimmed_log_ok in blast)
qed

lemma log_ok_run:
  assumes "log_ok K s" "unat (log_seq (event_log s)) + length evs \<le> 10 ^ 15"
  shows "log_ok K (kernel_run K evs s) \<and> boot_id (event_log (kernel_run K evs s)) = boot_id (event_log s) \<and>
    log_base s \<le> log_base (kernel_run K evs s) \<and>
    unat (log_seq (event_log (kernel_run K evs s))) \<le> unat (log_seq (event_log s)) + length evs"
  using assms(2)
proof (induction evs rule: rev_induct)
  case Nil
  with assms(1) show ?case by (simp add: kernel_run_def)
next
  case (snoc x evs)
  let ?s = "kernel_run K evs s"
  from snoc have IH: "log_ok K ?s" "boot_id (event_log ?s) = boot_id (event_log s)" "log_base s \<le> log_base ?s"
      "unat (log_seq (event_log ?s)) \<le> unat (log_seq (event_log s)) + length evs" by simp_all
  moreover have "unat (log_seq (event_log ?s)) < 10 ^ 15" using IH(4) snoc.prems by simp
  ultimately show ?case
    using log_ok_step [OF IH(1), of x] by (auto simp: run_append_step log_moves_def)
qed

lemma log_ok_start: "log_ok K (kernel_start seed boot t0)" "unat (log_seq (event_log (kernel_start seed boot t0))) = 0"
  by (simp_all add: log_ok_def wf_log_def kernel_start_def)

text \<open>The buffer holds on to its events: what is in it later was in it before, or has a later number.\<close>

definition buffer_kept :: "edge_env \<Rightarrow> kernel \<Rightarrow> kernel \<Rightarrow> bool" where
  "buffer_kept K s s' = (\<forall>ev \<in> set (unsynced (event_log s')). ev \<in> set (unsynced (event_log s)) \<or>
     (\<exists>n. unat (log_seq (event_log s)) < n \<and> is_event K (boot_id (event_log s)) n ev))"

lemma buffer_trans:
  assumes "buffer_kept K a b" "buffer_kept K b c" "boot_id (event_log b) = boot_id (event_log a)"
    and "unat (log_seq (event_log a)) \<le> unat (log_seq (event_log b))"
  shows "buffer_kept K a c"
  unfolding buffer_kept_def
proof
  fix ev
  assume "ev \<in> set (unsynced (event_log c))"
  with assms(2) consider "ev \<in> set (unsynced (event_log b))"
    | n where "unat (log_seq (event_log b)) < n" "is_event K (boot_id (event_log b)) n ev"
    unfolding buffer_kept_def by blast
  then show "ev \<in> set (unsynced (event_log a)) \<or>
      (\<exists>n. unat (log_seq (event_log a)) < n \<and> is_event K (boot_id (event_log a)) n ev)"
  proof cases
    case 1
    with assms(1) show ?thesis unfolding buffer_kept_def by blast
  next
    case (2 n)
    with assms(3,4) show ?thesis using le_less_trans by (metis (no_types))
  qed
qed

lemma buffer_step:
  assumes "log_ok K s" "unat (log_seq (event_log s)) < 10 ^ 15"
  shows "buffer_kept K s (kernel_step K x s) \<and>
    unat (log_seq (event_log s)) \<le> unat (log_seq (event_log (kernel_step K x s)))"
proof -
  obtain now ev where x: "x = (now, ev)" by (cases x)
  let ?l = "event_log s" and ?s = "kernel_step K x s"
  have n: "unat (log_seq ?l + 1) = Suc (unat (log_seq ?l))"
    using assms(2) unat_add_lem [of "log_seq ?l" 1] by simp
  consider "event_log ?s = ?l" | (rec) t kind d s0 where "event_log s0 = ?l" "event_log ?s = event_log (record_event K t kind d s0)"
    | (trim) "log_trimmed s ?s"
    using step_log [of K s now ev] unfolding x log_step_def by blast
  then show ?thesis
  proof cases
    case 1
    then show ?thesis by (simp add: buffer_kept_def)
  next
    case rec
    let ?e = "JObj [(''vehicleId'', JStr (edge_id K)), (''bootId'', JStr (boot_id ?l)), (''seq'', u64_json (log_seq ?l + 1)),
       (''timestamp'', u64_json t), (''type'', JStr kind), (''details'', d)]"
    have "is_event K (boot_id ?l) (Suc (unat (log_seq ?l))) ?e" by (simp add: is_event_def u64_json_nat n)
    moreover have "set (unsynced (event_log ?s)) \<subseteq> insert ?e (set (unsynced ?l))"
      using rec set_drop_subset [of 1 "unsynced ?l"] by (auto simp: record_event_def Let_def drop_Suc)
    moreover have "unat (log_seq (event_log ?s)) = Suc (unat (log_seq ?l))"
      using rec n by (simp add: record_event_def Let_def)
    ultimately show ?thesis unfolding buffer_kept_def by (intro conjI ballI) (auto 4 3)
  next
    case trim
    then show ?thesis by (auto simp: log_trimmed_def buffer_kept_def dest: set_dropWhileD)
  qed
qed

lemma buffer_run:
  assumes "log_ok K s" "unat (log_seq (event_log s)) + length evs \<le> 10 ^ 15"
  shows "buffer_kept K s (kernel_run K evs s) \<and> unat (log_seq (event_log s)) \<le> unat (log_seq (event_log (kernel_run K evs s)))"
  using assms(2)
proof (induction evs rule: rev_induct)
  case Nil
  then show ?case by (simp add: kernel_run_def buffer_kept_def)
next
  case (snoc x evs)
  let ?s = "kernel_run K evs s"
  from snoc have IH: "buffer_kept K s ?s" "unat (log_seq (event_log s)) \<le> unat (log_seq (event_log ?s))" by simp_all
  from log_ok_run [OF assms(1), of evs] snoc.prems
  have ok: "log_ok K ?s" "boot_id (event_log ?s) = boot_id (event_log s)" "unat (log_seq (event_log ?s)) < 10 ^ 15" by simp_all
  from buffer_step [OF ok(1,3), of x] buffer_trans [OF IH(1) _ ok(2) IH(2)] IH(2) show ?case
    by (auto simp: run_append_step)
qed

section \<open>The batch at the command service\<close>

lemma canon_field:
  assumes "sendable (JObj es)"
  shows "get_field (canon (JObj es)) k = canon (get_field (JObj es) k)"
proof -
  let ?fs = "filter (\<lambda>e. snd e \<noteq> JUndef) es"
  have d: "distinct (map fst es)" using assms by simp
  then have "map_of (sort_key fst ?fs) = map_of ?fs"
    by (subst map_of_inject_set) (simp_all add: distinct_map_filter)
  moreover have "map_of ?fs k = (case map_of es k of None \<Rightarrow> None | Some v \<Rightarrow> if v = JUndef then None else Some v)"
    using d by (induction es) (auto split: option.splits dest: map_of_SomeD simp: rev_image_eqI)
  moreover have "map_of (map (\<lambda>e. (fst e, canon (snd e))) fs) k = map_option canon (map_of fs k)" for fs
    by (induction fs) auto
  ultimately show ?thesis by (cases "map_of es k") (auto simp: get_field_def)
qed

lemma present_accepted:
  "parse_fields P fs es = Some ws \<Longrightarrow> map_of fs k = Some s \<Longrightarrow> map_of es k = Some v \<Longrightarrow> P s v \<noteq> None"
  by (induction fs arbitrary: ws) (auto split: option.splits if_splits)

text \<open>The service reads an event as it was printed: the same vehicle, boot and number, and every other field that the
  recorder takes.\<close>

definition event_fields :: "string set" where
  "event_fields = {''vehicleId'', ''bootId'', ''seq'', ''timestamp'', ''type'', ''details''}"

lemma parse_all_same: "\<forall>x \<in> set xs. f x = Some x \<Longrightarrow> parse_all f xs = Some xs"
  by (induction xs) auto

lemma read_field:
  assumes "zod P" "P EdgeLogEventSchema (canon ev) = Some ev'" "k \<in> event_fields"
  shows "get_field ev' k = get_field (canon ev) k"
proof -
  obtain fs where fs: "EdgeLogEventSchema = ZObject fs" "distinct (map fst fs)"
      "map_of fs = [''vehicleId'' \<mapsto> ZString [MinLength 1], ''bootId'' \<mapsto> ZString [MinLength 1], ''seq'' \<mapsto> ZNumber [IsInt, NonNegative],
        ''timestamp'' \<mapsto> ZNumber [IsInt, Positive], ''type'' \<mapsto> EdgeLogEventTypeSchema, ''details'' \<mapsto> ZOptional (ZRecord ZUnknown)]"
  proof
    show "EdgeLogEventSchema = ZObject [(''vehicleId'', ZString [MinLength 1]), (''bootId'', ZString [MinLength 1]),
      (''seq'', ZNumber [IsInt, NonNegative]), (''timestamp'', ZNumber [IsInt, Positive]), (''type'', EdgeLogEventTypeSchema),
      (''details'', ZOptional (ZRecord ZUnknown))]" by (simp add: EdgeLogEventSchema_def)
  qed (auto simp: fun_eq_iff)
  then obtain es ws where o: "canon ev = JObj es" "ev' = JObj ws" "parse_fields P fs es = Some ws"
    using zod.object_cases [OF assms(1)] assms(2) by metis
  have r: "P (ZRecord ZUnknown) v \<in> {Some v, None}" for v
    using parse_all_same [of _ "\<lambda>e. map_option (Pair (fst e)) (P ZUnknown (snd e))"]
    by (auto simp: zod.parse_record [OF assms(1)] zod.parse_unknown [OF assms(1)] split: json.split)
  obtain t where t: "map_of fs k = Some t" and same: "P t v \<in> {Some v, None}" for v
    using assms(3) r unfolding event_fields_def
    by (auto simp: fs(3) EdgeLogEventTypeSchema_def zod.parse_string [OF assms(1)] zod.parse_number [OF assms(1)]
        zod.parse_enum [OF assms(1)] zod.parse_optional [OF assms(1)] split: json.splits)
  show ?thesis
  proof (cases "map_of es k")
    case None
    then show ?thesis using parse_fields_lookup [OF o(3) fs(2), of k] by (simp add: t get_field_def o(1,2))
  next
    case (Some v)
    with present_accepted [OF o(3) t Some] same [of v] parse_fields_lookup [OF o(3) fs(2), of k]
    show ?thesis by (auto simp: t get_field_def o(1,2))
  qed
qed

lemma canon_event_field: "sendable ev \<Longrightarrow> get_field (canon ev) k = canon (get_field ev k)"
  using canon_field by (cases ev) (auto simp: get_field_def)

lemma read_event:
  assumes "zod P" "sendable ev" "is_event K boot n ev" "P EdgeLogEventSchema (canon ev) = Some ev'"
  shows "is_event K boot n ev'"
  using assms(3) read_field [OF assms(1,4)] canon_event_field [OF assms(2)]
  by (simp add: is_event_def event_fields_def)

text \<open>So the row of what was read is the row of the event.\<close>

lemma row_of_read:
  assumes "zod P" "P EdgeLogEventSchema (canon ev) = Some ev'"
  shows "row_of_event t ev' r = row_of_event t (canon ev) r"
  using read_field [OF assms] by (simp add: row_of_event_def vlog_id_def vlog_details_def event_fields_def)

lemma vlog_id_event: "is_event K boot n ev \<Longrightarrow> is_event K boot n ev' \<Longrightarrow> vlog_id ev = vlog_id ev'"
  by (simp add: is_event_def vlog_id_def)

lemma dec_str_inject: "dec_norm d \<Longrightarrow> dec_norm d' \<Longrightarrow> dec_str d = dec_str d' \<Longrightarrow> d = d'"
  using p_number_dec_str [of d "[]"] p_number_dec_str [of d' "[]"] by (simp add: num_stop_def)

lemma vlog_id_number: "is_event K boot n ev \<Longrightarrow> is_event K boot m ev' \<Longrightarrow> vlog_id ev = vlog_id ev' \<longleftrightarrow> n = m"
  using dec_str_inject [of "dec_of_int (int n)" "dec_of_int (int m)"] by (auto simp: is_event_def vlog_id_def)

lemma numbered_Cons [simp]: "numbered P b (x # xs) \<longleftrightarrow> P (Suc b) x \<and> numbered P (Suc b) xs"
  by (auto simp: numbered_def nth_Cons split: nat.splits)

lemma numbered_nth: "numbered P b xs \<Longrightarrow> b < n \<Longrightarrow> n \<le> b + length xs \<Longrightarrow> \<exists>x \<in> set xs. P n x"
  unfolding numbered_def by (metis add_Suc_right less_iff_Suc_add nat_add_left_cancel_le nth_mem Suc_le_eq add_Suc)

lemma numbered_mem: "numbered P b xs \<Longrightarrow> x \<in> set xs \<Longrightarrow> \<exists>n. b < n \<and> n \<le> b + length xs \<and> P n x"
  unfolding numbered_def in_set_conv_nth by (metis add_Suc_right le_add1 nat_add_left_cancel_le Suc_leI le_imp_less_Suc)

lemma parse_all_numbered:
  assumes "parse_all f xs = Some ys" "numbered P b xs" "\<And>n x y. x \<in> set xs \<Longrightarrow> P n x \<Longrightarrow> f x = Some y \<Longrightarrow> Q n y"
  shows "length ys = length xs \<and> numbered Q b ys"
  using assms
proof (induction xs arbitrary: ys b)
  case (Cons x xs)
  then obtain y zs where "f x = Some y" "parse_all f xs = Some zs" "ys = y # zs" by (auto split: option.splits)
  with Cons.prems Cons.IH [of zs "Suc b"] show ?case by auto
qed simp

lemma parse_all_each: "parse_all f xs = Some ys \<Longrightarrow> list_all2 (\<lambda>x y. f x = Some y) xs ys"
  by (induction xs arbitrary: ys) (auto split: option.splits)

lemma batch_read:
  assumes "zod P" "numbered (is_event K boot) b evs" "\<forall>ev \<in> set evs. sendable ev"
    and "P EdgeLogBatchSchema (canon (JObj [(''vehicleId'', JStr v), (''events'', JArr evs)])) = Some batch"
  obtains evs' where "get_field batch ''events'' = JArr evs'" "length evs' = length evs" "evs' \<noteq> []"
    "numbered (is_event K boot) b evs'" "list_all2 (\<lambda>ev ev'. P EdgeLogEventSchema (canon ev) = Some ev') evs evs'"
proof -
  have "P (ZArray EdgeLogEventSchema (Some 1) (Some 100)) (JArr (map canon evs)) = Some (get_field batch ''events'')"
    using assms(4) by (auto simp: EdgeLogBatchSchema_def zod.parse_object [OF assms(1)] get_field_def split: option.splits)
  then obtain evs' where e: "parse_all (P EdgeLogEventSchema) (map canon evs) = Some evs'"
      "get_field batch ''events'' = JArr evs'" "1 \<le> length evs"
    by (auto simp: zod.parse_array [OF assms(1)] len_ok_def simp del: length_0_conv length_greater_0_conv Suc_le_length_iff One_nat_def split: if_splits)
  have "numbered (\<lambda>n ev. \<exists>ev0 \<in> set evs. ev = canon ev0 \<and> is_event K boot n ev0) b (map canon evs)"
    using assms(2) by (auto simp: numbered_def)
  from parse_all_numbered [OF e(1) this, of "is_event K boot"] read_event [OF assms(1)] assms(3)
  have "length evs' = length evs \<and> numbered (is_event K boot) b evs'" by fastforce
  moreover have "list_all2 (\<lambda>ev ev'. P EdgeLogEventSchema (canon ev) = Some ev') evs evs'"
    using parse_all_each [OF e(1)] by (simp add: list_all2_map1)
  ultimately show ?thesis using e that by fastforce
qed

lemma numbered_distinct: "numbered (is_event K boot) b evs \<Longrightarrow> distinct (map vlog_id evs)"
  unfolding numbered_def distinct_conv_nth using vlog_id_number by (metis add_left_cancel length_map nat.inject nth_map)

lemma fresh_distinct: "distinct (map vlog_id evs) \<Longrightarrow> fresh_events taken evs = filter (\<lambda>ev. vlog_id ev \<notin> taken) evs"
proof (induction evs arbitrary: taken)
  case (Cons ev evs)
  then have "filter (\<lambda>e. vlog_id e \<noteq> vlog_id ev \<and> vlog_id e \<notin> taken) evs = filter (\<lambda>e. vlog_id e \<notin> taken) evs"
    by (auto intro!: filter_cong simp: rev_image_eqI)
  with Cons show ?case by simp
qed simp

text \<open>The rows of a recorded batch carry its events.\<close>

lemma recorded_rows:
  assumes "zod P" "numbered (is_event K boot) b evs" "numbered (is_event K boot) b evs'" "\<forall>ev \<in> set evs. sendable ev"
    and "list_all2 (\<lambda>ev ev'. P EdgeLogEventSchema (canon ev) = Some ev') evs evs'"
    and "list_all2 (row_of_event t) (fresh_events taken evs') new" "ev \<in> set evs"
  shows "vlog_id ev \<in> taken \<or> (\<exists>r \<in> set new. row_of_event t (canon ev) r)"
proof -
  obtain i where i: "i < length evs" "ev = evs ! i" using assms(7) by (metis in_set_conv_nth)
  let ?ev' = "evs' ! i"
  have ev': "P EdgeLogEventSchema (canon ev) = Some ?ev'" "?ev' \<in> set evs'"
    using list_all2_nthD [OF assms(5) i(1)] list_all2_lengthD [OF assms(5)] i by simp_all
  have same: "vlog_id ?ev' = vlog_id ev"
    using assms(2,3) list_all2_lengthD [OF assms(5)] i vlog_id_event by (simp add: numbered_def) blast
  show ?thesis
  proof (cases "vlog_id ev \<in> taken")
    case False
    with ev'(2) same fresh_distinct [OF numbered_distinct [OF assms(3)], of taken]
    have "?ev' \<in> set (fresh_events taken evs')" by simp
    with assms(6) obtain r where "r \<in> set new" "row_of_event t ?ev' r"
      by (metis in_set_conv_nth list_all2_conv_all_nth)
    with row_of_read [OF assms(1) ev'(1)] show ?thesis by blast
  qed simp
qed

lemma event_seq: "is_event K boot n ev \<Longrightarrow> seq_of ev = dec_of_int (int n)"
  by (simp add: is_event_def seq_of_def)

lemma numbered_max:
  "numbered (is_event K boot) b evs \<Longrightarrow> dec_max (dec_of_int (int b)) (map seq_of evs) = dec_of_int (int (b + length evs))"
proof (induction evs arbitrary: b)
  case (Cons ev evs)
  then have "seq_of ev = dec_of_int (int (Suc b))" using event_seq [of K boot "Suc b" ev] by simp
  with Cons.IH [of "Suc b"] Cons.prems show ?case by (simp add: algebra_simps)
qed simp

lemma batch_max:
  "numbered (is_event K boot) b evs \<Longrightarrow> evs \<noteq> [] \<Longrightarrow>
    dec_max (seq_of (hd evs)) (map seq_of (tl evs)) = dec_of_int (int (b + length evs))"
proof (cases evs)
  case (Cons ev es)
  assume "numbered (is_event K boot) b evs"
  then have "seq_of ev = dec_of_int (int (Suc b))" "numbered (is_event K boot) (Suc b) es"
    using event_seq [of K boot "Suc b" ev] by (simp_all add: Cons)
  with numbered_max [of K boot "Suc b" es] show ?thesis by (simp add: Cons algebra_simps)
qed simp

section \<open>The confirmation at the vehicle\<close>

lemma dropWhile_numbered:
  assumes "numbered P b xs" "\<And>n x. n \<le> b + length xs \<Longrightarrow> P n x \<Longrightarrow> p x \<longleftrightarrow> n \<le> u"
  shows "dropWhile p xs = filter (\<lambda>x. \<not> p x) xs"
  using assms
proof (induction xs arbitrary: b)
  case (Cons x xs)
  show ?case
  proof (cases "p x")
    case True
    then show ?thesis using Cons.IH [of "Suc b"] Cons.prems by simp
  next
    case False
    then have "u < Suc b" using Cons.prems by (metis le_add1 add_Suc_right list.size(4) not_le numbered_Cons plus_1_eq_Suc Suc_le_mono)
    then have "\<not> p y" if "y \<in> set xs" for y
      using numbered_mem [of P "Suc b" xs y] that Cons.prems by fastforce
    with False show ?thesis by (simp add: filter_True)
  qed
qed simp

lemma event_seq_at_most:
  assumes "is_event K boot n ev" "n \<le> 10 ^ 15" "u \<le> 10 ^ 15"
  shows "seq_at_most (word_of_nat u) ev \<longleftrightarrow> n \<le> u"
proof -
  have "as_u64 (get_field ev ''seq'') = Some (word_of_nat n)"
    using assms as_u64_int [of "int n"] by (simp add: is_event_def)
  then show ?thesis using assms by (simp add: seq_at_most_def word_of_nat_less_eq_iff take_bit_nat_eq_self)
qed

lemma ack_arrives:
  assumes "vehicle_link E K" "log_ok K k" "boot_id (event_log k) = boot" "unat (log_seq (event_log k)) \<le> 10 ^ 15" "u < 10 ^ 15"
  shows "unsynced (event_log (kernel_step K (now, Arrives (edge_topic K ''logsync/ack'')
      (stringify (log_ack E (edge_id K) boot (dec_of_int (int u))))) k)) =
    filter (\<lambda>ev. \<not> seq_at_most (word_of_nat u) ev) (unsynced (event_log k))"
proof -
  let ?d = "log_ack E (edge_id K) boot (dec_of_int (int u))"
  obtain sig where d: "?d = JObj [(''vehicleId'', JStr (edge_id K)), (''bootId'', JStr boot), (''upTo'', JInt (int u)), (''signature'', JStr sig)]"
    by (simp add: log_ack_def signDocument_def set_field_def Let_def)
  have pl: "plain ?d" using plain_int [of "int u"] assms(5) by (simp add: d)
  have "verify_signature K ?d"
    using vehicle_link.signed_verifies [OF assms(1)] pl unfolding d by (metis d log_ack_def)
  moreover have "as_u64 (JInt (int u)) = Some (word_of_nat u)" using as_u64_int [of "int u"] assms(5) by simp
  ultimately have "unsynced (event_log (kernel_step K (now, Arrives (edge_topic K ''logsync/ack'') (stringify ?d)) k)) =
      dropWhile (seq_at_most (word_of_nat u)) (unsynced (event_log k))"
    using plain_wire [OF pl] assms(3)
    by (simp add: on_edge_message_def edge_topics handle_logsync_ack_def d text_of_def get_field_def)
  moreover have "numbered (is_event K boot) (first_base (event_log k)) (unsynced (event_log k))"
    and "first_base (event_log k) + length (unsynced (event_log k)) = unat (log_seq (event_log k))"
    using assms(2,3) by (simp_all add: log_ok_def wf_log_def first_base_def)
  ultimately show ?thesis using event_seq_at_most assms(4,5) by (simp add: dropWhile_numbered [where u = u])
qed

section \<open>End to end\<close>

text \<open>A confirmation comes from a batch that was read and recorded.\<close>

lemma acknowledged_batch:
  assumes "vehicle_link E K" "zod (safeParse E)" "numbered (is_event K boot) b evs" "\<forall>ev \<in> set evs. plain ev"
    and "text = reserialise K (JObj [(''vehicleId'', JStr (edge_id K)), (''events'', JArr evs)])" "db_up w"
    and "run (recordEdgeLogBatch E (edge_id K) text) w = (Inr (), w')" "outbox w' = outbox w @ [m]"
  obtains new where "edr w' = edr w @ new" "msg_topic m = edge_topic K ''logsync/ack''"
    "msg_doc m = log_ack E (edge_id K) boot (dec_of_int (int (b + length evs)))"
    "\<forall>ev \<in> set evs. vlog_id ev \<in> edr_commandId ` set (edr w) \<or> (\<exists>r \<in> set new. row_of_event (clock w) (canon ev) r)"
proof -
  let ?doc = "JObj [(''vehicleId'', JStr (edge_id K)), (''events'', JArr evs)]"
  have pl: "plain ?doc" using assms(4) by simp
  have t: "json_parse text = Some (canon ?doc)"
    using parse_canonicalStringify [OF plain_sendable [OF pl]] vehicle_link.printed [OF assms(1) pl] by (simp only: assms(5))
  have "safeParse E EdgeLogBatchSchema (canon ?doc) \<noteq> None"
  proof
    assume "safeParse E EdgeLogBatchSchema (canon ?doc) = None"
    then have "recordEdgeLogBatch E (edge_id K) text = ret ()" by (simp only: recordEdgeLogBatch_def t option.case)
    with assms(7,8) show False by simp
  qed
  then obtain batch where batch: "safeParse E EdgeLogBatchSchema (canon ?doc) = Some batch" by blast
  have sendable: "\<forall>ev \<in> set evs. sendable ev" using assms(4) plain_sendable by blast
  then obtain evs' where e: "get_field batch ''events'' = JArr evs'" "length evs' = length evs" "evs' \<noteq> []"
      "numbered (is_event K boot) b evs'" "list_all2 (\<lambda>ev ev'. safeParse E EdgeLogEventSchema (canon ev) = Some ev') evs evs'"
    using batch_read [OF assms(2,3) _ batch] by blast
  note r = run_batch [OF t batch, of "edge_id K" w]
  have "uniform (edge_id K) batch" using r assms(7,8) by (auto split: if_splits)
  obtain w1 new where w1: "run (for_each evs' (append_event E)) w = (Inr (), w1)" "edr w1 = edr w @ new"
      "list_all2 (row_of_event (clock w)) (fresh_events (edr_commandId ` set (edr w)) evs') new" "outbox w1 = outbox w"
    using run_append_events [OF assms(6), of evs' E] by blast
  have "w' = (if broker_up w1 then w1\<lparr>outbox := outbox w1 @ [batch_ack E (edge_id K) batch]\<rparr> else w1)"
    using r assms(7) \<open>uniform (edge_id K) batch\<close> by (simp add: e(1) w1(1))
  then have w': "edr w' = edr w @ new" "m = batch_ack E (edge_id K) batch"
    using assms(8) w1(2,4) by (auto split: if_splits)
  have "str_field (hd evs') ''bootId'' = boot" using e(3,4) by (cases evs') (simp_all add: is_event_def)
  then have "msg_topic m = edge_topic K ''logsync/ack''"
      "msg_doc m = log_ack E (edge_id K) boot (dec_of_int (int (b + length evs)))"
    using batch_max [OF e(4,3)] by (simp_all add: w'(2) batch_ack_def e(1,2) edge_topics(3) Let_def)
  then show ?thesis
    using that [OF w'(1)] recorded_rows [OF assms(2,3) e(4) sendable e(5) w1(3)] by blast
qed

lemma drained:
  assumes "kn_outbox (kernel_step K (now, DrainTick ok) k) = kn_outbox k @ [(topic, text)]"
  shows "topic = edge_topic K ''logsync'' \<and> text = reserialise K (JObj [(''vehicleId'', JStr (edge_id K)),
    (''events'', JArr (take 100 (unsynced (event_log k))))])"
  using assms by (auto simp: drain_tick_def tell_def Let_def split: if_splits)

text \<open>The number of a buffered event decides whether a confirmation covers it.\<close>

lemma event_unique: "is_event K boot n ev \<Longrightarrow> is_event K boot n' ev \<Longrightarrow> n = n'"
  by (simp add: is_event_def)

lemma buffered_number:
  assumes "log_ok K k" "boot_id (event_log k) = boot" "unat (log_seq (event_log k)) \<le> 10 ^ 15" "u \<le> 10 ^ 15"
    and "ev \<in> set (unsynced (event_log k))"
  shows "\<exists>n. is_event K boot n ev \<and> (seq_at_most (word_of_nat u) ev \<longleftrightarrow> n \<le> u)"
proof -
  have "numbered (is_event K boot) (log_base k) (unsynced (event_log k))"
    "log_base k + length (unsynced (event_log k)) = unat (log_seq (event_log k))"
    using assms(1,2) by (simp_all add: log_ok_def wf_log_def log_base_def first_base_def)
  with numbered_mem assms(5) obtain n where "n \<le> unat (log_seq (event_log k))" "is_event K boot n ev" by fastforce
  then show ?thesis using event_seq_at_most [of K boot n ev u] assms(3,4) by auto
qed

lemma numbered_prefix:
  assumes "numbered (is_event K boot) b xs" "ev \<in> set xs" "is_event K boot n ev" "n \<le> b + length (take m xs)"
  shows "ev \<in> set (take m xs)"
proof -
  obtain i where i: "i < length xs" "ev = xs ! i" using assms(2) by (metis in_set_conv_nth)
  with assms(1) have "is_event K boot (Suc (b + i)) ev" by (simp add: numbered_def)
  with event_unique [OF assms(3) this] assms(4) have "i < length (take m xs)" by simp
  with i(2) show ?thesis by (metis nth_mem nth_take length_take min_less_iff_conj)
qed

text \<open>C18: The event log is lossless: a kernel that has run since its boot publishes a batch of buffered events, whose
  numbers are plain (integers below \<open>10^15\<close>, or the decimals both printers print alike); the command
  service consumes it and answers. Whatever the kernel did in between, the answer takes the batch out
  of its buffer; and every event that it takes out is an event of that batch which now has its row
  in the recorder, with the event's own vehicle, type and details, unless its key (vehicle, boot and
  number) was in the recorder already, as it is when the batch was delivered before. No event is
  dropped as confirmed that the service did not find or write there.\<close>

theorem log_is_lossless:
  assumes "vehicle_link E K" "zod (safeParse E)" "k = kernel_run K evs (kernel_start seed boot t0)"
    and "list_all plain (take 100 (unsynced (event_log k)))"
    and "kn_outbox (kernel_step K (t1, DrainTick True) k) = kn_outbox k @ [(topic, text)]"
    and "db_up w" "run (recordEdgeLogBatch E (edge_id K) text) w = (Inr (), w')" "outbox w' = outbox w @ [m]"
    and "k2 = kernel_run K evs2 (kernel_step K (t1, DrainTick True) k)" "length evs + length evs2 < 10 ^ 15"
    and "k3 = kernel_step K (t2, Arrives (msg_topic m) (stringify (msg_doc m))) k2"
  shows "topic = edge_topic K ''logsync'' \<and>
    (\<forall>ev \<in> set (unsynced (event_log k2)) - set (unsynced (event_log k3)).
       ev \<in> set (take 100 (unsynced (event_log k))) \<and>
       (vlog_id ev \<in> edr_commandId ` set (edr w) \<or> (\<exists>r \<in> set (edr w'). row_of_event (clock w) (canon ev) r))) \<and>
    (\<lambda>ev. get_field ev ''seq'') ` set (unsynced (event_log k3)) \<inter>
      (\<lambda>ev. get_field ev ''seq'') ` set (take 100 (unsynced (event_log k))) = {}"
proof -
  let ?b = "log_base k" and ?evs = "take 100 (unsynced (event_log k))"
  let ?k0 = "kernel_start seed boot t0" and ?k1 = "kernel_step K (t1, DrainTick True) k"
  have run1: "log_ok K k" "boot_id (event_log k) = boot" "unat (log_seq (event_log k)) \<le> length evs"
    using log_ok_run [of K ?k0 evs] log_ok_start(1) [of K seed boot t0] log_ok_start(2) [of seed boot t0] assms(10)
    by (simp_all add: assms(3)) (simp_all add: kernel_start_def)
  have same: "event_log ?k1 = event_log k" by simp
  then have ok1: "log_ok K ?k1" "log_base ?k1 = ?b" using run1(1) by (simp_all add: log_ok_def log_base_def)
  then have run2: "log_ok K k2" "boot_id (event_log k2) = boot" "?b \<le> log_base k2"
      "unat (log_seq (event_log k2)) \<le> length evs + length evs2"
    using log_ok_run [of K ?k1 evs2] run1 assms(10) by (simp_all add: assms(9))
  have kept: "ev \<in> set (unsynced (event_log k)) \<or> (\<exists>n. unat (log_seq (event_log k)) < n \<and> is_event K boot n ev)"
    if "ev \<in> set (unsynced (event_log k2))" for ev
    using buffer_run [OF ok1(1), of evs2] run1 assms(10) that by (simp add: buffer_kept_def assms(9))
  have nums: "numbered (is_event K boot) ?b ?evs" "?b + length (unsynced (event_log k)) = unat (log_seq (event_log k))"
      "numbered (is_event K boot) ?b (unsynced (event_log k))"
    using run1(1,2) by (simp_all add: log_ok_def wf_log_def log_base_def first_base_def numbered_take)
  define u where "u = ?b + length ?evs"
  have u: "u < 10 ^ 15" "u \<le> unat (log_seq (event_log k))" using nums(2) run1(3) assms(10) by (simp_all add: u_def)
  have pl: "\<forall>ev \<in> set ?evs. plain ev" using assms(4) by (simp only: list_all_iff)
  note sent = drained [OF assms(5)]
  from acknowledged_batch [OF assms(1,2) nums(1) pl sent [THEN conjunct2] assms(6-8)]
  obtain new where e: "edr w' = edr w @ new" "msg_topic m = edge_topic K ''logsync/ack''"
      "msg_doc m = log_ack E (edge_id K) boot (dec_of_int (int u))"
      "\<forall>ev \<in> set ?evs. vlog_id ev \<in> edr_commandId ` set (edr w) \<or> (\<exists>r \<in> set new. row_of_event (clock w) (canon ev) r)"
    unfolding u_def by blast
  have k3: "unsynced (event_log k3) = filter (\<lambda>ev. \<not> seq_at_most (word_of_nat u) ev) (unsynced (event_log k2))"
    unfolding assms(11) e(2,3) using run2 u assms(10) by (intro ack_arrives [OF assms(1)]) simp_all
  have num: "\<exists>n. is_event K boot n ev \<and> (seq_at_most (word_of_nat u) ev \<longleftrightarrow> n \<le> u)"
    if "ev \<in> set (unsynced (event_log k2))" for ev
    using that run2 u assms(10) by (intro buffered_number [of K k2]) simp_all
  have batch: "ev \<in> set ?evs"
    if mem: "ev \<in> set (unsynced (event_log k2))" "ev \<notin> set (unsynced (event_log k3))" for ev
  proof -
    obtain n where n: "is_event K boot n ev" "n \<le> u" using num [OF mem(1)] mem by (auto simp: k3)
    with kept [OF mem(1)] event_unique u(2) have "ev \<in> set (unsynced (event_log k))" by fastforce
    from numbered_prefix [OF nums(3) this n(1)] n(2) show ?thesis by (simp add: u_def)
  qed
  moreover have "get_field ev ''seq'' \<noteq> get_field ev' ''seq''"
    if mem: "ev \<in> set (unsynced (event_log k3))" "ev' \<in> set ?evs" for ev ev'
  proof -
    obtain n where "is_event K boot n ev" "\<not> n \<le> u" using num [of ev] mem(1) by (auto simp: k3)
    moreover obtain n' where "is_event K boot n' ev'" "n' \<le> u" using numbered_mem [OF nums(1) mem(2)] by (auto simp: u_def)
    ultimately show ?thesis by (auto simp: is_event_def)
  qed
  moreover have "vlog_id ev \<in> edr_commandId ` set (edr w) \<or> (\<exists>r \<in> set (edr w'). row_of_event (clock w) (canon ev) r)"
    if "ev \<in> set ?evs" for ev
    using e(4) that by (auto simp: e(1))
  ultimately show ?thesis using sent by (intro conjI) blast+
qed

section \<open>An example\<close>

text \<open>A vehicle leaves the territory and latches; the event goes out.\<close>

definition latched_kernel :: kernel where
  "latched_kernel = kernel_run demo_edge [(5, LinkUp), (5, TelemetryTick (0, 0) 0)] demo_kernel"

definition latch_event :: json where
  "latch_event = JObj [(''vehicleId'', JStr ''v1''), (''bootId'', JStr ''boot''), (''seq'', JInt 1), (''timestamp'', JInt 5),
     (''type'', JStr ''LATCH_ENGAGED''), (''details'', JObj [(''trigger'', JStr ''GEOFENCE''), (''lat'', JInt 0), (''lng'', JInt 0)])]"

lemma latched_kernel_facts:
  "unsynced (event_log latched_kernel) = [latch_event]" "broker_connected latched_kernel" "sync_outstanding latched_kernel = None"
  by (simp_all add: latched_kernel_def kernel_run_def demo_kernel_def kernel_start_def motion_step_def geofence_step_def
      effective_zone_def is_in_approved_territory_def engage_def record_event_def actuate_def place_json_def demo_edge_def
      active_permit_speed_limit_def latch_event_def u64_json_def EVENT_LOG_CAP_def Let_def)

lemma latch_event_plain: "plain latch_event"
  using plain_int [of 0] plain_int [of 1] plain_int [of 5] by (simp add: latch_event_def)

definition latch_batch :: json where
  "latch_batch = JObj [(''vehicleId'', JStr ''v1''), (''events'', JArr [latch_event])]"

lemma latch_drain:
  "kernel_step demo_edge (6, DrainTick True) latched_kernel = (tell (edge_topic demo_edge ''logsync'') (canonicalStringify latch_batch)
    latched_kernel)\<lparr>sync_outstanding := Some (1, 6)\<rparr>"
proof -
  have "as_u64 (get_field latch_event ''seq'') = Some 1" using as_u64_int [of 1] by (simp add: latch_event_def)
  then show ?thesis by (simp add: drain_tick_def latched_kernel_facts latch_batch_def Let_def) (simp add: demo_edge_def)
qed

lemma latch_read: "\<exists>batch. zod_eval EdgeLogBatchSchema (canon latch_batch) = Some batch \<and>
    get_field batch ''vehicleId'' = JStr ''v1'' \<and> (\<exists>ev. get_field batch ''events'' = JArr [ev] \<and> is_event demo_edge ''boot'' 1 ev)"
  by (simp add: latch_batch_def latch_event_def schema_defs len_ok_def is_event_def demo_edge_def)

lemma latch_recorded:
  "\<exists>w' m. run (recordEdgeLogBatch (demo_env False) ''v1'' (canonicalStringify latch_batch)) demo_world = (Inr (), w') \<and>
    outbox w' = [m]"
proof -
  have pl: "plain latch_batch" using latch_event_plain by (simp add: latch_batch_def)
  obtain batch ev where b: "safeParse (demo_env False) EdgeLogBatchSchema (canon latch_batch) = Some batch"
      "get_field batch ''vehicleId'' = JStr ''v1''" "get_field batch ''events'' = JArr [ev]" "is_event demo_edge ''boot'' 1 ev"
    using latch_read by auto
  then have u: "uniform ''v1'' batch" by (simp add: uniform_def is_event_def)
  have d: "db_up demo_world" "broker_up demo_world" "outbox demo_world = []" by (simp_all add: demo_world_def)
  obtain w1 where "run (for_each [ev] (append_event (demo_env False))) demo_world = (Inr (), w1)" "broker_up w1" "outbox w1 = []"
    using run_append_events [OF d(1), of "[ev]" "demo_env False"] d by auto
  then show ?thesis
    by (simp add: run_batch [OF parse_canonicalStringify [OF plain_sendable [OF pl]] b(1)] u b(3))
qed

theorem log_is_lossless_witness:
  "\<exists>w' m. run (recordEdgeLogBatch (demo_env False) ''v1'' (canonicalStringify latch_batch)) demo_world = (Inr (), w') \<and>
    outbox w' = [m] \<and> (let k2 = kernel_step demo_edge (6, DrainTick True) latched_kernel;
         k3 = kernel_step demo_edge (7, Arrives (msg_topic m) (stringify (msg_doc m))) k2 in
      unsynced (event_log k2) = [latch_event] \<and> latch_event \<notin> set (unsynced (event_log k3)) \<and>
      (\<exists>r \<in> set (edr w'). row_of_event 1000000 (canon latch_event) r))"
proof -
  let ?k2 = "kernel_step demo_edge (6, DrainTick True) latched_kernel"
  obtain w' m where r: "run (recordEdgeLogBatch (demo_env False) ''v1'' (canonicalStringify latch_batch)) demo_world = (Inr (), w')"
      "outbox w' = [m]" using latch_recorded by blast
  have d: "db_up demo_world" "outbox demo_world = []" "edr demo_world = []" by (simp_all add: demo_world_def)
  have k: "latched_kernel = kernel_run demo_edge [(5, LinkUp), (5, TelemetryTick (0, 0) 0)] (kernel_start ''public_approved_route'' ''boot'' 0)"
    by (simp add: latched_kernel_def demo_kernel_def)
  have p: "list_all plain (take 100 (unsynced (event_log latched_kernel)))"
    using latch_event_plain by (simp add: latched_kernel_facts)
  have o: "kn_outbox ?k2 = kn_outbox latched_kernel @ [(edge_topic demo_edge ''logsync'', canonicalStringify latch_batch)]"
    unfolding latch_drain by (simp add: tell_def)
  have k2: "?k2 = kernel_run demo_edge [] ?k2" by (simp add: kernel_run_def)
  have e: "unsynced (event_log ?k2) = [latch_event]" by (simp add: latched_kernel_facts)
  let ?k3 = "kernel_step demo_edge (7, Arrives (msg_topic m) (stringify (msg_doc m))) ?k2"
  from log_is_lossless [OF demo_link.vehicle_link_axioms demo_laws(1) k p o d(1) _ _ k2 _ refl, of w' m 7] r d(2,3)
  have h: "\<forall>ev \<in> set [latch_event] - set (unsynced (event_log ?k3)). \<exists>r \<in> set (edr w'). row_of_event 1000000 (canon ev) r"
      "latch_event \<notin> set (unsynced (event_log ?k3))"
    unfolding e by (auto simp del: kernel_step.simps simp: latched_kernel_facts)
  then have "\<exists>r \<in> set (edr w'). row_of_event 1000000 (canon latch_event) r" by simp
  then show ?thesis using r e h(2) unfolding Let_def by (intro exI [of _ w'] exI [of _ m] conjI) assumption+
qed

end
