(* ===== verification/Two_Gates_Examples.thy ===== *)
theory Two_Gates_Examples
  imports Two_Gates
begin

text \<open>
  Runs of the two gates together: a command that is carried out, and a stop that is cleared.
\<close>

text \<open>Messages of \<open>alice\<close>, with the numbers of the identifier supply they take.\<close>

definition drive_at :: "nat \<Rightarrow> ttl_store world" where
  "drive_at i = drive_world\<lparr>uuids := i\<rparr>"

definition demo_message :: "nat \<Rightarrow> json \<Rightarrow> string" where
  "demo_message i c = stringify (gate_envelope (demo_env False) (drive_at i) ''v1'' ''alice'' (demo_uuid 0) ''MODE1'' c)"

definition demo_envelope :: "nat \<Rightarrow> json \<Rightarrow> edge_envelope" where
  "demo_envelope i c = \<lparr>en_command_id = demo_uuid i, en_vehicle_id = ''v1'', en_mode = MODE1, en_issued_at = 1000000,
     en_timestamp = 1000000, en_ttl_ms = word_of_int (ttl_of (str_field c ''action'')), en_payload = c\<rparr>"

lemma drive_at_simps [simp]:
  "clock (drive_at i) = 1000000" "uuids (drive_at i) = i" "store (drive_at i) = store drive_world"
  "vehicleZones (drive_at i) v = None"
  "current_issue (demo_env False) (drive_at i) ''v1'' = dec_of_int 1000000"
  by (simp_all add: drive_at_def current_issue_def drive_world_holder)

lemma demo_envelope_simps [simp]:
  "en_command_id (demo_envelope i c) = demo_uuid i" "en_vehicle_id (demo_envelope i c) = ''v1''"
  "en_mode (demo_envelope i c) = MODE1" "en_issued_at (demo_envelope i c) = 1000000"
  "en_timestamp (demo_envelope i c) = 1000000" "en_payload (demo_envelope i c) = c"
  by (simp_all add: demo_envelope_def)

lemma demo_message_arrives:
  assumes "zod_eval CommandPayloadSchema c = Some c" "plain c" "seen_acks k (demo_uuid i) = None"
  shows "command_arrives demo_edge (edge_topic demo_edge ''command'') (demo_message i c) (demo_envelope i c) k"
proof -
  have z: "safeParse (demo_env False) = zod_eval" "uuid_of (demo_env False) = demo_uuid" by (simp_all add: demo_env_def)
  have "safeParse (demo_env False) CommandEnvelopeSchema
      (gate_envelope (demo_env False) (drive_at i) ''v1'' ''alice'' (demo_uuid 0) ''MODE1'' c) \<noteq> None"
    using gate_envelope_valid [OF demo_laws(1) demo_supply demo_laws(3), of False "drive_at i" "''v1''" "''alice''" "demo_uuid 0"
        "''MODE1''" c] assms(1) by (simp add: z demo_uuid_format positive_int_def)
  then obtain mode where "''MODE1'' = edge_mode_text mode"
      "command_arrives demo_edge (edge_topic demo_edge ''command'') (demo_message i c)
        \<lparr>en_command_id = demo_uuid i, en_vehicle_id = ''v1'', en_mode = mode, en_issued_at = word_of_int 1000000,
          en_timestamp = word_of_int 1000000, en_ttl_ms = word_of_int (ttl_of (str_field c ''action'')), en_payload = c\<rparr> k"
    using envelope_arrives [OF demo_link.vehicle_link_axioms demo_laws(1), of "''v1''" c "drive_at i" "''alice''" "demo_uuid 0" "''MODE1''" 1000000 k]
      assms by (auto simp: z demo_message_def)
  then show ?thesis by (cases mode) (simp_all add: demo_envelope_def)
qed

definition clear_cmd :: json where
  "clear_cmd = JObj [(''action'', JStr ''CLEAR_SAFE_STOP'')]"

lemma demo_commands:
  "zod_eval CommandPayloadSchema estop_cmd = Some estop_cmd" "plain estop_cmd"
  "zod_eval CommandPayloadSchema clear_cmd = Some clear_cmd" "plain clear_cmd"
  "en_action (demo_envelope i c) = str_field c ''action''"
  by (simp_all add: clear_cmd_def schema_defs literal_of_def en_action_def text_or_empty_eq demo_envelope_def)

lemma demo_kernel_step:
  "command_arrives K t b e k \<Longrightarrow> kernel_step K (now, Arrives t b) k = admit K t now e (mark_cloud_contact now k)"
  by (auto simp: command_arrives_def on_edge_message_def handle_command_def)

theorem actuation_is_gated_witness:
  "\<exists>e. ActCommand (demo_uuid 1) ''PAUSE_MISSION'' pause_cmd 1001000 \<in> set (actuated (kernel_run demo_edge
      [(1001000, Arrives (edge_topic demo_edge ''command'') (demo_message 1 pause_cmd))] demo_kernel)) \<and>
    signed_command demo_edge (demo_message 1 pause_cmd) e \<and>
    may_carry_out demo_edge (edge_topic demo_edge ''command'') 1001000 e demo_kernel"
proof -
  let ?t = "edge_topic demo_edge ''command''" and ?b = "demo_message 1 pause_cmd"
  have f: "passes_filter (drive_at 1) ''v1'' pause_cmd"
    by (simp add: passes_filter_def pause_facts(1) getZone_eq mode1_allowed_iff isDiagDisruptiveAllowed_def
        isDiagDisruptive_def DIAG_DISRUPTIVE_ACTIONS_def Let_def)
  have z: "safeParse (demo_env False) = zod_eval" "uuid_of (demo_env False) = demo_uuid" "drive_at 1 = drive_world"
    by (simp_all add: demo_env_def drive_at_def)
  have e: "safeParse (demo_env False) CommandEnvelopeSchema
      (gate_envelope (demo_env False) (drive_at 1) ''v1'' ''alice'' (demo_uuid 0) (inferMode ''PAUSE_MISSION'') pause_cmd) \<noteq> None"
    using drive_envelope_parses [of pause_cmd "''MODE1''"] pause_parses by (simp only: z pause_mode) simp
  have p: "safeParse (demo_env False) CommandPayloadSchema pause_cmd = Some pause_cmd" by (simp only: z pause_parses)
  have n: "(0::int) \<le> 1000000" "(1000000::int) < 10 ^ 15" "clock (drive_at 1) < 10 ^ 15"
      "uint (1001000 :: u64) \<le> clock (drive_at 1) + ttl_of ''PAUSE_MISSION''" by (simp_all add: ttl_of_def)
  have r: "ready_for demo_edge 1001000 (uuid_of (demo_env False) (uuids (drive_at 1))) 1000000 (getZone (drive_at 1) ''v1'') demo_kernel"
    by (simp only: z demo_ready)
  note envelope_carried_out [OF demo_link.vehicle_link_axioms demo_laws(1) demo_kernel_simps(1) p pause_facts(2) e
      drive_at_simps(5) n(1-3) pause_facts(1) [symmetric] pause_facts(3) [unfolded pause_facts(1)] f r pause_facts(4) n(4)]
  then have "kernel_step demo_edge (1001000, Arrives ?t ?b) demo_kernel = accept demo_edge (demo_uuid 1)
      (actuate (ActCommand (demo_uuid 1) ''PAUSE_MISSION'' pause_cmd 1001000)
        ((mark_cloud_contact 1001000 demo_kernel)\<lparr>newest_token := word_of_int 1000000\<rparr>))"
    by (simp only: demo_message_def pause_mode z drive_at_simps drive_world_simps)
  then have a: "ActCommand (demo_uuid 1) ''PAUSE_MISSION'' pause_cmd 1001000 \<in>
      set (actuated (kernel_run demo_edge [(1001000, Arrives ?t ?b)] (kernel_start ''public_approved_route'' ''boot'' 0)))"
    by (simp add: demo_kernel_def kernel_run_def)
  from actuation_is_gated [OF a] obtain before topic body after e where
    e: "[(1001000, Arrives ?t ?b)] = before @ (1001000, Arrives topic body) # after" "signed_command demo_edge body e"
      "may_carry_out demo_edge topic 1001000 e (kernel_run demo_edge before (kernel_start ''public_approved_route'' ''boot'' 0))"
    by blast
  from e(1) have b: "before = [] \<and> topic = ?t \<and> body = ?b" by (cases before) simp_all
  have n: "kernel_run demo_edge [] (kernel_start ''public_approved_route'' ''boot'' 0) = demo_kernel"
    by (simp add: kernel_run_def demo_kernel_def)
  have "signed_command demo_edge ?b e" "may_carry_out demo_edge ?t 1001000 e demo_kernel"
    using e(2,3) by (simp_all only: b n)
  moreover have "ActCommand (demo_uuid 1) ''PAUSE_MISSION'' pause_cmd 1001000 \<in>
      set (actuated (kernel_run demo_edge [(1001000, Arrives ?t ?b)] demo_kernel))"
    using a by (simp only: demo_kernel_def)
  ultimately show ?thesis by (intro exI conjI)
qed

lemma other_id: "demo_uuid 3 \<noteq> demo_uuid 1"
  by (simp add: demo_uuid_def digit_char_def)

text \<open>\<open>alice\<close> stops her vehicle and clears the latch again.\<close>

theorem stop_holds_until_cleared_witness:
  "let s = kernel_step demo_edge (1001000, Arrives (edge_topic demo_edge ''command'') (demo_message 1 estop_cmd)) demo_kernel;
       evs = [(1001500, WatchdogTick), (1001600, Arrives (edge_topic demo_edge ''command'') (demo_message 3 clear_cmd))] in
    kn_latched s \<and> \<not> kn_latched (kernel_run demo_edge evs s) \<and>
    actuated s = [ActState True 1001000, ActCommand (demo_uuid 1) ''E_STOP'' estop_cmd 1001000] \<and>
    (\<exists>before t tp tx after. evs = before @ (t, Arrives tp tx) # after \<and> clears demo_edge tx t (kernel_run demo_edge before s))"
proof -
  let ?t = "edge_topic demo_edge ''command''"
  let ?e = "demo_envelope 1 estop_cmd" and ?c = "demo_envelope 3 clear_cmd"
  define s where "s = kernel_step demo_edge (1001000, Arrives ?t (demo_message 1 estop_cmd)) demo_kernel"
  have k: "seen_acks demo_kernel i = None" "newest_token demo_kernel = 0" "seen_order demo_kernel = []" for i by (simp_all add: demo_kernel_def kernel_start_def)
  have arr: "command_arrives demo_edge ?t (demo_message 1 estop_cmd) ?e demo_kernel"
    by (rule demo_message_arrives) (simp_all add: demo_commands k)
  have st: "is_stop demo_edge ?t ?e" "en_vehicle_id ?e = ''v1''"
    by (simp_all add: is_stop_def is_estop_def demo_commands)
  have s: "s = carry_out_stop demo_edge ?t 1001000 ?e ((mark_cloud_contact 1001000 demo_kernel)\<lparr>newest_token := en_issued_at ?e\<rparr>)"
    unfolding s_def demo_kernel_step [OF arr] using st k by (simp add: admit_stop)
  have f: "kn_latched s" "newest_token s = 1000000" "last_contact s = 1001000" "seen_acks s (demo_uuid 3) = None"
    using other_id
    by (simp_all add: s carry_out_stop_def accept_def answer_command_def tell_def remember_ack_def actuate_def engage_def
        record_event_def mark_cloud_contact_def k Let_def DEDUP_CAP_def)
  have arr': "command_arrives demo_edge ?t (demo_message 3 clear_cmd) ?c s"
    by (rule demo_message_arrives) (simp_all add: demo_commands f)
  have c: "en_action ?c = ''CLEAR_SAFE_STOP''" "\<not> is_stop demo_edge ?t ?c" "en_mode ?c = MODE1" "en_vehicle_id ?c = ''v1''"
      "en_ttl_ms ?c = 2000" "en_issued_at ?c = 1000000"
    by (simp_all add: demo_commands clear_cmd_def is_stop_def is_estop_def edge_topics) (simp_all add: demo_envelope_def ttl_of_def clear_cmd_def)
  have m: "infer_mode (edge_policy demo_edge) ''CLEAR_SAFE_STOP'' = MODE1"
    by (simp add: demo_edge_def infer_mode_def shared_policy_def enum_defs)
  have "\<not> kn_latched (admit demo_edge ?t 1001600 ?c (mark_cloud_contact 1001600 s))"
    by (simp add: admit_def c m f Let_def)
  then have u: "\<not> kn_latched (kernel_run demo_edge [(1001500, WatchdogTick), (1001600, Arrives ?t (demo_message 3 clear_cmd))] s)"
    using f(1) demo_kernel_step [OF arr'] by (simp add: kernel_run_def watchdog_tick_def)
  have t: "newest_token demo_kernel \<le> en_issued_at ?e" by (simp add: k)
  have "en_vehicle_id ?e = edge_id demo_edge" by (simp add: st)
  note h = stop_holds_until_cleared [OF arr this st(1) s_def, of
      "[(1001500, WatchdogTick), (1001600, Arrives ?t (demo_message 3 clear_cmd))]"]
  have "carried demo_edge ?t ?e = ''E_STOP''" "en_command_id ?e = demo_uuid 1" "en_payload ?e = estop_cmd"
    by (simp_all add: carried_def is_estop_def demo_commands)
  with h t u show ?thesis unfolding s_def [symmetric] Let_def by (simp add: k)
qed

section \<open>An answer that is not a document\<close>

text \<open>The text of an answer is put together without escaping. To a message that is no command the kernel
  answers with the id it names, whoever sent it; an id with a quotation mark in it makes the answer
  unreadable.\<close>

lemma invalid_is_answered:
  assumes "json_parse body = Some raw" "\<not> command_schema K raw" "get_field raw ''commandId'' = JStr cid"
  shows "kernel_step K (now, Arrives (edge_topic K ''command'') body) s =
    tell (edge_topic K ''command/ack'') (ack_json cid ''REJECTED'' (Some ''SCHEMA_INVALID'')) s"
  using assms by (simp add: on_edge_message_def edge_topics handle_command_def text_of_def Let_def)

theorem answer_is_not_json:
  "\<exists>text. kn_outbox (kernel_step demo_edge (5, Arrives (edge_topic demo_edge ''command'')
      (stringify (JObj [(''commandId'', JStr ''\"'')]))) demo_kernel) = [(edge_topic demo_edge ''command/ack'', text)] \<and>
    json_parse text = None"
proof -
  have "\<not> command_schema demo_edge (JObj [(''commandId'', JStr ''\"'')])"
    by (simp add: demo_edge_def schema_defs)
  moreover have "json_parse (stringify (JObj [(''commandId'', JStr ''\"'')])) = Some (JObj [(''commandId'', JStr ''\"'')])"
    using json_parse_stringify [of "JObj [(''commandId'', JStr ''\"'')]"] by (simp del: stringify.simps)
  moreover have "kn_outbox demo_kernel = []" by (simp add: demo_kernel_def kernel_start_def)
  moreover have "json_parse (ack_json ''\"'' ''REJECTED'' (Some ''SCHEMA_INVALID'')) = None"
    by code_simp
  ultimately show ?thesis
    by (intro exI [of _ "ack_json ''\"'' ''REJECTED'' (Some ''SCHEMA_INVALID'')"])
      (simp add: invalid_is_answered tell_def get_field_def del: stringify.simps kernel_step.simps)
qed

end
