(* ===== verification/Lease.thy ===== *)
theory Lease
  imports Assignment
begin

text \<open>
  What the session service is for, without the store, its texts and its expiry commands: a table of
  leases. A vehicle has at most one lease, of an operator, under a token, until a time. The
  operations of \<open>session.service.ts\<close> on the lock store, and the revocation that severs a session,
  refine this table over any store with the laws of \<open>valkey\<close>.
\<close>

section \<open>The specification\<close>

record lease =
  lease_op :: operator_id
  lease_token :: uuid
  lease_since :: msec
  lease_until :: msec

record lease_state =
  now :: msec
  ids_used :: nat
  leases :: "vehicle_id \<Rightarrow> lease option"

datatype lease_op =
    Take vehicle_id operator_id
  | Beat vehicle_id operator_id uuid
  | Handover vehicle_id operator_id
  | Sever vehicle_id operator_id
  | Check vehicle_id operator_id uuid
  | Elapse nat

datatype lease_answer =
    Granted uuid msec
  | Refused
  | Answer bool
  | Done

definition lease_at :: "lease option \<Rightarrow> msec \<Rightarrow> lease option" where
  "lease_at x t = (case x of None \<Rightarrow> None | Some l \<Rightarrow> if t < lease_until l then Some l else None)"

definition current :: "lease_state \<Rightarrow> vehicle_id \<Rightarrow> lease option" where
  "current s v = lease_at (leases s v) (now s)"

definition holds :: "lease_state \<Rightarrow> vehicle_id \<Rightarrow> operator_id \<Rightarrow> uuid \<Rightarrow> bool" where
  "holds s v p t = (case current s v of None \<Rightarrow> False | Some l \<Rightarrow> lease_op l = p \<and> lease_token l = t)"

definition grant_lease :: "(nat \<Rightarrow> uuid) \<Rightarrow> vehicle_id \<Rightarrow> operator_id \<Rightarrow> lease_state \<Rightarrow> lease_answer \<times> lease_state" where
  "grant_lease ids v p s =
    (Granted (ids (ids_used s)) (now s),
     s\<lparr>ids_used := Suc (ids_used s), leases := (leases s)(v \<mapsto> \<lparr>lease_op = p, lease_token = ids (ids_used s),
       lease_since = now s, lease_until = now s + 6000\<rparr>)\<rparr>)"

fun lease_step :: "(nat \<Rightarrow> uuid) \<Rightarrow> lease_op \<Rightarrow> lease_state \<Rightarrow> lease_answer \<times> lease_state" where
  "lease_step ids (Take v p) s =
    (if current s v = None then grant_lease ids v p s else (Refused, s\<lparr>ids_used := Suc (ids_used s)\<rparr>))"
| "lease_step ids (Beat v p t) s =
    (if holds s v p t
     then (Answer True, s\<lparr>leases := (leases s)(v := map_option (lease_until_update (\<lambda>_. now s + 6000)) (leases s v))\<rparr>)
     else (Answer False, s))"
| "lease_step ids (Handover v p) s = grant_lease ids v p s"
| "lease_step ids (Sever v p) s =
    (case current s v of
       Some l \<Rightarrow> if lease_op l = p then (Answer True, s\<lparr>leases := (leases s)(v := None)\<rparr>) else (Answer False, s)
     | None \<Rightarrow> (Answer False, s))"
| "lease_step ids (Check v p t) s = (Answer (holds s v p t), s)"
| "lease_step ids (Elapse d) s = (Done, s\<lparr>now := now s + int d\<rparr>)"

primrec lease_run :: "(nat \<Rightarrow> uuid) \<Rightarrow> lease_op list \<Rightarrow> lease_state \<Rightarrow> lease_answer list \<times> lease_state" where
  "lease_run ids [] s = ([], s)"
| "lease_run ids (x # xs) s =
    (let (a, s') = lease_step ids x s; (as, s'') = lease_run ids xs s' in (a # as, s''))"

section \<open>The service\<close>

definition granted_answer :: "(uuid \<times> msec) option \<Rightarrow> lease_answer" where
  "granted_answer r = (case r of None \<Rightarrow> Refused | Some (t, i) \<Rightarrow> Granted t i)"

fun session_call :: "'kv env \<Rightarrow> lease_op \<Rightarrow> ('kv, lease_answer) handler" where
  "session_call E (Take v p) = await (takeControl E v p) (\<lambda>r. ret (granted_answer r))"
| "session_call E (Beat v p t) = await (heartbeat E v p t) (\<lambda>b. ret (Answer b))"
| "session_call E (Handover v p) = await (handover_session E v p) (\<lambda>r. ret (granted_answer r))"
| "session_call E (Sever v p) = await (revoke E v p ''ADMIN'') (\<lambda>(_, severed). ret (Answer severed))"
| "session_call E (Check v p t) = await (validateToken E v p t) (\<lambda>b. ret (Answer b))"
| "session_call E (Elapse d) = await (tick d) (\<lambda>_. ret Done)"

primrec session_run :: "'kv env \<Rightarrow> lease_op list \<Rightarrow> 'kv world \<Rightarrow> (exn + lease_answer) list \<times> 'kv world" where
  "session_run E [] w = ([], w)"
| "session_run E (x # xs) w =
    (let (a, w') = run (session_call E x) w; (as, w'') = session_run E xs w' in (a # as, w''))"

section \<open>The refinement\<close>

definition lease_text :: "lease \<Rightarrow> string" where
  "lease_text l = lock_text (lease_op l) (lease_token l) (lease_since l)"

text \<open>At every time from now on the store answers what the table says it should.\<close>

definition refines :: "'kv env \<Rightarrow> 'kv world \<Rightarrow> lease_state \<Rightarrow> bool" where
  "refines E w s = (store_up w \<and> db_up w \<and> clock w = now s \<and> uuids w = ids_used s \<and>
     (\<forall>t \<ge> clock w. \<forall>v. vk_get (vk E) (store w) t (lock_key v) = map_option lease_text (lease_at (leases s v) t)))"

lemma refines_current:
  "refines E w s \<Longrightarrow> vk_get (vk E) (store w) (clock w) (lock_key v) = map_option lease_text (current s v)"
  by (auto simp: refines_def current_def)

lemma refines_holder:
  "refines E w s \<Longrightarrow> holder E (store w) (clock w) v = map_option
    (\<lambda>l. \<lparr>op = lease_op l, token = lease_token l, issuedAt = dec_of_int (lease_since l)\<rparr>) (current s v)"
  by (cases "current s v") (simp_all add: holder_def refines_current lease_text_def)

lemma refines_holds:
  assumes "refines E w s"
  shows "(\<exists>i. holder E (store w) (clock w) v = Some \<lparr>op = p, token = t, issuedAt = i\<rparr>) \<longleftrightarrow> holds s v p t"
    "(case holder E (store w) (clock w) v of None \<Rightarrow> False | Some l \<Rightarrow> op l = p \<and> token l = t) = holds s v p t"
  by (cases "current s v"; auto simp: refines_holder [OF assms] holds_def)+

lemma refines_severable:
  assumes "refines E w s"
  shows "truthy_str (vk_get (vk E) (store w) (clock w) (lock_key v)) \<and>
      lock_is_of (the (vk_get (vk E) (store w) (clock w) (lock_key v))) p
    \<longleftrightarrow> (\<exists>l. current s v = Some l \<and> lease_op l = p)"
proof (cases "current s v")
  case None
  then show ?thesis by (simp add: refines_current [OF assms] truthy_str_def)
next
  case (Some l)
  with refines_holder [OF assms, of v] holder_lock_is_of [of E "store w" "clock w" v _ p] show ?thesis
    by (auto simp: truthy_str_def)
qed

lemma refines_grant:
  assumes "valkey (vk E)" "refines E w s"
  shows "refines E (grant E v p w) (snd (grant_lease (uuid_of E) v p s))"
  using assms(2)
  by (auto simp: refines_def grant_lease_def grant_def valkey.get_set [OF assms(1)] lease_at_def lease_text_def)

lemma refines_expire:
  assumes "valkey (vk E)" "refines E w s" "current s v = Some l"
  shows "refines E (w\<lparr>store := vk_expire (vk E) (store w) (clock w) (lock_key v) 6, deadmanTimers := d\<rparr>)
    (s\<lparr>leases := (leases s)(v := map_option (lease_until_update (\<lambda>_. now s + 6000)) (leases s v))\<rparr>)"
  using assms(2,3) refines_current [OF assms(2), of v]
  by (auto simp: refines_def valkey.get_expire [OF assms(1)] current_def lease_at_def lease_text_def split: option.splits if_splits)

lemma refines_assignments: "refines E (w\<lparr>assignments := a\<rparr>) s \<longleftrightarrow> refines E w s"
  by (simp add: refines_def)

lemma refines_del:
  assumes "valkey (vk E)" "refines E w s"
  shows "refines E (w\<lparr>assignments := a, store := vk_del (vk E) (store w) (clock w) (lock_key v)\<rparr>)
    (s\<lparr>leases := (leases s)(v := None)\<rparr>)"
  using assms(2) by (auto simp: refines_def valkey.get_del [OF assms(1)] lease_at_def)

text \<open>The simulation: one call of the service is one step of the table.\<close>

lemma session_call_refines:
  assumes "valkey (vk E)" "refines E w s"
  shows "\<exists>w'. run (session_call E x) w = (Inr (fst (lease_step (uuid_of E) x s)), w') \<and>
    refines E w' (snd (lease_step (uuid_of E) x s))"
proof -
  have up: "store_up w" "db_up w" "uuids w = ids_used s" "clock w = now s"
    using assms(2) by (auto simp: refines_def)
  have free: "vk_get (vk E) (store w) (now s) (lock_key v) = None \<longleftrightarrow> current s v = None" for v
    using refines_current [OF assms(2), of v] up(4) by (cases "current s v") simp_all
  note g = refines_grant [OF assms]
  note h = refines_holds [OF assms(2), unfolded up(4)]
  show ?thesis
  proof (cases x)
    case (Take v p)
    then show ?thesis
      using g [of v p] assms(2)
      by (cases "current s v")
        (simp_all add: run_takeControl [OF assms(1)] free up granted_answer_def grant_lease_def refines_def, simp_all add: current_def)
  next
    case (Beat v p t)
    show ?thesis
    proof (cases "holds s v p t")
      case True
      then obtain l where "current s v = Some l" by (auto simp: holds_def split: option.splits)
      from Beat True refines_expire [OF assms this, unfolded up(4)] show ?thesis
        by (simp add: run_heartbeat up h(1))
    next
      case False
      with Beat assms(2) show ?thesis by (simp add: run_heartbeat up h(1))
    qed
  next
    case (Handover v p)
    then show ?thesis
      using g [of v p] by (auto simp: run_handover_session up granted_answer_def grant_lease_def)
  next
    case (Sever v p)
    then show ?thesis
      using refines_del [OF assms, where v = v] assms(2) up
      by (auto simp: run_revoke Let_def refines_severable [OF assms(2), unfolded up(4)] refines_assignments split: option.splits)
  next
    case (Check v p t)
    then show ?thesis
      using assms(2) by (simp add: up h(2))
  next
    case (Elapse d)
    then show ?thesis
      using assms(2) by (auto simp: tick_def refines_def)
  qed
qed

text \<open>C14: The session service is a table of leases. Whatever sequence of take-control, heartbeat,
  handover, revocation and token-check requests is served, with any time passing between them,
  and over any store that keeps the documented promises, the answers are those of the table in
  which a vehicle has at most one lease, a grant runs for six seconds, a heartbeat of its
  holder renews it, a handover replaces it, a revocation of its holder ends it, and a token is
  valid exactly while it is the one of the current lease.\<close>

theorem sessions_refine_leases:
  assumes "valkey (vk E)" "store_up w" "db_up w" "\<forall>t \<ge> clock w. \<forall>v. vk_get (vk E) (store w) t (lock_key v) = None"
  shows "fst (session_run E xs w) =
    map Inr (fst (lease_run (uuid_of E) xs \<lparr>now = clock w, ids_used = uuids w, leases = Map.empty\<rparr>))"
proof -
  have "fst (session_run E xs w) = map Inr (fst (lease_run (uuid_of E) xs s))" if "refines E w s" for w s
    using that
  proof (induction xs arbitrary: w s)
    case (Cons x xs)
    from session_call_refines [OF assms(1) Cons.prems, of x] obtain w'
      where w': "run (session_call E x) w = (Inr (fst (lease_step (uuid_of E) x s)), w')"
        "refines E w' (snd (lease_step (uuid_of E) x s))" by blast
    from Cons.IH [OF w'(2)] w'(1) show ?case by (simp add: split_def Let_def)
  qed simp
  then show ?thesis using assms(2-4) by (simp add: refines_def lease_at_def)
qed

theorem sessions_refine_leases_witness:
  "fst (session_run (demo_env True) [Take ''v1'' ''alice'', Take ''v1'' ''bob'', Elapse 6000, Check ''v1'' ''alice'' (demo_uuid 0)] demo_world)
     = [Inr (Granted (demo_uuid 0) 1000000), Inr Refused, Inr Done, Inr (Answer False)]"
  by (subst sessions_refine_leases)
    (simp_all add: current_def lease_at_def grant_lease_def holds_def ttl_get_def)

end
