(* ===== verification/Deadman.thy ===== *)
theory Deadman
  imports Lease
begin

text \<open>
  The dead man over whole runs of the command service: requests on the lock store in any order
  (\<open>session_call\<close>), time passing, and the timers' callbacks (\<open>deadman_fires\<close>). The lock of a held
  vehicle lapses before its timer is due, because every operation that writes or renews the lock
  also sets the timer anew; so an operator who falls unrenewed is followed by a stop, whatever came
  before.
\<close>

section \<open>Runs\<close>

datatype deadman_event =
    Serve lease_op
  | Fires vehicle_id

primrec deadman_step :: "'kv env \<Rightarrow> deadman_event \<Rightarrow> 'kv world \<Rightarrow> 'kv world" where
  "deadman_step E (Serve x) w = snd (run (session_call E x) w)"
| "deadman_step E (Fires v) w = snd (run (deadman_fires E v) w)"

definition deadman_run :: "'kv env \<Rightarrow> deadman_event list \<Rightarrow> 'kv world \<Rightarrow> 'kv world" where
  "deadman_run E evs w = fold (deadman_step E) evs w"

lemma deadman_run_simps [simp]:
  "deadman_run E [] w = w" "deadman_run E (x # xs) w = deadman_run E xs (deadman_step E x w)"
  "deadman_run E (xs @ ys) w = deadman_run E ys (deadman_run E xs w)"
  by (simp_all add: deadman_run_def)

text \<open>The requests that are answered with a grant or a renewal for the vehicle.\<close>

fun renews :: "'kv env \<Rightarrow> vehicle_id \<Rightarrow> deadman_event \<Rightarrow> 'kv world \<Rightarrow> bool" where
  "renews E v (Serve (Take u p)) w = (u = v \<and>
    (case fst (run (takeControl E v p) w) of Inr (Some _) \<Rightarrow> True | _ \<Rightarrow> False))"
| "renews E v (Serve (Beat u p t)) w = (u = v \<and> fst (run (heartbeat E v p t) w) = Inr True)"
| "renews E v (Serve (Handover u p)) w = (u = v)"
| "renews E v _ w = False"

text \<open>A run in which nobody is given the vehicle and nobody's hold on it is renewed.\<close>

primrec unrenewed :: "'kv env \<Rightarrow> vehicle_id \<Rightarrow> deadman_event list \<Rightarrow> 'kv world \<Rightarrow> bool" where
  "unrenewed E v [] w = True"
| "unrenewed E v (x # xs) w = (\<not> renews E v x w \<and> unrenewed E v xs (deadman_step E x w))"

section \<open>A held vehicle has a timer that outlives its lock\<close>

definition links_up :: "'kv world \<Rightarrow> bool" where
  "links_up w = (store_up w \<and> db_up w \<and> broker_up w)"

definition covered :: "'kv env \<Rightarrow> vehicle_id \<Rightarrow> msec \<Rightarrow> 'kv world \<Rightarrow> bool" where
  "covered E v limit w = (\<exists>due. deadmanTimers w v = Some due \<and> due \<le> limit \<and>
     (\<forall>t. clock w \<le> t \<longrightarrow> due - 1000 \<le> t \<longrightarrow> vk_get (vk E) (store w) t (lock_key v) = None))"

definition guarded_hold :: "'kv env \<Rightarrow> vehicle_id \<Rightarrow> 'kv world \<Rightarrow> bool" where
  "guarded_hold E v w = (vk_get (vk E) (store w) (clock w) (lock_key v) \<noteq> None \<longrightarrow> covered E v (clock w + 7000) w)"

lemma covered_grant: "valkey (vk E) \<Longrightarrow> covered E v (clock w + 7000) (grant E v p w)"
  by (simp add: covered_def raw_lock_grant)

lemma covered_renewal:
  assumes "valkey (vk E)" "vk_get (vk E) (store w) (clock w) (lock_key v) \<noteq> None"
  shows "covered E v (clock w + 7000) (w\<lparr>store := vk_expire (vk E) (store w) (clock w) (lock_key v) 6,
    deadmanTimers := (deadmanTimers w)(v \<mapsto> clock w + 7000)\<rparr>)"
  using assms(2) by (simp add: covered_def valkey.get_expire [OF assms(1)])

lemma event_cases [case_names Take Beat Handover Sever Check Elapse Fires]:
  obtains v p where "x = Serve (Take v p)" | v p t where "x = Serve (Beat v p t)" | v p where "x = Serve (Handover v p)"
  | v p where "x = Serve (Sever v p)" | v p t where "x = Serve (Check v p t)" | d where "x = Serve (Elapse d)"
  | v where "x = Fires v"
  by (metis deadman_event.exhaust lease_op.exhaust)

lemmas run_calls = run_takeControl run_heartbeat run_handover_session run_revoke run_deadman_fires run_triggerSafeStop

lemma step_links [simp]: "valkey (vk E) \<Longrightarrow> links_up w \<Longrightarrow> links_up (deadman_step E x w)"
  by (cases x rule: event_cases) (auto simp: links_up_def run_calls tick_def Let_def split: option.split)

definition estops :: "vehicle_id \<Rightarrow> 'kv world \<Rightarrow> message list" where
  "estops v w = filter (\<lambda>m. msg_topic m = vehicle_topic v ''estop'') (outbox w)"

lemma topic_of_vehicle [simp]: "vehicle_topic u c = vehicle_topic v c \<longleftrightarrow> u = v"
  by (simp add: vehicle_topic_def)

text \<open>What a step that renews nothing may do to a vehicle, other than its own timer's callback.\<close>

lemma quiet_step:
  assumes "valkey (vk E)" "links_up w" "\<not> renews E v x w" "x \<noteq> Fires v"
  shows "deadmanTimers (deadman_step E x w) v = deadmanTimers w v \<and> estops v (deadman_step E x w) = estops v w \<and>
    clock w \<le> clock (deadman_step E x w) \<and> set (edr w) \<subseteq> set (edr (deadman_step E x w)) \<and>
    (\<forall>t. clock w \<le> t \<longrightarrow> vk_get (vk E) (store (deadman_step E x w)) t (lock_key v) \<in>
      {None, vk_get (vk E) (store w) t (lock_key v)})"
proof (cases x rule: event_cases)
  case (Take u p)
  with assms show ?thesis
    by (auto simp: links_up_def run_takeControl estops_def grant_def valkey.get_set [OF assms(1)] split: if_splits)
next
  case (Beat u p t)
  with assms show ?thesis
    by (auto simp: links_up_def run_heartbeat estops_def valkey.get_expire [OF assms(1)] split: if_splits)
next
  case (Handover u p)
  with assms show ?thesis
    by (auto simp: links_up_def run_handover_session estops_def grant_def valkey.get_set [OF assms(1)])
next
  case (Sever u p)
  with assms show ?thesis
    by (auto simp: links_up_def run_revoke estops_def valkey.get_del [OF assms(1)] Let_def)
next
  case (Check u p t)
  with assms show ?thesis by (simp add: links_up_def estops_def)
next
  case (Elapse d)
  with assms show ?thesis by (simp add: tick_def estops_def)
next
  case (Fires u)
  with assms show ?thesis
    by (auto simp: links_up_def run_deadman_fires run_triggerSafeStop estops_def Let_def split: option.split)
qed

lemma renewal_covers:
  assumes "valkey (vk E)" "links_up w" "renews E v x w"
  shows "covered E v (clock w + 7000) (deadman_step E x w) \<and> clock (deadman_step E x w) = clock w"
proof (cases x rule: event_cases)
  case (Take u p)
  with assms covered_grant [OF assms(1), of v w p] show ?thesis
    by (auto simp: links_up_def run_takeControl split: if_splits)
next
  case (Beat u p t)
  with assms have "\<exists>i. holder E (store w) (clock w) v = Some \<lparr>op = p, token = t, issuedAt = i\<rparr>"
    by (auto simp: links_up_def run_heartbeat split: if_splits)
  moreover from this have "vk_get (vk E) (store w) (clock w) (lock_key v) \<noteq> None" by (auto dest: holder_raw)
  ultimately show ?thesis
    using Beat assms covered_renewal [OF assms(1), of w v] by (auto simp: links_up_def run_heartbeat)
next
  case (Handover u p)
  with assms covered_grant [OF assms(1), of v w p] show ?thesis
    by (simp add: links_up_def run_handover_session)
qed (use assms in auto)

lemma covered_quiet:
  assumes "valkey (vk E)" "links_up w" "\<not> renews E v x w" "x \<noteq> Fires v" "covered E v limit w"
  shows "covered E v limit (deadman_step E x w)"
proof -
  note q = quiet_step [OF assms(1-4)]
  from assms(5) obtain due where due: "deadmanTimers w v = Some due" "due \<le> limit"
      "\<And>t. clock w \<le> t \<Longrightarrow> due - 1000 \<le> t \<Longrightarrow> vk_get (vk E) (store w) t (lock_key v) = None"
    unfolding covered_def by blast
  have "vk_get (vk E) (store (deadman_step E x w)) t (lock_key v) = None"
    if "clock (deadman_step E x w) \<le> t" "due - 1000 \<le> t" for t
  proof -
    have c: "clock w \<le> t" using q that(1) by linarith
    with q have "vk_get (vk E) (store (deadman_step E x w)) t (lock_key v) \<in> {None, vk_get (vk E) (store w) t (lock_key v)}"
      by blast
    with due(3) [OF c that(2)] show ?thesis by auto
  qed
  with q due(1,2) show ?thesis unfolding covered_def by simp
qed

text \<open>A timer that covers its vehicle is not due while the lock lives.\<close>

lemma live_not_due:
  assumes "covered E v limit w" "vk_get (vk E) (store w) (clock w) (lock_key v) \<noteq> None"
  shows "deadman_step E (Fires v) w = w"
  using assms by (fastforce simp: covered_def run_deadman_fires)

lemma guarded_hold_step:
  assumes "valkey (vk E)" "links_up w" "guarded_hold E v w"
  shows "guarded_hold E v (deadman_step E x w)"
proof (cases "renews E v x w")
  case True
  with renewal_covers [OF assms(1,2)] show ?thesis by (simp add: guarded_hold_def)
next
  case False
  show ?thesis
  proof (cases "x = Fires v")
    case True
    show ?thesis
    proof (cases "vk_get (vk E) (store w) (clock w) (lock_key v) = None")
      case True
      then have "vk_get (vk E) (store (deadman_step E x w)) (clock (deadman_step E x w)) (lock_key v) = None"
        using \<open>x = Fires v\<close> by (simp add: run_deadman_fires run_triggerSafeStop Let_def split: option.split)
      then show ?thesis by (simp add: guarded_hold_def)
    next
      case False
      with assms(3) live_not_due [of E v _ w] show ?thesis by (simp add: guarded_hold_def \<open>x = Fires v\<close>)
    qed
  next
    case other: False
    let ?w = "deadman_step E x w"
    note q = quiet_step [OF assms(1,2) False other]
    show ?thesis unfolding guarded_hold_def
    proof
      assume live: "vk_get (vk E) (store ?w) (clock ?w) (lock_key v) \<noteq> None"
      with q have "vk_get (vk E) (store w) (clock ?w) (lock_key v) \<noteq> None" by force
      with q valkey.lapsed_stays [OF assms(1), of "store w" "clock w" "lock_key v" "clock ?w"]
      have "vk_get (vk E) (store w) (clock w) (lock_key v) \<noteq> None" by blast
      with assms(3) have "covered E v (clock w + 7000) w" by (simp add: guarded_hold_def)
      from covered_quiet [OF assms(1,2) False other this] q show "covered E v (clock ?w + 7000) ?w"
        by (force simp: covered_def)
    qed
  qed
qed

lemma guarded_hold_run:
  assumes "valkey (vk E)"
  shows "links_up w \<Longrightarrow> guarded_hold E v w \<Longrightarrow>
    links_up (deadman_run E evs w) \<and> guarded_hold E v (deadman_run E evs w)"
  using assms by (induction evs arbitrary: w) (simp_all add: guarded_hold_step)

section \<open>Silence\<close>

definition stopped_since :: "'kv env \<Rightarrow> vehicle_id \<Rightarrow> message list \<Rightarrow> 'kv world \<Rightarrow> bool" where
  "stopped_since E v old w = (\<exists>n t. t \<le> clock w \<and>
     estops v w = old @ [\<lparr>msg_topic = vehicle_topic v ''estop'', msg_doc = safe_stop_envelope E v n t, msg_retain = False\<rparr>] \<and>
     safe_stop_row E v n t ''PENDING'' (clean (safe_stop_envelope E v n t)) \<in> set (edr w))"

lemma covered_fires:
  assumes "valkey (vk E)" "links_up w" "covered E v limit w"
  shows "deadman_step E (Fires v) w = w \<and> clock w < limit \<or>
    deadmanTimers (deadman_step E (Fires v) w) v = None \<and> stopped_since E v (estops v w) (deadman_step E (Fires v) w)"
proof -
  from assms(3) obtain due where due: "deadmanTimers w v = Some due" "due \<le> limit"
      "\<And>t. clock w \<le> t \<Longrightarrow> due - 1000 \<le> t \<Longrightarrow> vk_get (vk E) (store w) t (lock_key v) = None"
    unfolding covered_def by blast
  show ?thesis
  proof (cases "due \<le> clock w")
    case True
    with due(3) [of "clock w"] have "vk_get (vk E) (store w) (clock w) (lock_key v) = None" by simp
    with True due(1) assms(2) have "deadmanTimers (deadman_step E (Fires v) w) v = None \<and>
        stopped_since E v (estops v w) (deadman_step E (Fires v) w)"
      unfolding stopped_since_def
      by (intro conjI exI [of _ "uuids w"] exI [of _ "clock w"])
        (simp_all add: run_deadman_fires run_triggerSafeStop links_up_def estops_def truthy_str_def Let_def)
    then show ?thesis ..
  next
    case False
    with due(1,2) show ?thesis by (simp add: run_deadman_fires)
  qed
qed

lemma silence_is_answered:
  assumes "valkey (vk E)"
  shows "links_up w \<Longrightarrow> unrenewed E v evs w \<Longrightarrow>
    covered E v limit w \<and> estops v w = old \<or> deadmanTimers w v = None \<and> stopped_since E v old w \<Longrightarrow>
    covered E v limit (deadman_run E evs w) \<and> estops v (deadman_run E evs w) = old \<or>
    deadmanTimers (deadman_run E evs w) v = None \<and> stopped_since E v old (deadman_run E evs w)"
proof (induction evs arbitrary: w)
  case (Cons x evs)
  let ?w = "deadman_step E x w"
  have n: "\<not> renews E v x w" using Cons.prems by simp
  have "covered E v limit ?w \<and> estops v ?w = old \<or> deadmanTimers ?w v = None \<and> stopped_since E v old ?w"
  proof (cases "x = Fires v")
    case True
    from Cons.prems(3) show ?thesis
    proof
      assume "covered E v limit w \<and> estops v w = old"
      with covered_fires [OF assms Cons.prems(1)] True show ?thesis by metis
    next
      assume "deadmanTimers w v = None \<and> stopped_since E v old w"
      then show ?thesis by (simp add: True run_deadman_fires)
    qed
  next
    case False
    note q = quiet_step [OF assms Cons.prems(1) n False]
    from Cons.prems(3) show ?thesis
    proof
      assume "covered E v limit w \<and> estops v w = old"
      with covered_quiet [OF assms Cons.prems(1) n False] q show ?thesis by simp
    next
      assume s: "deadmanTimers w v = None \<and> stopped_since E v old w"
      then obtain n t where "t \<le> clock w"
          "estops v w = old @ [\<lparr>msg_topic = vehicle_topic v ''estop'', msg_doc = safe_stop_envelope E v n t, msg_retain = False\<rparr>]"
          "safe_stop_row E v n t ''PENDING'' (clean (safe_stop_envelope E v n t)) \<in> set (edr w)"
        unfolding stopped_since_def by blast
      with q have "stopped_since E v old ?w"
        unfolding stopped_since_def by (intro exI [of _ n] exI [of _ t]) auto
      with s q show ?thesis by simp
    qed
  qed
  with Cons.IH [of ?w] Cons.prems assms show ?case by simp
qed simp

text \<open>C12: The dead man covers silence. Take any run of session requests (taking control, heartbeats, handovers,
  revocations, token checks), timer callbacks and waiting, from a store without locks and with every
  link up, after which a vehicle is held; and let nobody be granted the vehicle or renew it from
  then on, whatever else is asked of the service. Once seven seconds have passed and the vehicle's
  timer callback has run, exactly one more stop has been published for the vehicle than before the
  silence: the signed \<open>SAFE_STOP\<close> of the dead man, whose \<open>PENDING\<close> row is in the recorder; and the
  timer is spent.\<close>

theorem deadman_covers_silence:
  assumes "valkey (vk E)" "links_up w0" "\<forall>t \<ge> clock w0. vk_get (vk E) (store w0) t (lock_key v) = None"
    and "w = deadman_run E evs w0" "vk_get (vk E) (store w) (clock w) (lock_key v) \<noteq> None"
    and "unrenewed E v quiet w" "clock w + 7000 \<le> clock (deadman_run E quiet w)"
    and "w' = deadman_run E (quiet @ [Fires v]) w"
  shows "stopped_since E v (estops v w) w' \<and> deadmanTimers w' v = None"
proof -
  have "guarded_hold E v w0" using assms(3) by (simp add: guarded_hold_def)
  from guarded_hold_run [OF assms(1,2) this, of evs] assms(4,5)
  have w: "links_up w" "covered E v (clock w + 7000) w" by (simp_all add: guarded_hold_def)
  let ?q = "deadman_run E quiet w"
  have up: "links_up ?q" using assms(1) w(1) by (induction quiet arbitrary: w) simp_all
  from silence_is_answered [OF assms(1) w(1) assms(6), of "clock w + 7000" "estops v w"] w(2)
  have "covered E v (clock w + 7000) ?q \<and> estops v ?q = estops v w \<or>
      deadmanTimers ?q v = None \<and> stopped_since E v (estops v w) ?q" by simp
  then consider (waiting) "covered E v (clock w + 7000) ?q" "estops v ?q = estops v w"
    | (sent) "deadmanTimers ?q v = None" "stopped_since E v (estops v w) ?q" by (elim disjE conjE)
  then show ?thesis
  proof cases
    case waiting
    with covered_fires [OF assms(1) up waiting(1)] assms(7,8) show ?thesis by auto
  next
    case sent
    then have "w' = ?q" by (simp add: assms(8) run_deadman_fires)
    with sent show ?thesis by simp
  qed
qed

text \<open>\<open>alice\<close> takes the vehicle, sends a heartbeat after three seconds and is not heard of again; \<open>bob\<close>'s
  heartbeat with her token renews nothing.\<close>

definition last_words :: "deadman_event list" where
  "last_words = [Serve (Take ''v1'' ''alice''), Serve (Elapse 3000), Serve (Beat ''v1'' ''alice'' (demo_uuid 0))]"

definition stillness :: "deadman_event list" where
  "stillness = [Fires ''v1'', Serve (Elapse 5000), Serve (Beat ''v1'' ''bob'' (demo_uuid 0)), Serve (Elapse 2000)]"

definition last_heard :: "ttl_store world" where
  "last_heard = deadman_run (demo_env True) last_words demo_world"

lemma last_heard_simps:
  "store last_heard = [(lock_key ''v1'', lock_text ''alice'' (demo_uuid 0) 1000000, 1009000)]"
  "clock last_heard = 1003000" "links_up last_heard" "estops ''v1'' last_heard = []"
proof -
  let ?g = "grant (demo_env True) ''v1'' ''alice'' demo_world"
  have g: "store ?g = [(lock_key ''v1'', lock_text ''alice'' (demo_uuid 0) 1000000, 1006000)]"
    by (simp add: grant_def ttl_set_def)
  have h: "last_heard = ?g\<lparr>clock := 1003000, store := [(lock_key ''v1'', lock_text ''alice'' (demo_uuid 0) 1000000, 1009000)],
      deadmanTimers := (deadmanTimers ?g)(''v1'' \<mapsto> 1010000)\<rparr>"
    by (simp add: last_heard_def last_words_def run_takeControl ttl.valkey_axioms run_heartbeat tick_def holder_def
        ttl_get_def ttl_expire_def ttl_set_def g)
  show "store last_heard = [(lock_key ''v1'', lock_text ''alice'' (demo_uuid 0) 1000000, 1009000)]"
    "clock last_heard = 1003000" "links_up last_heard" "estops ''v1'' last_heard = []"
    unfolding h by (simp_all add: links_up_def estops_def)
qed

lemma stillness_facts:
  "unrenewed (demo_env True) ''v1'' stillness last_heard"
  "clock (deadman_run (demo_env True) stillness last_heard) = 1010000"
proof -
  have "deadman_step (demo_env True) (Fires ''v1'') last_heard = last_heard"
    by (rule live_not_due [of _ _ "1003000 + 7000"])
      (use guarded_hold_run [of "demo_env True" demo_world "''v1''" last_words] in
        \<open>simp_all add: ttl.valkey_axioms links_up_def guarded_hold_def ttl_get_def last_heard_def [symmetric] last_heard_simps\<close>)
  then show "unrenewed (demo_env True) ''v1'' stillness last_heard"
    "clock (deadman_run (demo_env True) stillness last_heard) = 1010000"
    using last_heard_simps(3)
    by (simp_all add: stillness_def tick_def run_heartbeat holder_def ttl_get_def last_heard_simps links_up_def)
qed

theorem deadman_covers_silence_witness:
  "stopped_since (demo_env True) ''v1'' [] (deadman_run (demo_env True) (last_words @ stillness @ [Fires ''v1'']) demo_world)"
proof -
  have "stopped_since (demo_env True) ''v1'' (estops ''v1'' last_heard)
      (deadman_run (demo_env True) (stillness @ [Fires ''v1'']) last_heard) \<and>
    deadmanTimers (deadman_run (demo_env True) (stillness @ [Fires ''v1'']) last_heard) ''v1'' = None"
    by (rule deadman_covers_silence [OF _ _ _ last_heard_def _ stillness_facts(1) _ refl])
      (simp_all add: ttl.valkey_axioms links_up_def ttl_get_def last_heard_simps stillness_facts)
  then have "stopped_since (demo_env True) ''v1'' [] (deadman_run (demo_env True) (stillness @ [Fires ''v1'']) last_heard)"
    by (simp only: last_heard_simps)
  then show ?thesis by (simp only: last_heard_def deadman_run_simps)
qed

end
