(* ===== verification/Wire.thy ===== *)
theory Wire
  imports Session
begin

text \<open>
  What travels: the signing base of a document can be read back, is the same exactly for the same
  content, and the signature of a document is still valid for the document the receiver parses.
\<close>

text \<open>The signing base says all and nothing else: the canonical text of a document parses to the
  document with its keys sorted and its undefined fields dropped, two documents have the same
  canonical text exactly when they are the same in that form, and the order in which an object
  lists its fields has no influence on it.\<close>

theorem signing_base_round_trip:
  assumes "sendable v" "sendable w" "mset es = mset fs" "sendable (JObj es)" "sendable (JObj fs)"
  shows "json_parse (canonicalStringify v) = Some (canon v) \<and>
    (canonicalStringify v = canonicalStringify w \<longleftrightarrow> canon v = canon w) \<and>
    canonicalStringify (JObj es) = canonicalStringify (JObj fs)"
  using assms parse_canonicalStringify canonicalStringify_inject canon_field_order [OF assms(3)]
  by (simp del: canon.simps canonicalStringify.simps)

definition sample_doc :: "(string \<times> json) list" where
  "sample_doc = [(''b'', JInt 1), (''a'', JStr ''x''), (''c'', JUndef)]"

theorem signing_base_round_trip_witness:
  "canonicalStringify (JObj sample_doc) = canonicalStringify (JObj (rev sample_doc)) \<and>
   json_parse (canonicalStringify (JObj sample_doc)) = Some (JObj [(''a'', JStr ''x''), (''b'', JInt 1)])"
proof -
  have s: "sendable (JObj sample_doc)" "sendable (JObj (rev sample_doc))" by (simp_all add: sample_doc_def)
  have m: "mset sample_doc = mset (rev sample_doc)" by simp
  have c: "canon (JObj sample_doc) = JObj [(''a'', JStr ''x''), (''b'', JInt 1)]"
    by (simp add: sample_doc_def)
  from signing_base_round_trip [OF s m s] show ?thesis unfolding c by blast
qed

text \<open>C33: A signature survives the wire: the receiver parses the text of a signed document, and the
  signature it finds is the one of the canonical text of what it parsed without it; and a
  document with another content, however it is written, has another signing base.\<close>

theorem signature_survives_wire:
  assumes "sendable (JObj es)" "sendable v'" "canon v' \<noteq> canon (without ''signature'' (JObj es))"
  shows "(\<exists>v. json_parse (stringify (signDocument E (JObj es))) = Some v \<and> signature_valid E v \<and>
      canonicalStringify (without ''signature'' v) = canonicalStringify (without ''signature'' (JObj es))) \<and>
    canonicalStringify v' \<noteq> canonicalStringify (without ''signature'' (JObj es))"
proof
  obtain fs where fs: "signDocument E (JObj es) = JObj fs" using signDocument_obj by blast
  have s: "sendable (JObj fs)" using sendable_signDocument [OF assms(1), of E] by (simp only: fs)
  have v: "signature_valid E (JObj fs)" using signDocument_valid [of E es] by (simp only: fs)
  have w: "without ''signature'' (JObj fs) = without ''signature'' (JObj es)"
    unfolding fs [symmetric] signDocument_def Let_def by (rule without_set_field)
  note u = sendable_without [OF s, of "''signature''"]
  have "canonicalStringify (without ''signature'' (clean (JObj fs))) = canonicalStringify (without ''signature'' (JObj fs))"
    unfolding without_clean [OF refl] canonicalStringify_canon [OF u]
      canonicalStringify_canon [OF sendable_clean [OF u]] canon_clean [OF u] by (rule refl)
  moreover from signature_valid_wire [OF s v] json_parse_stringify [OF sendable_wf [OF s]]
  have "signature_valid E (clean (JObj fs))" by simp
  ultimately show "\<exists>v. json_parse (stringify (signDocument E (JObj es))) = Some v \<and> signature_valid E v \<and>
      canonicalStringify (without ''signature'' v) = canonicalStringify (without ''signature'' (JObj es))"
    using json_parse_stringify [OF sendable_wf [OF s]] by (intro exI [of _ "clean (JObj fs)"]) (simp only: fs w simp_thms)
  show "canonicalStringify v' \<noteq> canonicalStringify (without ''signature'' (JObj es))"
    using canonicalStringify_inject [OF assms(2) sendable_without [OF assms(1)]] assms(3) by simp
qed

theorem signature_survives_wire_witness:
  "\<exists>v. json_parse (stringify (signDocument (demo_env True) (JObj sample_doc))) = Some v \<and> signature_valid (demo_env True) v"
  using signature_survives_wire [of sample_doc JNull "demo_env True"] by (auto simp: sample_doc_def)

end
