(* ===== verification/Pre_Departure.thy ===== *)
theory Pre_Departure
  imports Session
begin

text \<open>
  The pre-departure check of the fleet service (\<open>pre-departure.service.ts\<close>) and its audit
  writer (\<open>fleet-events.service.ts\<close>). The items of a checklist are kept as the JSON column the
  code reads and writes. A transaction is one step: it sees one state of the tables, and an
  exception inside it leaves them as they were.
\<close>

section \<open>Transactions\<close>

definition fleet_query :: "'kv env \<Rightarrow> ('kv world \<Rightarrow> 'a) \<Rightarrow> ('kv, 'a) handler" where
  "fleet_query E q = effect (\<lambda>w. if fleet_db_up w then (Inr (q w), w) else (Inl (Error (fault E)), w))"

definition fleet_tx :: "'kv env \<Rightarrow> ('kv world \<Rightarrow> (exn + 'a) \<times> 'kv world) \<Rightarrow> ('kv, 'a) handler" where
  "fleet_tx E tx = effect (\<lambda>w.
     if \<not> fleet_db_up w then (Inl (Error (fault E)), w)
     else (case tx w of (Inl e, _) \<Rightarrow> (Inl e, w) | (Inr a, w') \<Rightarrow> (Inr a, w')))"

lemma run_fleet [simp]:
  "run (fleet_query E q) w = (if fleet_db_up w then (Inr (q w), w) else (Inl (Error (fault E)), w))"
  "run (fleet_tx E tx) w = (if \<not> fleet_db_up w then (Inl (Error (fault E)), w)
     else (case tx w of (Inl e, _) \<Rightarrow> (Inl e, w) | (Inr a, w') \<Rightarrow> (Inr a, w')))"
  by (simp_all add: fleet_query_def fleet_tx_def)

section \<open>The audit writer\<close>

definition fleet_event :: "string \<Rightarrow> vehicle_id \<Rightarrow> string \<Rightarrow> string \<Rightarrow> string \<Rightarrow> json \<Rightarrow> 'kv world \<Rightarrow> 'kv world" where
  "fleet_event correlationId vehicleId issuer action status details w =
    w\<lparr>fleet_events := fleet_events w @ [\<lparr>flt_correlationId = correlationId, flt_vehicleId = vehicleId,
      flt_issuer = issuer, flt_action = action, flt_status = status, flt_details = details,
      flt_createdAt = clock w\<rparr>]\<rparr>"

text \<open>\<open>FleetEventsService.append\<close>.\<close>

definition append_fleet_event ::
  "'kv env \<Rightarrow> string \<Rightarrow> vehicle_id \<Rightarrow> string \<Rightarrow> string \<Rightarrow> string \<Rightarrow> json \<Rightarrow> ('kv, unit) handler" where
  "append_fleet_event E correlationId vehicleId issuer action status details =
    fleet_tx E (\<lambda>w. (Inr (), fleet_event correlationId vehicleId issuer action status
      (if details = JUndef then JUndef else clean details) w))"

section \<open>The checklist\<close>

definition check_template :: "string \<Rightarrow> string \<Rightarrow> string \<Rightarrow> bool \<Rightarrow> string \<Rightarrow> (string \<times> json) list" where
  "check_template itemId label category critical source =
    [(''itemId'', JStr itemId), (''label'', JStr label), (''category'', JStr category),
     (''safetyCritical'', JBool critical), (''source'', JStr source)]"

definition DEFAULT_CHECKLIST :: "(string \<times> json) list list" where
  "DEFAULT_CHECKLIST =
    [check_template ''brakes-main'' ''Main braking system'' ''BRAKES'' True ''SELF_DIAGNOSIS'',
     check_template ''brakes-park'' ''Parking brake'' ''BRAKES'' True ''SELF_DIAGNOSIS'',
     check_template ''steering'' ''Steering system'' ''STEERING'' True ''SELF_DIAGNOSIS'',
     check_template ''tires'' ''Tire pressure & condition'' ''TIRES'' True ''OPERATOR'',
     check_template ''lights-head'' ''Headlights & tail lights'' ''LIGHTS'' True ''OPERATOR'',
     check_template ''lights-turn'' ''Turn signals & hazard lights'' ''LIGHTS'' True ''OPERATOR'',
     check_template ''cam-front'' ''Front camera'' ''PERCEPTION'' True ''SELF_DIAGNOSIS'',
     check_template ''lidar'' ''LiDAR sensor'' ''PERCEPTION'' True ''SELF_DIAGNOSIS'',
     check_template ''motor'' ''Propulsion system'' ''PROPULSION'' True ''SELF_DIAGNOSIS'',
     check_template ''connectivity'' ''Cellular connectivity'' ''CONNECTIVITY'' False ''SELF_DIAGNOSIS'']"

definition initial_items :: "json list" where
  "initial_items = map (\<lambda>tpl. JObj (tpl @ [(''status'',
     if get_field (JObj tpl) ''source'' = JStr ''SELF_DIAGNOSIS'' then JStr ''PASS'' else JStr ''PENDING'')]))
     DEFAULT_CHECKLIST"

definition item_pending :: "json \<Rightarrow> bool" where
  "item_pending i = (get_field i ''status'' = JStr ''PENDING'')"

definition item_critical_fail :: "json \<Rightarrow> bool" where
  "item_critical_fail i = (\<not> falsy (get_field i ''safetyCritical'') \<and> get_field i ''status'' = JStr ''FAIL'')"

definition find_check :: "'kv world \<Rightarrow> uuid \<Rightarrow> check_row option" where
  "find_check w checklistId = find (\<lambda>c. chk_id c = checklistId) (checklists w)"

definition update_check :: "uuid \<Rightarrow> (check_row \<Rightarrow> check_row) \<Rightarrow> 'kv world \<Rightarrow> 'kv world" where
  "update_check checklistId f w =
    w\<lparr>checklists := map (\<lambda>c. if chk_id c = checklistId then f c else c) (checklists w)\<rparr>"

text \<open>The id is the primary key: an insert with an id that is taken is rejected.\<close>

definition createChecklist :: "'kv env \<Rightarrow> vehicle_id \<Rightarrow> operator_id \<Rightarrow> ('kv, uuid \<times> json list) handler" where
  "createChecklist E vehicleId createdBy =
    fleet_tx E (\<lambda>w.
      let i = uuid_of E (uuids w);
          row = \<lparr>chk_id = i, chk_vehicleId = vehicleId, chk_status = ''IN_PROGRESS'',
            chk_items = map clean initial_items, chk_confirmedBy = None, chk_createdAt = clock w,
            chk_confirmedAt = None\<rparr>
      in if find_check w i \<noteq> None then (Inl (Error (fault E)), w)
         else (Inr (i, initial_items),
          fleet_event i vehicleId createdBy ''CHECKLIST_CREATED'' ''ACK'' (JObj [(''items'', JArr initial_items)])
            (w\<lparr>uuids := Suc (uuids w), checklists := checklists w @ [row]\<rparr>)))"

text \<open>The assignment to the found element, which is shared with the list.\<close>

fun update_first :: "('a \<Rightarrow> bool) \<Rightarrow> ('a \<Rightarrow> 'a) \<Rightarrow> 'a list \<Rightarrow> 'a list" where
  "update_first P f [] = []"
| "update_first P f (x # xs) = (if P x then f x # xs else x # update_first P f xs)"

definition set_item :: "string \<Rightarrow> string option \<Rightarrow> json \<Rightarrow> json" where
  "set_item status detail i =
    (let i' = set_field ''status'' (JStr status) i
     in if truthy_str detail then set_field ''detail'' (JStr (the detail)) i' else i')"

definition check_status :: "json list \<Rightarrow> string" where
  "check_status items =
    (if list_all (\<lambda>i. \<not> item_pending i) items
     then (if list_ex item_critical_fail items then ''FAILED'' else ''PASSED'')
     else ''IN_PROGRESS'')"

definition has_id :: "string \<Rightarrow> json \<Rightarrow> bool" where
  "has_id itemId i = (get_field i ''itemId'' = JStr itemId)"

definition update_item_tx :: "uuid \<Rightarrow> string \<Rightarrow> string \<Rightarrow> operator_id \<Rightarrow> string option \<Rightarrow> 'kv world
    \<Rightarrow> (exn + (uuid \<times> string \<times> json list)) \<times> 'kv world" where
  "update_item_tx checklistId itemId status operatorId detail w =
    (case find_check w checklistId of
       None \<Rightarrow> (Inl (Error ''Checklist not found''), w)
     | Some rec \<Rightarrow>
         if chk_status rec = ''CONFIRMED'' then (Inl (Error ''Checklist already confirmed''), w)
         else (case find (has_id itemId) (chk_items rec) of
             None \<Rightarrow> (Inl (Error (''Item '' @ itemId @ '' not found'')), w)
           | Some item \<Rightarrow>
               if get_field item ''source'' \<noteq> JStr ''OPERATOR''
               then (Inl (Error (''Item '' @ itemId
                 @ '' is reported by vehicle self-diagnosis and cannot be set by the operator'')), w)
               else
                 (let items = update_first (has_id itemId) (set_item status detail) (chk_items rec);
                      st = check_status items
                  in (Inr (checklistId, st, items),
                      fleet_event checklistId (chk_vehicleId rec) operatorId ''CHECK_ITEM_SET'' status
                        (clean (JObj [(''itemId'', JStr itemId), (''detail'', opt_str detail), (''checklistStatus'', JStr st)]))
                        (update_check checklistId (\<lambda>c. c\<lparr>chk_status := st, chk_items := map clean items\<rparr>) w)))))"

definition updateItem ::
  "'kv env \<Rightarrow> uuid \<Rightarrow> string \<Rightarrow> string \<Rightarrow> operator_id \<Rightarrow> string option \<Rightarrow> ('kv, uuid \<times> string \<times> json list) handler" where
  "updateItem E checklistId itemId status operatorId detail =
    fleet_tx E (update_item_tx checklistId itemId status operatorId detail)"

definition confirm_tx :: "uuid \<Rightarrow> operator_id \<Rightarrow> 'kv world \<Rightarrow> (exn + uuid) \<times> 'kv world" where
  "confirm_tx checklistId operatorId w =
    (case find_check w checklistId of
       None \<Rightarrow> (Inl (Error ''Checklist not found''), w)
     | Some rec \<Rightarrow>
         if chk_status rec = ''CONFIRMED'' then (Inl (Error ''Checklist already confirmed''), w)
         else if list_ex item_pending (chk_items rec)
         then (Inl (Error ''Cannot confirm: some items are still PENDING''), w)
         else if list_ex item_critical_fail (chk_items rec)
         then (Inl (Error ''Cannot confirm: safety-critical item(s) failed''), w)
         else (Inr checklistId,
           fleet_event checklistId (chk_vehicleId rec) operatorId ''CHECKLIST_CONFIRM'' ''ACK''
             (JObj [(''items'', JArr (chk_items rec))])
             (update_check checklistId (\<lambda>c. if chk_status c \<noteq> ''CONFIRMED''
                then c\<lparr>chk_status := ''CONFIRMED'', chk_confirmedBy := Some operatorId,
                  chk_confirmedAt := Some (clock w)\<rparr> else c) w)))"

definition confirm :: "'kv env \<Rightarrow> uuid \<Rightarrow> operator_id \<Rightarrow> ('kv, uuid) handler" where
  "confirm E checklistId operatorId = fleet_tx E (confirm_tx checklistId operatorId)"

definition getChecklist :: "'kv env \<Rightarrow> uuid \<Rightarrow> ('kv, check_row option) handler" where
  "getChecklist E checklistId = fleet_query E (\<lambda>w. find_check w checklistId)"

end
