(* ===== verification/Mission.thy ===== *)
theory Mission
  imports Pre_Departure
begin

text \<open>
  Missions (\<open>mission.service.ts\<close>): their life cycle, and the start that needs a confirmed and
  recent pre-departure check. A read and the write that follows it are separate steps, as they
  are in the code.
\<close>

definition open_statuses :: "string list" where
  "open_statuses = [''PENDING'', ''PRE_CHECK'', ''ACTIVE'', ''PAUSED'']"

definition find_mission :: "'kv world \<Rightarrow> uuid \<Rightarrow> mission_row option" where
  "find_mission w missionId = find (\<lambda>m. mis_id m = missionId) (missions w)"

definition is_open :: "vehicle_id \<Rightarrow> mission_row \<Rightarrow> bool" where
  "is_open vehicleId m = (mis_vehicleId m = vehicleId \<and> List.member open_statuses (mis_status m))"

text \<open>\<open>include: { checklist: true }\<close>.\<close>

definition with_checklist :: "'kv world \<Rightarrow> mission_row \<Rightarrow> mission_row \<times> check_row option" where
  "with_checklist w m = (m, Option.bind (mis_checklistId m) (find_check w))"

definition update_mission :: "uuid \<Rightarrow> (mission_row \<Rightarrow> mission_row) \<Rightarrow> 'kv world \<Rightarrow> 'kv world" where
  "update_mission missionId f w =
    w\<lparr>missions := map (\<lambda>m. if mis_id m = missionId then f m else m) (missions w)\<rparr>"

definition mission_create :: "'kv env \<Rightarrow> vehicle_id \<Rightarrow> operator_id \<Rightarrow> string option \<Rightarrow> ('kv, mission_row) handler" where
  "mission_create E vehicleId createdBy routeId =
    await (fleet_query E (\<lambda>w. find (is_open vehicleId) (missions w))) (\<lambda>activeMission.
    case activeMission of
      Some m \<Rightarrow> throw (Error (''Vehicle '' @ vehicleId @ '' already has an active mission: '' @ mis_id m))
    | None \<Rightarrow>
        fleet_tx E (\<lambda>w.
          let m = \<lparr>mis_id = uuid_of E (uuids w), mis_vehicleId = vehicleId, mis_routeId = routeId,
                mis_status = ''PENDING'', mis_checklistId = None, mis_createdAt = clock w,
                mis_startedAt = None, mis_completedAt = None\<rparr>
          in if find_mission w (mis_id m) \<noteq> None then (Inl (Error (fault E)), w)
             else (Inr m,
              fleet_event (mis_id m) vehicleId createdBy ''MISSION_CREATE'' ''ACK''
                (clean (JObj [(''routeId'', opt_str routeId)]))
                (w\<lparr>uuids := Suc (uuids w), missions := missions w @ [m]\<rparr>))))"

text \<open>The update is rejected when there is no such mission, or when another mission has the
  checklist (\<open>@unique\<close>).\<close>

definition linkChecklist :: "'kv env \<Rightarrow> uuid \<Rightarrow> uuid \<Rightarrow> ('kv, unit) handler" where
  "linkChecklist E missionId checklistId =
    fleet_tx E (\<lambda>w.
      if find_mission w missionId = None \<or>
         list_ex (\<lambda>m. mis_id m \<noteq> missionId \<and> mis_checklistId m = Some checklistId) (missions w)
      then (Inl (Error (fault E)), w)
      else (Inr (), update_mission missionId
        (\<lambda>m. m\<lparr>mis_checklistId := Some checklistId, mis_status := ''PRE_CHECK''\<rparr>) w))"

definition stale_message :: "int \<Rightarrow> string" where
  "stale_message age = ''Cannot start: pre-departure check is stale (confirmed > ''
     @ dec_str (dec_of_int ((age + 30000) div 60000)) @ '' min ago) - re-run the check (LEG-03).''"

definition start_tx :: "uuid \<Rightarrow> operator_id \<Rightarrow> mission_row \<Rightarrow> 'kv env \<Rightarrow> 'kv world
    \<Rightarrow> (exn + (uuid \<times> string)) \<times> 'kv world" where
  "start_tx missionId startedBy m E w =
    (if find_mission w missionId = None then (Inl (Error (fault E)), w)
     else (Inr (missionId, ''ACTIVE''),
       fleet_event missionId (mis_vehicleId m) startedBy ''MISSION_START'' ''ACK''
         (JObj [(''checklistId'', (case mis_checklistId m of None \<Rightarrow> JNull | Some c \<Rightarrow> JStr c))])
         (update_mission missionId (\<lambda>r. r\<lparr>mis_status := ''ACTIVE'', mis_startedAt := Some (clock w)\<rparr>) w)))"

definition start :: "'kv env \<Rightarrow> uuid \<Rightarrow> operator_id \<Rightarrow> ('kv, uuid \<times> string) handler" where
  "start E missionId startedBy =
    await (fleet_query E (\<lambda>w. map_option (with_checklist w) (find_mission w missionId))) (\<lambda>found.
    case found of
      None \<Rightarrow> throw (Error ''Mission not found'')
    | Some (m, checklist) \<Rightarrow>
        if \<not> List.member [''PRE_CHECK''] (mis_status m)
        then throw (Error (''Cannot start mission in status '' @ mis_status m))
        else (case checklist of
            None \<Rightarrow> throw (Error ''Cannot start: pre-departure check not confirmed'')
          | Some c \<Rightarrow>
              if chk_status c \<noteq> ''CONFIRMED''
              then throw (Error ''Cannot start: pre-departure check not confirmed'')
              else
                await date_now (\<lambda>now.
                if \<not> truthy_int (chk_confirmedAt c) \<or>
                   CHECKLIST_MAX_AGE_MS E < now - the (chk_confirmedAt c)
                then throw (Error (stale_message (CHECKLIST_MAX_AGE_MS E)))
                else fleet_tx E (start_tx missionId startedBy m E))))"

definition transition_tx :: "uuid \<Rightarrow> string \<Rightarrow> operator_id \<Rightarrow> mission_row \<Rightarrow> 'kv env \<Rightarrow> 'kv world
    \<Rightarrow> (exn + (uuid \<times> string)) \<times> 'kv world" where
  "transition_tx missionId to actor m E w =
    (if find_mission w missionId = None then (Inl (Error (fault E)), w)
     else (Inr (missionId, to),
       fleet_event missionId (mis_vehicleId m) actor (''MISSION_'' @ to) ''ACK'' (JObj [(''from'', JStr (mis_status m))])
         (update_mission missionId (\<lambda>r. r\<lparr>mis_status := to,
            mis_completedAt := (if to = ''COMPLETED'' \<or> to = ''ABORTED'' then Some (clock w) else mis_completedAt r),
            mis_startedAt := (if to = ''ACTIVE'' \<and> \<not> truthy_int (mis_startedAt m) then Some (clock w)
              else mis_startedAt r)\<rparr>) w)))"

definition transition :: "'kv env \<Rightarrow> uuid \<Rightarrow> string \<Rightarrow> string list \<Rightarrow> operator_id \<Rightarrow> ('kv, uuid \<times> string) handler" where
  "transition E missionId to fromAllowed actor =
    await (fleet_query E (\<lambda>w. find_mission w missionId)) (\<lambda>found.
    case found of
      None \<Rightarrow> throw (Error ''Mission not found'')
    | Some m \<Rightarrow>
        if \<not> List.member fromAllowed (mis_status m)
        then throw (Error (''Cannot transition from '' @ mis_status m @ '' to '' @ to))
        else fleet_tx E (transition_tx missionId to actor m E))"

definition pause :: "'kv env \<Rightarrow> uuid \<Rightarrow> operator_id \<Rightarrow> ('kv, uuid \<times> string) handler" where
  "pause E missionId actor = transition E missionId ''PAUSED'' [''ACTIVE''] actor"

definition resume :: "'kv env \<Rightarrow> uuid \<Rightarrow> operator_id \<Rightarrow> ('kv, uuid \<times> string) handler" where
  "resume E missionId actor = transition E missionId ''ACTIVE'' [''PAUSED''] actor"

definition abort :: "'kv env \<Rightarrow> uuid \<Rightarrow> operator_id \<Rightarrow> ('kv, uuid \<times> string) handler" where
  "abort E missionId actor =
    transition E missionId ''ABORTED'' [''PENDING'', ''PRE_CHECK'', ''ACTIVE'', ''PAUSED''] actor"

definition complete :: "'kv env \<Rightarrow> uuid \<Rightarrow> operator_id \<Rightarrow> ('kv, uuid \<times> string) handler" where
  "complete E missionId actor = transition E missionId ''COMPLETED'' [''ACTIVE''] actor"

definition getActive :: "'kv env \<Rightarrow> vehicle_id \<Rightarrow> ('kv, (mission_row \<times> check_row option) option) handler" where
  "getActive E vehicleId =
    fleet_query E (\<lambda>w. map_option (with_checklist w) (find (is_open vehicleId) (missions w)))"

definition mission_get :: "'kv env \<Rightarrow> uuid \<Rightarrow> ('kv, (mission_row \<times> check_row option) option) handler" where
  "mission_get E missionId = fleet_query E (\<lambda>w. map_option (with_checklist w) (find_mission w missionId))"

end
