(* ===== verification/Fleet_Controller.thy ===== *)
theory Fleet_Controller
  imports Mission
begin

text \<open>
  The HTTP handlers of the fleet service (\<open>fleet.controller.ts\<close>) and its check of the fencing
  lock that the command service owns (\<open>session-check.service.ts\<close>). Every change needs the
  identity of the caller and the lock of the vehicle; a refused confirmation or transition is
  written to the audit trail after the roll-back.
\<close>

section \<open>The fencing check\<close>

definition lock_matches :: "string \<Rightarrow> operator_id \<Rightarrow> uuid \<Rightarrow> bool" where
  "lock_matches raw operatorId tok =
    (case json_parse raw of
       None \<Rightarrow> False
     | Some lock \<Rightarrow> get_field lock ''op'' = JStr operatorId \<and> get_field lock ''token'' = JStr tok)"

definition fleet_validateToken :: "'kv env \<Rightarrow> vehicle_id \<Rightarrow> operator_id \<Rightarrow> uuid \<Rightarrow> ('kv, bool) handler" where
  "fleet_validateToken E vehicleId operatorId tok =
    (if operatorId = [] \<or> tok = [] then ret False
     else catch
       (await (redis_get E (lock_key vehicleId)) (\<lambda>raw.
        ret (truthy_str raw \<and> lock_matches (the raw) operatorId tok)))
       (\<lambda>_. ret False))"

definition requireControl :: "'kv env \<Rightarrow> vehicle_id \<Rightarrow> operator_id \<Rightarrow> uuid \<Rightarrow> ('kv, unit) handler" where
  "requireControl E vehicleId operatorId tok =
    await (fleet_validateToken E vehicleId operatorId tok) (\<lambda>ok.
    if \<not> ok then throw (UnauthorizedException ''INVALID_TOKEN'') else ret ())"

section \<open>Pre-departure check\<close>

definition create_checklist :: "'kv env \<Rightarrow> vehicle_id \<Rightarrow> operator_id \<Rightarrow> uuid \<Rightarrow> req \<Rightarrow> ('kv, uuid \<times> json list) handler" where
  "create_checklist E vehicleId operatorId tok r =
    guarded (requireOperatorIdentity E r operatorId) (
    await (requireControl E vehicleId operatorId tok) (\<lambda>_. createChecklist E vehicleId operatorId))"

definition get_checklist :: "'kv env \<Rightarrow> uuid \<Rightarrow> ('kv, check_row) handler" where
  "get_checklist E checklistId =
    await (getChecklist E checklistId) (\<lambda>cl.
    case cl of None \<Rightarrow> throw (NotFoundException ''Checklist not found'') | Some c \<Rightarrow> ret c)"

definition updateCheckItem ::
  "'kv env \<Rightarrow> uuid \<Rightarrow> string \<Rightarrow> operator_id \<Rightarrow> uuid \<Rightarrow> string \<Rightarrow> req \<Rightarrow> string option
    \<Rightarrow> ('kv, uuid \<times> string \<times> json list) handler" where
  "updateCheckItem E checklistId itemId operatorId tok status r detail =
    guarded (requireOperatorIdentity E r operatorId) (
    await (getChecklist E checklistId) (\<lambda>cl.
    case cl of
      None \<Rightarrow> throw (NotFoundException ''Checklist not found'')
    | Some c \<Rightarrow>
        await (requireControl E (chk_vehicleId c) operatorId tok) (\<lambda>_.
        catch (updateItem E checklistId itemId status operatorId detail)
          (\<lambda>e. throw (BadRequestException (message_of e))))))"

definition confirmChecklist :: "'kv env \<Rightarrow> uuid \<Rightarrow> operator_id \<Rightarrow> uuid \<Rightarrow> req \<Rightarrow> ('kv, uuid) handler" where
  "confirmChecklist E checklistId operatorId tok r =
    guarded (requireOperatorIdentity E r operatorId) (
    await (getChecklist E checklistId) (\<lambda>cl.
    case cl of
      None \<Rightarrow> throw (NotFoundException ''Checklist not found'')
    | Some c \<Rightarrow>
        await (requireControl E (chk_vehicleId c) operatorId tok) (\<lambda>_.
        catch (confirm E checklistId operatorId)
          (\<lambda>e. await (append_fleet_event E checklistId (chk_vehicleId c) operatorId ''CHECKLIST_CONFIRM'' ''REJECTED''
              (JObj [(''reason'', JStr (message_of e))])) (\<lambda>_.
            throw (BadRequestException (message_of e)))))))"

section \<open>Mission life cycle\<close>

definition createMission ::
  "'kv env \<Rightarrow> vehicle_id \<Rightarrow> operator_id \<Rightarrow> uuid \<Rightarrow> req \<Rightarrow> string option
    \<Rightarrow> ('kv, mission_row \<times> uuid \<times> json list) handler" where
  "createMission E vehicleId operatorId tok r routeId =
    guarded (requireOperatorIdentity E r operatorId) (
    await (requireControl E vehicleId operatorId tok) (\<lambda>_.
    catch
      (await (mission_create E vehicleId operatorId routeId) (\<lambda>m.
       catch
         (await (createChecklist E vehicleId operatorId) (\<lambda>(checklistId, items).
          await (linkChecklist E (mis_id m) checklistId) (\<lambda>_.
          ret (m\<lparr>mis_status := ''PRE_CHECK''\<rparr>, checklistId, items))))
         (\<lambda>e. await (catch (abort E (mis_id m) ''SYSTEM-CLEANUP'') (\<lambda>_. ret (mis_id m, []))) (\<lambda>_. throw e))))
      (\<lambda>e. throw (BadRequestException (message_of e)))))"

definition get_active_mission :: "'kv env \<Rightarrow> vehicle_id \<Rightarrow> ('kv, mission_row \<times> check_row option) handler" where
  "get_active_mission E vehicleId =
    await (getActive E vehicleId) (\<lambda>m.
    case m of None \<Rightarrow> throw (NotFoundException ''No active mission'') | Some x \<Rightarrow> ret x)"

definition get_mission :: "'kv env \<Rightarrow> uuid \<Rightarrow> ('kv, mission_row \<times> check_row option) handler" where
  "get_mission E missionId =
    await (mission_get E missionId) (\<lambda>m.
    case m of None \<Rightarrow> throw (NotFoundException ''Mission not found'') | Some x \<Rightarrow> ret x)"

datatype mission_op = StartOp | PauseOp | ResumeOp | AbortOp | CompleteOp

fun mission_call :: "'kv env \<Rightarrow> mission_op \<Rightarrow> uuid \<Rightarrow> operator_id \<Rightarrow> ('kv, uuid \<times> string) handler" where
  "mission_call E StartOp = start E"
| "mission_call E PauseOp = pause E"
| "mission_call E ResumeOp = resume E"
| "mission_call E AbortOp = abort E"
| "mission_call E CompleteOp = complete E"

fun op_name :: "mission_op \<Rightarrow> string" where
  "op_name StartOp = ''START''"
| "op_name PauseOp = ''PAUSE''"
| "op_name ResumeOp = ''RESUME''"
| "op_name AbortOp = ''ABORT''"
| "op_name CompleteOp = ''COMPLETE''"

definition missionOp :: "'kv env \<Rightarrow> uuid \<Rightarrow> operator_id \<Rightarrow> uuid \<Rightarrow> req \<Rightarrow> mission_op \<Rightarrow> ('kv, uuid \<times> string) handler" where
  "missionOp E missionId operatorId tok r mop =
    guarded (requireOperatorIdentity E r operatorId) (
    await (mission_get E missionId) (\<lambda>found.
    case found of
      None \<Rightarrow> throw (NotFoundException ''Mission not found'')
    | Some (m, _) \<Rightarrow>
        await (requireControl E (mis_vehicleId m) operatorId tok) (\<lambda>_.
        catch (mission_call E mop missionId operatorId)
          (\<lambda>e. await (append_fleet_event E missionId (mis_vehicleId m) operatorId (''MISSION_'' @ op_name mop)
              ''REJECTED'' (JObj [(''reason'', JStr (message_of e))])) (\<lambda>_.
            throw (BadRequestException (message_of e)))))))"

end
