(* ===== verification/Fleet_System.thy ===== *)
theory Fleet_System
  imports Fleet_Controller
begin

text \<open>
  The fleet service as a whole: every request of it as one type, run in any interleaving, and
  what then holds of the checklists and missions: a confirmed checklist is complete and stays as
  it is, its confirmation is in the audit trail, and a mission is started only with one.
\<close>

section \<open>Everything the service does\<close>

datatype fleet_op =
    CreateCheckOp vehicle_id operator_id uuid req
  | GetCheckOp uuid
  | ItemOp uuid string operator_id uuid string req "string option"
  | ConfirmOp uuid operator_id uuid req
  | CreateMissionOp vehicle_id operator_id uuid req "string option"
  | ActiveMissionOp vehicle_id
  | GetMissionOp uuid
  | MissionOp uuid operator_id uuid req mission_op
  | FleetTick nat
  | FleetLinks bool bool

definition finished :: "('kv, 'a) handler \<Rightarrow> ('kv, unit) handler" where
  "finished p = await p (\<lambda>_. ret ())"

fun fleet :: "'kv env \<Rightarrow> fleet_op \<Rightarrow> ('kv, unit) handler" where
  "fleet E (CreateCheckOp v p t r) = finished (create_checklist E v p t r)"
| "fleet E (GetCheckOp c) = finished (get_checklist E c)"
| "fleet E (ItemOp c i p t st r d) = finished (updateCheckItem E c i p t st r d)"
| "fleet E (ConfirmOp c p t r) = finished (confirmChecklist E c p t r)"
| "fleet E (CreateMissionOp v p t r x) = finished (createMission E v p t r x)"
| "fleet E (ActiveMissionOp v) = finished (get_active_mission E v)"
| "fleet E (GetMissionOp i) = finished (get_mission E i)"
| "fleet E (MissionOp i p t r x) = finished (missionOp E i p t r x)"
| "fleet E (FleetTick d) = tick d"
| "fleet E (FleetLinks s f) = modify (\<lambda>w. w\<lparr>store_up := s, fleet_db_up := f\<rparr>)"

definition fleet_after :: "'kv env \<Rightarrow> nat list \<Rightarrow> fleet_op list \<Rightarrow> 'kv world \<Rightarrow> 'kv world" where
  "fleet_after E ns ops w = snd (sched ns (map (fleet E) ops) w)"

section \<open>The invariant\<close>

definition complete_check :: "check_row \<Rightarrow> bool" where
  "complete_check c = (list_all (\<lambda>i. \<not> item_pending i \<and> \<not> item_critical_fail i) (chk_items c) \<and>
     chk_confirmedBy c \<noteq> None \<and> chk_confirmedAt c \<noteq> None)"

definition confirmed :: "check_row \<Rightarrow> bool" where
  "confirmed c = (chk_status c = ''CONFIRMED'')"

definition evidenced :: "fleet_row list \<Rightarrow> check_row \<Rightarrow> bool" where
  "evidenced evs c = (\<exists>e \<in> set evs. flt_correlationId e = chk_id c \<and> flt_vehicleId e = chk_vehicleId c \<and>
     flt_action e = ''CHECKLIST_CONFIRM'' \<and> flt_status e = ''ACK'' \<and>
     flt_details e = JObj [(''items'', JArr (chk_items c))])"

definition is_start :: "fleet_row \<Rightarrow> bool" where
  "is_start e = (flt_action e = ''MISSION_START'' \<and> flt_status e = ''ACK'')"

definition backed :: "check_row list \<Rightarrow> fleet_row \<Rightarrow> bool" where
  "backed cs e = (\<exists>c \<in> set cs. confirmed c \<and> flt_details e = JObj [(''checklistId'', JStr (chk_id c))])"

text \<open>A mission that is or was under way.\<close>

definition moving :: "string \<Rightarrow> bool" where
  "moving s = List.member [''ACTIVE'', ''PAUSED'', ''COMPLETED''] s"

definition under_way :: "mission_row \<Rightarrow> bool" where
  "under_way m = moving (mis_status m)"

definition launched :: "fleet_row list \<Rightarrow> uuid \<Rightarrow> bool" where
  "launched evs i = (\<exists>e \<in> set evs. is_start e \<and> flt_correlationId e = i)"

definition fleet_ok :: "'kv world \<Rightarrow> bool" where
  "fleet_ok w = (distinct (map chk_id (checklists w)) \<and>
     (\<forall>c \<in> set (checklists w). confirmed c \<longrightarrow> complete_check c \<and> evidenced (fleet_events w) c) \<and>
     (\<forall>e \<in> set (fleet_events w). is_start e \<longrightarrow> backed (checklists w) e) \<and>
     (\<forall>m \<in> set (missions w). under_way m \<longrightarrow> launched (fleet_events w) (mis_id m)))"

text \<open>How the tables move: the audit trail grows, confirmed checklists stay.\<close>

definition fleet_moves :: "'kv world \<Rightarrow> 'kv world \<Rightarrow> bool" where
  "fleet_moves w w' = ((\<exists>new. fleet_events w' = fleet_events w @ new) \<and>
     (\<forall>c \<in> set (checklists w). confirmed c \<longrightarrow> c \<in> set (checklists w')))"

lemma fleet_moves_preorder: "reflp (fleet_moves :: 'kv world \<Rightarrow> _)" "transp (fleet_moves :: 'kv world \<Rightarrow> _)"
  by (auto simp: fleet_moves_def intro!: reflpI transpI)

abbreviation calm :: "('kv, 'a) handler \<Rightarrow> bool" where
  "calm p \<equiv> tame fleet_ok fleet_moves p"

abbreviation sound :: "('kv, 'a) handler \<Rightarrow> 'kv world \<Rightarrow> bool" where
  "sound p w \<equiv> wp fleet_ok fleet_moves p (\<lambda>_ _. True) w"

lemma evidenced_mono: "evidenced evs c \<Longrightarrow> evidenced (evs @ new) c"
  by (auto simp: evidenced_def)

lemma launched_mono: "launched evs i \<Longrightarrow> launched (evs @ new) i"
  by (auto simp: launched_def)

text \<open>Steps that do not touch checklists and start nothing.\<close>

lemma fleet_ok_frame:
  assumes "fleet_ok w" "checklists w' = checklists w" "fleet_events w' = fleet_events w @ new"
    "\<forall>e \<in> set new. is_start e \<longrightarrow> backed (checklists w) e"
    "\<forall>m \<in> set (missions w'). under_way m \<longrightarrow> m \<in> set (missions w) \<or> launched (fleet_events w') (mis_id m)"
  shows "fleet_ok w' \<and> fleet_moves w w'"
  using assms by (auto simp: fleet_ok_def fleet_moves_def intro: evidenced_mono launched_mono)

lemma calm_effect:
  assumes "\<And>w. checklists (snd (f w)) = checklists w" "\<And>w. fleet_events (snd (f w)) = fleet_events w"
    "\<And>w. missions (snd (f w)) = missions w"
  shows "calm (effect f)"
proof (rule tame_effect, goal_cases)
  case (1 w)
  then show ?case using assms [of w] by (intro fleet_ok_frame [where new = "[]"]) simp_all
qed

lemma fleet_event_simps [simp]:
  "checklists (fleet_event c v i a s d w) = checklists w" "missions (fleet_event c v i a s d w) = missions w"
  "fleet_events (fleet_event c v i a s d w) = fleet_events w @ [\<lparr>flt_correlationId = c, flt_vehicleId = v, flt_issuer = i,
     flt_action = a, flt_status = s, flt_details = d, flt_createdAt = clock w\<rparr>]"
  by (simp_all add: fleet_event_def)

lemma calm_tx:
  "(\<And>w a w'. fleet_ok w \<Longrightarrow> tx w = (Inr a, w') \<Longrightarrow> fleet_ok w' \<and> fleet_moves w w') \<Longrightarrow> calm (fleet_tx E tx)"
  unfolding fleet_tx_def
proof (rule tame_effect, goal_cases)
  case (1 w)
  have "fleet_moves w w" using fleet_moves_preorder(1) by (rule reflpD)
  with 1 show ?case by (auto split: prod.split sum.split)
qed

section \<open>One operation after the other\<close>

lemma calm_reads:
  "calm (fleet_query E q)" "calm date_now" "calm (redis_get E k)" "calm (getChecklist E c)" "calm (mission_get E i)"
  "calm (getActive E v)" "calm (tick d)" "calm (modify (\<lambda>w. w\<lparr>store_up := s, fleet_db_up := f\<rparr>))"
  unfolding fleet_query_def date_now_def look_def redis_get_def getChecklist_def mission_get_def getActive_def
    tick_def modify_def
  by (auto intro!: calm_effect)

lemma calm_append:
  assumes "\<not> (a = ''MISSION_START'' \<and> s = ''ACK'')"
  shows "calm (append_fleet_event E c v i a s d)"
  unfolding append_fleet_event_def
proof (rule calm_tx, goal_cases)
  case (1 w x w')
  then have "w' = fleet_event c v i a s (if d = JUndef then JUndef else clean d) w" by auto
  then show ?case
    using fleet_ok_frame [OF 1(1), of w'] assms by (fastforce simp: is_start_def)
qed

lemma calm_control: "calm (requireControl E v p t)"
  unfolding requireControl_def fleet_validateToken_def
  by (auto intro!: tame_rules calm_reads)

lemma calm_create: "calm (createChecklist E v p)"
  unfolding createChecklist_def
proof (rule calm_tx, goal_cases)
  case (1 w a w')
  let ?i = "uuid_of E (uuids w)"
  from 1(2) have new: "?i \<notin> chk_id ` set (checklists w)"
    and w': "\<exists>c e. checklists w' = checklists w @ [c] \<and> fleet_events w' = fleet_events w @ [e] \<and> chk_id c = ?i \<and>
      \<not> confirmed c \<and> \<not> is_start e \<and> missions w' = missions w"
    by (auto simp: Let_def find_check_def find_None_iff confirmed_def is_start_def split: if_splits)
  then obtain c e where ce: "checklists w' = checklists w @ [c]" "fleet_events w' = fleet_events w @ [e]" "chk_id c = ?i"
      "\<not> confirmed c" "\<not> is_start e" "missions w' = missions w" by blast
  with 1(1) new show ?case
    by (auto simp: fleet_ok_def fleet_moves_def backed_def intro: evidenced_mono launched_mono)
qed

lemma update_item_cases:
  assumes "update_item_tx c i st p d w = (Inr a, w')"
  obtains rec items s e where "find_check w c = Some rec" "chk_status rec \<noteq> ''CONFIRMED''"
    "w' = fleet_event c (chk_vehicleId rec) p ''CHECK_ITEM_SET'' st e
      (update_check c (\<lambda>c. c\<lparr>chk_status := s, chk_items := items\<rparr>) w)" "s \<noteq> ''CONFIRMED''"
  using assms
  by (auto simp: update_item_tx_def Let_def check_status_def split: option.splits if_splits)

lemma confirm_cases:
  assumes "confirm_tx c p w = (Inr a, w')"
  obtains rec where "find_check w c = Some rec" "chk_status rec \<noteq> ''CONFIRMED''"
    "list_all (\<lambda>i. \<not> item_pending i \<and> \<not> item_critical_fail i) (chk_items rec)"
    "w' = fleet_event c (chk_vehicleId rec) p ''CHECKLIST_CONFIRM'' ''ACK'' (JObj [(''items'', JArr (chk_items rec))])
      (update_check c (\<lambda>c. if chk_status c \<noteq> ''CONFIRMED''
        then c\<lparr>chk_status := ''CONFIRMED'', chk_confirmedBy := Some p, chk_confirmedAt := Some (clock w)\<rparr> else c) w)"
  using assms
  by (auto simp: confirm_tx_def list_all_iff list_ex_iff split: option.splits if_splits)

text \<open>An update of one checklist that is not confirmed.\<close>

lemma check_frame:
  assumes ok: "fleet_ok w" and rec: "find_check w c = Some rec" "chk_status rec \<noteq> ''CONFIRMED''"
    and f: "chk_id (f rec) = c" "confirmed (f rec) \<longrightarrow> complete_check (f rec) \<and> evidenced [e] (f rec)"
    and w': "checklists w' = map (\<lambda>r. if chk_id r = c then f r else r) (checklists w)"
      "fleet_events w' = fleet_events w @ [e]" "\<not> is_start e" "missions w' = missions w"
  shows "fleet_ok w' \<and> fleet_moves w w'"
proof -
  have r: "rec \<in> set (checklists w)" "chk_id rec = c"
    using rec(1) by (auto simp: find_check_def find_Some_iff)
  have only: "x = rec" if "x \<in> set (checklists w)" "chk_id x = c" for x
    using ok r that by (auto simp: fleet_ok_def distinct_map inj_on_def)
  then have ids: "map chk_id (checklists w') = map chk_id (checklists w)"
    using f(1) by (auto simp: w')
  have keep: "x \<in> set (checklists w')" if "x \<in> set (checklists w)" "confirmed x" for x
    using that only [of x] rec(2) by (force simp: w' confirmed_def)
  have ev: "complete_check x \<and> evidenced (fleet_events w') x" if "x \<in> set (checklists w')" "confirmed x" for x
  proof -
    from that(1) obtain y where y: "y \<in> set (checklists w)" "x = (if chk_id y = c then f y else y)" by (auto simp: w')
    show ?thesis
    proof (cases "chk_id y = c")
      case True
      then have "x = f rec" using y only by simp
      then show ?thesis using f(2) that(2) by (auto simp: evidenced_def w')
    qed (use y that(2) ok in \<open>auto simp: fleet_ok_def w' intro: evidenced_mono\<close>)
  qed
  have "backed (checklists w') x" if "backed (checklists w) x" for x
    using that keep by (auto simp: backed_def)
  with ok ids ev keep show ?thesis
    by (auto simp: fleet_ok_def fleet_moves_def w'(2-4) intro: launched_mono)
qed

lemma find_check_id: "find_check w c = Some r \<Longrightarrow> chk_id r = c"
  by (auto simp: find_check_def find_Some_iff)

lemma calm_update: "calm (updateItem E c i st p d)"
  unfolding updateItem_def
proof (rule calm_tx, goal_cases)
  case (1 w a w')
  obtain rec items s e where h: "find_check w c = Some rec" "chk_status rec \<noteq> ''CONFIRMED''"
    "w' = fleet_event c (chk_vehicleId rec) p ''CHECK_ITEM_SET'' st e
      (update_check c (\<lambda>c. c\<lparr>chk_status := s, chk_items := items\<rparr>) w)" "s \<noteq> ''CONFIRMED''"
    using 1(2) by (rule update_item_cases)
  show ?case
    by (rule check_frame [OF 1(1) h(1,2), where f = "\<lambda>c. c\<lparr>chk_status := s, chk_items := items\<rparr>"])
      (simp_all add: h(3,4) find_check_id [OF h(1)] update_check_def confirmed_def is_start_def)+
qed

lemma calm_confirm: "calm (confirm E c p)"
  unfolding confirm_def
proof (rule calm_tx, goal_cases)
  case (1 w a w')
  let ?f = "\<lambda>c. if chk_status c \<noteq> ''CONFIRMED''
        then c\<lparr>chk_status := ''CONFIRMED'', chk_confirmedBy := Some p, chk_confirmedAt := Some (clock w)\<rparr> else c"
  obtain rec where h: "find_check w c = Some rec" "chk_status rec \<noteq> ''CONFIRMED''"
    "list_all (\<lambda>i. \<not> item_pending i \<and> \<not> item_critical_fail i) (chk_items rec)"
    "w' = fleet_event c (chk_vehicleId rec) p ''CHECKLIST_CONFIRM'' ''ACK'' (JObj [(''items'', JArr (chk_items rec))])
      (update_check c ?f w)"
    using 1(2) by (rule confirm_cases)
  show ?case
    by (rule check_frame [OF 1(1) h(1,2), where f = ?f])
      (simp_all add: h find_check_id [OF h(1)] update_check_def is_start_def complete_check_def evidenced_def)+
qed

lemma update_mission_simps [simp]:
  "checklists (update_mission i f w) = checklists w" "fleet_events (update_mission i f w) = fleet_events w"
  "missions (update_mission i f w) = map (\<lambda>m. if mis_id m = i then f m else m) (missions w)"
  by (simp_all add: update_mission_def)

lemma new_event:
  assumes "fleet_ok w" "checklists u = checklists w" "fleet_events u = fleet_events w"
    "a = ''MISSION_START'' \<and> s = ''ACK'' \<longrightarrow> (\<exists>c \<in> set (checklists w). confirmed c \<and> d = JObj [(''checklistId'', JStr (chk_id c))])"
    "\<forall>m \<in> set (missions u). under_way m \<longrightarrow>
       m \<in> set (missions w) \<or> launched (fleet_events w) (mis_id m) \<or> a = ''MISSION_START'' \<and> s = ''ACK'' \<and> mis_id m = c"
  shows "fleet_ok (fleet_event c v i a s d u)" "fleet_moves w (fleet_event c v i a s d u)"
proof -
  let ?w = "fleet_event c v i a s d u"
  have "fleet_ok ?w \<and> fleet_moves w ?w"
    by (rule fleet_ok_frame [OF assms(1)])
      (use assms in \<open>auto simp: is_start_def backed_def launched_def\<close>)
  then show "fleet_ok ?w" "fleet_moves w ?w" by simp_all
qed

lemma find_missionD: "find_mission w i = Some m \<Longrightarrow> m \<in> set (missions w) \<and> mis_id m = i"
  by (auto simp: find_mission_def find_Some_iff)

lemma calm_mission_create: "calm (mission_create E v p x)"
  unfolding mission_create_def
proof (intro tame_await calm_reads, goal_cases)
  case (1 a)
  show ?case
    by (cases a) (auto simp: Let_def under_way_def moving_def split: if_splits intro!: calm_tx new_event)
qed

lemma calm_link: "calm (linkChecklist E m c)"
  unfolding linkChecklist_def
proof (rule calm_tx, goal_cases)
  case (1 w a w')
  then show ?case
    by (intro fleet_ok_frame [where new = "[]"]) (auto simp: under_way_def moving_def split: if_splits)
qed

lemma sound_await: "(\<And>w. sound p w) \<Longrightarrow> (\<And>a w. sound (k a) w) \<Longrightarrow> sound (await p k) w"
  unfolding wp_await by (rule wp_mono [where Q = "\<lambda>_ _. True"]) (auto split: sum.split)

lemma sound_catch: "(\<And>w. sound p w) \<Longrightarrow> (\<And>e w. sound (h e) w) \<Longrightarrow> sound (catch p h) w"
  unfolding wp_catch by (rule wp_mono [where Q = "\<lambda>_ _. True"]) (auto split: sum.split)

lemma sound_tx:
  assumes "\<And>w' a w''. fleet_moves w w' \<Longrightarrow> fleet_ok w' \<Longrightarrow> tx w' = (Inr a, w'') \<Longrightarrow> fleet_ok w'' \<and> fleet_moves w' w''"
  shows "sound (fleet_tx E tx) w"
  unfolding fleet_tx_def wp_effect
proof (intro allI impI, goal_cases)
  case (1 w')
  have "fleet_moves w' w'" using fleet_moves_preorder(1) by (rule reflpD)
  with 1 assms [OF 1] show ?case by (auto split: prod.split sum.split)
qed

text \<open>A mission found under way was launched, and its launch stays in the audit trail. No other
  transition leads into a mission under way.\<close>

definition orderly :: "string \<Rightarrow> string list \<Rightarrow> bool" where
  "orderly to from = (to \<noteq> ''START'' \<and> (moving to \<longrightarrow> list_all moving from))"

lemma launched_moves: "fleet_moves w w' \<Longrightarrow> launched (fleet_events w) i \<Longrightarrow> launched (fleet_events w') i"
  by (auto simp: fleet_moves_def launched_def)

lemma sound_transition: "orderly to from \<Longrightarrow> sound (transition E i to from p) w"
  unfolding transition_def fleet_query_def
proof (rule wp_await_effect, goal_cases)
  case (1 w1)
  have R: "fleet_moves w1 w1" using fleet_moves_preorder(1) by (rule reflpD)
  have "sound (fleet_tx E (transition_tx i to p m E)) w1" if m: "find_mission w1 i = Some m" "mis_status m \<in> set from" for m
  proof (rule sound_tx, goal_cases)
    case (1 w2 a w3)
    have "launched (fleet_events w2) i" if "moving to"
    proof -
      have "under_way m" using that \<open>orderly to from\<close> m(2) by (simp add: orderly_def under_way_def list_all_iff)
      then have "launched (fleet_events w1) i"
        using \<open>fleet_ok w1\<close> find_missionD [OF m(1)] by (auto simp: fleet_ok_def)
      then show ?thesis using launched_moves [OF 1(1)] by blast
    qed
    with 1(2,3) \<open>orderly to from\<close> show ?case
      by (auto simp: transition_tx_def orderly_def under_way_def split: if_splits intro!: new_event)
  qed
  then show ?case using 1(3) R by (auto split: option.split)
qed

text \<open>The checklist the start has read is still there, confirmed, when it writes.\<close>

lemma sound_start: "sound (start E i p) w"
  unfolding start_def fleet_query_def
proof (rule wp_await_effect, goal_cases)
  case (1 w1)
  have R: "fleet_moves w1 w1" using fleet_moves_preorder(1) by (rule reflpD)
  have tx: "sound (fleet_tx E (start_tx i p m E)) w2"
    if h: "with_checklist w1 m = (m, Some c)" "chk_status c = ''CONFIRMED''" "fleet_moves w1 w2" for m c w2
  proof (rule sound_tx, goal_cases)
    case (1 w3 a w4)
    from h(1,2) obtain k where k: "mis_checklistId m = Some k" "find_check w1 k = Some c"
      by (auto simp: with_checklist_def bind_eq_Some_conv)
    then have c: "c \<in> set (checklists w1)" "chk_id c = k" by (auto simp: find_check_def find_Some_iff)
    have "fleet_moves w1 w3" using fleet_moves_preorder(2) h(3) 1(1) by (rule transpD)
    then have "c \<in> set (checklists w3)" using c h(2) by (auto simp: fleet_moves_def confirmed_def)
    then show ?case
      using 1(2,3) k(1) c(2) h(2) by (auto simp: start_tx_def confirmed_def split: if_splits intro!: new_event)
  qed
  have "sound (await date_now (\<lambda>now. if \<not> truthy_int (chk_confirmedAt c) \<or>
        CHECKLIST_MAX_AGE_MS E < now - the (chk_confirmedAt c)
      then throw (Error (stale_message (CHECKLIST_MAX_AGE_MS E))) else fleet_tx E (start_tx i p m E))) w1"
    if "with_checklist w1 m = (m, Some c)" "chk_status c = ''CONFIRMED''" for m c
    unfolding date_now_def look_def
    by (rule wp_await_effect) (use tx that R in \<open>auto intro: reflpD [OF fleet_moves_preorder(1)]\<close>)
  then show ?case
    using 1(2) R by (auto simp: with_checklist_def split: option.split)
qed

lemma sound_guarded: "sound p w \<Longrightarrow> sound (guarded g p) w"
  by (cases g) (simp_all add: guarded_def)

lemma calm_sound: "calm p \<Longrightarrow> sound p w"
  by (rule tame_wp)

lemma sound_mission_call: "sound (mission_call E mop i p) w"
  by (cases mop) (auto simp: pause_def resume_def abort_def complete_def orderly_def moving_def
      intro!: sound_start sound_transition)

lemma sound_refusal:
  "sound (await (append_fleet_event E c v i a ''REJECTED'' d) (\<lambda>_. throw x)) w"
  by (intro calm_sound tame_await calm_append) simp_all

lemma sound_missionOp: "sound (missionOp E i p t r mop) w"
  unfolding missionOp_def
  by (intro sound_guarded sound_await calm_sound [OF calm_reads(5)])
    (auto split: option.split intro!: sound_await sound_catch sound_mission_call sound_refusal
      calm_sound [OF calm_control])

lemma sound_confirmChecklist: "sound (confirmChecklist E c p t r) w"
  unfolding confirmChecklist_def
  by (intro sound_guarded sound_await calm_sound [OF calm_reads(4)])
    (auto split: option.split intro!: sound_await sound_catch sound_refusal calm_sound [OF calm_control]
      calm_sound [OF calm_confirm])

lemma sound_updateCheckItem: "sound (updateCheckItem E c i p t st r d) w"
  unfolding updateCheckItem_def
  by (intro sound_guarded sound_await calm_sound [OF calm_reads(4)])
    (auto split: option.split intro!: sound_await sound_catch calm_sound [OF calm_control]
      calm_sound [OF calm_update])

lemma sound_create_checklist: "sound (create_checklist E v p t r) w"
  unfolding create_checklist_def
  by (intro sound_guarded calm_sound tame_await calm_control calm_create)

lemma sound_createMission: "sound (createMission E v p t r x) w"
  unfolding createMission_def abort_def
  by (intro sound_guarded sound_await calm_sound [OF calm_control])
    (auto intro!: sound_await sound_catch sound_transition calm_sound [OF calm_mission_create]
      calm_sound [OF calm_create] calm_sound [OF calm_link] simp: orderly_def moving_def split: prod.split)

lemma sound_fleet: "sound (fleet E x) w"
proof (cases x)
  case (GetCheckOp c)
  then show ?thesis
    by (auto simp: finished_def get_checklist_def split: option.split intro!: calm_sound tame_await calm_reads)
next
  case (ActiveMissionOp v)
  then show ?thesis
    by (auto simp: finished_def get_active_mission_def split: option.split intro!: calm_sound tame_await calm_reads)
next
  case (GetMissionOp i)
  then show ?thesis
    by (auto simp: finished_def get_mission_def split: option.split intro!: calm_sound tame_await calm_reads)
qed (simp_all add: finished_def sound_await sound_create_checklist sound_updateCheckItem sound_confirmChecklist
  sound_createMission sound_missionOp calm_sound calm_reads)

lemma fleet_after_ok:
  assumes "fleet_ok w"
  shows "fleet_ok (fleet_after E ns ops w) \<and> fleet_moves w (fleet_after E ns ops w)"
  unfolding fleet_after_def
  by (rule sched_invariant [OF fleet_moves_preorder]) (use assms sound_fleet in auto)

end
