(* ===== verification/Fleet_Safety.thy ===== *)
theory Fleet_Safety
  imports Fleet_System
begin

text \<open>
  What the fleet service guarantees: its check of the fencing lock agrees with the one of the
  command service, a mission starts only behind a recent confirmed check, and over every
  interleaving of its requests a confirmed check is complete, on record and final.
\<close>

section \<open>Two readers of one lock\<close>

lemma lock_matches_parse:
  "parseLock (Some raw) = Some l \<Longrightarrow> truthy_str (Some raw) \<and> (lock_matches raw p t \<longleftrightarrow> op l = p \<and> token l = t)"
  by (auto simp: parseLock_def lock_matches_def split: if_splits option.splits json.splits)

lemma run_fleet_validateToken:
  "run (fleet_validateToken E v p t) w =
    (Inr (p \<noteq> [] \<and> t \<noteq> [] \<and> store_up w \<and> truthy_str (vk_get (vk E) (store w) (clock w) (lock_key v)) \<and>
      lock_matches (the (vk_get (vk E) (store w) (clock w) (lock_key v))) p t), w)"
  by (auto simp: fleet_validateToken_def)

text \<open>C19: The fleet service reads the fencing lock with its own parser, and the two services agree:
  on every lock text that the command service accepts as a lock, or with no lock there, the
  fleet service answers what the command service answers, for every operator and token that is
  not empty. They differ where the store does not answer: there the command service raises and
  the fleet service says no.\<close>

theorem fleet_check_agrees:
  assumes "\<forall>raw. vk_get (vk E) (store w) (clock w) (lock_key v) = Some raw \<longrightarrow> parseLock (Some raw) \<noteq> None"
    and "p \<noteq> []" "t \<noteq> []"
  shows "run (fleet_validateToken E v p t) w =
    (if store_up w then run (validateToken E v p t) w else (Inr False, w))"
proof (cases "vk_get (vk E) (store w) (clock w) (lock_key v)")
  case None
  then show ?thesis by (simp add: run_fleet_validateToken holder_def)
next
  case (Some raw)
  with assms(1) obtain l where "parseLock (Some raw) = Some l" by auto
  with Some assms(2,3) show ?thesis
    using lock_matches_parse [of raw l p t] by (simp add: run_fleet_validateToken holder_def)
qed

theorem fleet_check_agrees_witness:
  "run (fleet_validateToken (demo_env True) ''v1'' ''alice'' (demo_uuid 0)) held_world = (Inr True, held_world) \<and>
   run (fleet_validateToken (demo_env True) ''v1'' ''bob'' (demo_uuid 0)) held_world = (Inr False, held_world)"
proof -
  have raw: "\<forall>raw. vk_get (vk (demo_env True)) (store held_world) (clock held_world) (lock_key ''v1'') = Some raw \<longrightarrow>
      parseLock (Some raw) \<noteq> None"
    using raw_lock_grant [of "demo_env True" demo_world 1000000 "''v1''" "''alice''"] by (simp add: held_world_def)
  have w: "store_up held_world" "clock held_world = 1000000" by (simp_all add: held_world_def)
  show ?thesis
    using fleet_check_agrees [OF raw, of "''alice''" "demo_uuid 0"]
      fleet_check_agrees [OF raw, of "''bob''" "demo_uuid 0"] held_world_holder [of 1000000] w
    by (simp add: demo_uuid_text)
qed

text \<open>The lock as a request needs it.\<close>

definition has_control :: "'kv env \<Rightarrow> 'kv world \<Rightarrow> vehicle_id \<Rightarrow> operator_id \<Rightarrow> uuid \<Rightarrow> bool" where
  "has_control E w v p t = (p \<noteq> [] \<and> t \<noteq> [] \<and> store_up w \<and>
     (\<exists>i. holder E (store w) (clock w) v = Some \<lparr>op = p, token = t, issuedAt = i\<rparr>))"

lemma run_requireControl: "has_control E w v p t \<Longrightarrow> run (requireControl E v p t) w = (Inr (), w)"
  unfolding has_control_def holder_def
  by (cases "vk_get (vk E) (store w) (clock w) (lock_key v)")
    (auto simp: requireControl_def run_fleet_validateToken dest!: lock_matches_parse)

section \<open>The start of a mission\<close>

definition start_ready :: "'kv env \<Rightarrow> 'kv world \<Rightarrow> mission_row \<Rightarrow> bool" where
  "start_ready E w m = (mis_status m = ''PRE_CHECK'' \<and>
     (\<exists>k c t. mis_checklistId m = Some k \<and> find_check w k = Some c \<and> chk_status c = ''CONFIRMED'' \<and>
       chk_confirmedAt c = Some t \<and> t \<noteq> 0 \<and> clock w - t \<le> CHECKLIST_MAX_AGE_MS E))"

definition started :: "uuid \<Rightarrow> operator_id \<Rightarrow> mission_row \<Rightarrow> 'kv world \<Rightarrow> 'kv world" where
  "started i p m w = fleet_event i (mis_vehicleId m) p ''MISSION_START'' ''ACK''
     (JObj [(''checklistId'', JStr (the (mis_checklistId m)))])
     (update_mission i (\<lambda>r. r\<lparr>mis_status := ''ACTIVE'', mis_startedAt := Some (clock w)\<rparr>) w)"

lemma run_start_ready:
  assumes "fleet_db_up w" "find_mission w i = Some m" "start_ready E w m"
  shows "run (start E i p) w = (Inr (i, ''ACTIVE''), started i p m w)"
  using assms by (auto simp: start_ready_def start_def with_checklist_def start_tx_def started_def truthy_int_def)

lemma run_start_refused:
  assumes "fleet_db_up w" "find_mission w i = Some m" "\<not> start_ready E w m"
  shows "\<exists>why. run (start E i p) w = (Inl (Error why), w)"
proof -
  obtain k where "with_checklist w m = (m, k)" by (simp add: with_checklist_def)
  with assms show ?thesis
    by (auto simp: start_def start_ready_def with_checklist_def truthy_int_def bind_eq_Some_conv not_le
        split: option.split)
qed

lemma run_missionOp_ready:
  assumes "requireOperatorIdentity E r p = None" "fleet_db_up w" "find_mission w i = Some m"
    "has_control E w (mis_vehicleId m) p t" "start_ready E w m"
  shows "run (missionOp E i p t r StartOp) w = (Inr (i, ''ACTIVE''), started i p m w)"
  using assms by (simp add: missionOp_def mission_get_def with_checklist_def run_requireControl run_start_ready)

text \<open>C20: A mission starts only behind its check. For an operator who controls the vehicle, the start
  succeeds exactly when the mission is in PRE_CHECK and the checklist linked to it is CONFIRMED
  and was confirmed no longer ago than the configured age; then the mission is ACTIVE and the
  start is in the audit trail with the checklist it rests on. In every other case the
  operator gets an error, no mission and no checklist changes, and the refusal is in the
  audit trail.\<close>

theorem mission_start_gate:
  assumes "requireOperatorIdentity E r p = None" "fleet_db_up w" "find_mission w i = Some m"
    and "has_control E w (mis_vehicleId m) p t"
  shows "if start_ready E w m
    then run (missionOp E i p t r StartOp) w = (Inr (i, ''ACTIVE''), started i p m w)
    else (\<exists>why. run (missionOp E i p t r StartOp) w =
      (Inl (BadRequestException why), fleet_event i (mis_vehicleId m) p ''MISSION_START'' ''REJECTED''
        (JObj [(''reason'', JStr why)]) w))"
proof (cases "start_ready E w m")
  case True
  then show ?thesis
    using assms by (simp add: run_missionOp_ready)
next
  case False
  with assms obtain why where "run (start E i p) w = (Inl (Error why), w)" using run_start_refused by blast
  with False assms show ?thesis
    by (simp add: missionOp_def mission_get_def with_checklist_def run_requireControl append_fleet_event_def)
qed

section \<open>Every interleaving\<close>

text \<open>C21: A confirmed checklist is complete and on record. From empty tables, whatever requests are
  served in whatever interleaving, with the databases and the lock store failing and coming back
  at any point: no item of a checklist with the status CONFIRMED is pending, none that is
  critical for safety has failed, it carries who confirmed it and when, and the audit trail has
  its confirmation with just these items.\<close>

theorem confirmed_checklists_are_complete:
  assumes "checklists w = []" "missions w = []" "fleet_events w = []"
    and "c \<in> set (checklists (fleet_after E ns ops w))" "chk_status c = ''CONFIRMED''"
  shows "(\<forall>i \<in> set (chk_items c). get_field i ''status'' \<noteq> JStr ''PENDING'' \<and>
      (falsy (get_field i ''safetyCritical'') \<or> get_field i ''status'' \<noteq> JStr ''FAIL'')) \<and>
    chk_confirmedBy c \<noteq> None \<and> chk_confirmedAt c \<noteq> None \<and>
    (\<exists>e \<in> set (fleet_events (fleet_after E ns ops w)). flt_correlationId e = chk_id c \<and>
      flt_action e = ''CHECKLIST_CONFIRM'' \<and> flt_status e = ''ACK'' \<and>
      flt_details e = JObj [(''items'', JArr (chk_items c))])"
proof -
  have "fleet_ok w" using assms(1-3) by (simp add: fleet_ok_def)
  then have "fleet_ok (fleet_after E ns ops w)" using fleet_after_ok by blast
  with assms(4,5) have "complete_check c \<and> evidenced (fleet_events (fleet_after E ns ops w)) c"
    by (simp add: fleet_ok_def confirmed_def)
  then show ?thesis
    by (auto simp: complete_check_def evidenced_def list_all_iff item_pending_def item_critical_fail_def)
qed

text \<open>C22: No vehicle moves on a mission without its check. In every interleaving, for every mission that
  is or was under way the audit trail has an acknowledged start that names a checklist which is
  CONFIRMED, with no item pending and none critical for safety failed, and whose confirmation
  is itself in the audit trail.\<close>

theorem missions_run_behind_checks:
  assumes "checklists w = []" "missions w = []" "fleet_events w = []"
    and "m \<in> set (missions (fleet_after E ns ops w))" "mis_status m \<in> {''ACTIVE'', ''PAUSED'', ''COMPLETED''}"
  shows "\<exists>e \<in> set (fleet_events (fleet_after E ns ops w)). \<exists>c \<in> set (checklists (fleet_after E ns ops w)).
    flt_correlationId e = mis_id m \<and> flt_action e = ''MISSION_START'' \<and> flt_status e = ''ACK'' \<and>
    flt_details e = JObj [(''checklistId'', JStr (chk_id c))] \<and> chk_status c = ''CONFIRMED'' \<and>
    complete_check c \<and> evidenced (fleet_events (fleet_after E ns ops w)) c"
proof -
  let ?w = "fleet_after E ns ops w"
  have "fleet_ok w" using assms(1-3) by (simp add: fleet_ok_def)
  then have ok: "fleet_ok ?w" using fleet_after_ok by blast
  with assms(4,5) obtain e where e: "e \<in> set (fleet_events ?w)" "is_start e" "flt_correlationId e = mis_id m"
    by (fastforce simp: fleet_ok_def under_way_def moving_def launched_def)
  with ok obtain c where "c \<in> set (checklists ?w)" "confirmed c" "flt_details e = JObj [(''checklistId'', JStr (chk_id c))]"
    by (fastforce simp: fleet_ok_def backed_def)
  with e ok show ?thesis
    by (intro bexI [of _ e] bexI [of _ c]) (auto simp: is_start_def confirmed_def fleet_ok_def)
qed

text \<open>A confirmed checklist is final: once it is confirmed, no later request changes any part of it,
  however the requests interleave, and what was written to the audit trail stays.\<close>

theorem confirmed_checklists_are_final:
  assumes "checklists w = []" "missions w = []" "fleet_events w = []" "w1 = fleet_after E ns ops w"
    and "c \<in> set (checklists w1)" "chk_status c = ''CONFIRMED''"
  shows "c \<in> set (checklists (fleet_after E ns' ops' w1)) \<and>
    (\<exists>new. fleet_events (fleet_after E ns' ops' w1) = fleet_events w1 @ new)"
proof -
  have "fleet_ok w" using assms(1-3) by (simp add: fleet_ok_def)
  then have "fleet_ok w1" using fleet_after_ok assms(4) by blast
  then have "fleet_moves w1 (fleet_after E ns' ops' w1)" using fleet_after_ok by blast
  with assms(5,6) show ?thesis by (simp add: fleet_moves_def confirmed_def)
qed

section \<open>One mission, from its creation to its start\<close>

definition fleet_world :: "ttl_store world" where
  "fleet_world = grant (demo_env False) ''v1'' ''alice'' demo_world"

lemma fleet_world_simps [simp]:
  "clock fleet_world = 1000000" "uuids fleet_world = Suc 0" "store_up fleet_world" "fleet_db_up fleet_world"
  "checklists fleet_world = []" "missions fleet_world = []" "fleet_events fleet_world = []"
  by (simp_all add: fleet_world_def grant_def)

lemma fleet_control:
  assumes "store w = store fleet_world" "clock w = 1000000" "store_up w"
  shows "has_control (demo_env False) w ''v1'' ''alice'' (demo_uuid 0)"
  using assms holder_grant [of "demo_env False" demo_world 1000000 "''v1''" "''alice''" "''v1''"]
  by (simp add: has_control_def fleet_world_def demo_uuid_text)

definition demo_item :: "(string \<times> json) list \<Rightarrow> string \<Rightarrow> json" where
  "demo_item tpl st = JObj (tpl @ [(''status'', JStr st)])"

lemma demo_item_simps [simp]:
  "clean (demo_item (check_template i l c b s) st) = demo_item (check_template i l c b s) st"
  "has_id x (demo_item (check_template i l c b s) st) = (i = x)"
  "get_field (demo_item (check_template i l c b s) st) ''source'' = JStr s"
  "item_pending (demo_item (check_template i l c b s) st) = (st = ''PENDING'')"
  "item_critical_fail (demo_item (check_template i l c b s) st) = (b \<and> st = ''FAIL'')"
  "set_item st' None (demo_item (check_template i l c b s) st) = demo_item (check_template i l c b s) st'"
  by (auto simp: demo_item_def check_template_def has_id_def item_pending_def item_critical_fail_def
    set_item_def truthy_str_def set_field_def get_field_def)

definition demo_items :: "string \<Rightarrow> string \<Rightarrow> string \<Rightarrow> json list" where
  "demo_items a b c = map2 demo_item DEFAULT_CHECKLIST
     [''PASS'', ''PASS'', ''PASS'', a, b, c, ''PASS'', ''PASS'', ''PASS'', ''PASS'']"

lemma initial_demo_items: "initial_items = demo_items ''PENDING'' ''PENDING'' ''PENDING''"
  by (simp add: initial_items_def demo_items_def DEFAULT_CHECKLIST_def check_template_def demo_item_def)

lemma demo_items_simps [simp]:
  "map clean (demo_items a b c) = demo_items a b c"
  "find (has_id ''tires'') (demo_items a b c) = Some (demo_item (DEFAULT_CHECKLIST ! 3) a)"
  "find (has_id ''lights-head'') (demo_items a b c) = Some (demo_item (DEFAULT_CHECKLIST ! 4) b)"
  "find (has_id ''lights-turn'') (demo_items a b c) = Some (demo_item (DEFAULT_CHECKLIST ! 5) c)"
  "update_first (has_id ''tires'') (set_item st None) (demo_items a b c) = demo_items st b c"
  "update_first (has_id ''lights-head'') (set_item st None) (demo_items a b c) = demo_items a st c"
  "update_first (has_id ''lights-turn'') (set_item st None) (demo_items a b c) = demo_items a b st"
  "list_ex item_pending (demo_items a b c) = (a = ''PENDING'' \<or> b = ''PENDING'' \<or> c = ''PENDING'')"
  "list_all (\<lambda>i. \<not> item_pending i) (demo_items a b c) = (a \<noteq> ''PENDING'' \<and> b \<noteq> ''PENDING'' \<and> c \<noteq> ''PENDING'')"
  "list_ex item_critical_fail (demo_items a b c) = (a = ''FAIL'' \<or> b = ''FAIL'' \<or> c = ''FAIL'')"
  by (simp_all add: demo_items_def DEFAULT_CHECKLIST_def)

text \<open>The world of the demonstration, as far as the requests look at it.\<close>

definition demo_state :: "string \<Rightarrow> string \<Rightarrow> json list \<Rightarrow> operator_id option \<Rightarrow> ttl_store world \<Rightarrow> bool" where
  "demo_state ms cs its by w = (store w = store fleet_world \<and> clock w = 1000000 \<and> store_up w \<and> fleet_db_up w \<and>
     (\<exists>m. missions w = [m] \<and> mis_id m = demo_uuid 1 \<and> mis_vehicleId m = ''v1'' \<and> mis_status m = ms \<and>
       mis_checklistId m = Some (demo_uuid 2)) \<and>
     (\<exists>c. checklists w = [c] \<and> chk_id c = demo_uuid 2 \<and> chk_vehicleId c = ''v1'' \<and> chk_status c = cs \<and>
       chk_items c = its \<and> chk_confirmedAt c = map_option (\<lambda>_. 1000000) by))"

lemma demo_created:
  "demo_state ''PRE_CHECK'' ''IN_PROGRESS'' (demo_items ''PENDING'' ''PENDING'' ''PENDING'') None
    (snd (run (fleet (demo_env False) (CreateMissionOp ''v1'' ''alice'' (demo_uuid 0) no_req None)) fleet_world))"
  by (simp add: finished_def createMission_def run_requireControl fleet_control mission_create_def demo_state_def
    requireOperatorIdentity_local createChecklist_def linkChecklist_def Let_def find_mission_def find_check_def
    abort_def fleet_event_def update_mission_def initial_demo_items numeral_2_eq_2)

lemma demo_item_set:
  assumes "demo_state ms cs its None w" "cs \<noteq> ''CONFIRMED''" "find (has_id i) its = Some x"
    "get_field x ''source'' = JStr ''OPERATOR''" "its' = update_first (has_id i) (set_item st None) its"
    "map clean its' = its'" "cs' = check_status its'"
  shows "demo_state ms cs' its' None
    (snd (run (fleet (demo_env False) (ItemOp (demo_uuid 2) i ''alice'' (demo_uuid 0) st no_req None)) w))"
  using assms
  by (auto simp: finished_def updateCheckItem_def run_requireControl fleet_control demo_state_def getChecklist_def
    requireOperatorIdentity_local updateItem_def update_item_tx_def Let_def find_check_def update_check_def fleet_event_def)

lemma demo_confirmed:
  assumes "demo_state ms cs its None w" "cs \<noteq> ''CONFIRMED''" "\<not> list_ex item_pending its" "\<not> list_ex item_critical_fail its"
  shows "demo_state ms ''CONFIRMED'' its (Some p)
    (snd (run (fleet (demo_env False) (ConfirmOp (demo_uuid 2) ''alice'' (demo_uuid 0) no_req)) w))"
  using assms
  by (auto simp: finished_def confirmChecklist_def run_requireControl fleet_control demo_state_def getChecklist_def
    requireOperatorIdentity_local confirm_def confirm_tx_def find_check_def update_check_def fleet_event_def)

lemma demo_started:
  assumes "demo_state ''PRE_CHECK'' ''CONFIRMED'' its (Some p) w"
  shows "demo_state ''ACTIVE'' ''CONFIRMED'' its (Some p)
    (snd (run (fleet (demo_env False) (MissionOp (demo_uuid 1) ''alice'' (demo_uuid 0) no_req StartOp)) w))"
proof -
  from assms obtain m where m: "find_mission w (demo_uuid 1) = Some m" "mis_vehicleId m = ''v1''"
    "start_ready (demo_env False) w m" "fleet_db_up w"
    by (auto simp: demo_state_def find_mission_def start_ready_def find_check_def)
  have "has_control (demo_env False) w (mis_vehicleId m) ''alice'' (demo_uuid 0)"
    using assms m by (simp add: fleet_control demo_state_def)
  from run_missionOp_ready [OF requireOperatorIdentity_local m(4,1) this m(3)]
  show ?thesis
    using assms m by (auto simp: finished_def demo_state_def started_def fleet_event_def update_mission_def)
qed

definition mission_ops :: "string \<Rightarrow> fleet_op list" where
  "mission_ops st =
    [CreateMissionOp ''v1'' ''alice'' (demo_uuid 0) no_req None,
     ItemOp (demo_uuid 2) ''tires'' ''alice'' (demo_uuid 0) st no_req None,
     ItemOp (demo_uuid 2) ''lights-head'' ''alice'' (demo_uuid 0) ''PASS'' no_req None,
     ItemOp (demo_uuid 2) ''lights-turn'' ''alice'' (demo_uuid 0) ''PASS'' no_req None,
     ConfirmOp (demo_uuid 2) ''alice'' (demo_uuid 0) no_req,
     MissionOp (demo_uuid 1) ''alice'' (demo_uuid 0) no_req StartOp]"

definition after_ops :: "string \<Rightarrow> nat \<Rightarrow> ttl_store world" where
  "after_ops st n = fold (\<lambda>p w. snd (run p w)) (map (fleet (demo_env False)) (take n (mission_ops st))) fleet_world"

lemma after_ops_scheduled: "\<exists>ns. fleet_after (demo_env False) ns (take n (mission_ops st)) fleet_world = after_ops st n"
  using sched_sequence [of "[]" "map (fleet (demo_env False)) (take n (mission_ops st))" fleet_world]
  by (simp add: fleet_after_def after_ops_def)

lemma demo_items_set:
  assumes "demo_state ms cs (demo_items a b c) None w" "cs \<noteq> ''CONFIRMED''"
  shows "demo_state ms (check_status (demo_items st b c)) (demo_items st b c) None (snd (run (fleet (demo_env False)
      (ItemOp (demo_uuid 2) ''tires'' ''alice'' (demo_uuid 0) st no_req None)) w))"
    "demo_state ms (check_status (demo_items a st c)) (demo_items a st c) None (snd (run (fleet (demo_env False)
      (ItemOp (demo_uuid 2) ''lights-head'' ''alice'' (demo_uuid 0) st no_req None)) w))"
    "demo_state ms (check_status (demo_items a b st)) (demo_items a b st) None (snd (run (fleet (demo_env False)
      (ItemOp (demo_uuid 2) ''lights-turn'' ''alice'' (demo_uuid 0) st no_req None)) w))"
  by (rule demo_item_set [OF assms demo_items_simps(2)] demo_item_set [OF assms demo_items_simps(3)]
      demo_item_set [OF assms demo_items_simps(4)]; simp add: DEFAULT_CHECKLIST_def)+

lemma demo_check_status [simp]: "check_status its \<noteq> ''CONFIRMED''"
  by (simp add: check_status_def)

lemma demo_confirmed_state:
  assumes "st \<noteq> ''PENDING''" "st \<noteq> ''FAIL''"
  shows "demo_state ''PRE_CHECK'' ''CONFIRMED'' (demo_items st ''PASS'' ''PASS'') (Some ''alice'') (after_ops st 5)"
proof -
  note s1 = demo_items_set(1) [OF demo_created, of st]
  have "demo_state ''PRE_CHECK'' ''CONFIRMED'' (demo_items st ''PASS'' ''PASS'') (Some ''alice'')
      (snd (run (fleet (demo_env False) (ConfirmOp (demo_uuid 2) ''alice'' (demo_uuid 0) no_req))
      (snd (run (fleet (demo_env False) (ItemOp (demo_uuid 2) ''lights-turn'' ''alice'' (demo_uuid 0) ''PASS'' no_req None))
      (snd (run (fleet (demo_env False) (ItemOp (demo_uuid 2) ''lights-head'' ''alice'' (demo_uuid 0) ''PASS'' no_req None))
      (snd (run (fleet (demo_env False) (ItemOp (demo_uuid 2) ''tires'' ''alice'' (demo_uuid 0) st no_req None))
      (snd (run (fleet (demo_env False) (CreateMissionOp ''v1'' ''alice'' (demo_uuid 0) no_req None)) fleet_world))))))))))"
    by (rule demo_confirmed [OF demo_items_set(3) [OF demo_items_set(2) [OF s1]]]) (use assms in simp_all)
  then show ?thesis by (simp add: after_ops_def mission_ops_def del: fleet.simps)
qed

lemma demo_started_state:
  assumes "st \<noteq> ''PENDING''" "st \<noteq> ''FAIL''"
  shows "demo_state ''ACTIVE'' ''CONFIRMED'' (demo_items st ''PASS'' ''PASS'') (Some ''alice'') (after_ops st 6)"
  using demo_started [OF demo_confirmed_state [OF assms]]
  by (simp add: after_ops_def mission_ops_def del: fleet.simps)

lemmas demo_passed = demo_confirmed_state [of "''PASS''", simplified]

theorem mission_start_gate_witness:
  "fst (run (missionOp (demo_env False) (demo_uuid 1) ''alice'' (demo_uuid 0) no_req StartOp) (after_ops ''PASS'' 5))
     = Inr (demo_uuid 1, ''ACTIVE'') \<and>
   (\<exists>why. fst (run (missionOp (demo_env False) (demo_uuid 1) ''alice'' (demo_uuid 0) no_req StartOp)
     ((after_ops ''PASS'' 5)\<lparr>checklists := []\<rparr>)) = Inl (BadRequestException why))"
proof -
  let ?w = "(after_ops ''PASS'' 5)\<lparr>checklists := []\<rparr>"
  obtain m where m: "find_mission (after_ops ''PASS'' 5) (demo_uuid 1) = Some m" "mis_vehicleId m = ''v1''"
    "start_ready (demo_env False) (after_ops ''PASS'' 5) m" "fleet_db_up (after_ops ''PASS'' 5)"
    "find_mission ?w (demo_uuid 1) = Some m" "\<not> start_ready (demo_env False) ?w m" "fleet_db_up ?w"
    using demo_passed by (auto simp: demo_state_def find_mission_def start_ready_def find_check_def)
  have c: "has_control (demo_env False) (after_ops ''PASS'' 5) (mis_vehicleId m) ''alice'' (demo_uuid 0)"
    "has_control (demo_env False) ?w (mis_vehicleId m) ''alice'' (demo_uuid 0)"
    using demo_passed m(2) by (auto simp: fleet_control demo_state_def)
  have i: "requireOperatorIdentity (demo_env False) no_req ''alice'' = None" by (simp add: requireOperatorIdentity_local)
  from mission_start_gate [OF i m(4,1) c(1)] mission_start_gate [OF i m(7,5) c(2)] m(3,6)
  show ?thesis by auto
qed

theorem confirmed_checklists_are_complete_witness:
  "\<exists>ns. \<exists>c \<in> set (checklists (fleet_after (demo_env False) ns (take 5 (mission_ops ''PASS'')) fleet_world)).
     chk_status c = ''CONFIRMED'' \<and> chk_confirmedAt c \<noteq> None"
proof -
  obtain ns where ns: "fleet_after (demo_env False) ns (take 5 (mission_ops ''PASS'')) fleet_world = after_ops ''PASS'' 5"
    using after_ops_scheduled by blast
  obtain c where c: "c \<in> set (checklists (after_ops ''PASS'' 5))" "chk_status c = ''CONFIRMED''"
    using demo_passed by (auto simp: demo_state_def)
  from confirmed_checklists_are_complete [of fleet_world c "demo_env False" ns "take 5 (mission_ops ''PASS'')"] c
  show ?thesis by (intro exI [of _ ns] bexI [of _ c]) (simp_all add: ns)
qed

theorem missions_run_behind_checks_witness:
  "\<exists>ns. \<exists>m \<in> set (missions (fleet_after (demo_env False) ns (mission_ops ''PASS'') fleet_world)). mis_status m = ''ACTIVE'' \<and>
     (\<exists>e \<in> set (fleet_events (fleet_after (demo_env False) ns (mission_ops ''PASS'') fleet_world)).
       flt_correlationId e = mis_id m \<and> flt_action e = ''MISSION_START'')"
proof -
  have t: "take 6 (mission_ops ''PASS'') = mission_ops ''PASS''" by (simp add: mission_ops_def)
  obtain ns where ns: "fleet_after (demo_env False) ns (mission_ops ''PASS'') fleet_world = after_ops ''PASS'' 6"
    using after_ops_scheduled [of 6 "''PASS''"] unfolding t by blast
  obtain m where m: "m \<in> set (missions (after_ops ''PASS'' 6))" "mis_status m = ''ACTIVE''"
    using demo_started_state [of "''PASS''"] by (auto simp: demo_state_def)
  from missions_run_behind_checks [of fleet_world m "demo_env False" ns "mission_ops ''PASS''"] m
  show ?thesis by (intro exI [of _ ns] bexI [of _ m]) (auto simp: ns)
qed

theorem confirmed_checklists_are_final_witness:
  "\<exists>ns c. c \<in> set (checklists (fleet_after (demo_env False) ns (take 5 (mission_ops ''PASS'')) fleet_world)) \<and>
     chk_status c = ''CONFIRMED'' \<and>
     c \<in> set (checklists (fleet_after (demo_env False) [0, 0, 0, 0, 0] [ConfirmOp (demo_uuid 2) ''alice'' (demo_uuid 0) no_req]
       (fleet_after (demo_env False) ns (take 5 (mission_ops ''PASS'')) fleet_world)))"
proof -
  obtain ns where ns: "fleet_after (demo_env False) ns (take 5 (mission_ops ''PASS'')) fleet_world = after_ops ''PASS'' 5"
    using after_ops_scheduled by blast
  obtain c where c: "c \<in> set (checklists (after_ops ''PASS'' 5))" "chk_status c = ''CONFIRMED''"
    using demo_passed by (auto simp: demo_state_def)
  have "after_ops ''PASS'' 5 = fleet_after (demo_env False) ns (take 5 (mission_ops ''PASS'')) fleet_world" by (rule ns [symmetric])
  from confirmed_checklists_are_final [OF _ _ _ this c] have
    "c \<in> set (checklists (fleet_after (demo_env False) [0, 0, 0, 0, 0]
       [ConfirmOp (demo_uuid 2) ''alice'' (demo_uuid 0) no_req] (after_ops ''PASS'' 5)))" by simp
  with c ns show ?thesis by (intro exI [of _ ns] exI [of _ c]) simp
qed

end
