(* ===== verification/Fleet_Races.thy ===== *)
theory Fleet_Races
  imports Fleet_Safety
begin

text \<open>
  What the fleet service does not exclude: an item status that is neither PASS nor FAIL, and the
  mission requests that overtake each other, since a mission is read in one statement and
  written in another one without any condition.
\<close>

section \<open>A status nobody checks\<close>

text \<open>A checklist can be confirmed although the operator has reported a failure: the status of an
  item is taken from the request as it is, and only the exact text FAIL counts as a failure.
  With the tires reported as \<open>fail\<close>, an item critical for safety, the check is confirmed and the
  mission starts.\<close>

theorem misspelt_failure_is_confirmed:
  "\<exists>ns. let w' = fleet_after (demo_env False) ns (mission_ops ''fail'') fleet_world in
     (\<exists>c \<in> set (checklists w'). chk_status c = ''CONFIRMED'' \<and>
        (\<exists>i \<in> set (chk_items c). get_field i ''itemId'' = JStr ''tires'' \<and>
          get_field i ''safetyCritical'' = JBool True \<and> get_field i ''status'' = JStr ''fail'')) \<and>
     (\<exists>m \<in> set (missions w'). mis_status m = ''ACTIVE'')"
proof -
  have t: "take 6 (mission_ops ''fail'') = mission_ops ''fail''" by (simp add: mission_ops_def)
  obtain ns where ns: "fleet_after (demo_env False) ns (mission_ops ''fail'') fleet_world = after_ops ''fail'' 6"
    using after_ops_scheduled [of 6 "''fail''"] unfolding t by blast
  let ?i = "demo_item (DEFAULT_CHECKLIST ! 3) ''fail''"
  have i: "?i \<in> set (demo_items ''fail'' ''PASS'' ''PASS'')"
    by (simp add: demo_items_def DEFAULT_CHECKLIST_def)
  have f: "get_field ?i ''itemId'' = JStr ''tires''" "get_field ?i ''safetyCritical'' = JBool True"
      "get_field ?i ''status'' = JStr ''fail''"
    by (simp_all add: demo_item_def DEFAULT_CHECKLIST_def check_template_def)
  have d: "demo_state ''ACTIVE'' ''CONFIRMED'' (demo_items ''fail'' ''PASS'' ''PASS'') (Some ''alice'') (after_ops ''fail'' 6)"
    by (rule demo_started_state) simp_all
  then obtain c m where c: "checklists (after_ops ''fail'' 6) = [c]" "chk_status c = ''CONFIRMED''"
      "chk_items c = demo_items ''fail'' ''PASS'' ''PASS''"
      "missions (after_ops ''fail'' 6) = [m]" "mis_status m = ''ACTIVE''"
    by (auto simp: demo_state_def)
  show ?thesis
    unfolding Let_def by (rule exI [of _ ns], unfold ns) (use c i f in auto)
qed

section \<open>Requests that overtake each other\<close>

lemmas handler_steps = finished_def missionOp_def createMission_def guarded_def start_def abort_def transition_def
  mission_get_def fleet_query_def requireControl_def fleet_validateToken_def redis_get_def await_def catch_def
  effect_def ret_def throw_def date_now_def look_def fleet_tx_def mission_create_def createChecklist_def
  linkChecklist_def

lemma fleet_lock:
  "truthy_str (ttl_get (store fleet_world) 1000000 (lock_key ''v1''))"
  "lock_matches (the (ttl_get (store fleet_world) 1000000 (lock_key ''v1''))) ''alice'' (demo_uuid 0)"
  "demo_uuid 0 \<noteq> []"
proof -
  have r: "ttl_get (store fleet_world) 1000000 (lock_key ''v1'') = Some (lock_text ''alice'' (demo_uuid 0) 1000000)"
    using raw_lock_grant [of "demo_env False" demo_world 1000000 "''v1''" "''alice''"] by (simp add: fleet_world_def)
  show "truthy_str (ttl_get (store fleet_world) 1000000 (lock_key ''v1''))"
    "lock_matches (the (ttl_get (store fleet_world) 1000000 (lock_key ''v1''))) ''alice'' (demo_uuid 0)"
    using lock_matches_parse [OF parseLock_lock_text, of "''alice''" "demo_uuid 0" 1000000 "''alice''" "demo_uuid 0"]
    by (simp_all add: r)
qed (simp add: demo_uuid_text)

text \<open>An aborted mission can come back: the start reads the mission and its check, an abort of the
  same mission is served completely, and the start then writes ACTIVE over ABORTED. Both requests
  are acknowledged, and the mission is under way with the time of its end already set.\<close>

theorem aborted_mission_revived:
  "\<exists>ns. let w' = fleet_after (demo_env False) ns
       [MissionOp (demo_uuid 1) ''alice'' (demo_uuid 0) no_req StartOp,
        MissionOp (demo_uuid 1) ''alice'' (demo_uuid 0) no_req AbortOp] (after_ops ''PASS'' 5)
     in \<exists>m \<in> set (missions w'). mis_status m = ''ACTIVE'' \<and> mis_completedAt m \<noteq> None"
proof -
  let ?w = "after_ops ''PASS'' 5"
  obtain m c where w: "missions ?w = [m]" "mis_id m = demo_uuid 1" "mis_vehicleId m = ''v1''" "mis_status m = ''PRE_CHECK''"
      "mis_checklistId m = Some (demo_uuid 2)" "checklists ?w = [c]" "chk_id c = demo_uuid 2" "chk_status c = ''CONFIRMED''"
      "chk_confirmedAt c = Some 1000000" "fleet_db_up ?w" "store_up ?w" "clock ?w = 1000000" "store ?w = store fleet_world"
    using demo_passed by (auto simp: demo_state_def)
  show ?thesis
    unfolding Let_def fleet_after_def
    by (rule exI [of _ "[0, 0, 0, 0, 1, 1, 1, 1, 0]"])
      (simp add: handler_steps requireOperatorIdentity_local find_mission_def with_checklist_def find_check_def w
        start_tx_def transition_tx_def fleet_event_def update_mission_def fleet_lock)
qed

lemma demo_uuid_distinct: "distinct (map demo_uuid [1, 2, 3, 4])"
  by (simp add: demo_uuid_def digit_char_def)

text \<open>One vehicle can get two missions at a time: two creations that overlap both find no open
  mission, and both insert one, although a vehicle with an open mission is refused a second one
  by the code.\<close>

theorem two_open_missions:
  "\<exists>ns. let w' = fleet_after (demo_env False) ns
       [CreateMissionOp ''v1'' ''alice'' (demo_uuid 0) no_req None, CreateMissionOp ''v1'' ''alice'' (demo_uuid 0) no_req None]
       fleet_world
     in length (filter (is_open ''v1'') (missions w')) = 2 \<and> distinct (map mis_id (missions w'))"
  unfolding Let_def fleet_after_def
  by (rule exI [of _ "[0, 0, 1, 1, 1, 1, 1, 0, 0, 0]"])
    (use demo_uuid_distinct in \<open>simp add: handler_steps requireOperatorIdentity_local find_mission_def find_check_def
      fleet_event_def update_mission_def fleet_lock Let_def is_open_def open_statuses_def numeral_eq_Suc del: clean.simps\<close>)

end
