(* ===== verification/Teleop.thy ===== *)
theory Teleop
  imports Schema Complex_Main
begin

text \<open>
  Driving from the console (\<open>apps/console/src/teleop\<close>): the input profiles of keyboard and
  gamepad (\<open>profiles.ts\<close>) and the control loop (\<open>useTeleopInput.ts\<close>), which eases the control
  towards the device and sends STEER and DRIVE commands, throttled and only when a value moved
  enough. Numbers are exact rationals (the code computes in binary64). A frame of the loop is
  a function of the state, the time and the device; what it sends is a list of commands.
\<close>

section \<open>Profiles\<close>

datatype Direction = FORWARD | REVERSE | NEUTRAL

record ControlTarget =
  steer :: rat
  throttle :: rat
  brake :: rat

definition target :: "rat \<Rightarrow> rat \<Rightarrow> rat \<Rightarrow> ControlTarget" where
  "target s t b = \<lparr>steer = s, throttle = t, brake = b\<rparr>"

record DiscreteState =
  gear :: "Direction option"
  estop :: bool

definition LEFT :: "string list" where "LEFT = [''ArrowLeft'', ''KeyA'']"
definition RIGHT :: "string list" where "RIGHT = [''ArrowRight'', ''KeyD'']"
definition UP :: "string list" where "UP = [''ArrowUp'', ''KeyW'']"
definition DOWN :: "string list" where "DOWN = [''ArrowDown'', ''KeyS'']"

definition directionKeys :: "string \<Rightarrow> Direction option" where
  "directionKeys = map_of [(''KeyF'', FORWARD), (''KeyR'', REVERSE), (''KeyN'', NEUTRAL)]"

definition driveKeys :: "string list" where
  "driveKeys = LEFT @ RIGHT @ UP @ DOWN"

text \<open>The held keys are a list of codes, read as a set.\<close>

definition any_held :: "string list \<Rightarrow> string list \<Rightarrow> bool" where
  "any_held held codes = list_ex (List.member held) codes"

definition readKeyboard :: "string list \<Rightarrow> ControlTarget" where
  "readKeyboard held = target
     ((if any_held held LEFT then - 1 else 0) + (if any_held held RIGHT then 1 else 0))
     (if any_held held UP then 1 else 0) (if any_held held DOWN then 1 else 0)"

record Button =
  button_value :: rat
  button_pressed :: bool

record Gamepad =
  axes :: "rat list"
  buttons :: "Button list"

definition STICK_DEADZONE :: rat where "STICK_DEADZONE = 15 / 100"
definition TRIGGER_DEADZONE :: rat where "TRIGGER_DEADZONE = 4 / 100"

definition deadzone :: "rat \<Rightarrow> rat \<Rightarrow> rat" where
  "deadzone v d = (if \<bar>v\<bar> < d then 0 else v)"

definition axis :: "Gamepad \<Rightarrow> nat \<Rightarrow> rat" where
  "axis gp i = (if i < length (axes gp) then axes gp ! i else 0)"

definition value_of :: "Gamepad \<Rightarrow> nat \<Rightarrow> rat" where
  "value_of gp i = (if i < length (buttons gp) then button_value (buttons gp ! i) else 0)"

definition pressed :: "Gamepad \<Rightarrow> nat \<Rightarrow> bool" where
  "pressed gp i = (i < length (buttons gp) \<and> button_pressed (buttons gp ! i))"

definition f710_read :: "Gamepad \<Rightarrow> ControlTarget \<times> DiscreteState" where
  "f710_read gp =
    (target (deadzone (axis gp 0) STICK_DEADZONE) (deadzone (value_of gp 7) TRIGGER_DEADZONE)
       (deadzone (value_of gp 6) TRIGGER_DEADZONE),
     \<lparr>gear = (if pressed gp 3 then Some FORWARD else if pressed gp 0 then Some REVERSE
         else if pressed gp 2 then Some NEUTRAL else None),
      estop = pressed gp 1\<rparr>)"

section \<open>The control loop\<close>

definition SEND_MS :: rat where "SEND_MS = 1000 / 12"
definition MAX_STEER_DEG :: rat where "MAX_STEER_DEG = 35"
definition STEER_EPS_DEG :: rat where "STEER_EPS_DEG = 15 / 10"
definition PEDAL_EPS_PCT :: int where "PEDAL_EPS_PCT = 3"

definition clamp :: "rat \<Rightarrow> rat \<Rightarrow> rat \<Rightarrow> rat" where
  "clamp v lo hi = max lo (min hi v)"

text \<open>\<open>Math.round\<close>: halves go up.\<close>

definition js_round :: "rat \<Rightarrow> int" where
  "js_round x = \<lfloor>x + 1 / 2\<rfloor>"

definition round1 :: "rat \<Rightarrow> rat" where
  "round1 v = of_int (js_round (v * 10)) / 10"

definition ease :: "rat \<Rightarrow> rat \<Rightarrow> rat \<Rightarrow> rat" where
  "ease from to step =
    (if from < to then min to (from + step) else if to < from then max to (from - step) else to)"

datatype command = DRIVE int int | STEER rat | SELECT_DIRECTION Direction | ESTOP

record loop =
  held :: "string list"
  cur :: ControlTarget
  dir :: Direction
  sentSteer :: rat
  sentThrottle :: int
  sentBrake :: int
  lastSendAt :: rat
  lastTick :: rat
  prevGear :: "Direction option"
  prevEstop :: bool

text \<open>The device of a frame: the keyboard, or the first gamepad if there is one.\<close>

datatype device = Keyboard | Pad "Gamepad option"

definition idle :: ControlTarget where "idle = target 0 0 0"

text \<open>Step 1: the target of the frame, and the discrete intents on their rising edge.\<close>

definition read_device :: "device \<Rightarrow> loop \<Rightarrow> ControlTarget \<times> command list \<times> loop" where
  "read_device d s =
    (case d of
       Keyboard \<Rightarrow> (readKeyboard (held s), [], s)
     | Pad None \<Rightarrow> (idle, [], s)
     | Pad (Some gp) \<Rightarrow>
         (case f710_read gp of (t, disc) \<Rightarrow>
           (let g = gear disc;
                shifts = (g \<noteq> None \<and> g \<noteq> prevGear s);
                s1 = (if shifts then s\<lparr>dir := the g\<rparr> else s);
                out = (if shifts then [SELECT_DIRECTION (the g)] else [])
                  @ (if estop disc \<and> \<not> prevEstop s then [ESTOP] else [])
            in (t, out, s1\<lparr>prevGear := g, prevEstop := estop disc\<rparr>))))"

text \<open>Step 2: the control moves towards the target.\<close>

definition ease_control :: "rat \<Rightarrow> ControlTarget \<Rightarrow> ControlTarget \<Rightarrow> ControlTarget" where
  "ease_control dt t c = target
     (ease (steer c) (steer t) (dt * (if \<bar>steer t\<bar> < 1 / 1000 then 4 else 3)))
     (ease (throttle c) (throttle t) (dt * (if throttle c < throttle t then 2 else 4)))
     (ease (brake c) (brake t) (dt * (if brake c < brake t then 5 else 6)))"

text \<open>Step 3: the throttled, delta-gated send.\<close>

definition steer_deg :: "ControlTarget \<Rightarrow> rat" where
  "steer_deg c = clamp (steer c * MAX_STEER_DEG) (- 45) 45"

definition pct :: "rat \<Rightarrow> int" where
  "pct x = js_round (x * 100)"

definition send_step :: "rat \<Rightarrow> loop \<Rightarrow> command list \<times> loop" where
  "send_step t s =
    (if t - lastSendAt s < SEND_MS then ([], s)
     else
       (let a = steer_deg (cur s); th = pct (throttle (cur s)); br = pct (brake (cur s));
            st = (STEER_EPS_DEG \<le> \<bar>a - sentSteer s\<bar>);
            dr = (PEDAL_EPS_PCT \<le> \<bar>th - sentThrottle s\<bar> \<or> PEDAL_EPS_PCT \<le> \<bar>br - sentBrake s\<bar>)
        in ((if st then [STEER (round1 a)] else []) @ (if dr then [DRIVE th br] else []),
            s\<lparr>sentSteer := (if st then a else sentSteer s), sentThrottle := (if dr then th else sentThrottle s),
              sentBrake := (if dr then br else sentBrake s), lastSendAt := t\<rparr>)))"

definition frame :: "rat \<Rightarrow> device \<Rightarrow> loop \<Rightarrow> command list \<times> loop" where
  "frame t d s =
    (let dt = min ((t - lastTick s) / 1000) (1 / 10) in
     case read_device d (s\<lparr>lastTick := t\<rparr>) of (tg, out1, s1) \<Rightarrow>
       (case send_step t (s1\<lparr>cur := ease_control dt tg (cur s1)\<rparr>) of (out2, s2) \<Rightarrow> (out1 @ out2, s2)))"

text \<open>Arming and disarming: the release of the controls when the loop stops being active.\<close>

definition arm :: "rat \<Rightarrow> loop \<Rightarrow> loop" where
  "arm t s = s\<lparr>lastTick := t, lastSendAt := 0\<rparr>"

definition disarm :: "loop \<Rightarrow> command list \<times> loop" where
  "disarm s = ([DRIVE 0 0, STEER 0],
     s\<lparr>cur := idle, sentSteer := 0, sentThrottle := 0, sentBrake := 0, held := [], prevGear := None,
       prevEstop := False\<rparr>)"

definition unmount :: "bool \<Rightarrow> command list" where
  "unmount armed = (if armed then [DRIVE 0 0] else [])"

text \<open>Keyboard events, while a keyboard profile is active.\<close>

definition key_down :: "string \<Rightarrow> loop \<Rightarrow> command list \<times> loop" where
  "key_down code s =
    (case directionKeys code of
       Some g \<Rightarrow> ([SELECT_DIRECTION g], s\<lparr>dir := g\<rparr>)
     | None \<Rightarrow> if List.member driveKeys code then ([], s\<lparr>held := List.insert code (held s)\<rparr>) else ([], s))"

definition key_up :: "string \<Rightarrow> loop \<Rightarrow> loop" where
  "key_up code s = s\<lparr>held := removeAll code (held s)\<rparr>"

definition blur :: "loop \<Rightarrow> loop" where
  "blur s = s\<lparr>held := []\<rparr>"

end
