(* ===== verification/Driving.thy ===== *)
theory Driving
  imports Teleop
begin

text \<open>
  Runs of the control loop: what a sequence of frames sends, within which bounds, and how the
  vehicle follows the pedals.
\<close>

section \<open>Runs\<close>

text \<open>The input of a frame: its time, the keys held, and the device.\<close>

record tick_input =
  at_ms :: rat
  keys :: "string list"
  dev :: device

definition play_frame :: "tick_input \<Rightarrow> loop \<Rightarrow> command list \<times> loop" where
  "play_frame i s = frame (at_ms i) (dev i) (s\<lparr>held := keys i\<rparr>)"

primrec play :: "tick_input list \<Rightarrow> loop \<Rightarrow> command list \<times> loop" where
  "play [] s = ([], s)"
| "play (i # is) s = (let (out, s') = play_frame i s; (outs, s'') = play is s' in (out @ outs, s''))"

lemma play_append: "play (xs @ ys) s = (case play xs s of (a, s') \<Rightarrow> case play ys s' of (b, s'') \<Rightarrow> (a @ b, s''))"
  by (induction xs arbitrary: s) (auto split: prod.splits)

section \<open>Ranges\<close>

definition pad_ok :: "Gamepad \<Rightarrow> bool" where
  "pad_ok gp = (list_all (\<lambda>a. \<bar>a\<bar> \<le> 1) (axes gp) \<and> list_all (\<lambda>b. 0 \<le> button_value b \<and> button_value b \<le> 1) (buttons gp))"

fun device_ok :: "device \<Rightarrow> bool" where
  "device_ok (Pad (Some gp)) = pad_ok gp"
| "device_ok _ = True"

definition control_ok :: "ControlTarget \<Rightarrow> bool" where
  "control_ok c = (\<bar>steer c\<bar> \<le> 1 \<and> 0 \<le> throttle c \<and> throttle c \<le> 1 \<and> 0 \<le> brake c \<and> brake c \<le> 1)"

lemma target_simps [simp]: "steer (target s t b) = s" "throttle (target s t b) = t" "brake (target s t b) = b"
  by (simp_all add: target_def)

text \<open>What the contract allows in a STEER or DRIVE command.\<close>

fun command_ok :: "command \<Rightarrow> bool" where
  "command_ok (DRIVE t b) = (0 \<le> t \<and> t \<le> 100 \<and> 0 \<le> b \<and> b \<le> 100)"
| "command_ok (STEER a) = (- 45 \<le> a \<and> a \<le> 45)"
| "command_ok _ = True"

lemma ease_between: "0 \<le> d \<Longrightarrow> min x y \<le> ease x y d \<and> ease x y d \<le> max x y"
  by (auto simp: ease_def)

lemma ease_range: "0 \<le> d \<Longrightarrow> lo \<le> x \<Longrightarrow> x \<le> hi \<Longrightarrow> lo \<le> y \<Longrightarrow> y \<le> hi \<Longrightarrow> lo \<le> ease x y d \<and> ease x y d \<le> hi"
  by (auto simp: ease_def)

lemma control_ok_ease:
  assumes "0 \<le> dt" "control_ok t" "control_ok c"
  shows "control_ok (ease_control dt t c)"
  using assms ease_range [of _ 0 "throttle c" 1 "throttle t"] ease_range [of _ 0 "brake c" 1 "brake t"]
    ease_range [of _ "- 1" "steer c" 1 "steer t"]
  by (auto simp: control_ok_def ease_control_def abs_le_iff)

lemma control_ok_keyboard: "control_ok (readKeyboard hs)"
  by (simp add: control_ok_def readKeyboard_def)

lemma deadzone_range: "lo \<le> 0 \<Longrightarrow> 0 \<le> hi \<Longrightarrow> lo \<le> v \<Longrightarrow> v \<le> hi \<Longrightarrow> lo \<le> deadzone v d \<and> deadzone v d \<le> hi"
  by (simp add: deadzone_def)

lemma axis_range: "pad_ok gp \<Longrightarrow> - 1 \<le> axis gp i \<and> axis gp i \<le> 1"
  by (cases "i < length (axes gp)") (auto simp: axis_def pad_ok_def list_all_length dest!: spec [of _ i])

lemma value_range: "pad_ok gp \<Longrightarrow> 0 \<le> value_of gp i \<and> value_of gp i \<le> 1"
  by (auto simp: value_of_def pad_ok_def list_all_length)

lemma control_ok_pad:
  assumes "pad_ok gp"
  shows "control_ok (fst (f710_read gp))"
proof -
  have "- 1 \<le> deadzone (axis gp 0) d \<and> deadzone (axis gp 0) d \<le> 1" for d
    by (rule deadzone_range) (use axis_range [OF assms, of 0] in simp_all)
  then have "\<bar>deadzone (axis gp 0) d\<bar> \<le> 1" for d by (simp add: abs_le_iff minus_le_iff)
  moreover have "0 \<le> deadzone (value_of gp i) d \<and> deadzone (value_of gp i) d \<le> 1" for i d
    by (rule deadzone_range) (use value_range [OF assms, of i] in simp_all)
  ultimately show ?thesis by (simp add: f710_read_def control_ok_def)
qed

lemma control_ok_idle: "control_ok idle"
  by (simp add: idle_def control_ok_def)

lemma control_ok_device: "device_ok d \<Longrightarrow> control_ok (fst (read_device d s))"
  by (cases d rule: device_ok.cases)
    (simp_all add: read_device_def control_ok_keyboard control_ok_pad control_ok_idle Let_def split_def)

lemma read_device_keeps [simp]:
  "cur (snd (snd (read_device d s))) = cur s" "lastTick (snd (snd (read_device d s))) = lastTick s"
  "lastSendAt (snd (snd (read_device d s))) = lastSendAt s" "sentThrottle (snd (snd (read_device d s))) = sentThrottle s"
  "sentSteer (snd (snd (read_device d s))) = sentSteer s" "sentBrake (snd (snd (read_device d s))) = sentBrake s"
  by (auto simp: read_device_def Let_def split: device.split option.split prod.split)

lemma read_device_sends: "c \<in> set (fst (snd (read_device d s))) \<Longrightarrow> command_ok c"
  by (auto simp: read_device_def Let_def split: device.splits option.splits prod.splits if_splits)

lemma pct_range: "0 \<le> x \<Longrightarrow> x \<le> 1 \<Longrightarrow> 0 \<le> pct x \<and> pct x \<le> 100"
  by (auto simp: pct_def js_round_def le_floor_iff floor_le_iff)

lemma round1_range:
  assumes "- 45 \<le> a" "a \<le> 45"
  shows "- 45 \<le> round1 a \<and> round1 a \<le> 45"
proof -
  have "- 450 \<le> js_round (a * 10)" "js_round (a * 10) \<le> 450"
    using assms by (auto simp: js_round_def le_floor_iff floor_le_iff)
  then have "of_int (- 450) \<le> (of_int (js_round (a * 10)) :: rat)" "of_int (js_round (a * 10)) \<le> (of_int 450 :: rat)"
    by (simp_all only: of_int_le_iff)
  then show ?thesis by (simp add: round1_def)
qed

lemma send_step_ok:
  "control_ok (cur s) \<Longrightarrow> c \<in> set (fst (send_step t s)) \<Longrightarrow> command_ok c"
  using pct_range [of "throttle (cur s)"] pct_range [of "brake (cur s)"] round1_range [of "steer_deg (cur s)"]
  by (auto simp: send_step_def Let_def control_ok_def steer_deg_def clamp_def split: if_splits)

lemma send_step_keeps [simp]:
  "cur (snd (send_step t s)) = cur s" "lastTick (snd (send_step t s)) = lastTick s"
  by (auto simp: send_step_def Let_def)

lemma frame_eq:
  "frame t d s = (let r = read_device d (s\<lparr>lastTick := t\<rparr>);
      x = send_step t ((snd (snd r))\<lparr>cur := ease_control (min ((t - lastTick s) / 1000) (1 / 10)) (fst r) (cur s)\<rparr>)
    in (fst (snd r) @ fst x, snd x))"
  by (simp add: frame_def Let_def split_def)

lemma frame_ok:
  assumes "control_ok (cur s)" "lastTick s \<le> t" "device_ok d"
  shows "control_ok (cur (snd (frame t d s)))" "lastTick (snd (frame t d s)) = t"
    "c \<in> set (fst (frame t d s)) \<Longrightarrow> command_ok c"
proof -
  let ?s = "(snd (snd (read_device d (s\<lparr>lastTick := t\<rparr>))))\<lparr>cur := ease_control (min ((t - lastTick s) / 1000) (1 / 10))
      (fst (read_device d (s\<lparr>lastTick := t\<rparr>))) (cur s)\<rparr>"
  have "control_ok (cur ?s)"
    using assms control_ok_device [OF assms(3)] by (simp add: control_ok_ease)
  then show "control_ok (cur (snd (frame t d s)))" "c \<in> set (fst (frame t d s)) \<Longrightarrow> command_ok c"
    using send_step_ok [of ?s c t] read_device_sends [of c d "s\<lparr>lastTick := t\<rparr>"] by (auto simp: frame_eq Let_def)
qed (simp add: frame_eq Let_def)

text \<open>C24: The console drives within the contract: whatever keys and gamepad values a run of frames sees,
  with the gamepad's axes in [-1, 1] and its buttons in [0, 1] as the browser reports them, and
  however irregular the frames are, every DRIVE it sends has whole percentages from 0 to 100
  and every STEER an angle from -45 to 45 degrees.\<close>

theorem driving_stays_in_range:
  assumes "list_all (\<lambda>i. device_ok (dev i)) is" "sorted (lastTick s # map at_ms is)" "control_ok (cur s)"
    and "c \<in> set (fst (play is s))"
  shows "command_ok c"
  using assms
proof (induction "is" arbitrary: s)
  case (Cons i "is")
  let ?s = "s\<lparr>held := keys i\<rparr>"
  note f = frame_ok [of ?s "at_ms i" "dev i", simplified]
  from Cons show ?case
    by (auto simp: play_frame_def split_def Let_def intro: f(3) Cons.IH [of "snd (frame (at_ms i) (dev i) ?s)"] simp: f(1,2))
qed simp

definition start_loop :: loop where
  "start_loop = \<lparr>held = [], cur = idle, dir = FORWARD, sentSteer = 0, sentThrottle = 0, sentBrake = 0, lastSendAt = 0,
     lastTick = 0, prevGear = None, prevEstop = False\<rparr>"

theorem driving_stays_in_range_witness:
  "list_all command_ok (fst (play [\<lparr>at_ms = 100, keys = [''KeyW'', ''KeyA''], dev = Keyboard\<rparr>] start_loop))"
  using driving_stays_in_range [of "[\<lparr>at_ms = 100, keys = [''KeyW'', ''KeyA''], dev = Keyboard\<rparr>]" start_loop]
  by (auto simp: start_loop_def control_ok_idle list_all_iff)

section \<open>Releasing the controls\<close>

text \<open>What the vehicle was last told about throttle, brake and steering.\<close>

fun told :: "command \<Rightarrow> int \<times> int \<times> rat \<Rightarrow> int \<times> int \<times> rat" where
  "told (DRIVE t b) (_, _, a) = (t, b, a)"
| "told (STEER a) (t, b, _) = (t, b, a)"
| "told _ x = x"

definition last_sent :: "loop \<Rightarrow> int \<times> int \<times> rat" where
  "last_sent s = (sentThrottle s, sentBrake s, round1 (sentSteer s))"

lemma told_send_step: "fold told (fst (send_step t s)) (last_sent s) = last_sent (snd (send_step t s))"
  by (simp add: send_step_def Let_def last_sent_def)

lemma told_read_device: "fold told (fst (snd (read_device d s))) x = x"
  by (auto simp: read_device_def Let_def split: device.split option.split prod.split)

lemma told_play_frame: "fold told (fst (play_frame i s)) (last_sent s) = last_sent (snd (play_frame i s))"
proof -
  have "last_sent (x\<lparr>cur := c\<rparr>) = last_sent x" for x c by (simp add: last_sent_def)
  moreover have "last_sent (snd (snd (read_device d x))) = last_sent x" for d x by (simp add: last_sent_def)
  moreover have "last_sent (s\<lparr>held := h, lastTick := t\<rparr>) = last_sent s" for h t by (simp add: last_sent_def)
  ultimately show ?thesis
    by (simp add: play_frame_def frame_eq Let_def told_read_device told_send_step [symmetric])
qed

lemma told_play: "fold told (fst (play is s)) (last_sent s) = last_sent (snd (play is s))"
proof (induction "is" arbitrary: s)
  case (Cons i "is")
  from Cons [of "snd (play_frame i s)"] told_play_frame [of i s] show ?case
    by (simp add: Let_def split_def)
qed simp

text \<open>The time the control has had to move: a frame counts for at most a tenth of a second.\<close>

primrec eased :: "rat \<Rightarrow> tick_input list \<Rightarrow> rat" where
  "eased t0 [] = 0"
| "eased t0 (i # is) = min ((at_ms i - t0) / 1000) (1 / 10) + eased (at_ms i) is"

lemma eased_nonneg: "sorted (t # map at_ms is) \<Longrightarrow> 0 \<le> eased t is"
  by (induction "is" arbitrary: t) (auto intro: add_nonneg_nonneg)

text \<open>Hands off: no key down, or no gamepad, or its stick and triggers within their dead zones; the buttons may be
  anything.\<close>

definition released :: "tick_input \<Rightarrow> bool" where
  "released i = (case dev i of
     Keyboard \<Rightarrow> keys i = []
   | Pad None \<Rightarrow> True
   | Pad (Some gp) \<Rightarrow> \<bar>axis gp 0\<bar> < STICK_DEADZONE \<and> \<bar>value_of gp 7\<bar> < TRIGGER_DEADZONE \<and> \<bar>value_of gp 6\<bar> < TRIGGER_DEADZONE)"

lemma nothing_held [simp]: "readKeyboard [] = idle"
  by (simp add: readKeyboard_def any_held_def idle_def list_ex_iff)

lemma released_target: "released i \<Longrightarrow> fst (read_device (dev i) (s\<lparr>held := keys i, lastTick := t\<rparr>)) = idle"
  by (auto simp: released_def read_device_def f710_read_def deadzone_def idle_def Let_def split: device.splits option.splits)

lemma js_round_0 [simp]: "js_round 0 = 0"
  by (simp add: js_round_def floor_eq_iff)

lemma released_frame_eq:
  assumes "released i"
  shows "\<exists>out x. play_frame i s = (out @ fst (send_step (at_ms i) x), snd (send_step (at_ms i) x)) \<and>
    list_all (\<lambda>c. \<forall>t b a. c \<noteq> DRIVE t b \<and> c \<noteq> STEER a) out \<and>
    cur x = ease_control (min ((at_ms i - lastTick s) / 1000) (1 / 10)) idle (cur s) \<and> lastTick x = at_ms i \<and>
    sentThrottle x = sentThrottle s \<and> sentBrake x = sentBrake s \<and> sentSteer x = sentSteer s \<and> lastSendAt x = lastSendAt s"
proof -
  let ?r = "read_device (dev i) (s\<lparr>held := keys i, lastTick := at_ms i\<rparr>)"
  let ?x = "(snd (snd ?r))\<lparr>cur := ease_control (min ((at_ms i - lastTick s) / 1000) (1 / 10)) idle (cur s)\<rparr>"
  have "list_all (\<lambda>c. \<forall>t b a. c \<noteq> DRIVE t b \<and> c \<noteq> STEER a) (fst (snd ?r))"
    by (auto simp: read_device_def Let_def list_all_iff split: device.split option.split prod.split)
  moreover have "play_frame i s = (fst (snd ?r) @ fst (send_step (at_ms i) ?x), snd (send_step (at_ms i) ?x))"
    using released_target [OF assms, where s = s and t = "at_ms i"] by (simp add: play_frame_def frame_eq Let_def)
  ultimately show ?thesis by (intro exI [of _ "fst (snd ?r)"] exI [of _ ?x]) simp
qed

lemma release_frame:
  assumes "released i" "lastTick s \<le> at_ms i" "control_ok (cur s)"
  defines "dt \<equiv> min ((at_ms i - lastTick s) / 1000) (1 / 10)"
  shows "control_ok (cur (snd (play_frame i s)))" "lastTick (snd (play_frame i s)) = at_ms i"
    "throttle (cur (snd (play_frame i s))) = max 0 (throttle (cur s) - 4 * dt)"
    "brake (cur (snd (play_frame i s))) = max 0 (brake (cur s) - 6 * dt)"
    "\<bar>steer (cur (snd (play_frame i s)))\<bar> = max 0 (\<bar>steer (cur s)\<bar> - 4 * dt)"
proof -
  have c: "cur (snd (play_frame i s)) = ease_control dt idle (cur s)" "lastTick (snd (play_frame i s)) = at_ms i"
    using released_frame_eq [OF assms(1), of s] by (auto simp: dt_def)
  have "0 \<le> dt" using assms(2) by (simp add: dt_def)
  with assms(3) show "control_ok (cur (snd (play_frame i s)))" "lastTick (snd (play_frame i s)) = at_ms i"
    "throttle (cur (snd (play_frame i s))) = max 0 (throttle (cur s) - 4 * dt)"
    "brake (cur (snd (play_frame i s))) = max 0 (brake (cur s) - 6 * dt)"
    "\<bar>steer (cur (snd (play_frame i s)))\<bar> = max 0 (\<bar>steer (cur s)\<bar> - 4 * dt)"
    by (simp_all add: c control_ok_ease control_ok_idle) (auto simp: idle_def ease_control_def ease_def control_ok_def)
qed

lemma release_play:
  assumes "list_all released is" "sorted (lastTick s # map at_ms is)" "control_ok (cur s)"
  shows "control_ok (cur (snd (play is s))) \<and>
    lastTick (snd (play is s)) = last (lastTick s # map at_ms is) \<and>
    throttle (cur (snd (play is s))) = max 0 (throttle (cur s) - 4 * eased (lastTick s) is) \<and>
    brake (cur (snd (play is s))) = max 0 (brake (cur s) - 6 * eased (lastTick s) is) \<and>
    \<bar>steer (cur (snd (play is s)))\<bar> = max 0 (\<bar>steer (cur s)\<bar> - 4 * eased (lastTick s) is)"
  using assms
proof (induction "is" arbitrary: s)
  case Nil
  then show ?case by (simp add: control_ok_def)
next
  case (Cons i "is")
  have i: "released i" "lastTick s \<le> at_ms i" using Cons.prems by simp_all
  note f = release_frame [OF i Cons.prems(3)]
  have e: "0 \<le> eased (at_ms i) is" using Cons.prems(2) by (intro eased_nonneg) simp
  have "sorted (lastTick (snd (play_frame i s)) # map at_ms is)" using Cons.prems(2) f(2) by simp
  from Cons.IH [OF _ this f(1)] Cons.prems(1) i(2) e show ?case
    by (auto simp: split_def Let_def f(2-5) max_def)
qed

text \<open>Once the control is at rest, nothing but zeros is sent, and the first frame that may send brings what the vehicle was
  last told within the send thresholds.\<close>

fun at_rest :: "command \<Rightarrow> bool" where
  "at_rest (DRIVE t b) = (t = 0 \<and> b = 0)"
| "at_rest (STEER a) = (a = 0)"
| "at_rest _ = True"

definition settled :: "loop \<Rightarrow> bool" where
  "settled s = (\<bar>sentThrottle s\<bar> \<le> 2 \<and> \<bar>sentBrake s\<bar> \<le> 2 \<and> \<bar>sentSteer s\<bar> < 3 / 2)"

lemma idle_send:
  assumes "cur x = idle"
  shows "list_all at_rest (fst (send_step t x)) \<and> cur (snd (send_step t x)) = idle \<and>
    (if SEND_MS \<le> t - lastSendAt x then settled (snd (send_step t x)) \<and> lastSendAt (snd (send_step t x)) = t
     else last_sent (snd (send_step t x)) = last_sent x \<and> settled (snd (send_step t x)) = settled x \<and>
       lastSendAt (snd (send_step t x)) = lastSendAt x)"
proof -
  have "steer_deg idle = 0" "pct 0 = 0" "round1 0 = 0" "throttle idle = 0" "brake idle = 0"
    by (simp_all add: steer_deg_def clamp_def pct_def round1_def idle_def)
  then show ?thesis
    by (auto simp: send_step_def Let_def settled_def assms PEDAL_EPS_PCT_def STEER_EPS_DEG_def)
qed

lemma idle_frame:
  assumes "released i" "cur s = idle"
  shows "list_all at_rest (fst (play_frame i s)) \<and> cur (snd (play_frame i s)) = idle \<and>
    (if SEND_MS \<le> at_ms i - lastSendAt s then settled (snd (play_frame i s)) \<and> lastSendAt (snd (play_frame i s)) = at_ms i
     else settled (snd (play_frame i s)) = settled s \<and> lastSendAt (snd (play_frame i s)) = lastSendAt s)"
proof -
  obtain out x where f: "play_frame i s = (out @ fst (send_step (at_ms i) x), snd (send_step (at_ms i) x))"
      "list_all (\<lambda>c. \<forall>t b a. c \<noteq> DRIVE t b \<and> c \<noteq> STEER a) out"
      "cur x = ease_control (min ((at_ms i - lastTick s) / 1000) (1 / 10)) idle (cur s)"
      "sentThrottle x = sentThrottle s" "sentBrake x = sentBrake s" "sentSteer x = sentSteer s" "lastSendAt x = lastSendAt s"
    using released_frame_eq [OF assms(1), of s] by blast
  have "cur x = idle" by (simp add: f(3) assms(2) ease_control_def ease_def idle_def)
  moreover have "at_rest c" if "\<forall>t b a. c \<noteq> DRIVE t b \<and> c \<noteq> STEER a" for c using that by (cases c) auto
  then have "list_all at_rest out" using f(2) by (auto simp: list_all_iff)
  moreover have "settled x = settled s" by (simp add: settled_def f(4-6))
  ultimately show ?thesis using idle_send [of x "at_ms i"] by (simp add: f(1,7))
qed

lemma idle_play:
  assumes "list_all released js" "cur s = idle"
  shows "list_all at_rest (fst (play js s)) \<and> cur (snd (play js s)) = idle \<and>
    (lastSendAt (snd (play js s)) = lastSendAt s \<or> settled (snd (play js s))) \<and>
    (js \<noteq> [] \<longrightarrow> lastSendAt s + SEND_MS \<le> at_ms (last js) \<longrightarrow> settled (snd (play js s)))"
  using assms
proof (induction js rule: rev_induct)
  case (snoc j js)
  let ?s = "snd (play js s)"
  from snoc have IH: "list_all at_rest (fst (play js s))" "cur ?s = idle" "lastSendAt ?s = lastSendAt s \<or> settled ?s"
    and j: "released j" by simp_all
  show ?case using idle_frame [OF j IH(2)] IH by (auto simp: play_append split_def split: if_splits)
qed simp

lemma last_send_play: "lastSendAt (snd (play is s)) \<in> insert (lastSendAt s) (set (map at_ms is))"
proof (induction "is" arbitrary: s)
  case (Cons i "is")
  have "lastSendAt (snd (play_frame i s)) \<in> {lastSendAt s, at_ms i}"
    by (auto simp: play_frame_def frame_eq Let_def send_step_def)
  with Cons [of "snd (play_frame i s)"] show ?case by (auto simp: split_def Let_def)
qed simp

lemma sorted_last: "sorted (t # ts) \<Longrightarrow> x \<in> set (t # ts) \<Longrightarrow> x \<le> last (t # ts)"
  by (induction ts arbitrary: t) auto

lemma round1_small:
  assumes "\<bar>a\<bar> < 3 / 2"
  shows "\<bar>round1 a\<bar> \<le> 3 / 2"
proof -
  have "- 15 \<le> js_round (a * 10)" "js_round (a * 10) \<le> 15"
    using assms by (auto simp: js_round_def le_floor_iff floor_le_iff abs_less_iff)
  then have "of_int (- 15) \<le> (of_int (js_round (a * 10)) :: rat)" "of_int (js_round (a * 10)) \<le> (of_int 15 :: rat)"
    by (simp_all only: of_int_le_iff)
  then show ?thesis by (simp add: round1_def abs_le_iff)
qed

text \<open>C23: Letting go reaches the vehicle in bounded time, up to the send thresholds. Let the keys be up, or the gamepad
  away or its stick and triggers within their dead zones, from some moment on. When the frames since
  then have had a quarter of a second (a frame counts for its time, at most a tenth of a second), the
  eased control is exactly at rest. From then on every DRIVE and STEER that is sent is zero, and once
  a frame comes a send interval (a twelfth of a second) later, what the vehicle was last told is at
  most 2 percent of throttle, 2 percent of brake and 1.5 degrees of steering, and stays there. (It need
  not be zero: see \<open>throttle_left_standing\<close>.)\<close>

theorem release_reaches_vehicle:
  assumes "list_all released (is @ js)" "sorted (lastTick s # map at_ms (is @ js))" "control_ok (cur s)"
    and "lastSendAt s \<le> lastTick s" "1 / 4 \<le> eased (lastTick s) is"
    and "js \<noteq> []" "last (lastTick s # map at_ms is) + SEND_MS \<le> at_ms (last js)"
    and "play is s = (early, s1)" "play js s1 = (late, s2)" "fold told (early @ late) (last_sent s) = (t, b, a)"
  shows "cur s1 = idle \<and> cur s2 = idle \<and> list_all at_rest late \<and> \<bar>t\<bar> \<le> 2 \<and> \<bar>b\<bar> \<le> 2 \<and> \<bar>a\<bar> \<le> 3 / 2"
proof -
  have r: "list_all released is" "list_all released js" "sorted (lastTick s # map at_ms is)"
    using assms(1,2) by (auto simp: sorted_append)
  have s1: "s1 = snd (play is s)" "s2 = snd (play js s1)" "late = fst (play js s1)" using assms(8,9) by simp_all
  note p = release_play [OF r(1,3) assms(3), folded s1(1)]
  have "throttle (cur s) \<le> 1" "brake (cur s) \<le> 1" "\<bar>steer (cur s)\<bar> \<le> 1" using assms(3) by (simp_all add: control_ok_def)
  then have "throttle (cur s1) = 0" "brake (cur s1) = 0" "steer (cur s1) = 0" using p assms(5) by auto
  then have rest: "cur s1 = idle" by (simp add: idle_def target_def)
  have "lastSendAt s1 \<le> last (lastTick s # map at_ms is)"
    using last_send_play [of "is" s] sorted_last [OF r(3), of "lastSendAt s1"] sorted_last [OF r(3), of "lastTick s"] assms(4)
    by (auto simp: s1(1))
  then have "settled s2" "list_all at_rest late" "cur s2 = idle"
    using idle_play [OF r(2) rest] assms(6,7) by (simp_all add: s1(2,3))
  moreover have "(t, b, a) = last_sent s2"
    using told_play [of "is @ js" s] assms(8-10) by (simp add: play_append)
  ultimately show ?thesis using rest round1_small by (simp add: last_sent_def settled_def)
qed

definition driving_loop :: loop where
  "driving_loop = start_loop\<lparr>cur := target (1 / 2) (38 / 100) 0, sentThrottle := 38, sentSteer := 35 / 2, lastSendAt := 190,
     lastTick := 190\<rparr>"

theorem release_reaches_vehicle_witness:
  "case fold told (fst (play (map (\<lambda>t. \<lparr>at_ms = t, keys = [], dev = Keyboard\<rparr>) [290, 390, 490, 590]) driving_loop))
     (38, 0, round1 (35 / 2)) of (t, b, a) \<Rightarrow> \<bar>t\<bar> \<le> 2 \<and> \<bar>b\<bar> \<le> 2 \<and> \<bar>a\<bar> \<le> 3 / 2"
proof -
  let ?is = "map (\<lambda>t. \<lparr>at_ms = t, keys = [], dev = Keyboard\<rparr>) [290, 390, 490]"
  let ?js = "[\<lparr>at_ms = 590, keys = [], dev = Keyboard\<rparr>]"
  have "list_all released (?is @ ?js)" "sorted (lastTick driving_loop # map at_ms (?is @ ?js))"
    "control_ok (cur driving_loop)" "lastSendAt driving_loop \<le> lastTick driving_loop" "1 / 4 \<le> eased (lastTick driving_loop) ?is"
    "?js \<noteq> []" "last (lastTick driving_loop # map at_ms ?is) + SEND_MS \<le> at_ms (last ?js)"
    by (simp_all add: released_def driving_loop_def control_ok_def SEND_MS_def)
  note h = release_reaches_vehicle [OF this]
  obtain early s1 late s2 t b a where e: "play ?is driving_loop = (early, s1)" "play ?js s1 = (late, s2)"
      "fold told (early @ late) (last_sent driving_loop) = (t, b, a)"
    by (metis prod_cases3 surj_pair)
  have "map (\<lambda>t. \<lparr>at_ms = t, keys = [], dev = Keyboard\<rparr>) [290, 390, 490, 590] = ?is @ ?js" by simp
  then have "fst (play (map (\<lambda>t. \<lparr>at_ms = t, keys = [], dev = Keyboard\<rparr>) [290, 390, 490, 590]) driving_loop) = early @ late"
    using e(1,2) by (simp only: play_append prod.case fst_conv)
  moreover have "last_sent driving_loop = (38, 0, round1 (35 / 2))" by (simp add: last_sent_def driving_loop_def start_loop_def)
  ultimately show ?thesis using h [OF e] e(3) by simp
qed

text \<open>One frame of the keyboard, with the control it leaves.\<close>

lemma keyboard_frame:
  assumes "dev i = Keyboard"
    "c = ease_control (min ((at_ms i - lastTick s) / 1000) (1 / 10)) (readKeyboard (keys i)) (cur s)"
  shows "play_frame i s = send_step (at_ms i) (s\<lparr>held := keys i, lastTick := at_ms i, cur := c\<rparr>)"
  using assms by (simp add: play_frame_def frame_eq Let_def read_device_def)

lemma js_round_pct: "js_round (of_int n) = n"
  by (simp add: js_round_def floor_eq_iff)

lemma press_up: "readKeyboard [''KeyW''] = target 0 1 0"
  by (simp add: readKeyboard_def any_held_def LEFT_def RIGHT_def UP_def DOWN_def)

lemma tap_frame:
  assumes "dev i = Keyboard" "steer (cur s) = 0" "brake (cur s) = 0" "sentSteer s = 0" "sentBrake s = 0"
    "readKeyboard (keys i) = target 0 p 0" "SEND_MS \<le> at_ms i - lastSendAt s"
    "ease (throttle (cur s)) p (min ((at_ms i - lastTick s) / 1000) (1 / 10) * (if throttle (cur s) < p then 2 else 4)) = of_int n / 100"
  shows "play_frame i s = ((if 3 \<le> \<bar>n - sentThrottle s\<bar> then [DRIVE n 0] else []),
    s\<lparr>held := keys i, lastTick := at_ms i, cur := target 0 (of_int n / 100) 0, lastSendAt := at_ms i,
      sentThrottle := (if 3 \<le> \<bar>n - sentThrottle s\<bar> then n else sentThrottle s)\<rparr>)"
proof -
  have e: "ease 0 0 d = 0" for d by (simp add: ease_def)
  have "ease_control (min ((at_ms i - lastTick s) / 1000) (1 / 10)) (target 0 p 0) (cur s) = target 0 (of_int n / 100) 0"
    using assms by (simp add: ease_control_def e)
  then show ?thesis
    using assms(1-7)
    by (simp add: keyboard_frame send_step_def steer_deg_def clamp_def Let_def pct_def js_round_pct STEER_EPS_DEG_def
        PEDAL_EPS_PCT_def not_less [symmetric])
qed

definition tap :: "tick_input list" where
  "tap = [\<lparr>at_ms = 100, keys = [''KeyW''], dev = Keyboard\<rparr>, \<lparr>at_ms = 190, keys = [''KeyW''], dev = Keyboard\<rparr>,
     \<lparr>at_ms = 280, keys = [], dev = Keyboard\<rparr>]"

lemma play_tap:
  "play tap start_loop = ([DRIVE 20 0, DRIVE 38 0, DRIVE 2 0],
     start_loop\<lparr>cur := target 0 (2 / 100) 0, sentThrottle := 2, lastSendAt := 280, lastTick := 280\<rparr>)"
  using tap_frame [of "\<lparr>at_ms = 100, keys = [''KeyW''], dev = Keyboard\<rparr>" start_loop 1 20]
    tap_frame [of "\<lparr>at_ms = 190, keys = [''KeyW''], dev = Keyboard\<rparr>"
      "start_loop\<lparr>held := [''KeyW''], cur := target 0 (20 / 100) 0, sentThrottle := 20, lastSendAt := 100, lastTick := 100\<rparr>" 1 38]
    tap_frame [of "\<lparr>at_ms = 280, keys = [], dev = Keyboard\<rparr>"
      "start_loop\<lparr>held := [''KeyW''], cur := target 0 (38 / 100) 0, sentThrottle := 38, lastSendAt := 190, lastTick := 190\<rparr>" 0 2]
  by (simp add: tap_def start_loop_def idle_def press_up SEND_MS_def ease_def)

text \<open>A little throttle can stay on: after a press of the throttle key and its release, the vehicle's
  last order can be a throttle of 2 percent, and then, with the keys up, no frame ever sends
  another command, however long that lasts, although the operator's control is at zero.\<close>

theorem throttle_left_standing:
  "\<exists>is s. play is start_loop = ([DRIVE 20 0, DRIVE 38 0, DRIVE 2 0], s) \<and> released (last is) \<and>
     (\<forall>k. fst (play (map (\<lambda>n. \<lparr>at_ms = 380 + 100 * of_nat n, keys = [], dev = Keyboard\<rparr>) [0..<k]) s) = [] \<and>
       (throttle (cur (snd (play (map (\<lambda>n. \<lparr>at_ms = 380 + 100 * of_nat n, keys = [], dev = Keyboard\<rparr>) [0..<Suc k]) s))) = 0))"
proof -
  let ?i = "\<lambda>n :: nat. \<lparr>at_ms = 380 + 100 * of_nat n, keys = [], dev = Keyboard\<rparr>"
  let ?s = "start_loop\<lparr>cur := target 0 (2 / 100) 0, sentThrottle := 2, lastSendAt := 280, lastTick := 280\<rparr>"
  let ?calm = "\<lambda>x k. steer (cur x) = 0 \<and> brake (cur x) = 0 \<and> 0 \<le> throttle (cur x) \<and> throttle (cur x) \<le> 2 / 100 \<and>
    sentSteer x = 0 \<and> sentBrake x = 0 \<and> sentThrottle x = 2 \<and>
    lastSendAt x = 280 + 100 * of_nat k \<and> lastTick x = 280 + 100 * of_nat k"
  have one: "fst (play_frame (?i k) x) = [] \<and> ?calm (snd (play_frame (?i k) x)) (Suc k) \<and>
      throttle (cur (snd (play_frame (?i k) x))) = 0"
    if "?calm x k" for x k
  proof -
    have "ease (throttle (cur x)) 0 (min ((at_ms (?i k) - lastTick x) / 1000) (1 / 10) * (if throttle (cur x) < 0 then 2 else 4)) = of_int 0 / 100"
      using that by (auto simp: ease_def)
    from tap_frame [of "?i k" x 0 0, OF _ _ _ _ _ _ _ this] that show ?thesis
      by (auto simp: SEND_MS_def idle_def)
  qed
  have "fst (play (map ?i [0..<k]) ?s) = [] \<and> ?calm (snd (play (map ?i [0..<k]) ?s)) k" for k
  proof (induction k)
    case 0
    then show ?case by (simp add: start_loop_def)
  next
    case (Suc k)
    with one [of "snd (play (map ?i [0..<k]) ?s)" k] show ?case by (simp add: play_append split_def)
  qed
  moreover from this have "throttle (cur (snd (play (map ?i [0..<Suc k]) ?s))) = 0" for k
    using one [of "snd (play (map ?i [0..<k]) ?s)" k] by (simp add: play_append split_def)
  ultimately show ?thesis
    by (intro exI [of _ tap] exI [of _ ?s]) (simp add: play_tap, simp add: tap_def released_def)
qed

section \<open>The panic button\<close>

definition panic :: "device \<Rightarrow> bool" where
  "panic d = (case d of Pad (Some gp) \<Rightarrow> pressed gp 1 | _ \<Rightarrow> False)"

text \<open>How often the button goes down in a sequence of frames that all see a gamepad.\<close>

primrec presses :: "bool \<Rightarrow> tick_input list \<Rightarrow> nat" where
  "presses before [] = 0"
| "presses before (i # is) = (if panic (dev i) \<and> \<not> before then 1 else 0) + presses (panic (dev i)) is"

text \<open>The panic button of the gamepad sends one E-STOP for each time it is pressed, not one per
  frame and none less, whatever else happens on the sticks, triggers and gear buttons.\<close>

theorem panic_fires_per_press:
  assumes "list_all (\<lambda>i. \<exists>gp. dev i = Pad (Some gp)) is"
  shows "length (filter (\<lambda>c. c = ESTOP) (fst (play is s))) = presses (prevEstop s) is"
  using assms
proof (induction "is" arbitrary: s)
  case (Cons i "is")
  then obtain gp where d: "dev i = Pad (Some gp)" by auto
  have no: "filter (\<lambda>c. c = ESTOP) (fst (send_step t x)) = []" "prevEstop (snd (send_step t x)) = prevEstop x" for t x
    by (auto simp: send_step_def Let_def filter_empty_conv)
  have "length (filter (\<lambda>c. c = ESTOP) (fst (play_frame i s))) = (if panic (dev i) \<and> \<not> prevEstop s then 1 else 0)"
    "prevEstop (snd (play_frame i s)) = panic (dev i)"
    by (auto simp: play_frame_def frame_eq Let_def no d read_device_def f710_read_def panic_def)
  with Cons.IH [of "snd (play_frame i s)"] Cons.prems show ?case by (simp add: split_def Let_def)
qed simp

definition demo_pad :: "bool \<Rightarrow> Gamepad" where
  "demo_pad b = \<lparr>axes = [1 / 2], buttons = [\<lparr>button_value = 0, button_pressed = False\<rparr>,
     \<lparr>button_value = (if b then 1 else 0), button_pressed = b\<rparr>]\<rparr>"

theorem panic_fires_per_press_witness:
  "length (filter (\<lambda>c. c = ESTOP) (fst (play (map (\<lambda>b. \<lparr>at_ms = 0, keys = [], dev = Pad (Some (demo_pad b))\<rparr>)
     [True, True, False, True]) start_loop))) = 2"
  by (subst panic_fires_per_press)
    (simp_all add: panic_def demo_pad_def pressed_def start_loop_def)

end
