(* ===== verification/Telemetry.thy ===== *)
theory Telemetry
  imports Maneuver
begin

text \<open>
  The telemetry service: the link monitor (\<open>services/telemetry/src/mqtt.service.ts\<close>) and the
  batched writer (\<open>telemetry-writer.service.ts\<close>). Both are synchronous, so an operation is a
  function from state to state: the message handler, the monitor tick of every second, the
  enqueue of a sample, and the flush that turns the buffer into one parameterised INSERT. Broadcasts
  to the consoles and the queries handed to the database are kept in order.
\<close>

section \<open>State\<close>

datatype link = HEALTHY | DEGRADED | LOST

datatype broadcast =
    BroadcastTelemetry vehicle_id json
  | BroadcastHeartbeat vehicle_id json
  | BroadcastLink vehicle_id link

record tel =
  now :: msec
  lastHeartbeat :: "(vehicle_id \<times> msec) list"
  lastLinkStatus :: "vehicle_id \<Rightarrow> link option"
  broadcasts :: "broadcast list"
  persistEnabled :: bool
  pool_open :: bool
  init_pending :: bool
  schema_tries :: nat
  ready :: bool
  dropWarned :: bool
  retryTimer :: bool
  flushTimer :: bool
  closing :: bool
  buffer :: "json list"
  queries :: "(string \<times> json list) list"
  unanswered :: "(string \<times> json list) list"
  written :: "(string \<times> json list) list"
  failed :: "(string \<times> json list) list"

definition HEARTBEAT_PERIOD_MS :: int where "HEARTBEAT_PERIOD_MS = 1000"
definition DEGRADED_AFTER_MISSES :: int where "DEGRADED_AFTER_MISSES = 2"
definition LOST_AFTER_MISSES :: int where "LOST_AFTER_MISSES = 4"
definition FLUSH_THRESHOLD :: nat where "FLUSH_THRESHOLD = 200"
definition COLS :: nat where "COLS = 8"

section \<open>The link monitor\<close>

definition setLinkStatus :: "vehicle_id \<Rightarrow> link \<Rightarrow> tel \<Rightarrow> tel" where
  "setLinkStatus v st s =
    (if lastLinkStatus s v = Some st then s
     else s\<lparr>lastLinkStatus := (lastLinkStatus s)(v \<mapsto> st), broadcasts := broadcasts s @ [BroadcastLink v st]\<rparr>)"

definition handleHeartbeat :: "'kv env \<Rightarrow> vehicle_id \<Rightarrow> json \<Rightarrow> tel \<Rightarrow> tel" where
  "handleHeartbeat E topicVehicle msg s =
    (case safeParse E HeartbeatSchema msg of
       None \<Rightarrow> s
     | Some hb \<Rightarrow>
         if get_field hb ''vehicleId'' \<noteq> JStr topicVehicle then s
         else
           (let v = str_field hb ''vehicleId'';
                s1 = s\<lparr>lastHeartbeat := AList.update v (now s) (lastHeartbeat s)\<rparr>;
                s2 = s1\<lparr>broadcasts := broadcasts s1 @ [BroadcastHeartbeat v hb]\<rparr>
            in setLinkStatus v HEALTHY s2))"

definition misses :: "msec \<Rightarrow> msec \<Rightarrow> int" where
  "misses t l = (t - l) div HEARTBEAT_PERIOD_MS"

definition evaluate_link :: "vehicle_id \<times> msec \<Rightarrow> tel \<Rightarrow> tel" where
  "evaluate_link e s =
    (let n = misses (now s) (snd e) in
     if LOST_AFTER_MISSES \<le> n then setLinkStatus (fst e) LOST s
     else if DEGRADED_AFTER_MISSES \<le> n then setLinkStatus (fst e) DEGRADED s
     else s)"

definition evaluateLinks :: "tel \<Rightarrow> tel" where
  "evaluateLinks s = fold evaluate_link (lastHeartbeat s) s"

section \<open>The writer\<close>

text \<open>\<open>100 - x\<close> on decimals.\<close>

definition dec_minus_from :: "int \<Rightarrow> dec \<Rightarrow> dec" where
  "dec_minus_from n d =
    (let k = min 0 (dec_exp d); m = n * 10 ^ nat (- k) - dec_mant d * 10 ^ nat (dec_exp d - k)
     in mk_dec (m < 0) (nat \<bar>m\<bar>) k)"

text \<open>\<open>p.battery?.percent ?? 0\<close>, and the connection quality.\<close>

definition or_zero :: "json \<Rightarrow> json" where
  "or_zero v = (if v = JUndef \<or> v = JNull then JInt 0 else v)"

definition connection_quality :: "json \<Rightarrow> json" where
  "connection_quality p =
    (let c = get_field p ''connection'' in
     if falsy c then JInt 0
     else (case get_field c ''packetLossPercent'' of JNum d \<Rightarrow> JNum (dec_minus_from 100 d) | _ \<Rightarrow> JNull))"

definition row_values :: "json \<Rightarrow> json list" where
  "row_values p =
    [get_field p ''vehicleId'', get_field p ''timestamp'', get_field (get_field p ''location'') ''lat'',
     get_field (get_field p ''location'') ''lng'', get_field p ''speedKmh'',
     or_zero (get_field (get_field p ''battery'') ''percent''), get_field p ''mode'', connection_quality p]"

definition placeholder :: "nat \<Rightarrow> string" where
  "placeholder n = CHR ''$'' # nat_digits n"

definition row_tuple :: "nat \<Rightarrow> string" where
  "row_tuple i = ''('' @ join '','' (map (\<lambda>j. placeholder (i * COLS + j + 1)) [0..<COLS]) @ '')''"

definition insert_sql :: "nat \<Rightarrow> string" where
  "insert_sql n = ''INSERT INTO telemetry_samples (vehicle_id, ts, lat, lng, speed_kmh, battery_percent, mode, connection_quality) VALUES ''
     @ join '','' (map row_tuple [0..<n])"

text \<open>\<open>flush\<close> takes the buffer over at once and hands one INSERT to the pool; a pool that has ended rejects it. The
  answer comes later, for any of the statements under way: the \<open>try/catch\<close> around the query does
  nothing with a success and only logs an error, so that the rows of a failed statement are gone.
  \<open>queries\<close> are the statements handed to the pool, \<open>unanswered\<close> those still under way, \<open>written\<close> those
  the database confirmed and \<open>failed\<close> those whose promise was rejected.\<close>

definition batch_query :: "json list \<Rightarrow> string \<times> json list" where
  "batch_query batch = (insert_sql (length batch), concat (map row_values batch))"

definition flush :: "tel \<Rightarrow> tel" where
  "flush s =
    (if buffer s = [] then s
     else if pool_open s
     then s\<lparr>buffer := [], queries := queries s @ [batch_query (buffer s)],
       unanswered := unanswered s @ [batch_query (buffer s)]\<rparr>
     else s\<lparr>buffer := [], failed := failed s @ [batch_query (buffer s)]\<rparr>)"

definition query_answer :: "nat \<Rightarrow> bool \<Rightarrow> tel \<Rightarrow> tel" where
  "query_answer n ok s =
    (if n < length (unanswered s) then
       (let q = unanswered s ! n; s1 = s\<lparr>unanswered := take n (unanswered s) @ drop (Suc n) (unanswered s)\<rparr>
        in if ok then s1\<lparr>written := written s1 @ [q]\<rparr> else s1\<lparr>failed := failed s1 @ [q]\<rparr>)
     else s)"

definition enqueue :: "json \<Rightarrow> tel \<Rightarrow> tel" where
  "enqueue payload s =
    (if \<not> persistEnabled s then s
     else if \<not> ready s then s\<lparr>dropWarned := True\<rparr>
     else (let s' = s\<lparr>buffer := buffer s @ [payload]\<rparr>
       in if FLUSH_THRESHOLD \<le> length (buffer s') then flush s' else s'))"

text \<open>\<open>tryEnsureSchema\<close>, when the database has answered: the writer becomes ready when the table could be
  created, and the retries end.\<close>

definition tryEnsureSchema :: "bool \<Rightarrow> tel \<Rightarrow> tel" where
  "tryEnsureSchema db_ok s = (if db_ok then s\<lparr>ready := True, retryTimer := False\<rparr> else s)"

text \<open>\<open>onModuleInit\<close> up to its wait for the table is the initial state; this is the rest of it. A retry
  starts an attempt whatever became of the ones before.\<close>

definition module_init_ends :: "bool \<Rightarrow> tel \<Rightarrow> tel" where
  "module_init_ends db_ok s =
    (if \<not> init_pending s then s
     else (let s1 = tryEnsureSchema db_ok (s\<lparr>init_pending := False\<rparr>)
       in s1\<lparr>retryTimer := (if ready s1 then retryTimer s1 else True), flushTimer := True\<rparr>))"

definition retry_tick :: "tel \<Rightarrow> tel" where
  "retry_tick s = (if retryTimer s then s\<lparr>schema_tries := Suc (schema_tries s)\<rparr> else s)"

definition retry_answer :: "bool \<Rightarrow> tel \<Rightarrow> tel" where
  "retry_answer db_ok s =
    (if schema_tries s = 0 then s else tryEnsureSchema db_ok (s\<lparr>schema_tries := schema_tries s - 1\<rparr>))"

text \<open>\<open>onModuleDestroy\<close>: the timers, the last flush, and then the end of the pool.\<close>

definition module_destroy :: "tel \<Rightarrow> tel" where
  "module_destroy s = flush (s\<lparr>flushTimer := False, retryTimer := False, closing := True\<rparr>)"

definition pool_end :: "tel \<Rightarrow> tel" where
  "pool_end s = (if closing s then s\<lparr>pool_open := False\<rparr> else s)"

section \<open>The message handler\<close>

text \<open>The \<open>try/catch\<close> drops a message that is not JSON.\<close>

definition on_telemetry_message :: "'kv env \<Rightarrow> string \<Rightarrow> string \<Rightarrow> tel \<Rightarrow> tel" where
  "on_telemetry_message E topic text s =
    (let topicVehicle = vehicleFromTopic topic in
     if \<not> truthy_str topicVehicle then s
     else if ends_with topic ''/heartbeat'' then
       (case json_parse text of None \<Rightarrow> s | Some msg \<Rightarrow> handleHeartbeat E (the topicVehicle) msg s)
     else if ends_with topic ''/telemetry'' then
       (case json_parse text of
          None \<Rightarrow> s
        | Some msg \<Rightarrow>
            (case safeParse E TelemetryPayloadSchema msg of
               None \<Rightarrow> s
             | Some payload \<Rightarrow>
                 if get_field payload ''vehicleId'' \<noteq> JStr (the topicVehicle) then s
                 else enqueue payload
                   (s\<lparr>broadcasts := broadcasts s @ [BroadcastTelemetry (str_field payload ''vehicleId'') payload]\<rparr>)))
     else s)"

section \<open>Runs of the service\<close>

datatype tel_event =
    Message string string
  | MonitorTick
  | FlushTick
  | InitAnswer bool
  | RetryTick
  | RetryAnswer bool
  | Shutdown
  | PoolEnd
  | QueryAnswer nat bool
  | Elapse nat

fun tel_step :: "'kv env \<Rightarrow> tel_event \<Rightarrow> tel \<Rightarrow> tel" where
  "tel_step E (Message topic text) s = on_telemetry_message E topic text s"
| "tel_step E MonitorTick s = evaluateLinks s"
| "tel_step E FlushTick s = (if flushTimer s then flush s else s)"
| "tel_step E (InitAnswer ok) s = module_init_ends ok s"
| "tel_step E RetryTick s = retry_tick s"
| "tel_step E (RetryAnswer ok) s = retry_answer ok s"
| "tel_step E Shutdown s = module_destroy s"
| "tel_step E PoolEnd s = pool_end s"
| "tel_step E (QueryAnswer n ok) s = query_answer n ok s"
| "tel_step E (Elapse d) s = s\<lparr>now := now s + int d\<rparr>"

end
