(* ===== verification/Telemetry_Safety.thy ===== *)
theory Telemetry_Safety
  imports Telemetry
begin

text \<open>
  Runs of the telemetry service: the link status follows the silence of the vehicle, and every
  accepted sample is handed to the database once, in order, in statements whose placeholders
  fit their values.
\<close>

section \<open>Runs\<close>

definition tel_run :: "'kv env \<Rightarrow> tel_event list \<Rightarrow> tel \<Rightarrow> tel" where
  "tel_run E evs s = fold (tel_step E) evs s"

definition tel_init :: "msec \<Rightarrow> bool \<Rightarrow> tel" where
  "tel_init t persist = \<lparr>now = t, lastHeartbeat = [], lastLinkStatus = (\<lambda>_. None), broadcasts = [],
     persistEnabled = persist, pool_open = persist, init_pending = persist, schema_tries = 0, ready = False,
     dropWarned = False, retryTimer = False, flushTimer = False, closing = False, buffer = [], queries = [], unanswered = [],
     written = [], failed = []\<rparr>"

section \<open>The link status\<close>

lemma setLinkStatus_simps [simp]:
  "lastLinkStatus (setLinkStatus v st s) = (lastLinkStatus s)(v \<mapsto> st)" "now (setLinkStatus v st s) = now s"
  "lastHeartbeat (setLinkStatus v st s) = lastHeartbeat s" "buffer (setLinkStatus v st s) = buffer s"
  "queries (setLinkStatus v st s) = queries s" "persistEnabled (setLinkStatus v st s) = persistEnabled s"
  "ready (setLinkStatus v st s) = ready s" "pool_open (setLinkStatus v st s) = pool_open s"
  by (auto simp: setLinkStatus_def)

text \<open>The status a silence of \<open>a\<close> milliseconds stands for.\<close>

definition link_of :: "int \<Rightarrow> link" where
  "link_of a = (if 4000 \<le> a then LOST else if 2000 \<le> a then DEGRADED else HEALTHY)"

definition rank :: "link \<Rightarrow> nat" where
  "rank l = (case l of HEALTHY \<Rightarrow> 0 | DEGRADED \<Rightarrow> 1 | LOST \<Rightarrow> 2)"

text \<open>Between two ticks the status may be behind the silence, never ahead of it.\<close>

definition link_inv :: "tel \<Rightarrow> bool" where
  "link_inv s = (distinct (map fst (lastHeartbeat s)) \<and>
     (\<forall>v l. map_of (lastHeartbeat s) v = Some l \<longrightarrow> l \<le> now s \<and>
       (\<exists>st. lastLinkStatus s v = Some st \<and> rank st \<le> rank (link_of (now s - l)))))"

lemma rank_mono: "a \<le> b \<Longrightarrow> rank (link_of a) \<le> rank (link_of b)"
  by (auto simp: rank_def link_of_def)

lemma evaluate_link_status:
  "evaluate_link (v, l) s = (if link_of (now s - l) = HEALTHY then s else setLinkStatus v (link_of (now s - l)) s)"
proof -
  have "k \<le> a div 1000 \<longleftrightarrow> 1000 * k \<le> a" for a k :: int
    using pos_mod_bound [of 1000 a] pos_mod_sign [of 1000 a] mult_div_mod_eq [of 1000 a] by linarith
  then have "LOST_AFTER_MISSES \<le> misses (now s) l \<longleftrightarrow> 4000 \<le> now s - l"
    "DEGRADED_AFTER_MISSES \<le> misses (now s) l \<longleftrightarrow> 2000 \<le> now s - l"
    by (simp_all add: misses_def HEARTBEAT_PERIOD_MS_def LOST_AFTER_MISSES_def DEGRADED_AFTER_MISSES_def)
  then show ?thesis by (auto simp: evaluate_link_def link_of_def Let_def)
qed

lemma fold_evaluate:
  assumes "distinct (map fst hs)"
  shows "lastHeartbeat (fold evaluate_link hs s) = lastHeartbeat s" "now (fold evaluate_link hs s) = now s"
    "lastLinkStatus (fold evaluate_link hs s) v = (case map_of hs v of
       None \<Rightarrow> lastLinkStatus s v
     | Some l \<Rightarrow> if link_of (now s - l) = HEALTHY then lastLinkStatus s v else Some (link_of (now s - l)))"
  using assms
proof (induction hs arbitrary: s)
  case (Cons h hs)
  {
    case 1
    then show ?case using Cons.IH(1) by (cases h) (simp add: evaluate_link_status)
  next
    case 2
    then show ?case using Cons.IH(2) by (cases h) (simp add: evaluate_link_status)
  next
    case 3
    then have "map_of hs (fst h) = None" by (simp add: map_of_eq_None_iff)
    with 3 show ?case
      using Cons.IH(3) by (cases h) (auto simp: evaluate_link_status split: option.split)
  }
qed simp_all

lemma tick_exact:
  assumes "link_inv s" "map_of (lastHeartbeat s) v = Some l"
  shows "lastLinkStatus (evaluateLinks s) v = Some (link_of (now s - l))"
proof -
  from assms(1) have d: "distinct (map fst (lastHeartbeat s))" by (simp add: link_inv_def)
  from assms obtain st where "lastLinkStatus s v = Some st" "rank st \<le> rank (link_of (now s - l))"
    unfolding link_inv_def by blast
  then have "link_of (now s - l) = HEALTHY \<longrightarrow> lastLinkStatus s v = Some HEALTHY"
    by (cases st) (auto simp: rank_def)
  then show ?thesis using d assms(2) by (simp add: evaluateLinks_def fold_evaluate)
qed

lemma link_inv_tick: "link_inv s \<Longrightarrow> link_inv (evaluateLinks s)"
  using tick_exact [of s] by (auto simp: link_inv_def evaluateLinks_def fold_evaluate)

lemma link_inv_same:
  "link_inv s \<Longrightarrow> lastHeartbeat s' = lastHeartbeat s \<Longrightarrow> lastLinkStatus s' = lastLinkStatus s \<Longrightarrow> now s \<le> now s' \<Longrightarrow> link_inv s'"
  unfolding link_inv_def
  by (auto intro: order_trans rank_mono dest!: spec) (meson diff_right_mono order_trans rank_mono)

lemma flush_simps [simp]:
  "lastHeartbeat (flush s) = lastHeartbeat s" "lastLinkStatus (flush s) = lastLinkStatus s" "now (flush s) = now s"
  "broadcasts (flush s) = broadcasts s" "persistEnabled (flush s) = persistEnabled s" "ready (flush s) = ready s"
  "buffer (flush s) = []" "pool_open (flush s) = pool_open s" "flushTimer (flush s) = flushTimer s"
  "retryTimer (flush s) = retryTimer s" "closing (flush s) = closing s"
  by (simp_all add: flush_def)

lemma query_answer_simps [simp]:
  "lastHeartbeat (query_answer n ok s) = lastHeartbeat s" "lastLinkStatus (query_answer n ok s) = lastLinkStatus s"
  "now (query_answer n ok s) = now s" "broadcasts (query_answer n ok s) = broadcasts s"
  "persistEnabled (query_answer n ok s) = persistEnabled s" "ready (query_answer n ok s) = ready s"
  "buffer (query_answer n ok s) = buffer s" "queries (query_answer n ok s) = queries s"
  "pool_open (query_answer n ok s) = pool_open s" "flushTimer (query_answer n ok s) = flushTimer s"
  "retryTimer (query_answer n ok s) = retryTimer s" "init_pending (query_answer n ok s) = init_pending s"
  "schema_tries (query_answer n ok s) = schema_tries s" "closing (query_answer n ok s) = closing s"
  by (simp_all add: query_answer_def Let_def)

lemma enqueue_simps [simp]:
  "lastHeartbeat (enqueue p s) = lastHeartbeat s" "lastLinkStatus (enqueue p s) = lastLinkStatus s"
  "now (enqueue p s) = now s" "broadcasts (enqueue p s) = broadcasts s"
  "persistEnabled (enqueue p s) = persistEnabled s" "ready (enqueue p s) = ready s" "pool_open (enqueue p s) = pool_open s"
  by (simp_all add: enqueue_def Let_def)

lemma link_inv_heartbeat:
  assumes "link_inv s"
  shows "link_inv (handleHeartbeat E v msg s)"
proof (cases "safeParse E HeartbeatSchema msg")
  case (Some hb)
  have "distinct (map fst (AList.update u (now s) (lastHeartbeat s)))" for u
    using assms by (simp add: link_inv_def distinct_update)
  then show ?thesis
    using assms Some
    by (auto simp: handleHeartbeat_def Let_def link_inv_def rank_def update_conv' simp del: map_of_eq_Some_iff)
qed (use assms in \<open>simp add: handleHeartbeat_def\<close>)

lemmas lifecycle_defs = tryEnsureSchema_def module_init_ends_def retry_tick_def retry_answer_def module_destroy_def pool_end_def

lemma link_inv_step: "link_inv s \<Longrightarrow> link_inv (tel_step E e s)"
  by (cases e)
    (auto simp: on_telemetry_message_def lifecycle_defs Let_def link_inv_tick link_inv_heartbeat
      split: option.split intro: link_inv_same)

lemma link_inv_run: "link_inv s \<Longrightarrow> link_inv (tel_run E evs s)"
  unfolding tel_run_def by (induction evs arbitrary: s) (simp_all add: link_inv_step)

text \<open>The messages that are heartbeats of a vehicle, and the time a sequence of events takes.\<close>

definition beats :: "'kv env \<Rightarrow> vehicle_id \<Rightarrow> tel_event \<Rightarrow> bool" where
  "beats E v e =
    (case e of
       Message topic text \<Rightarrow> vehicleFromTopic topic = Some v \<and> v \<noteq> [] \<and> ends_with topic ''/heartbeat'' \<and>
         (case json_parse text of
            None \<Rightarrow> False
          | Some msg \<Rightarrow> (case safeParse E HeartbeatSchema msg of None \<Rightarrow> False | Some hb \<Rightarrow> get_field hb ''vehicleId'' = JStr v))
     | _ \<Rightarrow> False)"

fun takes :: "tel_event \<Rightarrow> int" where
  "takes (Elapse d) = int d"
| "takes _ = 0"

lemma now_evaluateLinks [simp]: "now (evaluateLinks s) = now s" "lastHeartbeat (evaluateLinks s) = lastHeartbeat s"
proof -
  have "now (fold evaluate_link hs s) = now s \<and> lastHeartbeat (fold evaluate_link hs s) = lastHeartbeat s" for hs
    by (induction hs arbitrary: s) (simp_all add: evaluate_link_def Let_def)
  then show "now (evaluateLinks s) = now s" "lastHeartbeat (evaluateLinks s) = lastHeartbeat s"
    by (simp_all add: evaluateLinks_def)
qed

lemma now_step: "now (tel_step E e s) = now s + takes e"
  by (cases e) (simp_all add: on_telemetry_message_def handleHeartbeat_def lifecycle_defs Let_def split: option.split)

lemma heard_step:
  "map_of (lastHeartbeat (tel_step E e s)) v = (if beats E v e then Some (now s) else map_of (lastHeartbeat s) v)"
  by (cases e)
    (auto simp: on_telemetry_message_def handleHeartbeat_def beats_def lifecycle_defs Let_def update_conv' truthy_str_def
      split: option.split)

lemma silent_run:
  "list_all (\<lambda>e. \<not> beats E v e) evs \<Longrightarrow>
    map_of (lastHeartbeat (tel_run E evs s)) v = map_of (lastHeartbeat s) v \<and>
    now (tel_run E evs s) = now s + sum_list (map takes evs)"
  unfolding tel_run_def by (induction evs arbitrary: s) (simp_all add: heard_step now_step)

text \<open>C35: The link status tells how long a vehicle has been silent. Take any run in which a valid heartbeat of a vehicle
  arrives and after it none, but any other messages, passing time, monitor ticks and whatever the
  writer and its database do: the next monitor tick leaves the vehicle as LOST exactly when four
  seconds or more have passed since that heartbeat, as DEGRADED exactly from two to four seconds, and
  as HEALTHY below.\<close>

theorem link_status_tracks_silence:
  assumes "beats E v beat" "list_all (\<lambda>e. \<not> beats E v e) after" "silence = sum_list (map takes after)"
  shows "lastLinkStatus (tel_run E (before @ [beat] @ after @ [MonitorTick]) (tel_init t b)) v =
    Some (if 4000 \<le> silence then LOST else if 2000 \<le> silence then DEGRADED else HEALTHY)"
proof -
  let ?heard = "tel_run E before (tel_init t b)"
  let ?s = "tel_run E after (tel_step E beat ?heard)"
  have s: "tel_run E (before @ [beat] @ after @ [MonitorTick]) (tel_init t b) = evaluateLinks ?s"
    "?s = tel_run E (before @ [beat] @ after) (tel_init t b)"
    by (simp_all add: tel_run_def)
  have "link_inv (tel_init t b)" by (simp add: link_inv_def tel_init_def)
  then have inv: "link_inv ?s" unfolding s(2) by (rule link_inv_run)
  have "takes beat = 0" using assms(1) by (cases beat) (simp_all add: beats_def)
  then have "map_of (lastHeartbeat ?s) v = Some (now ?heard)" "now ?s = now ?heard + silence"
    using silent_run [OF assms(2), of "tel_step E beat ?heard"] assms(1,3) by (simp_all add: heard_step now_step)
  with tick_exact [OF inv this(1)] show ?thesis unfolding s(1) by (simp add: link_of_def)
qed

definition demo_heartbeat :: json where
  "demo_heartbeat = JObj [(''vehicleId'', JStr ''v1''), (''timestamp'', JInt 7), (''seq'', JInt 1),
     (''healthy'', JBool True), (''vehicleState'', JStr ''IDLE'')]"

lemma demo_heartbeat_parses:
  "json_parse (stringify demo_heartbeat) = Some demo_heartbeat"
  "zod_eval HeartbeatSchema demo_heartbeat = Some demo_heartbeat"
  using json_parse_stringify [of demo_heartbeat]
  by (simp_all add: demo_heartbeat_def schema_defs len_ok_def)

theorem link_status_tracks_silence_witness:
  "lastLinkStatus (tel_run (demo_env True)
     [FlushTick, Message ''joppilot/v1/vehicles/v1/heartbeat'' (stringify demo_heartbeat), Elapse 2500, MonitorTick]
     (tel_init 0 True)) ''v1'' = Some DEGRADED"
proof -
  let ?m = "Message ''joppilot/v1/vehicles/v1/heartbeat'' (stringify demo_heartbeat)"
  have t: "vehicleFromTopic ''joppilot/v1/vehicles/v1/heartbeat'' = Some ''v1''" by code_simp
  have e: "ends_with ''joppilot/v1/vehicles/v1/heartbeat'' ''/heartbeat''" by code_simp
  have "beats (demo_env True) ''v1'' ?m"
    by (simp add: beats_def t e demo_heartbeat_parses) (simp add: demo_heartbeat_def)
  then have "lastLinkStatus (tel_run (demo_env True) ([FlushTick] @ [?m] @ [Elapse 2500] @ [MonitorTick]) (tel_init 0 True)) ''v1''
      = Some (if 4000 \<le> (2500 :: int) then LOST else if 2000 \<le> (2500 :: int) then DEGRADED else HEALTHY)"
    by (rule link_status_tracks_silence) (simp_all add: beats_def)
  then show ?thesis by simp
qed

section \<open>The samples\<close>

text \<open>The sample a message carries, if it is one the service takes.\<close>

definition sample_in :: "'kv env \<Rightarrow> string \<Rightarrow> string \<Rightarrow> json option" where
  "sample_in E topic text =
    (case (vehicleFromTopic topic, json_parse text) of
       (Some v, Some msg) \<Rightarrow>
         (case safeParse E TelemetryPayloadSchema msg of
            Some payload \<Rightarrow>
              if v \<noteq> [] \<and> \<not> ends_with topic ''/heartbeat'' \<and> ends_with topic ''/telemetry'' \<and>
                get_field payload ''vehicleId'' = JStr v
              then Some payload else None
          | None \<Rightarrow> None)
     | _ \<Rightarrow> None)"


definition query_ok :: "string \<times> json list \<Rightarrow> bool" where
  "query_ok q = list_ex (\<lambda>n. fst q = insert_sql n \<and> length (snd q) = COLS * n) [1..<FLUSH_THRESHOLD + 1]"

definition writer_inv :: "tel \<Rightarrow> bool" where
  "writer_inv s = (length (buffer s) < FLUSH_THRESHOLD \<and> list_all query_ok (queries s) \<and>
     (persistEnabled s \<longrightarrow> pool_open s) \<and> (buffer s \<noteq> [] \<longrightarrow> persistEnabled s) \<and>
     (ready s \<longrightarrow> \<not> retryTimer s) \<and> (retryTimer s \<or> flushTimer s \<longrightarrow> persistEnabled s) \<and>
     (init_pending s \<longrightarrow> persistEnabled s) \<and>
     mset (queries s) = mset (written s) + mset (failed s) + mset (unanswered s))"

lemma snd_batch_query [simp]: "snd (batch_query ps) = concat (map row_values ps)"
  by (simp add: batch_query_def)











lemma heartbeat_writer [simp]:
  "buffer (handleHeartbeat E v msg s) = buffer s" "queries (handleHeartbeat E v msg s) = queries s"
  by (simp_all add: handleHeartbeat_def Let_def split: option.split)

lemma tick_writer [simp]: "buffer (evaluateLinks s) = buffer s" "queries (evaluateLinks s) = queries s"
proof -
  have "buffer (fold evaluate_link hs s) = buffer s \<and> queries (fold evaluate_link hs s) = queries s" for hs
    by (induction hs arbitrary: s) (auto simp: evaluate_link_def Let_def)
  then show "buffer (evaluateLinks s) = buffer s" "queries (evaluateLinks s) = queries s"
    by (simp_all add: evaluateLinks_def)
qed

lemma setLinkStatus_writer [simp]: "writer_inv (setLinkStatus v st s) = writer_inv s"
  by (simp add: writer_inv_def setLinkStatus_def)




definition shown :: "json \<Rightarrow> tel \<Rightarrow> tel" where
  "shown p s = s\<lparr>broadcasts := broadcasts s @ [BroadcastTelemetry (str_field p ''vehicleId'') p]\<rparr>"

lemma message_cases:
  "(\<exists>p. sample_in E topic text = Some p \<and> on_telemetry_message E topic text s = enqueue p (shown p s)) \<or>
   sample_in E topic text = None \<and> (on_telemetry_message E topic text s = s \<or>
     (\<exists>v msg. on_telemetry_message E topic text s = handleHeartbeat E v msg s))"
proof (cases "vehicleFromTopic topic")
  case None
  then show ?thesis by (simp add: on_telemetry_message_def sample_in_def truthy_str_def Let_def)
next
  case v: (Some v)
  show ?thesis
  proof (cases "json_parse text")
    case None
    with v show ?thesis by (simp add: on_telemetry_message_def sample_in_def Let_def)
  next
    case msg: (Some msg)
    show ?thesis
    proof (cases "ends_with topic ''/heartbeat'' \<or> \<not> ends_with topic ''/telemetry'' \<or> v = []")
      case True
      with v msg show ?thesis
        by (cases "v = []"; cases "ends_with topic ''/heartbeat''"; cases "safeParse E TelemetryPayloadSchema msg")
          (auto simp: on_telemetry_message_def sample_in_def Let_def truthy_str_def)
    next
      case False
      with v msg show ?thesis
        by (cases "safeParse E TelemetryPayloadSchema msg")
          (simp_all add: on_telemetry_message_def sample_in_def Let_def truthy_str_def shown_def)
    qed
  qed
qed











lemma failed_frame [simp]:
  "failed (setLinkStatus v st s) = failed s" "failed (handleHeartbeat E v msg s) = failed s" "failed (evaluateLinks s) = failed s"
proof -
  show l: "failed (setLinkStatus v st s) = failed s" for v st s by (simp add: setLinkStatus_def)
  show "failed (handleHeartbeat E v msg s) = failed s" by (simp add: handleHeartbeat_def Let_def l split: option.split)
  have "failed (fold evaluate_link hs s) = failed s" for hs
    by (induction hs arbitrary: s) (simp_all add: evaluate_link_def Let_def l)
  then show "failed (evaluateLinks s) = failed s" by (simp add: evaluateLinks_def)
qed











text \<open>A failed INSERT loses its batch: the sample is in no statement that is confirmed, and no statement is issued for it
  again.\<close>

theorem failed_insert_loses_samples:
  "let s = tel_run E (FlushTick # QueryAnswer 0 False # replicate n FlushTick)
       ((tel_init t True)\<lparr>ready := True, flushTimer := True, buffer := [p]\<rparr>) in
     buffer s = [] \<and> written s = [] \<and> length (queries s) = 1 \<and> failed s = queries s"
proof -
  have "tel_run E (replicate n FlushTick) s = s" if "buffer s = []" for s
    using that unfolding tel_run_def by (induction n) (simp_all add: flush_def)
  then show ?thesis
    by (simp add: tel_run_def tel_init_def flush_def query_answer_def Let_def)
qed

text \<open>A shutdown that comes while the first attempt at the table is still under way does not stop the
  writer: when the attempt answers, the start goes on and sets both timers, after the pool has ended.\<close>

theorem shutdown_during_start_leaves_timers:
  "let s = tel_run E [Shutdown, PoolEnd, InitAnswer False] (tel_init t True) in
     \<not> pool_open s \<and> retryTimer s \<and> flushTimer s"
  by (simp add: tel_run_def tel_init_def lifecycle_defs flush_def Let_def)

text \<open>The writer that is switched off opens no pool, keeps no timer and issues no statement.\<close>

theorem persistence_off_is_inert:
  "let s = tel_run E evs (tel_init t False) in
     queries s = [] \<and> buffer s = [] \<and> \<not> pool_open s \<and> \<not> flushTimer s \<and> \<not> retryTimer s"
proof -
  define off :: "tel \<Rightarrow> bool" where "off s \<longleftrightarrow> \<not> persistEnabled s \<and> queries s = [] \<and> buffer s = [] \<and> \<not> pool_open s \<and> \<not> flushTimer s \<and>
    \<not> retryTimer s \<and> \<not> init_pending s \<and> schema_tries s = 0" for s
  have l: "off (setLinkStatus v st s) = off s" for v st s by (simp add: off_def setLinkStatus_def)
  have "off (evaluate_link e s) = off s" for e s by (simp add: evaluate_link_def Let_def l)
  then have "off (fold evaluate_link hs s) = off s" for hs s by (induction hs arbitrary: s) simp_all
  then have m: "off (evaluateLinks s) = off s" for s by (simp add: evaluateLinks_def)
  have h: "off (handleHeartbeat E v msg s) = off s" for v msg s
    by (simp add: handleHeartbeat_def Let_def l split: option.split) (simp add: off_def)
  have "off (enqueue p (shown p s))" if "off s" for p s using that by (simp add: off_def enqueue_def shown_def)
  then have "off (on_telemetry_message E topic body s)" if "off s" for topic body s
    using that message_cases [of E topic body s] h by auto
  then have "off (tel_step E e s)" if "off s" for e s
    using that m by (cases e) (auto simp: off_def lifecycle_defs flush_def Let_def)
  then have "off (tel_run E evs s)" if "off s" for s
    unfolding tel_run_def using that by (induction evs arbitrary: s) simp_all
  moreover have "off (tel_init t False)" by (simp add: off_def tel_init_def)
  ultimately show ?thesis by (simp add: Let_def off_def)
qed

end
