(* ===== verification/Ingest_Lambda.thy ===== *)
theory Ingest_Lambda
  imports Telemetry
begin

text \<open>
  The serverless writer of the telemetry stream
  (\<open>infra/lambda/telemetry-ingest/index.mjs\<close>): a batch of queue records becomes one INSERT, and
  the records that did not make it are reported back to the queue, which delivers them again.
  What survives between two invocations of a warm instance is the state: the connection pool, the
  flag of the DDL, and, for the database, the statements it has committed. The secrets
  service and the database are parameters: whether the pool can be set up, and whether the
  database executes a statement with its values; a statement is executed completely or not at all.
\<close>

section \<open>State and parameters\<close>

text \<open>A value of a row: a JSON value as it is, or \<open>100 - x\<close> for an \<open>x\<close> that need not be a number,
  which the language turns into one first.\<close>

datatype cell = Plain json | From100 json

record sqs_record =
  messageId :: string
  body :: string

record lambda_env =
  pool_available :: bool
  executes :: "string \<Rightarrow> cell list \<Rightarrow> bool"

record lambda_state =
  has_pool :: bool
  schemaReady :: bool
  committed :: "(string \<times> cell list) list"

section \<open>The handler\<close>

definition nullish_json :: "json \<Rightarrow> json \<Rightarrow> json" where
  "nullish_json v d = (if v = JUndef \<or> v = JNull then d else v)"

text \<open>\<open>toRow\<close>; None is the exception.\<close>

definition toRow :: "string \<Rightarrow> cell list option" where
  "toRow text =
    (case json_parse text of
       None \<Rightarrow> None
     | Some p \<Rightarrow>
         if \<not> is_str (get_field p ''vehicleId'') \<or> \<not> is_num (get_field p ''timestamp'') \<or>
            \<not> is_num (get_field (get_field p ''location'') ''lat'') \<or> \<not> is_num (get_field (get_field p ''location'') ''lng'')
         then None
         else Some
           [Plain (get_field p ''vehicleId''), Plain (get_field p ''timestamp''),
            Plain (get_field (get_field p ''location'') ''lat''), Plain (get_field (get_field p ''location'') ''lng''),
            Plain (nullish_json (get_field p ''speedKmh'') (JInt 0)),
            Plain (nullish_json (get_field (get_field p ''battery'') ''percent'') (JInt 0)),
            Plain (nullish_json (get_field p ''mode'') (JStr ''MODE1'')),
            (if falsy (get_field p ''connection'') then Plain (JInt 0)
             else From100 (nullish_json (get_field (get_field p ''connection'') ''packetLossPercent'') (JInt 0)))])"

text \<open>The loop over the records: the rows, their message ids, and the failures.\<close>

fun parse_records :: "sqs_record list \<Rightarrow> cell list list \<times> string list \<times> string list" where
  "parse_records [] = ([], [], [])"
| "parse_records (rec # rs) =
    (case parse_records rs of (rows, ids, failures) \<Rightarrow>
      (case toRow (body rec) of
         Some row \<Rightarrow> (row # rows, messageId rec # ids, failures)
       | None \<Rightarrow> (rows, ids, messageId rec # failures)))"

definition DDL :: string where
  "DDL = ''CREATE TABLE IF NOT EXISTS telemetry_samples (id BIGSERIAL PRIMARY KEY, vehicle_id TEXT NOT NULL, '' @
     ''ts BIGINT NOT NULL, lat DOUBLE PRECISION NOT NULL, lng DOUBLE PRECISION NOT NULL, speed_kmh REAL NOT NULL, '' @
     ''battery_percent REAL NOT NULL, mode TEXT NOT NULL, connection_quality REAL NOT NULL, '' @
     ''created_at TIMESTAMPTZ NOT NULL DEFAULT now()); '' @
     ''CREATE INDEX IF NOT EXISTS idx_telemetry_vehicle_ts ON telemetry_samples (vehicle_id, ts);''"

definition lambda_sql :: "nat \<Rightarrow> string" where
  "lambda_sql n = ''INSERT INTO telemetry_samples (vehicle_id, ts, lat, lng, speed_kmh, battery_percent, mode, connection_quality) VALUES ''
     @ join '','' (map row_tuple [0..<n])"

definition getPool :: "lambda_env \<Rightarrow> lambda_state \<Rightarrow> bool \<times> lambda_state" where
  "getPool L s = (if has_pool s then (True, s) else if pool_available L then (True, s\<lparr>has_pool := True\<rparr>) else (False, s))"

definition query :: "lambda_env \<Rightarrow> string \<Rightarrow> cell list \<Rightarrow> lambda_state \<Rightarrow> bool \<times> lambda_state" where
  "query L sql values s =
    (if executes L sql values then (True, s\<lparr>committed := committed s @ [(sql, values)]\<rparr>) else (False, s))"

text \<open>The \<open>try\<close> block: whether it went through, and the state it leaves.\<close>

definition insert_rows :: "lambda_env \<Rightarrow> cell list list \<Rightarrow> lambda_state \<Rightarrow> bool \<times> lambda_state" where
  "insert_rows L rows s =
    (case getPool L s of
       (False, s1) \<Rightarrow> (False, s1)
     | (True, s1) \<Rightarrow>
         (case (if schemaReady s1 then (True, s1)
                else case query L DDL [] s1 of (ok, s2) \<Rightarrow> (ok, if ok then s2\<lparr>schemaReady := True\<rparr> else s2)) of
            (False, s2) \<Rightarrow> (False, s2)
          | (True, s2) \<Rightarrow> query L (lambda_sql (length rows)) (concat rows) s2))"

definition lambda_handler :: "lambda_env \<Rightarrow> sqs_record list option \<Rightarrow> lambda_state \<Rightarrow> string list \<times> lambda_state" where
  "lambda_handler L records s =
    (case parse_records (case records of None \<Rightarrow> [] | Some rs \<Rightarrow> rs) of (rows, rowIds, failures) \<Rightarrow>
      if rows = [] then (failures, s)
      else (case insert_rows L rows s of
          (True, s') \<Rightarrow> (failures, s')
        | (False, s') \<Rightarrow> (failures @ rowIds, s')))"

section \<open>Every record is inserted or reported\<close>

text \<open>The rows the database has, in the order of their statements.\<close>

definition stored :: "lambda_state \<Rightarrow> cell list" where
  "stored s = concat (map snd (committed s))"

lemma parse_records_eq:
  "parse_records rs =
    (map (the \<circ> toRow \<circ> body) (filter (\<lambda>r. toRow (body r) \<noteq> None) rs),
     map messageId (filter (\<lambda>r. toRow (body r) \<noteq> None) rs),
     map messageId (filter (\<lambda>r. toRow (body r) = None) rs))"
  by (induction rs) auto

lemma insert_rows_effect:
  "case insert_rows L rows s of (ok, s') \<Rightarrow> stored s' = stored s @ (if ok then concat rows else [])"
  by (auto simp: insert_rows_def getPool_def query_def stored_def split: prod.splits bool.splits if_splits)

lemma split_ids:
  assumes "distinct (map messageId rs)"
  defines "good \<equiv> filter (\<lambda>r. toRow (body r) \<noteq> None) rs" and "bad \<equiv> filter (\<lambda>r. toRow (body r) = None) rs"
  shows "filter (\<lambda>r. messageId r \<notin> messageId ` set bad) rs = good"
    "filter (\<lambda>r. messageId r \<in> messageId ` set bad) rs = bad"
    "\<forall>r \<in> set rs. messageId r \<in> messageId ` set bad \<or> messageId r \<in> messageId ` set good"
    "distinct (map messageId bad @ map messageId good)"
proof -
  have inj: "inj_on messageId (set rs)" "distinct rs" using assms(1) by (simp_all add: distinct_map)
  have sep: "messageId r \<in> messageId ` set bad \<longleftrightarrow> toRow (body r) = None" if r: "r \<in> set rs" for r
  proof
    assume "messageId r \<in> messageId ` set bad"
    then obtain x where x: "messageId r = messageId x" "x \<in> set bad" by (rule imageE)
    then have y: "x \<in> set rs" "toRow (body x) = None" by (simp_all add: bad_def)
    from inj_onD [OF inj(1) x(1) r y(1)] y(2) show "toRow (body r) = None" by simp
  qed (use r in \<open>simp add: bad_def\<close>)
  show "filter (\<lambda>r. messageId r \<notin> messageId ` set bad) rs = good"
    "filter (\<lambda>r. messageId r \<in> messageId ` set bad) rs = bad"
    unfolding good_def bad_def by (rule filter_cong [OF refl]; use sep in \<open>simp add: bad_def\<close>)+
  show "\<forall>r \<in> set rs. messageId r \<in> messageId ` set bad \<or> messageId r \<in> messageId ` set good"
  proof
    fix r assume "r \<in> set rs"
    then have "r \<in> set bad \<or> r \<in> set good" by (auto simp: good_def bad_def)
    then show "messageId r \<in> messageId ` set bad \<or> messageId r \<in> messageId ` set good" by blast
  qed
  show "distinct (map messageId bad @ map messageId good)"
  proof -
    have "distinct (map messageId bad)" "distinct (map messageId good)"
      using assms(1) unfolding good_def bad_def by (rule distinct_map_filter)+
    moreover have "messageId ` set bad \<inter> messageId ` set good = {}"
    proof (rule equals0I, elim IntE, erule imageE [of _ _ "set good"])
      fix i r assume "i \<in> messageId ` set bad" "i = messageId r" "r \<in> set good"
      then show False using sep [of r] by (simp add: good_def)
    qed
    ultimately show ?thesis by (simp only: distinct_append set_map)
  qed
qed

text \<open>What an invocation answers: the malformed records, and all the others too when the insert failed.\<close>

lemma handler_cases:
  defines "good rs \<equiv> filter (\<lambda>r. toRow (body r) \<noteq> None) rs" and "bad rs \<equiv> filter (\<lambda>r. toRow (body r) = None) rs"
  obtains "fst (lambda_handler L (Some rs) s) = map messageId (bad rs)"
      "stored (snd (lambda_handler L (Some rs) s)) = stored s @ concat (map (the \<circ> toRow \<circ> body) (good rs))"
    | "fst (lambda_handler L (Some rs) s) = map messageId (bad rs) @ map messageId (good rs)"
      "stored (snd (lambda_handler L (Some rs) s)) = stored s"
proof (cases "fst (insert_rows L (map (the \<circ> toRow \<circ> body) (good rs)) s) \<or> good rs = []")
  case True
  with insert_rows_effect [where L = L and rows = "map (the \<circ> toRow \<circ> body) (good rs)" and s = s] that(1) show thesis
    by (auto simp: lambda_handler_def parse_records_eq good_def bad_def split: prod.splits bool.splits)
next
  case False
  with insert_rows_effect [where L = L and rows = "map (the \<circ> toRow \<circ> body) (good rs)" and s = s] that(2) show thesis
    by (auto simp: lambda_handler_def parse_records_eq good_def bad_def split: prod.splits bool.splits)
qed

text \<open>C26: Every record of a batch is either inserted or reported: the rows of the records that are not
  reported back to the queue, in their order, are exactly what the invocation adds to the
  database, each row once with its eight values, and a record whose text has not the minimal
  shape is reported.\<close>

theorem every_record_inserted_or_reported:
  assumes "distinct (map messageId rs)"
  shows "case lambda_handler L (Some rs) s of (failures, s') \<Rightarrow>
    stored s' = stored s @ concat (map (the \<circ> toRow \<circ> body) (filter (\<lambda>r. messageId r \<notin> set failures) rs)) \<and>
    set failures \<subseteq> messageId ` set rs \<and> distinct failures \<and>
    {messageId r | r. r \<in> set rs \<and> toRow (body r) = None} \<subseteq> set failures"
proof -
  note i = split_ids [OF assms]
  show ?thesis
  proof (cases rule: handler_cases [of L rs s])
    case 1
    then show ?thesis using i by (auto simp: split_def)
  next
    case 2
    have "filter (\<lambda>r. messageId r \<notin> set (fst (lambda_handler L (Some rs) s))) rs = []"
      using i(3) unfolding 2(1) by (simp only: filter_empty_conv set_append set_map) blast
    with 2 i(4) show ?thesis by (auto simp: split_def)
  qed
qed

text \<open>The queue delivers a batch again and again, each time the records that were reported, to invocations that meet
  one database after the other: what is still waiting, and the state.\<close>

primrec deliveries :: "lambda_env list \<Rightarrow> sqs_record list \<Rightarrow> lambda_state \<Rightarrow> sqs_record list \<times> lambda_state" where
  "deliveries [] rs s = (rs, s)"
| "deliveries (L # Ls) rs s = (case lambda_handler L (Some rs) s of (failures, s') \<Rightarrow>
    deliveries Ls (filter (\<lambda>r. messageId r \<in> set failures) rs) s')"

definition well_shaped :: "sqs_record list \<Rightarrow> sqs_record list" where
  "well_shaped rs = filter (\<lambda>r. toRow (body r) \<noteq> None) rs"

definition misshapen :: "sqs_record list \<Rightarrow> sqs_record list" where
  "misshapen rs = filter (\<lambda>r. toRow (body r) = None) rs"

definition rows_of :: "sqs_record list \<Rightarrow> cell list list" where
  "rows_of rs = map (the \<circ> toRow \<circ> body) (well_shaped rs)"

text \<open>The database that takes a batch: it can be reached and executes the two statements the batch needs, with the types
  of its columns.\<close>

definition accepts :: "lambda_env \<Rightarrow> sqs_record list \<Rightarrow> bool" where
  "accepts L rs = (pool_available L \<and> executes L DDL [] \<and> executes L (lambda_sql (length (rows_of rs))) (concat (rows_of rs)))"

lemma shapes [simp]:
  "well_shaped (misshapen rs) = []" "misshapen (misshapen rs) = misshapen rs" "rows_of (misshapen rs) = []"
  by (auto simp: well_shaped_def misshapen_def rows_of_def filter_empty_conv)

lemma accepted_batch:
  assumes "accepts L rs"
  shows "fst (lambda_handler L (Some rs) s) = map messageId (misshapen rs) \<and>
    stored (snd (lambda_handler L (Some rs) s)) = stored s @ concat (rows_of rs)"
proof -
  have "fst (insert_rows L (rows_of rs) s)"
    using assms by (auto simp: accepts_def insert_rows_def getPool_def query_def split: prod.split)
  with insert_rows_effect [where L = L and rows = "rows_of rs" and s = s] show ?thesis
    by (auto simp: lambda_handler_def parse_records_eq rows_of_def well_shaped_def misshapen_def split: prod.splits bool.splits)
qed

text \<open>One delivery either leaves the batch as it was or inserts it and leaves the malformed records.\<close>

lemma one_delivery:
  assumes "distinct (map messageId rs)" "lambda_handler L (Some rs) s = (failures, s')"
    and "waiting = filter (\<lambda>r. messageId r \<in> set failures) rs"
  shows "waiting = rs \<and> stored s' = stored s \<or>
    waiting = misshapen rs \<and> stored s' = stored s @ concat (rows_of rs)"
proof -
  note i = split_ids [OF assms(1), folded well_shaped_def misshapen_def]
  show ?thesis
  proof (cases rule: handler_cases [of L rs s, folded well_shaped_def misshapen_def])
    case 1
    then have "failures = map messageId (misshapen rs)" "stored s' = stored s @ concat (rows_of rs)"
      using assms(2) by (simp_all add: rows_of_def)
    then show ?thesis using i(2) assms(3) by simp
  next
    case 2
    then have f: "failures = map messageId (misshapen rs) @ map messageId (well_shaped rs)" "stored s' = stored s"
      using assms(2) by simp_all
    have "waiting = rs"
      using i(3) unfolding assms(3) f(1) by (simp only: filter_id_conv set_append set_map) blast
    with f(2) show ?thesis by simp
  qed
qed

lemma deliveries_cases:
  assumes "distinct (map messageId rs)" "deliveries Ls rs s = (waiting, s')"
  shows "waiting = rs \<and> stored s' = stored s \<or>
    waiting = misshapen rs \<and> stored s' = stored s @ concat (rows_of rs)"
  using assms
proof (induction Ls arbitrary: rs s)
  case (Cons L Ls)
  obtain failures s1 where h: "lambda_handler L (Some rs) s = (failures, s1)" by (cases "lambda_handler L (Some rs) s")
  let ?w = "filter (\<lambda>r. messageId r \<in> set failures) rs"
  have d: "distinct (map messageId ?w)" using Cons.prems(1) by (rule distinct_map_filter)
  have rest: "deliveries Ls ?w s1 = (waiting, s')" using Cons.prems(2) by (simp add: h)
  from one_delivery [OF Cons.prems(1) h refl] Cons.IH [OF d rest] show ?case by auto
qed simp

text \<open>C27: What failed for a passing reason arrives with a redelivery. Deliver a batch any number of times, each time the
  records that were reported before, to invocations that fail in any way or succeed, where a
  statement that failed has committed nothing; and then once more while the pool can be set up and
  the database executes the two statements that the records still waiting need, with their values.
  Then every record of the batch with the minimal shape is in the database, once, in order, and only
  the malformed ones are reported again. (A value of a wrong type passes the shape check and keeps
  its whole batch out: \<open>wrong_type_fails_whole_batch\<close>.)\<close>

theorem redelivery_completes:
  assumes "distinct (map messageId rs)" "deliveries Ls rs s = (waiting, s1)" "accepts L waiting"
    and "lambda_handler L (Some waiting) s1 = (again, s2)"
  shows "again = map messageId (misshapen rs) \<and> stored s2 = stored s @ concat (rows_of rs)"
  using deliveries_cases [OF assms(1,2)] accepted_batch [OF assms(3), of s1] assms(4) by auto

section \<open>Examples\<close>

definition sample :: "json \<Rightarrow> json" where
  "sample speed = JObj [(''vehicleId'', JStr ''v1''), (''timestamp'', JInt 7),
     (''location'', JObj [(''lat'', JInt 1), (''lng'', JInt 2)]), (''speedKmh'', speed)]"

definition good_record :: sqs_record where
  "good_record = \<lparr>messageId = ''m1'', body = stringify (sample (JInt 3))\<rparr>"

definition poison_record :: sqs_record where
  "poison_record = \<lparr>messageId = ''m2'', body = stringify (sample (JStr ''fast''))\<rparr>"

definition broken_record :: sqs_record where
  "broken_record = \<lparr>messageId = ''m3'', body = ''{''\<rparr>"

text \<open>A database that checks the type of the speed column.\<close>

definition typed_db :: lambda_env where
  "typed_db = \<lparr>pool_available = True, executes = (\<lambda>sql values.
     list_all (\<lambda>i. case values ! (8 * i + 4) of Plain v \<Rightarrow> is_num v | From100 _ \<Rightarrow> True) [0..<length values div 8])\<rparr>"

definition any_db :: "bool \<Rightarrow> lambda_env" where
  "any_db up = \<lparr>pool_available = up, executes = (\<lambda>_ _. up)\<rparr>"

definition cold :: lambda_state where
  "cold = \<lparr>has_pool = False, schemaReady = False, committed = []\<rparr>"

definition sample_row :: "json \<Rightarrow> cell list" where
  "sample_row speed = [Plain (JStr ''v1''), Plain (JInt 7), Plain (JInt 1), Plain (JInt 2), Plain speed,
     Plain (JInt 0), Plain (JStr ''MODE1''), Plain (JInt 0)]"

lemma toRow_sample: "speed \<in> {JInt n, JStr t} \<Longrightarrow> toRow (stringify (sample speed)) = Some (sample_row speed)"
  using json_parse_stringify [of "sample speed"]
  by (auto simp: toRow_def sample_def sample_row_def nullish_json_def get_field_def)

lemma example_rows [simp]:
  "toRow (body good_record) = Some (sample_row (JInt 3))" "toRow (body poison_record) = Some (sample_row (JStr ''fast''))"
  "messageId good_record = ''m1''" "messageId poison_record = ''m2''" "messageId broken_record = ''m3''"
  using toRow_sample [of "JInt 3" 3 "[]"] toRow_sample [of "JStr ''fast''" 0 "''fast''"]
  by (simp_all add: good_record_def poison_record_def broken_record_def)

lemma broken_row [simp]: "toRow (body broken_record) = None"
proof -
  have "json_parse ''{'' = None" by code_simp
  then show ?thesis by (simp add: toRow_def broken_record_def)
qed

theorem every_record_inserted_or_reported_witness:
  "case lambda_handler (any_db True) (Some [good_record, broken_record]) cold of (failures, s') \<Rightarrow>
     stored s' = sample_row (JInt 3) \<and> failures = [''m3'']"
proof -
  have d: "distinct (map messageId [good_record, broken_record])" by simp
  have "fst (lambda_handler (any_db True) (Some [good_record, broken_record]) cold) = [''m3'']"
    by (simp add: lambda_handler_def insert_rows_def getPool_def query_def any_db_def cold_def)
  with every_record_inserted_or_reported [OF d, where L = "any_db True" and s = cold] show ?thesis
    by (auto simp: split_def) (simp add: stored_def cold_def)
qed

lemma typed_db_executes:
  "pool_available typed_db" "executes typed_db sql []" "executes typed_db sql (sample_row (JInt 3))"
  "\<not> executes typed_db sql (sample_row (JInt 3) @ sample_row (JStr ''fast''))"
proof -
  have u: "[0..<2] = [0, 1 :: nat]" by (simp add: upt_rec)
  show "pool_available typed_db" "executes typed_db sql []" "executes typed_db sql (sample_row (JInt 3))"
    by (simp_all add: typed_db_def sample_row_def)
  have "length (sample_row (JInt 3) @ sample_row (JStr ''fast'')) div 8 = 2" by (simp add: sample_row_def)
  moreover have "(sample_row (JInt 3) @ sample_row (JStr ''fast'')) ! 12 = Plain (JStr ''fast'')"
    by (simp add: sample_row_def nth_append)
  ultimately show "\<not> executes typed_db sql (sample_row (JInt 3) @ sample_row (JStr ''fast''))"
    by (simp add: typed_db_def u)
qed

theorem redelivery_completes_witness:
  "case deliveries [any_db False, any_db False] [good_record, broken_record] cold of (waiting, s1) \<Rightarrow>
   case lambda_handler typed_db (Some waiting) s1 of (again, s2) \<Rightarrow> again = [''m3''] \<and> stored s2 = sample_row (JInt 3)"
proof -
  let ?rs = "[good_record, broken_record]"
  have d: "distinct (map messageId ?rs)" by simp
  have w: "deliveries [any_db False, any_db False] ?rs cold = (?rs, cold)"
    by (simp add: lambda_handler_def insert_rows_def getPool_def any_db_def cold_def)
  have a: "accepts typed_db ?rs"
    using typed_db_executes by (simp add: accepts_def rows_of_def well_shaped_def)
  obtain again s2 where h: "lambda_handler typed_db (Some ?rs) cold = (again, s2)" by (cases "lambda_handler typed_db (Some ?rs) cold")
  have "stored cold = []" by (simp add: stored_def cold_def)
  with redelivery_completes [OF d w a h] show ?thesis
    by (simp only: w h prod.case) (simp add: misshapen_def rows_of_def well_shaped_def)
qed

text \<open>The shape check does not keep bad values out of the statement: a record whose speed is a text
  passes it, the database then refuses the statement, and the good record of the same batch,
  which alone would be stored, is not stored and is reported as failed together with the bad one,
  in this delivery and in every later one of the same batch.\<close>

theorem wrong_type_fails_whole_batch:
  "stored (snd (lambda_handler typed_db (Some [good_record]) cold)) = sample_row (JInt 3) \<and>
   (let (failures, s') = lambda_handler typed_db (Some [good_record, poison_record]) cold in
     failures = [''m1'', ''m2''] \<and> stored s' = [] \<and>
     lambda_handler typed_db (Some (filter (\<lambda>r. messageId r \<in> set failures) [good_record, poison_record])) s' = (failures, s'))"
  by (simp add: lambda_handler_def insert_rows_def getPool_def query_def cold_def stored_def typed_db_executes Let_def)

end
