(* ===== verification/Simulator.thy ===== *)
theory Simulator
  imports Schema Complex_Main
begin

text \<open>
  The vehicle of the demonstration (\<open>apps/console/src/demo/simulator.ts\<close>): its motion along a closed
  route, the maneuver proposals it makes, the decisions on them, and the commands it obeys. Every
  timer callback and every call is a function from state to state; what it emits to the console is
  kept in order. Positions and the battery are exact rationals where the code computes in binary64: the
  fraction \<open>along\<close> of a leg then stays below 1, where the code can round a tiny negative fraction plus 1 to
  1.0 and show the end of the leg until the next tick. \<open>uuid\<close> is a parameter, and the clock moves by events
  of its own.
\<close>

section \<open>State\<close>

definition ROUTE :: "(rat \<times> rat) list" where
  "ROUTE = [(85510 / 10000, 474102 / 10000), (85527 / 10000, 474104 / 10000), (85535 / 10000, 474113 / 10000),
     (85528 / 10000, 474122 / 10000), (85511 / 10000, 474124 / 10000), (85500 / 10000, 474117 / 10000),
     (85501 / 10000, 474107 / 10000)]"

definition TICK_MS :: int where "TICK_MS = 250"
definition STEP_AT_FULL_SPEED :: rat where "STEP_AT_FULL_SPEED = 12 / 1000"
definition CRUISE_KMH :: rat where "CRUISE_KMH = 12"
definition PROPOSAL_WINDOW_MS :: int where "PROPOSAL_WINDOW_MS = 30000"
definition FIRST_PROPOSAL_MS :: int where "FIRST_PROPOSAL_MS = 12000"
definition PROPOSAL_GAP_MS :: int where "PROPOSAL_GAP_MS = 20000"

record Scenario =
  sc_reasonCode :: string
  sc_summary :: string
  sc_sensor :: string

definition SCENARIOS :: "Scenario list" where
  "SCENARIOS =
    [\<lparr>sc_reasonCode = ''OBSTACLE'', sc_summary = ''Stationary obstacle detected on planned path'', sc_sensor = ''CAM_FRONT''\<rparr>,
     \<lparr>sc_reasonCode = ''PEDESTRIAN_CONFLICT'', sc_summary = ''Pedestrian group near collection point'', sc_sensor = ''LIDAR_FRONT''\<rparr>,
     \<lparr>sc_reasonCode = ''ROAD_BLOCKED'', sc_summary = ''Parked vehicle blocking the route'', sc_sensor = ''CAM_FRONT''\<rparr>]"

text \<open>A proposal; its scene summary is the text of the scenario with the position.\<close>

record DemoProposal =
  dp_proposalId :: string
  dp_vehicleId :: string
  dp_reasonCode :: string
  dp_scene :: "string \<times> rat \<times> rat"
  dp_sensorRefs :: "string list"
  dp_options :: "(string \<times> string \<times> string) list"
  dp_validityWindowMs :: int
  dp_defaultOnTimeout :: string
  dp_timestamp :: int

record StatusUpdate =
  su_proposalId :: string
  su_vehicleId :: string
  su_status :: string
  su_selectedOptionId :: "string option"
  su_timestamp :: int

record PendingProposal =
  pp_proposal :: DemoProposal
  deadline :: int
  stopOptionId :: string

datatype demo_out = OnProposal DemoProposal | OnStatus StatusUpdate

record demo =
  demo_clock :: int
  demo_ids :: nat
  demo_vehicle :: string
  enabled :: bool
  leg :: nat
  along :: rat
  driving :: bool
  reversing :: bool
  latched :: bool
  battery :: rat
  pending :: "PendingProposal option"
  nextProposalAt :: int
  scenarioIdx :: nat
  emitted :: "demo_out list"

definition mounted :: "string \<Rightarrow> bool \<Rightarrow> int \<Rightarrow> demo" where
  "mounted v on t = \<lparr>demo_clock = t, demo_ids = 0, demo_vehicle = v, enabled = on, leg = 0, along = 0, driving = False,
     reversing = False, latched = False, battery = 874 / 10, pending = None,
     nextProposalAt = (if on then t + FIRST_PROPOSAL_MS else 0), scenarioIdx = 0, emitted = []\<rparr>"

section \<open>Telemetry\<close>

definition lerp :: "rat \<Rightarrow> rat \<Rightarrow> rat \<Rightarrow> rat" where
  "lerp a b t = a + (b - a) * t"

definition position :: "demo \<Rightarrow> rat \<times> rat" where
  "position s =
    (let from = ROUTE ! leg s; to = ROUTE ! (Suc (leg s) mod length ROUTE)
     in (lerp (fst from) (fst to) (along s), lerp (snd from) (snd to) (along s)))"

record DemoTelemetry =
  t_vehicleId :: string
  t_timestamp :: int
  t_lat :: rat
  t_lng :: rat
  t_speedKmh :: rat
  t_vehicleState :: string
  t_mode :: string
  t_battery :: "rat \<times> rat \<times> rat \<times> rat"
  t_motor :: "int \<times> int"
  t_cpuPercent :: int
  t_currentZone :: string

definition build :: "demo \<Rightarrow> DemoTelemetry" where
  "build s =
    (let moving = driving s \<and> \<not> latched s; pos = position s
     in \<lparr>t_vehicleId = demo_vehicle s, t_timestamp = demo_clock s, t_lat = snd pos, t_lng = fst pos,
          t_speedKmh = (if moving then CRUISE_KMH else 0),
          t_vehicleState = (if latched s then ''SAFE_STOPPED'' else if moving then ''REMOTE_DRIVE'' else ''IDLE''),
          t_mode = (if moving then ''MODE2'' else ''MODE1''),
          t_battery = (battery s, 512 / 10 - (100 - battery s) * (2 / 100), (if moving then 185 / 10 else 12 / 10),
            24 + (if moving then 3 else 0)),
          t_motor = ((if moving then 1450 else 0), (if moving then 41 else 27)),
          t_cpuPercent = (if moving then 46 else 22), t_currentZone = ''depot''\<rparr>)"

section \<open>Motion\<close>

text \<open>The two \<open>while\<close> loops of the motion tick. They are total on rationals; in the code a fraction beyond \<open>2^53\<close>
  would not move, but a tick starts from a fraction in [0, 1] and moves it by at most \<open>STEP_AT_FULL_SPEED\<close>, so that
  each loop turns at most once (\<open>wrap_down_once\<close>, \<open>wrap_up_once\<close>).\<close>

function wrap_down :: "nat \<Rightarrow> rat \<Rightarrow> nat \<times> rat" where
  "wrap_down l a = (if 1 \<le> a then wrap_down ((l + 1) mod length ROUTE) (a - 1) else (l, a))"
  by pat_completeness auto
termination
proof (relation "measure (\<lambda>(l, a). nat \<lfloor>a\<rfloor>)")
  fix l :: nat and a :: rat
  assume "1 \<le> a"
  then have "1 \<le> \<lfloor>a\<rfloor>" by (simp add: le_floor_iff)
  then show "(((l + 1) mod length ROUTE, a - 1), (l, a)) \<in> measure (\<lambda>(l, a). nat \<lfloor>a\<rfloor>)"
    by (simp add: floor_diff_one)
qed simp

function wrap_up :: "nat \<Rightarrow> rat \<Rightarrow> nat \<times> rat" where
  "wrap_up l a = (if a < 0 then wrap_up ((l + length ROUTE - 1) mod length ROUTE) (a + 1) else (l, a))"
  by pat_completeness auto
termination
proof (relation "measure (\<lambda>(l, a). nat (- \<lfloor>a\<rfloor>))")
  fix l :: nat and a :: rat
  assume "a < 0"
  then have "\<lfloor>a\<rfloor> < 0" by (simp add: floor_less_iff)
  then show "(((l + length ROUTE - 1) mod length ROUTE, a + 1), (l, a)) \<in> measure (\<lambda>(l, a). nat (- \<lfloor>a\<rfloor>))"
    by simp
qed simp

declare wrap_down.simps [simp del] wrap_up.simps [simp del]

lemma wrap_down_once: "a < 2 \<Longrightarrow> wrap_down l a = (if 1 \<le> a then ((l + 1) mod length ROUTE, a - 1) else (l, a))"
  by (simp add: wrap_down.simps [of l a] wrap_down.simps [of _ "a - 1"])

lemma wrap_up_once:
  "- 1 \<le> a \<Longrightarrow> wrap_up l a = (if a < 0 then ((l + length ROUTE - 1) mod length ROUTE, a + 1) else (l, a))"
  by (simp add: wrap_up.simps [of l a] wrap_up.simps [of _ "a + 1"])

definition motion_tick :: "demo \<Rightarrow> demo" where
  "motion_tick s =
    (if enabled s \<and> driving s \<and> \<not> latched s then
       (let step = STEP_AT_FULL_SPEED * (if reversing s then - 1 else 1);
            (l1, a1) = wrap_down (leg s) (along s + step);
            (l2, a2) = wrap_up l1 a1
        in s\<lparr>leg := l2, along := a2, battery := max 0 (battery s - 4 / 1000)\<rparr>)
     else s)"

section \<open>Proposals\<close>

definition emitStatus :: "DemoProposal \<Rightarrow> string \<Rightarrow> string option \<Rightarrow> demo \<Rightarrow> demo" where
  "emitStatus p status option s =
    s\<lparr>emitted := emitted s @ [OnStatus \<lparr>su_proposalId = dp_proposalId p, su_vehicleId = dp_vehicleId p, su_status = status,
       su_selectedOptionId = (case option of Some [] \<Rightarrow> None | x \<Rightarrow> x), su_timestamp = demo_clock s\<rparr>]\<rparr>"

definition applyOutcome :: "string \<Rightarrow> string option \<Rightarrow> demo \<Rightarrow> demo" where
  "applyOutcome stopOption resolved s =
    (if resolved = None \<or> resolved = Some stopOption then s\<lparr>driving := False\<rparr> else s)"

definition close_open :: "demo \<Rightarrow> demo" where
  "close_open s = s\<lparr>pending := None, nextProposalAt := demo_clock s + PROPOSAL_GAP_MS\<rparr>"

definition next_proposal :: "(nat \<Rightarrow> string) \<Rightarrow> demo \<Rightarrow> DemoProposal" where
  "next_proposal ids s =
    (let sc = SCENARIOS ! (scenarioIdx s mod length SCENARIOS); pid = ids (demo_ids s);
         rerouteId = ''opt-'' @ take 8 pid @ ''-a''; waitId = ''opt-'' @ take 8 pid @ ''-b''
     in \<lparr>dp_proposalId = pid, dp_vehicleId = demo_vehicle s, dp_reasonCode = sc_reasonCode sc,
          dp_scene = (sc_summary sc, snd (position s), fst (position s)), dp_sensorRefs = [sc_sensor sc],
          dp_options = [(rerouteId, ''Reroute around obstacle'', ''Continue mission with +2min delay''),
            (waitId, ''Wait and retry after 60s'', ''Pause at current position, retry approach'')],
          dp_validityWindowMs = PROPOSAL_WINDOW_MS, dp_defaultOnTimeout = waitId, dp_timestamp = demo_clock s\<rparr>)"

definition proposal_tick :: "(nat \<Rightarrow> string) \<Rightarrow> demo \<Rightarrow> demo" where
  "proposal_tick ids s =
    (if \<not> enabled s \<or> latched s then s
     else (case pending s of
         Some p \<Rightarrow>
           if demo_clock s < deadline p then s
           else emitStatus (pp_proposal p) ''TIMED_OUT'' (Some (dp_defaultOnTimeout (pp_proposal p)))
             (applyOutcome (stopOptionId p) (Some (dp_defaultOnTimeout (pp_proposal p))) (close_open s))
       | None \<Rightarrow>
           if demo_clock s < nextProposalAt s then s
           else (let p = next_proposal ids s
             in emitStatus p ''PENDING'' None
               (s\<lparr>scenarioIdx := Suc (scenarioIdx s), demo_ids := Suc (demo_ids s),
                  pending := Some \<lparr>pp_proposal = p, deadline = demo_clock s + PROPOSAL_WINDOW_MS,
                    stopOptionId = dp_defaultOnTimeout p\<rparr>,
                  emitted := emitted s @ [OnProposal p]\<rparr>))))"

definition offered :: "PendingProposal \<Rightarrow> string list" where
  "offered p = map fst (dp_options (pp_proposal p))"

text \<open>The option a decision resolves to; \<open>Inl\<close> when the decision is refused.\<close>

definition resolve_option :: "PendingProposal \<Rightarrow> string \<Rightarrow> string option \<Rightarrow> unit + string option" where
  "resolve_option p decision optionId =
    (if decision = ''SELECT_ALTERNATIVE'' then
       (case optionId of
          Some i \<Rightarrow> if i \<noteq> [] \<and> List.member (offered p) i then Inr (Some i) else Inl ()
        | None \<Rightarrow> Inl ())
     else if decision = ''CONFIRM'' then
       (case optionId of
          Some i \<Rightarrow> if i \<noteq> [] \<and> \<not> List.member (offered p) i then Inl () else Inr (Some i)
        | None \<Rightarrow> Inr (Some (hd (offered p))))
     else Inr None)"

definition decideProposal :: "string \<Rightarrow> string option \<Rightarrow> demo \<Rightarrow> demo" where
  "decideProposal decision optionId s =
    (case pending s of
       None \<Rightarrow> s
     | Some p \<Rightarrow>
         if deadline p \<le> demo_clock s then s
         else (case resolve_option p decision optionId of
             Inl _ \<Rightarrow> s
           | Inr resolved \<Rightarrow>
               emitStatus (pp_proposal p) ''DECIDED'' resolved (applyOutcome (stopOptionId p) resolved (close_open s))))"

definition cancelOpenProposal :: "demo \<Rightarrow> demo" where
  "cancelOpenProposal s =
    (case pending s of
       None \<Rightarrow> s
     | Some p \<Rightarrow> emitStatus (pp_proposal p) ''CANCELLED'' None (close_open s))"

section \<open>Commands\<close>

definition num_or_0 :: "json \<Rightarrow> dec" where
  "num_or_0 v = (case v of JNum d \<Rightarrow> d | _ \<Rightarrow> dec_of_int 0)"

definition safe_stop :: "demo \<Rightarrow> demo" where
  "safe_stop s = cancelOpenProposal (s\<lparr>driving := False, latched := True\<rparr>)"

definition command_payload :: "json \<Rightarrow> json" where
  "command_payload body =
    (let p = get_field body ''payload'' in if p = JUndef \<or> p = JNull then JObj [] else p)"

definition demo_command :: "string \<Rightarrow> json \<Rightarrow> demo \<Rightarrow> demo" where
  "demo_command path body s =
    (if path = ''estop'' then safe_stop s
     else if path = ''clear-safe-stop'' then s\<lparr>latched := False\<rparr>
     else if path \<noteq> ''command'' then s
     else if latched s then s
     else (let p = command_payload body; action = get_field p ''action'' in
       if action = JStr ''SAFE_STOP'' then safe_stop s
       else if action = JStr ''DRIVE'' then
         s\<lparr>driving := dec_less (dec_of_int 0) (num_or_0 (get_field p ''throttle'')) \<and>
            dec_le (num_or_0 (get_field p ''brake'')) (dec_of_int 0)\<rparr>
       else if action = JStr ''SELECT_DIRECTION'' then
         s\<lparr>reversing := (get_field p ''direction'' = JStr ''REVERSE''),
           driving := (if get_field p ''direction'' = JStr ''NEUTRAL'' then False else driving s)\<rparr>
       else s))"

section \<open>Runs\<close>

datatype demo_event =
    MotionTick
  | ProposalTick
  | Decide string "string option"
  | Command string json
  | Wait nat

fun demo_step :: "(nat \<Rightarrow> string) \<Rightarrow> demo_event \<Rightarrow> demo \<Rightarrow> demo" where
  "demo_step ids MotionTick s = motion_tick s"
| "demo_step ids ProposalTick s = proposal_tick ids s"
| "demo_step ids (Decide d i) s = decideProposal d i s"
| "demo_step ids (Command path body) s = demo_command path body s"
| "demo_step ids (Wait d) s = s\<lparr>demo_clock := demo_clock s + int d\<rparr>"

definition demo_run :: "(nat \<Rightarrow> string) \<Rightarrow> demo_event list \<Rightarrow> demo \<Rightarrow> demo" where
  "demo_run ids evs s = fold (demo_step ids) evs s"

end
