(* ===== verification/Simulator_Safety.thy ===== *)
theory Simulator_Safety
  imports Simulator
begin

text \<open>
  What the demonstration vehicle promises: it stays in its yard, a latched vehicle stands until the
  latch is cleared, a supervision decision never drives it, and every proposal is resolved once.
\<close>

section \<open>The invariant\<close>

text \<open>The proposals announced and resolved so far, and the one that is open.\<close>

fun protocol :: "string option \<Rightarrow> demo_out list \<Rightarrow> string option option" where
  "protocol i [] = Some i"
| "protocol None (OnProposal p # OnStatus u # es) =
    (if su_status u = ''PENDING'' \<and> su_proposalId u = dp_proposalId p then protocol (Some (dp_proposalId p)) es else None)"
| "protocol (Some i) (OnStatus u # es) =
    (if List.member [''DECIDED'', ''TIMED_OUT'', ''CANCELLED''] (su_status u) \<and> su_proposalId u = i then protocol None es else None)"
| "protocol _ _ = None"

lemma protocol_append:
  "protocol x xs = Some y \<Longrightarrow> protocol x (xs @ ys) = protocol y ys"
  by (induction x xs rule: protocol.induct) (auto split: if_splits)

definition open_id :: "demo \<Rightarrow> string option" where
  "open_id s = map_option (dp_proposalId \<circ> pp_proposal) (pending s)"

definition proposal_ok :: "PendingProposal \<Rightarrow> bool" where
  "proposal_ok p = (stopOptionId p = dp_defaultOnTimeout (pp_proposal p) \<and>
     List.member (offered p) (stopOptionId p) \<and> length (offered p) = 2 \<and> stopOptionId p \<noteq> [])"

definition demo_ok :: "demo \<Rightarrow> bool" where
  "demo_ok s = (leg s < length ROUTE \<and> 0 \<le> along s \<and> along s < 1 \<and> 0 \<le> battery s \<and> battery s \<le> 874 / 10 \<and>
     (latched s \<longrightarrow> \<not> driving s \<and> pending s = None) \<and>
     (\<forall>p. pending s = Some p \<longrightarrow> proposal_ok p) \<and>
     protocol None (emitted s) = Some (open_id s))"

lemma leg_mod [simp]: "k mod length ROUTE < length ROUTE"
  by (rule mod_less_divisor) (simp add: ROUTE_def)

lemma wrap_down_range: "l < length ROUTE \<Longrightarrow> wrap_down l a = (l', a') \<Longrightarrow> l' < length ROUTE \<and> a' < 1 \<and> (0 \<le> a \<longrightarrow> 0 \<le> a')"
proof (induction l a arbitrary: l' a' rule: wrap_down.induct)
  case (1 l a)
  show ?case
  proof (cases "1 \<le> a")
    case True
    then have "wrap_down ((l + 1) mod length ROUTE) (a - 1) = (l', a')"
      using 1(3) wrap_down.simps [of l a] by argo
    from 1(1) [OF True leg_mod this] True show ?thesis by simp
  next
    case False
    then have "(l', a') = (l, a)" using 1(3) wrap_down.simps [of l a] by argo
    with False 1(2) show ?thesis by simp
  qed
qed

lemma wrap_up_range: "l < length ROUTE \<Longrightarrow> a < 1 \<Longrightarrow> wrap_up l a = (l', a') \<Longrightarrow> l' < length ROUTE \<and> 0 \<le> a' \<and> a' < 1"
proof (induction l a arbitrary: l' a' rule: wrap_up.induct)
  case (1 l a)
  show ?case
  proof (cases "a < 0")
    case True
    then have "wrap_up ((l + length ROUTE - 1) mod length ROUTE) (a + 1) = (l', a')"
      using 1(4) wrap_up.simps [of l a] by argo
    moreover have "a + 1 < 1" using True by simp
    ultimately show ?thesis using 1(1) [OF True leg_mod] by blast
  next
    case False
    then have "(l', a') = (l, a)" using 1(4) wrap_up.simps [of l a] by argo
    with False 1(2,3) show ?thesis by simp
  qed
qed

lemma emitStatus_simps [simp]:
  "leg (emitStatus p st i s) = leg s" "along (emitStatus p st i s) = along s" "battery (emitStatus p st i s) = battery s"
  "latched (emitStatus p st i s) = latched s" "driving (emitStatus p st i s) = driving s"
  "pending (emitStatus p st i s) = pending s" "demo_clock (emitStatus p st i s) = demo_clock s"
  "enabled (emitStatus p st i s) = enabled s"
  by (simp_all add: emitStatus_def)

lemma applyOutcome_simps [simp]:
  "leg (applyOutcome i r s) = leg s" "along (applyOutcome i r s) = along s" "battery (applyOutcome i r s) = battery s"
  "latched (applyOutcome i r s) = latched s" "pending (applyOutcome i r s) = pending s"
  "demo_clock (applyOutcome i r s) = demo_clock s" "emitted (applyOutcome i r s) = emitted s"
  "enabled (applyOutcome i r s) = enabled s" "driving (applyOutcome i r s) \<longleftrightarrow> driving s \<and> \<not> (r = None \<or> r = Some i)"
  by (simp_all add: applyOutcome_def)

lemma close_open_simps [simp]:
  "leg (close_open s) = leg s" "along (close_open s) = along s" "battery (close_open s) = battery s"
  "latched (close_open s) = latched s" "driving (close_open s) = driving s" "pending (close_open s) = None"
  "demo_clock (close_open s) = demo_clock s" "emitted (close_open s) = emitted s" "enabled (close_open s) = enabled s"
  by (simp_all add: close_open_def)

lemma open_id_simps [simp]: "pending s = None \<Longrightarrow> open_id s = None"
  "pending s = Some p \<Longrightarrow> open_id s = Some (dp_proposalId (pp_proposal p))"
  by (simp_all add: open_id_def)

text \<open>Resolving the open proposal, as all three ways do it.\<close>

lemma resolve_ok:
  assumes "demo_ok s" "pending s = Some p" "st \<in> {''DECIDED'', ''TIMED_OUT'', ''CANCELLED''}"
    "x = close_open s \<or> x = applyOutcome i r (close_open s)"
  shows "demo_ok (emitStatus (pp_proposal p) st o' x)"
proof -
  have "protocol None (emitted s) = Some (Some (dp_proposalId (pp_proposal p)))"
    using assms(1,2) by (simp add: demo_ok_def)
  from protocol_append [OF this] assms show ?thesis
    by (auto simp: demo_ok_def emitStatus_def open_id_def)
qed

lemma demo_ok_cancel:
  "demo_ok s \<Longrightarrow> demo_ok (cancelOpenProposal s) \<and> pending (cancelOpenProposal s) = None \<and>
    driving (cancelOpenProposal s) = driving s \<and> latched (cancelOpenProposal s) = latched s"
  using resolve_ok [of s _ "''CANCELLED''" "close_open s"]
  by (auto simp: cancelOpenProposal_def split: option.split)

lemma cancel_commutes: "cancelOpenProposal (s\<lparr>driving := False, latched := True\<rparr>) = (cancelOpenProposal s)\<lparr>driving := False, latched := True\<rparr>"
  by (simp add: cancelOpenProposal_def emitStatus_def close_open_def split: option.split)

lemma demo_ok_safe_stop: "demo_ok s \<Longrightarrow> demo_ok (safe_stop s)"
  using demo_ok_cancel [of s] by (simp add: safe_stop_def cancel_commutes) (simp add: demo_ok_def open_id_def)

lemma demo_ok_motion:
  assumes "demo_ok s"
  shows "demo_ok (motion_tick s)"
proof (cases "enabled s \<and> driving s \<and> \<not> latched s")
  case True
  let ?a = "along s + STEP_AT_FULL_SPEED * (if reversing s then - 1 else 1)"
  obtain l1 a1 where w1: "wrap_down (leg s) ?a = (l1, a1)" by fastforce
  obtain l2 a2 where w2: "wrap_up l1 a1 = (l2, a2)" by fastforce
  have "l1 < length ROUTE \<and> a1 < 1" using wrap_down_range [OF _ w1] assms by (simp add: demo_ok_def)
  then have "l2 < length ROUTE \<and> 0 \<le> a2 \<and> a2 < 1" using wrap_up_range [OF _ _ w2] by simp
  with True assms w1 w2 show ?thesis
    by (auto simp: motion_tick_def demo_ok_def Let_def open_id_def max_def)
next
  case False
  then show ?thesis using assms by (simp only: motion_tick_def if_not_P [OF False] if_False)
qed

lemma next_proposal_ok:
  "proposal_ok \<lparr>pp_proposal = next_proposal ids s, deadline = d, stopOptionId = dp_defaultOnTimeout (next_proposal ids s)\<rparr>"
  by (simp add: proposal_ok_def offered_def next_proposal_def Let_def)

lemma demo_ok_proposal_tick:
  assumes "demo_ok s"
  shows "demo_ok (proposal_tick ids s)"
proof (cases "pending s")
  case (Some p)
  then show ?thesis
    using assms resolve_ok [OF assms Some, of "''TIMED_OUT''"] by (auto simp: proposal_tick_def)
next
  case None
  then have "protocol None (emitted s) = Some None" using assms by (simp add: demo_ok_def)
  from protocol_append [OF this] None assms show ?thesis
    using next_proposal_ok [of ids s "demo_clock s + PROPOSAL_WINDOW_MS"]
    by (auto simp: proposal_tick_def demo_ok_def Let_def emitStatus_def open_id_def)
qed

lemma demo_ok_decide: "demo_ok s \<Longrightarrow> demo_ok (decideProposal d i s)"
  unfolding decideProposal_def
  by (auto split: option.split sum.split intro!: resolve_ok)

lemma demo_ok_controls:
  "demo_ok s \<Longrightarrow> demo_ok (s\<lparr>latched := False\<rparr>)"
  "demo_ok s \<Longrightarrow> \<not> latched s \<Longrightarrow> demo_ok (s\<lparr>driving := b\<rparr>)"
  "demo_ok s \<Longrightarrow> \<not> latched s \<Longrightarrow> demo_ok (s\<lparr>reversing := r, driving := b\<rparr>)"
  "demo_ok s \<Longrightarrow> demo_ok (s\<lparr>reversing := r\<rparr>)"
  by (simp_all add: demo_ok_def open_id_def)

lemma demo_ok_command: "demo_ok s \<Longrightarrow> demo_ok (demo_command path body s)"
  unfolding demo_command_def Let_def
  by (simp add: demo_ok_safe_stop demo_ok_controls)

lemma demo_ok_step: "demo_ok s \<Longrightarrow> demo_ok (demo_step ids e s)"
proof (cases e)
  case (Wait d)
  then show "demo_ok s \<Longrightarrow> demo_ok (demo_step ids e s)" by (simp add: demo_ok_def open_id_def)
qed (simp_all add: demo_ok_motion demo_ok_proposal_tick demo_ok_decide demo_ok_command)

lemma demo_ok_run: "demo_ok s \<Longrightarrow> demo_ok (demo_run ids evs s)"
  unfolding demo_run_def by (induction evs arbitrary: s) (simp_all add: demo_ok_step)

lemma demo_ok_mounted: "demo_ok (mounted v on t)"
  by (simp add: demo_ok_def mounted_def ROUTE_def open_id_def)

section \<open>The yard\<close>

definition yard_ok :: "demo \<Rightarrow> bool" where
  "yard_ok s = (8550 / 1000 \<le> fst (position s) \<and> fst (position s) \<le> 85535 / 10000 \<and>
     474102 / 10000 \<le> snd (position s) \<and> snd (position s) \<le> 474124 / 10000)"

lemma lerp_between:
  assumes "0 \<le> t" "t \<le> 1" "lo \<le> a" "a \<le> hi" "lo \<le> b" "b \<le> hi"
  shows "lo \<le> lerp a b t \<and> lerp a b t \<le> hi"
proof -
  have "lerp a b t = (1 - t) * a + t * b" by (simp add: lerp_def algebra_simps)
  moreover have "(1 - t) * lo \<le> (1 - t) * a" "(1 - t) * a \<le> (1 - t) * hi" "t * lo \<le> t * b" "t * b \<le> t * hi"
    using assms by (simp_all add: mult_left_mono)
  moreover have "(1 - t) * lo + t * lo = lo" "(1 - t) * hi + t * hi = hi" by (simp_all add: algebra_simps)
  ultimately show ?thesis by linarith
qed

lemma route_in_yard:
  "i < length ROUTE \<Longrightarrow> 8550 / 1000 \<le> fst (ROUTE ! i) \<and> fst (ROUTE ! i) \<le> 85535 / 10000 \<and>
    474102 / 10000 \<le> snd (ROUTE ! i) \<and> snd (ROUTE ! i) \<le> 474124 / 10000"
proof -
  have "list_all (\<lambda>p. 8550 / 1000 \<le> fst p \<and> fst p \<le> 85535 / 10000 \<and> 474102 / 10000 \<le> snd p \<and> snd p \<le> 474124 / 10000) ROUTE"
    by (simp add: ROUTE_def)
  then show "i < length ROUTE \<Longrightarrow> ?thesis" by (simp add: list_all_length)
qed

lemma demo_ok_yard: "demo_ok s \<Longrightarrow> yard_ok s"
  using route_in_yard [of "leg s"] route_in_yard [of "Suc (leg s) mod length ROUTE"]
    lerp_between [of "along s" "8550 / 1000" "fst (ROUTE ! leg s)" "85535 / 10000" "fst (ROUTE ! (Suc (leg s) mod length ROUTE))"]
    lerp_between [of "along s" "474102 / 10000" "snd (ROUTE ! leg s)" "474124 / 10000" "snd (ROUTE ! (Suc (leg s) mod length ROUTE))"]
  by (simp add: demo_ok_def yard_ok_def position_def Let_def)

text \<open>The demonstration vehicle never leaves its yard or the ranges of the contract: after any run of
  ticks, commands and decisions the position it publishes lies within the corners of the route,
  its progress on a leg is in [0, 1) on one of the seven legs, its battery between 0 and its
  initial charge, and a latched vehicle is published as SAFE_STOPPED, standing, in MODE1.\<close>

theorem demo_vehicle_stays_in_yard:
  "let s = demo_run ids evs (mounted v on t); p = build s in
     leg s < 7 \<and> 0 \<le> along s \<and> along s < 1 \<and> 8550 / 1000 \<le> t_lng p \<and> t_lng p \<le> 85535 / 10000 \<and>
     474102 / 10000 \<le> t_lat p \<and> t_lat p \<le> 474124 / 10000 \<and> 0 \<le> battery s \<and> battery s \<le> 874 / 10 \<and>
     (if latched s then t_speedKmh p = 0 \<and> t_vehicleState p = ''SAFE_STOPPED'' \<and> t_mode p = ''MODE1'' \<and> pending s = None
      else t_vehicleState p \<noteq> ''SAFE_STOPPED'')"
proof -
  have ok: "demo_ok (demo_run ids evs (mounted v on t))" using demo_ok_run [OF demo_ok_mounted] by blast
  have "length ROUTE = 7" by (simp add: ROUTE_def)
  with ok demo_ok_yard [OF ok] show ?thesis
    by (simp add: demo_ok_def yard_ok_def build_def Let_def)
qed

section \<open>The latch\<close>

text \<open>What a latched vehicle keeps.\<close>

lemma latched_step:
  assumes "demo_ok s" "latched s" "\<forall>body. e \<noteq> Command ''clear-safe-stop'' body"
  shows "latched (demo_step ids e s) \<and> position (demo_step ids e s) = position s \<and>
    emitted (demo_step ids e s) = emitted s"
proof -
  have p: "pending s = None" "\<not> driving s" using assms by (simp_all add: demo_ok_def)
  show ?thesis
  proof (cases e)
    case (Command path body)
    then show ?thesis
      using assms p by (auto simp: demo_command_def safe_stop_def cancelOpenProposal_def position_def)
  qed (use assms p in \<open>auto simp: motion_tick_def proposal_tick_def decideProposal_def position_def\<close>)
qed

text \<open>A latched vehicle stands until the latch is cleared: from any reachable state in which it is
  latched, no run without a clear-safe-stop request releases the latch, moves the vehicle, or
  makes a proposal, whatever is commanded or decided meanwhile and however long it takes.\<close>

theorem latch_holds_until_cleared:
  assumes "s = demo_run ids evs (mounted v on t)" "latched s"
    and "\<forall>e \<in> set evs'. \<forall>body. e \<noteq> Command ''clear-safe-stop'' body"
  shows "latched (demo_run ids evs' s) \<and> position (demo_run ids evs' s) = position s \<and>
    emitted (demo_run ids evs' s) = emitted s"
proof -
  have "demo_ok s" unfolding assms(1) by (rule demo_ok_run [OF demo_ok_mounted])
  then show ?thesis
    using assms(2,3)
  proof (induction evs' arbitrary: s)
    case (Cons e es)
    then have "demo_ok (demo_step ids e s)" "latched (demo_step ids e s) \<and> position (demo_step ids e s) = position s \<and>
        emitted (demo_step ids e s) = emitted s"
      using latched_step [of s e ids] by (auto intro: demo_ok_step)
    with Cons.IH [of "demo_step ids e s"] Cons.prems(3) show ?case by (simp add: demo_run_def)
  qed (simp add: demo_run_def)
qed

theorem latch_holds_until_cleared_witness:
  "latched (demo_run (\<lambda>_. ''p'') [Command ''command'' (JObj [(''payload'', JObj [(''action'', JStr ''DRIVE''), (''throttle'', JInt 9)])]),
     MotionTick] (demo_run (\<lambda>_. ''p'') [Command ''estop'' JUndef] (mounted ''v1'' True 0)))"
proof -
  let ?s = "demo_run (\<lambda>_. ''p'') [Command ''estop'' JUndef] (mounted ''v1'' True 0)"
  have l: "latched ?s" by (simp add: demo_run_def demo_command_def safe_stop_def cancelOpenProposal_def mounted_def)
  show ?thesis
    by (rule latch_holds_until_cleared [OF refl l, THEN conjunct1]) simp
qed

section \<open>Supervision never drives\<close>

definition drives :: "demo_event \<Rightarrow> bool" where
  "drives e = (case e of
     Command path body \<Rightarrow> path = ''command'' \<and> get_field (command_payload body) ''action'' = JStr ''DRIVE''
   | _ \<Rightarrow> False)"

lemma standing_step:
  assumes "\<not> driving s" "\<not> drives e"
  shows "\<not> driving (demo_step ids e s) \<and> position (demo_step ids e s) = position s"
proof (cases e)
  case (Command path body)
  have "\<not> driving (safe_stop s) \<and> position (safe_stop s) = position s"
    by (simp add: safe_stop_def cancelOpenProposal_def position_def split: option.split)
  with Command assms show ?thesis
    by (auto simp: drives_def demo_command_def Let_def position_def)
qed (use assms in \<open>auto simp: motion_tick_def proposal_tick_def decideProposal_def position_def Let_def
    split: option.split sum.split\<close>)

text \<open>Nothing but a DRIVE command sets the demonstration vehicle in motion: a run without one, with
  any decisions on any proposals, any gear selections, stops and clearances, leaves a vehicle that
  does not drive standing exactly where it is.\<close>

theorem only_drive_moves:
  assumes "\<not> driving s" "list_all (\<lambda>e. \<not> drives e) evs"
  shows "\<not> driving (demo_run ids evs s) \<and> position (demo_run ids evs s) = position s"
  using assms
proof (induction evs arbitrary: s)
  case (Cons e es)
  with standing_step [of s e ids] Cons.IH [of "demo_step ids e s"] show ?case by (simp add: demo_run_def)
qed (simp add: demo_run_def)

theorem only_drive_moves_witness:
  "\<not> driving (demo_run (\<lambda>_. ''p'') [Wait 12000, ProposalTick, Decide ''CONFIRM'' None, MotionTick] (mounted ''v1'' True 0))"
  by (rule only_drive_moves [THEN conjunct1]) (simp_all add: mounted_def drives_def)

section \<open>Proposals\<close>

text \<open>Every proposal is announced once and resolved at most once: in every run the console gets, in
  this order, a proposal, its PENDING status, and one DECIDED, TIMED_OUT or CANCELLED status of
  the same proposal, before the next one is announced; only the last one can still be open, and it
  is exactly the one the vehicle waits on. A tick at or after the deadline of the open proposal
  of a vehicle that is not latched resolves it as TIMED_OUT with its safe default, and stops the
  vehicle.\<close>

theorem proposals_are_resolved_once:
  "let s = demo_run ids evs (mounted v on t) in
     protocol None (emitted s) = Some (map_option (\<lambda>p. dp_proposalId (pp_proposal p)) (pending s)) \<and>
     (case pending s of
        None \<Rightarrow> True
      | Some p \<Rightarrow> \<not> latched s \<and>
          (if enabled s \<and> deadline p \<le> demo_clock s
           then pending (proposal_tick ids s) = None \<and> \<not> driving (proposal_tick ids s) \<and>
             emitted (proposal_tick ids s) = emitted s @ [OnStatus \<lparr>su_proposalId = dp_proposalId (pp_proposal p),
               su_vehicleId = dp_vehicleId (pp_proposal p), su_status = ''TIMED_OUT'',
               su_selectedOptionId = Some (stopOptionId p), su_timestamp = demo_clock s\<rparr>]
           else True))"
proof -
  have ok: "demo_ok (demo_run ids evs (mounted v on t))" using demo_ok_run [OF demo_ok_mounted] by blast
  have d: "(case i of [] \<Rightarrow> None | a # l \<Rightarrow> Some (a # l)) = Some i" if "i \<noteq> []" for i :: string
    using that by (cases i) simp_all
  from ok show ?thesis
    by (auto simp: demo_ok_def Let_def open_id_def comp_def proposal_tick_def proposal_ok_def emitStatus_def d
        split: option.split)
qed

end
