(* ===== verification/Console_Mode.thy ===== *)
theory Console_Mode
  imports Schema
begin

text \<open>
  Which data source a console session may open (\<open>apps/console/src/mode/mode.ts\<close>,
  \<open>mode/ModeContext.tsx\<close>), and the stored sign-in it is backed by (\<open>getTokens\<close> of
  \<open>aws/auth.ts\<close>). The browser is a record: the origin and the host of the page, the query of its
  address (None when it cannot be read), the session storage, which may fail, the time, and the
  address the page was left for.
\<close>

section \<open>The browser\<close>

record browser =
  origin :: string
  hostname :: "string option"
  search_query :: "(string \<times> string) list option"
  stored_mode :: "string option"
  stored_tokens :: "string option"
  stored_verifier :: "string option"
  storage_fails :: bool
  wall_clock :: int
  left_for :: "string option"

datatype AppMode = DemoMode | OperatorMode | LocalMode

definition mode_text :: "AppMode \<Rightarrow> string" where
  "mode_text m = (case m of DemoMode \<Rightarrow> ''demo'' | OperatorMode \<Rightarrow> ''operator'' | LocalMode \<Rightarrow> ''local'')"

section \<open>The sign-in\<close>

text \<open>\<open>getTokens\<close>: the stored tokens, unless they are unreadable or expire within a minute, in which
  case they are removed. A null or a boolean \<open>expiresAt\<close> counts as a number, as in the language; the
  texts and arrays that it would convert as well are left out: \<open>expiresAt\<close> is always written as a
  number.\<close>

definition token_expired :: "json \<Rightarrow> int \<Rightarrow> bool" where
  "token_expired t now =
    (case get_field t ''expiresAt'' of
       JNum d \<Rightarrow> dec_less d (dec_of_int (now + 60000))
     | JNull \<Rightarrow> 0 < now + 60000
     | JBool b \<Rightarrow> (if b then 1 else 0) < now + 60000
     | _ \<Rightarrow> False)"

definition getTokens :: "browser \<Rightarrow> json option \<times> browser" where
  "getTokens b =
    (if storage_fails b \<or> \<not> truthy_str (stored_tokens b) then (None, b)
     else (case json_parse (the (stored_tokens b)) of
         None \<Rightarrow> (None, b)
       | Some t \<Rightarrow>
           if t = JNull then (None, b)
           else if token_expired t (wall_clock b) then (None, b\<lparr>stored_tokens := None\<rparr>)
           else (Some t, b)))"

section \<open>The mode\<close>

definition local_hosts :: "string list" where
  "local_hosts = [''localhost'', ''127.0.0.1'', ''[::1]'', ''::1'']"

definition isLocalOriginAvailable :: "browser \<Rightarrow> bool" where
  "isLocalOriginAvailable b = (case hostname b of None \<Rightarrow> False | Some h \<Rightarrow> List.member local_hosts h)"

definition operatorSessionAlive :: "browser \<Rightarrow> bool" where
  "operatorSessionAlive b =
    ((case search_query b of None \<Rightarrow> False | Some q \<Rightarrow> map_of q ''code'' \<noteq> None) \<or> fst (getTokens b) \<noteq> None)"

definition readStoredMode :: "browser \<Rightarrow> AppMode option" where
  "readStoredMode b =
    (if storage_fails b then None
     else if stored_mode b = Some ''demo'' then Some DemoMode
     else if stored_mode b = Some ''operator'' then (if operatorSessionAlive b then Some OperatorMode else None)
     else if stored_mode b = Some ''local'' then (if isLocalOriginAvailable b then Some LocalMode else None)
     else None)"

definition storeMode :: "AppMode option \<Rightarrow> browser \<Rightarrow> browser" where
  "storeMode m b = (if storage_fails b then b else b\<lparr>stored_mode := map_option mode_text m\<rparr>)"

definition readModeFromUrl :: "browser \<Rightarrow> AppMode option" where
  "readModeFromUrl b =
    (case search_query b of
       None \<Rightarrow> None
     | Some q \<Rightarrow> if map_of q ''mode'' = Some ''local'' \<and> isLocalOriginAvailable b then Some LocalMode else None)"

text \<open>The provider: the mode at the start, and again when the page comes back from the cache.\<close>

definition initial_mode :: "browser \<Rightarrow> AppMode option" where
  "initial_mode b = (case readModeFromUrl b of Some m \<Rightarrow> Some m | None \<Rightarrow> readStoredMode b)"

definition select_mode :: "AppMode \<Rightarrow> browser \<Rightarrow> AppMode option \<times> browser" where
  "select_mode m b = (Some m, storeMode (Some m) b)"

definition reset_mode :: "browser \<Rightarrow> AppMode option \<times> browser" where
  "reset_mode b = (None, storeMode None b)"

definition page_show :: "bool \<Rightarrow> browser \<Rightarrow> AppMode option \<Rightarrow> AppMode option" where
  "page_show persisted b m = (if persisted then initial_mode b else m)"

section \<open>What the stored choice is worth\<close>

lemma mode_store_independent [simp]:
  "isLocalOriginAvailable (b\<lparr>stored_mode := x\<rparr>) = isLocalOriginAvailable b"
  "operatorSessionAlive (b\<lparr>stored_mode := x\<rparr>) = operatorSessionAlive b"
proof -
  have "fst (getTokens (b\<lparr>stored_mode := x\<rparr>)) = fst (getTokens b)"
    by (simp add: getTokens_def split: option.split)
  then show "operatorSessionAlive (b\<lparr>stored_mode := x\<rparr>) = operatorSessionAlive b"
    by (simp add: operatorSessionAlive_def)
qed (simp add: isLocalOriginAvailable_def)

text \<open>A stored choice comes back as it was stored, and only where it can be served: with a working
  storage, reading the mode after storing one gives that mode if it is the demonstration, or
  local and the page is served from this machine, or operator and there is a sign-in that has not
  expired or an authorization code in the address; otherwise, and after a reset, it gives none. An
  address that asks for local mode overrides the choice only on this machine, so that no page
  served from elsewhere ever starts in local mode.\<close>

theorem stored_mode_round_trip:
  assumes "\<not> storage_fails b"
  shows "readStoredMode (storeMode (Some m) b) =
      (if m = LocalMode \<and> \<not> isLocalOriginAvailable b \<or> m = OperatorMode \<and> \<not> operatorSessionAlive b then None else Some m) \<and>
    readStoredMode (storeMode None b) = None \<and>
    (\<not> isLocalOriginAvailable b' \<longrightarrow> initial_mode b' \<noteq> Some LocalMode)"
  using assms
  by (cases m)
    (auto simp: readStoredMode_def storeMode_def mode_text_def initial_mode_def readModeFromUrl_def split: option.split)

definition demo_browser :: browser where
  "demo_browser = \<lparr>origin = ''https://console.example'', hostname = Some ''console.example'', search_query = Some [],
     stored_mode = None, stored_tokens = None, stored_verifier = None, storage_fails = False, wall_clock = 0, left_for = None\<rparr>"

theorem stored_mode_round_trip_witness:
  "readStoredMode (storeMode (Some DemoMode) demo_browser) = Some DemoMode \<and>
   readStoredMode (storeMode (Some LocalMode) demo_browser) = None"
  using stored_mode_round_trip [of demo_browser DemoMode demo_browser]
    stored_mode_round_trip [of demo_browser LocalMode demo_browser]
  by (simp add: demo_browser_def isLocalOriginAvailable_def local_hosts_def)

end
