(* ===== verification/Console.thy ===== *)
theory Console
  imports Console_Mode Simulator
begin

text \<open>
  The session of the operator console (\<open>apps/console/src/context/SessionContext.tsx\<close>): the fencing
  token it holds, the heartbeat, the requests it sends and what it does with the answers, the
  proposal card and its countdown, and the mission work-flow. A call that waits for an answer is
  split at the wait: the request is recorded with what is to be done with its answer, and the
  answer is an event of its own, so that answers may be late and in any order. The demonstration
  vehicle is the one of \<open>Simulator\<close>. What is shown of the telemetry is in \<open>Display\<close>; it is left out here, as
  are the texts of the messages.
\<close>

section \<open>State\<close>

definition vehicleId :: string where "vehicleId = ''VEH-001''"
definition LOCAL_COMMAND_API :: string where "LOCAL_COMMAND_API = ''http://127.0.0.1:4000''"
definition LOCAL_FLEET_API :: string where "LOCAL_FLEET_API = ''http://127.0.0.1:4002''"

record request =
  rq_url :: string
  rq_auth :: "string option"
  rq_body :: json

text \<open>What waits for the answer of a request. The token and the operator of a confirmation are those
  of the moment it was asked for.\<close>

datatype waiting =
    WHeartbeat
  | WCommand
  | WTake
  | WDecide
  | WCreate
  | WItem
  | WConfirm string string string
  | WStart
  | WAction
  | WLoad

datatype answer = Answer nat "json option" | NetworkError

record card =
  card_id :: string
  card_window :: int
  card_options :: "(string \<times> string) list"

record status_in =
  si_proposalId :: string
  si_status :: string
  si_option :: "string option"

datatype result = TimedOut string | Cancelled | Decided string | Rejected

record mission_state =
  ms_missionId :: string
  ms_status :: string
  ms_checklistId :: "string option"

record console =
  mode :: AppMode
  cloudApi :: "string option"
  id_token :: "string option"
  username :: "string option"
  operatorId :: string
  tok :: "string option"
  activeProposal :: "card option"
  activeProposalRef :: "card option"
  proposalTimeLeft :: int
  proposalDeadline :: int
  countdown :: bool
  lastProposalResult :: "result option"
  resultTimers :: nat
  mission :: "mission_state option"
  checkItems :: "json list"
  demo_car :: demo
  requests :: "request list"
  inflight :: "waiting list"

section \<open>Endpoints and headers\<close>

definition commandApi :: "console \<Rightarrow> string option" where
  "commandApi s = (case mode s of OperatorMode \<Rightarrow> cloudApi s | LocalMode \<Rightarrow> Some LOCAL_COMMAND_API | DemoMode \<Rightarrow> None)"

definition fleetApi :: "console \<Rightarrow> string option" where
  "fleetApi s = (case mode s of OperatorMode \<Rightarrow> cloudApi s | LocalMode \<Rightarrow> Some LOCAL_FLEET_API | DemoMode \<Rightarrow> None)"

definition toCloud :: "console \<Rightarrow> bool" where
  "toCloud s = (mode s = OperatorMode \<and> truthy_str (cloudApi s))"

definition apiHeaders :: "console \<Rightarrow> string option" where
  "apiHeaders s = (if toCloud s then map_option (\<lambda>t. ''Bearer '' @ t) (id_token s) else None)"

text \<open>\<open>{ ...base, ...body }\<close>.\<close>

definition spread :: "(string \<times> json) list \<Rightarrow> json \<Rightarrow> json" where
  "spread base body = JObj (fold (\<lambda>(k, v). AList.update k v) (case body of JObj es \<Rightarrow> es | _ \<Rightarrow> []) base)"

definition send :: "string \<Rightarrow> json \<Rightarrow> waiting \<Rightarrow> console \<Rightarrow> console" where
  "send url body w s = s\<lparr>requests := requests s @ [\<lparr>rq_url = url, rq_auth = apiHeaders s, rq_body = body\<rparr>],
     inflight := inflight s @ [w]\<rparr>"

definition credentials :: "string \<Rightarrow> string \<Rightarrow> (string \<times> json) list" where
  "credentials p t = [(''operatorId'', JStr p), (''token'', JStr t)]"

section \<open>The proposal card\<close>

definition handleProposal_console :: "card \<Rightarrow> console \<Rightarrow> console" where
  "handleProposal_console p s = s\<lparr>activeProposalRef := Some p, activeProposal := Some p, lastProposalResult := None,
     proposalDeadline := demo_clock (demo_car s) + card_window p, proposalTimeLeft := card_window p, countdown := True\<rparr>"

text \<open>The description of the option, or its id when the card does not have it.\<close>

definition option_text :: "card option \<Rightarrow> string option \<Rightarrow> string option" where
  "option_text p opt =
    (case opt of
       None \<Rightarrow> None
     | Some i \<Rightarrow>
         (case p of
            None \<Rightarrow> Some i
          | Some c \<Rightarrow> Some (nullish (map_of (card_options c) i) i)))"

definition handleProposalStatus :: "status_in \<Rightarrow> console \<Rightarrow> console" where
  "handleProposalStatus u s =
    (if \<not> List.member [''DECIDED'', ''TIMED_OUT'', ''CANCELLED''] (si_status u) then s
     else
       (let txt = option_text (activeProposalRef s) (si_option u) in
        s\<lparr>activeProposalRef := None, activeProposal := None, countdown := False,
          lastProposalResult := Some
            (if si_status u = ''TIMED_OUT'' then TimedOut (nullish txt ''-'')
             else if si_status u = ''CANCELLED'' then Cancelled
             else if truthy_str txt then Decided (the txt) else Rejected),
          resultTimers := Suc (resultTimers s)\<rparr>))"

definition countdown_tick :: "console \<Rightarrow> console" where
  "countdown_tick s =
    (if \<not> countdown s then s
     else (let r = max 0 (proposalDeadline s - demo_clock (demo_car s)) in
       s\<lparr>proposalTimeLeft := r, countdown := (0 < r)\<rparr>))"

text \<open>The timer that takes the result off the screen after eight seconds; every status starts one.\<close>

definition result_timer :: "console \<Rightarrow> console" where
  "result_timer s = (if resultTimers s = 0 then s else s\<lparr>lastProposalResult := None, resultTimers := resultTimers s - 1\<rparr>)"

text \<open>The demonstration vehicle feeds the same handlers.\<close>

definition show_out :: "demo_out \<Rightarrow> console \<Rightarrow> console" where
  "show_out x s =
    (case x of
       OnProposal p \<Rightarrow> handleProposal_console \<lparr>card_id = dp_proposalId p, card_window = dp_validityWindowMs p,
         card_options = map (\<lambda>(i, d, _). (i, d)) (dp_options p)\<rparr> s
     | OnStatus u \<Rightarrow> handleProposalStatus \<lparr>si_proposalId = su_proposalId u, si_status = su_status u,
         si_option = su_selectedOptionId u\<rparr> s)"

definition drive_demo :: "(nat \<Rightarrow> string) \<Rightarrow> demo_event \<Rightarrow> console \<Rightarrow> console" where
  "drive_demo ids e s =
    (let d = demo_step ids e (demo_car s)
     in fold show_out (drop (length (emitted (demo_car s))) (emitted d)) (s\<lparr>demo_car := d\<rparr>))"

section \<open>Requests\<close>

definition command_url :: "string \<Rightarrow> string \<Rightarrow> string" where
  "command_url api path = api @ ''/api/command/'' @ vehicleId @ ''/'' @ path"

text \<open>The heartbeat runs while there is a token and an endpoint, outside the demonstration.\<close>

definition heartbeat_tick :: "console \<Rightarrow> console" where
  "heartbeat_tick s =
    (if mode s = DemoMode \<or> \<not> truthy_str (tok s) \<or> \<not> truthy_str (commandApi s) then s
     else send (command_url (the (commandApi s)) ''heartbeat'') (JObj (credentials (operatorId s) (the (tok s)))) WHeartbeat s)"

definition cmdPost :: "(nat \<Rightarrow> string) \<Rightarrow> string \<Rightarrow> json \<Rightarrow> console \<Rightarrow> console" where
  "cmdPost ids path body s =
    (if mode s = DemoMode then (if truthy_str (tok s) then drive_demo ids (Command path body) s else s)
     else if \<not> truthy_str (tok s) \<or> \<not> truthy_str (commandApi s) then s
     else send (command_url (the (commandApi s)) path) (spread (credentials (operatorId s) (the (tok s))) body) WCommand s)"

definition fleet_send :: "string \<Rightarrow> string \<Rightarrow> string \<Rightarrow> json \<Rightarrow> waiting \<Rightarrow> console \<Rightarrow> console" where
  "fleet_send path p t body w s =
    send (the (fleetApi s) @ ''/api/fleet'' @ path) (spread (credentials p t) body) w s"

definition fleetPost :: "string \<Rightarrow> json \<Rightarrow> waiting \<Rightarrow> console \<Rightarrow> console" where
  "fleetPost path body w s =
    (if mode s = DemoMode \<or> \<not> truthy_str (tok s) \<or> \<not> truthy_str (fleetApi s) then s
     else fleet_send path (operatorId s) (the (tok s)) body w s)"

definition fleetGet :: "string \<Rightarrow> waiting \<Rightarrow> console \<Rightarrow> console" where
  "fleetGet path w s =
    (if mode s = DemoMode \<or> \<not> truthy_str (fleetApi s) then s
     else send (the (fleetApi s) @ ''/api/fleet'' @ path) JUndef w s)"

definition takeControl_console :: "console \<Rightarrow> console" where
  "takeControl_console s =
    (if mode s = DemoMode then s\<lparr>tok := Some ''demo-local-session''\<rparr>
     else if \<not> truthy_str (commandApi s) then s
     else send (command_url (the (commandApi s)) ''take-control'') (JObj [(''operatorId'', JStr (operatorId s))]) WTake s)"

definition decideManeuver :: "(nat \<Rightarrow> string) \<Rightarrow> string \<Rightarrow> string option \<Rightarrow> console \<Rightarrow> console" where
  "decideManeuver ids decision optionId s =
    (if mode s = DemoMode then (if truthy_str (tok s) then drive_demo ids (Decide decision optionId) s else s)
     else if \<not> truthy_str (commandApi s) \<or> activeProposal s = None \<or> \<not> truthy_str (tok s) then s
     else send (the (commandApi s) @ ''/api/maneuver/'' @ card_id (the (activeProposal s)) @ ''/decide'')
       (JObj (credentials (operatorId s) (the (tok s)) @ [(''decision'', JStr decision), (''optionId'', opt_str optionId)]))
       WDecide s)"

section \<open>Missions\<close>

definition createMission_console :: "console \<Rightarrow> console" where
  "createMission_console s = fleetPost (''/'' @ vehicleId @ ''/mission'') JUndef WCreate s"

definition setCheckItem :: "string \<Rightarrow> string \<Rightarrow> console \<Rightarrow> console" where
  "setCheckItem itemId status s =
    (case Option.bind (mission s) ms_checklistId of
       None \<Rightarrow> s
     | Some c \<Rightarrow>
         if c = [] then s
         else fleetPost (''/pre-departure/'' @ c @ ''/item/'' @ itemId) (JObj [(''status'', JStr status)]) WItem s)"

definition item_open :: "json \<Rightarrow> bool" where
  "item_open i = (get_field i ''status'' = JStr ''PENDING'')"

definition item_failed :: "json \<Rightarrow> bool" where
  "item_failed i = (\<not> falsy (get_field i ''safetyCritical'') \<and> get_field i ''status'' = JStr ''FAIL'')"

definition confirmAndStart :: "console \<Rightarrow> console" where
  "confirmAndStart s =
    (case mission s of
       None \<Rightarrow> s
     | Some m \<Rightarrow>
         if \<not> truthy_str (ms_checklistId m) then s
         else if list_ex item_open (checkItems s) \<or> list_ex item_failed (checkItems s) then s
         else fleetPost (''/pre-departure/'' @ the (ms_checklistId m) @ ''/confirm'') JUndef
           (WConfirm (ms_missionId m) (nullish (tok s) []) (operatorId s)) s)"

definition missionAction :: "string \<Rightarrow> console \<Rightarrow> console" where
  "missionAction action s =
    (case mission s of
       None \<Rightarrow> s
     | Some m \<Rightarrow> fleetPost (''/mission/'' @ ms_missionId m @ ''/'' @ action) JUndef WAction s)"

definition dismissMission :: "console \<Rightarrow> console" where
  "dismissMission s = s\<lparr>mission := None, checkItems := []\<rparr>"

section \<open>Answers\<close>

definition ok_json :: "answer \<Rightarrow> json" where
  "ok_json a = (case a of Answer st (Some d) \<Rightarrow> if 200 \<le> st \<and> st < 300 then d else JNull | _ \<Rightarrow> JNull)"

definition str_opt :: "json \<Rightarrow> string option" where
  "str_opt v = (case v of JStr t \<Rightarrow> Some t | _ \<Rightarrow> None)"

definition set_status :: "json \<Rightarrow> console \<Rightarrow> console" where
  "set_status d s =
    (if falsy (get_field d ''status'') then s
     else s\<lparr>mission := map_option (ms_status_update (\<lambda>_. str_field d ''status'')) (mission s)\<rparr>)"

fun on_answer :: "waiting \<Rightarrow> answer \<Rightarrow> console \<Rightarrow> console" where
  "on_answer WHeartbeat a s =
    (case a of
       Answer _ (Some d) \<Rightarrow> if get_field d ''status'' = JStr ''deadman_triggered'' then s\<lparr>tok := None\<rparr> else s
     | _ \<Rightarrow> s)"
| "on_answer WCommand a s = (case a of Answer st _ \<Rightarrow> if st = 401 then s\<lparr>tok := None\<rparr> else s | NetworkError \<Rightarrow> s)"
| "on_answer WTake a s =
    (case a of
       Answer st (Some d) \<Rightarrow> if 200 \<le> st \<and> st < 300 then s\<lparr>tok := str_opt (get_field d ''token'')\<rparr> else s
     | _ \<Rightarrow> s)"
| "on_answer WDecide a s = s"
| "on_answer WCreate a s =
    (let d = ok_json a; m = get_field d ''mission''; c = get_field d ''checklist'' in
     if falsy m then s
     else s\<lparr>mission := Some \<lparr>ms_missionId = str_field m ''id'', ms_status = str_field m ''status'',
              ms_checklistId = str_opt (get_field c ''checklistId'')\<rparr>,
            checkItems := as_list (get_field c ''items'')\<rparr>)"
| "on_answer WItem a s =
    (let d = ok_json a in if falsy (get_field d ''items'') then s else s\<lparr>checkItems := as_list (get_field d ''items'')\<rparr>)"
| "on_answer (WConfirm m t p) a s =
    (if falsy (ok_json a) then s else fleet_send (''/mission/'' @ m @ ''/start'') p t JUndef WStart s)"
| "on_answer WStart a s = set_status (ok_json a) s"
| "on_answer WAction a s = set_status (ok_json a) s"
| "on_answer WLoad a s =
    (let d = ok_json a; items = get_field (get_field d ''checklist'') ''items'' in
     if falsy (get_field d ''id'') then s
     else (let s1 = s\<lparr>mission := Some \<lparr>ms_missionId = str_field d ''id'', ms_status = str_field d ''status'',
              ms_checklistId = str_opt (get_field d ''checklistId'')\<rparr>\<rparr>
       in if falsy items then s1 else s1\<lparr>checkItems := as_list items\<rparr>))"

definition reply :: "nat \<Rightarrow> answer \<Rightarrow> console \<Rightarrow> console" where
  "reply i a s =
    (if i < length (inflight s)
     then on_answer (inflight s ! i) a (s\<lparr>inflight := take i (inflight s) @ drop (Suc i) (inflight s)\<rparr>)
     else s)"

section \<open>Sign-in, keyboard, and everything together\<close>

definition sign_in :: "string \<Rightarrow> string option \<Rightarrow> console \<Rightarrow> console" where
  "sign_in t u s =
    (let s1 = s\<lparr>id_token := Some t, username := u\<rparr> in
     if mode s \<noteq> OperatorMode \<or> \<not> truthy_str (cloudApi s) then s1
     else if truthy_str u \<and> u \<noteq> Some (operatorId s) then s1\<lparr>operatorId := the u\<rparr> else s1)"

definition INTERACTIVE :: "string list" where
  "INTERACTIVE = [''INPUT'', ''TEXTAREA'', ''SELECT'', ''BUTTON'', ''A'']"

text \<open>The key handler; the target is an element with its tag and whether it is editable.\<close>

definition key_pressed :: "(nat \<Rightarrow> string) \<Rightarrow> string \<Rightarrow> (string \<times> bool) option \<Rightarrow> console \<Rightarrow> console" where
  "key_pressed ids code target s =
    (if code \<noteq> ''Space'' \<or> \<not> truthy_str (tok s) then s
     else if (case target of None \<Rightarrow> False | Some (tag, editable) \<Rightarrow> List.member INTERACTIVE tag \<or> editable) then s
     else cmdPost ids ''estop'' (JObj []) s)"

datatype console_event =
    TakeControlClick
  | Post string json
  | EstopClick
  | DecideClick string "string option"
  | CreateMissionClick
  | CheckItemClick string string
  | ConfirmClick
  | MissionClick string
  | DismissClick
  | Key string "(string \<times> bool) option"
  | Load
  | SignIn string "string option"
  | HeartbeatTick
  | CountdownTick
  | ResultTimer
  | Proposal card
  | Status status_in
  | Reply nat answer
  | Car demo_event

fun console_step :: "(nat \<Rightarrow> string) \<Rightarrow> console_event \<Rightarrow> console \<Rightarrow> console" where
  "console_step ids TakeControlClick s = takeControl_console s"
| "console_step ids (Post path body) s = cmdPost ids path body s"
| "console_step ids EstopClick s = cmdPost ids ''estop'' (JObj []) s"
| "console_step ids (DecideClick d i) s = decideManeuver ids d i s"
| "console_step ids CreateMissionClick s = createMission_console s"
| "console_step ids (CheckItemClick i st) s = setCheckItem i st s"
| "console_step ids ConfirmClick s = confirmAndStart s"
| "console_step ids (MissionClick a) s = missionAction a s"
| "console_step ids DismissClick s = dismissMission s"
| "console_step ids (Key code target) s = key_pressed ids code target s"
| "console_step ids Load s = (if mode s = DemoMode then s else fleetGet (''/'' @ vehicleId @ ''/mission'') WLoad s)"
| "console_step ids (SignIn t u) s = sign_in t u s"
| "console_step ids HeartbeatTick s = heartbeat_tick s"
| "console_step ids CountdownTick s = countdown_tick s"
| "console_step ids ResultTimer s = result_timer s"
| "console_step ids (Proposal p) s = handleProposal_console p s"
| "console_step ids (Status u) s = handleProposalStatus u s"
| "console_step ids (Reply i a) s = reply i a s"
| "console_step ids (Car e) s = drive_demo ids e s"

definition console_run :: "(nat \<Rightarrow> string) \<Rightarrow> console_event list \<Rightarrow> console \<Rightarrow> console" where
  "console_run ids evs s = fold (console_step ids) evs s"

text \<open>A session as it is mounted.\<close>

definition session_start :: "AppMode \<Rightarrow> string option \<Rightarrow> string \<Rightarrow> int \<Rightarrow> console" where
  "session_start m api p t = \<lparr>mode = m, cloudApi = api, id_token = None, username = None, operatorId = p, tok = None,
     activeProposal = None, activeProposalRef = None, proposalTimeLeft = 0, proposalDeadline = 0, countdown = False,
     lastProposalResult = None, resultTimers = 0, mission = None, checkItems = [],
     demo_car = mounted vehicleId (m = DemoMode) t, requests = [], inflight = []\<rparr>"

end
