(* ===== verification/Console_Safety.thy ===== *)
theory Console_Safety
  imports Console
begin

text \<open>
  Where a console session sends its requests and its credentials, and what late answers and late
  status messages do to it.
\<close>

section \<open>Where the requests go\<close>

definition sends :: "console \<Rightarrow> bool" where
  "sends s = (mode s \<noteq> DemoMode \<and> (mode s = OperatorMode \<longrightarrow> truthy_str (cloudApi s)))"

definition proper :: "AppMode \<Rightarrow> string option \<Rightarrow> request \<Rightarrow> bool" where
  "proper m api r =
    (case m of
       DemoMode \<Rightarrow> False
     | LocalMode \<Rightarrow> rq_auth r = None \<and>
         (starts_with (rq_url r) LOCAL_COMMAND_API \<or> starts_with (rq_url r) LOCAL_FLEET_API)
     | OperatorMode \<Rightarrow> truthy_str api \<and> starts_with (rq_url r) (the api))"

definition console_ok :: "console \<Rightarrow> bool" where
  "console_ok s = (list_all (proper (mode s) (cloudApi s)) (requests s) \<and> (inflight s \<noteq> [] \<longrightarrow> sends s))"

text \<open>Steps that touch neither the endpoints nor the network.\<close>

definition quiet :: "console \<Rightarrow> console \<Rightarrow> bool" where
  "quiet s s' = (mode s' = mode s \<and> cloudApi s' = cloudApi s \<and> requests s' = requests s \<and>
     (inflight s' = inflight s \<or> inflight s \<noteq> []))"

lemma quiet_refl [simp]: "quiet s s"
  by (simp add: quiet_def)

lemma quiet_ok: "console_ok s \<Longrightarrow> quiet s s' \<Longrightarrow> console_ok s' \<and> mode s' = mode s \<and> cloudApi s' = cloudApi s"
  by (auto simp: console_ok_def quiet_def sends_def)

lemma show_out_fields:
  "mode (show_out x s) = mode s" "cloudApi (show_out x s) = cloudApi s" "requests (show_out x s) = requests s"
  "inflight (show_out x s) = inflight s"
  by (simp_all add: show_out_def handleProposal_console_def handleProposalStatus_def Let_def split: demo_out.split)

lemma quiet_drive: "quiet s (drive_demo ids e s)"
proof -
  have "mode (fold show_out xs x) = mode x \<and> cloudApi (fold show_out xs x) = cloudApi x \<and>
      requests (fold show_out xs x) = requests x \<and> inflight (fold show_out xs x) = inflight x" for xs x
    by (induction xs arbitrary: x) (simp_all add: show_out_fields)
  then show ?thesis by (simp add: drive_demo_def Let_def quiet_def)
qed

lemma send_ok:
  assumes "console_ok s" "sends s"
    "mode s = LocalMode \<longrightarrow> starts_with url LOCAL_COMMAND_API \<or> starts_with url LOCAL_FLEET_API"
    "mode s = OperatorMode \<longrightarrow> starts_with url (the (cloudApi s))"
  shows "console_ok (send url body w s) \<and> mode (send url body w s) = mode s \<and> cloudApi (send url body w s) = cloudApi s"
  using assms
  by (cases "mode s") (auto simp: console_ok_def send_def sends_def proper_def apiHeaders_def toCloud_def)

lemma api_sends:
  "mode s \<noteq> DemoMode \<Longrightarrow> truthy_str (commandApi s) \<Longrightarrow> sends s"
  "mode s \<noteq> DemoMode \<Longrightarrow> truthy_str (fleetApi s) \<Longrightarrow> sends s"
  by (auto simp: sends_def commandApi_def fleetApi_def)

lemma url_ok:
  "mode s = LocalMode \<longrightarrow> starts_with (the (commandApi s) @ p) LOCAL_COMMAND_API \<or> starts_with (the (commandApi s) @ p) LOCAL_FLEET_API"
  "mode s = OperatorMode \<longrightarrow> starts_with (the (commandApi s) @ p) (the (cloudApi s))"
  "mode s = LocalMode \<longrightarrow> starts_with (the (fleetApi s) @ p) LOCAL_COMMAND_API \<or> starts_with (the (fleetApi s) @ p) LOCAL_FLEET_API"
  "mode s = OperatorMode \<longrightarrow> starts_with (the (fleetApi s) @ p) (the (cloudApi s))"
  by (simp_all add: commandApi_def fleetApi_def)

definition good :: "console \<Rightarrow> console \<Rightarrow> bool" where
  "good s s' = (console_ok s \<longrightarrow> console_ok s' \<and> mode s' = mode s \<and> cloudApi s' = cloudApi s)"

lemma good_refl [simp]: "good s s"
  by (simp add: good_def)

lemma good_quiet: "quiet s s' \<Longrightarrow> good s s'"
  unfolding good_def by (rule impI) (rule quiet_ok)

lemma good_trans: "good s s' \<Longrightarrow> good s' s'' \<Longrightarrow> good s s''"
  by (auto simp: good_def)

lemma good_fleet_send: "sends s \<Longrightarrow> good s (fleet_send path p t body w s)"
  unfolding good_def fleet_send_def
  by (intro impI send_ok url_ok)

lemma good_fleetPost: "good s (fleetPost path body w s)"
  by (auto simp: fleetPost_def intro: good_fleet_send api_sends)

lemma good_send:
  "mode s \<noteq> DemoMode \<Longrightarrow> truthy_str (commandApi s) \<Longrightarrow> good s (send (the (commandApi s) @ path) body w s)"
  unfolding good_def
  by (intro impI send_ok url_ok api_sends(1))

lemma good_command:
  "mode s \<noteq> DemoMode \<Longrightarrow> truthy_str (commandApi s) \<Longrightarrow> good s (send (command_url (the (commandApi s)) path) body w s)"
  unfolding command_url_def by (rule good_send)

lemma good_drive: "good s (drive_demo ids e s)"
  by (rule good_quiet) (rule quiet_drive)

lemma good_cmdPost: "good s (cmdPost ids path body s)"
  by (simp add: cmdPost_def good_drive good_command)

lemma good_decide: "good s (decideManeuver ids d i s)"
  by (simp add: decideManeuver_def good_drive good_send)

lemma good_answer: "sends s \<Longrightarrow> good s (on_answer w a s)"
proof (cases w)
  case (WConfirm m t p)
  then show "sends s \<Longrightarrow> good s (on_answer w a s)" by (simp add: good_fleet_send)
qed (auto simp: Let_def set_status_def quiet_def intro!: good_quiet split: answer.split option.split)

lemma good_reply: "good s (reply i a s)"
proof (cases "i < length (inflight s)")
  case True
  let ?s = "s\<lparr>inflight := take i (inflight s) @ drop (Suc i) (inflight s)\<rparr>"
  have q: "good s ?s" using True by (intro good_quiet) (auto simp: quiet_def)
  show ?thesis
    unfolding good_def
  proof
    assume "console_ok s"
    then have "sends ?s" using True by (auto simp: console_ok_def sends_def)
    with good_trans [OF q good_answer] \<open>console_ok s\<close> True
    show "console_ok (reply i a s) \<and> mode (reply i a s) = mode s \<and> cloudApi (reply i a s) = cloudApi s"
      by (simp add: reply_def good_def)
  qed
qed (simp add: reply_def)

lemma good_step: "good s (console_step ids e s)"
proof (cases e)
  case Load
  have "good s (send (the (fleetApi s) @ path) body w s)" if "mode s \<noteq> DemoMode" "truthy_str (fleetApi s)" for path body w
    unfolding good_def by (intro impI send_ok url_ok api_sends(2) that)
  then show ?thesis using Load by (simp add: fleetGet_def)
qed (auto simp: takeControl_console_def good_cmdPost good_decide good_reply good_fleetPost createMission_console_def setCheckItem_def
    confirmAndStart_def missionAction_def dismissMission_def key_pressed_def sign_in_def heartbeat_tick_def countdown_tick_def
    result_timer_def handleProposal_console_def handleProposalStatus_def good_drive quiet_def Let_def
    intro: good_quiet good_command split: option.split)

lemma good_run: "good s (console_run ids evs s)"
  unfolding console_run_def
  by (induction evs arbitrary: s) (auto intro: good_trans [OF good_step])

text \<open>C28: A session reaches its own endpoints and no others, whatever the operator does and whatever
  arrives: a demonstration sends no request at all; a local session sends only to the services on
  this machine, and never a sign-in token; an operator session sends only to the configured
  cloud endpoint, and nothing when there is none, so that the sign-in token, which only its
  requests carry, goes nowhere else.\<close>

theorem session_reaches_only_its_endpoints:
  "let rs = requests (console_run ids evs (session_start m api p t)) in
     (m = DemoMode \<longrightarrow> rs = []) \<and>
     (m = LocalMode \<longrightarrow> list_all (\<lambda>r. rq_auth r = None \<and>
        (starts_with (rq_url r) ''http://127.0.0.1:4000'' \<or> starts_with (rq_url r) ''http://127.0.0.1:4002'')) rs) \<and>
     (m = OperatorMode \<longrightarrow> (if truthy_str api then list_all (\<lambda>r. starts_with (rq_url r) (the api)) rs else rs = []))"
proof -
  let ?s = "console_run ids evs (session_start m api p t)"
  have "console_ok (session_start m api p t)" by (simp add: console_ok_def session_start_def)
  then have "console_ok ?s" "mode ?s = m" "cloudApi ?s = api"
    using good_run [of "session_start m api p t" ids evs] by (auto simp: good_def session_start_def)
  then have l: "list_all (proper m api) (requests ?s)" by (simp add: console_ok_def)
  show ?thesis
  proof (cases m)
    case DemoMode
    with l show ?thesis by (cases "requests ?s") (auto simp: proper_def)
  next
    case OperatorMode
    with l show ?thesis by (cases "requests ?s") (auto simp: proper_def Let_def elim: list.pred_mono_strong)
  next
    case LocalMode
    with l show ?thesis
      by (auto simp: proper_def Let_def LOCAL_COMMAND_API_def LOCAL_FLEET_API_def elim!: list.pred_mono_strong)
  qed
qed

theorem session_reaches_only_its_endpoints_witness:
  "requests (console_run (\<lambda>_. ''p'') [TakeControlClick, EstopClick, Load] (session_start DemoMode (Some ''https://api'') ''OP-1'' 0)) = []"
  using session_reaches_only_its_endpoints [of "\<lambda>_. ''p''" "[TakeControlClick, EstopClick, Load]" DemoMode] by (simp add: Let_def)

section \<open>Late and foreign messages\<close>

definition demo_card :: "string \<Rightarrow> card" where
  "demo_card i = \<lparr>card_id = i, card_window = 30000, card_options = [(''a'', ''Reroute''), (''b'', ''Wait'')]\<rparr>"

text \<open>A status message closes the card whichever proposal it is about: with the proposal \<open>p2\<close> on the
  screen, the late message that \<open>p1\<close> timed out takes the card of \<open>p2\<close> away, shows its option as the
  outcome, and from then on the operator cannot send a decision on \<open>p2\<close> any more.\<close>

theorem foreign_status_closes_card:
  "let s = console_run (\<lambda>_. []) [TakeControlClick, Reply 0 (Answer 201 (Some (JObj [(''token'', JStr ''t1'')]))),
         Proposal (demo_card ''p1''), Proposal (demo_card ''p2''),
         Status \<lparr>si_proposalId = ''p1'', si_status = ''TIMED_OUT'', si_option = Some ''b''\<rparr>]
       (session_start OperatorMode (Some ''https://api'') ''OP-1'' 0)
   in tok s = Some ''t1'' \<and> activeProposal s = None \<and> lastProposalResult s = Some (TimedOut ''Wait'') \<and>
      requests (console_step (\<lambda>_. []) (DecideClick ''CONFIRM'' None) s) = requests s"
  by (simp add: console_run_def takeControl_console_def commandApi_def session_start_def send_def reply_def str_opt_def
      handleProposal_console_def handleProposalStatus_def option_text_def demo_card_def Let_def decideManeuver_def nullish_def)

text \<open>A late answer can take the control away that the operator has just got: the heartbeat of the
  first session is on its way, the operator takes control again and holds the token \<open>t2\<close>, and the
  answer that the deadman of the first session has fired then clears \<open>t2\<close>. The console stops its
  heartbeat, so that the second session dies as well.\<close>

theorem late_heartbeat_clears_new_token:
  "let s = console_run (\<lambda>_. []) [TakeControlClick, Reply 0 (Answer 201 (Some (JObj [(''token'', JStr ''t1'')]))),
         HeartbeatTick, TakeControlClick, Reply 1 (Answer 201 (Some (JObj [(''token'', JStr ''t2'')])))]
       (session_start OperatorMode (Some ''https://api'') ''OP-1'' 0)
   in tok s = Some ''t2'' \<and>
      (let s' = console_step (\<lambda>_. []) (Reply 0 (Answer 200 (Some (JObj [(''status'', JStr ''deadman_triggered'')])))) s
       in tok s' = None \<and> requests (console_step (\<lambda>_. []) HeartbeatTick s') = requests s')"
  by (simp add: console_run_def takeControl_console_def commandApi_def session_start_def send_def reply_def str_opt_def
      heartbeat_tick_def Let_def command_url_def)

section \<open>Starting a mission from the console\<close>

text \<open>The console asks for a start only behind a checked list and a confirmation: a request for a
  confirmation leaves only when no item is pending and no item critical for safety has failed, and
  the request for the start leaves only with the positive answer to it, with the token and
  the mission of the moment the operator asked.\<close>

lemma start_follows_confirmation:
  assumes "mission s = Some m"
  shows "(if list_ex item_open (checkItems s) \<or> list_ex item_failed (checkItems s) then confirmAndStart s = s else True) \<and>
    (\<forall>w \<in> set (inflight (confirmAndStart s)) - set (inflight s).
      w = WConfirm (ms_missionId m) (the (tok s)) (operatorId s) \<and>
      (\<forall>s'. requests (on_answer w a s') =
        (if falsy (ok_json a) then requests s'
         else requests s' @ [\<lparr>rq_url = the (fleetApi s') @ ''/api/fleet/mission/'' @ ms_missionId m @ ''/start'',
           rq_auth = apiHeaders s', rq_body = JObj (credentials (operatorId s) (the (tok s)))\<rparr>])))"
  using assms
  by (auto simp: confirmAndStart_def fleetPost_def fleet_send_def send_def spread_def truthy_str_def nullish_def
      split: option.splits)

end
