(* ===== verification/Url.thy ===== *)
theory Url
  imports Json
begin

text \<open>
  The encodings of the browser that the console uses to build addresses: \<open>encodeURIComponent\<close>, the
  serialization of \<open>URLSearchParams\<close>, and base64 in its URL form, with their decoders. A text has one
  char per code unit and no code unit above 255, so that a char is one or two bytes of UTF-8.
\<close>

section \<open>UTF-8\<close>

definition utf8_char :: "char \<Rightarrow> nat list" where
  "utf8_char c = (let n = of_char c in if n < 128 then [n] else [192 + n div 64, 128 + n mod 64])"

definition utf8 :: "string \<Rightarrow> nat list" where
  "utf8 s = concat (map utf8_char s)"

fun utf8_decode :: "nat list \<Rightarrow> string" where
  "utf8_decode [] = []"
| "utf8_decode [n] = [char_of n]"
| "utf8_decode (n # m # ns) =
    (if n < 128 then char_of n # utf8_decode (m # ns) else char_of ((n - 192) * 64 + (m - 128)) # utf8_decode ns)"

lemma of_char_bound: "(of_char c :: nat) < 256"
  using of_char_mod_256 [of c, where 'a = nat] by (metis mod_less_divisor zero_less_numeral)

lemma utf8_decode_append: "utf8_decode (utf8_char c @ ns) = c # utf8_decode ns"
proof (cases "of_char c < (128 :: nat)")
  case True
  then show ?thesis by (cases ns) (simp_all add: utf8_char_def Let_def)
next
  case False
  let ?n = "of_char c :: nat"
  have "utf8_decode (utf8_char c @ ns) = char_of ((192 + ?n div 64 - 192) * 64 + (128 + ?n mod 64 - 128)) # utf8_decode ns"
    using False by (simp add: utf8_char_def Let_def)
  also have "(192 + ?n div 64 - 192) * 64 + (128 + ?n mod 64 - 128) = ?n" by simp
  finally show ?thesis by simp
qed

lemma utf8_decode_utf8 [simp]: "utf8_decode (utf8 s) = s"
  by (induction s) (simp_all add: utf8_def utf8_decode_append)

lemma utf8_bound: "n \<in> set (utf8 s) \<Longrightarrow> n < 256"
proof -
  assume "n \<in> set (utf8 s)"
  then obtain c where "n \<in> set (utf8_char c)" by (auto simp: utf8_def)
  moreover have "(of_char c :: nat) div 64 < 4" using of_char_bound [of c] by (simp add: div_less_iff_less_mult)
  ultimately show "n < 256" by (auto simp: utf8_char_def Let_def split: if_splits)
qed

section \<open>Percent encoding\<close>

definition hex_upper :: "nat \<Rightarrow> char" where
  "hex_upper n = (if n < 10 then char_of (48 + n) else char_of (55 + n))"

definition unhex :: "char \<Rightarrow> nat" where
  "unhex c = (let n = of_char c in if n < 65 then n - 48 else n - 55)"

definition percent :: "nat \<Rightarrow> string" where
  "percent n = [CHR ''%'', hex_upper (n div 16), hex_upper (n mod 16)]"

definition is_alnum :: "char \<Rightarrow> bool" where
  "is_alnum c = (let n = (of_char c :: nat) in 48 \<le> n \<and> n \<le> 57 \<or> 65 \<le> n \<and> n \<le> 90 \<or> 97 \<le> n \<and> n \<le> 122)"

text \<open>The bytes an encoder leaves as they are, and the text it writes for a byte.\<close>

definition uri_plain :: "nat \<Rightarrow> bool" where
  "uri_plain n = (n < 128 \<and> (is_alnum (char_of n) \<or> List.member (map of_char ''-_.!~*()'') n \<or> n = 39))"

definition form_plain :: "nat \<Rightarrow> bool" where
  "form_plain n = (n < 128 \<and> (is_alnum (char_of n) \<or> List.member (map of_char ''*-._'') n))"

definition uri_byte :: "nat \<Rightarrow> string" where
  "uri_byte n = (if uri_plain n then [char_of n] else percent n)"

definition form_byte :: "nat \<Rightarrow> string" where
  "form_byte n = (if n = 32 then ''+'' else if form_plain n then [char_of n] else percent n)"

definition encodeURIComponent :: "string \<Rightarrow> string" where
  "encodeURIComponent s = concat (map uri_byte (utf8 s))"

definition form_encode :: "string \<Rightarrow> string" where
  "form_encode s = concat (map form_byte (utf8 s))"

text \<open>The reader of either; \<open>pl\<close> is what a plus sign stands for.\<close>

fun unescape_bytes :: "nat \<Rightarrow> string \<Rightarrow> nat list" where
  "unescape_bytes pl [] = []"
| "unescape_bytes pl (c # cs) =
    (if c = CHR ''%'' then
       (case cs of
          h # l # ds \<Rightarrow> (16 * unhex h + unhex l) # unescape_bytes pl ds
        | _ \<Rightarrow> of_char c # unescape_bytes pl cs)
     else (if c = CHR ''+'' then pl else of_char c) # unescape_bytes pl cs)"

definition decodeURIComponent :: "string \<Rightarrow> string" where
  "decodeURIComponent s = utf8_decode (unescape_bytes 43 s)"

definition form_decode :: "string \<Rightarrow> string" where
  "form_decode s = utf8_decode (unescape_bytes 32 s)"

lemma unhex_hex [simp]: "n < 16 \<Longrightarrow> unhex (hex_upper n) = n"
  by (simp add: unhex_def hex_upper_def Let_def)

lemma unescape_percent: "n < 256 \<Longrightarrow> unescape_bytes p (percent n @ cs) = n # unescape_bytes p cs"
  by (simp add: percent_def)

lemma plain_not_special:
  "uri_plain n \<Longrightarrow> n < 256 \<and> n \<notin> {37, 38, 43, 61}" "form_plain n \<Longrightarrow> n < 256 \<and> n \<notin> {32, 37, 38, 43, 61}"
  by (auto simp: uri_plain_def form_plain_def is_alnum_def Let_def)

lemma char_of_eq: "n < 256 \<Longrightarrow> char_of n = c \<longleftrightarrow> n = (of_char c :: nat)"
  by (metis char_of_char of_char_of mod_less)

lemma char_of_special:
  assumes "n < 256"
  shows "char_of n = CHR ''%'' \<longleftrightarrow> n = (37 :: nat)" "char_of n = CHR ''&'' \<longleftrightarrow> n = (38 :: nat)"
    "char_of n = CHR ''+'' \<longleftrightarrow> n = (43 :: nat)" "char_of n = CHR ''='' \<longleftrightarrow> n = (61 :: nat)"
  using assms by (simp_all add: char_of_eq)

lemma unescape_uri: "n < 256 \<Longrightarrow> unescape_bytes 43 (uri_byte n @ cs) = n # unescape_bytes 43 cs"
  using plain_not_special(1) [of n] by (auto simp: uri_byte_def unescape_percent char_of_special)

lemma unescape_form: "n < 256 \<Longrightarrow> unescape_bytes 32 (form_byte n @ cs) = n # unescape_bytes 32 cs"
  using plain_not_special(2) [of n] by (auto simp: form_byte_def unescape_percent char_of_special)

lemma unescape_concat:
  assumes "\<And>n cs. n < 256 \<Longrightarrow> unescape_bytes p (f n @ cs) = n # unescape_bytes p cs" "\<forall>n \<in> set ns. n < 256"
  shows "unescape_bytes p (concat (map f ns)) = ns"
  using assms(2) by (induction ns) (simp_all add: assms(1))

lemma decode_encodeURIComponent [simp]: "decodeURIComponent (encodeURIComponent s) = s"
  by (simp add: decodeURIComponent_def encodeURIComponent_def unescape_concat [OF unescape_uri] utf8_bound)

lemma form_decode_encode [simp]: "form_decode (form_encode s) = s"
  by (simp add: form_decode_def form_encode_def unescape_concat [OF unescape_form] utf8_bound)

text \<open>No separator of a query survives the encoding.\<close>

lemma hex_upper_plain: "n < 16 \<Longrightarrow> is_alnum (hex_upper n)"
  by (auto simp: hex_upper_def is_alnum_def Let_def)

lemma alnum_not_special: "is_alnum c \<Longrightarrow> c \<noteq> CHR ''&'' \<and> c \<noteq> CHR ''=''"
  by (auto simp: is_alnum_def Let_def)

lemma percent_clean: "n < 256 \<Longrightarrow> CHR ''&'' \<notin> set (percent n) \<and> CHR ''='' \<notin> set (percent n)"
proof -
  assume "n < 256"
  then have "n div 16 < 16" "n mod 16 < 16" by simp_all
  from this [THEN hex_upper_plain, THEN alnum_not_special] show ?thesis by (auto simp: percent_def)
qed

lemma encode_clean:
  "CHR ''&'' \<notin> set (encodeURIComponent s)" "CHR ''='' \<notin> set (encodeURIComponent s)"
  "CHR ''&'' \<notin> set (form_encode s)" "CHR ''='' \<notin> set (form_encode s)"
proof -
  have "CHR ''&'' \<notin> set (uri_byte n) \<and> CHR ''='' \<notin> set (uri_byte n)" if "n < 256" for n
    using that plain_not_special(1) [of n] percent_clean [of n] char_of_special [of n] by (auto simp: uri_byte_def)
  moreover have "CHR ''&'' \<notin> set (form_byte n) \<and> CHR ''='' \<notin> set (form_byte n)" if "n < 256" for n
    using that plain_not_special(2) [of n] percent_clean [of n] char_of_special [of n] by (auto simp: form_byte_def)
  ultimately show "CHR ''&'' \<notin> set (encodeURIComponent s)" "CHR ''='' \<notin> set (encodeURIComponent s)"
    "CHR ''&'' \<notin> set (form_encode s)" "CHR ''='' \<notin> set (form_encode s)"
    using utf8_bound [of _ s] by (fastforce simp: encodeURIComponent_def form_encode_def)+
qed

section \<open>Queries\<close>

definition query_text :: "(string \<Rightarrow> string) \<Rightarrow> (string \<times> string) list \<Rightarrow> string" where
  "query_text enc ps = join ''&'' (map (\<lambda>(k, v). enc k @ ''='' @ enc v) ps)"

definition read_pair :: "(string \<Rightarrow> string) \<Rightarrow> string \<Rightarrow> string \<times> string" where
  "read_pair dec s = (case split_on CHR ''='' s of k # v # _ \<Rightarrow> (dec k, dec v) | _ \<Rightarrow> (dec s, []))"

definition read_query :: "(string \<Rightarrow> string) \<Rightarrow> string \<Rightarrow> (string \<times> string) list" where
  "read_query dec s = map (read_pair dec) (split_on CHR ''&'' s)"

lemma read_query_text:
  assumes "ps \<noteq> []" "\<And>x. dec (enc x) = x" "\<And>x. CHR ''&'' \<notin> set (enc x)" "\<And>x. CHR ''='' \<notin> set (enc x)"
  shows "read_query dec (query_text enc ps) = ps"
proof -
  have pair: "read_pair dec (enc k @ ''='' @ enc v) = (k, v)" for k v
    using split_on_append [OF assms(4), of k "enc v"] split_on_no_sep [OF assms(4), of v]
    by (simp add: read_pair_def assms(2))
  have clean: "CHR ''&'' \<notin> set (enc k @ ''='' @ enc v)" for k v using assms(3) by simp
  show ?thesis
    using assms(1)
  proof (induction ps)
    case (Cons p ps)
    obtain k v where p: "p = (k, v)" by (cases p)
    show ?case
    proof (cases "ps = []")
      case True
      with p pair [of k v] split_on_no_sep [OF clean, of k v] show ?thesis by (simp add: read_query_def query_text_def)
    next
      case False
      then have "query_text enc (p # ps) = (enc k @ ''='' @ enc v) @ CHR ''&'' # query_text enc ps"
        by (simp add: query_text_def join_Cons p)
      then have "read_query dec (query_text enc (p # ps)) = (k, v) # read_query dec (query_text enc ps)"
        using split_on_append [OF clean, of k v "query_text enc ps"] pair [of k v] by (simp add: read_query_def)
      with Cons.IH [OF False] p show ?thesis by simp
    qed
  qed simp
qed

lemma read_form_query: "ps \<noteq> [] \<Longrightarrow> read_query form_decode (query_text form_encode ps) = ps"
  by (rule read_query_text) (simp_all add: encode_clean)

lemma read_uri_query: "ps \<noteq> [] \<Longrightarrow> read_query decodeURIComponent (query_text encodeURIComponent ps) = ps"
  by (rule read_query_text) (simp_all add: encode_clean)

section \<open>Base64\<close>

fun sextets :: "nat list \<Rightarrow> nat list" where
  "sextets [] = []"
| "sextets [a] = [a div 4, a mod 4 * 16]"
| "sextets [a, b] = [a div 4, a mod 4 * 16 + b div 16, b mod 16 * 4]"
| "sextets (a # b # c # ns) =
    [a div 4, a mod 4 * 16 + b div 16, b mod 16 * 4 + c div 64, c mod 64] @ sextets ns"

fun unsextets :: "nat list \<Rightarrow> nat list" where
  "unsextets (a # b # c # d # ns) = [a * 4 + b div 16, b mod 16 * 16 + c div 4, c mod 4 * 64 + d] @ unsextets ns"
| "unsextets [a, b, c] = [a * 4 + b div 16, b mod 16 * 16 + c div 4]"
| "unsextets [a, b] = [a * 4 + b div 16]"
| "unsextets _ = []"

definition b64_char :: "nat \<Rightarrow> char" where
  "b64_char n = (if n < 26 then char_of (65 + n) else if n < 52 then char_of (71 + n) else if n < 62 then char_of (n - 4)
     else if n = 62 then CHR ''+'' else CHR ''/'')"

definition b64_val :: "char \<Rightarrow> nat option" where
  "b64_val c = (let n = of_char c in
     if 65 \<le> n \<and> n \<le> 90 then Some (n - 65) else if 97 \<le> n \<and> n \<le> 122 then Some (n - 71)
     else if 48 \<le> n \<and> n \<le> 57 then Some (n + 4) else if n = 43 then Some 62 else if n = 47 then Some 63 else None)"

definition btoa :: "nat list \<Rightarrow> string" where
  "btoa ns = map b64_char (sextets ns) @ replicate ((3 - length ns mod 3) mod 3) CHR ''=''"

definition strip_pads :: "string \<Rightarrow> string" where
  "strip_pads t =
    (if drop (length t - 2) t = ''=='' then take (length t - 2) t
     else if drop (length t - 1) t = ''='' then take (length t - 1) t else t)"

text \<open>\<open>atob\<close>; None is the exception. Bytes stand for the code units of its result.\<close>

definition atob :: "string \<Rightarrow> nat list option" where
  "atob s =
    (let t = filter (\<lambda>c. of_char c \<notin> {9, 10, 12, 13, 32 :: nat}) s;
         u = (if length t mod 4 = 0 then strip_pads t else t)
     in if length u mod 4 = 1 \<or> list_ex (\<lambda>c. b64_val c = None) u then None
        else Some (unsextets (map (the \<circ> b64_val) u)))"

text \<open>\<open>s.replace(a, b)\<close> of one char everywhere, and \<open>padEnd\<close>.\<close>

definition swap1 :: "char \<Rightarrow> char \<Rightarrow> char \<Rightarrow> char" where
  "swap1 a b c = (if c = a then b else c)"

definition swap_char :: "char \<Rightarrow> char \<Rightarrow> string \<Rightarrow> string" where
  "swap_char a b s = map (swap1 a b) s"

definition pad_end :: "nat \<Rightarrow> char \<Rightarrow> string \<Rightarrow> string" where
  "pad_end n c s = s @ replicate (n - length s) c"

lemma sextets_bound: "\<forall>n \<in> set ns. n < 256 \<Longrightarrow> m \<in> set (sextets ns) \<Longrightarrow> m < 64"
  by (induction ns rule: sextets.induct) auto

lemma unsextets_sextets: "\<forall>n \<in> set ns. n < 256 \<Longrightarrow> unsextets (sextets ns) = ns"
  by (induction ns rule: sextets.induct) auto

lemma sextets_mod: "length (sextets ns) mod 4 \<noteq> 1"
  by (induction ns rule: sextets.induct) auto

lemma length_sextets: "length (sextets ns) = (4 * length ns + 2) div 3"
  by (induction ns rule: sextets.induct) auto

lemma of_char_b64:
  "n < 64 \<Longrightarrow> (of_char (b64_char n) :: nat) =
    (if n < 26 then 65 + n else if n < 52 then 71 + n else if n < 62 then n - 4 else if n = 62 then 43 else 47)"
  by (simp add: b64_char_def)

lemma b64_char_simps:
  assumes "n < 64"
  shows "b64_val (b64_char n) = Some n" "of_char (b64_char n) \<notin> {9, 10, 12, 13, 32, 45, 61, 95 :: nat}"
  unfolding b64_val_def of_char_b64 [OF assms] Let_def using assms by auto

lemma b64_char_distinct:
  assumes "n < 64"
  shows "b64_char n \<noteq> CHR ''=''" "b64_char n \<noteq> CHR ''-''" "b64_char n \<noteq> CHR ''_''"
  using b64_char_simps(2) [OF assms] by auto

lemma strip_pad:
  assumes "CHR ''='' \<notin> set s" "k < 3"
  shows "strip_pads (s @ replicate k CHR ''='') = s"
proof -
  have n: "drop i s \<noteq> CHR ''='' # x" for i x
    using assms(1) in_set_dropD [of "CHR ''=''" i s] by (metis list.set_intros(1))
  from assms(2) consider "k = 0" | "k = 1" | "k = 2" by linarith
  then show ?thesis
  proof cases
    case 2
    have "drop (length s - 1) s @ ''='' \<noteq> ''==''" using n [of "length s - 1"] by (cases "drop (length s - 1) s") auto
    moreover have "drop (length (s @ ''='') - 2) (s @ ''='') = drop (length s - 1) s @ ''=''" by simp
    moreover have "drop (length (s @ ''='') - 1) (s @ ''='') = ''=''" by simp
    ultimately show ?thesis using 2 by (simp add: strip_pads_def del: drop_append)
  next
    case 3
    then show ?thesis by (simp add: strip_pads_def numeral_2_eq_2)
  qed (simp add: strip_pads_def n)
qed

lemma pad_mod: "(l + (4 - l mod 4) mod 4) mod 4 = (0 :: nat)"
proof -
  have "(l + (4 - l mod 4) mod 4) mod 4 = (l mod 4 + (4 - l mod 4)) mod 4"
    by (simp only: mod_add_left_eq mod_add_right_eq)
  also have "l mod 4 + (4 - l mod 4) = 4" by (simp add: less_imp_le)
  finally show ?thesis by simp
qed

text \<open>What \<open>atob\<close> reads from padded text.\<close>

lemma atob_padded:
  assumes "\<forall>n \<in> set ns. n < 256" "s = map b64_char (sextets ns)"
  shows "atob (pad_end (length s + (4 - length s mod 4) mod 4) CHR ''='' s) = Some ns"
proof -
  define k where "k = (4 - length s mod 4) mod 4"
  have c: "c \<in> set s \<Longrightarrow> \<exists>n < 64. c = b64_char n" for c
    using sextets_bound [OF assms(1)] by (auto simp: assms(2))
  then have f: "filter (\<lambda>c. of_char c \<notin> {9, 10, 12, 13, 32 :: nat}) s = s"
    using b64_char_simps(2) by (fastforce simp: filter_id_conv)
  have e: "CHR ''='' \<notin> set s" using c b64_char_distinct(1) by metis
  have v: "\<not> list_ex (\<lambda>c. b64_val c = None) s" "map (the \<circ> b64_val) s = sextets ns"
    using c b64_char_simps(1) sextets_bound [OF assms(1)]
    by (fastforce simp: list_ex_iff) (simp add: assms(2) b64_char_simps(1) sextets_bound [OF assms(1)] map_idI)
  have m: "k < 3" "(length s + k) mod 4 = 0" "length s mod 4 \<noteq> 1"
  proof -
    show r: "length s mod 4 \<noteq> 1" using sextets_mod [of ns] by (simp add: assms(2))
    have "length s mod 4 < 4" by simp
    with r consider "length s mod 4 = 0" | "length s mod 4 = 2" | "length s mod 4 = 3" by linarith
    then show "k < 3" by cases (simp_all add: k_def)
    show "(length s + k) mod 4 = 0" unfolding k_def by (rule pad_mod)
  qed
  let ?t = "s @ replicate k CHR ''=''"
  have t: "filter (\<lambda>c. of_char c \<notin> {9, 10, 12, 13, 32 :: nat}) ?t = ?t"
    unfolding filter_append f by simp
  have l4: "length ?t mod 4 = 0" using m(2) by simp
  have "atob ?t = (if length s mod 4 = 1 \<or> list_ex (\<lambda>c. b64_val c = None) s then None
      else Some (unsextets (map (the \<circ> b64_val) s)))"
    unfolding atob_def Let_def t if_P [OF l4] strip_pad [OF e m(1)] ..
  also have "\<dots> = Some ns"
    unfolding v(2) unsextets_sextets [OF assms(1)] using m(3) v(1) by (intro if_not_P) blast
  finally show ?thesis by (simp add: pad_end_def k_def)
qed

text \<open>The URL form, as the console writes it: two chars swapped, the padding removed.\<close>

definition b64url_text :: "nat list \<Rightarrow> string" where
  "b64url_text ns =
    rev (dropWhile (\<lambda>c. c = CHR ''='') (rev (swap_char CHR ''/'' CHR ''_'' (swap_char CHR ''+'' CHR ''-'' (btoa ns)))))"

definition b64url_char :: "nat \<Rightarrow> char" where
  "b64url_char n = (if n = 62 then CHR ''-'' else if n = 63 then CHR ''_'' else b64_char n)"

lemma b64_char_last: "b64_char 62 = CHR ''+''" "b64_char 63 = CHR ''/''"
  by (simp_all add: b64_char_def)

lemma b64_char_eq:
  assumes "n < 64"
  shows "b64_char n = CHR ''+'' \<longleftrightarrow> n = 62" "b64_char n = CHR ''/'' \<longleftrightarrow> n = 63"
proof -
  have "b64_char n = c \<longleftrightarrow> of_char (b64_char n) = (of_char c :: nat)" for c by simp
  then show "b64_char n = CHR ''+'' \<longleftrightarrow> n = 62" "b64_char n = CHR ''/'' \<longleftrightarrow> n = 63"
    using assms by (auto simp: of_char_b64)
qed

lemma swap_b64:
  assumes "n < 64"
  shows "swap1 CHR ''/'' CHR ''_'' (swap1 CHR ''+'' CHR ''-'' (b64_char n)) = b64url_char n"
    "swap1 CHR ''_'' CHR ''/'' (swap1 CHR ''-'' CHR ''+'' (b64url_char n)) = b64_char n"
  using b64_char_eq [OF assms] b64_char_distinct [OF assms] by (auto simp: swap1_def b64url_char_def b64_char_last)

lemma b64url_not_pad: "n < 64 \<Longrightarrow> b64url_char n \<noteq> CHR ''=''"
  using b64_char_distinct(1) by (simp add: b64url_char_def)

lemma b64url_text_eq:
  assumes "\<forall>n \<in> set ns. n < 256"
  shows "b64url_text ns = map b64url_char (sextets ns)"
proof -
  let ?b = "map b64url_char (sextets ns)"
  have "swap_char CHR ''/'' CHR ''_'' (swap_char CHR ''+'' CHR ''-'' (map b64_char (sextets ns))) = ?b"
    unfolding swap_char_def map_map by (rule map_cong [OF refl]) (simp add: swap_b64 sextets_bound [OF assms])
  then have "swap_char CHR ''/'' CHR ''_'' (swap_char CHR ''+'' CHR ''-'' (btoa ns)) =
      ?b @ replicate ((3 - length ns mod 3) mod 3) CHR ''=''"
    by (simp add: btoa_def swap_char_def swap1_def)
  moreover have "dropWhile (\<lambda>c. c = CHR ''='') (replicate k CHR ''='' @ rev ?b) = rev ?b" for k
  proof (induction k)
    case 0
    have "\<not> (hd (rev ?b) = CHR ''='')" if "sextets ns \<noteq> []"
      using that sextets_bound [OF assms] b64url_not_pad by (metis hd_rev last_in_set last_map list.map_disc_iff)
    then show ?case by (cases "rev ?b") (auto simp: rev_map)
  qed simp
  ultimately show ?thesis by (simp add: b64url_text_def)
qed

lemma unswap_b64:
  assumes "\<forall>n \<in> set xs. n < 64"
  shows "swap_char CHR ''_'' CHR ''/'' (swap_char CHR ''-'' CHR ''+'' (map b64url_char xs)) = map b64_char xs"
  unfolding swap_char_def map_map by (rule map_cong [OF refl]) (simp add: swap_b64 assms)

end
