(* ===== verification/Console_Auth.thy ===== *)
theory Console_Auth
  imports Console_Mode Url
begin

text \<open>
  Signing in (\<open>apps/console/src/aws/config.ts\<close> and \<open>aws/auth.ts\<close>): the configuration, the
  redirect to the hosted sign-in page with a PKCE challenge, the exchange of the code for tokens when the
  page comes back, and the name read from the token. SHA-256 and the random bytes are parameters,
  base64 and the query encodings are those of \<open>Url\<close>. The exchange is split where it waits
  for the answer.
\<close>

section \<open>Configuration\<close>

record AwsConfig =
  region :: string
  cognitoDomain :: string
  userPoolId :: string
  clientId :: string
  identityPoolId :: string
  iotEndpoint :: string
  apiEndpoint :: "string option"

definition strip_slash :: "string \<Rightarrow> string" where
  "strip_slash s = (if s \<noteq> [] \<and> last s = CHR ''/'' then butlast s else s)"

definition awsConfig :: "(string \<Rightarrow> string option) \<Rightarrow> AwsConfig option" where
  "awsConfig ev =
    (if list_all (\<lambda>k. truthy_str (ev k))
       [''VITE_AWS_REGION'', ''VITE_COGNITO_DOMAIN'', ''VITE_COGNITO_USER_POOL_ID'', ''VITE_COGNITO_CLIENT_ID'',
        ''VITE_IDENTITY_POOL_ID'', ''VITE_AWS_IOT_ENDPOINT'']
     then Some \<lparr>region = the (ev ''VITE_AWS_REGION''), cognitoDomain = the (ev ''VITE_COGNITO_DOMAIN''),
       userPoolId = the (ev ''VITE_COGNITO_USER_POOL_ID''), clientId = the (ev ''VITE_COGNITO_CLIENT_ID''),
       identityPoolId = the (ev ''VITE_IDENTITY_POOL_ID''), iotEndpoint = the (ev ''VITE_AWS_IOT_ENDPOINT''),
       apiEndpoint = (let u = strip_slash (or_str (ev ''VITE_AWS_API_ENDPOINT'') []) in if u = [] then None else Some u)\<rparr>
     else None)"

section \<open>Signing in\<close>

definition redirectUri :: "browser \<Rightarrow> string" where
  "redirectUri b = origin b"

definition login_params :: "AwsConfig \<Rightarrow> string \<Rightarrow> browser \<Rightarrow> (string \<times> string) list" where
  "login_params cfg challenge b =
    [(''response_type'', ''code''), (''client_id'', clientId cfg), (''redirect_uri'', redirectUri b),
     (''scope'', ''openid email profile''), (''code_challenge_method'', ''S256''), (''code_challenge'', challenge)]"

text \<open>A storage that fails makes the call reject before it leaves the page.\<close>

definition login :: "(nat list \<Rightarrow> nat list) \<Rightarrow> nat list \<Rightarrow> AwsConfig \<Rightarrow> browser \<Rightarrow> browser" where
  "login sha256 random cfg b =
    (if storage_fails b then b
     else (let verifier = b64url_text random; challenge = b64url_text (sha256 (utf8 verifier)) in
       b\<lparr>stored_verifier := Some verifier,
         left_for := Some (''https://'' @ cognitoDomain cfg @ ''/oauth2/authorize?''
           @ query_text form_encode (login_params cfg challenge b))\<rparr>))"

text \<open>What a call of \<open>completeLoginIfRedirected\<close> comes to: a result, a request to wait for, or a
  rejection.\<close>

datatype login_step = Done "json option" | Exchange string string | Rejected

definition url_param :: "string \<Rightarrow> browser \<Rightarrow> string option" where
  "url_param k b = Option.bind (search_query b) (\<lambda>q. map_of q k)"

definition done_tokens :: "browser \<Rightarrow> login_step \<times> browser" where
  "done_tokens b = (Done (fst (getTokens b)), snd (getTokens b))"

definition complete_start :: "AwsConfig \<Rightarrow> browser \<Rightarrow> login_step \<times> browser" where
  "complete_start cfg b =
    (if \<not> truthy_str (url_param ''code'' b) then done_tokens b
     else if storage_fails b then (Rejected, b)
     else if \<not> truthy_str (stored_verifier b) then done_tokens (b\<lparr>stored_verifier := None\<rparr>)
     else (Exchange (''https://'' @ cognitoDomain cfg @ ''/oauth2/token'')
         (query_text form_encode
           [(''grant_type'', ''authorization_code''), (''client_id'', clientId cfg), (''redirect_uri'', redirectUri b),
            (''code'', the (url_param ''code'' b)), (''code_verifier'', the (stored_verifier b))]),
       b\<lparr>stored_verifier := None\<rparr>))"

definition cleanUrl :: "browser \<Rightarrow> browser" where
  "cleanUrl b = b\<lparr>search_query := map_option (filter (\<lambda>p. fst p \<noteq> ''code'' \<and> fst p \<noteq> ''state'')) (search_query b)\<rparr>"

text \<open>The answer of the token endpoint: none, a refusal, or a document. A lifetime that is not a whole
  number of seconds has no time of expiry that prints as a number.\<close>

datatype token_answer = NoAnswer | Refusal | TokenDocument json

definition token_expiry :: "json \<Rightarrow> int \<Rightarrow> json" where
  "token_expiry d now =
    (case get_field d ''expires_in'' of
       JNum e \<Rightarrow> if dec_is_int e then JInt (now + int_of_dec e * 1000) else JNull
     | _ \<Rightarrow> JNull)"

definition tokens_of :: "json \<Rightarrow> int \<Rightarrow> json" where
  "tokens_of d now = JObj [(''idToken'', get_field d ''id_token''), (''accessToken'', get_field d ''access_token''),
     (''expiresAt'', token_expiry d now)]"

definition complete_finish :: "token_answer \<Rightarrow> browser \<Rightarrow> login_step \<times> browser" where
  "complete_finish a b =
    (case a of
       NoAnswer \<Rightarrow> (Rejected, b)
     | Refusal \<Rightarrow> (Done None, cleanUrl b)
     | TokenDocument d \<Rightarrow>
         if d = JNull \<or> storage_fails b then (Rejected, b)
         else (Done (Some (tokens_of d (wall_clock b))),
           cleanUrl (b\<lparr>stored_tokens := Some (stringify (tokens_of d (wall_clock b)))\<rparr>)))"

section \<open>Who is signed in\<close>

definition latin1 :: "nat list \<Rightarrow> string" where
  "latin1 ns = map char_of ns"

definition token_claims :: "string \<Rightarrow> json option" where
  "token_claims t =
    (let parts = split_on CHR ''.'' t in
     if length parts < 2 then None
     else (let part = parts ! 1;
             text = pad_end (length part + (4 - length part mod 4) mod 4) CHR ''=''
               (swap_char CHR ''_'' CHR ''/'' (swap_char CHR ''-'' CHR ''+'' part))
       in Option.bind (atob text) (\<lambda>bytes. json_parse (latin1 bytes))))"

definition or_json :: "json \<Rightarrow> json \<Rightarrow> json" where
  "or_json a b = (if a = JUndef \<or> a = JNull then b else a)"

definition getUsername :: "browser \<Rightarrow> string option" where
  "getUsername b =
    (case fst (getTokens b) of
       None \<Rightarrow> None
     | Some t \<Rightarrow>
         (case get_field t ''idToken'' of
            JStr i \<Rightarrow>
              (case token_claims i of
                 None \<Rightarrow> None
               | Some p \<Rightarrow>
                   (case or_json (or_json (get_field p ''cognito:username'') (get_field p ''email'')) (get_field p ''sub'') of
                      JStr n \<Rightarrow> Some n
                    | _ \<Rightarrow> None))
          | _ \<Rightarrow> None))"

definition logout :: "AwsConfig \<Rightarrow> browser \<Rightarrow> browser" where
  "logout cfg b =
    (if storage_fails b then b
     else b\<lparr>stored_tokens := None,
       left_for := Some (''https://'' @ cognitoDomain cfg @ ''/logout?''
         @ query_text form_encode [(''client_id'', clientId cfg), (''logout_uri'', redirectUri b)])\<rparr>)"

end
