(* ===== verification/Cloud_Link.thy ===== *)
theory Cloud_Link
  imports Console_Auth
begin

text \<open>
  The live link of an operator session to the cloud (\<open>apps/console/src/aws/useCloudTelemetry.ts\<close>) with
  the calls it makes (\<open>aws/iot.ts\<close>): attach the policy, get credentials, connect, redial. Every
  stretch of a dial between two waits is a function; a dial that waits is an entry of \<open>calls\<close> with the
  generation it was started in, and may be answered at any time, also after the session was torn
  down. Which events can happen when is the relation \<open>link_step\<close>. The broker's client is the one of
  a library: an event arrives only from a client that is still open, a closed client stays closed.
\<close>

section \<open>The calls of \<open>iot.ts\<close>\<close>

record AwsIdentity =
  identityId :: string
  accessKeyId :: string
  secretAccessKey :: string
  sessionToken :: string
  expiresAt :: int

record Credentials =
  AccessKeyId :: "string option"
  SecretKey :: "string option"
  SessionToken :: "string option"
  Expiration :: "int option"

text \<open>What the identity service answers: the identity, and the credentials; a rejected call is \<open>NoIdentity\<close>.\<close>

datatype cognito_answer = NoIdentity | Identity "string option" "Credentials option"

definition getIdentity :: "int \<Rightarrow> cognito_answer \<Rightarrow> AwsIdentity option" where
  "getIdentity now a =
    (case a of
       Identity (Some i) (Some c) \<Rightarrow>
         if i = [] \<or> \<not> truthy_str (AccessKeyId c) \<or> \<not> truthy_str (SecretKey c) \<or> \<not> truthy_str (SessionToken c) then None
         else Some \<lparr>identityId = i, accessKeyId = the (AccessKeyId c), secretAccessKey = the (SecretKey c),
           sessionToken = the (SessionToken c), expiresAt = nullish (Expiration c) (now + 3600000)\<rparr>
     | _ \<Rightarrow> None)"

text \<open>The request for the policy; its answer, whatever it is, never stops the dial.\<close>

definition attach_request :: "AwsConfig \<Rightarrow> string \<Rightarrow> (string \<times> string) option" where
  "attach_request cfg idToken =
    (if truthy_str (apiEndpoint cfg) then Some (the (apiEndpoint cfg) @ ''/api/iot/attach-policy'', ''Bearer '' @ idToken)
     else None)"

definition attach_result :: "AwsConfig \<Rightarrow> nat option \<Rightarrow> bool" where
  "attach_result cfg answer =
    (truthy_str (apiEndpoint cfg) \<and> (case answer of Some st \<Rightarrow> 200 \<le> st \<and> st < 300 | None \<Rightarrow> False))"

text \<open>The signer gets the key and the secret, not the session token; it gives back the path and the
  signed query, in order.\<close>

type_synonym signer = "string \<Rightarrow> string \<Rightarrow> string \<Rightarrow> string \<Rightarrow> string \<Rightarrow> string \<times> (string \<times> string) list"

definition presignWssUrl :: "signer \<Rightarrow> AwsConfig \<Rightarrow> AwsIdentity \<Rightarrow> string" where
  "presignWssUrl presign cfg i =
    (case presign (accessKeyId i) (secretAccessKey i) (region cfg) (iotEndpoint cfg) ''/mqtt'' of (path, query) \<Rightarrow>
      ''wss://'' @ iotEndpoint cfg @ path @ ''?'' @ query_text encodeURIComponent query
        @ ''&X-Amz-Security-Token='' @ encodeURIComponent (sessionToken i))"

section \<open>State\<close>

datatype CloudState = LinkOff | SignedOut | Connecting | Live | LinkError

datatype stage = Attaching | Authenticating | Presigning AwsIdentity

record dial_call =
  dc_gen :: nat
  dc_token :: string
  dc_stage :: stage

text \<open>A client of the broker: the dial that made it, whether it was link_message to the page (with its handlers),
  whether the page has ended it, and whether its close event has arrived.\<close>

record iot_client =
  cl_gen :: nat
  cl_url :: string
  cl_id :: string
  wired :: bool
  ended :: bool
  closed :: bool

datatype link_message = Telemetry json | Heartbeat json | ProposalMsg json | StatusMsg json

record link_hook =
  gen :: nat
  link_mounted :: bool
  fails :: nat
  attached :: bool
  identity :: "AwsIdentity option"
  id_token_ref :: "string option"
  client :: "nat option"
  clients :: "iot_client list"
  boots :: "nat list"
  calls :: "dial_call list"
  redials :: "(int \<times> nat) list"
  subscribing :: "nat list"
  shown :: CloudState
  posts :: "(string \<times> string) list"
  delivered :: "(nat \<times> link_message) list"
  link_clock :: int

definition link_start :: "int \<Rightarrow> link_hook" where
  "link_start t = \<lparr>gen = 0, link_mounted = False, fails = 0, attached = False, identity = None, id_token_ref = None,
     client = None, clients = [], boots = [], calls = [], redials = [], subscribing = [], shown = SignedOut, posts = [],
     delivered = [], link_clock = t\<rparr>"

definition RECONNECT_MS :: int where "RECONNECT_MS = 3000"

definition remove_at :: "nat \<Rightarrow> 'a list \<Rightarrow> 'a list" where
  "remove_at i xs = take i xs @ drop (Suc i) xs"

section \<open>Dialling\<close>

definition wait_for :: "nat \<Rightarrow> string \<Rightarrow> stage \<Rightarrow> link_hook \<Rightarrow> link_hook" where
  "wait_for g t st s = s\<lparr>calls := calls s @ [\<lparr>dc_gen = g, dc_token = t, dc_stage = st\<rparr>]\<rparr>"

text \<open>From the credentials on: use those there are unless they expire within five minutes.\<close>

definition authenticate :: "nat \<Rightarrow> string \<Rightarrow> link_hook \<Rightarrow> link_hook" where
  "authenticate g t s =
    (case identity s of
       Some i \<Rightarrow> if expiresAt i - 300000 < link_clock s then wait_for g t Authenticating s else wait_for g t (Presigning i) s
     | None \<Rightarrow> wait_for g t Authenticating s)"

definition dial :: "AwsConfig \<Rightarrow> link_hook \<Rightarrow> link_hook" where
  "dial cfg s =
    (if \<not> truthy_str (id_token_ref s) then s
     else (let t = the (id_token_ref s); s1 = s\<lparr>shown := Connecting\<rparr> in
       if \<not> attached s
       then wait_for (gen s) t Attaching
         (s1\<lparr>posts := posts s @ (case attach_request cfg t of None \<Rightarrow> [] | Some r \<Rightarrow> [r])\<rparr>)
       else authenticate (gen s) t s1))"

text \<open>The \<open>catch\<close> of the dial.\<close>

definition dial_failed :: "nat \<Rightarrow> link_hook \<Rightarrow> link_hook" where
  "dial_failed g s =
    (if g \<noteq> gen s then s
     else s\<lparr>shown := LinkError, redials := redials s @ [(link_clock s + RECONNECT_MS * 2, gen s)]\<rparr>)"

text \<open>\<open>clientRef.current?.end(true)\<close>.\<close>

definition end_client :: "link_hook \<Rightarrow> link_hook" where
  "end_client s =
    (case client s of
       None \<Rightarrow> s
     | Some n \<Rightarrow> s\<lparr>clients := (clients s)[n := (clients s ! n)\<lparr>ended := True\<rparr>]\<rparr>)"

text \<open>The three places a dial goes on from, with the answer it waited for.\<close>

definition after_attach :: "dial_call \<Rightarrow> link_hook \<Rightarrow> link_hook" where
  "after_attach c s =
    (let s1 = s\<lparr>attached := True\<rparr> in if dc_gen c \<noteq> gen s then s1 else authenticate (dc_gen c) (dc_token c) s1)"

definition after_identity :: "dial_call \<Rightarrow> cognito_answer \<Rightarrow> link_hook \<Rightarrow> link_hook" where
  "after_identity c a s =
    (case getIdentity (link_clock s) a of
       None \<Rightarrow> dial_failed (dc_gen c) s
     | Some i \<Rightarrow>
         (let s1 = s\<lparr>identity := Some i\<rparr> in
          if dc_gen c \<noteq> gen s then s1 else wait_for (dc_gen c) (dc_token c) (Presigning i) s1))"

definition after_connect :: "signer \<Rightarrow> AwsConfig \<Rightarrow> dial_call \<Rightarrow> AwsIdentity \<Rightarrow> bool \<Rightarrow> link_hook \<Rightarrow> link_hook" where
  "after_connect presign cfg c i ok s =
    (let new = \<lparr>cl_gen = dc_gen c, cl_url = presignWssUrl presign cfg i, cl_id = identityId i, wired = True,
        ended = False, closed = False\<rparr> in
     if \<not> ok then dial_failed (dc_gen c) s
     else if dc_gen c \<noteq> gen s then s\<lparr>clients := clients s @ [new\<lparr>wired := False, ended := True\<rparr>]\<rparr>
     else (let s1 = end_client s in s1\<lparr>client := Some (length (clients s1)), clients := clients s1 @ [new]\<rparr>))"

section \<open>The client's events\<close>

definition subscribed :: "nat \<Rightarrow> bool \<Rightarrow> link_hook \<Rightarrow> link_hook" where
  "subscribed n ok s =
    (if cl_gen (clients s ! n) \<noteq> gen s then s
     else (if ok then s\<lparr>fails := 0, shown := Live\<rparr> else s\<lparr>shown := LinkError\<rparr>))"

definition route :: "string \<Rightarrow> json \<Rightarrow> link_message option" where
  "route topic msg =
    (if ends_with topic ''/telemetry'' then Some (Telemetry msg)
     else if ends_with topic ''/heartbeat'' then Some (Heartbeat msg)
     else if ends_with topic ''/maneuver/proposal'' then Some (ProposalMsg msg)
     else if ends_with topic ''/maneuver/status'' then Some (StatusMsg msg)
     else None)"

definition on_link_message :: "nat \<Rightarrow> string \<Rightarrow> string \<Rightarrow> link_hook \<Rightarrow> link_hook" where
  "on_link_message n topic text s =
    (case Option.bind (json_parse text) (route topic) of
       None \<Rightarrow> s
     | Some m \<Rightarrow> s\<lparr>delivered := delivered s @ [(n, m)]\<rparr>)"

definition on_close :: "nat \<Rightarrow> link_hook \<Rightarrow> link_hook" where
  "on_close n s =
    (let s1 = s\<lparr>client := (if client s = Some n then None else client s)\<rparr> in
     if cl_gen (clients s ! n) \<noteq> gen s then s1
     else s1\<lparr>fails := Suc (fails s), shown := (if 5 \<le> Suc (fails s) then LinkError else Connecting),
       redials := redials s @ [(link_clock s + RECONNECT_MS, gen s)]\<rparr>)"

definition on_error :: "nat \<Rightarrow> link_hook \<Rightarrow> link_hook" where
  "on_error n s = s\<lparr>clients := (clients s)[n := (clients s ! n)\<lparr>ended := True\<rparr>]\<rparr>"

definition redial_due :: "AwsConfig \<Rightarrow> nat \<Rightarrow> link_hook \<Rightarrow> link_hook" where
  "redial_due cfg g s = (if g = gen s then dial cfg s else s)"

section \<open>Mounting, signing out\<close>

definition mount_link :: "link_hook \<Rightarrow> link_hook" where
  "mount_link s = s\<lparr>gen := Suc (gen s), link_mounted := True, boots := boots s @ [Suc (gen s)]\<rparr>"

definition unmount_link :: "link_hook \<Rightarrow> link_hook" where
  "unmount_link s = (end_client (s\<lparr>gen := Suc (gen s), link_mounted := False\<rparr>))\<lparr>client := None\<rparr>"

text \<open>The boot goes on with the tokens of the sign-in, if there are any.\<close>

definition booted :: "AwsConfig \<Rightarrow> nat \<Rightarrow> string option \<Rightarrow> link_hook \<Rightarrow> link_hook" where
  "booted cfg g tokens s =
    (if g \<noteq> gen s then s
     else (case tokens of
         Some t \<Rightarrow> dial cfg (s\<lparr>id_token_ref := Some t\<rparr>)
       | None \<Rightarrow> s\<lparr>shown := SignedOut\<rparr>))"

definition sign_out :: "link_hook \<Rightarrow> link_hook" where
  "sign_out s = (end_client (s\<lparr>gen := Suc (gen s)\<rparr>))\<lparr>identity := None, attached := False\<rparr>"

section \<open>What can happen when\<close>

text \<open>The label tells the steps that begin or end a generation from all others.\<close>

datatype label = LMount | LUnmount | LSignOut | LStep

definition open_client :: "iot_client \<Rightarrow> bool" where
  "open_client c = (\<not> ended c \<and> \<not> closed c)"

definition set_closed :: "nat \<Rightarrow> link_hook \<Rightarrow> link_hook" where
  "set_closed n s = s\<lparr>clients := (clients s)[n := (clients s ! n)\<lparr>closed := True\<rparr>]\<rparr>"

inductive link_step :: "signer \<Rightarrow> AwsConfig \<Rightarrow> link_hook \<Rightarrow> label \<Rightarrow> link_hook \<Rightarrow> bool" for presign cfg where
  Mount: "\<not> link_mounted s \<Longrightarrow> link_step presign cfg s LMount (mount_link s)"
| Unmount: "link_mounted s \<Longrightarrow> link_step presign cfg s LUnmount (unmount_link s)"
| SignOut: "link_mounted s \<Longrightarrow> link_step presign cfg s LSignOut (sign_out s)"
| Boot: "i < length (boots s) \<Longrightarrow>
    link_step presign cfg s LStep (booted cfg (boots s ! i) tokens (s\<lparr>boots := remove_at i (boots s)\<rparr>))"
| BootFails: "i < length (boots s) \<Longrightarrow> link_step presign cfg s LStep (s\<lparr>boots := remove_at i (boots s)\<rparr>)"
| PolicyAnswer: "i < length (calls s) \<Longrightarrow> dc_stage (calls s ! i) = Attaching \<Longrightarrow>
    link_step presign cfg s LStep (after_attach (calls s ! i) (s\<lparr>calls := remove_at i (calls s)\<rparr>))"
| IdentityAnswer: "i < length (calls s) \<Longrightarrow> dc_stage (calls s ! i) = Authenticating \<Longrightarrow>
    link_step presign cfg s LStep (after_identity (calls s ! i) answer (s\<lparr>calls := remove_at i (calls s)\<rparr>))"
| ConnectAnswer: "i < length (calls s) \<Longrightarrow> dc_stage (calls s ! i) = Presigning d \<Longrightarrow>
    link_step presign cfg s LStep (after_connect presign cfg (calls s ! i) d ok (s\<lparr>calls := remove_at i (calls s)\<rparr>))"
| ClientConnect: "n < length (clients s) \<Longrightarrow> wired (clients s ! n) \<Longrightarrow> open_client (clients s ! n) \<Longrightarrow>
    link_step presign cfg s LStep (s\<lparr>subscribing := subscribing s @ [n]\<rparr>)"
| ClientSubscribed: "k < length (subscribing s) \<Longrightarrow> n = subscribing s ! k \<Longrightarrow> n < length (clients s) \<Longrightarrow>
    (ok \<Longrightarrow> open_client (clients s ! n)) \<Longrightarrow>
    link_step presign cfg s LStep (subscribed n ok (s\<lparr>subscribing := remove_at k (subscribing s)\<rparr>))"
| ClientMessage: "n < length (clients s) \<Longrightarrow> wired (clients s ! n) \<Longrightarrow> open_client (clients s ! n) \<Longrightarrow>
    link_step presign cfg s LStep (on_link_message n topic msg s)"
| ClientClose: "n < length (clients s) \<Longrightarrow> \<not> closed (clients s ! n) \<Longrightarrow>
    link_step presign cfg s LStep
      (if wired (clients s ! n) then on_close n (set_closed n s) else set_closed n s)"
| ClientError: "n < length (clients s) \<Longrightarrow> wired (clients s ! n) \<Longrightarrow> \<not> closed (clients s ! n) \<Longrightarrow>
    link_step presign cfg s LStep (on_error n s)"
| Redial: "i < length (redials s) \<Longrightarrow> fst (redials s ! i) \<le> link_clock s \<Longrightarrow>
    link_step presign cfg s LStep (redial_due cfg (snd (redials s ! i)) (s\<lparr>redials := remove_at i (redials s)\<rparr>))"
| Time: "link_step presign cfg s LStep (s\<lparr>link_clock := link_clock s + int d\<rparr>)"

inductive link_run :: "signer \<Rightarrow> AwsConfig \<Rightarrow> link_hook \<Rightarrow> label list \<Rightarrow> link_hook \<Rightarrow> bool" for presign cfg where
  Stay: "link_run presign cfg s [] s"
| Go: "link_run presign cfg s ls s' \<Longrightarrow> link_step presign cfg s' l s'' \<Longrightarrow> link_run presign cfg s (ls @ [l]) s''"

end
