(* ===== verification/Cloud_Link_Inv.thy ===== *)
theory Cloud_Link_Inv
  imports Cloud_Link
begin

text \<open>
  The invariant of the live link: at most one client is open, and it is the present one; at most one
  thing is under way for the present generation, and an open badge belongs to a client. Every step
  keeps it, and within a generation what is under way is replaced, never lost.
\<close>

section \<open>Lists that lose and change an element\<close>

lemma count_remove_at:
  "i < length xs \<Longrightarrow> length (filter P xs) = length (filter P (remove_at i xs)) + (if P (xs ! i) then 1 else 0)"
  by (subst id_take_nth_drop [of i xs]) (simp_all add: remove_at_def)

lemma set_remove_at: "set (remove_at i xs) \<subseteq> set xs"
  by (auto simp: remove_at_def dest: in_set_takeD in_set_dropD)

lemma count_update:
  "n < length xs \<Longrightarrow> length (filter P (xs[n := y])) + (if P (xs ! n) then 1 else 0)
    = length (filter P xs) + (if P y then 1 else 0)"
  by (subst (3) id_take_nth_drop [of n xs]) (simp_all add: upd_conv_take_nth_drop)

section \<open>The invariant\<close>

text \<open>What keeps the link of the present generation going: a boot, a dial that waits, a redial, a client.\<close>

definition live_client :: "nat \<Rightarrow> iot_client \<Rightarrow> bool" where
  "live_client g c = (wired c \<and> \<not> closed c \<and> cl_gen c = g)"

definition dialling :: "link_hook \<Rightarrow> nat" where
  "dialling s = length (filter (\<lambda>c. dc_gen c = gen s) (calls s)) + length (filter (\<lambda>r. snd r = gen s) (redials s))"

definition connected :: "link_hook \<Rightarrow> nat" where
  "connected s = length (filter (live_client (gen s)) (clients s))"

definition booting :: "link_hook \<Rightarrow> nat" where
  "booting s = length (filter (\<lambda>g. g = gen s) (boots s))"

definition only_current :: "link_hook \<Rightarrow> bool" where
  "only_current s = (\<forall>n < length (clients s). open_client (clients s ! n) \<longrightarrow>
     client s = Some n \<and> live_client (gen s) (clients s ! n) \<and> link_mounted s)"

definition past :: "link_hook \<Rightarrow> bool" where
  "past s = ((\<forall>g \<in> set (boots s). g \<le> gen s) \<and> (\<forall>c \<in> set (calls s). dc_gen c \<le> gen s) \<and>
     (\<forall>r \<in> set (redials s). snd r \<le> gen s) \<and> (\<forall>c \<in> set (clients s). cl_gen c \<le> gen s) \<and>
     (\<forall>n. client s = Some n \<longrightarrow> n < length (clients s)))"

definition link_inv :: "link_hook \<Rightarrow> bool" where
  "link_inv s = (only_current s \<and> past s \<and> booting s + dialling s + connected s \<le> 1 \<and>
     (0 < dialling s \<longrightarrow> shown s \<noteq> Live) \<and> (0 < booting s + dialling s + connected s \<longrightarrow> link_mounted s))"

definition idle_link :: "link_hook \<Rightarrow> bool" where
  "idle_link s = (booting s + dialling s + connected s = 0)"

text \<open>What the parts of the invariant do not look at.\<close>

lemma only_current_simps [simp]:
  "only_current (s\<lparr>shown := v\<rparr>) = only_current s" "only_current (s\<lparr>posts := p\<rparr>) = only_current s"
  "only_current (s\<lparr>attached := a\<rparr>) = only_current s" "only_current (s\<lparr>identity := d\<rparr>) = only_current s"
  "only_current (s\<lparr>id_token_ref := t\<rparr>) = only_current s" "only_current (s\<lparr>subscribing := ns\<rparr>) = only_current s"
  "only_current (s\<lparr>delivered := ds\<rparr>) = only_current s" "only_current (s\<lparr>fails := f\<rparr>) = only_current s"
  "only_current (s\<lparr>link_clock := k\<rparr>) = only_current s" "only_current (s\<lparr>boots := bs\<rparr>) = only_current s"
  "only_current (s\<lparr>calls := cs\<rparr>) = only_current s" "only_current (s\<lparr>redials := rs\<rparr>) = only_current s"
  by (simp_all add: only_current_def)

lemma past_simps [simp]:
  "past (s\<lparr>shown := v\<rparr>) = past s" "past (s\<lparr>posts := p\<rparr>) = past s" "past (s\<lparr>attached := a\<rparr>) = past s"
  "past (s\<lparr>identity := d\<rparr>) = past s" "past (s\<lparr>id_token_ref := t\<rparr>) = past s" "past (s\<lparr>subscribing := ns\<rparr>) = past s"
  "past (s\<lparr>delivered := ds\<rparr>) = past s" "past (s\<lparr>fails := f\<rparr>) = past s" "past (s\<lparr>link_clock := k\<rparr>) = past s"
  by (simp_all add: past_def)

lemma booting_simps [simp]:
  "booting (s\<lparr>shown := v\<rparr>) = booting s" "booting (s\<lparr>posts := p\<rparr>) = booting s" "booting (s\<lparr>attached := a\<rparr>) = booting s"
  "booting (s\<lparr>identity := d\<rparr>) = booting s" "booting (s\<lparr>id_token_ref := t\<rparr>) = booting s"
  "booting (s\<lparr>subscribing := ns\<rparr>) = booting s" "booting (s\<lparr>delivered := ds\<rparr>) = booting s"
  "booting (s\<lparr>fails := f\<rparr>) = booting s" "booting (s\<lparr>link_clock := k\<rparr>) = booting s"
  "booting (s\<lparr>calls := cs\<rparr>) = booting s" "booting (s\<lparr>redials := rs\<rparr>) = booting s"
  "booting (s\<lparr>client := x\<rparr>) = booting s" "booting (s\<lparr>clients := xs\<rparr>) = booting s"
  by (simp_all add: booting_def)

lemma dialling_simps [simp]:
  "dialling (s\<lparr>shown := v\<rparr>) = dialling s" "dialling (s\<lparr>posts := p\<rparr>) = dialling s" "dialling (s\<lparr>attached := a\<rparr>) = dialling s"
  "dialling (s\<lparr>identity := d\<rparr>) = dialling s" "dialling (s\<lparr>id_token_ref := t\<rparr>) = dialling s"
  "dialling (s\<lparr>subscribing := ns\<rparr>) = dialling s" "dialling (s\<lparr>delivered := ds\<rparr>) = dialling s"
  "dialling (s\<lparr>fails := f\<rparr>) = dialling s" "dialling (s\<lparr>link_clock := k\<rparr>) = dialling s"
  "dialling (s\<lparr>boots := bs\<rparr>) = dialling s" "dialling (s\<lparr>client := x\<rparr>) = dialling s" "dialling (s\<lparr>clients := xs\<rparr>) = dialling s"
  by (simp_all add: dialling_def)

lemma connected_simps [simp]:
  "connected (s\<lparr>shown := v\<rparr>) = connected s" "connected (s\<lparr>posts := p\<rparr>) = connected s"
  "connected (s\<lparr>attached := a\<rparr>) = connected s" "connected (s\<lparr>identity := d\<rparr>) = connected s"
  "connected (s\<lparr>id_token_ref := t\<rparr>) = connected s" "connected (s\<lparr>subscribing := ns\<rparr>) = connected s"
  "connected (s\<lparr>delivered := ds\<rparr>) = connected s" "connected (s\<lparr>fails := f\<rparr>) = connected s"
  "connected (s\<lparr>link_clock := k\<rparr>) = connected s" "connected (s\<lparr>boots := bs\<rparr>) = connected s"
  "connected (s\<lparr>calls := cs\<rparr>) = connected s" "connected (s\<lparr>redials := rs\<rparr>) = connected s"
  "connected (s\<lparr>client := x\<rparr>) = connected s"
  by (simp_all add: connected_def)

text \<open>Taking a pending boot, dial or redial away.\<close>

lemma past_remove [simp]:
  "past s \<Longrightarrow> past (s\<lparr>boots := remove_at i (boots s)\<rparr>)" "past s \<Longrightarrow> past (s\<lparr>calls := remove_at i (calls s)\<rparr>)"
  "past s \<Longrightarrow> past (s\<lparr>redials := remove_at i (redials s)\<rparr>)"
  using set_remove_at [of i "boots s"] set_remove_at [of i "calls s"] set_remove_at [of i "redials s"]
  by (auto simp: past_def)

lemma booting_remove:
  "i < length (boots s) \<Longrightarrow>
    booting s = booting (s\<lparr>boots := remove_at i (boots s)\<rparr>) + (if boots s ! i = gen s then 1 else 0)"
  by (simp add: booting_def count_remove_at)

lemma dialling_remove:
  "i < length (calls s) \<Longrightarrow>
    dialling s = dialling (s\<lparr>calls := remove_at i (calls s)\<rparr>) + (if dc_gen (calls s ! i) = gen s then 1 else 0)"
  "i < length (redials s) \<Longrightarrow>
    dialling s = dialling (s\<lparr>redials := remove_at i (redials s)\<rparr>) + (if snd (redials s ! i) = gen s then 1 else 0)"
  by (simp_all add: dialling_def count_remove_at)

lemma inv_remove_boot:
  assumes "link_inv s" "i < length (boots s)"
  shows "link_inv (s\<lparr>boots := remove_at i (boots s)\<rparr>)"
    "boots s ! i = gen s \<Longrightarrow> idle_link (s\<lparr>boots := remove_at i (boots s)\<rparr>) \<and> link_mounted s"
  using assms booting_remove [OF assms(2)] by (auto simp: link_inv_def idle_link_def)

lemma inv_remove_call:
  assumes "link_inv s" "i < length (calls s)"
  shows "link_inv (s\<lparr>calls := remove_at i (calls s)\<rparr>)"
    "dc_gen (calls s ! i) = gen s \<Longrightarrow>
      idle_link (s\<lparr>calls := remove_at i (calls s)\<rparr>) \<and> link_mounted s \<and> shown s \<noteq> Live"
  using assms dialling_remove(1) [OF assms(2)] by (auto simp: link_inv_def idle_link_def)

lemma inv_remove_redial:
  assumes "link_inv s" "i < length (redials s)"
  shows "link_inv (s\<lparr>redials := remove_at i (redials s)\<rparr>)"
    "snd (redials s ! i) = gen s \<Longrightarrow>
      idle_link (s\<lparr>redials := remove_at i (redials s)\<rparr>) \<and> link_mounted s \<and> shown s \<noteq> Live"
  using assms dialling_remove(2) [OF assms(2)] by (auto simp: link_inv_def idle_link_def)

text \<open>One more dial or redial.\<close>

lemma add_call:
  "dialling (s\<lparr>calls := calls s @ [c]\<rparr>) = dialling s + (if dc_gen c = gen s then 1 else 0)"
  "past s \<Longrightarrow> dc_gen c = gen s \<Longrightarrow> past (s\<lparr>calls := calls s @ [c]\<rparr>)"
  by (auto simp: dialling_def past_def)

lemma add_redial:
  "dialling (s\<lparr>redials := redials s @ [r]\<rparr>) = dialling s + (if snd r = gen s then 1 else 0)"
  "past s \<Longrightarrow> snd r = gen s \<Longrightarrow> past (s\<lparr>redials := redials s @ [r]\<rparr>)"
  by (auto simp: dialling_def past_def)

text \<open>Dialling, from a link on which nothing is under way.\<close>

definition ready :: "link_hook \<Rightarrow> bool" where
  "ready s = (link_inv s \<and> idle_link s \<and> link_mounted s)"

lemma inv_wait_for:
  "ready s \<Longrightarrow> shown s \<noteq> Live \<Longrightarrow> link_inv (wait_for (gen s) t st s) \<and> dialling (wait_for (gen s) t st s) = 1"
  by (auto simp: ready_def idle_link_def link_inv_def wait_for_def add_call)

lemma inv_authenticate:
  "ready s \<Longrightarrow> shown s \<noteq> Live \<Longrightarrow> link_inv (authenticate (gen s) t s) \<and> dialling (authenticate (gen s) t s) = 1"
  by (auto simp: authenticate_def inv_wait_for split: option.split)

lemma ready_shown: "ready s \<Longrightarrow> ready (s\<lparr>shown := x\<rparr>)"
  by (auto simp: ready_def idle_link_def link_inv_def)

lemma ready_posts: "ready s \<Longrightarrow> ready (s\<lparr>posts := x\<rparr>)"
  by (auto simp: ready_def idle_link_def link_inv_def)

lemma inv_dial:
  assumes "ready s"
  shows "link_inv (dial cfg s)" "truthy_str (id_token_ref s) \<Longrightarrow> dialling (dial cfg s) = 1"
proof -
  let ?s = "s\<lparr>shown := Connecting\<rparr>"
  have r: "ready ?s" "ready (?s\<lparr>posts := x\<rparr>)" for x using assms ready_shown ready_posts by blast+
  show "link_inv (dial cfg s)" "truthy_str (id_token_ref s) \<Longrightarrow> dialling (dial cfg s) = 1"
    using assms inv_authenticate [OF r(1)] inv_wait_for [OF r(2)] by (auto simp: dial_def Let_def ready_def)
qed

lemma inv_dial_failed:
  "ready s \<Longrightarrow> link_inv (dial_failed (gen s) s) \<and> dialling (dial_failed (gen s) s) = 1"
  using add_redial [of "s\<lparr>shown := LinkError\<rparr>"]
  by (auto simp: ready_def idle_link_def link_inv_def dial_failed_def)

text \<open>Ending the client, and the next one.\<close>

lemma end_client_simps [simp]:
  "gen (end_client s) = gen s" "client (end_client s) = client s" "length (clients (end_client s)) = length (clients s)"
  "boots (end_client s) = boots s" "calls (end_client s) = calls s" "redials (end_client s) = redials s"
  "shown (end_client s) = shown s" "link_mounted (end_client s) = link_mounted s" "posts (end_client s) = posts s"
  "attached (end_client s) = attached s" "identity (end_client s) = identity s" "id_token_ref (end_client s) = id_token_ref s"
  "link_clock (end_client s) = link_clock s" "fails (end_client s) = fails s" "subscribing (end_client s) = subscribing s"
  by (simp_all add: end_client_def split: option.split)

lemma end_client_nth:
  "n < length (clients s) \<Longrightarrow> clients (end_client s) ! n =
    (if client s = Some n then (clients s ! n)\<lparr>ended := True\<rparr> else clients s ! n)"
  by (simp add: end_client_def nth_list_update split: option.split)

lemma end_client_clients:
  "n < length (clients s) \<Longrightarrow> only_current s \<Longrightarrow> \<not> open_client (clients (end_client s) ! n)"
  "n < length (clients s) \<Longrightarrow> live_client g (clients (end_client s) ! n) = live_client g (clients s ! n)"
  "n < length (clients s) \<Longrightarrow> cl_gen (clients (end_client s) ! n) = cl_gen (clients s ! n)"
  by (auto simp: end_client_nth only_current_def open_client_def live_client_def)

lemma count_update_same:
  "n < length xs \<Longrightarrow> P y = P (xs ! n) \<Longrightarrow> length (filter P (xs[n := y])) = length (filter P xs)"
  using count_update [of n xs P y] by (auto split: if_splits)

lemma live_client_ended [simp]: "live_client g (c\<lparr>ended := b\<rparr>) = live_client g c"
  by (simp add: live_client_def)

lemma end_client_connected:
  "past s \<Longrightarrow> length (filter (live_client g) (clients (end_client s))) = length (filter (live_client g) (clients s))"
  by (auto simp: end_client_def past_def count_update_same split: option.split)

lemma live_connected:
  "n < length (clients s) \<Longrightarrow> live_client (gen s) (clients s ! n) \<Longrightarrow> 0 < connected s"
  by (auto simp: connected_def filter_empty_conv)

lemma past_clients:
  "past s \<Longrightarrow> n < length (clients s) \<Longrightarrow> cl_gen c = cl_gen (clients s ! n) \<Longrightarrow> past (s\<lparr>clients := (clients s)[n := c]\<rparr>)"
  by (auto simp: past_def dest!: set_update_subset_insert [THEN subsetD])

lemma only_current_update:
  "only_current s \<Longrightarrow> n < length (clients s) \<Longrightarrow> \<not> open_client c \<Longrightarrow> only_current (s\<lparr>clients := (clients s)[n := c]\<rparr>)"
  by (simp add: only_current_def nth_list_update)

lemma inv_only_current: "link_inv s \<Longrightarrow> only_current s" and inv_past: "link_inv s \<Longrightarrow> past s"
  by (simp_all add: link_inv_def)

text \<open>Closing and ending a client.\<close>

lemma inv_set_closed:
  assumes "link_inv s" "n < length (clients s)" "\<not> closed (clients s ! n)"
  shows "link_inv (set_closed n s)"
    "live_client (gen s) (clients s ! n) \<Longrightarrow> idle_link (set_closed n s) \<and> link_mounted s"
proof -
  let ?c = "(clients s ! n)\<lparr>closed := True\<rparr>"
  have "connected (set_closed n s) + (if live_client (gen s) (clients s ! n) then 1 else 0) = connected s"
    using count_update [OF assms(2), of "live_client (gen s)" ?c] by (simp add: connected_def set_closed_def live_client_def)
  moreover have "only_current (set_closed n s)"
    using only_current_update [OF inv_only_current [OF assms(1)] assms(2)] by (simp add: set_closed_def open_client_def)
  moreover have "past (set_closed n s)"
    using assms(1,2) past_clients by (simp add: link_inv_def set_closed_def)
  moreover have "booting (set_closed n s) = booting s" "dialling (set_closed n s) = dialling s" "shown (set_closed n s) = shown s"
    "link_mounted (set_closed n s) = link_mounted s" by (simp_all add: set_closed_def)
  ultimately show "link_inv (set_closed n s)"
    "live_client (gen s) (clients s ! n) \<Longrightarrow> idle_link (set_closed n s) \<and> link_mounted s"
    using assms(1) by (auto simp: link_inv_def idle_link_def)
qed

lemma inv_on_error:
  assumes "link_inv s" "n < length (clients s)"
  shows "link_inv (on_error n s)"
proof -
  have "connected (on_error n s) = connected s"
    using assms(2) by (simp add: connected_def on_error_def count_update_same)
  moreover have "only_current (on_error n s)"
    using only_current_update [OF inv_only_current [OF assms(1)] assms(2)] by (simp add: on_error_def open_client_def)
  moreover have "past (on_error n s)"
    using assms past_clients by (simp add: link_inv_def on_error_def)
  ultimately show ?thesis using assms(1) by (simp add: link_inv_def on_error_def)
qed

lemma only_current_no_client:
  assumes "only_current s" "\<And>n. client s = Some n \<Longrightarrow> \<not> open_client (clients s ! n)"
  shows "only_current (s\<lparr>client := None\<rparr>)"
proof -
  have "\<not> open_client (clients s ! n)" if "n < length (clients s)" for n
    using assms that unfolding only_current_def by blast
  then show ?thesis by (simp add: only_current_def)
qed

lemma past_no_client: "past s \<Longrightarrow> past (s\<lparr>client := None\<rparr>)"
  by (simp add: past_def)

lemma inv_no_client: "link_inv s \<Longrightarrow> (\<And>n. client s = Some n \<Longrightarrow> \<not> open_client (clients s ! n)) \<Longrightarrow> link_inv (s\<lparr>client := None\<rparr>)"
  using only_current_no_client [of s] by (simp add: link_inv_def past_no_client)

lemma inv_on_close:
  assumes "link_inv s" "n < length (clients s)" "\<not> closed (clients s ! n)" "wired (clients s ! n)"
  shows "link_inv (on_close n (set_closed n s))"
    "cl_gen (clients s ! n) = gen s \<Longrightarrow> dialling (on_close n (set_closed n s)) = 1"
proof -
  let ?s = "set_closed n s"
  let ?t = "?s\<lparr>client := (if client ?s = Some n then None else client ?s)\<rparr>"
  have f: "gen ?s = gen s" "cl_gen (clients ?s ! n) = cl_gen (clients s ! n)" "closed (clients ?s ! n)"
    "link_mounted ?s = link_mounted s"
    using assms(2) by (simp_all add: set_closed_def)
  have i: "link_inv ?s" by (rule inv_set_closed(1) [OF assms(1-3)])
  then have t: "link_inv ?t" using f(3) inv_no_client [of ?s] by (auto simp: open_client_def)
  have r: "link_inv (on_close n ?s) \<and> dialling (on_close n ?s) = 1" if g: "cl_gen (clients s ! n) = gen s"
  proof -
    have "idle_link ?s" "link_mounted ?s"
      using inv_set_closed(2) [OF assms(1-3)] assms(3,4) g f by (simp_all add: live_client_def)
    then have "ready ?t" using t by (simp add: ready_def idle_link_def)
    with add_redial [of "?t\<lparr>fails := Suc (fails s), shown := if 5 \<le> Suc (fails s) then LinkError else Connecting\<rparr>"
        "(link_clock s + RECONNECT_MS, gen s)"]
    show ?thesis
      using g f by (auto simp: on_close_def Let_def ready_def idle_link_def link_inv_def set_closed_def)
  qed
  then show "cl_gen (clients s ! n) = gen s \<Longrightarrow> dialling (on_close n ?s) = 1" by blast
  show "link_inv (on_close n ?s)"
  proof (cases "cl_gen (clients s ! n) = gen s")
    case False
    then have "on_close n ?s = ?t" using f by (simp add: on_close_def)
    with t show ?thesis by simp
  qed (use r in blast)
qed

text \<open>A new client, after the one before has been ended.\<close>

lemma all_ended: "only_current s \<Longrightarrow> n < length (clients s) \<Longrightarrow> \<not> open_client (clients (end_client s) ! n)"
  by (rule end_client_clients(1))

lemma inv_new_client:
  assumes "ready s" "cl_gen c = gen s" "wired c" "\<not> closed c"
  shows "link_inv ((end_client s)\<lparr>client := Some (length (clients s)), clients := clients (end_client s) @ [c]\<rparr>)"
    "connected ((end_client s)\<lparr>client := Some (length (clients s)), clients := clients (end_client s) @ [c]\<rparr>) = 1"
proof -
  let ?t = "(end_client s)\<lparr>client := Some (length (clients s)), clients := clients (end_client s) @ [c]\<rparr>"
  have i: "link_inv s" "idle_link s" "link_mounted s" using assms(1) by (simp_all add: ready_def)
  note p = inv_past [OF i(1)] and o = inv_only_current [OF i(1)]
  have "connected ?t = Suc (connected s)"
    using assms(2-4) end_client_connected [OF p] by (simp add: connected_def live_client_def)
  moreover have "booting ?t = booting s" "dialling ?t = dialling s"
    by (simp_all add: booting_def dialling_def)
  moreover have "only_current ?t"
    using all_ended [OF o] assms(2-4) i(3) by (auto simp: only_current_def nth_append live_client_def)
  moreover have "past ?t"
  proof -
    have "cl_gen x \<le> gen s" if "x \<in> set (clients (end_client s))" for x
      using that p end_client_clients(3) [of _ s] by (fastforce simp: past_def in_set_conv_nth)
    with p assms(2) show ?thesis by (auto simp: past_def)
  qed
  ultimately show "link_inv ?t" "connected ?t = 1"
    using i by (simp_all add: link_inv_def idle_link_def)
qed

lemma inv_dead_client:
  assumes "link_inv s" "cl_gen c \<le> gen s" "\<not> wired c" "ended c"
  shows "link_inv (s\<lparr>clients := clients s @ [c]\<rparr>)"
proof -
  let ?t = "s\<lparr>clients := clients s @ [c]\<rparr>"
  have "connected ?t = connected s" using assms(3) by (simp add: connected_def live_client_def)
  moreover have "only_current ?t"
    using inv_only_current [OF assms(1)] assms(4) by (simp add: only_current_def nth_append open_client_def)
  moreover have "past ?t"
    using inv_past [OF assms(1)] assms(2) by (fastforce simp: past_def)
  ultimately show ?thesis using assms(1) by (simp add: link_inv_def)
qed

lemma past_nth: "past s \<Longrightarrow> n < length (clients s) \<Longrightarrow> cl_gen (clients s ! n) \<le> gen s"
  by (simp add: past_def)

text \<open>A new generation: nothing of the old one counts.\<close>

lemma next_gen:
  assumes "past s" "gen t = Suc (gen s)" "calls t = calls s" "redials t = redials s" "length (clients t) = length (clients s)"
    "\<And>n. n < length (clients s) \<Longrightarrow> cl_gen (clients t ! n) = cl_gen (clients s ! n)"
  shows "dialling t = 0" "connected t = 0" "boots t = boots s \<Longrightarrow> booting t = 0"
proof -
  have "cl_gen x \<le> gen s" if "x \<in> set (clients t)" for x
    using that assms(5,6) past_nth [OF assms(1)] by (auto simp: in_set_conv_nth)
  with assms show "dialling t = 0" "connected t = 0" "boots t = boots s \<Longrightarrow> booting t = 0"
    by (fastforce simp: dialling_def connected_def booting_def past_def live_client_def filter_empty_conv)+
qed

lemma past_next:
  assumes "past s" "gen t = Suc (gen s)" "calls t = calls s" "redials t = redials s" "length (clients t) = length (clients s)"
    "\<And>n. n < length (clients s) \<Longrightarrow> cl_gen (clients t ! n) = cl_gen (clients s ! n)"
    "set (boots t) \<subseteq> insert (Suc (gen s)) (set (boots s))" "client t = client s \<or> client t = None"
  shows "past t"
proof -
  have "cl_gen x \<le> gen t" if "x \<in> set (clients t)" for x
    using that assms(2,5,6) past_nth [OF assms(1)] by (fastforce simp: in_set_conv_nth)
  with assms show ?thesis by (fastforce simp: past_def)
qed

lemma inv_mount:
  assumes "link_inv s" "\<not> link_mounted s"
  shows "link_inv (mount_link s)"
proof -
  let ?t = "mount_link s"
  note p = inv_past [OF assms(1)]
  have "\<not> open_client (clients s ! n)" if "n < length (clients s)" for n
    using inv_only_current [OF assms(1)] that assms(2) by (auto simp: only_current_def)
  then have "only_current ?t" by (simp add: only_current_def mount_link_def)
  moreover have "dialling ?t = 0" "connected ?t = 0" by (rule next_gen [OF p]; simp add: mount_link_def)+
  moreover have "booting ?t = 1"
  proof -
    have "filter (\<lambda>g. g = Suc (gen s)) (boots s) = []" using p by (fastforce simp: past_def filter_empty_conv)
    then show ?thesis by (simp add: booting_def mount_link_def)
  qed
  moreover have "past ?t" by (rule past_next [OF p]) (auto simp: mount_link_def)
  ultimately show ?thesis by (simp add: link_inv_def) (simp add: mount_link_def)
qed

lemma inv_next:
  assumes "link_inv s" "gen t = Suc (gen s)" "calls t = calls s" "redials t = redials s" "boots t = boots s"
    "clients t = clients (end_client s)" "client t = client s \<or> client t = None"
  shows "link_inv t"
proof -
  note p = inv_past [OF assms(1)]
  have l: "length (clients t) = length (clients s)" by (simp add: assms(6))
  have n: "n < length (clients s) \<Longrightarrow> cl_gen (clients t ! n) = cl_gen (clients s ! n)" for n
    by (simp add: assms(6) end_client_clients(3))
  have "only_current t"
    using all_ended [OF inv_only_current [OF assms(1)]] by (simp add: only_current_def assms(6))
  moreover have "past t" using past_next [OF p assms(2-4) l n] assms(5,7) by auto
  moreover have "dialling t = 0" "connected t = 0" "booting t = 0" using next_gen [OF p assms(2-4) l n] assms(5) by simp_all
  ultimately show ?thesis by (simp add: link_inv_def)
qed

lemma end_client_gen: "clients (end_client (s\<lparr>gen := g\<rparr>)) = clients (end_client s)"
  "clients (end_client (s\<lparr>gen := g, link_mounted := m\<rparr>)) = clients (end_client s)"
  by (simp_all add: end_client_def split: option.split)

lemma inv_unmount: "link_inv s \<Longrightarrow> link_inv (unmount_link s)"
  by (erule inv_next) (simp_all add: unmount_link_def end_client_gen)

lemma inv_sign_out: "link_inv s \<Longrightarrow> link_inv (sign_out s)"
  by (erule inv_next) (simp_all add: sign_out_def end_client_gen)

lemma inv_subscribed:
  assumes "link_inv s" "n < length (clients s)" "ok \<Longrightarrow> open_client (clients s ! n)"
  shows "link_inv (subscribed n ok s)"
proof (cases "cl_gen (clients s ! n) = gen s \<and> ok")
  case True
  then have "0 < connected s"
    using assms inv_only_current [OF assms(1)] live_connected [OF assms(2)] by (auto simp: only_current_def)
  with assms(1) True show ?thesis by (simp add: subscribed_def link_inv_def)
qed (use assms(1) in \<open>auto simp: subscribed_def link_inv_def\<close>)

lemma inv_message: "link_inv s \<Longrightarrow> link_inv (on_link_message n topic text s)"
  by (simp add: on_link_message_def link_inv_def split: option.split)

section \<open>Every step\<close>

lemma ready_remove_call:
  "link_inv s \<Longrightarrow> i < length (calls s) \<Longrightarrow> dc_gen (calls s ! i) = gen s \<Longrightarrow>
    ready (s\<lparr>calls := remove_at i (calls s)\<rparr>) \<and> shown s \<noteq> Live"
  using inv_remove_call [of s i] by (simp add: ready_def)

lemma ready_other:
  "ready s \<Longrightarrow> ready (s\<lparr>attached := a\<rparr>)" "ready s \<Longrightarrow> ready (s\<lparr>identity := d\<rparr>)" "ready s \<Longrightarrow> ready (s\<lparr>id_token_ref := t\<rparr>)"
  by (simp_all add: ready_def idle_link_def link_inv_def)

lemma inv_other:
  "link_inv s \<Longrightarrow> link_inv (s\<lparr>attached := a\<rparr>)" "link_inv s \<Longrightarrow> link_inv (s\<lparr>identity := d\<rparr>)"
  "link_inv s \<Longrightarrow> link_inv (s\<lparr>subscribing := ns\<rparr>)" "link_inv s \<Longrightarrow> link_inv (s\<lparr>link_clock := k\<rparr>)"
  by (simp_all add: link_inv_def)

lemma inv_after_attach:
  assumes "link_inv s" "i < length (calls s)"
  defines "s1 \<equiv> s\<lparr>calls := remove_at i (calls s)\<rparr>" and "c \<equiv> calls s ! i"
  shows "link_inv (after_attach c s1)" "dc_gen c = gen s \<Longrightarrow> dialling (after_attach c s1) = 1"
  using inv_remove_call(1) [OF assms(1,2)] ready_remove_call [OF assms(1,2)]
    inv_authenticate [of "s1\<lparr>attached := True\<rparr>" "dc_token c"]
  by (auto simp: after_attach_def Let_def s1_def c_def inv_other ready_other)

lemma inv_after_identity:
  assumes "link_inv s" "i < length (calls s)"
  defines "s1 \<equiv> s\<lparr>calls := remove_at i (calls s)\<rparr>" and "c \<equiv> calls s ! i"
  shows "link_inv (after_identity c a s1)" "dc_gen c = gen s \<Longrightarrow> dialling (after_identity c a s1) = 1"
proof -
  note r = ready_remove_call [OF assms(1,2)]
  have f: "link_inv (dial_failed (dc_gen c) s1)" "dc_gen c = gen s \<Longrightarrow> dialling (dial_failed (dc_gen c) s1) = 1"
    using inv_remove_call(1) [OF assms(1,2)] r inv_dial_failed [of s1] by (auto simp: s1_def c_def dial_failed_def)
  show "link_inv (after_identity c a s1)" "dc_gen c = gen s \<Longrightarrow> dialling (after_identity c a s1) = 1"
    using f r inv_remove_call(1) [OF assms(1,2)] inv_wait_for [of "s1\<lparr>identity := d\<rparr>" "dc_token c" st for d st]
    by (auto simp: after_identity_def Let_def s1_def c_def inv_other ready_other split: option.split)
qed

lemma inv_after_connect:
  assumes "link_inv s" "i < length (calls s)"
  defines "s1 \<equiv> s\<lparr>calls := remove_at i (calls s)\<rparr>" and "c \<equiv> calls s ! i"
  shows "link_inv (after_connect presign cfg c d ok s1)"
    "dc_gen c = gen s \<Longrightarrow> dialling (after_connect presign cfg c d ok s1) + connected (after_connect presign cfg c d ok s1) = 1"
proof -
  let ?t = "after_connect presign cfg c d ok s1"
  note r = ready_remove_call [OF assms(1,2)] and i = inv_remove_call(1) [OF assms(1,2)]
  have g: "dc_gen c \<le> gen s" using inv_past [OF assms(1)] assms(2) by (simp add: past_def c_def)
  have "link_inv ?t \<and> (dc_gen c = gen s \<longrightarrow> 0 < dialling ?t + connected ?t)"
  proof (cases "dc_gen c = gen s \<and> ok")
    case True
    then have "ready s1" using r by (simp add: s1_def c_def)
    from inv_new_client [OF this] True show ?thesis
      by (simp add: after_connect_def Let_def s1_def)
  next
    case False
    then show ?thesis
      using i r g inv_dead_client [of s1] inv_dial_failed [of s1]
      by (auto simp: after_connect_def Let_def s1_def c_def dial_failed_def)
  qed
  then show "link_inv ?t" "dc_gen c = gen s \<Longrightarrow> dialling ?t + connected ?t = 1"
    by (auto simp: link_inv_def)
qed

lemma inv_booted:
  assumes "link_inv s" "i < length (boots s)"
  defines "s1 \<equiv> s\<lparr>boots := remove_at i (boots s)\<rparr>" and "g \<equiv> boots s ! i"
  shows "link_inv (booted cfg g tokens s1)"
    "g = gen s \<Longrightarrow> tokens = Some t \<Longrightarrow> t \<noteq> [] \<Longrightarrow> dialling (booted cfg g tokens s1) = 1"
proof -
  have i: "link_inv s1" and r: "g = gen s \<Longrightarrow> ready s1"
    using inv_remove_boot [OF assms(1,2)] by (simp_all add: s1_def g_def ready_def)
  then have d: "g = gen s \<Longrightarrow> link_inv (dial cfg (s1\<lparr>id_token_ref := Some t\<rparr>)) \<and>
      (t \<noteq> [] \<longrightarrow> dialling (dial cfg (s1\<lparr>id_token_ref := Some t\<rparr>)) = 1)" for t
    using inv_dial [OF ready_other(3)] by simp
  have o: "g = gen s \<Longrightarrow> link_inv (s1\<lparr>shown := SignedOut\<rparr>)"
    using ready_shown [OF r] by (simp add: ready_def)
  show "link_inv (booted cfg g tokens s1)"
    "g = gen s \<Longrightarrow> tokens = Some t \<Longrightarrow> t \<noteq> [] \<Longrightarrow> dialling (booted cfg g tokens s1) = 1"
    using i d o by (auto simp: booted_def s1_def split: option.split)
qed

lemma inv_redial_due:
  assumes "link_inv s" "i < length (redials s)"
  defines "s1 \<equiv> s\<lparr>redials := remove_at i (redials s)\<rparr>" and "g \<equiv> snd (redials s ! i)"
  shows "link_inv (redial_due cfg g s1)" "g = gen s \<Longrightarrow> truthy_str (id_token_ref s) \<Longrightarrow> dialling (redial_due cfg g s1) = 1"
proof -
  have i: "link_inv s1" and "g = gen s \<Longrightarrow> ready s1"
    using inv_remove_redial [OF assms(1,2)] by (simp_all add: s1_def g_def ready_def)
  then show "link_inv (redial_due cfg g s1)" "g = gen s \<Longrightarrow> truthy_str (id_token_ref s) \<Longrightarrow> dialling (redial_due cfg g s1) = 1"
    using inv_dial [of s1 cfg] by (auto simp: redial_due_def s1_def)
qed

lemma inv_step: "link_step presign cfg s l s' \<Longrightarrow> link_inv s \<Longrightarrow> link_inv s'"
proof (induction rule: link_step.induct)
  case (ClientClose n s)
  then show ?case by (simp add: inv_on_close(1) inv_set_closed(1))
next
  case (ClientSubscribed k s n ok)
  then show ?case using inv_subscribed [of "s\<lparr>subscribing := remove_at k (subscribing s)\<rparr>" n ok] by (simp add: inv_other)
next
  case (BootFails i s)
  then show ?case by (simp add: inv_remove_boot(1))
qed (simp_all add: inv_mount inv_unmount inv_sign_out inv_booted(1) inv_after_attach(1) inv_after_identity(1)
    inv_after_connect(1) inv_message inv_on_error inv_redial_due(1) inv_other)

lemma inv_start: "link_inv (link_start t)"
  by (simp add: link_inv_def only_current_def past_def booting_def dialling_def connected_def link_start_def)

lemma inv_run: "link_run presign cfg s ls s' \<Longrightarrow> link_inv s \<Longrightarrow> link_inv s'"
  by (induction rule: link_run.induct) (simp_all add: inv_step)

section \<open>The link is kept going\<close>

definition kept :: "link_hook \<Rightarrow> bool" where
  "kept s = (0 < dialling s + connected s \<and> truthy_str (id_token_ref s))"

lemma keeps_token [simp]:
  "id_token_ref (wait_for g t st s) = id_token_ref s" "id_token_ref (authenticate g t s) = id_token_ref s"
  "id_token_ref (dial cfg s) = id_token_ref s" "id_token_ref (dial_failed g s) = id_token_ref s"
  "id_token_ref (after_attach c s) = id_token_ref s" "id_token_ref (after_identity c a s) = id_token_ref s"
  "id_token_ref (after_connect presign cfg c d ok s) = id_token_ref s" "id_token_ref (subscribed n ok s) = id_token_ref s"
  "id_token_ref (on_link_message n topic text s) = id_token_ref s" "id_token_ref (on_close n s) = id_token_ref s"
  "id_token_ref (set_closed n s) = id_token_ref s" "id_token_ref (on_error n s) = id_token_ref s"
  "id_token_ref (redial_due cfg g s) = id_token_ref s"
  by (simp_all add: wait_for_def authenticate_def dial_def dial_failed_def after_attach_def after_identity_def
      after_connect_def subscribed_def on_link_message_def on_close_def set_closed_def on_error_def redial_due_def Let_def
      split: option.split)

lemma no_boot_kept: "link_inv s \<Longrightarrow> 0 < dialling s + connected s \<Longrightarrow> i < length (boots s) \<Longrightarrow> boots s ! i \<noteq> gen s"
  using booting_remove [of i s] by (auto simp: link_inv_def split: if_splits)

lemma set_closed_counts:
  assumes "n < length (clients s)" "\<not> live_client (gen s) (clients s ! n)"
  shows "connected (set_closed n s) = connected s"
  using assms by (simp add: connected_def set_closed_def count_update_same live_client_def)

lemma kept_step:
  "link_step presign cfg s l s' \<Longrightarrow> l = LStep \<Longrightarrow> link_inv s \<Longrightarrow> kept s \<Longrightarrow> kept s'"
proof (induction rule: link_step.induct)
  case (Boot i s tokens)
  then show ?case using no_boot_kept [of s i] by (simp add: kept_def booted_def)
next
  case (PolicyAnswer i s)
  then show ?case
    using inv_after_attach(2) [of s i] dialling_remove(1) [of i s]
    by (cases "dc_gen (calls s ! i) = gen s") (simp_all add: kept_def after_attach_def)
next
  case (IdentityAnswer i s answer)
  then show ?case
    using inv_after_identity(2) [of s i] dialling_remove(1) [of i s]
    by (cases "dc_gen (calls s ! i) = gen s")
      (simp_all add: kept_def after_identity_def dial_failed_def Let_def split: option.split)
next
  case (ConnectAnswer i s d ok)
  then show ?case
    using inv_after_connect(2) [of s i] dialling_remove(1) [of i s]
    by (cases "dc_gen (calls s ! i) = gen s")
      (auto simp: kept_def after_connect_def dial_failed_def Let_def connected_def)
next
  case (ClientSubscribed k s n ok)
  then show ?case by (simp add: kept_def subscribed_def)
next
  case (ClientMessage n s topic msg)
  then show ?case by (simp add: kept_def on_link_message_def split: option.split)
next
  case (ClientClose n s)
  show ?case
  proof (cases "live_client (gen s) (clients s ! n)")
    case True
    with ClientClose inv_on_close(2) [of s n] show ?thesis by (simp add: kept_def live_client_def)
  next
    case False
    have "dialling (set_closed n s) = dialling s" "gen (set_closed n s) = gen s" "cl_gen (clients (set_closed n s) ! n) = cl_gen (clients s ! n)"
      using ClientClose by (simp_all add: set_closed_def)
    with False ClientClose set_closed_counts [of n s] show ?thesis
      by (auto simp: kept_def on_close_def Let_def live_client_def)
  qed
next
  case (ClientError n s)
  have "connected (on_error n s) = connected s" "dialling (on_error n s) = dialling s"
    using ClientError by (simp_all add: connected_def on_error_def count_update_same)
  with ClientError show ?case by (simp add: kept_def)
next
  case (Redial i s)
  then show ?case
    using inv_redial_due(2) [of s i] dialling_remove(2) [of i s]
    by (cases "snd (redials s ! i) = gen s") (simp_all add: kept_def redial_due_def)
qed (simp_all add: kept_def)

lemma kept_run:
  "link_run presign cfg s ls s' \<Longrightarrow> set ls \<subseteq> {LStep} \<Longrightarrow> link_inv s \<Longrightarrow> kept s \<Longrightarrow> kept s'"
proof (induction rule: link_run.induct)
  case (Go s ls s' l s'')
  then show ?case using kept_step [of presign cfg s' l s''] inv_run [of presign cfg s ls s'] by simp
qed

text \<open>No waiting redial is further away than the longest delay.\<close>

definition timely :: "link_hook \<Rightarrow> bool" where
  "timely s = (\<forall>r \<in> set (redials s). fst r \<le> link_clock s + 6000)"

lemma timely_dial [simp]: "timely (dial cfg s) = timely s" "timely (authenticate g t s) = timely s" "timely (wait_for g t st s) = timely s"
  by (simp_all add: timely_def dial_def authenticate_def wait_for_def Let_def split: option.split)

lemma timely_step: "link_step presign cfg s l s' \<Longrightarrow> timely s \<Longrightarrow> timely s'"
proof (induction rule: link_step.induct)
  case (Redial i s)
  then have "timely (s\<lparr>redials := remove_at i (redials s)\<rparr>)"
    using set_remove_at [of i "redials s"] by (auto simp: timely_def)
  then show ?case by (simp add: redial_due_def)
next
  case (Boot i s tokens)
  have "timely s \<Longrightarrow> timely (s\<lparr>boots := bs, id_token_ref := t\<rparr>)" for bs t by (simp add: timely_def)
  with Boot show ?case by (simp add: booted_def split: option.split) (simp add: timely_def)
qed (auto simp: timely_def mount_link_def unmount_link_def sign_out_def after_attach_def after_identity_def after_connect_def
    dial_failed_def authenticate_def wait_for_def subscribed_def on_link_message_def on_close_def set_closed_def on_error_def
    RECONNECT_MS_def Let_def split: option.split)

lemma timely_run: "link_run presign cfg s ls s' \<Longrightarrow> timely s \<Longrightarrow> timely s'"
  by (induction rule: link_run.induct) (simp_all add: timely_step)

end
