(* ===== verification/Console_Sign_In.thy ===== *)
theory Console_Sign_In
  imports Console_Auth
begin

text \<open>
  What the sign-in promises: the verifier sent for the tokens is the one whose digest the sign-in page got,
  it is used once, the session counts as alive until the exchange has ended, and the name read
  back is the one in the token.
\<close>

section \<open>PKCE\<close>

definition unreserved :: "char \<Rightarrow> bool" where
  "unreserved c = (is_alnum c \<or> c = CHR ''-'' \<or> c = CHR ''_'')"

lemma unreserved_b64: "n < 64 \<Longrightarrow> unreserved (b64url_char n)"
  by (auto simp: unreserved_def is_alnum_def b64url_char_def of_char_b64 Let_def)

lemma verifier_text:
  assumes "length random = 32" "\<forall>n \<in> set random. n < 256"
  shows "length (b64url_text random) = 43" "list_all unreserved (b64url_text random)"
  using assms sextets_bound [OF assms(2)]
  by (simp_all add: b64url_text_eq length_sextets list_all_iff unreserved_b64)

text \<open>C38: The code is redeemed with the secret it was asked for. An operator signs in, and the page comes
  back at any later time with a code in its address: the request for the tokens then carries that code, and
  a verifier whose digest is the challenge that the sign-in page was given, together with the
  client and the redirect address of the first request, all readable from what was sent; the
  verifier has 43 characters that need no encoding, as the protocol asks, and is gone from
  the storage, so that no further call sends it again.\<close>

theorem verifier_redeems_challenge:
  assumes "\<not> storage_fails b" "length random = 32" "\<forall>n \<in> set random. n < 256" "map_of q ''code'' = Some c" "c \<noteq> []"
    and "b1 = login sha256 random cfg b"
  shows "case complete_start cfg (b1\<lparr>search_query := Some q, wall_clock := t\<rparr>) of (step, b2) \<Rightarrow>
    \<exists>asked form verifier. left_for b1 = Some (''https://'' @ cognitoDomain cfg @ ''/oauth2/authorize?'' @ asked) \<and>
      step = Exchange (''https://'' @ cognitoDomain cfg @ ''/oauth2/token'') form \<and>
      map_of (read_query form_decode form) ''code'' = Some c \<and>
      map_of (read_query form_decode form) ''code_verifier'' = Some verifier \<and>
      map_of (read_query form_decode asked) ''code_challenge'' = Some (b64url_text (sha256 (utf8 verifier))) \<and>
      map_of (read_query form_decode asked) ''code_challenge_method'' = Some ''S256'' \<and>
      list_all (\<lambda>k. map_of (read_query form_decode form) k = map_of (read_query form_decode asked) k)
        [''client_id'', ''redirect_uri''] \<and>
      length verifier = 43 \<and> list_all unreserved verifier \<and>
      (case complete_start cfg b2 of (Exchange _ _, _) \<Rightarrow> False | _ \<Rightarrow> True)"
proof -
  have n: "b64url_text random \<noteq> []" using verifier_text(1) [OF assms(2,3)] by auto
  then show ?thesis
    using assms(1,4,5) verifier_text [OF assms(2,3)] unfolding assms(6)
    by (auto simp: login_def Let_def complete_start_def url_param_def login_params_def read_form_query redirectUri_def
        done_tokens_def)
qed

definition demo_cfg :: AwsConfig where
  "demo_cfg = \<lparr>region = ''eu-central-1'', cognitoDomain = ''auth.example'', userPoolId = ''pool'', clientId = ''console'',
     identityPoolId = ''ids'', iotEndpoint = ''iot.example'', apiEndpoint = Some ''https://api.example''\<rparr>"

theorem verifier_redeems_challenge_witness:
  "case complete_start demo_cfg ((login id (replicate 32 7) demo_cfg demo_browser)\<lparr>search_query := Some [(''code'', ''c1'')], wall_clock := 5\<rparr>)
   of (step, b2) \<Rightarrow> \<exists>form. step = Exchange ''https://auth.example/oauth2/token'' form \<and>
     map_of (read_query form_decode form) ''code'' = Some ''c1''"
  using verifier_redeems_challenge [of demo_browser "replicate 32 7" "[(''code'', ''c1'')]" "''c1''" _ id demo_cfg 5, OF _ _ _ _ _ refl]
  by (auto simp: demo_browser_def demo_cfg_def split_def)

section \<open>From the code to the tokens\<close>

definition token_doc :: "string \<Rightarrow> string \<Rightarrow> nat \<Rightarrow> json" where
  "token_doc i a n = JObj [(''id_token'', JStr i), (''access_token'', JStr a), (''expires_in'', JInt (int n))]"

lemma tokens_stored:
  assumes "\<not> storage_fails b" "stored_tokens b = Some (stringify (tokens_of (token_doc i a n) now))"
  shows "fst (getTokens b) = (if now + int n * 1000 < wall_clock b + 60000 then None
    else Some (tokens_of (token_doc i a n) now))"
proof -
  let ?t = "tokens_of (token_doc i a n) now"
  have w: "wf_json ?t" "clean ?t = ?t" by (simp_all add: tokens_of_def token_doc_def token_expiry_def)
  then have "json_parse (stringify ?t) = Some ?t" using json_parse_stringify [of ?t] by simp
  moreover have "stringify ?t \<noteq> []" by (simp add: tokens_of_def)
  ultimately show ?thesis
    using assms by (simp add: getTokens_def token_expired_def tokens_of_def token_doc_def token_expiry_def)
qed

lemma cleaned: "url_param ''code'' (cleanUrl b) = None"
  by (cases "search_query b") (auto simp: url_param_def cleanUrl_def map_of_eq_None_iff)

text \<open>A session that has just signed in is never taken for an abandoned one: while the exchange is under
  way the code is still in the address, and when it has succeeded the tokens are stored, come
  back as they were stored until a minute before they expire, and only then has the code left
  the address; so a reload at any of these points keeps the operator session. A refusal leaves
  neither, and the session ends at the gate unless an earlier sign-in is still valid.\<close>

theorem sign_in_keeps_session:
  assumes "complete_start cfg b = (Exchange url form, b1)" "stored_mode b = Some ''operator''" "60 \<le> n"
  shows "readStoredMode b1 = Some OperatorMode \<and>
    (case complete_finish (TokenDocument (token_doc i a n)) (b1\<lparr>wall_clock := t\<rparr>) of (step, b2) \<Rightarrow>
      step = Done (Some (tokens_of (token_doc i a n) t)) \<and> url_param ''code'' b2 = None \<and>
      readStoredMode b2 = Some OperatorMode \<and>
      (\<forall>t'. fst (getTokens (b2\<lparr>wall_clock := t'\<rparr>)) =
        (if t + int n * 1000 < t' + 60000 then None else Some (tokens_of (token_doc i a n) t)))) \<and>
    (case complete_finish Refusal (b1\<lparr>wall_clock := t\<rparr>) of (step, b2) \<Rightarrow>
      step = Done None \<and> url_param ''code'' b2 = None \<and>
      readStoredMode b2 = (if fst (getTokens b2) = None then None else Some OperatorMode))"
proof -
  have s: "\<not> storage_fails b" "truthy_str (url_param ''code'' b)" "b1 = b\<lparr>stored_verifier := None\<rparr>"
    using assms(1) by (auto simp: complete_start_def done_tokens_def split: if_splits)
  then obtain q c where q: "search_query b = Some q" "map_of q ''code'' = Some c"
    by (auto simp: url_param_def truthy_str_def Option.bind_eq_Some_conv split: option.splits)
  have b1: "readStoredMode b1 = Some OperatorMode"
    using s q assms(2) by (simp add: readStoredMode_def operatorSessionAlive_def)
  let ?t = "tokens_of (token_doc i a n) t"
  let ?b2 = "cleanUrl (b1\<lparr>wall_clock := t, stored_tokens := Some (stringify ?t)\<rparr>)" and ?b3 = "cleanUrl (b1\<lparr>wall_clock := t\<rparr>)"
  have f: "complete_finish (TokenDocument (token_doc i a n)) (b1\<lparr>wall_clock := t\<rparr>) = (Done (Some ?t), ?b2)"
      "complete_finish Refusal (b1\<lparr>wall_clock := t\<rparr>) = (Done None, ?b3)"
    using s by (simp_all add: complete_finish_def token_doc_def)
  have g: "fst (getTokens (?b2\<lparr>wall_clock := t'\<rparr>)) = (if t + int n * 1000 < t' + 60000 then None else Some ?t)" for t'
    using tokens_stored [of "?b2\<lparr>wall_clock := t'\<rparr>" i a n t] s by (simp add: cleanUrl_def)
  have "?b2\<lparr>wall_clock := t\<rparr> = ?b2" by (simp add: cleanUrl_def)
  with g [of t] assms(3) have "fst (getTokens ?b2) = Some ?t" by simp
  then have "readStoredMode ?b2 = Some OperatorMode"
    using s assms(2) by (simp add: readStoredMode_def operatorSessionAlive_def) (simp add: cleanUrl_def)
  moreover have "readStoredMode ?b3 = (if fst (getTokens ?b3) = None then None else Some OperatorMode)"
    using s q assms(2) cleaned [of "b1\<lparr>wall_clock := t\<rparr>"]
    by (auto simp: readStoredMode_def operatorSessionAlive_def url_param_def split: option.splits) (simp_all add: cleanUrl_def)
  ultimately show ?thesis using b1 g f cleaned by simp
qed

definition returning_browser :: browser where
  "returning_browser = demo_browser\<lparr>search_query := Some [(''code'', ''c1'')], stored_mode := Some ''operator'',
     stored_verifier := Some ''v1''\<rparr>"

lemma returning_exchange:
  "\<exists>url form. complete_start demo_cfg returning_browser = (Exchange url form, returning_browser\<lparr>stored_verifier := None\<rparr>)"
  by (simp add: complete_start_def returning_browser_def demo_browser_def url_param_def)

theorem sign_in_keeps_session_witness:
  "readStoredMode (returning_browser\<lparr>stored_verifier := None\<rparr>) = Some OperatorMode \<and>
   fst (complete_finish (TokenDocument (token_doc ''i'' ''a'' 3600)) (returning_browser\<lparr>stored_verifier := None, wall_clock := 9\<rparr>)) =
     Done (Some (tokens_of (token_doc ''i'' ''a'' 3600) 9))"
proof -
  have m: "stored_mode returning_browser = Some ''operator''" by (simp add: returning_browser_def)
  obtain url form where "complete_start demo_cfg returning_browser = (Exchange url form, returning_browser\<lparr>stored_verifier := None\<rparr>)"
    using returning_exchange by blast
  from sign_in_keeps_session [OF this m, of 3600 "''i''" "''a''" 9] show ?thesis by (auto simp: split_def)
qed

text \<open>An exchange that the network swallows leaves a session that is neither in nor out: its code is
  spent and its verifier gone, but the code stays in the address, so that from then on every
  reload, at any time, finds an operator session to be alive, exchanges nothing and gets no token.\<close>

theorem lost_exchange_strands_session:
  assumes "complete_start cfg b = (Exchange url form, b1)" "stored_mode b = Some ''operator''" "stored_tokens b = None"
  shows "case complete_finish NoAnswer b1 of (step, b2) \<Rightarrow> step = Rejected \<and>
    (\<forall>t. complete_start cfg (b2\<lparr>wall_clock := t\<rparr>) = (Done None, b2\<lparr>wall_clock := t\<rparr>) \<and>
      readStoredMode (b2\<lparr>wall_clock := t\<rparr>) = Some OperatorMode)"
proof -
  have s: "\<not> storage_fails b" "truthy_str (url_param ''code'' b)" "b1 = b\<lparr>stored_verifier := None\<rparr>"
    using assms(1) by (auto simp: complete_start_def done_tokens_def split: if_splits)
  then obtain q c where q: "search_query b = Some q" "map_of q ''code'' = Some c" "c \<noteq> []"
    by (auto simp: url_param_def truthy_str_def Option.bind_eq_Some_conv split: option.splits)
  with s assms(2,3) show ?thesis
    by (simp add: complete_finish_def complete_start_def url_param_def done_tokens_def getTokens_def readStoredMode_def
        operatorSessionAlive_def)
qed

theorem lost_exchange_strands_session_witness:
  "fst (complete_finish NoAnswer (returning_browser\<lparr>stored_verifier := None\<rparr>)) = Rejected"
proof -
  have m: "stored_mode returning_browser = Some ''operator''" "stored_tokens returning_browser = None"
    by (simp_all add: returning_browser_def demo_browser_def)
  obtain url form where "complete_start demo_cfg returning_browser = (Exchange url form, returning_browser\<lparr>stored_verifier := None\<rparr>)"
    using returning_exchange by blast
  from lost_exchange_strands_session [OF this m] show ?thesis by (auto simp: split_def)
qed

section \<open>The name of the operator\<close>

lemma dot_reserved: "\<not> unreserved CHR ''.''"
  by (simp add: unreserved_def is_alnum_def)

lemma token_claims_read:
  assumes "CHR ''.'' \<notin> set h" "\<forall>n \<in> set ns. n < 256"
  shows "token_claims (h @ ''.'' @ b64url_text ns @ ''.'' @ sig) = json_parse (latin1 ns)"
proof -
  have d: "CHR ''.'' \<notin> set (b64url_text ns)"
  proof
    assume "CHR ''.'' \<in> set (b64url_text ns)"
    then obtain n where "n \<in> set (sextets ns)" "CHR ''.'' = b64url_char n"
      by (auto simp: b64url_text_eq [OF assms(2)])
    with unreserved_b64 [OF sextets_bound [OF assms(2)], of n] show False
      by (metis dot_reserved)
  qed
  let ?s = "map b64_char (sextets ns)"
  have l: "length (b64url_text ns) = length ?s" by (simp add: b64url_text_eq [OF assms(2)])
  have u: "swap_char CHR ''_'' CHR ''/'' (swap_char CHR ''-'' CHR ''+'' (b64url_text ns)) = ?s"
    using unswap_b64 sextets_bound [OF assms(2)] by (simp add: b64url_text_eq [OF assms(2)])
  have "split_on CHR ''.'' (h @ ''.'' @ b64url_text ns @ ''.'' @ sig) = h # b64url_text ns # split_on CHR ''.'' sig"
    using split_on_append [OF assms(1), of "b64url_text ns @ ''.'' @ sig"] split_on_append [OF d, of sig] by simp
  then show ?thesis
    using atob_padded [OF assms(2) refl] by (simp add: token_claims_def Let_def u l)
qed

text \<open>A token as a sign-in service writes it.\<close>

definition token_with :: "string \<Rightarrow> json \<Rightarrow> string \<Rightarrow> string" where
  "token_with h claims sig = h @ ''.'' @ b64url_text (utf8 (stringify claims)) @ ''.'' @ sig"

lemma token_with_claims:
  "CHR ''.'' \<notin> set h \<Longrightarrow> token_claims (token_with h claims sig) = json_parse (latin1 (utf8 (stringify claims)))"
  unfolding token_with_def by (rule token_claims_read) (auto intro: utf8_bound)

lemma latin1_utf8: "list_all (\<lambda>c. of_char c < (128 :: nat)) s \<Longrightarrow> latin1 (utf8 s) = s"
  by (induction s) (simp_all add: latin1_def utf8_def utf8_char_def Let_def)

text \<open>The console acts under the name in the token: from a valid stored sign-in whose token carries
  claims in plain ASCII, written as a sign-in service writes them (JSON, then base64 in the URL
  form without padding, between the header and the signature), the name read back is the user
  name of the claims, whatever other claims there are and however long the text is.\<close>

theorem username_read_back:
  assumes "fst (getTokens b) = Some t" "get_field t ''idToken'' = JStr (token_with h claims sig)"
    "CHR ''.'' \<notin> set h" "wf_json claims" "list_all (\<lambda>c. of_char c < (128 :: nat)) (stringify claims)"
    "get_field (clean claims) ''cognito:username'' = JStr n"
  shows "getUsername b = Some n"
  using assms token_with_claims [OF assms(3), of claims sig] latin1_utf8 [OF assms(5)] json_parse_stringify [OF assms(4)]
  by (simp add: getUsername_def or_json_def)

definition signed_in_browser :: "string \<Rightarrow> browser" where
  "signed_in_browser name = demo_browser\<lparr>stored_tokens :=
     Some (stringify (tokens_of (token_doc (token_with ''h'' (JObj [(''cognito:username'', JStr name)]) ''s'') ''a'' 3600) 0))\<rparr>"

lemma signed_in_tokens:
  "fst (getTokens (signed_in_browser name)) =
    Some (tokens_of (token_doc (token_with ''h'' (JObj [(''cognito:username'', JStr name)]) ''s'') ''a'' 3600) 0)"
  using tokens_stored [of "signed_in_browser name" _ _ 3600 0] by (simp add: signed_in_browser_def demo_browser_def)

lemma signed_in_id_token:
  "get_field (tokens_of (token_doc i a n) now) ''idToken'' = JStr i"
  by (simp add: tokens_of_def token_doc_def)

theorem username_read_back_witness: "getUsername (signed_in_browser ''op-1'') = Some ''op-1''"
  by (rule username_read_back [OF signed_in_tokens signed_in_id_token])
    (simp_all add: quote_def quote_char_def)

text \<open>Beyond ASCII the console reads another name than the services: \<open>atob\<close> gives one letter per byte,
  and the bytes are never decoded as UTF-8. An operator whose name is one letter with an umlaut acts
  under a name of two letters, which the identity binding of the services refuses.\<close>

theorem umlaut_is_misread:
  "getUsername (signed_in_browser [CHR 0xFC]) = Some [CHR 0xC3, CHR 0xBC]"
proof -
  have "latin1 (utf8 (stringify (JObj [(''cognito:username'', JStr [CHR 0xFC])])))
      = stringify (JObj [(''cognito:username'', JStr [CHR 0xC3, CHR 0xBC])])"
    by (simp add: quote_def quote_char_def latin1_def utf8_def utf8_char_def Let_def char_of_eq)
  then show ?thesis
    using json_parse_stringify [of "JObj [(''cognito:username'', JStr [CHR 0xC3, CHR 0xBC])]"]
    by (simp add: getUsername_def signed_in_tokens signed_in_id_token token_with_claims or_json_def
        del: stringify.simps)
qed

end
