(* ===== verification/Cloud_Link_Safety.thy ===== *)
theory Cloud_Link_Safety
  imports Cloud_Link_Inv Console_Sign_In
begin

text \<open>
  What the live link promises: one connection at a time, a dial that is never given up and never
  doubled, a badge that says live only while there is a connection; and what a dial of a torn-down
  session leaves behind.
\<close>

section \<open>What the link promises\<close>

text \<open>C36: A tab never has two connections: however dials, answers, closings, redials, sign-outs and
  re-mounts of the page interleave, at any moment at most one client is neither ended nor closed; it
  is the one the page refers to, it has its handlers, it was made by a dial of the present mount,
  and a page that is not mounted has none.\<close>

theorem one_connection:
  assumes "link_run presign cfg (link_start t0) ls s" "m < length (clients s)" "open_client (clients s ! m)"
  shows "(\<forall>n < length (clients s). open_client (clients s ! n) \<longleftrightarrow> n = m) \<and> client s = Some m \<and>
    cl_gen (clients s ! m) = gen s \<and> wired (clients s ! m) \<and> link_mounted s"
proof -
  have "only_current s" by (rule inv_only_current [OF inv_run [OF assms(1) inv_start]])
  then have o: "n < length (clients s) \<Longrightarrow> open_client (clients s ! n) \<Longrightarrow>
      client s = Some n \<and> live_client (gen s) (clients s ! n) \<and> link_mounted s" for n
    by (simp add: only_current_def)
  have "n = m" if "n < length (clients s)" "open_client (clients s ! n)" for n
    using o [OF that] o [OF assms(2,3)] by simp
  with o [OF assms(2,3)] assms(3) show ?thesis by (auto simp: live_client_def)
qed

text \<open>C37: A link that was once dialled is never given up and never dialled twice: from the moment the
  page has found the tokens of an operator, and until it is unmounted or the operator signs
  out, exactly one thing is under way at any time, whatever fails: a dial that waits for an answer, a
  redial that is due within six seconds, or a client that has not been closed; and the page
  says it is live only while it has such a client.\<close>

theorem link_is_kept_going:
  assumes "link_run presign cfg (link_start t0) ls s" "i < length (boots s)" "boots s ! i = gen s" "t \<noteq> []"
    and "link_run presign cfg (booted cfg (gen s) (Some t) (s\<lparr>boots := remove_at i (boots s)\<rparr>)) ls' s'" "set ls' \<subseteq> {LStep}"
  shows "length (filter (\<lambda>c. dc_gen c = gen s') (calls s')) + length (filter (\<lambda>r. snd r = gen s') (redials s'))
      + length (filter (\<lambda>c. wired c \<and> \<not> closed c \<and> cl_gen c = gen s') (clients s')) = 1 \<and>
    list_all (\<lambda>r. fst r \<le> link_clock s' + 6000) (redials s') \<and>
    (if shown s' = Live then list_ex (\<lambda>c. wired c \<and> \<not> closed c \<and> cl_gen c = gen s') (clients s') else True)"
proof -
  let ?b = "booted cfg (gen s) (Some t) (s\<lparr>boots := remove_at i (boots s)\<rparr>)"
  have i: "link_inv s" by (rule inv_run [OF assms(1) inv_start])
  have b: "link_inv ?b" "dialling ?b = 1"
    using inv_booted(1) [OF i assms(2), of cfg "Some t"] inv_booted(2) [OF i assms(2), of "Some t" t cfg] assms(3,4) by simp_all
  have "kept ?b" using b(2) assms(4) by (simp add: kept_def booted_def)
  from kept_run [OF assms(5,6) b(1) this] inv_run [OF assms(5) b(1)]
  have k: "dialling s' + connected s' = 1" "0 < dialling s' \<longrightarrow> shown s' \<noteq> Live" by (auto simp: kept_def link_inv_def)
  have "timely s" using timely_run [OF assms(1)] by (simp add: timely_def link_start_def)
  then have "timely ?b" by (simp add: booted_def) (simp add: timely_def)
  then have "timely s'" using timely_run [OF assms(5)] by blast
  moreover have "list_ex (\<lambda>c. wired c \<and> \<not> closed c \<and> cl_gen c = gen s') (clients s')" if "shown s' = Live"
  proof -
    have "filter (live_client (gen s')) (clients s') \<noteq> []" using that k by (auto simp: connected_def)
    then show ?thesis by (auto simp: filter_empty_conv live_client_def list_ex_iff)
  qed
  ultimately show ?thesis using k(1) by (simp add: dialling_def connected_def live_client_def [abs_def] timely_def list_all_iff)
qed

section \<open>A run\<close>

definition demo_presign :: signer where
  "demo_presign k sec rg h p = (p, [(''X-Amz-Credential'', k @ ''/'' @ rg), (''X-Amz-Signature'', ''sig'')])"

definition demo_identity :: "string \<Rightarrow> AwsIdentity" where
  "demo_identity i = \<lparr>identityId = i, accessKeyId = ''AK'', secretAccessKey = ''SK'', sessionToken = ''a/b'', expiresAt = 3600000\<rparr>"

definition demo_answer :: "string \<Rightarrow> cognito_answer" where
  "demo_answer i = Identity (Some i) (Some \<lparr>AccessKeyId = Some ''AK'', SecretKey = Some ''SK'', SessionToken = Some ''a/b'',
     Expiration = Some 3600000\<rparr>)"

lemma demo_getIdentity [simp]: "i \<noteq> [] \<Longrightarrow> getIdentity t (demo_answer i) = Some (demo_identity i)"
  by (simp add: getIdentity_def demo_answer_def demo_identity_def)

text \<open>The first call that waits is answered.\<close>

definition policy_answered :: "link_hook \<Rightarrow> link_hook" where
  "policy_answered s = after_attach (calls s ! 0) (s\<lparr>calls := remove_at 0 (calls s)\<rparr>)"

definition identity_answered :: "string \<Rightarrow> link_hook \<Rightarrow> link_hook" where
  "identity_answered i s = after_identity (calls s ! 0) (demo_answer i) (s\<lparr>calls := remove_at 0 (calls s)\<rparr>)"

definition boot_answered :: "string \<Rightarrow> link_hook \<Rightarrow> link_hook" where
  "boot_answered t s = booted demo_cfg (boots s ! 0) (Some t) (s\<lparr>boots := remove_at 0 (boots s)\<rparr>)"

definition connect_answered :: "string \<Rightarrow> link_hook \<Rightarrow> link_hook" where
  "connect_answered i s =
    after_connect demo_presign demo_cfg (calls s ! 0) (demo_identity i) True (s\<lparr>calls := remove_at 0 (calls s)\<rparr>)"

lemma answered_steps:
  "calls s \<noteq> [] \<Longrightarrow> dc_stage (hd (calls s)) = Attaching \<Longrightarrow> link_step demo_presign demo_cfg s LStep (policy_answered s)"
  "calls s \<noteq> [] \<Longrightarrow> dc_stage (hd (calls s)) = Authenticating \<Longrightarrow> link_step demo_presign demo_cfg s LStep (identity_answered i s)"
  "boots s \<noteq> [] \<Longrightarrow> link_step demo_presign demo_cfg s LStep (boot_answered t s)"
  "calls s \<noteq> [] \<Longrightarrow> dc_stage (hd (calls s)) = Presigning (demo_identity i) \<Longrightarrow>
    link_step demo_presign demo_cfg s LStep (connect_answered i s)"
  unfolding policy_answered_def identity_answered_def boot_answered_def connect_answered_def
  by (rule link_step.intros; simp add: hd_conv_nth)+

definition dialled :: link_hook where
  "dialled = identity_answered ''A'' (policy_answered (boot_answered ''tA'' (mount_link (link_start 0))))"

lemmas demo_run_defs = mount_link_def boot_answered_def policy_answered_def identity_answered_def booted_def dial_def
  after_attach_def after_identity_def authenticate_def wait_for_def remove_at_def link_start_def sign_out_def unmount_link_def
  end_client_def Let_def attach_request_def demo_cfg_def

lemma dialled_run: "link_run demo_presign demo_cfg (link_start 0) [LMount, LStep, LStep, LStep] dialled"
proof -
  let ?s1 = "mount_link (link_start 0)"
  let ?s2 = "boot_answered ''tA'' ?s1"
  let ?s3 = "policy_answered ?s2"
  have "link_run demo_presign demo_cfg (link_start 0) ([] @ [LMount]) ?s1"
    by (rule link_run.intros link_step.intros)+ (simp add: link_start_def)
  then have "link_run demo_presign demo_cfg (link_start 0) (([] @ [LMount]) @ [LStep]) ?s2"
    by (rule Go) (rule answered_steps(3), simp add: demo_run_defs)
  then have "link_run demo_presign demo_cfg (link_start 0) ((([] @ [LMount]) @ [LStep]) @ [LStep]) ?s3"
    by (rule Go) (rule answered_steps(1); simp add: demo_run_defs)
  then have "link_run demo_presign demo_cfg (link_start 0) (((([] @ [LMount]) @ [LStep]) @ [LStep]) @ [LStep]) dialled"
    unfolding dialled_def by (rule Go) (rule answered_steps(2); simp add: demo_run_defs)
  then show ?thesis by simp
qed

lemma dialled_calls: "calls dialled = [\<lparr>dc_gen = 1, dc_token = ''tA'', dc_stage = Presigning (demo_identity ''A'')\<rparr>]"
  by (simp add: dialled_def demo_run_defs)

theorem one_connection_witness:
  "\<exists>ls s. link_run demo_presign demo_cfg (link_start 0) ls s \<and> client s = Some 0 \<and> cl_gen (clients s ! 0) = 1"
proof -
  let ?s = "connect_answered ''A'' dialled"
  have r: "link_run demo_presign demo_cfg (link_start 0) ([LMount, LStep, LStep, LStep] @ [LStep]) ?s"
    by (rule Go [OF dialled_run]) (rule answered_steps(4); simp add: dialled_calls)
  have g: "gen dialled = 1" "clients dialled = []" "client dialled = None"
    by (simp_all add: dialled_def demo_run_defs)
  then have o: "0 < length (clients ?s)" "open_client (clients ?s ! 0)" "gen ?s = 1"
    by (simp_all add: connect_answered_def after_connect_def dialled_calls end_client_def open_client_def)
  from one_connection [OF r o(1,2)] r o(3) show ?thesis by auto
qed

theorem link_is_kept_going_witness:
  "shown (boot_answered ''tA'' (mount_link (link_start 0))) \<noteq> Live"
proof -
  let ?s = "mount_link (link_start 0)"
  have r: "link_run demo_presign demo_cfg (link_start 0) ([] @ [LMount]) ?s"
    by (rule link_run.intros link_step.intros)+ (simp add: link_start_def)
  have "0 < length (boots ?s)" "boots ?s ! 0 = gen ?s" "''tA'' \<noteq> []" by (simp_all add: mount_link_def link_start_def)
  note k = link_is_kept_going [OF r this Stay]
  have e: "booted demo_cfg (gen ?s) (Some ''tA'') (?s\<lparr>boots := remove_at 0 (boots ?s)\<rparr>) = boot_answered ''tA'' ?s"
    by (simp add: boot_answered_def) (simp add: mount_link_def link_start_def)
  have "clients (boot_answered ''tA'' ?s) = []" by (simp add: demo_run_defs)
  with k [unfolded e] show ?thesis by auto
qed

section \<open>One request for the policy\<close>

lemma attached_dial [simp]:
  "attached s \<Longrightarrow> attached (dial cfg s) \<and> posts (dial cfg s) = posts s"
  "attached (authenticate g t s) = attached s" "posts (authenticate g t s) = posts s"
  "attached (wait_for g t st s) = attached s" "posts (wait_for g t st s) = posts s"
  by (auto simp: dial_def authenticate_def wait_for_def Let_def split: option.split)

lemma attached_step:
  "link_step presign cfg s l s' \<Longrightarrow> l \<noteq> LSignOut \<Longrightarrow> attached s \<Longrightarrow> attached s' \<and> posts s' = posts s"
  by (induction rule: link_step.induct)
    (auto simp: mount_link_def unmount_link_def booted_def after_attach_def after_identity_def after_connect_def
      dial_failed_def subscribed_def on_link_message_def on_close_def set_closed_def on_error_def redial_due_def Let_def
      split: option.split)

lemma attached_run:
  "link_run presign cfg s ls s' \<Longrightarrow> LSignOut \<notin> set ls \<Longrightarrow> attached s \<Longrightarrow> attached s' \<and> posts s' = posts s"
proof (induction rule: link_run.induct)
  case (Go s ls s' l s'')
  then show ?case using attached_step [of presign cfg s' l s''] by auto
qed simp

text \<open>The policy is asked for once per sign-in: after the first answer to the request, of whatever kind,
  also a refusal and also the one that is no answer at all, the page sends no further request for it
  until the operator signs out, through any number of redials and re-mounts.\<close>

theorem policy_is_asked_once:
  assumes "link_run presign cfg (after_attach c s) ls s'" "LSignOut \<notin> set ls"
  shows "posts s' = posts s \<and> attached s'"
proof -
  have "attached (after_attach c s)" "posts (after_attach c s) = posts s"
    by (simp_all add: after_attach_def Let_def)
  with attached_run [OF assms] show ?thesis by simp
qed

theorem policy_is_asked_once_witness:
  "posts (policy_answered (boot_answered ''tA'' (mount_link (link_start 0)))) =
     [(''https://api.example/api/iot/attach-policy'', ''Bearer tA'')]"
proof -
  let ?s = "boot_answered ''tA'' (mount_link (link_start 0))"
  have "posts (policy_answered ?s) = posts (?s\<lparr>calls := remove_at 0 (calls ?s)\<rparr>)"
    unfolding policy_answered_def by (rule policy_is_asked_once [OF Stay, THEN conjunct1]) simp
  then show ?thesis by (simp add: demo_run_defs)
qed

section \<open>What a stale dial leaves behind\<close>

text \<open>A dial that was under way when its operator signed out goes on to store what it was waiting for: the
  credentials of \<open>A\<close> arrive after the sign-out has cleared them, and the link of the next
  operator, \<open>B\<close>, in the same tab is then dialled with the identity of \<open>A\<close>.\<close>

definition next_operator :: link_hook where
  "next_operator = policy_answered (boot_answered ''tB'' (mount_link (unmount_link (identity_answered ''A'' (sign_out
     (policy_answered (boot_answered ''tA'' (mount_link (link_start 0)))))))))"

theorem stale_dial_lends_identity:
  "link_run demo_presign demo_cfg (link_start 0) [LMount, LStep, LStep, LSignOut, LStep, LUnmount, LMount, LStep, LStep] next_operator \<and>
   calls next_operator = [\<lparr>dc_gen = 4, dc_token = ''tB'', dc_stage = Presigning (demo_identity ''A'')\<rparr>]"
proof
  let ?s1 = "mount_link (link_start 0)"
  let ?s2 = "boot_answered ''tA'' ?s1"
  let ?s3 = "policy_answered ?s2"
  let ?s4 = "sign_out ?s3"
  let ?s5 = "identity_answered ''A'' ?s4"
  let ?s6 = "unmount_link ?s5"
  let ?s7 = "mount_link ?s6"
  let ?s8 = "boot_answered ''tB'' ?s7"
  let ?r = "link_run demo_presign demo_cfg (link_start 0)"
  have 1: "?r ([] @ [LMount]) ?s1" by (rule link_run.intros link_step.intros)+ (simp add: link_start_def)
  have 2: "?r (([] @ [LMount]) @ [LStep]) ?s2" by (rule Go [OF 1]) (rule answered_steps(3), simp add: demo_run_defs)
  have 3: "?r ((([] @ [LMount]) @ [LStep]) @ [LStep]) ?s3" by (rule Go [OF 2]) (rule answered_steps(1); simp add: demo_run_defs)
  note 4 = Go [OF 3 SignOut]
  have s3: "link_mounted ?s3" "link_mounted ?s5" by (simp_all add: demo_run_defs)
  note 5 = Go [OF 4 [OF s3(1)] answered_steps(2)]
  have s4: "calls ?s4 \<noteq> []" "dc_stage (hd (calls ?s4)) = Authenticating" by (simp_all add: demo_run_defs)
  note 6 = Go [OF 5 [OF s4] Unmount [OF s3(2)]]
  have s6: "\<not> link_mounted ?s6" by (simp add: unmount_link_def)
  note 7 = Go [OF 6 Mount [OF s6]]
  have s7: "boots ?s7 \<noteq> []" by (simp add: mount_link_def)
  note 8 = Go [OF 7 answered_steps(3) [OF s7]]
  have s8: "calls ?s8 \<noteq> []" "dc_stage (hd (calls ?s8)) = Attaching" by (simp_all add: demo_run_defs)
  from Go [OF 8 answered_steps(1) [OF s8]]
  show "?r [LMount, LStep, LStep, LSignOut, LStep, LUnmount, LMount, LStep, LStep] next_operator"
    by (simp add: next_operator_def)
  show "calls next_operator = [\<lparr>dc_gen = 4, dc_token = ''tB'', dc_stage = Presigning (demo_identity ''A'')\<rparr>]"
    by (simp add: next_operator_def demo_run_defs demo_identity_def)
qed

section \<open>The address of the connection\<close>

lemma token_key: "encodeURIComponent ''X-Amz-Security-Token'' = ''X-Amz-Security-Token''"
  by (simp add: encodeURIComponent_def utf8_def utf8_char_def uri_byte_def uri_plain_def is_alnum_def Let_def char_of_eq)

lemma query_text_snoc:
  "ps \<noteq> [] \<Longrightarrow> query_text enc (ps @ [(k, v)]) = query_text enc ps @ ''&'' @ enc k @ ''='' @ enc v"
  by (induction ps) (auto simp: query_text_def join_Cons)

text \<open>The address that the page connects to carries what was signed and nothing that was not: whoever reads
  its query gets exactly the entries of the signature, in their order, and after them the session
  token as it is, whatever characters it has; and the signature is made before and without the
  token, so that the addresses for two tokens differ in that last entry only.\<close>

theorem presigned_url_reads_back:
  assumes "presign (accessKeyId i) (secretAccessKey i) (region cfg) (iotEndpoint cfg) ''/mqtt'' = (path, query)" "query \<noteq> []"
  shows "\<exists>start last. presignWssUrl presign cfg i = ''wss://'' @ iotEndpoint cfg @ path @ ''?'' @ start @ last \<and>
    read_query decodeURIComponent (start @ last) = query @ [(''X-Amz-Security-Token'', sessionToken i)] \<and>
    (\<forall>t. \<exists>last'. presignWssUrl presign cfg (i\<lparr>sessionToken := t\<rparr>) = ''wss://'' @ iotEndpoint cfg @ path @ ''?'' @ start @ last' \<and>
      read_query decodeURIComponent (start @ last') = query @ [(''X-Amz-Security-Token'', t)])"
proof -
  let ?last = "\<lambda>t. ''&X-Amz-Security-Token='' @ encodeURIComponent t"
  have q: "read_query decodeURIComponent (query_text encodeURIComponent query @ ?last t) = query @ [(''X-Amz-Security-Token'', t)]" for t
    using read_uri_query [of "query @ [(''X-Amz-Security-Token'', t)]"]
    by (simp add: query_text_snoc [OF assms(2)] token_key)
  show ?thesis
    by (rule exI [of _ "query_text encodeURIComponent query"], rule exI [of _ "?last (sessionToken i)"])
      (use q in \<open>auto simp: presignWssUrl_def assms(1)\<close>)
qed

theorem presigned_url_reads_back_witness:
  "\<exists>u. presignWssUrl demo_presign demo_cfg (demo_identity ''A'') = ''wss://iot.example/mqtt?'' @ u \<and>
    map_of (read_query decodeURIComponent u) ''X-Amz-Security-Token'' = Some ''a/b''"
proof -
  have "demo_presign (accessKeyId (demo_identity ''A'')) (secretAccessKey (demo_identity ''A'')) (region demo_cfg)
      (iotEndpoint demo_cfg) ''/mqtt'' = (''/mqtt'', [(''X-Amz-Credential'', ''AK/eu-central-1''), (''X-Amz-Signature'', ''sig'')])"
    by (simp add: demo_presign_def demo_identity_def demo_cfg_def)
  from presigned_url_reads_back [of demo_presign "demo_identity ''A''" demo_cfg, OF this]
  obtain start last where u: "presignWssUrl demo_presign demo_cfg (demo_identity ''A'') =
      ''wss://'' @ iotEndpoint demo_cfg @ ''/mqtt'' @ ''?'' @ start @ last"
    "read_query decodeURIComponent (start @ last) = [(''X-Amz-Credential'', ''AK/eu-central-1''), (''X-Amz-Signature'', ''sig'')]
      @ [(''X-Amz-Security-Token'', sessionToken (demo_identity ''A''))]" by blast
  show ?thesis
    unfolding u(1) by (rule exI [of _ "start @ last"], simp only: u(2)) (simp add: demo_cfg_def demo_identity_def)
qed

end
