(* ===== verification/Policy_Lambda.thy ===== *)
theory Policy_Lambda
  imports Identity Cloud_Link_Safety
begin

text \<open>
  The function that attaches the viewer's policy at sign-in
  (\<open>infra/lambda/iot-policy-attach/index.mjs\<close>). The identity service and the policy service are
  parameters: what \<open>GetId\<close> answers for a token, and whether an attachment goes through. The
  attachments it asks for are part of the result.
\<close>

record http_event =
  http_method :: "string option"
  http_headers :: "(string \<times> string) list option"

record policy_env =
  POLICY_NAME :: string
  GetId :: "string \<Rightarrow> string + string option"
  AttachPolicy :: "string \<Rightarrow> string \<Rightarrow> string option"

definition lambda_reply :: "nat \<Rightarrow> (string \<times> json) list \<Rightarrow> nat \<times> json" where
  "lambda_reply statusCode body = (statusCode, JObj body)"

text \<open>The bearer token.\<close>

definition bearer_token :: "http_event \<Rightarrow> string" where
  "bearer_token ev =
    (let headers = nullish (http_headers ev) [];
         raw = nullish (map_of headers ''authorization'') (nullish (map_of headers ''Authorization'') [])
     in trim (strip_bearer raw))"

text \<open>The reply, and the attachments asked for, as policy and target.\<close>

definition policy_handler :: "policy_env \<Rightarrow> http_event \<Rightarrow> (nat \<times> json) \<times> (string \<times> string) list" where
  "policy_handler P ev =
    (if http_method ev = Some ''OPTIONS'' then ((204, JStr []), [])
     else (let tok = bearer_token ev in
       if tok = [] then (lambda_reply 401 [(''error'', JStr ''missing_token'')], [])
       else (case GetId P tok of
           Inl name \<Rightarrow> (lambda_reply 401 [(''error'', JStr ''identity_lookup_failed''), (''detail'', JStr name)], [])
         | Inr found \<Rightarrow>
             if \<not> truthy_str found then (lambda_reply 502 [(''error'', JStr ''no_identity_returned'')], [])
             else (case AttachPolicy P (POLICY_NAME P) (the found) of
                 Some name \<Rightarrow> (lambda_reply 500 [(''error'', JStr ''attach_failed''), (''detail'', JStr name)],
                   [(POLICY_NAME P, the found)])
               | None \<Rightarrow> (lambda_reply 200 [(''identityId'', JStr (the found)), (''policy'', JStr (POLICY_NAME P)),
                   (''attached'', JBool True)], [(POLICY_NAME P, the found)])))))"

section \<open>The caller's identity, and no other\<close>

lemma bearer_of:
  assumes "list_all (\<lambda>c. \<not> is_js_space c) t"
  shows "trim (strip_bearer (''Bearer '' @ t)) = t"
proof -
  have "dropWhile is_js_space t = t" using assms by (cases t) simp_all
  then have "strip_bearer (''Bearer '' @ t) = t"
    by (simp add: strip_bearer_def lower_def is_js_space_def Let_def char_of_eq)
  with assms show ?thesis by (simp add: trim_id)
qed

text \<open>C39: Signing in gives the policy to the caller and to nobody else: the request the console sends for an
  operator's token leads to at most one attachment, of the configured policy and no other, to the
  identity that the identity service itself names for that token; the console counts it as attached
  exactly when it was, and every other outcome (a rejected token, no identity, an
  attachment that fails) is answered with a status of its own and attaches nothing
  that was not asked for.\<close>

theorem policy_goes_to_caller:
  assumes "attach_request cfg t = Some (url, auth)" "list_all (\<lambda>c. \<not> is_js_space c) t" "t \<noteq> []"
    and "map_of hs ''authorization'' = Some auth" "http_method ev = Some ''POST''" "http_headers ev = Some hs"
  shows "case policy_handler P ev of ((status, answer), attachments) \<Rightarrow>
    (case GetId P t of
       Inl _ \<Rightarrow> attachments = [] \<and> status = 401
     | Inr None \<Rightarrow> attachments = [] \<and> status = 502
     | Inr (Some i) \<Rightarrow>
         if i = [] then attachments = [] \<and> status = 502
         else attachments = [(POLICY_NAME P, i)] \<and>
           status = (if AttachPolicy P (POLICY_NAME P) i = None then 200 else 500)) \<and>
    attach_result cfg (Some status) =
      (\<exists>i. GetId P t = Inr (Some i) \<and> i \<noteq> [] \<and> AttachPolicy P (POLICY_NAME P) i = None)"
proof -
  have a: "auth = ''Bearer '' @ t" "truthy_str (apiEndpoint cfg)" using assms(1) by (auto simp: attach_request_def split: if_splits)
  then have "bearer_token ev = t"
    using assms(2,4,6) bearer_of by (simp add: bearer_token_def)
  then show ?thesis
    using a(2) assms(3,5)
    by (auto simp: policy_handler_def lambda_reply_def attach_result_def Let_def split: sum.split option.split)
qed

definition demo_policy :: policy_env where
  "demo_policy = \<lparr>POLICY_NAME = ''viewer'', GetId = (\<lambda>t. if t = ''tA'' then Inr (Some ''id-A'') else Inl ''NotAuthorized''),
     AttachPolicy = (\<lambda>_ _. None)\<rparr>"

theorem policy_goes_to_caller_witness:
  "snd (policy_handler demo_policy \<lparr>http_method = Some ''POST'', http_headers = Some [(''authorization'', ''Bearer tA'')]\<rparr>)
    = [(''viewer'', ''id-A'')]"
proof -
  let ?ev = "\<lparr>http_method = Some ''POST'', http_headers = Some [(''authorization'', ''Bearer tA'')]\<rparr>"
  have "attach_request demo_cfg ''tA'' = Some (''https://api.example/api/iot/attach-policy'', ''Bearer tA'')"
    by (simp add: attach_request_def demo_cfg_def)
  moreover have "list_all (\<lambda>c. \<not> is_js_space c) ''tA''" by (simp add: is_js_space_def Let_def)
  ultimately show ?thesis
    using policy_goes_to_caller [of demo_cfg "''tA''" _ "''Bearer tA''" "[(''authorization'', ''Bearer tA'')]" ?ev demo_policy]
    by (auto simp: demo_policy_def split_def)
qed

end
