(* ===== verification/Console_Pages.thy ===== *)
theory Console_Pages
  imports Console Console_Auth Contract
begin

text \<open>
  What the console shows, as far as it decides what an operator can do: the entry gate and the
  mount boundary behind it (\<open>App.tsx\<close>, \<open>mode/EntryGate.tsx\<close>), the navigation
  (\<open>components/layout/nav.ts\<close>), and the controls of the header, the overlays, the operations page,
  the teleoperation panel and the dashboard. A page is the list of its controls in the order they are
  shown; a control has its label, whether it is disabled, and what pressing it does. Layout
  and colours without a meaning of their own are left out; what is shown of the telemetry is in \<open>Display\<close>.
\<close>

section \<open>Controls\<close>

datatype page_event =
    Session console_event
  | CloudSignIn
  | LeaveSession
  | EnterOperator
  | EnterDemo
  | ToggleTeleop

record control =
  label :: string
  disabled :: bool
  pressed :: page_event

definition ctl :: "string \<Rightarrow> bool \<Rightarrow> page_event \<Rightarrow> control" where
  "ctl l d e = \<lparr>label = l, disabled = d, pressed = e\<rparr>"

lemma ctl_simps [simp]: "label (ctl l d e) = l" "disabled (ctl l d e) = d" "pressed (ctl l d e) = e"
  by (simp_all add: ctl_def)

text \<open>A browser runs the handler of an enabled button only.\<close>

definition press :: "(nat \<Rightarrow> string) \<Rightarrow> control \<Rightarrow> console \<Rightarrow> console" where
  "press ids c s =
    (if disabled c then s else (case pressed c of Session e \<Rightarrow> console_step ids e s | _ \<Rightarrow> s))"

text \<open>\<open>hasControl\<close> and \<open>commandsDisabled\<close> of the session.\<close>

definition hasControl :: "console \<Rightarrow> bool" where
  "hasControl s = truthy_str (tok s)"

definition commandsDisabled :: "console \<Rightarrow> bool" where
  "commandsDisabled s = (mode s = OperatorMode \<and> \<not> truthy_str (cloudApi s))"

section \<open>The operations page\<close>

text \<open>\<open>!!(zone && ZONE_MODE_MATRIX[zone]?.mode2)\<close>, of the zone of the last telemetry.\<close>

definition mode2Allowed :: "string option \<Rightarrow> bool" where
  "mode2Allowed zone =
    (truthy_str zone \<and> (case ZONE_MODE_MATRIX (the zone) of None \<Rightarrow> False | Some p \<Rightarrow> mode2 p))"

definition command_event :: "(string \<times> json) list \<Rightarrow> page_event" where
  "command_event payload = Session (Post ''command'' (JObj [(''payload'', JObj payload)]))"

definition emergency_controls :: "console \<Rightarrow> control list" where
  "emergency_controls s =
    [ctl ''E-STOP'' (\<not> hasControl s) (Session EstopClick),
     ctl ''Safe stop'' (\<not> hasControl s) (command_event [(''action'', JStr ''SAFE_STOP'')]),
     ctl ''Clear safe-stop latch'' (\<not> hasControl s) (Session (Post ''clear-safe-stop'' (JObj [])))]"

definition drive_ctl :: "console \<Rightarrow> string \<Rightarrow> (string \<times> json) list \<Rightarrow> control" where
  "drive_ctl s l payload = ctl l (\<not> hasControl s) (command_event payload)"

definition driving_controls :: "console \<Rightarrow> control list" where
  "driving_controls s =
    [drive_ctl s ''Forward'' [(''action'', JStr ''SELECT_DIRECTION''), (''direction'', JStr ''FORWARD'')],
     drive_ctl s ''Neutral'' [(''action'', JStr ''SELECT_DIRECTION''), (''direction'', JStr ''NEUTRAL'')],
     drive_ctl s ''Backward'' [(''action'', JStr ''SELECT_DIRECTION''), (''direction'', JStr ''REVERSE'')],
     drive_ctl s ''Left'' [(''action'', JStr ''TURN''), (''direction'', JStr ''LEFT'')],
     drive_ctl s ''Right'' [(''action'', JStr ''TURN''), (''direction'', JStr ''RIGHT'')],
     drive_ctl s ''Center'' [(''action'', JStr ''STEER''), (''angle'', JInt 0)],
     drive_ctl s ''Throttle'' [(''action'', JStr ''DRIVE''), (''throttle'', JInt 20), (''brake'', JInt 0)],
     drive_ctl s ''Brake'' [(''action'', JStr ''DRIVE''), (''throttle'', JInt 0), (''brake'', JInt 50)]]"

definition signalling_controls :: "console \<Rightarrow> control list" where
  "signalling_controls s =
    [drive_ctl s ''Horn'' [(''action'', JStr ''HORN''), (''durationMs'', JInt 500)],
     drive_ctl s ''Hazard'' [(''action'', JStr ''HAZARD_LIGHTS''), (''on'', JBool True)]]"

definition session_controls :: "console \<Rightarrow> control list" where
  "session_controls s =
    (if truthy_str (tok s) then [] else [ctl ''Take control'' (commandsDisabled s) (Session TakeControlClick)])"

definition operations_page :: "string option \<Rightarrow> console \<Rightarrow> control list" where
  "operations_page zone s = emergency_controls s @ (if mode2Allowed zone then driving_controls s else [])
     @ signalling_controls s @ session_controls s"

section \<open>The teleoperation panel\<close>

record panel =
  tp_enabled :: bool
  tp_gamepad :: bool

text \<open>\<open>active\<close> of \<open>useTeleopInput\<close>: whether the input loop runs.\<close>

definition teleop_active :: "string option \<Rightarrow> console \<Rightarrow> panel \<Rightarrow> bool" where
  "teleop_active zone s p = (tp_enabled p \<and> hasControl s \<and> mode2Allowed zone)"

definition canEnable :: "string option \<Rightarrow> console \<Rightarrow> bool" where
  "canEnable zone s = (hasControl s \<and> mode2Allowed zone)"

definition teleop_page :: "string option \<Rightarrow> console \<Rightarrow> panel \<Rightarrow> control list" where
  "teleop_page zone s p =
    (if \<not> mode2Allowed zone then []
     else [ctl (if tp_enabled p then ''Disable'' else ''Enable driving'') (\<not> canEnable zone s) ToggleTeleop])"

definition toggle_teleop :: "panel \<Rightarrow> panel" where
  "toggle_teleop p = p\<lparr>tp_enabled := \<not> tp_enabled p\<rparr>"

text \<open>The device can be changed while the input is off.\<close>

definition choose_device :: "bool \<Rightarrow> panel \<Rightarrow> panel" where
  "choose_device gamepad p = (if tp_enabled p then p else p\<lparr>tp_gamepad := gamepad\<rparr>)"

text \<open>\<open>live_active\<close> and \<open>ready\<close> are what the input loop reports.\<close>

definition teleop_status :: "panel \<Rightarrow> bool \<Rightarrow> bool \<Rightarrow> string" where
  "teleop_status p live_active device_ready =
    (if tp_enabled p \<and> tp_gamepad p \<and> \<not> device_ready then ''No pad - press a button''
     else if live_active then ''Driving''
     else if tp_enabled p then ''Armed (no control/zone)''
     else ''Idle'')"

section \<open>The dashboard\<close>

definition allChecked :: "json list \<Rightarrow> bool" where
  "allChecked items = (0 < length items \<and> list_all (\<lambda>i. get_field i ''status'' \<noteq> JStr ''PENDING'') items)"

definition criticalFail :: "json list \<Rightarrow> bool" where
  "criticalFail items =
    list_ex (\<lambda>i. \<not> falsy (get_field i ''safetyCritical'') \<and> get_field i ''status'' = JStr ''FAIL'') items"

definition mission_ctl :: "console \<Rightarrow> string \<Rightarrow> string \<Rightarrow> control" where
  "mission_ctl s l action = ctl l (\<not> hasControl s) (Session (MissionClick action))"

definition mission_controls :: "console \<Rightarrow> control list" where
  "mission_controls s =
    (if mode s = DemoMode then []
     else (case mission s of
         None \<Rightarrow> [ctl ''New mission'' (\<not> hasControl s) (Session CreateMissionClick)]
       | Some m \<Rightarrow>
           (if ms_status m = ''ACTIVE'' then [mission_ctl s ''Pause'' ''pause'', mission_ctl s ''Complete'' ''complete''] else [])
           @ (if ms_status m = ''PAUSED'' then [mission_ctl s ''Resume'' ''resume''] else [])
           @ (if List.member [''PENDING'', ''PRE_CHECK'', ''ACTIVE'', ''PAUSED''] (ms_status m)
              then [mission_ctl s ''Abort'' ''abort''] else [])
           @ (if List.member [''COMPLETED'', ''ABORTED''] (ms_status m)
              then [ctl ''Dismiss'' False (Session DismissClick)] else [])))"

definition item_controls :: "console \<Rightarrow> json \<Rightarrow> control list" where
  "item_controls s i =
    (if get_field i ''status'' = JStr ''PENDING''
     then [ctl ''Pass'' (\<not> hasControl s) (Session (CheckItemClick (str_field i ''itemId'') ''PASS'')),
           ctl ''Fail'' (\<not> hasControl s) (Session (CheckItemClick (str_field i ''itemId'') ''FAIL''))]
     else [])"

definition checklist_controls :: "console \<Rightarrow> control list" where
  "checklist_controls s =
    (case mission s of
       None \<Rightarrow> []
     | Some m \<Rightarrow>
         if List.member [''PRE_CHECK'', ''PENDING''] (ms_status m) \<and> 0 < length (checkItems s)
         then concat (map (item_controls s) (checkItems s))
           @ (if allChecked (checkItems s) \<and> \<not> criticalFail (checkItems s)
              then [ctl ''Confirm & start mission'' (\<not> hasControl s) (Session ConfirmClick)] else [])
         else [])"

definition dashboard_page :: "console \<Rightarrow> control list" where
  "dashboard_page s = mission_controls s @ checklist_controls s"

section \<open>The overlays\<close>

definition decide_event :: "nat \<Rightarrow> string \<Rightarrow> page_event" where
  "decide_event n i = Session (DecideClick (if n = 0 then ''CONFIRM'' else ''SELECT_ALTERNATIVE'') (Some i))"

definition option_controls :: "console \<Rightarrow> card \<Rightarrow> control list" where
  "option_controls s p =
    map (\<lambda>(n, i, d). ctl d (\<not> hasControl s) (decide_event n i)) (enumerate 0 (card_options p))"

definition overlays :: "bool \<Rightarrow> console \<Rightarrow> control list" where
  "overlays isLatched s =
    (if \<not> isLatched \<and> activeProposal s = None \<and> lastProposalResult s = None \<and> \<not> commandsDisabled s then []
     else (if isLatched \<and> hasControl s
           then [ctl ''Clear safe-stop'' False (Session (Post ''clear-safe-stop'' (JObj [])))] else [])
       @ (case activeProposal s of
            None \<Rightarrow> []
          | Some p \<Rightarrow> option_controls s p
              @ [ctl ''Reject proposal'' (\<not> hasControl s) (Session (DecideClick ''REJECT'' None))]))"

text \<open>A card is urgent below five seconds.\<close>

definition urgent :: "console \<Rightarrow> bool" where
  "urgent s = (proposalTimeLeft s < 5000)"

section \<open>Badges and bars\<close>

datatype BadgeTone = success | danger | warning | info | neutral

definition vehicleStateTone :: "string option \<Rightarrow> BadgeTone" where
  "vehicleStateTone st =
    (if st = Some ''SAFE_STOPPED'' then danger
     else if st = Some ''REMOTE_DRIVE'' \<or> st = Some ''SUPERVISED_ASSIST'' then success
     else if st = Some ''MISSION_PAUSED'' then warning
     else neutral)"

definition missionTone :: "string option \<Rightarrow> BadgeTone" where
  "missionTone st =
    (if st = Some ''ACTIVE'' then success
     else if st = Some ''COMPLETED'' then info
     else if st = Some ''ABORTED'' then danger
     else warning)"

text \<open>The share of the bar that is filled.\<close>

definition progress_pct :: "rat \<Rightarrow> rat" where
  "progress_pct v = max 0 (min 100 v)"

section \<open>Texts with placeholders\<close>

definition is_word :: "char \<Rightarrow> bool" where
  "is_word c = (let n = (of_char c :: nat) in
     (48 \<le> n \<and> n \<le> 57) \<or> (65 \<le> n \<and> n \<le> 90) \<or> (97 \<le> n \<and> n \<le> 122) \<or> n = 95)"

text \<open>\<open>template.replace(/\{(\w+)\}/g, ...)\<close>: the text put in is not looked at again, and a name without a
  value stays as it stands.\<close>

function fmt :: "string \<Rightarrow> (string \<times> string) list \<Rightarrow> string" where
  "fmt [] vars = []"
| "fmt (c # cs) vars =
    (let k = takeWhile is_word cs; rest = dropWhile is_word cs in
     if c = CHR ''{'' \<and> k \<noteq> [] \<and> rest \<noteq> [] \<and> hd rest = CHR ''}''
     then nullish (map_of vars k) (CHR ''{'' # k @ ''}'') @ fmt (tl rest) vars
     else c # fmt cs vars)"
  by pat_completeness auto
termination
  by (relation "measure (length \<circ> fst)")
    (auto simp: less_Suc_eq_le intro: order_trans [OF diff_le_self length_dropWhile_le])

definition maneuverOptionAria :: string where
  "maneuverOptionAria = ''{action}: {description}. Expected: {expected}''"

definition proposalResult :: string where
  "proposalResult = ''Last proposal: {result}''"

definition option_aria :: "nat \<Rightarrow> string \<Rightarrow> string \<Rightarrow> string" where
  "option_aria n description expected = fmt maneuverOptionAria
     [(''action'', if n = 0 then ''Approve proposed maneuver'' else ''Select alternative''),
      (''description'', description), (''expected'', expected)]"

section \<open>Navigation\<close>

record NavItem =
  nav_to :: string
  nav_label :: string
  nav_stub :: bool

definition nav_item :: "string \<Rightarrow> string \<Rightarrow> bool \<Rightarrow> NavItem" where
  "nav_item t l st = \<lparr>nav_to = t, nav_label = l, nav_stub = st\<rparr>"

text \<open>The sections, with their headings.\<close>

definition NAV :: "(string option \<times> NavItem list) list" where
  "NAV =
    [(None, [nav_item ''/'' ''Dashboard'' False, nav_item ''/map'' ''Map & Dispatch'' False,
        nav_item ''/vehicles'' ''Vehicles'' False, nav_item ''/operations'' ''Remote Operations'' False]),
     (Some ''Fleet'', [nav_item ''/inspections'' ''Inspections'' True, nav_item ''/issues'' ''Issues'' True,
        nav_item ''/reminders'' ''Reminders'' True, nav_item ''/service'' ''Service'' True,
        nav_item ''/charging'' ''Charging & Energy'' True]),
     (Some ''Operations'', [nav_item ''/contacts'' ''Contacts & Users'' True, nav_item ''/parts'' ''Parts & Inventory'' True,
        nav_item ''/places'' ''Places'' True, nav_item ''/reports'' ''Reports'' True])]"

definition navFor :: "AppMode option \<Rightarrow> (string option \<times> NavItem list) list" where
  "navFor m =
    (if m \<noteq> Some DemoMode then NAV
     else filter (\<lambda>(h, items). 0 < length items) (map (\<lambda>(h, items). (h, filter (\<lambda>i. \<not> nav_stub i) items)) NAV))"

definition currentLabel :: "string \<Rightarrow> string" where
  "currentLabel path =
    (case find (\<lambda>i. nav_to i = path) (concat (map snd NAV)) of Some i \<Rightarrow> nav_label i | None \<Rightarrow> ''Console'')"

text \<open>The routes of the shell; any other path leads back to \<open>/\<close>.\<close>

datatype page = Dashboard | MapDispatch | Vehicles | Operations | Stub string

definition ROUTES :: "(string \<times> page) list" where
  "ROUTES =
    [(''/'', Dashboard), (''/map'', MapDispatch), (''/vehicles'', Vehicles), (''/operations'', Operations),
     (''/inspections'', Stub ''Inspections''), (''/issues'', Stub ''Issues''), (''/reminders'', Stub ''Reminders''),
     (''/service'', Stub ''Service''), (''/charging'', Stub ''Charging & Energy''), (''/contacts'', Stub ''Contacts & Users''),
     (''/parts'', Stub ''Parts & Inventory''), (''/places'', Stub ''Places''), (''/reports'', Stub ''Reports'')]"

text \<open>\<open>LandingRedirect\<close>: whether it has fired, and the path.\<close>

definition landing :: "AppMode \<Rightarrow> bool \<times> string \<Rightarrow> bool \<times> string" where
  "landing m s = (if fst s then s else (True, if m = DemoMode \<and> snd s = ''/'' then ''/map'' else snd s))"

section \<open>The mount boundary\<close>

datatype screen = EntryGate | App AppMode

text \<open>\<open>Gated\<close>; asking for the sign-in removes tokens that have expired.\<close>

definition session_check :: "browser \<Rightarrow> bool \<times> browser" where
  "session_check b =
    (if (case search_query b of None \<Rightarrow> False | Some q \<Rightarrow> map_of q ''code'' \<noteq> None) then (True, b)
     else (fst (getTokens b) \<noteq> None, snd (getTokens b)))"

definition gated :: "AppMode option \<Rightarrow> browser \<Rightarrow> screen \<times> browser" where
  "gated m b =
    (case m of
       None \<Rightarrow> (EntryGate, b)
     | Some OperatorMode \<Rightarrow> (let (alive, b') = session_check b in (if alive then App OperatorMode else EntryGate, b'))
     | Some x \<Rightarrow> (App x, b))"

text \<open>A tab: its page is rendered when it is loaded and when the mode changes; what arrives in between
  is drawn by the parts below the gate, without asking it again.\<close>

record tab =
  tab_browser :: browser
  tab_mode :: "AppMode option"
  tab_screen :: screen

definition render :: "AppMode option \<Rightarrow> browser \<Rightarrow> tab" where
  "render m b = \<lparr>tab_browser = snd (gated m b), tab_mode = m, tab_screen = fst (gated m b)\<rparr>"

definition set_mode :: "AppMode option \<times> browser \<Rightarrow> tab \<Rightarrow> tab" where
  "set_mode mb t = (if fst mb = tab_mode t then t\<lparr>tab_browser := snd mb\<rparr> else render (fst mb) (snd mb))"

definition load_page :: "browser \<Rightarrow> tab" where
  "load_page b = render (initial_mode b) b"

text \<open>The two ways in. Without a configuration the operator's button is not there.\<close>

definition entry_page :: "AwsConfig option \<Rightarrow> control list" where
  "entry_page cfg = (if cfg \<noteq> None then [ctl ''Authenticate access'' False EnterOperator] else [])
     @ [ctl ''Access via demo mode'' False EnterDemo]"

definition enterOperator :: "(nat list \<Rightarrow> nat list) \<Rightarrow> nat list \<Rightarrow> AwsConfig option \<Rightarrow> tab \<Rightarrow> tab" where
  "enterOperator sha256 random cfg t =
    (case cfg of
       None \<Rightarrow> t
     | Some c \<Rightarrow>
         (let t' = set_mode (select_mode OperatorMode (tab_browser t)) t
          in t'\<lparr>tab_browser := login sha256 random c (tab_browser t')\<rparr>))"

definition enterDemo :: "tab \<Rightarrow> tab" where
  "enterDemo t = set_mode (select_mode DemoMode (tab_browser t)) t"

section \<open>The header\<close>

text \<open>\<open>leaveSession\<close>: the mode is cleared first, and an operator whose cloud link is configured is
  signed out as well.\<close>

definition leaveSession :: "AwsConfig option \<Rightarrow> tab \<Rightarrow> tab" where
  "leaveSession cfg t =
    (let t' = set_mode (reset_mode (tab_browser t)) t in
     if tab_mode t = Some OperatorMode \<and> cfg \<noteq> None
     then t'\<lparr>tab_browser := logout (the cfg) (tab_browser t')\<rparr> else t')"

definition exitLabel :: "AppMode option \<Rightarrow> string" where
  "exitLabel m =
    (case m of Some OperatorMode \<Rightarrow> ''Sign out'' | Some DemoMode \<Rightarrow> ''Exit demo'' | _ \<Rightarrow> ''Exit'')"

definition header_controls :: "bool \<Rightarrow> console \<Rightarrow> control list" where
  "header_controls signed_out s =
    (if signed_out then [ctl ''Sign in (AWS)'' False CloudSignIn] else [])
     @ (if hasControl s then [] else [ctl ''Take Control'' (commandsDisabled s) (Session TakeControlClick)])
     @ [ctl (exitLabel (Some (mode s))) False LeaveSession]"

end
