(* ===== verification/Pages_Safety.thy ===== *)
theory Pages_Safety
  imports Console_Pages Decisions Fleet_Safety
begin

text \<open>
  What the console offers and what the services accept: the driving, signalling and stop buttons
  against the zone/mode gate of the command service, the mission buttons against the transitions of
  the fleet service, and the option buttons of a proposal against the decision it takes; and what
  leaving a session leaves behind.
\<close>

section \<open>Commands\<close>

lemma mode2Allowed_gate: "mode2Allowed (Some z) \<longleftrightarrow> isModeAllowedInZone z ''MODE2''"
  by (cases "z = []") (auto simp: mode2Allowed_def isModeAllowedInZone_def ZONE_MODE_MATRIX_def split: option.split)

text \<open>The payloads that the page can send.\<close>

definition offered_payloads :: "(string \<times> json) list list" where
  "offered_payloads = [[(''action'', JStr ''SAFE_STOP'')],
     [(''action'', JStr ''SELECT_DIRECTION''), (''direction'', JStr ''FORWARD'')],
     [(''action'', JStr ''SELECT_DIRECTION''), (''direction'', JStr ''NEUTRAL'')],
     [(''action'', JStr ''SELECT_DIRECTION''), (''direction'', JStr ''REVERSE'')],
     [(''action'', JStr ''TURN''), (''direction'', JStr ''LEFT'')],
     [(''action'', JStr ''TURN''), (''direction'', JStr ''RIGHT'')],
     [(''action'', JStr ''STEER''), (''angle'', JInt 0)],
     [(''action'', JStr ''DRIVE''), (''throttle'', JInt 20), (''brake'', JInt 0)],
     [(''action'', JStr ''DRIVE''), (''throttle'', JInt 0), (''brake'', JInt 50)],
     [(''action'', JStr ''HORN''), (''durationMs'', JInt 500)],
     [(''action'', JStr ''HAZARD_LIGHTS''), (''on'', JBool True)]]"

lemma offered_parses:
  assumes "zod P"
  shows "list_all (\<lambda>payload. P CommandPayloadSchema (JObj payload) = Some (JObj payload)) offered_payloads"
  by (simp add: offered_payloads_def schema_defs literal_of_def get_field_def zod.parse_string [OF assms]
      zod.parse_number [OF assms] zod.parse_object [OF assms] zod.parse_enum [OF assms] zod.parse_literal [OF assms]
      zod.parse_boolean [OF assms] zod.parse_union [OF assms] zod.parse_optional [OF assms])

lemma command_event_inject [simp]: "command_event p = command_event q \<longleftrightarrow> p = q"
  by (simp add: command_event_def)

lemma command_event_other [simp]:
  "Session EstopClick \<noteq> command_event q" "Session (Post ''clear-safe-stop'' (JObj [])) \<noteq> command_event q"
  "Session TakeControlClick \<noteq> command_event q"
  by (simp_all add: command_event_def)

lemmas page_defs = operations_page_def emergency_controls_def driving_controls_def signalling_controls_def
  session_controls_def drive_ctl_def

lemma offered_controls:
  assumes "c \<in> set (operations_page z s)" "pressed c = command_event payload"
  shows "payload \<in> set offered_payloads \<and> disabled c = (\<not> hasControl s) \<and>
    (let a = str_field (JObj payload) ''action'' in
       if label c \<in> {''Horn'', ''Hazard''} then inferMode a = ''MODE1'' \<and> \<not> alwaysAllowed a
       else alwaysAllowed a \<or> inferMode a = ''MODE2'' \<and> mode2Allowed z)"
  using assms by (auto simp: page_defs offered_payloads_def alwaysAllowed_def inferMode_def enum_defs get_field_def split: if_splits)

lemma diag_irrelevant: "inferMode a \<noteq> ''DIAG'' \<Longrightarrow> isDiagDisruptiveAllowed a z b"
proof -
  assume "inferMode a \<noteq> ''DIAG''"
  then have "a \<in> set MODE2_ACTIONS \<or> a \<notin> set DIAG_ACTIONS" by (auto simp: inferMode_def split: if_splits)
  moreover have "\<forall>x \<in> set MODE2_ACTIONS. x \<notin> set DIAG_DISRUPTIVE_ACTIONS"
    by (simp add: MODE2_ACTIONS_def DIAG_DISRUPTIVE_ACTIONS_def)
  ultimately have "a \<notin> set DIAG_DISRUPTIVE_ACTIONS" by (auto simp: DIAG_ACTIONS_def)
  then show ?thesis by (simp add: isDiagDisruptiveAllowed_def isDiagDisruptive_def)
qed

lemma run_offered:
  assumes z: "zod (safeParse E)" and p: "payload \<in> set offered_payloads"
    and r: "requireOperatorIdentity E r p = None" "store_up w" "controls E w v p t"
  shows "run (sendCommand E v p t (JObj payload) r) w =
    (let a = str_field (JObj payload) ''action'' in
     if gate_allows w v (JObj payload) then run (dispatch E v p t (inferMode a) (JObj payload) False) w
     else if \<not> isModeAllowedInZone (getZone w v) (inferMode a) then
       (case run (logEdr_fresh E v p a ''REJECTED'' (JObj [(''reason'', JStr ''MODE_MISMATCH''),
           (''zone'', JStr (getZone w v)), (''mode'', JStr (inferMode a))])) w of
         (Inl e, w') \<Rightarrow> (Inl e, w') | (Inr _, w') \<Rightarrow> (Inl (ForbiddenException ''MODE_MISMATCH''), w'))
     else
       (case run (logEdr_fresh E v p a ''REJECTED'' (JObj [(''reason'', JStr ''DIAG_DEFERRED''),
           (''zone'', JStr (getZone w v))])) w of
         (Inl e, w') \<Rightarrow> (Inl e, w') | (Inr _, w') \<Rightarrow> (Inl (ForbiddenException ''DIAG_DEFERRED''), w')))"
proof -
  have "safeParse E CommandPayloadSchema (JObj payload) = Some (JObj payload)"
    using offered_parses [OF z] p by (simp add: list_all_iff)
  then show ?thesis by (simp add: run_sendCommand r run_command_after_token Let_def)
qed

lemma press_command:
  assumes "mode s \<noteq> DemoMode" "truthy_str (commandApi s)" "tok s = Some t" "t \<noteq> []"
    and "pressed c = command_event payload" "disabled c = (\<not> hasControl s)"
  shows "requests (press ids c s) = requests s @ [\<lparr>rq_url = command_url (the (commandApi s)) ''command'',
    rq_auth = apiHeaders s, rq_body = JObj (credentials (operatorId s) t @ [(''payload'', JObj payload)])\<rparr>]"
  using assms
  by (simp add: press_def hasControl_def command_event_def cmdPost_def send_def spread_def credentials_def)

text \<open>C29: The console offers what the gate lets pass. Every button of the operations page that sends a
  command, shown for the zone in which the service sees the vehicle and pressed by the operator
  who holds it, sends one request, and the service takes its payload as it is through schema, zone and
  mode filter to the dispatch. The one exception are horn and hazard lights where the zone
  forbids supervision as well: these are shown, and refused.\<close>

theorem offered_commands_pass_gate:
  assumes "zod (safeParse E)" "c \<in> set (operations_page (Some (getZone w vehicleId)) s)" "pressed c = command_event payload"
    and "mode s \<noteq> DemoMode" "truthy_str (commandApi s)" "tok s = Some t" "t \<noteq> []"
    and "requireOperatorIdentity E r (operatorId s) = None" "store_up w" "controls E w vehicleId (operatorId s) t"
  shows "requests (press ids c s) = requests s @ [\<lparr>rq_url = command_url (the (commandApi s)) ''command'',
      rq_auth = apiHeaders s, rq_body = JObj (credentials (operatorId s) t @ [(''payload'', JObj payload)])\<rparr>] \<and>
    (if label c \<in> {''Horn'', ''Hazard''} \<and> \<not> isModeAllowedInZone (getZone w vehicleId) ''MODE1''
     then fst (run (sendCommand E vehicleId (operatorId s) t (JObj payload) r) w) =
       Inl (if db_up w then ForbiddenException ''MODE_MISMATCH'' else Error (fault E))
     else run (sendCommand E vehicleId (operatorId s) t (JObj payload) r) w =
       run (dispatch E vehicleId (operatorId s) t (inferMode (str_field (JObj payload) ''action'')) (JObj payload) False) w)"
proof -
  let ?a = "str_field (JObj payload) ''action''"
  note o = offered_controls [OF assms(2,3)]
  note r = run_offered [OF assms(1) conjunct1 [OF o] assms(8-10)]
  have "gate_allows w vehicleId (JObj payload) \<longleftrightarrow>
      \<not> (label c \<in> {''Horn'', ''Hazard''} \<and> \<not> isModeAllowedInZone (getZone w vehicleId) ''MODE1'')"
    and "\<not> gate_allows w vehicleId (JObj payload) \<longrightarrow> inferMode ?a = ''MODE1''"
    using conjunct2 [OF conjunct2 [OF o]] diag_irrelevant [of ?a]
    by (auto simp: Let_def gate_allows_def mode2Allowed_gate split: if_splits)
  then show ?thesis
    using press_command [OF assms(4-7) assms(3)] o
    by (auto simp: r Let_def run_logEdr_fresh)
qed

text \<open>The console's vehicle is in the depot and held by \<open>OP-1\<close>, whose session has the token.\<close>

definition depot_state :: "ttl_store world" where
  "depot_state = (grant (demo_env False) vehicleId ''OP-1'' demo_world)
     \<lparr>vehicleZones := [vehicleId \<mapsto> \<lparr>zone = ''depot'', permit = None\<rparr>]\<rparr>"

definition holding :: console where
  "holding = (session_start OperatorMode (Some ''https://api'') ''OP-1'' 0)\<lparr>tok := Some (demo_uuid 0)\<rparr>"

lemma holding_simps [simp]:
  "mode holding = OperatorMode" "cloudApi holding = Some ''https://api''" "operatorId holding = ''OP-1''"
  "tok holding = Some (demo_uuid 0)" "requests holding = []" "commandApi holding = Some ''https://api''"
  "hasControl holding"
  by (simp_all add: holding_def session_start_def commandApi_def hasControl_def demo_uuid_format)

lemma depot_simps [simp]:
  "store_up depot_state" "db_up depot_state" "getZone depot_state vehicleId = ''depot''"
  "controls (demo_env False) depot_state vehicleId ''OP-1'' (demo_uuid 0)"
proof -
  have "holder (demo_env False) (store (grant (demo_env False) vehicleId ''OP-1'' demo_world)) 1000000 vehicleId
      = Some \<lparr>op = ''OP-1'', token = demo_uuid 0, issuedAt = dec_of_int 1000000\<rparr>"
    using holder_grant [of "demo_env False" demo_world 1000000 vehicleId "''OP-1''" vehicleId] by simp
  then show "controls (demo_env False) depot_state vehicleId ''OP-1'' (demo_uuid 0)"
    unfolding depot_state_def envelope_frame by (simp add: controls_def)
qed (simp_all add: depot_state_def getZone_def)

theorem offered_commands_pass_gate_witness:
  "let c = driving_controls holding ! 6; payload = [(''action'', JStr ''DRIVE''), (''throttle'', JInt 20), (''brake'', JInt 0)] in
     label c = ''Throttle'' \<and> length (requests (press (\<lambda>_. []) c holding)) = 1 \<and>
     run (sendCommand (demo_env False) vehicleId ''OP-1'' (demo_uuid 0) (JObj payload) no_req) depot_state =
       run (dispatch (demo_env False) vehicleId ''OP-1'' (demo_uuid 0) ''MODE2'' (JObj payload) False) depot_state"
proof -
  let ?p = "[(''action'', JStr ''DRIVE''), (''throttle'', JInt 20), (''brake'', JInt 0)]"
  have c: "driving_controls holding ! 6 = drive_ctl holding ''Throttle'' ?p" by (simp add: driving_controls_def)
  have "mode2Allowed (Some ''depot'')" by (simp add: mode2Allowed_def ZONE_MODE_MATRIX_def permissions_def)
  then have "drive_ctl holding ''Throttle'' ?p \<in> set (operations_page (Some (getZone depot_state vehicleId)) holding)"
    by (simp add: operations_page_def driving_controls_def)
  from offered_commands_pass_gate [OF demo_laws(1) [of False] this, of ?p "demo_uuid 0" no_req "\<lambda>_. []"]
  show ?thesis by (simp add: c drive_ctl_def demo_uuid_format get_field_def) (simp add: inferMode_def enum_defs)
qed

text \<open>The page shows remote driving exactly where the gate allows it.\<close>

theorem driving_is_offered_where_allowed:
  "(\<exists>c \<in> set (operations_page (Some z) s). \<exists>payload. pressed c = command_event payload \<and>
      inferMode (str_field (JObj payload) ''action'') = ''MODE2'') \<longleftrightarrow> isModeAllowedInZone z ''MODE2''"
proof
  assume "\<exists>c \<in> set (operations_page (Some z) s). \<exists>payload. pressed c = command_event payload \<and>
      inferMode (str_field (JObj payload) ''action'') = ''MODE2''"
  then obtain c payload where c: "c \<in> set (operations_page (Some z) s)" "pressed c = command_event payload"
      "inferMode (str_field (JObj payload) ''action'') = ''MODE2''" by blast
  have "inferMode a = ''MODE2'' \<Longrightarrow> \<not> alwaysAllowed a" for a
    by (auto simp: inferMode_def alwaysAllowed_def enum_defs split: if_splits)
  with offered_controls [OF c(1,2)] c(3) show "isModeAllowedInZone z ''MODE2''"
    by (auto simp: mode2Allowed_gate Let_def split: if_splits)
next
  assume "isModeAllowedInZone z ''MODE2''"
  then have "driving_controls s ! 0 \<in> set (operations_page (Some z) s)"
    by (simp add: operations_page_def mode2Allowed_gate driving_controls_def)
  then show "\<exists>c \<in> set (operations_page (Some z) s). \<exists>payload. pressed c = command_event payload \<and>
      inferMode (str_field (JObj payload) ''action'') = ''MODE2''"
    by (rule bexI [rotated]) (simp add: driving_controls_def drive_ctl_def get_field_def inferMode_def enum_defs)
qed

text \<open>Outside the operating design the page still shows horn and hazard lights, and enabled, to an
  operator in control; the gate refuses both.\<close>

theorem signalling_shown_and_refused:
  "list_all (\<lambda>c. c \<in> set (operations_page (Some ''out_of_tod'') s) \<and> (if hasControl s then \<not> disabled c else True))
     (signalling_controls s) \<and>
   \<not> isModeAllowedInZone ''out_of_tod'' (inferMode ''HORN'') \<and> \<not> isModeAllowedInZone ''out_of_tod'' (inferMode ''HAZARD_LIGHTS'')"
  by (simp add: operations_page_def signalling_controls_def drive_ctl_def inferMode_def isModeAllowedInZone_def enum_defs
      permissions_def)

section \<open>Missions\<close>

text \<open>The last segment of the path an operation is posted to.\<close>

fun mission_path :: "mission_op \<Rightarrow> string" where
  "mission_path StartOp = ''start''"
| "mission_path PauseOp = ''pause''"
| "mission_path ResumeOp = ''resume''"
| "mission_path AbortOp = ''abort''"
| "mission_path CompleteOp = ''complete''"

lemma checklist_no_action: "c \<in> set (checklist_controls s) \<Longrightarrow> pressed c \<noteq> Session (MissionClick a)"
  by (auto simp: checklist_controls_def item_controls_def split: option.splits if_splits)

lemma mission_action_offered:
  assumes "mode s \<noteq> DemoMode" "mission s = Some ms"
  shows "(\<exists>c \<in> set (dashboard_page s). pressed c = Session (MissionClick a)) \<longleftrightarrow>
    (a = ''pause'' \<or> a = ''complete'') \<and> ms_status ms = ''ACTIVE'' \<or> a = ''resume'' \<and> ms_status ms = ''PAUSED'' \<or>
    a = ''abort'' \<and> ms_status ms \<in> {''PENDING'', ''PRE_CHECK'', ''ACTIVE'', ''PAUSED''}"
  using assms checklist_no_action [of _ s a]
  by (auto simp: dashboard_page_def mission_controls_def mission_ctl_def bex_Un)

definition allowed_from :: "mission_op \<Rightarrow> string list" where
  "allowed_from mop =
    (case mop of StartOp \<Rightarrow> [''PRE_CHECK''] | PauseOp \<Rightarrow> [''ACTIVE''] | ResumeOp \<Rightarrow> [''PAUSED'']
     | AbortOp \<Rightarrow> [''PENDING'', ''PRE_CHECK'', ''ACTIVE'', ''PAUSED''] | CompleteOp \<Rightarrow> [''ACTIVE''])"

lemma run_transition:
  assumes "fleet_db_up w" "find_mission w i = Some m"
  shows "(\<exists>res w'. run (transition E i to ss p) w = (Inr res, w')) \<longleftrightarrow> List.member ss (mis_status m)"
    and "\<not> List.member ss (mis_status m) \<Longrightarrow>
      run (transition E i to ss p) w = (Inl (Error (''Cannot transition from '' @ mis_status m @ '' to '' @ to)), w)"
  using assms by (auto simp: transition_def transition_tx_def)

lemma run_mission_call:
  assumes "fleet_db_up w" "find_mission w i = Some m" "mop \<noteq> StartOp"
  shows "(\<exists>res w'. run (mission_call E mop i p) w = (Inr res, w')) \<longleftrightarrow> mis_status m \<in> set (allowed_from mop)"
  using assms run_transition [OF assms(1,2)]
  by (cases mop) (simp_all add: allowed_from_def pause_def resume_def abort_def complete_def)

lemma run_missionOp:
  assumes "requireOperatorIdentity E r p = None" "fleet_db_up w" "find_mission w i = Some m"
    "has_control E w (mis_vehicleId m) p t"
  shows "(\<exists>res w'. run (missionOp E i p t r mop) w = (Inr res, w')) \<longleftrightarrow>
    (\<exists>res w'. run (mission_call E mop i p) w = (Inr res, w'))"
  using assms
  by (cases "run (mission_call E mop i p) w"; cases "fst (run (mission_call E mop i p) w)")
    (auto simp: missionOp_def mission_get_def with_checklist_def run_requireControl append_fleet_event_def
      split: prod.splits sum.splits)

lemma mission_action_posted:
  assumes "mode s \<noteq> DemoMode" "mission s = Some ms" "truthy_str (fleetApi s)"
    and "c \<in> set (dashboard_page s)" "pressed c = Session (MissionClick a)" "\<not> disabled c"
  shows "requests (press ids c s) = requests s @ [\<lparr>rq_url = the (fleetApi s) @ ''/api/fleet/mission/'' @ ms_missionId ms @ ''/'' @ a,
    rq_auth = apiHeaders s, rq_body = JObj (credentials (operatorId s) (the (tok s)))\<rparr>]"
proof -
  from assms(4,5) checklist_no_action have "c \<in> set (mission_controls s)" by (auto simp: dashboard_page_def)
  then have "disabled c = (\<not> hasControl s)"
    using assms(1,2,5) by (auto simp: mission_controls_def mission_ctl_def split: if_splits)
  then show ?thesis
    using assms by (simp add: press_def missionAction_def fleetPost_def fleet_send_def send_def spread_def hasControl_def)
qed

text \<open>C30: The buttons that pause, resume, abort and complete a mission are the transitions of the fleet service. For the
  operator in control of the vehicle, with the console showing the status the service has, the
  dashboard shows such a button exactly when the service carries that request out, and pressing it
  posts just that request, with the credentials of the session. (The two other buttons of the mission
  panel are not covered: "new mission" makes one, and "Confirm & start", which sends two requests, can
  stay on the screen while the service refuses: \<open>lost_start_strands_mission\<close>.)\<close>

theorem mission_buttons_match_service:
  assumes "mode s \<noteq> DemoMode" "mission s = Some ms" "find_mission w i = Some m" "mis_status m = ms_status ms"
    and "requireOperatorIdentity E r p = None" "fleet_db_up w" "has_control E w (mis_vehicleId m) p t"
    and "mop \<in> {PauseOp, ResumeOp, AbortOp, CompleteOp}"
  shows "((\<exists>c \<in> set (dashboard_page s). pressed c = Session (MissionClick (mission_path mop))) \<longleftrightarrow>
    (\<exists>res w'. run (missionOp E i p t r mop) w = (Inr res, w'))) \<and>
    (\<forall>c \<in> set (dashboard_page s). pressed c = Session (MissionClick (mission_path mop)) \<and> \<not> disabled c \<and>
      truthy_str (fleetApi s) \<longrightarrow>
      requests (press ids c s) = requests s @
        [\<lparr>rq_url = the (fleetApi s) @ ''/api/fleet/mission/'' @ ms_missionId ms @ ''/'' @ mission_path mop,
          rq_auth = apiHeaders s, rq_body = JObj (credentials (operatorId s) (the (tok s)))\<rparr>])"
proof -
  have n: "mop \<noteq> StartOp" using assms(8) by auto
  have "(\<exists>c \<in> set (dashboard_page s). pressed c = Session (MissionClick (mission_path mop))) \<longleftrightarrow>
      (\<exists>res w'. run (missionOp E i p t r mop) w = (Inr res, w'))"
    unfolding mission_action_offered [OF assms(1,2)] run_missionOp [OF assms(5,6,3,7)]
      run_mission_call [OF assms(6,3) n] assms(4)
    using n by (cases mop) (auto simp: allowed_from_def)
  then show ?thesis using mission_action_posted [OF assms(1,2)] by blast
qed

text \<open>An active mission of the vehicle \<open>v1\<close>, whose lock \<open>alice\<close> has.\<close>

definition active_row :: mission_row where
  "active_row = \<lparr>mis_id = ''m1'', mis_vehicleId = ''v1'', mis_routeId = None, mis_status = ''ACTIVE'', mis_checklistId = None,
     mis_createdAt = 0, mis_startedAt = Some 1, mis_completedAt = None\<rparr>"

definition watching :: console where
  "watching = (session_start OperatorMode (Some ''https://api'') ''alice'' 0)
     \<lparr>tok := Some (demo_uuid 0), mission := Some \<lparr>ms_missionId = ''m1'', ms_status = ''ACTIVE'', ms_checklistId = None\<rparr>\<rparr>"

theorem mission_buttons_match_service_witness:
  "(\<exists>res w'. run (missionOp (demo_env False) ''m1'' ''alice'' (demo_uuid 0) no_req PauseOp)
      (fleet_world\<lparr>missions := [active_row]\<rparr>) = (Inr res, w')) \<and>
   \<not> (\<exists>res w'. run (missionOp (demo_env False) ''m1'' ''alice'' (demo_uuid 0) no_req ResumeOp)
      (fleet_world\<lparr>missions := [active_row]\<rparr>) = (Inr res, w'))"
proof -
  let ?w = "fleet_world\<lparr>missions := [active_row]\<rparr>"
  have w: "find_mission ?w ''m1'' = Some active_row" "mis_status active_row = ''ACTIVE''" "mis_vehicleId active_row = ''v1''"
    by (simp_all add: find_mission_def active_row_def)
  have h: "fleet_db_up ?w" "has_control (demo_env False) ?w ''v1'' ''alice'' (demo_uuid 0)"
    by (simp_all add: fleet_control)
  have s: "mode watching \<noteq> DemoMode"
    "mission watching = Some \<lparr>ms_missionId = ''m1'', ms_status = ''ACTIVE'', ms_checklistId = None\<rparr>"
    by (simp_all add: watching_def session_start_def)
  note m = mission_buttons_match_service [OF s w(1) _ local_identity h(1), of "''alice''" "demo_uuid 0"]
  show ?thesis
    using m [of PauseOp] m [of ResumeOp] h(2) by (simp add: w mission_action_offered [OF s])
qed

section \<open>The confirmation\<close>

lemma confirm_offered:
  assumes "mission s = Some ms"
  shows "(\<exists>c \<in> set (dashboard_page s). pressed c = Session ConfirmClick) \<longleftrightarrow>
    ms_status ms \<in> {''PRE_CHECK'', ''PENDING''} \<and> checkItems s \<noteq> [] \<and>
    \<not> list_ex item_pending (checkItems s) \<and> \<not> list_ex item_critical_fail (checkItems s)"
proof -
  have i: "pressed c \<noteq> Session ConfirmClick" if "c \<in> set (mission_controls s) \<or> c \<in> set (item_controls s i)" for c i
    using that assms by (auto simp: mission_controls_def mission_ctl_def item_controls_def split: if_splits)
  have "list_all (\<lambda>i. get_field i ''status'' \<noteq> JStr ''PENDING'') xs \<longleftrightarrow> \<not> list_ex item_pending xs" for xs
    by (auto simp: list_all_iff list_ex_iff item_pending_def)
  moreover have "criticalFail xs = list_ex item_critical_fail xs" for xs
    by (simp add: criticalFail_def item_critical_fail_def [abs_def])
  ultimately show ?thesis
    using i assms by (auto simp: dashboard_page_def checklist_controls_def allChecked_def bex_Un)
qed

text \<open>The dashboard offers the confirmation exactly when the service accepts it, as long as the list is not
  confirmed yet.\<close>

theorem confirmation_offered_when_accepted:
  assumes "mission s = Some ms" "ms_status ms = ''PRE_CHECK''" "checkItems s \<noteq> []" "fleet_db_up w"
    and "find_check w k = Some rec" "chk_items rec = checkItems s" "chk_status rec \<noteq> ''CONFIRMED''"
  shows "(\<exists>c \<in> set (dashboard_page s). pressed c = Session ConfirmClick) \<longleftrightarrow>
    (\<exists>res w'. run (confirm E k p) w = (Inr res, w'))"
  unfolding confirm_offered [OF assms(1)] using assms by (auto simp: confirm_def confirm_tx_def)

definition checked_console :: console where
  "checked_console = holding\<lparr>mission := Some \<lparr>ms_missionId = ''m1'', ms_status = ''PRE_CHECK'', ms_checklistId = Some ''k1''\<rparr>,
     checkItems := [JObj [(''itemId'', JStr ''tires''), (''safetyCritical'', JBool True), (''status'', JStr ''PASS'')]]\<rparr>"

text \<open>A mission whose start is lost after the confirmation can never be started from the console: the
  confirmation has succeeded, the request for the start fails, and the button is still there; but
  pressing it asks for the confirmation again, which the service refuses for a list that is
  confirmed, and without a positive answer the console sends no start. What is left is to abort.\<close>

theorem lost_start_strands_mission:
  assumes "fleet_db_up w" "find_check w k = Some rec" "chk_status rec = ''CONFIRMED''"
  shows "run (confirm E k p) w = (Inl (Error ''Checklist already confirmed''), w) \<and>
    (let s = console_run (\<lambda>_. []) [ConfirmClick, Reply 0 (Answer 201 (Some (JObj [(''status'', JStr ''CONFIRMED'')]))),
           Reply 0 NetworkError] checked_console;
         s' = console_run (\<lambda>_. []) [ConfirmClick, Reply 0 (Answer 400 (Some (JObj [])))] s
     in list_ex (\<lambda>c. pressed c = Session ConfirmClick \<and> \<not> disabled c) (dashboard_page s) \<and>
        map rq_url (requests s) = [''https://api/api/fleet/pre-departure/k1/confirm'', ''https://api/api/fleet/mission/m1/start''] \<and>
        map rq_url (requests s') = map rq_url (requests s) @ [''https://api/api/fleet/pre-departure/k1/confirm''] \<and>
        inflight s' = [] \<and> dashboard_page s' = dashboard_page s)"
proof -
  have f: "inflight checked_console = []" "fleetApi checked_console = Some ''https://api''" "mode checked_console = OperatorMode"
    "mission checked_console = Some \<lparr>ms_missionId = ''m1'', ms_status = ''PRE_CHECK'', ms_checklistId = Some ''k1''\<rparr>"
    "requests checked_console = []" "tok checked_console = Some (demo_uuid 0)" "hasControl checked_console"
    "checkItems checked_console = [JObj [(''itemId'', JStr ''tires''), (''safetyCritical'', JBool True), (''status'', JStr ''PASS'')]]"
    by (simp_all add: checked_console_def fleetApi_def hasControl_def demo_uuid_format) (simp add: holding_def session_start_def)
  have g: "fleetApi (s\<lparr>inflight := x\<rparr>) = fleetApi s" "fleetApi (s\<lparr>requests := y\<rparr>) = fleetApi s" for s x y
    by (simp_all add: fleetApi_def split: AppMode.split)
  show ?thesis
    using assms
    by (simp add: confirm_def confirm_tx_def console_run_def confirmAndStart_def fleetPost_def fleet_send_def send_def
        reply_def ok_json_def set_status_def Let_def f g item_open_def item_failed_def get_field_def dashboard_page_def
        mission_controls_def mission_ctl_def checklist_controls_def item_controls_def allChecked_def criticalFail_def
        hasControl_def demo_uuid_format)
qed

section \<open>Proposals\<close>

lemma option_control:
  "n < length (card_options p) \<Longrightarrow> option_controls s p ! n =
    ctl (snd (card_options p ! n)) (\<not> hasControl s) (decide_event n (fst (card_options p ! n)))"
  by (simp add: option_controls_def nth_enumerate_eq split: prod.split)

text \<open>The buttons of a proposal are decisions the service takes. The card has one button for each
  option, in the vehicle's order; pressed by the operator in control while the proposal is
  open, the first one is sent as a confirmation and every other one as the selection of an
  alternative, with the option's id, and the service goes on to dispatch just that decision. A
  press without control sends nothing.\<close>

theorem option_buttons_are_decisions:
  assumes "activeProposal s = Some p" "n < length (card_options p)" "fst (card_options p ! n) = x" "x \<noteq> []"
    and "mode s \<noteq> DemoMode" "truthy_str (commandApi s)" "tok s = Some t"
    and "getActiveProposalById w (card_id p) = Some q" "option_ids q = map fst (card_options p)"
    and "requireOperatorIdentity E r (operatorId s) = None" "store_up w" "controls E w (str_field q ''vehicleId'') (operatorId s) t"
  shows "let c = option_controls s p ! n; d = (if n = 0 then ''CONFIRM'' else ''SELECT_ALTERNATIVE'');
      a = (if n = 0 then ''CONFIRM_MANEUVER'' else ''SELECT_ALTERNATIVE'') in
    requests (press ids c s) =
      (if t = [] then requests s
       else requests s @ [\<lparr>rq_url = the (commandApi s) @ ''/api/maneuver/'' @ card_id p @ ''/decide'', rq_auth = apiHeaders s,
         rq_body = JObj (credentials (operatorId s) t @ [(''decision'', JStr d), (''optionId'', JStr x)])\<rparr>]) \<and>
    run (decide E (card_id p) (operatorId s) t d r (Some x)) w =
      run (dispatch_decision E (card_id p) (str_field q ''vehicleId'') (operatorId s) t d
        (JObj [(''action'', JStr a), (''proposalId'', JStr (card_id p)), (''optionId'', JStr x)])) w"
proof -
  have "x \<in> set (option_ids q)" using assms(2,3,9) by auto
  moreover have "decision_payload (if n = 0 then ''CONFIRM'' else ''SELECT_ALTERNATIVE'') (card_id p) (Some x) =
      Inr (JObj [(''action'', JStr (if n = 0 then ''CONFIRM_MANEUVER'' else ''SELECT_ALTERNATIVE'')),
        (''proposalId'', JStr (card_id p)), (''optionId'', JStr x)])"
    using assms(4) by (simp add: decision_payload_def)
  moreover have "press ids (option_controls s p ! n) s =
      (if t = [] then s else decideManeuver ids (if n = 0 then ''CONFIRM'' else ''SELECT_ALTERNATIVE'') (Some x) s)"
    using assms(2,3,7) by (simp add: option_control press_def hasControl_def decide_event_def)
  ultimately show ?thesis
    using assms by (simp add: Let_def run_decide decideManeuver_def send_def opt_str_def)
qed

text \<open>The card of the open proposal of the vehicle \<open>v1\<close>, which \<open>alice\<close> controls.\<close>

definition proposal_console :: console where
  "proposal_console = (session_start OperatorMode (Some ''https://api'') ''alice'' 0)
     \<lparr>tok := Some (demo_uuid 0), activeProposal := Some \<lparr>card_id = demo_uuid 0, card_window = 30000,
       card_options = map (\<lambda>i. (i, ''option'')) (option_ids demo_proposal)\<rparr>\<rparr>"

theorem option_buttons_are_decisions_witness:
  "requests (press (\<lambda>_. []) (option_controls proposal_console (the (activeProposal proposal_console)) ! 0) proposal_console) \<noteq> [] \<and>
   (\<exists>payload. run (decide (demo_env False) (demo_uuid 0) ''alice'' (demo_uuid 0) ''CONFIRM'' no_req (Some (option_ids demo_proposal ! 0)))
      proposal_world = run (dispatch_decision (demo_env False) (demo_uuid 0) ''v1'' ''alice'' (demo_uuid 0) ''CONFIRM'' payload) proposal_world)"
proof -
  have o: "option_ids demo_proposal \<noteq> []" "option_ids demo_proposal ! 0 \<noteq> []" "str_field demo_proposal ''vehicleId'' = ''v1''"
    by (simp_all add: demo_proposal_def option_ids_def get_field_def)
  have f: "mode proposal_console \<noteq> DemoMode" "commandApi proposal_console = Some ''https://api''" "tok proposal_console = Some (demo_uuid 0)"
    "operatorId proposal_console = ''alice''"
    by (simp_all add: proposal_console_def session_start_def commandApi_def)
  have c: "controls (demo_env False) proposal_world (str_field demo_proposal ''vehicleId'') (operatorId proposal_console) (demo_uuid 0)"
    using drive_world_controls by (simp add: o f controls_def)
  note b = option_buttons_are_decisions [where s = proposal_console and n = 0 and w = proposal_world and q = demo_proposal and
      E = "demo_env False" and p = "the (activeProposal proposal_console)" and t = "demo_uuid 0" and r = no_req and
      x = "option_ids demo_proposal ! 0" and ids = "\<lambda>_. []"]
  have p: "the (activeProposal proposal_console) = \<lparr>card_id = demo_uuid 0, card_window = 30000,
       card_options = map (\<lambda>i. (i, ''option'')) (option_ids demo_proposal)\<rparr>" "activeProposal proposal_console \<noteq> None"
    by (simp_all add: proposal_console_def)
  show ?thesis
    using b o f c p proposal_world_open by (auto simp: Let_def demo_uuid_format comp_def)
qed

text \<open>The contract lets a vehicle give an option an empty id. The console shows such an option, and the
  service cannot take it: as an alternative it is refused, and confirmed it goes out without
  the option.\<close>

theorem empty_option_cannot_be_selected:
  "decision_payload ''SELECT_ALTERNATIVE'' i (Some []) =
     Inl (BadRequestException ''optionId is required for SELECT_ALTERNATIVE'') \<and>
   decision_payload ''CONFIRM'' i (Some []) = Inr (JObj [(''action'', JStr ''CONFIRM_MANEUVER''), (''proposalId'', JStr i)]) \<and>
   zod_eval ManeuverOptionSchema (JObj [(''optionId'', JStr []), (''description'', JStr d), (''expectedResult'', JStr e)]) \<noteq> None"
  by (simp add: decision_payload_def ManeuverOptionSchema_def)

end
