(* ===== verification/Entry_Safety.thy ===== *)
theory Entry_Safety
  imports Console_Pages
begin

text \<open>
  The entry gate as a mount boundary: no session without a choice and, for operators, a sign-in;
  the way in and the way out; and the sign-in that fails behind the gate. Then the navigation and the
  texts with placeholders.
\<close>

section \<open>The mount boundary\<close>

lemma gated_screen:
  "fst (gated m b) = (case m of None \<Rightarrow> EntryGate | Some x \<Rightarrow>
     if x = OperatorMode \<and> \<not> operatorSessionAlive b then EntryGate else App x)"
proof -
  have "fst (session_check b) = operatorSessionAlive b"
    by (simp add: session_check_def operatorSessionAlive_def split: option.split)
  then show ?thesis
    by (simp add: gated_def Let_def split: option.split AppMode.split prod.split) (metis fst_conv)
qed

lemma gated_browser:
  "stored_mode (snd (gated m b)) = stored_mode b" "search_query (snd (gated m b)) = search_query b"
  "storage_fails (snd (gated m b)) = storage_fails b" "hostname (snd (gated m b)) = hostname b"
  "stored_tokens b = None \<Longrightarrow> stored_tokens (snd (gated m b)) = None"
  by (auto simp: gated_def session_check_def getTokens_def Let_def split: option.split AppMode.split json.split)

text \<open>Nothing is mounted behind a stored operator's choice alone: when a page is loaded, it shows the console
  as an operator only with an authorization code in its address or with tokens that have not
  expired, and it shows anything at all only for a choice that was made.\<close>

lemma loaded_screen:
  "tab_screen (load_page b) = (case initial_mode b of None \<Rightarrow> EntryGate | Some x \<Rightarrow>
     if x = OperatorMode \<and> \<not> operatorSessionAlive b then EntryGate else App x)"
  by (simp add: load_page_def render_def gated_screen)

lemma cleared_initial:
  assumes "stored_mode b = None \<or> storage_fails b" "readModeFromUrl b = None"
  shows "initial_mode b = None"
  using assms by (auto simp: initial_mode_def readStoredMode_def)

text \<open>C32: Leaving a session leads back to the gate, and nothing leads past it again. In whatever mode the
  console was mounted and whatever the browser stores, the exit button puts the entry gate on the
  screen at once; every later load of the page, at any time and at any address that does not
  itself ask for local mode on this machine, shows the gate again; and an operator's tokens are
  gone from the storage, so that no later choice of operator access is backed by them.\<close>

theorem leaving_returns_to_gate:
  assumes "tab_mode t = Some m" "m = OperatorMode \<longrightarrow> cfg \<noteq> None"
  shows "let t' = leaveSession cfg t; b = (tab_browser t')\<lparr>search_query := q, wall_clock := now\<rparr> in
    tab_mode t' = None \<and> tab_screen t' = EntryGate \<and>
    (readModeFromUrl b = None \<longrightarrow> tab_screen (load_page b) = EntryGate) \<and>
    (m = OperatorMode \<longrightarrow> fst (getTokens b) = None)"
proof -
  let ?t = "set_mode (reset_mode (tab_browser t)) t"
  let ?b = "(tab_browser (leaveSession cfg t))\<lparr>search_query := q, wall_clock := now\<rparr>"
  have r: "tab_mode ?t = None" "tab_screen ?t = EntryGate" "tab_browser ?t = storeMode None (tab_browser t)"
    using assms(1) by (simp_all add: set_mode_def reset_mode_def render_def gated_def)
  have b: "stored_mode (tab_browser ?t) = None \<or> storage_fails (tab_browser ?t)"
    by (simp add: r storeMode_def)
  then have "stored_mode ?b = None \<or> storage_fails ?b"
    by (auto simp: leaveSession_def Let_def logout_def)
  then have "readModeFromUrl ?b = None \<longrightarrow> initial_mode ?b = None" using cleared_initial by blast
  moreover have "m = OperatorMode \<longrightarrow> fst (getTokens ?b) = None"
    using assms by (auto simp: leaveSession_def Let_def logout_def getTokens_def)
  ultimately show ?thesis
    using r by (simp add: Let_def loaded_screen leaveSession_def)
qed

text \<open>A signed-in operator.\<close>

definition hour_tokens :: json where
  "hour_tokens = JObj [(''idToken'', JStr ''i''), (''accessToken'', JStr ''a''), (''expiresAt'', JInt 3600000)]"

definition signed_in :: browser where
  "signed_in = demo_browser\<lparr>stored_mode := Some ''operator'', stored_tokens := Some (stringify hour_tokens)\<rparr>"

definition entry_cfg :: AwsConfig where
  "entry_cfg = \<lparr>region = ''eu-central-1'', cognitoDomain = ''auth.example'', userPoolId = ''pool'', clientId = ''client'',
     identityPoolId = ''ids'', iotEndpoint = ''iot.example'', apiEndpoint = None\<rparr>"

lemma signed_in_mounts: "tab_mode (load_page signed_in) = Some OperatorMode" "tab_screen (load_page signed_in) = App OperatorMode"
proof -
  have "json_parse (stringify hour_tokens) = Some hour_tokens"
    using json_parse_stringify [of hour_tokens] by (simp add: hour_tokens_def)
  moreover have "stringify hour_tokens \<noteq> []" by (simp add: hour_tokens_def)
  moreover have "hour_tokens \<noteq> JNull" "\<not> token_expired hour_tokens 0"
    by (simp_all add: hour_tokens_def token_expired_def get_field_def)
  ultimately have "fst (getTokens signed_in) \<noteq> None"
    by (simp add: getTokens_def signed_in_def demo_browser_def)
  then have "operatorSessionAlive signed_in" by (simp add: operatorSessionAlive_def)
  then show "tab_mode (load_page signed_in) = Some OperatorMode" "tab_screen (load_page signed_in) = App OperatorMode"
    by (simp_all add: loaded_screen)
      (simp_all add: load_page_def render_def initial_mode_def readModeFromUrl_def readStoredMode_def signed_in_def demo_browser_def)
qed

theorem leaving_returns_to_gate_witness:
  "tab_screen (load_page signed_in) = App OperatorMode \<and>
   tab_screen (load_page (tab_browser (leaveSession (Some entry_cfg) (load_page signed_in)))) = EntryGate \<and>
   fst (getTokens (tab_browser (leaveSession (Some entry_cfg) (load_page signed_in)))) = None"
proof -
  let ?b = "tab_browser (leaveSession (Some entry_cfg) (load_page signed_in))"
  have "search_query ?b = Some []"
    by (simp add: leaveSession_def logout_def set_mode_def reset_mode_def storeMode_def render_def load_page_def gated_browser Let_def)
      (simp add: signed_in_def demo_browser_def gated_def)
  then have "readModeFromUrl (?b\<lparr>search_query := Some [], wall_clock := wall_clock ?b\<rparr>) = None" "?b\<lparr>search_query := Some [], wall_clock := wall_clock ?b\<rparr> = ?b"
    by (simp_all add: readModeFromUrl_def)
  with leaving_returns_to_gate [OF signed_in_mounts(1), where cfg = "Some entry_cfg" and q = "Some []" and now = "wall_clock ?b"] signed_in_mounts
  show ?thesis by (simp add: Let_def)
qed

section \<open>The way in\<close>

text \<open>Choosing operator access without a sign-in leaves the gate up, on the way to the hosted sign-in page
  and after coming back from it without one: the page that the browser's cache restores, and a page that
  is loaded again, show the gate.\<close>

theorem abandoned_sign_in_stays_out:
  assumes "tab_screen t = EntryGate" "tab_mode t = None" "\<not> operatorSessionAlive (tab_browser t)"
    and "t' = enterOperator sha256 random (Some cfg) t" "b = (tab_browser t')\<lparr>wall_clock := now\<rparr>" "readModeFromUrl b = None"
    and "stored_tokens (tab_browser t) = None"
  shows "tab_screen t' = EntryGate \<and> tab_screen (load_page b) = EntryGate \<and>
    (if storage_fails (tab_browser t) then left_for (tab_browser t') = left_for (tab_browser t)
     else left_for (tab_browser t') \<noteq> None)"
proof -
  have alive: "operatorSessionAlive x = (case search_query x of None \<Rightarrow> False | Some q \<Rightarrow> map_of q ''code'' \<noteq> None)"
    if "stored_tokens x = None" for x
    using that by (simp add: operatorSessionAlive_def getTokens_def)
  have t': "tab_screen (set_mode (select_mode OperatorMode (tab_browser t)) t) = EntryGate"
    "tab_browser t' = login sha256 random cfg (snd (gated (Some OperatorMode) (storeMode (Some OperatorMode) (tab_browser t))))"
    "tab_screen t' = tab_screen (set_mode (select_mode OperatorMode (tab_browser t)) t)"
    using assms(2-4) by (auto simp: enterOperator_def set_mode_def select_mode_def render_def gated_screen storeMode_def Let_def)
  have s: "stored_tokens (storeMode m x) = stored_tokens x" "search_query (storeMode m x) = search_query x"
      "storage_fails (storeMode m x) = storage_fails x" "left_for (storeMode m x) = left_for x" for m x
    by (simp_all add: storeMode_def)
  have g: "left_for (snd (gated m x)) = left_for x" for m x
    by (auto simp: gated_def session_check_def getTokens_def Let_def split: option.split AppMode.split json.split)
  have l: "stored_tokens (login sha256 random cfg x) = stored_tokens x" "search_query (login sha256 random cfg x) = search_query x"
      "stored_mode (login sha256 random cfg x) = stored_mode x" "storage_fails (login sha256 random cfg x) = storage_fails x"
      "\<not> storage_fails x \<Longrightarrow> left_for (login sha256 random cfg x) \<noteq> None"
      "storage_fails x \<Longrightarrow> login sha256 random cfg x = x" for x
    by (auto simp: login_def Let_def)
  have b: "stored_tokens b = None" "search_query b = search_query (tab_browser t)" "storage_fails b = storage_fails (tab_browser t)"
    "\<not> storage_fails b \<longrightarrow> stored_mode b = Some ''operator''"
    using assms(5,7) t'(2) by (simp_all add: l s gated_browser) (simp add: storeMode_def mode_text_def)
  then have "\<not> operatorSessionAlive b" using assms(3) alive [OF b(1)] alive [OF assms(7)] by simp
  with b(4) have "readStoredMode b = None" by (auto simp: readStoredMode_def)
  then have "initial_mode b = None" using assms(6) by (simp add: initial_mode_def)
  then have "tab_screen (load_page b) = EntryGate" by (simp add: loaded_screen)
  then show ?thesis using t' by (simp add: l s g gated_browser)
qed

section \<open>Behind the gate\<close>

text \<open>The gate is asked when the mode changes, and not when the sign-in does: with an authorization code in
  the address the console is mounted, and when the exchange of the code is refused it stays on the
  screen, with no tokens, at an address at which the gate would not let it through.\<close>

theorem refused_exchange_stays_mounted:
  assumes "initial_mode b = Some OperatorMode" "url_param ''code'' b \<noteq> None" "stored_tokens b = None" "\<not> storage_fails b"
    and "t = load_page b" "t' = t\<lparr>tab_browser := snd (complete_finish Refusal (tab_browser t))\<rparr>"
  shows "tab_screen t' = App OperatorMode \<and> fst (getTokens (tab_browser t')) = None \<and>
    fst (gated (tab_mode t') (tab_browser t')) = EntryGate"
proof -
  have m: "map_of (filter (\<lambda>p. fst p \<noteq> ''code'' \<and> fst p \<noteq> ''state'') q) ''code'' = None" for q :: "(string \<times> string) list"
    by (induction q) auto
  have alive: "operatorSessionAlive b"
    using assms(2) by (auto simp: operatorSessionAlive_def url_param_def bind_eq_Some_conv split: option.split)
  have t: "tab_browser t = snd (gated (Some OperatorMode) b)" "tab_mode t = Some OperatorMode" "tab_screen t = App OperatorMode"
    using assms(1,5) alive by (simp_all add: load_page_def render_def gated_screen)
  have "stored_tokens (tab_browser t') = None" "fst (gated (Some OperatorMode) (tab_browser t')) = EntryGate"
    using assms(3,6) by (simp_all add: t complete_finish_def cleanUrl_def gated_browser gated_screen operatorSessionAlive_def
        getTokens_def m split: option.split)
  then show ?thesis using assms(6) by (simp add: t getTokens_def)
qed

section \<open>Navigation and texts\<close>

definition is_stub :: "page \<Rightarrow> bool" where
  "is_stub p = (case p of Stub _ \<Rightarrow> True | _ \<Rightarrow> False)"

text \<open>Every link of the navigation has a route, and it is marked as planned exactly when the route leads to
  a placeholder; a demonstration is offered the pages that are built, all of them and no others.\<close>

theorem navigation_is_routed:
  "list_all (\<lambda>i. case map_of ROUTES (nav_to i) of None \<Rightarrow> False | Some p \<Rightarrow> nav_stub i = is_stub p) (concat (map snd NAV)) \<and>
   map nav_to (concat (map snd (navFor (Some DemoMode)))) = map fst (filter (\<lambda>r. \<not> is_stub (snd r)) ROUTES) \<and>
   map nav_to (concat (map snd (navFor (Some OperatorMode)))) = map fst ROUTES"
  by (simp add: NAV_def ROUTES_def navFor_def nav_item_def is_stub_def)

text \<open>A text is put in as it is, braces and all.\<close>

theorem option_aria_text:
  "option_aria n d e = (if n = 0 then ''Approve proposed maneuver'' else ''Select alternative'') @ '': '' @ d @ ''. Expected: '' @ e"
  "fmt proposalResult [(''result'', r)] = ''Last proposal: '' @ r"
  by (simp_all add: option_aria_def maneuverOptionAria_def proposalResult_def is_word_def Let_def)

theorem progress_bounds: "0 \<le> progress_pct v \<and> progress_pct v \<le> 100 \<and> (0 \<le> v \<and> v \<le> 100 \<longrightarrow> progress_pct v = v)"
  by (auto simp: progress_pct_def)

end
