(* ===== verification/Startup.thy ===== *)
theory Startup
  imports Mqtt_Ingest Js_Number
begin

text \<open>
  What happens before the first request: the environment file (\<open>loadEnv\<close> of the two \<open>main.ts\<close> that have
  it), the signing key the command service cannot start without (\<open>signing.service.ts\<close>), the options of the
  broker clients (\<open>mqtt.service.ts\<close> of the command and of the telemetry service, the same code but for
  the client's name), of the lock store (\<open>redis.service.ts\<close>, in both services that have it) and of the
  database pool (\<open>telemetry-writer.service.ts\<close>), and the command service's subscriptions. The environment
  of the process is a map from names to texts; the files and the key parser are parameters.
\<close>

section \<open>The environment file\<close>

type_synonym environment = "string \<Rightarrow> string option"

text \<open>The characters of \<open>[\w.]\<close>.\<close>

definition is_name_char :: "char \<Rightarrow> bool" where
  "is_name_char c = (let n = (of_char c :: nat) in
     (48 \<le> n \<and> n \<le> 57) \<or> (65 \<le> n \<and> n \<le> 90) \<or> (97 \<le> n \<and> n \<le> 122) \<or> n = 95 \<or> n = 46)"

text \<open>\<open>/^\s*([\w.]+)\s*=\s*(.*)\s*$/\<close>: the dot stops at a carriage return, after which only white space may
  follow.\<close>

definition env_match :: "string \<Rightarrow> (string \<times> string) option" where
  "env_match line =
    (let s = dropWhile is_js_space line; k = takeWhile is_name_char s;
         r = dropWhile is_js_space (dropWhile is_name_char s) in
     if k = [] \<or> r = [] \<or> hd r \<noteq> CHR ''='' then None
     else (let v = dropWhile is_js_space (tl r); m = takeWhile (\<lambda>c. c \<noteq> CHR 0x0D) v in
       if list_all is_js_space (dropWhile (\<lambda>c. c \<noteq> CHR 0x0D) v) then Some (k, m) else None))"

definition quoted_by :: "char \<Rightarrow> string \<Rightarrow> bool" where
  "quoted_by q v = (v \<noteq> [] \<and> hd v = q \<and> last v = q)"

text \<open>\<open>v.slice(1, -1)\<close>, also of a text of one character.\<close>

definition unquote :: "string \<Rightarrow> string" where
  "unquote v = (if quoted_by CHR 0x22 v \<or> quoted_by CHR 0x27 v then butlast (tl v) else v)"

definition load_line :: "string \<Rightarrow> environment \<Rightarrow> environment" where
  "load_line line ev =
    (case env_match line of
       None \<Rightarrow> ev
     | Some (k, m) \<Rightarrow> if ev k \<noteq> None then ev else ev(k \<mapsto> unquote (trim m)))"

definition loadEnv :: "string option \<Rightarrow> environment \<Rightarrow> environment" where
  "loadEnv file ev = (case file of None \<Rightarrow> ev | Some content \<Rightarrow> fold load_line (split_on CHR 0x0A content) ev)"

section \<open>The signing key\<close>

datatype key_source = Pem string | Der string

text \<open>The constructor: the key, or the reason why the service does not start.\<close>

definition load_key :: "(key_source \<Rightarrow> string + 'key) \<Rightarrow> environment \<Rightarrow> string + 'key" where
  "load_key createPrivateKey ev =
    (let raw = ev ''COMMAND_SIGNING_KEY'' in
     if \<not> truthy_str raw then Inl ''COMMAND_SIGNING_KEY is required''
     else (case createPrivateKey (if str_includes (the raw) ''BEGIN'' then Pem (the raw) else Der (the raw)) of
         Inl why \<Rightarrow> Inl (''COMMAND_SIGNING_KEY is not a PEM or base64 PKCS8 Ed25519 key: '' @ why)
       | Inr key \<Rightarrow> Inr key))"

section \<open>The broker client\<close>

record mqtt_options =
  clientId :: string
  protocol :: string
  host :: string
  port :: js_num
  tls_key :: "string option"
  tls_cert :: "string option"
  tls_ca :: "string option"

text \<open>Inline material wins over a path; a path that is missing or cannot be read raises.\<close>

definition tls_material :: "(string \<Rightarrow> string option) \<Rightarrow> environment \<Rightarrow> string \<Rightarrow> string option" where
  "tls_material readFile ev name =
    (case ev (''AWS_CERT_'' @ name @ ''_PEM'') of
       Some pem \<Rightarrow> Some pem
     | None \<Rightarrow> Option.bind (ev (''AWS_CERT_'' @ name @ ''_PATH'')) readFile)"

datatype broker_setup = Disabled | Raised | Connect mqtt_options

text \<open>\<open>name\<close> is the name of the client with its random part.\<close>

definition broker_options :: "string \<Rightarrow> (string \<Rightarrow> string option) \<Rightarrow> environment \<Rightarrow> broker_setup" where
  "broker_options name readFile ev =
    (if ev ''MQTT_ENABLED'' = Some ''false'' then Disabled
     else (let aws = truthy_str (ev ''AWS_IOT_ENDPOINT'');
         h = or_str (ev ''AWS_IOT_ENDPOINT'') (or_str (ev ''MQTT_HOST'') ''localhost'') in
       if \<not> aws then Connect \<lparr>clientId = name, protocol = ''mqtt'', host = h, port = number_or (ev ''MQTT_PORT'') 1883,
           tls_key = None, tls_cert = None, tls_ca = None\<rparr>
       else (case (tls_material readFile ev ''PRIVATE_KEY'', tls_material readFile ev ''CERT'', tls_material readFile ev ''ROOT_CA'') of
           (Some k, Some c, Some a) \<Rightarrow>
             Connect \<lparr>clientId = name, protocol = ''mqtts'', host = h, port = Fin (dec_of_int 8883), tls_key = Some k, tls_cert = Some c, tls_ca = Some a\<rparr>
         | _ \<Rightarrow> Raised)))"

definition command_broker :: "string \<Rightarrow> (string \<Rightarrow> string option) \<Rightarrow> environment \<Rightarrow> broker_setup" where
  "command_broker random = broker_options (''joppilot-cmd-'' @ random)"

definition telemetry_broker :: "string \<Rightarrow> (string \<Rightarrow> string option) \<Rightarrow> environment \<Rightarrow> broker_setup" where
  "telemetry_broker random = broker_options (''joppilot-tel-'' @ random)"

definition SUBSCRIPTIONS :: "string list" where
  "SUBSCRIPTIONS =
    [''joppilot/v1/vehicles/+/command/ack'', ''joppilot/v1/vehicles/+/maneuver/proposal'',
     ''joppilot/v1/vehicles/+/maneuver/status'', ''joppilot/v1/vehicles/+/heartbeat'', ''joppilot/v1/vehicles/+/logsync'']"

section \<open>The lock store and the pool\<close>

record redis_settings =
  redis_host :: string
  redis_port :: js_num
  redis_tls :: bool

definition redis_options :: "environment \<Rightarrow> redis_settings" where
  "redis_options ev =
    \<lparr>redis_host = or_str (ev ''REDIS_HOST'') ''localhost'', redis_port = number_or (ev ''REDIS_PORT'') 6379,
     redis_tls = (ev ''REDIS_TLS'' = Some ''true'')\<rparr>"

text \<open>The connection of the telemetry writer; with TLS the certificate is not verified.\<close>

record pool_settings =
  connectionString :: "string option"
  max_connections :: nat
  connectionTimeoutMillis :: nat
  ssl_rejectUnauthorized :: "bool option"

definition pool_options :: "environment \<Rightarrow> pool_settings option" where
  "pool_options ev =
    (if ev ''TELEMETRY_PERSIST'' = Some ''false'' then None
     else Some \<lparr>connectionString = ev ''DATABASE_URL'', max_connections = 4, connectionTimeoutMillis = 5000,
       ssl_rejectUnauthorized = (if ev ''DB_SSL'' = Some ''true'' then Some False else None)\<rparr>)"

section \<open>The environment, read back\<close>

definition name_ok :: "string \<Rightarrow> bool" where
  "name_ok k = (k \<noteq> [] \<and> list_all is_name_char k)"

text \<open>A line that gives a name its value, in double quotes.\<close>

definition env_line :: "string \<times> string \<Rightarrow> string" where
  "env_line e = fst e @ CHR ''='' # CHR 0x22 # snd e @ [CHR 0x22]"

lemma name_char_not_space: "is_name_char c \<Longrightarrow> \<not> is_js_space c"
  by (auto simp: is_name_char_def is_js_space_def Let_def)

lemma special_chars [simp]:
  "\<not> is_name_char CHR ''=''" "\<not> is_js_space CHR ''=''" "\<not> is_js_space CHR 0x22" "\<not> is_js_space CHR 0x27"
  "is_js_space CHR 0x0D" "\<not> is_name_char CHR ''#''" "\<not> is_js_space CHR ''#''"
  by (simp_all add: is_name_char_def is_js_space_def)

lemma takeWhile_stops: "list_all P xs \<Longrightarrow> \<not> P y \<Longrightarrow> takeWhile P (xs @ y # ys) = xs \<and> dropWhile P (xs @ y # ys) = y # ys"
  by (induction xs) auto

lemma match_assignment:
  assumes "name_ok k" "\<forall>c \<in> set v. c \<noteq> CHR 0x0D" "v = [] \<or> \<not> is_js_space (hd v)"
  shows "env_match (k @ CHR ''='' # v) = Some (k, v)"
proof -
  obtain c cs where k: "k = c # cs" using assms(1) by (cases k) (auto simp: name_ok_def)
  have n: "list_all is_name_char k" using assms(1) by (simp add: name_ok_def)
  then have "dropWhile is_js_space (k @ CHR ''='' # v) = k @ CHR ''='' # v"
    using name_char_not_space k by simp
  moreover have "takeWhile is_name_char (k @ CHR ''='' # v) = k" "dropWhile is_name_char (k @ CHR ''='' # v) = CHR ''='' # v"
    using takeWhile_stops [OF n] by simp_all
  moreover have "dropWhile is_js_space v = v" using assms(3) by (cases v) auto
  moreover have d: "takeWhile (\<lambda>c. c \<noteq> CHR 0x0D) v = v" "dropWhile (\<lambda>c. c \<noteq> CHR 0x0D) v = []" using assms(2) by simp_all
  ultimately show ?thesis using k by (simp add: env_match_def Let_def d(2))
qed

lemma match_env_line:
  assumes "name_ok (fst e)" "\<forall>c \<in> set (snd e). c \<noteq> CHR 0x0D"
  shows "load_line (env_line e) ev = (if ev (fst e) \<noteq> None then ev else ev(fst e \<mapsto> snd e))"
proof -
  have "env_match (env_line e) = Some (fst e, CHR 0x22 # snd e @ [CHR 0x22])"
    unfolding env_line_def by (rule match_assignment) (use assms in auto)
  then show ?thesis by (simp add: load_line_def trim_def unquote_def quoted_by_def)
qed

text \<open>What is written into the environment file is what the service reads: for lines of the form
  \<open>NAME="value"\<close>, with any value that has no line break, quotes and surrounding blanks included, a
  name the process already has keeps its value, every other name gets the value of its first
  line, and no other name changes.\<close>

theorem environment_file_read_back:
  assumes "es \<noteq> []" "list_all (\<lambda>(k, v). name_ok k \<and> CHR 0x0A \<notin> set v \<and> CHR 0x0D \<notin> set v) es"
  shows "loadEnv (Some (join [CHR 0x0A] (map env_line es))) ev k =
    (case ev k of Some v \<Rightarrow> Some v | None \<Rightarrow> map_of es k)"
proof -
  have n: "name_ok k \<Longrightarrow> CHR 0x0A \<notin> set k" for k
    by (auto simp: name_ok_def list_all_iff is_name_char_def)
  then have l: "\<forall>x \<in> set (map env_line es). CHR 0x0A \<notin> set x"
    using assms(2) by (auto simp: list_all_iff env_line_def)
  have "xs \<noteq> [] \<Longrightarrow> \<forall>x \<in> set xs. CHR 0x0A \<notin> set x \<Longrightarrow> split_on CHR 0x0A (join [CHR 0x0A] xs) = xs" for xs
    by (induction xs) (auto simp: join_Cons split_on_no_sep split_on_append)
  then have "loadEnv (Some (join [CHR 0x0A] (map env_line es))) ev k = fold load_line (map env_line es) ev k"
    using assms(1) l by (simp add: loadEnv_def)
  also have "fold load_line (map env_line es) ev k = (case ev k of Some v \<Rightarrow> Some v | None \<Rightarrow> map_of es k)"
    using assms(2)
  proof (induction es arbitrary: ev)
    case (Cons e es)
    then have "load_line (env_line e) ev = (if ev (fst e) \<noteq> None then ev else ev(fst e \<mapsto> snd e))"
      by (intro match_env_line) auto
    with Cons show ?case by (cases e) (auto split: option.split)
  qed (simp split: option.split)
  finally show ?thesis .
qed

theorem environment_file_read_back_witness:
  "loadEnv (Some (join [CHR 0x0A] (map env_line [(''A'', '' x ''), (''B'', ''1''), (''B'', ''2'')]))) [''A'' \<mapsto> ''set''] ''A'' = Some ''set'' \<and>
   loadEnv (Some (join [CHR 0x0A] (map env_line [(''A'', '' x ''), (''B'', ''1''), (''B'', ''2'')]))) Map.empty ''A'' = Some '' x '' \<and>
   loadEnv (Some (join [CHR 0x0A] (map env_line [(''A'', '' x ''), (''B'', ''1''), (''B'', ''2'')]))) Map.empty ''B'' = Some ''1''"
proof -
  have a: "[(''A'', '' x ''), (''B'', ''1''), (''B'', ''2'')] \<noteq> []"
    "list_all (\<lambda>(k, v). name_ok k \<and> CHR 0x0A \<notin> set v \<and> CHR 0x0D \<notin> set v) [(''A'', '' x ''), (''B'', ''1''), (''B'', ''2'')]"
    by (simp_all add: name_ok_def is_name_char_def)
  from environment_file_read_back [OF a, of "[''A'' \<mapsto> ''set'']" "''A''"] environment_file_read_back [OF a, of Map.empty "''A''"]
    environment_file_read_back [OF a, of Map.empty "''B''"]
  show ?thesis by simp
qed

text \<open>A comment line is not read as a setting, but a comment behind a value is part of the value.\<close>

theorem trailing_comment_is_read:
  "load_line (''# MQTT_HOST=localhost'') ev = ev"
  "loadEnv (Some ''MQTT_HOST=localhost # plain-MQTT broker host'') Map.empty ''MQTT_HOST'' = Some ''localhost # plain-MQTT broker host''"
  "broker_options name (\<lambda>_. None) (loadEnv (Some ''MQTT_HOST=localhost # plain-MQTT broker host'') Map.empty) =
     Connect \<lparr>clientId = name, protocol = ''mqtt'', host = ''localhost # plain-MQTT broker host'', port = Fin (dec_of_int 1883),
       tls_key = None, tls_cert = None, tls_ca = None\<rparr>"
proof -
  show "load_line (''# MQTT_HOST=localhost'') ev = ev" by (simp add: load_line_def env_match_def Let_def)
  have "env_match (''MQTT_HOST'' @ CHR ''='' # ''localhost # plain-MQTT broker host'') =
      Some (''MQTT_HOST'', ''localhost # plain-MQTT broker host'')"
    by (rule match_assignment) (simp_all add: name_ok_def is_name_char_def is_js_space_def)
  moreover have "trim ''localhost # plain-MQTT broker host'' = ''localhost # plain-MQTT broker host''" by code_simp
  ultimately have e: "loadEnv (Some ''MQTT_HOST=localhost # plain-MQTT broker host'') Map.empty =
      [''MQTT_HOST'' \<mapsto> ''localhost # plain-MQTT broker host'']"
    by (simp add: loadEnv_def load_line_def unquote_def quoted_by_def)
  then show "loadEnv (Some ''MQTT_HOST=localhost # plain-MQTT broker host'') Map.empty ''MQTT_HOST'' =
      Some ''localhost # plain-MQTT broker host''" by simp
  show "broker_options name (\<lambda>_. None) (loadEnv (Some ''MQTT_HOST=localhost # plain-MQTT broker host'') Map.empty) =
     Connect \<lparr>clientId = name, protocol = ''mqtt'', host = ''localhost # plain-MQTT broker host'', port = Fin (dec_of_int 1883),
       tls_key = None, tls_cert = None, tls_ca = None\<rparr>"
    by (simp add: e broker_options_def number_or_def)
qed

section \<open>Which broker\<close>

text \<open>A connection to the cloud's broker is never made in the clear: with its address set, the client of
  either service goes to that address over TLS with key, certificate and authority, each the inline text
  where there is one and the content of the named file otherwise, or the start fails; without it,
  the client goes to the configured host, by default the machine itself.\<close>

theorem broker_is_authenticated:
  assumes "ev ''MQTT_ENABLED'' \<noteq> Some ''false''"
  shows "if truthy_str (ev ''AWS_IOT_ENDPOINT'')
    then broker_options name readFile ev = Raised \<and>
        (\<exists>k \<in> {''PRIVATE_KEY'', ''CERT'', ''ROOT_CA''}. tls_material readFile ev k = None) \<or>
      (\<exists>k c a. broker_options name readFile ev =
        Connect \<lparr>clientId = name, protocol = ''mqtts'', host = the (ev ''AWS_IOT_ENDPOINT''), port = Fin (dec_of_int 8883),
          tls_key = Some k, tls_cert = Some c, tls_ca = Some a\<rparr> \<and>
        tls_material readFile ev ''PRIVATE_KEY'' = Some k \<and> tls_material readFile ev ''CERT'' = Some c \<and>
        tls_material readFile ev ''ROOT_CA'' = Some a)
    else broker_options name readFile ev =
        Connect \<lparr>clientId = name, protocol = ''mqtt'', host = or_str (ev ''MQTT_HOST'') ''localhost'',
          port = number_or (ev ''MQTT_PORT'') 1883, tls_key = None, tls_cert = None, tls_ca = None\<rparr>"
proof (cases "truthy_str (ev ''AWS_IOT_ENDPOINT'')")
  case True
  then obtain h where "ev ''AWS_IOT_ENDPOINT'' = Some h" "h \<noteq> []" by (cases "ev ''AWS_IOT_ENDPOINT''") auto
  with assms show ?thesis
    by (cases "tls_material readFile ev ''PRIVATE_KEY''"; cases "tls_material readFile ev ''CERT''";
        cases "tls_material readFile ev ''ROOT_CA''") (simp_all add: broker_options_def or_str_def)
next
  case False
  then have "or_str (ev ''AWS_IOT_ENDPOINT'') d = d" for d by (cases "ev ''AWS_IOT_ENDPOINT''") (auto split: if_splits)
  with assms False show ?thesis by (simp add: broker_options_def)
qed

text \<open>A port written in digits is that port, zero excepted; one that does not read as a number is silently the
  default, as here one with a comment behind it.\<close>

theorem port_is_read:
  "0 < n \<Longrightarrow> number_or (Some (nat_digits n)) d = Fin (dec_of_int (int n))"
  "number_or (Some ''8884 # with TLS'') 1883 = Fin (dec_of_int 1883)"
proof -
  have z: "dec_zero (dec_of_int (int n)) \<Longrightarrow> n = 0"
    using strip_zeros_value [of n 0] by (auto simp: dec_zero_def dec_of_int_def mk_dec_def split: prod.splits)
  show "0 < n \<Longrightarrow> number_or (Some (nat_digits n)) d = Fin (dec_of_int (int n))"
    using z by (auto simp: number_or_def Number_digits)
  show "number_or (Some ''8884 # with TLS'') 1883 = Fin (dec_of_int 1883)" by code_simp
qed

end
