(* ===== verification/Subscriptions.thy ===== *)
theory Subscriptions
  imports Startup
begin

text \<open>
  From the broker to the handlers: every topic the command service subscribes to belongs to one vehicle,
  the one its handler is given, and reaches the handler meant for it, whatever the vehicle is
  called; and nothing the service publishes comes back to it.
\<close>

section \<open>Topics\<close>

text \<open>The match of a topic filter with the one-level wildcard, as the protocol defines it.\<close>

definition filter_matches :: "string \<Rightarrow> string \<Rightarrow> bool" where
  "filter_matches f topic = list_all2 (\<lambda>p t. p = ''+'' \<or> p = t) (split_on CHR ''/'' f) (split_on CHR ''/'' topic)"

definition vehicle_filter :: "string \<Rightarrow> string" where
  "vehicle_filter channel = vehicle_topic ''+'' channel"

lemma split_on_parts: "x \<in> set (split_on c s) \<Longrightarrow> c \<notin> set x"
proof (induction s arbitrary: x)
  case (Cons a s)
  obtain p ps where "split_on c s = p # ps" by (cases "split_on c s") auto
  with Cons show ?case by (auto split: if_splits)
qed simp

lemma split_on_app: "split_on c (s @ c # t) = split_on c s @ split_on c t"
proof (induction s)
  case (Cons a s)
  obtain p ps where "split_on c s = p # ps" by (cases "split_on c s") auto
  with Cons show ?case by auto
qed simp

lemma split_vehicle_topic:
  "CHR ''/'' \<notin> set v \<Longrightarrow>
    split_on CHR ''/'' (vehicle_topic v ch) = [''joppilot'', ''v1'', ''vehicles'', v] @ split_on CHR ''/'' ch"
  by (simp add: vehicle_topic_def split_on_append)

lemma matches_vehicle_filter:
  assumes "filter_matches (vehicle_filter ch) topic" "''+'' \<notin> set (split_on CHR ''/'' ch)"
  shows "\<exists>v. CHR ''/'' \<notin> set v \<and> topic = vehicle_topic v ch"
proof -
  have same: "list_all2 (\<lambda>p t. p = ''+'' \<or> p = t) ps ts \<Longrightarrow> ''+'' \<notin> set ps \<Longrightarrow> ts = ps" for ps ts :: "string list"
    by (induction rule: list_all2_induct) auto
  from assms(1) obtain v ts where t: "split_on CHR ''/'' topic = [''joppilot'', ''v1'', ''vehicles'', v] @ ts"
      "list_all2 (\<lambda>p t. p = ''+'' \<or> p = t) (split_on CHR ''/'' ch) ts"
    by (auto simp: filter_matches_def vehicle_filter_def split_vehicle_topic list_all2_Cons1)
  then have ts: "ts = split_on CHR ''/'' ch" using same assms(2) by blast
  have v: "CHR ''/'' \<notin> set v" using split_on_parts [of v "CHR ''/''" topic] t(1) by simp
  then have "split_on CHR ''/'' topic = split_on CHR ''/'' (vehicle_topic v ch)" using t(1) ts by (simp add: split_vehicle_topic)
  then have "topic = vehicle_topic v ch" by (metis join_split_on)
  with v show ?thesis by blast
qed

lemma vehicle_of_topic: "CHR ''/'' \<notin> set v \<Longrightarrow> vehicleFromTopic (vehicle_topic v ch) = Some v"
  by (simp add: vehicleFromTopic_def Let_def split_vehicle_topic)

section \<open>Which handler\<close>

lemma ends_with_last: "ends_with s suf \<Longrightarrow> suf \<noteq> [] \<Longrightarrow> last s = last suf"
  by (auto dest: ends_withE)

lemma segment_last: "ch \<noteq> [] \<Longrightarrow> last (vehicle_topic v ch) = last ch"
  by (simp add: vehicle_topic_def)

lemma topic_ends: "ends_with (vehicle_topic v (ch @ suf)) suf" "ends_with (vehicle_topic v ch) (CHR ''/'' # ch)"
proof -
  have "vehicle_topic v (ch @ suf) = (''joppilot/v1/vehicles/'' @ v @ ''/'' @ ch) @ suf"
    "vehicle_topic v ch = (''joppilot/v1/vehicles/'' @ v) @ CHR ''/'' # ch"
    by (simp_all add: vehicle_topic_def)
  then show "ends_with (vehicle_topic v (ch @ suf)) suf" "ends_with (vehicle_topic v ch) (CHR ''/'' # ch)"
    by (metis ends_with_append)+
qed

lemma starts_included: "starts_with s p \<Longrightarrow> str_includes s p"
  by (cases s; cases p) simp_all

lemma str_includes_app: "str_includes (a @ p @ b) p"
proof (induction a)
  case Nil
  then show ?case by (simp add: starts_included)
next
  case (Cons x a)
  then show ?case by simp
qed

lemma str_includesE: "str_includes s p \<Longrightarrow> \<exists>a b. s = a @ p @ b"
proof (induction s)
  case (Cons x s)
  show ?case
  proof (cases "starts_with (x # s) p")
    case True
    then obtain t where "x # s = p @ t" by (blast dest: starts_withE)
    then show ?thesis by (intro exI [of _ "[]"] exI [of _ t]) simp
  next
    case False
    with Cons obtain a b where "s = a @ p @ b" by auto
    then show ?thesis by (intro exI [of _ "x # a"] exI [of _ b]) simp
  qed
qed simp

lemma maneuver_included: "str_includes (vehicle_topic v (''maneuver/'' @ x)) ''/maneuver/''"
  "str_includes (vehicle_topic v ''maneuver/proposal'') ''/maneuver/proposal''"
  "str_includes (vehicle_topic v ''maneuver/status'') ''/maneuver/status''"
  using str_includes_app [of "''joppilot/v1/vehicles/'' @ v" "''/maneuver/''" x]
    str_includes_app [of "''joppilot/v1/vehicles/'' @ v" "''/maneuver/proposal''" "[]"]
    str_includes_app [of "''joppilot/v1/vehicles/'' @ v" "''/maneuver/status''" "[]"]
  by (simp_all add: vehicle_topic_def)

text \<open>Not even a vehicle called \<open>maneuver\<close> makes a status look like a proposal.\<close>

lemma status_not_proposal:
  assumes "CHR ''/'' \<notin> set v"
  shows "\<not> str_includes (vehicle_topic v ''maneuver/status'') ''/maneuver/proposal''"
proof
  assume "str_includes (vehicle_topic v ''maneuver/status'') ''/maneuver/proposal''"
  then obtain a b where "vehicle_topic v ''maneuver/status'' = a @ ''/maneuver/proposal'' @ b" by (blast dest: str_includesE)
  then have "split_on CHR ''/'' (vehicle_topic v ''maneuver/status'') =
      split_on CHR ''/'' (a @ CHR ''/'' # ''maneuver'' @ CHR ''/'' # ''proposal'' @ b)" by simp
  then have e: "[''joppilot'', ''v1'', ''vehicles'', v, ''maneuver'', ''status''] =
      split_on CHR ''/'' a @ ''maneuver'' # split_on CHR ''/'' (''proposal'' @ b)"
    using assms by (simp add: split_vehicle_topic split_on_app split_on_append del: append_Cons)
      (simp add: split_on_app split_on_append)
  obtain p ps where p: "split_on CHR ''/'' (''proposal'' @ b) = (''proposal'' @ p) # ps"
    by (cases "split_on CHR ''/'' b") (auto split: list.splits)
  obtain q0 qs where "split_on CHR ''/'' a = q0 # qs" by (cases "split_on CHR ''/'' a") auto
  with e p show False by (auto simp: Cons_eq_append_conv)
qed

text \<open>What the service does with a message of each channel it subscribes to.\<close>

definition command_handler :: "'kv env \<Rightarrow> string \<Rightarrow> vehicle_id \<Rightarrow> string \<Rightarrow> ('kv, unit) handler" where
  "command_handler E ch v body =
    (if ch = ''command/ack'' then catch (handleAck E v body) (\<lambda>_. ret ())
     else if ch = ''heartbeat'' then catch (recordLatchTransition E v body) (\<lambda>_. ret ())
     else if ch = ''logsync'' then catch (recordEdgeLogBatch E v body) (\<lambda>_. ret ())
     else (case json_parse body of
         None \<Rightarrow> ret ()
       | Some msg \<Rightarrow> if ch = ''maneuver/proposal'' then handleProposal E v msg else handleStatusUpdate E v msg))"

lemma last_simps [simp]:
  "last ''command/ack'' = CHR ''k''" "last ''maneuver/proposal'' = CHR ''l''" "last ''maneuver/status'' = CHR ''s''"
  "last ''heartbeat'' = CHR ''t''" "last ''logsync'' = CHR ''c''" "last ''/ack'' = CHR ''k''" "last ''/heartbeat'' = CHR ''t''"
  "last ''/logsync'' = CHR ''c''" "last ''telemetry'' = CHR ''y''" "last ''/telemetry'' = CHR ''y''"
  by simp_all

lemma topic_not_ends: "ch \<noteq> [] \<Longrightarrow> suf \<noteq> [] \<Longrightarrow> last ch \<noteq> last suf \<Longrightarrow> \<not> ends_with (vehicle_topic v ch) suf"
  using ends_with_last [of "vehicle_topic v ch" suf] by (auto simp: segment_last)

lemma channel_dispatch:
  assumes "CHR ''/'' \<notin> set v" "v \<noteq> []"
    and "ch \<in> {''command/ack'', ''maneuver/proposal'', ''maneuver/status'', ''heartbeat'', ''logsync''}"
  shows "on_message E (vehicle_topic v ch) body = command_handler E ch v body"
proof -
  note v = vehicle_of_topic [OF assms(1)] assms(2)
  have n: "\<not> ends_with (vehicle_topic v ''maneuver/proposal'') x" "\<not> ends_with (vehicle_topic v ''maneuver/status'') x"
    if "x \<in> {''/ack'', ''/heartbeat'', ''/logsync''}" for x
    using that topic_not_ends [of "''maneuver/proposal''" x v] topic_not_ends [of "''maneuver/status''" x v] by auto
  have a: "ends_with (vehicle_topic v ''command/ack'') ''/ack''" using topic_ends(1) [of v "''command''" "''/ack''"] by simp
  have h: "ends_with (vehicle_topic v ''heartbeat'') ''/heartbeat''" "\<not> ends_with (vehicle_topic v ''heartbeat'') ''/ack''"
    using topic_ends(2) [of v "''heartbeat''"] topic_not_ends [of "''heartbeat''" "''/ack''" v] by simp_all
  have l: "ends_with (vehicle_topic v ''logsync'') ''/logsync''" "\<not> ends_with (vehicle_topic v ''logsync'') ''/ack''"
      "\<not> ends_with (vehicle_topic v ''logsync'') ''/heartbeat''"
    using topic_ends(2) [of v "''logsync''"] topic_not_ends [of "''logsync''" "''/ack''" v]
      topic_not_ends [of "''logsync''" "''/heartbeat''" v] by simp_all
  have m: "str_includes (vehicle_topic v ''maneuver/proposal'') ''/maneuver/''" "str_includes (vehicle_topic v ''maneuver/status'') ''/maneuver/''"
    using maneuver_included(1) [of v "''proposal''"] maneuver_included(1) [of v "''status''"] by simp_all
  have "on_message E (vehicle_topic v ''command/ack'') body = command_handler E ''command/ack'' v body"
    by (simp add: on_message_def command_handler_def Let_def v a)
  moreover have "on_message E (vehicle_topic v ''heartbeat'') body = command_handler E ''heartbeat'' v body"
    by (simp add: on_message_def command_handler_def Let_def v h)
  moreover have "on_message E (vehicle_topic v ''logsync'') body = command_handler E ''logsync'' v body"
    by (simp add: on_message_def command_handler_def Let_def v l)
  moreover have "on_message E (vehicle_topic v ''maneuver/proposal'') body = command_handler E ''maneuver/proposal'' v body"
    by (simp add: on_message_def command_handler_def Let_def v n m handleIncoming_def maneuver_included(2) split: option.split)
  moreover have "on_message E (vehicle_topic v ''maneuver/status'') body = command_handler E ''maneuver/status'' v body"
    by (simp add: on_message_def command_handler_def Let_def v n m handleIncoming_def maneuver_included(3)
        status_not_proposal [OF assms(1)] split: option.split)
  ultimately show ?thesis using assms(3) by blast
qed

lemma subscriptions_eq:
  "SUBSCRIPTIONS = map vehicle_filter [''command/ack'', ''maneuver/proposal'', ''maneuver/status'', ''heartbeat'', ''logsync'']"
  by (simp add: SUBSCRIPTIONS_def vehicle_filter_def vehicle_topic_def)

lemma plus_free: "''+'' \<notin> set (split_on CHR ''/'' ch)" if
  "ch \<in> {''command/ack'', ''maneuver/proposal'', ''maneuver/status'', ''heartbeat'', ''logsync''}"
  using that by auto

text \<open>None of the topics the service publishes on is one of a channel it subscribes to.\<close>

lemma own_topics_unsubscribed:
  assumes "CHR ''/'' \<notin> set v" "topic = vehicle_topic v ch"
    and "ch \<in> {''command/ack'', ''maneuver/proposal'', ''maneuver/status'', ''heartbeat'', ''logsync''}"
    and "own \<in> {''command'', ''estop'', ''deadman'', ''zone-config'', ''logsync/ack''}"
  shows "topic \<noteq> vehicle_topic w own"
proof
  assume e: "topic = vehicle_topic w own"
  have s: "split_on CHR ''/'' topic = [''joppilot'', ''v1'', ''vehicles'', v] @ split_on CHR ''/'' ch"
    using assms(1,2) by (simp add: split_vehicle_topic)
  have o: "split_on CHR ''/'' (vehicle_topic w own) = [''joppilot'', ''v1'', ''vehicles''] @ split_on CHR ''/'' w @ split_on CHR ''/'' own" for own
  proof -
    have "vehicle_topic w own = ''joppilot'' @ CHR ''/'' # ''v1'' @ CHR ''/'' # ''vehicles'' @ CHR ''/'' # w @ CHR ''/'' # own"
      by (simp add: vehicle_topic_def)
    then show ?thesis by (simp add: split_on_app split_on_append del: append_Cons)
  qed
  have ne: "own \<noteq> []" "ch \<noteq> []" using assms(3,4) by (elim insertE emptyE; simp)+
  have "last own = last ch" using e assms(2) segment_last [OF ne(1), of w] segment_last [OF ne(2), of v] by simp
  then have "own = ''logsync/ack'' \<and> ch = ''command/ack''" using assms(3,4) by (elim insertE emptyE; simp)
  then have own: "own = ''logsync/ack''" and com: "ch = ''command/ack''" by blast+
  have "split_on CHR ''/'' topic = [''joppilot'', ''v1'', ''vehicles'', v, ''command'', ''ack'']" unfolding s com by simp
  moreover have "split_on CHR ''/'' topic = [''joppilot'', ''v1'', ''vehicles''] @ split_on CHR ''/'' w @ [''logsync'', ''ack'']"
    unfolding e o own by simp
  ultimately have "[v, ''command'', ''ack''] = split_on CHR ''/'' w @ [''logsync'', ''ack'']" by simp
  then have "rev [v, ''command'', ''ack''] = rev (split_on CHR ''/'' w @ [''logsync'', ''ack''])" by (rule arg_cong)
  then show False by simp
qed

text \<open>Every message of a subscribed topic reaches its handler, under the name of the vehicle whose topic
  it is: a topic that matches one of the subscriptions is the topic of exactly one vehicle, and
  for every vehicle with a name, even one that is called like a channel, the message is
  treated as the acknowledgement, heartbeat, log batch, proposal or status that its channel says. None
  of the topics on which the service itself publishes matches a subscription.\<close>

theorem subscribed_messages_reach_their_handler:
  assumes "f \<in> set SUBSCRIPTIONS" "filter_matches f topic"
  shows "\<exists>v ch. topic = vehicle_topic v ch \<and> f = vehicle_filter ch \<and> vehicleFromTopic topic = Some v \<and>
    on_message E topic body = (if v = [] then ret () else command_handler E ch v body) \<and>
    list_all (\<lambda>own. topic \<noteq> vehicle_topic w own) [''command'', ''estop'', ''deadman'', ''zone-config'', ''logsync/ack'']"
proof -
  let ?C = "{''command/ack'', ''maneuver/proposal'', ''maneuver/status'', ''heartbeat'', ''logsync''}"
  have "f \<in> vehicle_filter ` ?C" using assms(1) unfolding subscriptions_eq by (simp only: set_map list.set)
  then obtain ch where ch: "f = vehicle_filter ch" "ch \<in> ?C" by (rule imageE)
  have p: "''+'' \<notin> set (split_on CHR ''/'' ch)" by (rule plus_free) (rule ch(2))
  from assms(2) obtain v where v: "CHR ''/'' \<notin> set v" "topic = vehicle_topic v ch"
    unfolding ch(1) using matches_vehicle_filter [OF _ p] by blast
  note t = vehicle_of_topic [OF v(1)]
  have d: "on_message E topic body = (if v = [] then ret () else command_handler E ch v body)"
  proof (cases "v = []")
    case True
    then show ?thesis using t [of ch] by (simp add: v(2) on_message_def Let_def)
  next
    case False
    then show ?thesis using channel_dispatch [OF v(1) False ch(2)] by (simp add: v(2))
  qed
  have "list_all (\<lambda>own. topic \<noteq> vehicle_topic w own) [''command'', ''estop'', ''deadman'', ''zone-config'', ''logsync/ack'']"
    using own_topics_unsubscribed [OF v ch(2)] unfolding list_all_iff list.set by blast
  then show ?thesis using v(2) ch(1) d t [of ch, folded v(2)] by (intro exI conjI)
qed

theorem subscribed_messages_reach_their_handler_witness:
  "on_message (demo_env True) ''joppilot/v1/vehicles/ack/maneuver/status'' ''{}'' =
    command_handler (demo_env True) ''maneuver/status'' ''ack'' ''{}''"
proof -
  let ?f = "''joppilot/v1/vehicles/+/maneuver/status''" and ?t = "''joppilot/v1/vehicles/ack/maneuver/status''"
  have m: "?f \<in> set SUBSCRIPTIONS" "filter_matches ?f ?t" by (simp_all add: SUBSCRIPTIONS_def filter_matches_def)
  from subscribed_messages_reach_their_handler [OF m, of "demo_env True" "''{}''" "[]"] obtain v ch where
      c: "?t = vehicle_topic v ch" "?f = vehicle_filter ch" "vehicleFromTopic ?t = Some v"
      "on_message (demo_env True) ?t ''{}'' = (if v = [] then ret () else command_handler (demo_env True) ch v ''{}'')"
    by (elim exE conjE)
  from c(2) have "ch = ''maneuver/status''" by (simp add: vehicle_filter_def vehicle_topic_def)
  moreover from c(3) have "v = ''ack''" by (simp add: vehicleFromTopic_def Let_def)
  ultimately show ?thesis using c(4) by simp
qed

end
