(* ===== verification/Fleet_Identity.thy ===== *)
theory Fleet_Identity
  imports Fleet_Controller
begin

text \<open>
  The identity helpers of the fleet service (\<open>services/fleet/src/identity.ts\<close>), a copy of those of the
  command service that is to be kept in sync by hand; here it is compared with them.
\<close>

definition fleet_jwtPayload :: "'kv env \<Rightarrow> req \<Rightarrow> json option" where
  "fleet_jwtPayload E r =
    (case first_header (authorization r) of
       None \<Rightarrow> None
     | Some auth \<Rightarrow>
         if auth = [] then None
         else (case split_on CHR ''.'' (strip_bearer auth) of
             [_, p, _] \<Rightarrow> json_parse (b64url E p)
           | _ \<Rightarrow> None))"

definition fleet_identityFrom :: "'kv env \<Rightarrow> req \<Rightarrow> string option" where
  "fleet_identityFrom E r =
    (case fleet_jwtPayload E r of
       None \<Rightarrow> None
     | Some p \<Rightarrow>
         if falsy p then None
         else (let i = or_null (or_null (get_field p ''cognito:username'') (get_field p ''username'')) (get_field p ''sub'')
           in if is_str i then Some (as_str i) else None))"

definition fleet_identityBindingEnabled :: "'kv env \<Rightarrow> bool" where
  "fleet_identityBindingEnabled E = AUTH_TRUST_APIGW_JWT E"

definition fleet_requireOperatorIdentity :: "'kv env \<Rightarrow> req \<Rightarrow> operator_id \<Rightarrow> exn option" where
  "fleet_requireOperatorIdentity E r operatorId =
    (if \<not> fleet_identityBindingEnabled E then None
     else (case fleet_identityFrom E r of
         None \<Rightarrow> Some (ForbiddenException ''IDENTITY_MISMATCH'')
       | Some identity \<Rightarrow>
           if identity = [] \<or> identity \<noteq> operatorId then Some (ForbiddenException ''IDENTITY_MISMATCH'') else None))"

definition fleet_actorFrom :: "'kv env \<Rightarrow> req \<Rightarrow> string option \<Rightarrow> string" where
  "fleet_actorFrom E r bodyValue =
    (case (if fleet_identityBindingEnabled E then fleet_identityFrom E r else None) of
       Some identity \<Rightarrow> if identity \<noteq> [] then identity else or_str bodyValue ''ADMIN''
     | None \<Rightarrow> or_str bodyValue ''ADMIN'')"

lemma payloads_agree: "fleet_jwtPayload E r = jwtPayload E r"
proof (cases "first_header (authorization r)")
  case (Some auth)
  show ?thesis
  proof (cases "length (split_on CHR ''.'' (strip_bearer auth)) = 3")
    case True
    then obtain a b c where "split_on CHR ''.'' (strip_bearer auth) = [a, b, c]"
      by (auto simp: length_Suc_conv numeral_3_eq_3)
    with Some show ?thesis by (simp add: fleet_jwtPayload_def jwtPayload_def Let_def)
  next
    case False
    then show ?thesis
      using Some by (auto simp: fleet_jwtPayload_def jwtPayload_def Let_def split: list.split)
  qed
qed (simp add: fleet_jwtPayload_def jwtPayload_def)

lemma names_agree: "fleet_identityFrom E r = identityFrom E r"
  by (cases "jwtPayload E r")
    (auto simp: fleet_identityFrom_def identityFrom_def payloads_agree or_null_def Let_def split: json.split)

text \<open>The two services agree on who is calling: for every request, every claimed operator and every
  name in the body, in the cloud and locally, the copy in the fleet service reads the same
  identity, refuses the same requests in the same way, and attributes an administrative action to
  the same actor.\<close>

theorem identity_copies_agree:
  "fleet_identityFrom E r = identityFrom E r \<and>
   fleet_requireOperatorIdentity E r p = requireOperatorIdentity E r p \<and>
   fleet_actorFrom E r b = actorFrom E r b"
  by (auto simp: names_agree fleet_requireOperatorIdentity_def requireOperatorIdentity_def fleet_actorFrom_def actorFrom_def
      fleet_identityBindingEnabled_def identityBindingEnabled_def Let_def split: option.split)

end
