(* ===== verification/Live_Events.thy ===== *)
theory Live_Events
  imports Console Telemetry
begin

text \<open>
  The socket events between the services and a console on the same machine: what the gateways emit
  (\<open>maneuver.gateway.ts\<close>, \<open>telemetry.gateway.ts\<close>, \<open>fleet.gateway.ts\<close>) and what a local session listens
  to (\<open>context/SessionContext.tsx\<close>). The socket itself is a parameter: an event is its name and its
  document. The documents are those the services notify and broadcast in \<open>Maneuver\<close> and \<open>Telemetry\<close>.
\<close>

section \<open>What is emitted\<close>

text \<open>A notification of the maneuver service is the listener it is for, and the document.\<close>

definition maneuver_event :: "string \<times> json \<Rightarrow> string \<times> json" where
  "maneuver_event n = (''maneuver/'' @ fst n @ ''/'' @ str_field (snd n) ''vehicleId'', snd n)"

definition link_text :: "link \<Rightarrow> string" where
  "link_text l = (case l of HEALTHY \<Rightarrow> ''HEALTHY'' | DEGRADED \<Rightarrow> ''DEGRADED'' | LOST \<Rightarrow> ''LOST'')"

definition telemetry_event :: "msec \<Rightarrow> broadcast \<Rightarrow> string \<times> json" where
  "telemetry_event t b =
    (case b of
       BroadcastTelemetry v p \<Rightarrow> (''telemetry/'' @ v, p)
     | BroadcastHeartbeat v p \<Rightarrow> (''heartbeat/'' @ v, p)
     | BroadcastLink v st \<Rightarrow> (''link/'' @ v,
         JObj [(''vehicleId'', JStr v), (''status'', JStr (link_text st)), (''at'', JInt t)]))"

definition fleet_event_name :: "bool \<Rightarrow> vehicle_id \<Rightarrow> string" where
  "fleet_event_name is_mission v = (if is_mission then ''mission/'' else ''checklist/'') @ v"

section \<open>What a console hears\<close>

definition card_of :: "json \<Rightarrow> card" where
  "card_of p = \<lparr>card_id = str_field p ''proposalId'', card_window = int_field p ''validityWindowMs'',
     card_options = map (\<lambda>v. (str_field v ''optionId'', str_field v ''description'')) (as_list (get_field p ''options''))\<rparr>"

definition status_of :: "json \<Rightarrow> status_in" where
  "status_of u = \<lparr>si_proposalId = str_field u ''proposalId'', si_status = str_field u ''status'',
     si_option = str_opt (get_field u ''selectedOptionId'')\<rparr>"

text \<open>The sockets are there in a local session only; the last telemetry is kept beside the session.\<close>

definition on_command_socket :: "string \<times> json \<Rightarrow> console \<Rightarrow> console" where
  "on_command_socket e s =
    (if mode s \<noteq> LocalMode then s
     else if fst e = ''maneuver/proposal/'' @ vehicleId then handleProposal_console (card_of (snd e)) s
     else if fst e = ''maneuver/status/'' @ vehicleId then handleProposalStatus (status_of (snd e)) s
     else s)"

definition on_telemetry_socket :: "AppMode \<Rightarrow> string \<times> json \<Rightarrow> json option \<Rightarrow> json option" where
  "on_telemetry_socket m e shown =
    (if m = LocalMode \<and> fst e = ''telemetry/'' @ vehicleId then Some (snd e) else shown)"

section \<open>From the service to the console\<close>

text \<open>A local console hears of its own vehicle and of no other: a proposal or a status that the
  maneuver service passes on changes a local session exactly when it is about the console's vehicle, and
  then as the proposal or status it is; of what the telemetry service broadcasts, the display takes
  the samples of that vehicle and nothing else.\<close>

theorem console_hears_its_vehicle:
  assumes "mode s = LocalMode"
  shows "on_command_socket (maneuver_event (''proposal'', p)) s =
      (if str_field p ''vehicleId'' = vehicleId then handleProposal_console (card_of p) s else s) \<and>
    on_command_socket (maneuver_event (''status'', p)) s =
      (if str_field p ''vehicleId'' = vehicleId then handleProposalStatus (status_of p) s else s) \<and>
    on_telemetry_socket (mode s) (telemetry_event t b) shown =
      (case b of BroadcastTelemetry v x \<Rightarrow> if v = vehicleId then Some x else shown | _ \<Rightarrow> shown)"
  using assms
  by (simp add: on_command_socket_def maneuver_event_def on_telemetry_socket_def telemetry_event_def split: broadcast.split)

theorem console_hears_its_vehicle_witness:
  "on_telemetry_socket (mode (session_start LocalMode None ''OP-1'' 0)) (telemetry_event 0 (BroadcastTelemetry ''VEH-001'' JNull)) None = Some JNull \<and>
   on_telemetry_socket (mode (session_start LocalMode None ''OP-1'' 0)) (telemetry_event 0 (BroadcastTelemetry ''VEH-002'' JNull)) None = None"
  using console_hears_its_vehicle [of "session_start LocalMode None ''OP-1'' 0" JNull 0 "BroadcastTelemetry ''VEH-001'' JNull" None]
    console_hears_its_vehicle [of "session_start LocalMode None ''OP-1'' 0" JNull 0 "BroadcastTelemetry ''VEH-002'' JNull" None]
  by (simp add: session_start_def vehicleId_def)

text \<open>Nobody listens to what the fleet service could emit, nor to heartbeats and link changes.\<close>

theorem unheard_events:
  "on_command_socket (fleet_event_name b v, d) s = s \<and> on_telemetry_socket m (fleet_event_name b v, d) x = x \<and>
   on_telemetry_socket m (telemetry_event t (BroadcastLink v st)) x = x \<and>
   on_telemetry_socket m (telemetry_event t (BroadcastHeartbeat v d)) x = x"
  by (simp add: on_command_socket_def on_telemetry_socket_def fleet_event_name_def telemetry_event_def)

end
