(* ===== verification/Telemetry_Topics.thy ===== *)
theory Telemetry_Topics
  imports Subscriptions Telemetry
begin

text \<open>
  From the broker to the telemetry service (\<open>services/telemetry/src/mqtt.service.ts\<close>): its two subscriptions
  and what becomes of their messages.
\<close>

definition TELEMETRY_SUBSCRIPTIONS :: "string list" where
  "TELEMETRY_SUBSCRIPTIONS = [''joppilot/v1/vehicles/+/telemetry'', ''joppilot/v1/vehicles/+/heartbeat'']"

text \<open>A sample is broadcast and written only when its document passes the schema and names the vehicle
  of its topic; a text that does not parse is dropped.\<close>

definition take_sample :: "'kv env \<Rightarrow> vehicle_id \<Rightarrow> json \<Rightarrow> tel \<Rightarrow> tel" where
  "take_sample E v msg s =
    (case safeParse E TelemetryPayloadSchema msg of
       None \<Rightarrow> s
     | Some p \<Rightarrow>
         if get_field p ''vehicleId'' = JStr v
         then enqueue p (s\<lparr>broadcasts := broadcasts s @ [BroadcastTelemetry v p]\<rparr>) else s)"

lemma telemetry_dispatch:
  assumes "CHR ''/'' \<notin> set v" "v \<noteq> []"
  shows "on_telemetry_message E (vehicle_topic v ''heartbeat'') text s =
      (case json_parse text of None \<Rightarrow> s | Some msg \<Rightarrow> handleHeartbeat E v msg s)"
    and "on_telemetry_message E (vehicle_topic v ''telemetry'') text s =
      (case json_parse text of None \<Rightarrow> s | Some msg \<Rightarrow> take_sample E v msg s)"
proof -
  have e: "ends_with (vehicle_topic v ''heartbeat'') ''/heartbeat''" "ends_with (vehicle_topic v ''telemetry'') ''/telemetry''"
      "\<not> ends_with (vehicle_topic v ''telemetry'') ''/heartbeat''"
    using topic_ends(2) [of v "''heartbeat''"] topic_ends(2) [of v "''telemetry''"]
      topic_not_ends [of "''telemetry''" "''/heartbeat''" v] by simp_all
  show "on_telemetry_message E (vehicle_topic v ''heartbeat'') text s =
      (case json_parse text of None \<Rightarrow> s | Some msg \<Rightarrow> handleHeartbeat E v msg s)"
    using assms(2) by (simp add: on_telemetry_message_def vehicle_of_topic [OF assms(1)] e Let_def split: option.split)
  show "on_telemetry_message E (vehicle_topic v ''telemetry'') text s =
      (case json_parse text of None \<Rightarrow> s | Some msg \<Rightarrow> take_sample E v msg s)"
    using assms(2) by (simp add: on_telemetry_message_def vehicle_of_topic [OF assms(1)] e take_sample_def Let_def
        split: option.split)
qed

text \<open>Every message of a subscribed topic is treated as the sample or the heartbeat its topic says, of the
  vehicle its topic names, whatever that vehicle is called.\<close>

theorem subscribed_samples_are_taken:
  assumes "f \<in> set TELEMETRY_SUBSCRIPTIONS" "filter_matches f topic"
  shows "\<exists>v. vehicleFromTopic topic = Some v \<and> on_telemetry_message E topic text s =
    (if v = [] then s
     else (case json_parse text of
         None \<Rightarrow> s
       | Some msg \<Rightarrow> if topic = vehicle_topic v ''heartbeat'' then handleHeartbeat E v msg s else take_sample E v msg s))"
proof -
  have "f = vehicle_filter ''telemetry'' \<or> f = vehicle_filter ''heartbeat''"
    using assms(1) by (simp add: TELEMETRY_SUBSCRIPTIONS_def vehicle_filter_def vehicle_topic_def)
  then obtain ch where ch: "f = vehicle_filter ch" "ch = ''telemetry'' \<or> ch = ''heartbeat''" by blast
  have p: "''+'' \<notin> set (split_on CHR ''/'' ch)" using ch(2) by (elim disjE) simp_all
  from assms(2) obtain v where v: "CHR ''/'' \<notin> set v" "topic = vehicle_topic v ch"
    unfolding ch(1) using matches_vehicle_filter [OF _ p] by blast
  note t = vehicle_of_topic [OF v(1)]
  have n: "vehicle_topic v ''telemetry'' \<noteq> vehicle_topic v ''heartbeat''" by (simp add: vehicle_topic_def)
  show ?thesis
  proof (cases "v = []")
    case True
    then show ?thesis using t [of ch] by (intro exI [of _ v]) (simp add: v(2) on_telemetry_message_def Let_def)
  next
    case False
    show ?thesis using ch(2) t n False
      by (intro exI [of _ v]) (elim disjE; simp add: v(2) telemetry_dispatch [OF v(1) False] split: option.split)
  qed
qed

end
