(* ===== verification/Demo_Messages.thy ===== *)
theory Demo_Messages
  imports Simulator_Safety Contract Js_Number
begin

text \<open>
  What the demonstration vehicle publishes, as the documents it publishes (\<open>demo/simulator.ts\<close>): its
  telemetry with all fields, its proposals and their status, against the schemas of the contract; and
  the identifiers it makes where the browser does not. How a number of the model becomes a number
  of a document is a parameter: of the rounding to binary64 only its agreement with whole numbers
  is used.
\<close>

section \<open>Numbers\<close>

definition rounds :: "(rat \<Rightarrow> dec) \<Rightarrow> bool" where
  "rounds num = (\<forall>r n. \<bar>n\<bar> \<le> 2 ^ 53 \<longrightarrow> (of_int n \<le> r \<longrightarrow> dec_le (dec_of_int n) (num r)) \<and>
     (r \<le> of_int n \<longrightarrow> dec_le (num r) (dec_of_int n)))"

section \<open>Documents\<close>

definition sensor_json :: "string \<times> string \<Rightarrow> json" where
  "sensor_json s = JObj [(''id'', JStr (fst s)), (''type'', JStr (snd s)), (''status'', JStr ''OK'')]"

definition telemetry_json :: "(rat \<Rightarrow> dec) \<Rightarrow> DemoTelemetry \<Rightarrow> json" where
  "telemetry_json num p = JObj
    [(''vehicleId'', JStr (t_vehicleId p)), (''timestamp'', JInt (t_timestamp p)),
     (''location'', JObj [(''lat'', JNum (num (t_lat p))), (''lng'', JNum (num (t_lng p)))]),
     (''speedKmh'', JNum (num (t_speedKmh p))), (''vehicleState'', JStr (t_vehicleState p)), (''mode'', JStr (t_mode p)),
     (''battery'', case t_battery p of (percent, volts, amps, temp) \<Rightarrow>
        JObj [(''percent'', JNum (num percent)), (''voltageV'', JNum (num volts)), (''currentA'', JNum (num amps)),
          (''temperatureC'', JNum (num temp))]),
     (''motor'', JObj [(''rpm'', JInt (fst (t_motor p))), (''temperatureC'', JInt (snd (t_motor p)))]),
     (''sensors'', JArr (map sensor_json [(''cam-front'', ''CAMERA''), (''cam-rear'', ''CAMERA''), (''lidar-top'', ''LIDAR''),
        (''us-left'', ''ULTRASONIC'')])),
     (''computeHealth'', JObj [(''cpuPercent'', JInt (t_cpuPercent p)), (''ramPercent'', JInt 38), (''temperatureC'', JInt 52)]),
     (''connection'', JObj [(''rttMs'', JInt 38), (''packetLossPercent'', JInt 0), (''carrier'', JStr ''Demo''), (''band'', JStr ''n/a'')]),
     (''currentZone'', JStr (t_currentZone p)), (''dtc'', JArr [])]"

definition option_json :: "string \<times> string \<times> string \<Rightarrow> json" where
  "option_json o3 = (case o3 of (i, d, e) \<Rightarrow>
     JObj [(''optionId'', JStr i), (''description'', JStr d), (''expectedResult'', JStr e)])"

definition scene_text :: "string \<times> rat \<times> rat \<Rightarrow> string" where
  "scene_text s = (case s of (summary, lat, lng) \<Rightarrow> summary @ '' at ('' @ to_fixed 4 lat @ '', '' @ to_fixed 4 lng @ '')'')"

definition proposal_json :: "DemoProposal \<Rightarrow> json" where
  "proposal_json p = JObj
    [(''proposalId'', JStr (dp_proposalId p)), (''vehicleId'', JStr (dp_vehicleId p)), (''reasonCode'', JStr (dp_reasonCode p)),
     (''context'', JObj [(''sceneSummary'', JStr (scene_text (dp_scene p))), (''sensorRefs'', JArr (map JStr (dp_sensorRefs p)))]),
     (''options'', JArr (map option_json (dp_options p))), (''validityWindowMs'', JInt (dp_validityWindowMs p)),
     (''defaultOnTimeout'', JStr (dp_defaultOnTimeout p)), (''timestamp'', JInt (dp_timestamp p))]"

definition status_json :: "StatusUpdate \<Rightarrow> json" where
  "status_json u = JObj
    ([(''proposalId'', JStr (su_proposalId u)), (''vehicleId'', JStr (su_vehicleId u)), (''status'', JStr (su_status u))]
     @ (case su_selectedOptionId u of None \<Rightarrow> [] | Some i \<Rightarrow> [(''selectedOptionId'', JStr i)])
     @ [(''timestamp'', JInt (su_timestamp u))])"

definition published :: "(schema \<Rightarrow> json \<Rightarrow> json option) \<Rightarrow> demo_out \<Rightarrow> bool" where
  "published P m =
    (case m of OnProposal p \<Rightarrow> P ManeuverProposalSchema (proposal_json p) \<noteq> None
     | OnStatus u \<Rightarrow> P ManeuverProposalStatusUpdateSchema (status_json u) \<noteq> None)"

section \<open>Identifiers\<close>

text \<open>The fallback of \<open>uuid\<close>, from the sixteenths that the random numbers are cut to.\<close>

fun uuid_fill :: "string \<Rightarrow> nat list \<Rightarrow> string" where
  "uuid_fill (c # cs) (r # rs) =
    (if c = CHR ''x'' then hex_char (r mod 16) # uuid_fill cs rs
     else if c = CHR ''y'' then hex_char (r mod 4 + 8) # uuid_fill cs rs
     else c # uuid_fill cs (r # rs))"
| "uuid_fill cs [] = cs"
| "uuid_fill [] rs = []"

definition uuid_fallback :: "nat list \<Rightarrow> string" where
  "uuid_fallback rs = uuid_fill ''xxxxxxxx-xxxx-4xxx-yxxx-xxxxxxxxxxxx'' rs"

text \<open>\<open>crypto.randomUUID\<close> where the browser has it.\<close>

definition simulator_uuid :: "string option \<Rightarrow> nat list \<Rightarrow> string" where
  "simulator_uuid randomUUID rs = (case randomUUID of Some u \<Rightarrow> u | None \<Rightarrow> uuid_fallback rs)"

lemma hex_char_nibble: "d < 16 \<Longrightarrow> is_hex (hex_char d) \<and> hex_char d \<noteq> CHR ''-''"
  by (auto simp: hex_char_def is_hex_def hex_val_def Let_def char_of_eq_iff take_bit_eq_mod)

lemma fill_nibbles:
  "n \<le> length rs \<Longrightarrow>
    uuid_fill (replicate n CHR ''x'' @ t) rs = map (\<lambda>r. hex_char (r mod 16)) (take n rs) @ uuid_fill t (drop n rs)"
proof (induction n arbitrary: rs)
  case (Suc n)
  then show ?case by (cases rs) simp_all
qed simp

lemma fill_other: "c \<noteq> CHR ''x'' \<Longrightarrow> c \<noteq> CHR ''y'' \<Longrightarrow> uuid_fill (c # t) rs = c # uuid_fill t rs"
  by (cases rs) simp_all

lemma fill_end: "uuid_fill [] rs = []"
  by (cases rs) simp_all

lemma nibbles_plain: "CHR ''-'' \<notin> set (map (\<lambda>r. hex_char (r mod 16)) rs) \<and> list_all is_hex (map (\<lambda>r. hex_char (r mod 16)) rs)"
  using hex_char_nibble by (auto simp: list_all_iff image_iff) (metis mod_less_divisor zero_less_numeral)

text \<open>The fallback makes identifiers in the format the contract asks for, of version 4.\<close>

theorem fallback_ids_are_valid:
  assumes "31 \<le> length rs"
  shows "uuid_format (uuid_fallback rs) \<and> uuid_fallback rs ! 14 = CHR ''4''"
proof -
  let ?x = "\<lambda>n. replicate n CHR ''x''" and ?h = "\<lambda>a n. map (\<lambda>r. hex_char (r mod 16)) (take n (drop a rs))"
  obtain y rest where y: "drop 15 rs = y # rest" using assms by (cases "drop 15 rs") auto
  have t: "''xxxxxxxx-xxxx-4xxx-yxxx-xxxxxxxxxxxx'' =
      ?x 8 @ CHR ''-'' # ?x 4 @ CHR ''-'' # CHR ''4'' # ?x 3 @ CHR ''-'' # CHR ''y'' # ?x 3 @ CHR ''-'' # ?x 12 @ []"
    by (simp add: eval_nat_numeral)
  have "drop 16 rs = drop 1 (drop 15 rs)" by (subst drop_drop) simp
  then have r: "rest = drop 16 rs" by (simp add: y)
  have z: "uuid_fill (?x 12) (drop 19 rs) = ?h 19 12"
    using fill_nibbles [of 12 "drop 19 rs" "[]"] assms by (cases "drop 31 rs") (simp_all add: fill_end)
  have f: "uuid_fallback rs = ?h 0 8 @ CHR ''-'' # ?h 8 4 @ CHR ''-'' # (CHR ''4'' # ?h 12 3) @ CHR ''-'' #
      (hex_char (y mod 4 + 8) # ?h 16 3) @ CHR ''-'' # ?h 19 12"
    unfolding uuid_fallback_def t using assms y r by (simp add: fill_nibbles fill_other z)
  have h: "hex_char (y mod 4 + 8) \<noteq> CHR ''-''" "is_hex (hex_char (y mod 4 + 8))" "is_hex CHR ''4''"
    using hex_char_nibble [of "y mod 4 + 8"] by (simp_all add: is_hex_def hex_val_def)
  show ?thesis
    unfolding f uuid_format_def using assms h nibbles_plain
    by (simp add: split_on_append split_on_no_sep nth_append)
qed

section \<open>What is published is valid\<close>

text \<open>A published message, short of the schema.\<close>

definition out_ok :: "demo_out \<Rightarrow> bool" where
  "out_ok m =
    (case m of
       OnProposal p \<Rightarrow> uuid_format (dp_proposalId p) \<and> dp_options p \<noteq> [] \<and> 0 < dp_validityWindowMs p \<and> 0 < dp_timestamp p
     | OnStatus u \<Rightarrow> uuid_format (su_proposalId u) \<and>
         List.member [''PENDING'', ''DECIDED'', ''TIMED_OUT'', ''CANCELLED''] (su_status u) \<and> 0 < su_timestamp u)"

text \<open>The state it comes from.\<close>

definition speaks_ok :: "demo \<Rightarrow> bool" where
  "speaks_ok s = (0 < demo_clock s \<and> list_all out_ok (emitted s) \<and>
     (case pending s of None \<Rightarrow> True | Some p \<Rightarrow> uuid_format (dp_proposalId (pp_proposal p))))"

lemmas speaks_defs = speaks_ok_def out_ok_def emitStatus_def close_open_def applyOutcome_def

lemma speaks_resolve:
  assumes "speaks_ok s" "pending s = Some p" "st \<in> {''DECIDED'', ''TIMED_OUT'', ''CANCELLED''}"
    "x = close_open s \<or> x = applyOutcome i r (close_open s)"
  shows "speaks_ok (emitStatus (pp_proposal p) st o' x)"
  using assms by (auto simp: speaks_defs)

lemma speaks_frame:
  "demo_clock s' = demo_clock s \<Longrightarrow> emitted s' = emitted s \<Longrightarrow> pending s' = pending s \<Longrightarrow> speaks_ok s' = speaks_ok s"
  by (simp add: speaks_ok_def)

lemma speaks_motion: "speaks_ok s \<Longrightarrow> speaks_ok (motion_tick s)"
  by (auto simp: motion_tick_def speaks_ok_def Let_def split: prod.split)

lemma speaks_tick:
  assumes "speaks_ok s" "uuid_format (ids (demo_ids s))"
  shows "speaks_ok (proposal_tick ids s)"
proof (cases "pending s")
  case (Some p)
  then show ?thesis
    using assms speaks_resolve [OF assms(1) Some, of "''TIMED_OUT''"] by (auto simp: proposal_tick_def)
next
  case None
  then show ?thesis
    using assms by (simp add: proposal_tick_def speaks_defs next_proposal_def PROPOSAL_WINDOW_MS_def Let_def)
qed

lemma speaks_decide: "speaks_ok s \<Longrightarrow> speaks_ok (decideProposal d i s)"
  unfolding decideProposal_def by (auto split: option.split sum.split intro!: speaks_resolve)

lemma speaks_safe_stop: "speaks_ok s \<Longrightarrow> speaks_ok (safe_stop s)"
  using speaks_resolve [of s _ "''CANCELLED''" "close_open s"] speaks_frame [of "s\<lparr>driving := False, latched := True\<rparr>" s]
  by (simp add: safe_stop_def cancel_commutes)
    (auto simp: cancelOpenProposal_def speaks_frame [of "_\<lparr>driving := False, latched := True\<rparr>"] split: option.split)

lemma speaks_command: "speaks_ok s \<Longrightarrow> speaks_ok (demo_command path body s)"
  by (simp add: demo_command_def speaks_safe_stop speaks_frame [of "_\<lparr>latched := _\<rparr>" s]
      speaks_frame [of "_\<lparr>driving := _\<rparr>" s] speaks_frame [of "_\<lparr>reversing := _, driving := _\<rparr>" s]
      speaks_frame [of "_\<lparr>reversing := _\<rparr>" s] Let_def)

lemma speaks_step:
  assumes "speaks_ok s" "\<And>n. uuid_format (ids n)"
  shows "speaks_ok (demo_step ids e s)"
proof (cases e)
  case (Wait d)
  with assms show ?thesis by (simp add: speaks_ok_def split: option.splits)
qed (use assms in \<open>simp_all add: speaks_motion speaks_tick speaks_decide speaks_command\<close>)

lemma speaks_run:
  assumes "\<And>n. uuid_format (ids n)"
  shows "speaks_ok s \<Longrightarrow> speaks_ok (demo_run ids evs s)"
  unfolding demo_run_def by (induction evs arbitrary: s) (simp_all add: speaks_step assms)

text \<open>Numbers in a range of whole numbers stay there.\<close>

lemma rounds_Min: "rounds num \<Longrightarrow> of_int n \<le> r \<Longrightarrow> \<bar>n\<bar> \<le> 2 ^ 53 \<Longrightarrow> dec_le (dec_of_int n) (num r)"
  by (simp add: rounds_def)

lemma rounds_Max: "rounds num \<Longrightarrow> r \<le> of_int n \<Longrightarrow> \<bar>n\<bar> \<le> 2 ^ 53 \<Longrightarrow> dec_le (num r) (dec_of_int n)"
  by (simp add: rounds_def)

lemma status_valid:
  assumes "zod P" "out_ok (OnStatus u)"
  shows "P ManeuverProposalStatusUpdateSchema (status_json u) \<noteq> None"
  using assms(2)
  by (cases "su_selectedOptionId u")
    (simp_all add: status_json_def out_ok_def schema_defs zod.parse_object [OF assms(1)] zod.parse_string [OF assms(1)]
      zod.parse_number [OF assms(1)] zod.parse_enum [OF assms(1)] zod.parse_optional [OF assms(1)])

lemma parse_all_map: "(\<And>x. x \<in> set xs \<Longrightarrow> p (f x) \<noteq> None) \<Longrightarrow> parse_all p (map f xs) \<noteq> None"
  by (induction xs) (auto split: option.split)

lemma option_valid:
  assumes "zod P"
  shows "P ManeuverOptionSchema (option_json o3) \<noteq> None"
  by (cases o3) (simp add: option_json_def schema_defs zod.parse_object [OF assms] zod.parse_string [OF assms])

lemma proposal_valid:
  assumes "zod P" "out_ok (OnProposal p)"
  shows "P ManeuverProposalSchema (proposal_json p) \<noteq> None"
proof -
  have s: "parse_all (P (ZString [])) (map JStr xs) \<noteq> None" for xs
    by (rule parse_all_map) (simp add: zod.parse_string [OF assms(1)])
  have o: "parse_all (P ManeuverOptionSchema) (map option_json xs) \<noteq> None" for xs
    by (rule parse_all_map) (rule option_valid [OF assms(1)])
  obtain ss os where "parse_all (P (ZString [])) (map JStr (dp_sensorRefs p)) = Some ss"
      "parse_all (P ManeuverOptionSchema) (map option_json (dp_options p)) = Some os"
    using s o by blast
  then show ?thesis
    using assms(2) unfolding ManeuverProposalSchema_def
    by (cases "dp_options p")
      (simp_all add: proposal_json_def out_ok_def len_ok_def zod.parse_object [OF assms(1)] zod.parse_string [OF assms(1)]
        zod.parse_number [OF assms(1)] zod.parse_array [OF assms(1)])
qed

text \<open>The ranges the schema asks of a sample.\<close>

definition sample_ok :: "DemoTelemetry \<Rightarrow> bool" where
  "sample_ok p = (t_vehicleId p \<noteq> [] \<and> 0 < t_timestamp p \<and> 0 \<le> t_speedKmh p \<and> t_speedKmh p \<le> 200 \<and>
     - 90 \<le> t_lat p \<and> t_lat p \<le> 90 \<and> - 180 \<le> t_lng p \<and> t_lng p \<le> 180 \<and>
     0 \<le> fst (t_battery p) \<and> fst (t_battery p) \<le> 100 \<and> 0 \<le> t_cpuPercent p \<and> t_cpuPercent p \<le> 100 \<and>
     List.member [''IDLE'', ''REMOTE_DRIVE'', ''SAFE_STOPPED''] (t_vehicleState p) \<and>
     List.member [''MODE1'', ''MODE2''] (t_mode p) \<and> t_currentZone p = ''depot'')"

lemma build_sample_ok:
  assumes "demo_ok s" "speaks_ok s" "demo_vehicle s \<noteq> []"
  shows "sample_ok (build s)"
proof -
  have "0 \<le> battery s" "battery s \<le> 874 / 10" "0 < demo_clock s" using assms by (simp_all add: demo_ok_def speaks_ok_def)
  with demo_ok_yard [OF assms(1)] assms(3) show ?thesis
    by (simp add: sample_ok_def build_def Let_def yard_ok_def CRUISE_KMH_def)
qed

lemma sensors_valid:
  assumes "zod P"
  shows "parse_all (P SensorStatusSchema) (map sensor_json [(''cam-front'', ''CAMERA''), (''cam-rear'', ''CAMERA''),
    (''lidar-top'', ''LIDAR''), (''us-left'', ''ULTRASONIC'')]) \<noteq> None"
  by (simp add: sensor_json_def SensorStatusSchema_def zod.parse_object [OF assms] zod.parse_string [OF assms]
      zod.parse_enum [OF assms])

lemma sample_valid:
  assumes "zod P" "rounds num" "sample_ok p"
  shows "P TelemetryPayloadSchema (telemetry_json num p) \<noteq> None"
proof -
  note z = zod.parse_object [OF assms(1)] zod.parse_string [OF assms(1)] zod.parse_number [OF assms(1)]
    zod.parse_array [OF assms(1)] zod.parse_enum [OF assms(1)] zod.parse_optional [OF assms(1)]
  obtain pc v a t where b: "t_battery p = (pc, v, a, t)" by (cases "t_battery p")
  obtain ss where ss: "parse_all (P SensorStatusSchema) (map sensor_json [(''cam-front'', ''CAMERA''), (''cam-rear'', ''CAMERA''),
      (''lidar-top'', ''LIDAR''), (''us-left'', ''ULTRASONIC'')]) = Some ss"
    using sensors_valid [OF assms(1)] by blast
  note r = rounds_Min [OF assms(2)] and R = rounds_Max [OF assms(2)]
  have n: "dec_le (dec_of_int 0) (num (t_speedKmh p))" "dec_le (num (t_speedKmh p)) (dec_of_int 200)"
      "dec_le (dec_of_int (- 90)) (num (t_lat p))" "dec_le (num (t_lat p)) (dec_of_int 90)"
      "dec_le (dec_of_int (- 180)) (num (t_lng p))" "dec_le (num (t_lng p)) (dec_of_int 180)"
      "dec_le (dec_of_int 0) (num pc)" "dec_le (num pc) (dec_of_int 100)"
    using assms(3) r [of 0] r [of "- 90"] r [of "- 180"] R [of _ 200] R [of _ 90] R [of _ 180] R [of _ 100]
    by (simp_all add: sample_ok_def b)
  have "P LocationSchema (JObj [(''lat'', JNum (num (t_lat p))), (''lng'', JNum (num (t_lng p)))]) \<noteq> None"
    using n by (simp add: LocationSchema_def z)
  moreover have "P BatteryTelemetrySchema (JObj [(''percent'', JNum (num pc)), (''voltageV'', JNum (num v)),
      (''currentA'', JNum (num a)), (''temperatureC'', JNum (num t))]) \<noteq> None"
    using n by (simp add: BatteryTelemetrySchema_def z)
  moreover have "P MotorTelemetrySchema (JObj [(''rpm'', JInt (fst (t_motor p))), (''temperatureC'', JInt (snd (t_motor p)))]) \<noteq> None"
    by (simp add: MotorTelemetrySchema_def z)
  moreover have "P ComputeHealthSchema (JObj [(''cpuPercent'', JInt (t_cpuPercent p)), (''ramPercent'', JInt 38),
      (''temperatureC'', JInt 52)]) \<noteq> None"
    using assms(3) by (simp add: ComputeHealthSchema_def z sample_ok_def)
  moreover have "P ConnectionQualitySchema (JObj [(''rttMs'', JInt 38), (''packetLossPercent'', JInt 0), (''carrier'', JStr ''Demo''),
      (''band'', JStr ''n/a'')]) \<noteq> None"
    by (simp add: ConnectionQualitySchema_def z)
  moreover have "P VehicleStateSchema (JStr (t_vehicleState p)) \<noteq> None" "P OperationModeSchema (JStr (t_mode p)) \<noteq> None"
      "P ZoneTypeSchema (JStr (t_currentZone p)) \<noteq> None"
    using assms(3) by (auto simp: VehicleStateSchema_def OperationModeSchema_def ZoneTypeSchema_def z sample_ok_def)
  moreover have "1 \<le> length (t_vehicleId p)" "0 < t_timestamp p" using assms(3) by (simp_all add: sample_ok_def Suc_le_eq)
  ultimately show ?thesis
    using n(1,2) ss unfolding TelemetryPayloadSchema_def telemetry_json_def b
    by (clarsimp simp: z len_ok_def simp del: list.map)
qed

lemma vehicle_frame:
  "demo_vehicle (emitStatus p st i s) = demo_vehicle s" "demo_vehicle (close_open s) = demo_vehicle s"
  "demo_vehicle (applyOutcome a r s) = demo_vehicle s"
  by (simp_all add: emitStatus_def close_open_def applyOutcome_def)

lemma demo_vehicle_step: "demo_vehicle (demo_step ids e s) = demo_vehicle s"
proof (cases e)
  case (Command path body)
  then show ?thesis
    by (simp add: demo_command_def safe_stop_def cancelOpenProposal_def vehicle_frame Let_def split: option.split)
qed (simp_all add: motion_tick_def proposal_tick_def decideProposal_def vehicle_frame Let_def
    split: option.split sum.split prod.split)

lemma demo_vehicle_run: "demo_vehicle (demo_run ids evs s) = demo_vehicle s"
  unfolding demo_run_def by (induction evs arbitrary: s) (simp_all add: demo_vehicle_step)

text \<open>C34: The demonstration speaks_ok the language of the platform: after any run of ticks, commands, decisions and
  waiting, every proposal and every status the simulated vehicle has published, and the sample it
  publishes at that moment, are documents that the contract's schemas accept, whatever numbers the
  rounding makes of its positions.\<close>

theorem demo_speaks_the_contract:
  assumes "zod P" "rounds num" "\<And>n. uuid_format (ids n)" "v \<noteq> []" "0 < t"
  shows "let s = demo_run ids evs (mounted v on t) in
    list_all (published P) (emitted s) \<and> P TelemetryPayloadSchema (telemetry_json num (build s)) \<noteq> None"
proof -
  let ?s = "demo_run ids evs (mounted v on t)"
  have "speaks_ok (mounted v on t)" using assms(5) by (simp add: speaks_ok_def mounted_def)
  then have sp: "speaks_ok ?s" using speaks_run assms(3) by blast
  have "published P m" if "out_ok m" for m
    using that proposal_valid [OF assms(1)] status_valid [OF assms(1)] by (cases m) (simp_all add: published_def)
  then have "list_all (published P) (emitted ?s)"
    using sp unfolding speaks_ok_def by (simp add: list_all_iff)
  moreover have "demo_vehicle ?s \<noteq> []" using assms(4) by (simp add: demo_vehicle_run mounted_def)
  ultimately show ?thesis
    using sample_valid [OF assms(1,2) build_sample_ok [OF demo_ok_run [OF demo_ok_mounted] sp]] by (simp add: Let_def)
qed

lemma floor_rounds: "rounds (\<lambda>r. dec_of_int \<lfloor>r\<rfloor>)"
  by (simp add: rounds_def le_floor_iff floor_le_iff)

text \<open>A first proposal, after twelve seconds.\<close>

theorem demo_speaks_the_contract_witness:
  "let s = demo_run (\<lambda>n. uuid_fallback (replicate 31 n)) [Wait 12000, ProposalTick] (mounted ''VEH-001'' True 1000) in
     length (emitted s) = 2 \<and> list_all (published zod_eval) (emitted s) \<and>
     zod_eval TelemetryPayloadSchema (telemetry_json (\<lambda>r. dec_of_int \<lfloor>r\<rfloor>) (build s)) \<noteq> None"
proof -
  let ?ids = "\<lambda>n. uuid_fallback (replicate 31 n)" and ?evs = "[Wait 12000, ProposalTick]"
  have i: "uuid_format (?ids n)" for n using fallback_ids_are_valid [of "replicate 31 n"] by simp
  have "length (emitted (demo_run ?ids ?evs (mounted ''VEH-001'' True 1000))) = 2"
    by (simp add: demo_run_def mounted_def proposal_tick_def FIRST_PROPOSAL_MS_def emitStatus_def Let_def)
  then show ?thesis
    using demo_speaks_the_contract [OF zod_eval.zod_axioms floor_rounds i,
        where v = "''VEH-001''" and t = 1000 and evs = ?evs and on = True] by (simp add: Let_def)
qed

end
