(* ===== verification/Display.thy ===== *)
theory Display
  imports Console_Pages Live_Events Cloud_Link Demo_Messages
begin

text \<open>
  What a session shows of the vehicle: the state of the connection and the last sample
  (\<open>context/SessionContext.tsx\<close>), the label of the sidebar (\<open>components/layout/Sidebar.tsx\<close>), the marker and the
  zone on the map (\<open>VehicleMap.tsx\<close>), and badges and figures of the pages (\<open>pages/Vehicles.tsx\<close>,
  \<open>pages/MapDispatch.tsx\<close>, \<open>pages/Dashboard.tsx\<close>). A dash stands for the long dash of the pages.
\<close>

section \<open>Connection and samples\<close>

datatype ConnState = ConnConnecting | Connected | Disconnected

record display =
  connection :: ConnState
  telemetry :: "json option"

definition display_start :: display where
  "display_start = \<lparr>connection = ConnConnecting, telemetry = None\<rparr>"

datatype display_event =
    CloudStateChanged CloudState
  | CloudSample json
  | SocketUp
  | SocketDown
  | SocketFailed
  | SocketEvent "string \<times> json"
  | DemoSample json

definition cloud_connection :: "CloudState \<Rightarrow> ConnState" where
  "cloud_connection c = (if c = Live then Connected else if c = Connecting then ConnConnecting else Disconnected)"

text \<open>Each source feeds the sessions of its own mode only; \<open>cfg\<close> is whether the cloud is configured.\<close>

fun display_step :: "AppMode \<Rightarrow> bool \<Rightarrow> display_event \<Rightarrow> display \<Rightarrow> display" where
  "display_step m cfg (CloudStateChanged c) d =
    (if m \<noteq> OperatorMode \<or> \<not> cfg then d else d\<lparr>connection := cloud_connection c\<rparr>)"
| "display_step m cfg (CloudSample p) d = (if m \<noteq> OperatorMode \<or> \<not> cfg then d else d\<lparr>telemetry := Some p\<rparr>)"
| "display_step m cfg SocketUp d = (if m \<noteq> LocalMode then d else d\<lparr>connection := Connected\<rparr>)"
| "display_step m cfg SocketDown d = (if m \<noteq> LocalMode then d else d\<lparr>connection := Disconnected\<rparr>)"
| "display_step m cfg SocketFailed d = (if m \<noteq> LocalMode then d else d\<lparr>connection := Disconnected\<rparr>)"
| "display_step m cfg (SocketEvent e) d = d\<lparr>telemetry := on_telemetry_socket m e (telemetry d)\<rparr>"
| "display_step m cfg (DemoSample p) d =
    (if m \<noteq> DemoMode then d else d\<lparr>connection := Connected, telemetry := Some p\<rparr>)"

definition display_run :: "AppMode \<Rightarrow> bool \<Rightarrow> display_event list \<Rightarrow> display" where
  "display_run m cfg evs = fold (display_step m cfg) evs display_start"

definition shown_field :: "string \<Rightarrow> display \<Rightarrow> json" where
  "shown_field k d = (case telemetry d of None \<Rightarrow> JUndef | Some t \<Rightarrow> get_field t k)"

definition isLatched :: "display \<Rightarrow> bool" where
  "isLatched d = (shown_field ''vehicleState'' d = JStr ''SAFE_STOPPED'')"

text \<open>The zone by which the pages gate the driving controls.\<close>

definition shown_zone :: "display \<Rightarrow> string option" where
  "shown_zone d = str_opt (shown_field ''currentZone'' d)"

section \<open>The sidebar\<close>

definition connLabel :: "AppMode \<Rightarrow> ConnState \<Rightarrow> string" where
  "connLabel m c =
    (if c = ConnConnecting then ''Connecting...''
     else if c = Disconnected then ''Offline''
     else if m = DemoMode then ''Simulated telemetry''
     else ''Live telemetry'')"

definition online :: "ConnState \<Rightarrow> bool" where
  "online c = (c = Connected)"

section \<open>The map\<close>

record zone_box =
  minLat :: rat
  maxLat :: rat
  minLng :: rat
  maxLng :: rat

definition APPROVED_ZONE :: zone_box where
  "APPROVED_ZONE = \<lparr>minLat = 473700 / 10000, maxLat = 473800 / 10000, minLng = 85300 / 10000, maxLng = 85500 / 10000\<rparr>"

text \<open>The ring that is drawn, as points of longitude and latitude.\<close>

definition zone_ring :: "zone_box \<Rightarrow> (rat \<times> rat) list" where
  "zone_ring z = [(minLng z, minLat z), (maxLng z, minLat z), (maxLng z, maxLat z), (minLng z, maxLat z), (minLng z, minLat z)]"

definition in_zone :: "zone_box \<Rightarrow> rat \<times> rat \<Rightarrow> bool" where
  "in_zone z p = (minLng z \<le> fst p \<and> fst p \<le> maxLng z \<and> minLat z \<le> snd p \<and> snd p \<le> maxLat z)"

record map_view =
  map_center :: "rat \<times> rat"
  marker :: "rat \<times> rat"
  marker_red :: "bool option"

text \<open>The map is made once, at the position of that moment, and follows every change after it.\<close>

definition map_update :: "rat \<Rightarrow> rat \<Rightarrow> string \<Rightarrow> map_view option \<Rightarrow> map_view option" where
  "map_update lat lng vehicleState v =
    (case v of
       None \<Rightarrow> None
     | Some m \<Rightarrow> Some (m\<lparr>marker := (lng, lat), marker_red := Some (vehicleState = ''SAFE_STOPPED''), map_center := (lng, lat)\<rparr>))"

definition map_mount :: "rat \<Rightarrow> rat \<Rightarrow> map_view option \<Rightarrow> map_view option" where
  "map_mount lat lng v =
    (case v of Some m \<Rightarrow> Some m | None \<Rightarrow> Some \<lparr>map_center = (lng, lat), marker = (lng, lat), marker_red = None\<rparr>)"

definition map_render :: "rat \<Rightarrow> rat \<Rightarrow> string \<Rightarrow> map_view option \<Rightarrow> map_view option" where
  "map_render lat lng st v = map_update lat lng st (map_mount lat lng v)"

section \<open>Badges and figures\<close>

definition number :: "json \<Rightarrow> rat" where
  "number v = (case v of JNum d \<Rightarrow> dec_rat d | _ \<Rightarrow> 0)"

definition figure :: "nat \<Rightarrow> json \<Rightarrow> string" where
  "figure f v = to_fixed f (number v)"

text \<open>The badge of the vehicle's state: on the pages of vehicles and map a latch decides, on the
  dashboard the state alone.\<close>

definition state_badge :: "display \<Rightarrow> BadgeTone \<times> string" where
  "state_badge d =
    (let st = str_opt (shown_field ''vehicleState'' d) in (if isLatched d then danger else vehicleStateTone st, nullish st ''-''))"

definition dashboard_badge :: "display \<Rightarrow> BadgeTone \<times> string" where
  "dashboard_badge d = (let st = str_opt (shown_field ''vehicleState'' d) in (vehicleStateTone st, nullish st ''N/A''))"

definition vehicle_row :: "display \<Rightarrow> string list" where
  "vehicle_row d =
    (case telemetry d of
       None \<Rightarrow> [''-'', ''-'', ''-'', ''-'']
     | Some t \<Rightarrow>
         [figure 1 (get_field (get_field t ''battery'') ''percent'') @ ''%'', nullish (str_opt (get_field t ''currentZone'')) ''-'',
          figure 1 (get_field t ''speedKmh'') @ '' km/h'',
          figure 5 (get_field (get_field t ''location'') ''lat'') @ '', '' @ figure 5 (get_field (get_field t ''location'') ''lng'')])"

definition sensor_badge :: "json \<Rightarrow> BadgeTone \<times> string" where
  "sensor_badge s =
    (let st = str_field s ''status'' in (if st = ''OK'' then success else if st = ''DEGRADED'' then warning else danger, st))"

definition load_tone :: "json \<Rightarrow> BadgeTone" where
  "load_tone v = (if 80 < number v then danger else info)"

definition connection_badge :: "ConnState \<Rightarrow> BadgeTone" where
  "connection_badge c = (if c = Connected then success else danger)"

definition operator_shown :: "console \<Rightarrow> string" where
  "operator_shown s = (if hasControl s then operatorId s else ''None'')"

section \<open>What the display says is so\<close>

text \<open>The last state of the cloud's link, and the last word of the socket.\<close>

fun cloud_news :: "display_event \<Rightarrow> CloudState option" where
  "cloud_news (CloudStateChanged c) = Some c"
| "cloud_news e = None"

fun socket_news :: "display_event \<Rightarrow> bool option" where
  "socket_news SocketUp = Some True"
| "socket_news SocketDown = Some False"
| "socket_news SocketFailed = Some False"
| "socket_news e = None"

definition latest :: "('a \<Rightarrow> 'b option) \<Rightarrow> 'a list \<Rightarrow> 'b option" where
  "latest f evs = fold (\<lambda>e x. if f e = None then x else f e) evs None"

lemma latest_snoc [simp]: "latest f (evs @ [e]) = (if f e = None then latest f evs else f e)"
  by (simp add: latest_def)

lemma run_snoc [simp]: "display_run m cfg (evs @ [e]) = display_step m cfg e (display_run m cfg evs)"
  by (simp add: display_run_def)

lemma cloud_connected: "cloud_connection c = Connected \<longleftrightarrow> c = Live"
  by (simp add: cloud_connection_def)

lemma live_label: "connLabel m c = ''Live telemetry'' \<longleftrightarrow> c = Connected \<and> m \<noteq> DemoMode"
  by (cases c) (simp_all add: connLabel_def)

text \<open>The console never vouches for invented numbers: \<open>Live telemetry\<close> is shown to an operator exactly while the
  last state of the link was live, in a local session exactly while the last word of the socket
  was that it is connected, and in a demonstration never.\<close>

theorem live_label_is_honest:
  "connLabel m (connection (display_run m cfg evs)) = ''Live telemetry'' \<longleftrightarrow>
    (case m of
       OperatorMode \<Rightarrow> cfg \<and> latest cloud_news evs = Some Live
     | LocalMode \<Rightarrow> latest socket_news evs = Some True
     | DemoMode \<Rightarrow> False)"
proof (induction evs rule: rev_induct)
  case Nil
  show ?case by (simp add: live_label display_run_def display_start_def latest_def split: AppMode.split)
next
  case (snoc e evs)
  then show ?case
    by (cases e; cases m; cases cfg) (simp_all add: live_label cloud_connected)
qed

text \<open>What is lost is not blanked: when the link goes down, the last sample stays on the pages, whatever its age,
  and with it the zone that shows the driving controls.\<close>

theorem last_sample_stays:
  "shown_zone (display_step OperatorMode True (CloudStateChanged LinkError) d) = shown_zone d"
  "shown_zone (display_step LocalMode cfg SocketDown d) = shown_zone d"
  "operations_page (shown_zone (display_step LocalMode cfg SocketDown d)) s = operations_page (shown_zone d) s"
  by (simp_all add: shown_zone_def shown_field_def)

text \<open>The pages agree on the state of the vehicle.\<close>

theorem state_badges_agree: "fst (state_badge d) = fst (dashboard_badge d)"
  by (simp add: state_badge_def dashboard_badge_def isLatched_def vehicleStateTone_def str_opt_def Let_def)

section \<open>The demonstration on the screen\<close>

lemma demo_sample_fields:
  "get_field (telemetry_json num (build s)) ''vehicleState'' = JStr (t_vehicleState (build s))"
  "get_field (telemetry_json num (build s)) ''currentZone'' = JStr ''depot''"
  by (simp_all add: telemetry_json_def get_field_def) (simp add: build_def Let_def)

lemma demo_latched: "t_vehicleState (build s) = ''SAFE_STOPPED'' \<longleftrightarrow> latched s"
  by (simp add: build_def Let_def)

text \<open>In a demonstration the button that clears the latch is shown to a visitor in control exactly while the
  simulated vehicle is latched, and pressing it releases the latch.\<close>

theorem clear_button_clears_latch:
  assumes "mode s = DemoMode" "hasControl s"
    and "d' = display_step DemoMode cfg (DemoSample (telemetry_json num (build (demo_car s)))) d"
  shows "(\<exists>c \<in> set (overlays (isLatched d') s). pressed c = Session (Post ''clear-safe-stop'' (JObj [])) \<and> \<not> disabled c) \<longleftrightarrow>
      latched (demo_car s)"
    and "pressed c = Session (Post ''clear-safe-stop'' (JObj [])) \<Longrightarrow> \<not> disabled c \<Longrightarrow> \<not> latched (demo_car (press ids c s))"
proof -
  have l: "isLatched d' = latched (demo_car s)"
    using assms(3) by (simp add: isLatched_def shown_field_def demo_sample_fields demo_latched)
  have o: "pressed p \<noteq> Session (Post path b)" if "p \<in> set (option_controls s q)" for p q path b
    using that by (auto simp: option_controls_def decide_event_def)
  show "(\<exists>c \<in> set (overlays (isLatched d') s). pressed c = Session (Post ''clear-safe-stop'' (JObj [])) \<and> \<not> disabled c) \<longleftrightarrow>
      latched (demo_car s)"
    using assms(2) o unfolding l overlays_def by (auto split: option.split)
  have "demo_car (fold show_out xs x) = demo_car x" for xs and x :: console
    by (induction xs arbitrary: x)
      (simp_all add: show_out_def handleProposal_console_def handleProposalStatus_def Let_def split: demo_out.split)
  moreover have "truthy_str (tok s)" using assms(2) by (simp add: hasControl_def)
  ultimately show "pressed c = Session (Post ''clear-safe-stop'' (JObj [])) \<Longrightarrow> \<not> disabled c \<Longrightarrow> \<not> latched (demo_car (press ids c s))"
    using assms(1) by (simp add: press_def cmdPost_def drive_demo_def demo_command_def Let_def)
qed

text \<open>The zone on the map is a constant, and the demonstration never comes near it: the vehicle that reports to be
  in a depot is drawn outside of the only zone there is, in every state it can reach.\<close>

theorem demo_outside_drawn_zone:
  assumes "s = demo_run ids evs (mounted v on t)"
    and "map_render (t_lat (build s)) (t_lng (build s)) (t_vehicleState (build s)) old = Some m"
  shows "marker m = position s \<and> map_center m = position s \<and> marker_red m = Some (latched s) \<and> \<not> in_zone APPROVED_ZONE (marker m)"
proof -
  have "demo_ok s" unfolding assms(1) by (rule demo_ok_run [OF demo_ok_mounted])
  from demo_ok_yard [OF this] have "maxLat APPROVED_ZONE < snd (position s)"
    by (simp add: yard_ok_def APPROVED_ZONE_def)
  then show ?thesis
    using assms(2) demo_latched [of s]
    by (cases old) (auto simp: map_render_def map_mount_def map_update_def in_zone_def build_def Let_def)
qed

end
