(* ===== verification/Demo_Session.thy ===== *)
theory Demo_Session
  imports Console Simulator_Safety
begin

text \<open>
  A demonstration session as a whole: the session of the console (\<open>Console\<close>) around the simulated vehicle
  (\<open>Simulator\<close>). The console learns of proposals only by the messages the vehicle publishes; here what
  it shows is compared with what the vehicle has open.
\<close>

section \<open>The card and the proposal\<close>

text \<open>The card that the console makes of a proposal.\<close>

definition card_for :: "DemoProposal \<Rightarrow> card" where
  "card_for p = \<lparr>card_id = dp_proposalId p, card_window = dp_validityWindowMs p,
     card_options = map (\<lambda>(i, d, _). (i, d)) (dp_options p)\<rparr>"

definition mirrors :: "console \<Rightarrow> bool" where
  "mirrors s = (activeProposal s = activeProposalRef s \<and>
     activeProposalRef s = map_option (\<lambda>p. card_for (pp_proposal p)) (pending (demo_car s)) \<and>
     (case pending (demo_car s) of None \<Rightarrow> \<not> countdown s | Some p \<Rightarrow> proposalDeadline s = deadline p))"

text \<open>What a step of the vehicle adds to its messages.\<close>

definition new_messages :: "demo \<Rightarrow> demo \<Rightarrow> demo_out list" where
  "new_messages d d' = drop (length (emitted d)) (emitted d')"

lemma shown_outcome:
  assumes "emitted d' = emitted d @ [OnStatus u]" "List.member [''DECIDED'', ''TIMED_OUT'', ''CANCELLED''] (su_status u)"
    "pending d' = None"
  shows "mirrors (fold show_out (new_messages d d') (s\<lparr>demo_car := d'\<rparr>))"
  using assms by (simp add: new_messages_def show_out_def handleProposalStatus_def mirrors_def Let_def)

lemma shown_proposal:
  assumes "emitted d' = emitted d @ [OnProposal p, OnStatus u]" "su_status u = ''PENDING''"
    "pending d' = Some q" "pp_proposal q = p" "deadline q = demo_clock d' + dp_validityWindowMs p"
  shows "mirrors (fold show_out (new_messages d d') (s\<lparr>demo_car := d'\<rparr>))"
  using assms
  by (simp add: new_messages_def show_out_def handleProposalStatus_def handleProposal_console_def mirrors_def card_for_def)

lemma shown_nothing:
  assumes "emitted d' = emitted (demo_car s)" "pending d' = pending (demo_car s)" "mirrors s"
  shows "mirrors (fold show_out (new_messages (demo_car s) d') (s\<lparr>demo_car := d'\<rparr>))"
  using assms by (simp add: new_messages_def mirrors_def split: option.splits)

lemma drive_demo_eq: "drive_demo ids e s =
    (let d' = demo_step ids e (demo_car s) in fold show_out (new_messages (demo_car s) d') (s\<lparr>demo_car := d'\<rparr>))"
  by (simp add: drive_demo_def new_messages_def)

text \<open>A step either leaves the open proposal and is silent, or opens one, or closes it, and says so.\<close>

definition silent :: "demo \<Rightarrow> demo \<Rightarrow> bool" where
  "silent d d' = (emitted d' = emitted d \<and> pending d' = pending d)"

definition opens :: "(nat \<Rightarrow> string) \<Rightarrow> demo \<Rightarrow> demo \<Rightarrow> bool" where
  "opens ids d d' = (\<exists>p u q. p = next_proposal ids d \<and> stopOptionId q = dp_defaultOnTimeout p \<and> emitted d' = emitted d @ [OnProposal p, OnStatus u] \<and> su_status u = ''PENDING'' \<and>
     pending d' = Some q \<and> pp_proposal q = p \<and> deadline q = demo_clock d' + dp_validityWindowMs p)"

definition closes :: "demo \<Rightarrow> demo \<Rightarrow> bool" where
  "closes d d' = (\<exists>u. emitted d' = emitted d @ [OnStatus u] \<and>
     List.member [''DECIDED'', ''TIMED_OUT'', ''CANCELLED''] (su_status u) \<and> pending d' = None)"

lemma silent_refl [simp]: "silent d d"
  by (simp add: silent_def)

lemmas closing_defs = closes_def emitStatus_def close_open_def applyOutcome_def

lemma step_kind: "silent d (demo_step ids e d) \<or> opens ids d (demo_step ids e d) \<or> closes d (demo_step ids e d)"
proof (cases e)
  case MotionTick
  then show ?thesis by (simp add: motion_tick_def silent_def Let_def split: prod.split)
next
  case ProposalTick
  have "opens ids d (emitStatus p ''PENDING'' None (d\<lparr>scenarioIdx := Suc (scenarioIdx d), demo_ids := Suc (demo_ids d),
      pending := Some \<lparr>pp_proposal = p, deadline = demo_clock d + PROPOSAL_WINDOW_MS, stopOptionId = dp_defaultOnTimeout p\<rparr>,
      emitted := emitted d @ [OnProposal p]\<rparr>))" if "p = next_proposal ids d" for p
    using that by (simp add: opens_def emitStatus_def next_proposal_def Let_def)
  moreover have "closes d (emitStatus p ''TIMED_OUT'' o' (applyOutcome i r (close_open d)))" for p o' i r
    by (simp add: closing_defs)
  ultimately show ?thesis
    by (cases "pending d") (simp_all add: ProposalTick proposal_tick_def Let_def)
next
  case (Decide c i)
  have "closes d (emitStatus p ''DECIDED'' o' (applyOutcome j r (close_open d)))" for p o' j r
    by (simp add: closing_defs)
  then show ?thesis by (simp add: Decide decideProposal_def split: option.split sum.split)
next
  case (Command path body)
  have "silent d (safe_stop d) \<or> closes d (safe_stop d)"
    by (cases "pending d") (simp_all add: safe_stop_def cancelOpenProposal_def closing_defs silent_def)
  moreover have "demo_step ids e d = safe_stop d \<or> silent d (demo_step ids e d)"
    by (simp add: Command demo_command_def silent_def Let_def)
  ultimately show ?thesis by auto
next
  case (Wait n)
  then show ?thesis by (simp add: silent_def)
qed

lemma mirrors_drive: "mirrors s \<Longrightarrow> mirrors (drive_demo ids e s)"
  using step_kind [of "demo_car s" ids e] shown_nothing [of "demo_step ids e (demo_car s)" s]
    shown_proposal [of "demo_step ids e (demo_car s)" "demo_car s"] shown_outcome [of "demo_step ids e (demo_car s)" "demo_car s"]
  unfolding drive_demo_eq Let_def silent_def opens_def closes_def by blast

section \<open>The whole session\<close>

text \<open>In a demonstration messages come from the simulated vehicle only.\<close>

fun own_event :: "console_event \<Rightarrow> bool" where
  "own_event (Proposal p) = False"
| "own_event (Status u) = False"
| "own_event e = True"

text \<open>What a step of a demonstration is to the vehicle.\<close>

definition untouched :: "console \<Rightarrow> console \<Rightarrow> bool" where
  "untouched s s' = (mode s' = mode s \<and> demo_car s' = demo_car s \<and> activeProposal s' = activeProposal s \<and>
     activeProposalRef s' = activeProposalRef s \<and> proposalDeadline s' = proposalDeadline s \<and> (countdown s' \<longrightarrow> countdown s))"

lemma untouched_refl [simp]: "untouched s s"
  by (simp add: untouched_def)

lemma untouched_mirrors: "untouched s s' \<Longrightarrow> mirrors s \<Longrightarrow> mirrors s'"
  by (auto simp: untouched_def mirrors_def split: option.splits)

lemma untouched_send: "untouched s (send url body w s)"
  by (simp add: send_def untouched_def)

lemma untouched_answer: "untouched s (on_answer w a s)"
  by (cases w) (auto simp: untouched_def set_status_def fleet_send_def send_def Let_def split: answer.split option.split)

lemma untouched_reply: "untouched s (reply i a s)"
  using untouched_answer [of "s\<lparr>inflight := take i (inflight s) @ drop (Suc i) (inflight s)\<rparr>" "inflight s ! i" a]
  by (simp add: reply_def untouched_def)

lemma untouched_others:
  "untouched s (countdown_tick s)" "untouched s (result_timer s)" "untouched s (dismissMission s)" "untouched s (sign_in t u s)"
  by (simp_all add: countdown_tick_def result_timer_def dismissMission_def sign_in_def untouched_def Let_def)

lemma show_out_mode: "mode (show_out x s) = mode s"
  by (simp add: show_out_def handleProposal_console_def handleProposalStatus_def Let_def split: demo_out.split)

lemma drive_demo_frame:
  "mode (drive_demo ids e s) = mode s" "demo_car (drive_demo ids e s) = demo_step ids e (demo_car s)"
proof -
  have "mode (fold show_out xs s) = mode s \<and> demo_car (fold show_out xs s) = demo_car s" for xs s
    by (induction xs arbitrary: s)
      (simp_all add: show_out_mode, simp add: show_out_def handleProposal_console_def handleProposalStatus_def Let_def split: demo_out.split)
  then show "mode (drive_demo ids e s) = mode s" "demo_car (drive_demo ids e s) = demo_step ids e (demo_car s)"
    by (simp_all add: drive_demo_def Let_def)
qed

definition quiet_or_driven :: "(nat \<Rightarrow> string) \<Rightarrow> console \<Rightarrow> console \<Rightarrow> bool" where
  "quiet_or_driven ids s s' = (untouched s s' \<or> (\<exists>v. s' = drive_demo ids v s))"

lemma quiet_or_drivenI [simp]:
  "quiet_or_driven ids s s" "quiet_or_driven ids s (drive_demo ids v s)" "untouched s s' \<Longrightarrow> quiet_or_driven ids s s'"
  by (auto simp: quiet_or_driven_def)

lemma demo_ops:
  assumes "mode s = DemoMode"
  shows "cmdPost ids path body s = (if truthy_str (tok s) then drive_demo ids (Command path body) s else s)"
    and "decideManeuver ids d i s = (if truthy_str (tok s) then drive_demo ids (Decide d i) s else s)"
    and "fleetPost p b w s = s" "heartbeat_tick s = s" "takeControl_console s = s\<lparr>tok := Some ''demo-local-session''\<rparr>"
  using assms by (simp_all add: cmdPost_def decideManeuver_def fleetPost_def heartbeat_tick_def takeControl_console_def)

lemma demo_session_step:
  assumes "mode s = DemoMode" "own_event e"
  shows "quiet_or_driven ids s (console_step ids e s)"
  using assms(2)
  by (cases e)
    (simp_all add: assms(1) demo_ops [OF assms(1)] untouched_reply untouched_others createMission_console_def setCheckItem_def
      confirmAndStart_def missionAction_def key_pressed_def split: option.split, simp add: untouched_def)

text \<open>What the simulated vehicle offers: to drive around the obstacle, or to wait, which is its safe default.\<close>

definition standard :: "PendingProposal \<Rightarrow> bool" where
  "standard p = (\<exists>rid wid. map (\<lambda>(i, d, _). (i, d)) (dp_options (pp_proposal p)) =
       [(rid, ''Reroute around obstacle''), (wid, ''Wait and retry after 60s'')] \<and>
     rid \<noteq> wid \<and> rid \<noteq> [] \<and> wid \<noteq> [] \<and> dp_defaultOnTimeout (pp_proposal p) = wid \<and> stopOptionId p = wid)"

lemma next_proposal_standard:
  "pp_proposal q = next_proposal ids d \<Longrightarrow> stopOptionId q = dp_defaultOnTimeout (next_proposal ids d) \<Longrightarrow> standard q"
  by (simp add: standard_def next_proposal_def Let_def)

lemma enabled_step: "enabled (demo_step ids e d) = enabled d"
  by (cases e) (simp_all add: motion_tick_def proposal_tick_def decideProposal_def demo_command_def safe_stop_def
      cancelOpenProposal_def Let_def split: option.split sum.split prod.split)

definition demo_session :: "console \<Rightarrow> bool" where
  "demo_session s = (mode s = DemoMode \<and> mirrors s \<and> demo_ok (demo_car s) \<and> enabled (demo_car s) \<and>
     (case pending (demo_car s) of None \<Rightarrow> True | Some p \<Rightarrow> standard p))"

lemma demo_session_driven:
  assumes "demo_session s"
  shows "demo_session (drive_demo ids v s)"
proof -
  have "case pending (demo_step ids v (demo_car s)) of None \<Rightarrow> True | Some p \<Rightarrow> standard p"
    using step_kind [of "demo_car s" ids v] assms next_proposal_standard
    by (auto simp: silent_def opens_def closes_def demo_session_def)
  then show ?thesis
    using assms by (simp add: demo_session_def drive_demo_frame mirrors_drive demo_ok_step enabled_step)
qed

lemma demo_session_kept: "demo_session s \<Longrightarrow> own_event e \<Longrightarrow> demo_session (console_step ids e s)"
  using demo_session_step [of s e ids] untouched_mirrors [of s "console_step ids e s"] demo_session_driven
  by (auto simp: quiet_or_driven_def demo_session_def untouched_def)

lemma demo_session_run: "demo_session s \<Longrightarrow> list_all own_event evs \<Longrightarrow> demo_session (console_run ids evs s)"
  unfolding console_run_def by (induction evs arbitrary: s) (simp_all add: demo_session_kept)

lemma demo_session_start: "demo_session (session_start DemoMode api p t)"
  by (simp add: demo_session_def session_start_def mirrors_def demo_ok_mounted) (simp add: mounted_def)

section \<open>Decided or defaulted\<close>

lemma standard_options:
  assumes "demo_session s" "pending (demo_car s) = Some p"
  obtains a b x y where
    "card_options (card_for (pp_proposal p)) = [(a # b, ''Reroute around obstacle''), (x # y, ''Wait and retry after 60s'')]"
    "offered p = [a # b, x # y]" "a # b \<noteq> x # y" "stopOptionId p = x # y" "dp_defaultOnTimeout (pp_proposal p) = x # y"
proof -
  have "standard p" using assms by (simp add: demo_session_def)
  then obtain rid wid where o: "map (\<lambda>(i, d, _). (i, d)) (dp_options (pp_proposal p)) =
      [(rid, ''Reroute around obstacle''), (wid, ''Wait and retry after 60s'')]"
    and n: "rid \<noteq> wid" "rid \<noteq> []" "wid \<noteq> []" "dp_defaultOnTimeout (pp_proposal p) = wid" "stopOptionId p = wid"
    unfolding standard_def by (elim exE conjE)
  have "map fst (dp_options (pp_proposal p)) = map fst (map (\<lambda>(i, d, _). (i, d)) (dp_options (pp_proposal p)))"
    by (simp add: split_def comp_def)
  then have f: "offered p = [rid, wid]" by (simp add: offered_def o)
  obtain a b x y where "rid = a # b" "wid = x # y" using n(2,3) by (cases rid; cases wid) auto
  with that [of a b x y] n(1,4,5) o f show ?thesis by (simp add: card_for_def)
qed

text \<open>A resolved proposal: nothing is open, and the result is shown.\<close>

definition resolved_as :: "result \<Rightarrow> console \<Rightarrow> bool" where
  "resolved_as r s = (activeProposal s = None \<and> pending (demo_car s) = None \<and> lastProposalResult s = Some r)"

text \<open>A click on the button of an option, as the card does it.\<close>

definition option_click :: "PendingProposal \<Rightarrow> nat \<Rightarrow> console_event" where
  "option_click p n = DecideClick (if n = 0 then ''CONFIRM'' else ''SELECT_ALTERNATIVE'')
     (Some (fst (card_options (card_for (pp_proposal p)) ! n)))"

lemmas outcome_defs = resolved_as_def drive_demo_def emitStatus_def close_open_def applyOutcome_def show_out_def
  handleProposalStatus_def option_text_def Let_def

lemma click_decides:
  assumes "demo_session s" "pending (demo_car s) = Some p" "truthy_str (tok s)" "demo_clock (demo_car s) < deadline p" "n < 2"
  shows "let s' = console_step ids (option_click p n) s in
    resolved_as (Decided (if n = 0 then ''Reroute around obstacle'' else ''Wait and retry after 60s'')) s' \<and>
    (driving (demo_car s') \<longleftrightarrow> driving (demo_car s) \<and> n = 0)"
proof -
  obtain a b x y where o: "card_options (card_for (pp_proposal p)) = [(a # b, ''Reroute around obstacle''), (x # y, ''Wait and retry after 60s'')]"
    "offered p = [a # b, x # y]" "a # b \<noteq> x # y" "stopOptionId p = x # y"
    using standard_options [OF assms(1,2)] by metis
  have c: "activeProposalRef s = Some (card_for (pp_proposal p))" "mode s = DemoMode"
    using assms(1,2) by (simp_all add: demo_session_def mirrors_def)
  have "n = 0 \<or> n = 1" using assms(5) by auto
  then show ?thesis
    using assms(2-4) o(3) c
    by (elim disjE) (simp_all add: option_click_def o(1,2,4) demo_ops decideProposal_def resolve_option_def outcome_defs, auto)
qed

lemma silence_defaults:
  assumes "demo_session s" "pending (demo_car s) = Some p" "deadline p \<le> demo_clock (demo_car s)"
  shows "let s' = console_step ids (Car ProposalTick) s in
    resolved_as (TimedOut ''Wait and retry after 60s'') s' \<and> \<not> driving (demo_car s')"
proof -
  obtain a b x y where o: "card_options (card_for (pp_proposal p)) = [(a # b, ''Reroute around obstacle''), (x # y, ''Wait and retry after 60s'')]"
    "a # b \<noteq> x # y" "stopOptionId p = x # y" "dp_defaultOnTimeout (pp_proposal p) = x # y"
    using standard_options [OF assms(1,2)] by metis
  have c: "activeProposalRef s = Some (card_for (pp_proposal p))" "enabled (demo_car s)"
    using assms(1,2) by (simp_all add: demo_session_def mirrors_def)
  have "\<not> latched (demo_car s)" using assms(1,2) by (auto simp: demo_session_def demo_ok_def)
  then show ?thesis
    using assms(2,3) c o(2) by (simp add: proposal_tick_def o(1,3,4) outcome_defs, auto)
qed

text \<open>C40: In a demonstration session, whatever the visitor does and however ticks, timers and late answers fall, the
  card on the screen is the proposal the simulated vehicle has open, with its options and its deadline,
  and there is a card only then. A visitor in control who clicks an option before the deadline
  has it decided as shown: the card goes, the result names the option's description, and the vehicle
  stops for waiting and goes on as before for driving around. When the deadline passes, the
  next tick takes the safe default: the card goes and the vehicle stands.\<close>

theorem card_is_the_open_proposal:
  assumes "list_all own_event evs" "s = console_run ids evs (session_start DemoMode api p0 t)"
  shows "activeProposal s = map_option (\<lambda>p. card_for (pp_proposal p)) (pending (demo_car s)) \<and>
    (case pending (demo_car s) of
       None \<Rightarrow> True
     | Some p \<Rightarrow>
         proposalDeadline s = deadline p \<and>
         (demo_clock (demo_car s) < deadline p \<and> truthy_str (tok s) \<and> n < 2 \<longrightarrow>
           (let s' = console_step ids (option_click p n) s in
            resolved_as (Decided (if n = 0 then ''Reroute around obstacle'' else ''Wait and retry after 60s'')) s' \<and>
            (driving (demo_car s') \<longleftrightarrow> driving (demo_car s) \<and> n = 0))) \<and>
         (deadline p \<le> demo_clock (demo_car s) \<longrightarrow>
           (let s' = console_step ids (Car ProposalTick) s in
            resolved_as (TimedOut ''Wait and retry after 60s'') s' \<and> \<not> driving (demo_car s'))))"
proof -
  have ok: "demo_session s" unfolding assms(2) by (rule demo_session_run [OF demo_session_start assms(1)])
  have m: "activeProposal s = map_option (\<lambda>p. card_for (pp_proposal p)) (pending (demo_car s))"
    using ok by (simp add: demo_session_def mirrors_def)
  show ?thesis
  proof (cases "pending (demo_car s)")
    case (Some p)
    have "proposalDeadline s = deadline p" using ok Some by (simp add: demo_session_def mirrors_def)
    with m Some click_decides [OF ok Some, of n ids] silence_defaults [OF ok Some, of ids] show ?thesis
      by (simp only: option.case) blast
  qed (use m in simp)
qed

text \<open>The first proposal, in the hands of a visitor who took control.\<close>

theorem card_is_the_open_proposal_witness:
  "let s = console_run (\<lambda>_. ''12345678'') [TakeControlClick, Car (Wait 12000), Car ProposalTick] (session_start DemoMode None ''OP-1'' 1000);
       p = the (pending (demo_car s))
   in activeProposal s = Some (card_for (pp_proposal p)) \<and>
     resolved_as (Decided ''Wait and retry after 60s'') (console_step (\<lambda>_. ''12345678'') (option_click p 1) s)"
proof -
  let ?ids = "\<lambda>_. ''12345678''" and ?evs = "[TakeControlClick, Car (Wait 12000), Car ProposalTick]"
  let ?s = "console_run ?ids ?evs (session_start DemoMode None ''OP-1'' 1000)"
  obtain p where p: "pending (demo_car ?s) = Some p" "demo_clock (demo_car ?s) < deadline p" "truthy_str (tok ?s)"
    by (simp add: console_run_def session_start_def takeControl_console_def drive_demo_def mounted_def proposal_tick_def
        FIRST_PROPOSAL_MS_def PROPOSAL_WINDOW_MS_def emitStatus_def show_out_def handleProposalStatus_def
        handleProposal_console_def Let_def)
  have e: "list_all own_event ?evs" by simp
  from card_is_the_open_proposal [OF e refl, where n = 1 and ids = ?ids and api = None and ?p0.0 = "''OP-1''" and t = 1000] p
  show ?thesis by (simp add: Let_def)
qed

end
