(* ===== verification/Panels.thy ===== *)
theory Panels
  imports Driving
begin

text \<open>
  What the operator sees of the manual input: the readout of the control loop (\<open>useTeleopInput.ts\<close>) and
  the monitor of the gamepad (\<open>GamepadViz.tsx\<close>), against what the loop sends and the profile reads.
\<close>

section \<open>The readout\<close>

record TeleopLive =
  live_active :: bool
  live_steerDeg :: rat
  live_throttlePct :: int
  live_brakePct :: int
  live_direction :: Direction
  deviceReady :: bool
  live_warning :: bool

definition live_start :: TeleopLive where
  "live_start = \<lparr>live_active = False, live_steerDeg = 0, live_throttlePct = 0, live_brakePct = 0, live_direction = FORWARD,
     deviceReady = False, live_warning = False\<rparr>"

text \<open>The readout changes with the frames that may send; \<open>standard\<close> is whether the gamepad has the standard
  mapping, and the warning is the one about the switch of the device.\<close>

definition live_frame :: "rat \<Rightarrow> device \<Rightarrow> bool \<Rightarrow> loop \<Rightarrow> TeleopLive \<Rightarrow> TeleopLive" where
  "live_frame t d standard s l =
    (let c = snd (frame t d s) in
     if t - lastSendAt s < SEND_MS then l
     else \<lparr>live_active = True, live_steerDeg = round1 (steer_deg (cur c)), live_throttlePct = pct (throttle (cur c)),
       live_brakePct = pct (brake (cur c)), live_direction = dir c, deviceReady = (d \<noteq> Pad None),
       live_warning = (case d of Pad (Some _) \<Rightarrow> \<not> standard | _ \<Rightarrow> False)\<rparr>)"

definition live_off :: "TeleopLive \<Rightarrow> TeleopLive" where
  "live_off l = l\<lparr>live_active := False, live_steerDeg := 0, live_throttlePct := 0, live_brakePct := 0, deviceReady := False\<rparr>"

lemma round1_near: "\<bar>round1 x - x\<bar> \<le> 1 / 20"
proof -
  have "of_int \<lfloor>x * 10 + 1 / 2\<rfloor> \<le> x * 10 + 1 / 2" "x * 10 + 1 / 2 < of_int \<lfloor>x * 10 + 1 / 2\<rfloor> + 1"
    by linarith+
  then have "\<bar>of_int \<lfloor>x * 10 + 1 / 2\<rfloor> / 10 - x\<bar> \<le> 1 / 20" by linarith
  then show ?thesis by (simp add: round1_def js_round_def)
qed

lemma frame_sent:
  assumes "\<not> t - lastSendAt s < SEND_MS" "c = snd (frame t d s)"
  shows "\<bar>steer_deg (cur c) - sentSteer c\<bar> < STEER_EPS_DEG \<and> \<bar>pct (throttle (cur c)) - sentThrottle c\<bar> < PEDAL_EPS_PCT \<and>
    \<bar>pct (brake (cur c)) - sentBrake c\<bar> < PEDAL_EPS_PCT"
proof -
  obtain tg out1 s1 where r: "read_device d (s\<lparr>lastTick := t\<rparr>) = (tg, out1, s1)" by (cases "read_device d (s\<lparr>lastTick := t\<rparr>)")
  then have "lastSendAt s1 = lastSendAt s"
    by (auto simp: read_device_def Let_def split: device.splits option.splits prod.splits)
  with assms r show ?thesis
    by (auto simp: frame_def send_step_def Let_def STEER_EPS_DEG_def PEDAL_EPS_PCT_def not_le)
qed

text \<open>The readout is what the vehicle was told, up to what the loop does not find worth sending: after
  every frame that updates it, throttle and brake on the panel are within two percent of the last
  order, and the steering angle within the threshold and the rounding.\<close>

theorem readout_matches_orders:
  assumes "SEND_MS \<le> t - lastSendAt s" "c = snd (frame t d s)" "r = live_frame t d standard s l"
  shows "live_active r \<and> \<bar>live_throttlePct r - sentThrottle c\<bar> \<le> 2 \<and> \<bar>live_brakePct r - sentBrake c\<bar> \<le> 2 \<and>
    \<bar>live_steerDeg r - sentSteer c\<bar> < 155 / 100 \<and> live_direction r = dir c"
proof -
  have g: "\<not> t - lastSendAt s < SEND_MS" using assms(1) by simp
  note f = frame_sent [OF g assms(2)]
  have "r = \<lparr>live_active = True, live_steerDeg = round1 (steer_deg (cur c)), live_throttlePct = pct (throttle (cur c)),
       live_brakePct = pct (brake (cur c)), live_direction = dir c, deviceReady = (d \<noteq> Pad None),
       live_warning = (case d of Pad (Some _) \<Rightarrow> \<not> standard | _ \<Rightarrow> False)\<rparr>"
    using g by (simp add: assms(2,3) live_frame_def Let_def)
  moreover have "\<bar>round1 (steer_deg (cur c)) - sentSteer c\<bar> < 155 / 100"
    using f round1_near [of "steer_deg (cur c)"] unfolding STEER_EPS_DEG_def by linarith
  ultimately show ?thesis using f by (simp add: PEDAL_EPS_PCT_def)
qed

section \<open>The gamepad monitor\<close>

text \<open>\<open>navigator.getGamepads()\<close> has a place for every pad, empty or not. The arrows in the labels of the
  directional pad are spelled out.\<close>

definition firstGamepad :: "'a option list \<Rightarrow> 'a option" where
  "firstGamepad pads = (case find (\<lambda>p. p \<noteq> None) pads of Some p \<Rightarrow> p | None \<Rightarrow> None)"

definition BUTTONS :: "(nat \<times> string) list" where
  "BUTTONS = [(3, ''Y''), (0, ''A''), (2, ''X''), (1, ''B''), (4, ''LB''), (5, ''RB''), (12, ''D-up''), (13, ''D-down''),
     (14, ''D-left''), (15, ''D-right''), (9, ''Start''), (8, ''Back''), (10, ''L3''), (11, ''R3'')]"

record PadState =
  pad_pressed :: "bool list"
  pad_values :: "rat list"
  pad_axes :: "rat list"

definition pad_state :: "Gamepad \<Rightarrow> PadState" where
  "pad_state gp = \<lparr>pad_pressed = map button_pressed (buttons gp), pad_values = map button_value (buttons gp), pad_axes = axes gp\<rparr>"

text \<open>A frame: the time of the last reading, and what is shown.\<close>

definition viz_frame :: "rat \<Rightarrow> Gamepad option list \<Rightarrow> rat \<times> PadState option \<Rightarrow> rat \<times> PadState option" where
  "viz_frame t pads v = (if t - fst v < 33 then v else (t, map_option pad_state (firstGamepad pads)))"

definition entry_or :: "'a \<Rightarrow> 'a list \<Rightarrow> nat \<Rightarrow> 'a" where
  "entry_or d xs i = (if i < length xs then xs ! i else d)"

definition chips :: "PadState \<Rightarrow> (string \<times> bool) list" where
  "chips p = map (\<lambda>(i, l). (l, entry_or False (pad_pressed p) i)) BUTTONS"

definition trigger_pct :: "PadState \<Rightarrow> nat \<Rightarrow> int" where
  "trigger_pct p i = js_round (entry_or 0 (pad_values p) i * 100)"

text \<open>Where the dot of the left stick is, in the box of 64 by 64.\<close>

definition stick_dot :: "PadState \<Rightarrow> rat \<times> rat" where
  "stick_dot p =
    (let lx = entry_or 0 (pad_axes p) 0; ly = entry_or 0 (pad_axes p) 1 in
     (64 / 2 + lx * (64 / 2 - 10 / 2) - 10 / 2, 64 / 2 + ly * (64 / 2 - 10 / 2) - 10 / 2))"

definition lit :: "PadState \<Rightarrow> string \<Rightarrow> bool" where
  "lit p l = (map_of (chips p) l = Some True)"

text \<open>What lights up is what drives: of one reading, the chips Y, A and X are the gears the profile takes, in
  this order, B is its emergency stop, and outside its dead zones the profile's pedals are the
  triggers that are shown.\<close>

theorem monitor_shows_profile:
  assumes "p = pad_state gp"
  shows "snd (f710_read gp) = \<lparr>gear = (if lit p ''Y'' then Some FORWARD else if lit p ''A'' then Some REVERSE
       else if lit p ''X'' then Some NEUTRAL else None), estop = lit p ''B''\<rparr>"
    and "TRIGGER_DEADZONE \<le> \<bar>value_of gp 7\<bar> \<Longrightarrow> trigger_pct p 7 = pct (throttle (fst (f710_read gp)))"
    and "TRIGGER_DEADZONE \<le> \<bar>value_of gp 6\<bar> \<Longrightarrow> trigger_pct p 6 = pct (brake (fst (f710_read gp)))"
  by (simp_all add: assms lit_def chips_def BUTTONS_def entry_or_def pad_state_def f710_read_def pressed_def trigger_pct_def
      value_of_def deadzone_def target_def pct_def)

text \<open>The dot stays in its box.\<close>

theorem dot_stays_in_box:
  assumes "list_all (\<lambda>a. \<bar>a\<bar> \<le> 1) (pad_axes p)"
  shows "0 \<le> fst (stick_dot p) \<and> fst (stick_dot p) + 10 \<le> 64 \<and> 0 \<le> snd (stick_dot p) \<and> snd (stick_dot p) + 10 \<le> 64"
proof -
  have "\<bar>entry_or 0 (pad_axes p) i\<bar> \<le> 1" for i using assms by (simp add: entry_or_def list_all_length)
  from this [of 0] this [of 1] show ?thesis unfolding stick_dot_def Let_def by (simp add: abs_le_iff)
qed

end
