(* ===== verification/Spec2Isabelle.thy ===== *)
theory Spec2Isabelle
  imports Decisions Log_Sync Two_Gates_Examples Vehicle_Messages Lease Deadman Wire Fleet_Races Driving Telemetry_Safety Ingest_Lambda
    Simulator_Safety Console_Safety Policy_Lambda Pages_Safety Entry_Safety Subscriptions Fleet_Identity
    Live_Events Telemetry_Topics Display Demo_Session Panels Policy_Artifact
begin

text \<open>
  A verification development of the teleoperation platform: the message contract, the command,
  fleet and telemetry services, the serverless functions, the operator console with its
  teleoperation input, its sign-in, its live link and its demonstration, and the safety kernel on the vehicle.

  \<^bold>\<open>The program.\<close> An operator works in the browser (\<open>apps/console\<close>). The console signs in with a
  hosted page (\<open>aws/auth.ts\<close>), has a viewer's policy attached to its identity
  (\<open>infra/lambda/iot-policy-attach\<close>), receives what the vehicles send over the broker
  (\<open>aws/useCloudTelemetry.ts\<close>), and sends commands, decisions and mission requests over HTTP. The command
  service (\<open>services/command\<close>) guards the way to a vehicle: the identity of the caller, the role, the
  lock (fencing token) of the operator in control, the schema and the zone; it signs and publishes what
  passes, records everything in an append-only recorder, and receives acknowledgements, heartbeats,
  event logs and maneuver proposals. The fleet service (\<open>services/fleet\<close>) keeps the pre-departure
  checklists and the missions, behind the same lock. The telemetry service
  (\<open>services/telemetry\<close>) and the ingest function (\<open>infra/lambda/telemetry-ingest\<close>) watch the link of
  each vehicle and write samples to a database. On the vehicle the safety kernel (\<open>edge/sim\<close>) checks every
  command again, carries it out or refuses it, and keeps a latch that stops the vehicle. All messages are zod schemas of
  \<open>packages/contract/src/index.ts\<close>, signed over a canonical JSON text.

  \<^bold>\<open>How it is modelled.\<close> The services share one record of the world (\<open>World\<close>): the clock, the lock
  store, the tables of the databases, the broker's outbox, the maps and timers a service keeps in memory, and
  flags for a store, a database or a broker that is down. A handler is a program of type
  \<open>handler\<close> (\<open>Async\<close>): effects in order, each a step of its own, with an exception or a result at the end.
  \<open>run\<close> executes one alone, \<open>trail\<close> lists the worlds it passes through; \<open>sched\<close> interleaves any number of them after a list of choices, which is
  finer than the language's event loop. A database transaction is one step, as is the delivery of a zone
  configuration with its revision; every other external call is a step. The console, the
  telemetry service, the ingest function, the demonstration vehicle and the live link have states of
  their own and are functions from event to state, as is the kernel on the vehicle, whose times are 64-bit words; an answer that is waited for is an event
  of its own, so that it may be late, lost or out of order. Which events of the live link can
  happen when is the inductive relation \<open>link_step\<close>.

  \<^bold>\<open>Theories.\<close>
  \<^item> \<open>Prelude\<close>, \<open>Async\<close>, \<open>Json\<close>, \<open>Url\<close>, \<open>Js_Number\<close>: shared lemmas and collections; handlers, their
    interleavings and their logic (\<open>wp\<close>, \<open>tame\<close>); JSON values with printer and parser; the browser's query
    encodings and base64; numbers read from texts and printed as figures.
  \<^item> \<open>Schema\<close>, \<open>Contract\<close>, \<open>Canonical\<close>: zod schemas and their evaluation, every schema and constant table of
    the contract, canonical text. \<open>Policy_Artifact\<close>: the policy file of the build, and what the vehicle decides by
    it. \<open>Wire\<close>: canonical text reads back, and signatures survive sending.
  \<^item> \<open>Valkey\<close>: the lock store as a locale with the documented laws of its commands, with an
    interpretation. \<open>World\<close>: the world and the primitive effects.
  \<^item> \<open>Identity\<close> (\<open>identity.ts\<close>, \<open>roles.guard.ts\<close>), \<open>Signing\<close>, \<open>Session\<close> (\<open>session.service.ts\<close>), \<open>Assignment\<close>
    (\<open>assignment.service.ts\<close>), \<open>Zone\<close> (\<open>zone.service.ts\<close>), \<open>Command_Controller\<close>, \<open>Maneuver\<close>
    (\<open>maneuver.service.ts\<close>, \<open>maneuver.controller.ts\<close>), \<open>Mqtt_Ingest\<close> (\<open>mqtt.service.ts\<close>): the command service.
    \<open>Lease\<close>: the session service implements a table of leases. \<open>Deadman\<close>: runs of session requests, waiting and timer
    callbacks, and the stop that follows silence. \<open>System\<close>: all operations interleaved; recorder
    and outbox. \<open>Gate\<close>, \<open>Access\<close>: what passes the gate, who may enter. \<open>Races\<close>: three interleavings that
    break what a comment promises. \<open>Vehicle_Messages\<close>, \<open>Edge_Log\<close>, \<open>Decisions\<close>: what vehicles can do, the log
    upload, decisions on proposals.
  \<^item> \<open>Vehicle_Kernel\<close> (\<open>main.rs\<close>): the shared state of the kernel and every step of its tasks: commands, deadman
    pings, log acknowledgements and zone configurations, watchdogs, poses and geofence, heartbeats, log
    drain, proposals; a run is a list of timed events. \<open>Vehicle_Safety\<close>: what reaches the actuation, and the
    latch. \<open>Two_Gates\<close>: from the command service to the actuation. \<open>Log_Sync\<close>: from the event on the vehicle to the
    recorder and back. \<open>Two_Gates_Examples\<close>: runs of the kernel.
  \<^item> \<open>Pre_Departure\<close>, \<open>Mission\<close>, \<open>Fleet_Controller\<close>: the fleet service. \<open>Fleet_System\<close>, \<open>Fleet_Safety\<close>: its requests
    interleaved, checklists and missions. \<open>Fleet_Races\<close>: three runs that go wrong.
  \<^item> \<open>Telemetry\<close>, \<open>Telemetry_Safety\<close>, \<open>Telemetry_Topics\<close>: link monitor and batched writer, whose statements the
    database answers in events of their own, and its subscriptions. \<open>Ingest_Lambda\<close>: the ingest function.
  \<^item> \<open>Teleop\<close>, \<open>Driving\<close>: keyboard and gamepad to commands (\<open>profiles.ts\<close>, \<open>useTeleopInput.ts\<close>). \<open>Panels\<close>: the
    readout of the loop and the monitor of the gamepad (\<open>GamepadViz.tsx\<close>).
  \<^item> \<open>Simulator\<close>, \<open>Simulator_Safety\<close>, \<open>Demo_Messages\<close>, \<open>Demo_Session\<close>: the demonstration vehicle (\<open>simulator.ts\<close>), the
    documents it publishes, and the console that shows them. \<open>Console_Mode\<close>: the mode of a
    session (\<open>mode.ts\<close>, \<open>ModeContext.tsx\<close>). \<open>Console\<close>, \<open>Console_Safety\<close>: the session (\<open>SessionContext.tsx\<close>).
  \<^item> \<open>Console_Auth\<close>, \<open>Console_Sign_In\<close>: configuration and sign-in (\<open>config.ts\<close>, \<open>auth.ts\<close>). \<open>Cloud_Link\<close>,
    \<open>Cloud_Link_Inv\<close>, \<open>Cloud_Link_Safety\<close>: the live link (\<open>useCloudTelemetry.ts\<close>, \<open>iot.ts\<close>). \<open>Policy_Lambda\<close>: the
    policy function, and what the console's request to it leads to.
  \<^item> \<open>Console_Pages\<close>: the controls of the pages, as lists of label, disabled flag and event, the routes and the
    gate in front of them (\<open>App.tsx\<close>, \<open>pages\<close>, \<open>components/layout\<close>, \<open>EntryGate.tsx\<close>, \<open>TeleopPanel.tsx\<close>).
    \<open>Pages_Safety\<close>: what the pages offer against what the services accept. \<open>Entry_Safety\<close>: entering and leaving.
    \<open>Display\<close>: connection, last sample, badges, figures and the map (\<open>Sidebar.tsx\<close>, \<open>VehicleMap.tsx\<close>, \<open>pages\<close>).
  \<^item> \<open>Startup\<close>: environment file, signing key, broker connections, lock store, pool and subscriptions
    (\<open>main.ts\<close>, \<open>signing.service.ts\<close>, \<open>mqtt.service.ts\<close>, \<open>redis.service.ts\<close>). \<open>Subscriptions\<close>: from subscription to handler. \<open>Fleet_Identity\<close>: the
    fleet service's copy of the identity helpers. \<open>Live_Events\<close>: what the gateways emit and a console hears.

  \<^bold>\<open>Parameters.\<close> Code that is not part of the repository is an argument: zod's \<open>safeParse\<close> (locale
  \<open>zod\<close>: it accepts what the schema evaluator accepts and strips what it strips; interpreted on the
  evaluator), the lock store (locale \<open>valkey\<close>), the supply of uuids (all in the uuid format), Ed25519 and
  base64url, SHA-256 and random bytes, the identity and policy services, the request signer, the broker's
  client, the execution of SQL, and the settings of the environment. On the vehicle: the compiled JSON
  schemas, the check of a signature, the printing of numbers and parsed documents. What both ends of the wire
  must agree on is the locale \<open>vehicle_link\<close>.

  \<^bold>\<open>Numbers, texts, bounds.\<close> Times are integers; other numbers of documents are exact decimals; the
  teleoperation input and the demonstration compute in exact rationals where the code computes in
  binary64. A char of a text is a code unit up to 255. The JSON parser runs on fuel of twice the length
  of the text, which is enough for every printed document (\<open>json_parse_stringify\<close>); the schema evaluator
  terminates by the size of the schema, the loops of the motion tick, which turn at most once in a run, by the integer
  part of the fraction. \<open>Date.now()\<close> reads the clock of the world, which only moves by steps of its own. Texts meant
  for people and log lines are left out; codes are kept. \<open>Inl\<close> from a maneuver
  message stands for a rejection that nobody handles, as the code does not wait for that handler.

  \<^bold>\<open>What the lemmas show.\<close> Of the gate: what is published passed identity, lock, schema and zone, is signed,
  and has a recorder row before it leaves, under every interleaving; the lock is exclusive and is a
  lease; the deadman stops a vehicle whose operator fell silent, whatever requests came before. Of the second gate: only
  new, signed commands that its rules allow reach the actuation, a stop does unless its fencing token is older than the
  newest seen, and the latch holds until it is cleared; what the first gate publishes the second carries out. Of
  vehicles: their messages change what is their own and the proposals they name; an event of their log is recorded
  once per key, with its own content, and dropped only then. Of the fleet: missions run behind complete, confirmed, final
  checklists. Of telemetry: a link's status tells its silence, samples are conserved up to the answer of the database, and every
  record of a batch is inserted or reported. Of the
  console: what it drives is in range, a release reaches the vehicle up to the send thresholds, requests go to the session's own
  endpoints, the sign-in redeems its own challenge, the link has one connection and is kept going; its
  buttons are what the services accept, and leaving leads back to the gate. The
  theorems of \<open>Races\<close>, \<open>Fleet_Races\<close> and some of the other theories show where the code does not keep what
  its comments promise.

  \<^bold>\<open>Not modelled.\<close> Layout, icons and styles of the pages, and texts meant for people: they hold no state and
  decide nothing. The framework's start of the servers, the module lists and the constant health answers:
  construction of code that is not in the repository; the sockets, the rendering and the map library
  themselves. Of the kernel: the text of its telemetry samples (32-bit floating point as the serializer prints
  it), the path the simulated vehicle drives (an argument of the step), its sockets, and the reading of
  schemas, key and certificates at start-up. Of the software in \<open>edge\<close> the bridge to the simulator.
\<close>

end
